(* ===== verification/Go_Numbers.thy ===== *)
theory Go_Numbers
  imports Memos_Prelude
begin

text \<open>
  The numbers and instants of Go the sources compute with: \<open>int64\<close> as a 64-bit word read
  as two's complement, division truncated towards zero, \<open>float64\<close> values as rationals with
  the round-to-nearest-even conversions the filter engine performs, and the UTC calendar
  accessors of \<open>time.Time\<close>.
\<close>

section \<open>Integers\<close>

type_synonym int64 = "64 word"

text \<open>Go's \<open>/\<close> and \<open>%\<close> truncate towards zero; the quotient wraps for \<open>MinInt64 / -1\<close>.\<close>

definition trunc_div :: "int \<Rightarrow> int \<Rightarrow> int" where
  "trunc_div a b = sgn a * sgn b * (\<bar>a\<bar> div \<bar>b\<bar>)"

definition int64_div :: "int64 \<Rightarrow> int64 \<Rightarrow> int64" where
  "int64_div a b = word_of_int (trunc_div (sint a) (sint b))"

definition int64_mod :: "int64 \<Rightarrow> int64 \<Rightarrow> int64" where
  "int64_mod a b = word_of_int (sint a - sint b * trunc_div (sint a) (sint b))"

lemma trunc_div_mod: "b \<noteq> 0 \<Longrightarrow> \<bar>a - b * trunc_div a b\<bar> < \<bar>b\<bar>"
proof -
  assume b: "b \<noteq> 0"
  have "b * trunc_div a b = sgn a * (\<bar>b\<bar> * (\<bar>a\<bar> div \<bar>b\<bar>))"
    by (simp add: trunc_div_def abs_sgn mult.commute mult.left_commute)
  moreover have "a = sgn a * \<bar>a\<bar>" by (simp add: sgn_mult_abs)
  ultimately have "a - b * trunc_div a b = sgn a * (\<bar>a\<bar> - \<bar>b\<bar> * (\<bar>a\<bar> div \<bar>b\<bar>))"
    by (metis right_diff_distrib)
  also have "\<bar>a\<bar> - \<bar>b\<bar> * (\<bar>a\<bar> div \<bar>b\<bar>) = \<bar>a\<bar> mod \<bar>b\<bar>"
    by (simp add: minus_mult_div_eq_mod)
  finally have "\<bar>a - b * trunc_div a b\<bar> \<le> \<bar>a\<bar> mod \<bar>b\<bar>"
    using b by (simp add: abs_mult abs_sgn_eq)
  also have "\<dots> < \<bar>b\<bar>" using b by simp
  finally show ?thesis .
qed

section \<open>Floating point\<close>

text \<open>
  A finite \<open>float64\<close> is the rational it denotes. \<open>round64\<close> rounds a rational of
  magnitude at least \<open>2^-64\<close> (every value the sources convert or add) to the nearest
  53-bit significand, ties to even.
\<close>

type_synonym float64 = rat

definition round_half_even :: "rat \<Rightarrow> int" where
  "round_half_even x =
     (let f = \<lfloor>x\<rfloor>; d = x - of_int f
      in if d < 1 / 2 then f else if d > 1 / 2 then f + 1 else if even f then f else f + 1)"

definition exponent2 :: "rat \<Rightarrow> int" where
  "exponent2 x = bitlen \<lfloor>\<bar>x\<bar> * 2 ^ 64\<rfloor> - 65"

definition round64 :: "rat \<Rightarrow> float64" where
  "round64 x =
     (if x = 0 then 0
      else let k = 52 - exponent2 x
           in if 0 \<le> k then of_int (round_half_even (x * 2 ^ nat k)) / 2 ^ nat k
              else of_int (round_half_even (x / 2 ^ nat (- k))) * 2 ^ nat (- k))"

text \<open>The conversion \<open>float64(x)\<close> of an \<open>int64\<close>.\<close>

definition int64_to_float :: "int64 \<Rightarrow> float64" where
  "int64_to_float x = round64 (of_int (sint x))"

text \<open>
  The conversion \<open>int64(v)\<close> of a \<open>float64\<close> truncates towards zero. Out of range the
  language leaves the result to the implementation; it is the least \<open>int64\<close> on amd64.
\<close>

definition float_to_int64 :: "float64 \<Rightarrow> int64" where
  "float_to_int64 v =
     (let t = (if v < 0 then \<lceil>v\<rceil> else \<lfloor>v\<rfloor>)
      in if - (2 ^ 63) \<le> t \<and> t < 2 ^ 63 then word_of_int t else word_of_int (- (2 ^ 63)))"

lemma round_half_even_of_int [simp]: "round_half_even (of_int n) = n"
  by (simp add: round_half_even_def Let_def)

lemma round64_0 [simp]: "round64 0 = 0"
  by (simp add: round64_def)

lemma exponent2_int_bound:
  assumes "\<bar>n\<bar> < 2 ^ 53" shows "exponent2 (of_int n) \<le> 52"
proof -
  have "\<bar>of_int n :: rat\<bar> * 2 ^ 64 = of_int (\<bar>n\<bar> * 2 ^ 64)" by simp
  then have eq: "\<lfloor>\<bar>of_int n :: rat\<bar> * 2 ^ 64\<rfloor> = \<bar>n\<bar> * 2 ^ 64"
    by (simp only: floor_of_int)
  have "nat (\<bar>n\<bar> * 2 ^ 64) < 2 ^ 117"
    using assms by (simp add: nat_less_iff)
  then have "floorlog 2 (nat (\<bar>n\<bar> * 2 ^ 64)) \<le> 117"
    by (intro floorlog_leI) auto
  then show ?thesis by (simp only: exponent2_def eq bitlen_def)
qed

text \<open>Integers of at most 53 bits are converted exactly.\<close>

lemma round64_of_int: "\<bar>n\<bar> < 2 ^ 53 \<Longrightarrow> round64 (of_int n) = of_int n"
proof (cases "n = 0")
  case False
  assume n: "\<bar>n\<bar> < 2 ^ 53"
  define k where "k = 52 - exponent2 (of_int n)"
  have k: "0 \<le> k" using exponent2_int_bound [OF n] by (simp add: k_def)
  have "of_int n * 2 ^ nat k = (of_int (n * 2 ^ nat k) :: rat)" by simp
  then have "round_half_even (of_int n * 2 ^ nat k) = n * 2 ^ nat k"
    using round_half_even_of_int by metis
  then show ?thesis using False k by (simp add: round64_def Let_def k_def [symmetric])
qed simp

lemma int64_to_float_exact: "\<bar>sint x\<bar> < 2 ^ 53 \<Longrightarrow> int64_to_float x = of_int (sint x)"
  unfolding int64_to_float_def by (rule round64_of_int)

lemma float_to_int64_of_int: "- (2 ^ 63) \<le> n \<Longrightarrow> n < 2 ^ 63 \<Longrightarrow> float_to_int64 (of_int n) = word_of_int n"
  by (simp add: float_to_int64_def)

section \<open>Instants and durations\<close>

text \<open>
  \<open>Duration.Seconds()\<close> of a duration in nanoseconds: whole seconds plus the fraction, each a
  \<open>float64\<close>.
\<close>

definition duration_seconds :: "int64 \<Rightarrow> float64" where
  "duration_seconds d =
     (let sec = int64_div d 1000000000; nsec = int64_mod d 1000000000
      in round64 (int64_to_float sec + round64 (int64_to_float nsec / 1000000000)))"

text \<open>
  An instant is its Unix time in seconds. The calendar accessors are those of the proleptic
  Gregorian calendar in UTC, computed from the day number in eras of 400 years that start
  on 1 March.
\<close>

type_synonym go_time = int

definition unix_days :: "go_time \<Rightarrow> int" where
  "unix_days t = t div 86400"

definition day_of_era :: "go_time \<Rightarrow> int" where
  "day_of_era t = (unix_days t + 719468) mod 146097"

definition year_of_era :: "go_time \<Rightarrow> int" where
  "year_of_era t =
     (let doe = day_of_era t in (doe - doe div 1460 + doe div 36524 - doe div 146096) div 365)"

definition march_day :: "go_time \<Rightarrow> int" where
  "march_day t =
     (let yoe = year_of_era t in day_of_era t - (365 * yoe + yoe div 4 - yoe div 100))"

definition march_month :: "go_time \<Rightarrow> int" where
  "march_month t = (5 * march_day t + 2) div 153"

definition Month :: "go_time \<Rightarrow> int" where
  "Month t = (let mp = march_month t in if mp < 10 then mp + 3 else mp - 9)"

definition Day :: "go_time \<Rightarrow> int" where
  "Day t = march_day t - (153 * march_month t + 2) div 5 + 1"

definition Year :: "go_time \<Rightarrow> int" where
  "Year t = year_of_era t + (unix_days t + 719468) div 146097 * 400 + (if Month t \<le> 2 then 1 else 0)"

definition is_leap :: "int \<Rightarrow> bool" where
  "is_leap y = (y mod 4 = 0 \<and> (y mod 100 \<noteq> 0 \<or> y mod 400 = 0))"

definition days_before :: "int list" where
  "days_before = [0, 31, 59, 90, 120, 151, 181, 212, 243, 273, 304, 334]"

definition YearDay :: "go_time \<Rightarrow> int" where
  "YearDay t =
     days_before ! nat (Month t - 1) + Day t + (if is_leap (Year t) \<and> 2 < Month t then 1 else 0)"

definition Weekday :: "go_time \<Rightarrow> int" where
  "Weekday t = (unix_days t + 4) mod 7"

definition Hour :: "go_time \<Rightarrow> int" where
  "Hour t = t mod 86400 div 3600"

definition Minute :: "go_time \<Rightarrow> int" where
  "Minute t = t mod 3600 div 60"

definition Second :: "go_time \<Rightarrow> int" where
  "Second t = t mod 60"

lemmas calendar_defs = unix_days_def day_of_era_def year_of_era_def march_day_def march_month_def
  Month_def Day_def Year_def is_leap_def days_before_def YearDay_def Weekday_def Hour_def
  Minute_def Second_def Let_def

lemma Weekday_range: "0 \<le> Weekday t" "Weekday t < 7"
  by (simp_all add: Weekday_def)

lemma int_div_less:
  fixes x :: int
  assumes "x < n * q" "0 < q"
  shows "x div q < n"
proof (rule ccontr)
  assume "\<not> x div q < n"
  then have "n * q \<le> x div q * q" using assms(2) by simp
  also have "\<dots> \<le> x" using assms(2) by (simp add: minus_mod_eq_div_mult [symmetric])
  finally show False using assms(1) by simp
qed

lemma Hour_range: "0 \<le> Hour t" "Hour t < 24"
  by (simp_all add: Hour_def pos_imp_zdiv_nonneg_iff int_div_less)

lemma Minute_range: "0 \<le> Minute t" "Minute t < 60"
  by (simp_all add: Minute_def pos_imp_zdiv_nonneg_iff int_div_less)

lemma Second_range: "0 \<le> Second t" "Second t < 60"
  by (simp_all add: Second_def)

end
