(* ===== verification/Filter_Schema.thy ===== *)
theory Filter_Schema
  imports Go_Numbers
begin

text \<open>
  The intermediate representation of filters (\<open>internal/filter/ir.go\<close>) and the schemas
  that say which fields a filter may name and which columns hold them
  (\<open>internal/filter/schema.go\<close>). String-typed Go enumerations are datatypes with the
  declared constants; \<open>DialectOther\<close> stands for every other dialect name, so that the
  renderer's default branches stay reachable.
\<close>

section \<open>Intermediate representation (ir.go)\<close>

datatype LogicalOperator = LogicalAnd | LogicalOr

datatype ComparisonOperator =
  CompareEq | CompareNeq | CompareLt | CompareLte | CompareGt | CompareGte

datatype TextMatchMode = TextMatchContains | TextMatchPrefix | TextMatchSuffix

datatype ComprehensionKind = ComprehensionExists | ComprehensionAll | ComprehensionExistsOne

text \<open>The dynamic values (\<open>any\<close>) a filter literal or a bind argument holds.\<close>

datatype any_value =
  VNil | VString string | VInt64 int64 | VInt int | VFloat64 float64 | VBool bool

datatype ValueExpr =
  FieldRef string
| LiteralValue any_value
| FunctionValue string "ValueExpr list"
| FieldAccessorValue string string

datatype PredicateExpr =
  StartsWithPredicate string
| EndsWithPredicate string
| ContainsPredicate string
| EqualsPredicate string

datatype Condition =
  LogicalCondition LogicalOperator Condition Condition
| NotCondition Condition
| FieldPredicateCondition string
| ComparisonCondition ValueExpr ComparisonOperator ValueExpr
| InCondition ValueExpr "ValueExpr list"
| ElementInCondition ValueExpr string
| TextMatchCondition string TextMatchMode string
| RegexCondition string string
| ConstantCondition bool
| ListComprehensionCondition ComprehensionKind string string PredicateExpr

section \<open>Schemas (schema.go)\<close>

datatype DialectName = DialectSQLite | DialectMySQL | DialectPostgres | DialectOther string

datatype FieldType = FieldTypeString | FieldTypeInt | FieldTypeBool | FieldTypeTimestamp

datatype FieldKind =
  FieldKindScalar | FieldKindBoolColumn | FieldKindJSONBool | FieldKindJSONExists
| FieldKindJSONList | FieldKindVirtualAlias

record Column =
  col_Table :: string
  col_Name :: string

text \<open>\<open>AllowedComparisonOps\<close> is a nil map (\<open>None\<close>) or the list of its keys, all mapped to true.\<close>

record Field =
  fld_Name :: string
  fld_Kind :: FieldKind
  fld_Type :: FieldType
  fld_Column :: Column
  fld_JSONPath :: "string list"
  fld_AliasFor :: string
  fld_SupportsContains :: bool
  fld_Expressions :: "DialectName \<rightharpoonup> string"
  fld_AllowedComparisonOps :: "ComparisonOperator list option"

text \<open>The CEL environment options of a schema configure the CEL compiler, a parameter of the model.\<close>

record Schema =
  sch_Name :: string
  sch_Fields :: "string \<rightharpoonup> Field"

definition schema_Field :: "Schema \<Rightarrow> string \<Rightarrow> Field option" where
  "schema_Field s name = sch_Fields s name"

definition ResolveAlias :: "Schema \<Rightarrow> string \<Rightarrow> Field option" where
  "ResolveAlias s name =
     (case sch_Fields s name of
        None \<Rightarrow> None
      | Some field \<Rightarrow>
          (if fld_Kind field = FieldKindVirtualAlias then sch_Fields s (fld_AliasFor field)
           else Some field))"

text \<open>The column expressions with quotes the schemas use, as \<open>fmt\<close> format strings.\<close>

definition creator_expr :: string where
  "creator_expr = ''('users/' || %s)''"

definition creator_expr_mysql :: string where
  "creator_expr_mysql = ''CONCAT('users/', %s)''"

definition memo_space_expr_sqlite :: string where
  "memo_space_expr_sqlite = ''CASE WHEN `memo`.`space_id` IS NULL THEN NULL WHEN %[1]s IS NULL THEN '' @ [CHR 0x27, CHR 0x27] @ '' ELSE ('spaces/' || %[1]s) END''"

definition memo_space_expr_mysql :: string where
  "memo_space_expr_mysql = ''CASE WHEN `memo`.`space_id` IS NULL THEN NULL WHEN %[1]s IS NULL THEN '' @ [CHR 0x27, CHR 0x27] @ '' ELSE CONCAT('spaces/', %[1]s) END''"

definition memo_space_expr_postgres :: string where
  "memo_space_expr_postgres = ''CASE WHEN memo.space_id IS NULL THEN NULL WHEN %[1]s IS NULL THEN '' @ [CHR 0x27, CHR 0x27] @ '' ELSE ('spaces/' || %[1]s) END''"

definition attachment_space_expr_sqlite :: string where
  "attachment_space_expr_sqlite = ''CASE WHEN `attachment`.`memo_id` IS NULL OR `memo`.`space_id` IS NULL THEN NULL WHEN %[1]s IS NULL THEN '' @ [CHR 0x27, CHR 0x27] @ '' ELSE ('spaces/' || %[1]s) END''"

definition attachment_space_expr_mysql :: string where
  "attachment_space_expr_mysql = ''CASE WHEN `attachment`.`memo_id` IS NULL OR `memo`.`space_id` IS NULL THEN NULL WHEN %[1]s IS NULL THEN '' @ [CHR 0x27, CHR 0x27] @ '' ELSE CONCAT('spaces/', %[1]s) END''"

definition attachment_space_expr_postgres :: string where
  "attachment_space_expr_postgres = ''CASE WHEN attachment.memo_id IS NULL OR memo.space_id IS NULL THEN NULL WHEN %[1]s IS NULL THEN '' @ [CHR 0x27, CHR 0x27] @ '' ELSE ('spaces/' || %[1]s) END''"

definition memo_fields :: "(string \<times> Field) list" where
  "memo_fields = [
   (''content'', \<lparr>fld_Name = ''content'', fld_Kind = FieldKindScalar, fld_Type = FieldTypeString,
      fld_Column = \<lparr>col_Table = ''memo'', col_Name = ''content''\<rparr>, fld_JSONPath = [],
      fld_AliasFor = '''', fld_SupportsContains = True,
      fld_Expressions = (\<lambda>_. None),
      fld_AllowedComparisonOps = None\<rparr>),
   (''creator'', \<lparr>fld_Name = ''creator'', fld_Kind = FieldKindScalar, fld_Type = FieldTypeString,
      fld_Column = \<lparr>col_Table = ''memo_creator'', col_Name = ''username''\<rparr>, fld_JSONPath = [],
      fld_AliasFor = '''', fld_SupportsContains = False,
      fld_Expressions = [DialectSQLite \<mapsto> creator_expr, DialectMySQL \<mapsto> creator_expr_mysql, DialectPostgres \<mapsto> creator_expr],
      fld_AllowedComparisonOps = Some [CompareEq, CompareNeq]\<rparr>),
   (''creator_id'', \<lparr>fld_Name = ''creator_id'', fld_Kind = FieldKindScalar, fld_Type = FieldTypeInt,
      fld_Column = \<lparr>col_Table = ''memo'', col_Name = ''creator_id''\<rparr>, fld_JSONPath = [],
      fld_AliasFor = '''', fld_SupportsContains = False,
      fld_Expressions = (\<lambda>_. None),
      fld_AllowedComparisonOps = Some [CompareEq, CompareNeq]\<rparr>),
   (''created_ts'', \<lparr>fld_Name = ''created_ts'', fld_Kind = FieldKindScalar, fld_Type = FieldTypeTimestamp,
      fld_Column = \<lparr>col_Table = ''memo'', col_Name = ''created_ts''\<rparr>, fld_JSONPath = [],
      fld_AliasFor = '''', fld_SupportsContains = False,
      fld_Expressions = [DialectMySQL \<mapsto> ''UNIX_TIMESTAMP(%s)'', DialectPostgres \<mapsto> ''%s'', DialectSQLite \<mapsto> ''%s''],
      fld_AllowedComparisonOps = None\<rparr>),
   (''updated_ts'', \<lparr>fld_Name = ''updated_ts'', fld_Kind = FieldKindScalar, fld_Type = FieldTypeTimestamp,
      fld_Column = \<lparr>col_Table = ''memo'', col_Name = ''updated_ts''\<rparr>, fld_JSONPath = [],
      fld_AliasFor = '''', fld_SupportsContains = False,
      fld_Expressions = [DialectMySQL \<mapsto> ''UNIX_TIMESTAMP(%s)'', DialectPostgres \<mapsto> ''%s'', DialectSQLite \<mapsto> ''%s''],
      fld_AllowedComparisonOps = None\<rparr>),
   (''pinned'', \<lparr>fld_Name = ''pinned'', fld_Kind = FieldKindBoolColumn, fld_Type = FieldTypeBool,
      fld_Column = \<lparr>col_Table = ''memo'', col_Name = ''pinned''\<rparr>, fld_JSONPath = [],
      fld_AliasFor = '''', fld_SupportsContains = False,
      fld_Expressions = (\<lambda>_. None),
      fld_AllowedComparisonOps = Some [CompareEq, CompareNeq]\<rparr>),
   (''visibility'', \<lparr>fld_Name = ''visibility'', fld_Kind = FieldKindScalar, fld_Type = FieldTypeString,
      fld_Column = \<lparr>col_Table = ''memo'', col_Name = ''visibility''\<rparr>, fld_JSONPath = [],
      fld_AliasFor = '''', fld_SupportsContains = False,
      fld_Expressions = (\<lambda>_. None),
      fld_AllowedComparisonOps = Some [CompareEq, CompareNeq]\<rparr>),
   (''space'', \<lparr>fld_Name = ''space'', fld_Kind = FieldKindScalar, fld_Type = FieldTypeString,
      fld_Column = \<lparr>col_Table = ''memo_space'', col_Name = ''uid''\<rparr>, fld_JSONPath = [],
      fld_AliasFor = '''', fld_SupportsContains = False,
      fld_Expressions = [DialectSQLite \<mapsto> memo_space_expr_sqlite, DialectMySQL \<mapsto> memo_space_expr_mysql, DialectPostgres \<mapsto> memo_space_expr_postgres],
      fld_AllowedComparisonOps = Some [CompareEq]\<rparr>),
   (''tags'', \<lparr>fld_Name = ''tags'', fld_Kind = FieldKindJSONList, fld_Type = FieldTypeString,
      fld_Column = \<lparr>col_Table = ''memo'', col_Name = ''payload''\<rparr>, fld_JSONPath = [''tags''],
      fld_AliasFor = '''', fld_SupportsContains = False,
      fld_Expressions = (\<lambda>_. None),
      fld_AllowedComparisonOps = None\<rparr>),
   (''tag'', \<lparr>fld_Name = ''tag'', fld_Kind = FieldKindVirtualAlias, fld_Type = FieldTypeString,
      fld_Column = \<lparr>col_Table = '''', col_Name = ''''\<rparr>, fld_JSONPath = [],
      fld_AliasFor = ''tags'', fld_SupportsContains = False,
      fld_Expressions = (\<lambda>_. None),
      fld_AllowedComparisonOps = None\<rparr>),
   (''has_task_list'', \<lparr>fld_Name = ''has_task_list'', fld_Kind = FieldKindJSONBool, fld_Type = FieldTypeBool,
      fld_Column = \<lparr>col_Table = ''memo'', col_Name = ''payload''\<rparr>, fld_JSONPath = [''property'', ''hasTaskList''],
      fld_AliasFor = '''', fld_SupportsContains = False,
      fld_Expressions = (\<lambda>_. None),
      fld_AllowedComparisonOps = Some [CompareEq, CompareNeq]\<rparr>),
   (''has_link'', \<lparr>fld_Name = ''has_link'', fld_Kind = FieldKindJSONBool, fld_Type = FieldTypeBool,
      fld_Column = \<lparr>col_Table = ''memo'', col_Name = ''payload''\<rparr>, fld_JSONPath = [''property'', ''hasLink''],
      fld_AliasFor = '''', fld_SupportsContains = False,
      fld_Expressions = (\<lambda>_. None),
      fld_AllowedComparisonOps = Some [CompareEq, CompareNeq]\<rparr>),
   (''has_code'', \<lparr>fld_Name = ''has_code'', fld_Kind = FieldKindJSONBool, fld_Type = FieldTypeBool,
      fld_Column = \<lparr>col_Table = ''memo'', col_Name = ''payload''\<rparr>, fld_JSONPath = [''property'', ''hasCode''],
      fld_AliasFor = '''', fld_SupportsContains = False,
      fld_Expressions = (\<lambda>_. None),
      fld_AllowedComparisonOps = Some [CompareEq, CompareNeq]\<rparr>),
   (''has_incomplete_tasks'', \<lparr>fld_Name = ''has_incomplete_tasks'', fld_Kind = FieldKindJSONBool, fld_Type = FieldTypeBool,
      fld_Column = \<lparr>col_Table = ''memo'', col_Name = ''payload''\<rparr>, fld_JSONPath = [''property'', ''hasIncompleteTasks''],
      fld_AliasFor = '''', fld_SupportsContains = False,
      fld_Expressions = (\<lambda>_. None),
      fld_AllowedComparisonOps = Some [CompareEq, CompareNeq]\<rparr>),
   (''has_location'', \<lparr>fld_Name = ''has_location'', fld_Kind = FieldKindJSONExists, fld_Type = FieldTypeBool,
      fld_Column = \<lparr>col_Table = ''memo'', col_Name = ''payload''\<rparr>, fld_JSONPath = [''location''],
      fld_AliasFor = '''', fld_SupportsContains = False,
      fld_Expressions = (\<lambda>_. None),
      fld_AllowedComparisonOps = Some [CompareEq, CompareNeq]\<rparr>)]"

definition NewSchema :: Schema where
  "NewSchema = \<lparr>sch_Name = ''memo'', sch_Fields = map_of memo_fields\<rparr>"

definition attachment_fields :: "(string \<times> Field) list" where
  "attachment_fields = [
   (''filename'', \<lparr>fld_Name = ''filename'', fld_Kind = FieldKindScalar, fld_Type = FieldTypeString,
      fld_Column = \<lparr>col_Table = ''attachment'', col_Name = ''filename''\<rparr>, fld_JSONPath = [],
      fld_AliasFor = '''', fld_SupportsContains = True,
      fld_Expressions = (\<lambda>_. None),
      fld_AllowedComparisonOps = None\<rparr>),
   (''mime_type'', \<lparr>fld_Name = ''mime_type'', fld_Kind = FieldKindScalar, fld_Type = FieldTypeString,
      fld_Column = \<lparr>col_Table = ''attachment'', col_Name = ''type''\<rparr>, fld_JSONPath = [],
      fld_AliasFor = '''', fld_SupportsContains = True,
      fld_Expressions = (\<lambda>_. None),
      fld_AllowedComparisonOps = None\<rparr>),
   (''create_time'', \<lparr>fld_Name = ''create_time'', fld_Kind = FieldKindScalar, fld_Type = FieldTypeTimestamp,
      fld_Column = \<lparr>col_Table = ''attachment'', col_Name = ''created_ts''\<rparr>, fld_JSONPath = [],
      fld_AliasFor = '''', fld_SupportsContains = False,
      fld_Expressions = [DialectMySQL \<mapsto> ''UNIX_TIMESTAMP(%s)'', DialectPostgres \<mapsto> ''%s'', DialectSQLite \<mapsto> ''%s''],
      fld_AllowedComparisonOps = None\<rparr>),
   (''memo_id'', \<lparr>fld_Name = ''memo_id'', fld_Kind = FieldKindScalar, fld_Type = FieldTypeInt,
      fld_Column = \<lparr>col_Table = ''attachment'', col_Name = ''memo_id''\<rparr>, fld_JSONPath = [],
      fld_AliasFor = '''', fld_SupportsContains = False,
      fld_Expressions = (\<lambda>_. None),
      fld_AllowedComparisonOps = Some [CompareEq, CompareNeq]\<rparr>),
   (''space'', \<lparr>fld_Name = ''space'', fld_Kind = FieldKindScalar, fld_Type = FieldTypeString,
      fld_Column = \<lparr>col_Table = ''attachment_space'', col_Name = ''uid''\<rparr>, fld_JSONPath = [],
      fld_AliasFor = '''', fld_SupportsContains = False,
      fld_Expressions = [DialectSQLite \<mapsto> attachment_space_expr_sqlite, DialectMySQL \<mapsto> attachment_space_expr_mysql, DialectPostgres \<mapsto> attachment_space_expr_postgres],
      fld_AllowedComparisonOps = Some [CompareEq]\<rparr>)]"

definition NewAttachmentSchema :: Schema where
  "NewAttachmentSchema = \<lparr>sch_Name = ''attachment'', sch_Fields = map_of attachment_fields\<rparr>"

text \<open>
  \<open>fmt.Sprintf\<close> with one string argument, for the verbs the schemas use: \<open>%s\<close> consumes the
  argument (a second one has none left), \<open>%[1]s\<close> names it.
\<close>

fun sprintf1 :: "string \<Rightarrow> string \<Rightarrow> bool \<Rightarrow> string" where
  "sprintf1 [] a used = []"
| "sprintf1 [c] a used = [c]"
| "sprintf1 (c # d # cs) a used =
     (if c = CHR ''%'' \<and> d = CHR ''s''
      then (if used then ''%!s(MISSING)'' else a) @ sprintf1 cs a True
      else if c = CHR ''%'' \<and> d = CHR ''['' \<and> take 3 cs = ''1]s''
      then a @ sprintf1 (drop 3 cs) a True
      else c # sprintf1 (d # cs) a used)"

definition qualifyColumn :: "DialectName \<Rightarrow> Column \<Rightarrow> string" where
  "qualifyColumn d col =
     (if d = DialectPostgres then col_Table col @ ''.'' @ col_Name col
      else ''`'' @ col_Table col @ ''`.`'' @ col_Name col @ ''`'')"

definition columnExpr :: "Field \<Rightarrow> DialectName \<Rightarrow> string" where
  "columnExpr f d =
     (let base = qualifyColumn d (fld_Column f)
      in case fld_Expressions f d of
           Some expr \<Rightarrow> (if expr \<noteq> [] then sprintf1 expr base False else base)
         | None \<Rightarrow> base)"

end
