(* ===== verification/Filter_Parser.thy ===== *)
theory Filter_Parser
  imports Filter_Schema "HOL-Library.List_Lexorder" "HOL-Library.Char_ord"
begin

text \<open>
  The translation of a type-checked CEL syntax tree into the filter representation
  (\<open>internal/filter/parser.go\<close>): every function of the file, with each of its error
  returns. The syntax tree is the message \<open>Expr\<close> the CEL compiler hands over; its
  constructors are the kinds the code distinguishes, \<open>OtherExpr\<close> and \<open>OtherConstant\<close> are
  all remaining kinds and the unset (nil) message. \<open>time.Parse\<close> for RFC 3339 and
  \<open>time.ParseDuration\<close> are a parameter (\<open>time_lib\<close>) of the parse context.
\<close>

section \<open>Input\<close>

datatype Constant =
  StringValue string | Int64Value int64 | Uint64Value int64 | DoubleValue float64
| BoolValue bool | NullValue | OtherConstant

datatype Expr =
  ConstExpr Constant
| IdentExpr string
| CallExpr "Expr option" string "Expr list"
| ListExpr "Expr list"
| ComprehensionExpr string Expr Expr Expr
| OtherExpr

text \<open>Unix seconds of an RFC 3339 instant; nanoseconds of a duration.\<close>

record time_lib =
  parse_RFC3339 :: "string \<Rightarrow> int64 result"
  parse_Duration :: "string \<Rightarrow> int64 result"

record parseContext =
  pc_schema :: Schema
  pc_now :: go_time
  pc_time :: time_lib

section \<open>Leaves\<close>

fun getIdentName :: "Expr \<Rightarrow> string result" where
  "getIdentName (IdentExpr name) = Inr name"
| "getIdentName _ = Inl (Errorf ''expression is not an identifier'' [])"

fun getConstValue :: "Expr \<Rightarrow> any_value result" where
  "getConstValue (ConstExpr c) =
     (case c of
        StringValue s \<Rightarrow> Inr (VString s)
      | Int64Value i \<Rightarrow> Inr (VInt64 i)
      | Uint64Value u \<Rightarrow> Inr (VInt64 u)
      | DoubleValue d \<Rightarrow> Inr (VFloat64 d)
      | BoolValue b \<Rightarrow> Inr (VBool b)
      | NullValue \<Rightarrow> Inr VNil
      | OtherConstant \<Rightarrow> Inl (Errorf ''unsupported constant %T'' []))"
| "getConstValue _ = Inl (Errorf ''expression is not a literal'' [])"

definition toComparisonOperator :: "string \<Rightarrow> ComparisonOperator result" where
  "toComparisonOperator fn =
     (if fn = ''_==_'' then Inr CompareEq
      else if fn = ''_!=_'' then Inr CompareNeq
      else if fn = ''_<_'' then Inr CompareLt
      else if fn = ''_>_'' then Inr CompareGt
      else if fn = ''_<=_'' then Inr CompareLte
      else if fn = ''_>=_'' then Inr CompareGte
      else Inl (Errorf ''unsupported comparison operator %q'' [fn]))"

fun mirrorComparisonOperator :: "ComparisonOperator \<Rightarrow> ComparisonOperator" where
  "mirrorComparisonOperator CompareLt = CompareGt"
| "mirrorComparisonOperator CompareLte = CompareGte"
| "mirrorComparisonOperator CompareGt = CompareLt"
| "mirrorComparisonOperator CompareGte = CompareLte"
| "mirrorComparisonOperator op = op"

fun sqlOperator :: "ComparisonOperator \<Rightarrow> string" where
  "sqlOperator CompareEq = ''=''"
| "sqlOperator CompareNeq = ''!=''"
| "sqlOperator CompareLt = ''<''"
| "sqlOperator CompareLte = ''<=''"
| "sqlOperator CompareGt = ''>''"
| "sqlOperator CompareGte = ''>=''"

section \<open>Folding of constants\<close>

fun toFloat :: "any_value \<Rightarrow> float64 option" where
  "toFloat (VInt64 x) = Some (int64_to_float x)"
| "toFloat (VFloat64 x) = Some x"
| "toFloat _ = None"

definition asFloats :: "any_value \<Rightarrow> any_value \<Rightarrow> (float64 \<times> float64) option" where
  "asFloats left right =
     (case (toFloat left, toFloat right) of (Some l, Some r) \<Rightarrow> Some (l, r) | _ \<Rightarrow> None)"

text \<open>The comparison of two ordered operands; bytewise for strings.\<close>

fun compare_op :: "ComparisonOperator \<Rightarrow> 'a::linorder \<Rightarrow> 'a \<Rightarrow> bool" where
  "compare_op CompareEq l r = (l = r)"
| "compare_op CompareNeq l r = (l \<noteq> r)"
| "compare_op CompareLt l r = (l < r)"
| "compare_op CompareLte l r = (l \<le> r)"
| "compare_op CompareGt l r = (l > r)"
| "compare_op CompareGte l r = (l \<ge> r)"

definition compareLiterals ::
    "any_value \<Rightarrow> ComparisonOperator \<Rightarrow> any_value \<Rightarrow> bool result" where
  "compareLiterals left op right =
     (case asFloats left right of
        Some (l, r) \<Rightarrow> Inr (compare_op op l r)
      | None \<Rightarrow>
          (case (left, right) of
             (VString l, VString r) \<Rightarrow> Inr (compare_op op l r)
           | (VBool l, VBool r) \<Rightarrow>
               (case op of
                  CompareEq \<Rightarrow> Inr (l = r)
                | CompareNeq \<Rightarrow> Inr (l \<noteq> r)
                | _ \<Rightarrow> Inl (Errorf ''unsupported constant comparison %T %s %T'' [sqlOperator op]))
           | _ \<Rightarrow> Inl (Errorf ''unsupported constant comparison %T %s %T'' [sqlOperator op])))"

text \<open>
  A result \<open>(value, ok, err)\<close> of a folding function is an error, \<open>Inr None\<close> for
  \<open>ok = false\<close>, or \<open>Inr (Some value)\<close>.
\<close>

fun evaluateBoolExpr :: "Expr \<Rightarrow> bool option result" where
  "evaluateBoolExpr (ConstExpr c) =
     (case getConstValue (ConstExpr c) of Inr (VBool b) \<Rightarrow> Inr (Some b) | _ \<Rightarrow> Inr None)"
| "evaluateBoolExpr (CallExpr target fn args) =
     (if fn = ''!_'' then
        (case args of
           [a] \<Rightarrow> bindE (evaluateBoolExpr a) (\<lambda>v. Inr (map_option Not v))
         | _ \<Rightarrow> Inl (Errorf ''NOT expects exactly one argument'' []))
      else Inr None)"
| "evaluateBoolExpr _ = Inr None"

definition evaluateBool :: "Expr option \<Rightarrow> string \<Rightarrow> Expr list \<Rightarrow> bool option result" where
  "evaluateBool target fn args = evaluateBoolExpr (CallExpr target fn args)"

definition evaluateTimestamp :: "time_lib \<Rightarrow> Expr list \<Rightarrow> int64 option result" where
  "evaluateTimestamp lib args =
     (case args of
        [a] \<Rightarrow>
          bindE (wrapE ''timestamp() only supports literal arguments'' (getConstValue a)) (\<lambda>value.
            case value of
              VString v \<Rightarrow>
                bindE (wrapE ''invalid timestamp literal'' (parse_RFC3339 lib v)) (\<lambda>ts. Inr (Some ts))
            | VInt64 v \<Rightarrow> Inr (Some v)
            | _ \<Rightarrow> Inl (Errorf ''timestamp() argument must be an RFC3339 string or epoch int'' []))
      | _ \<Rightarrow> Inl (Errorf ''timestamp() expects one argument'' []))"

definition evaluateDuration :: "time_lib \<Rightarrow> Expr list \<Rightarrow> int64 option result" where
  "evaluateDuration lib args =
     (case args of
        [a] \<Rightarrow>
          bindE (wrapE ''duration() only supports literal arguments'' (getConstValue a)) (\<lambda>value.
            case value of
              VString str \<Rightarrow>
                bindE (wrapE ''invalid duration literal'' (parse_Duration lib str)) (\<lambda>d.
                  Inr (Some (float_to_int64 (duration_seconds d))))
            | _ \<Rightarrow> Inl (Errorf ''duration() argument must be a string'' []))
      | _ \<Rightarrow> Inl (Errorf ''duration() expects one argument'' []))"

definition arith_ops :: "string list" where
  "arith_ops = [''_+_'', ''_-_'', ''_*_'', ''_/_'', ''_%_'']"

definition fold_arith :: "string \<Rightarrow> int64 \<Rightarrow> int64 \<Rightarrow> int64 option result" where
  "fold_arith fn left right =
     (if fn = ''_+_'' then Inr (Some (left + right))
      else if fn = ''_-_'' then Inr (Some (left - right))
      else if fn = ''_*_'' then Inr (Some (left * right))
      else if fn = ''_/_'' then
        (if right = 0 then Inl (Errorf ''division by zero'' [])
         else Inr (Some (int64_div left right)))
      else if fn = ''_%_'' then
        (if right = 0 then Inl (Errorf ''modulo by zero'' [])
         else Inr (Some (int64_mod left right)))
      else Inl (Errorf ''unsupported arithmetic operator %q'' [fn]))"

fun evaluateNumeric :: "time_lib \<Rightarrow> go_time \<Rightarrow> Expr \<Rightarrow> int64 option result" where
  "evaluateNumeric lib now (ConstExpr c) =
     (case getConstValue (ConstExpr c) of
        Inr (VInt64 v) \<Rightarrow> Inr (Some v)
      | Inr (VFloat64 v) \<Rightarrow> Inr (Some (float_to_int64 v))
      | _ \<Rightarrow> Inr None)"
| "evaluateNumeric lib now (IdentExpr name) =
     (if name = ''now'' then Inr (Some (word_of_int now)) else Inr None)"
| "evaluateNumeric lib now (CallExpr target fn args) =
     (if fn = ''timestamp'' then evaluateTimestamp lib args
      else if fn = ''duration'' then evaluateDuration lib args
      else if fn \<in> set arith_ops then
        (case args of
           [a, b] \<Rightarrow>
             bindE (evaluateNumeric lib now a) (\<lambda>l.
               case l of None \<Rightarrow> Inr None | Some left \<Rightarrow>
             bindE (evaluateNumeric lib now b) (\<lambda>r.
               case r of None \<Rightarrow> Inr None | Some right \<Rightarrow> fold_arith fn left right))
         | _ \<Rightarrow> Inl (Errorf ''arithmetic requires two arguments'' []))
      else Inr None)"
| "evaluateNumeric lib now _ = Inr None"

section \<open>Value expressions\<close>

definition timestampAccessors :: "string list" where
  "timestampAccessors =
     [''getFullYear'', ''getMonth'', ''getDate'', ''getDayOfMonth'', ''getDayOfWeek'',
      ''getDayOfYear'', ''getHours'', ''getMinutes'', ''getSeconds'']"

definition isTimestampAccessor :: "string \<Rightarrow> bool" where
  "isTimestampAccessor name = (name \<in> set timestampAccessors)"

definition foldNowAccessor :: "string \<Rightarrow> go_time \<Rightarrow> int64" where
  "foldNowAccessor accessor t =
     (if accessor = ''getFullYear'' then word_of_int (Year t)
      else if accessor = ''getMonth'' then word_of_int (Month t) - 1
      else if accessor = ''getDate'' then word_of_int (Day t)
      else if accessor = ''getDayOfMonth'' then word_of_int (Day t) - 1
      else if accessor = ''getDayOfWeek'' then word_of_int (Weekday t)
      else if accessor = ''getDayOfYear'' then word_of_int (YearDay t) - 1
      else if accessor = ''getHours'' then word_of_int (Hour t)
      else if accessor = ''getMinutes'' then word_of_int (Minute t)
      else if accessor = ''getSeconds'' then word_of_int (Second t)
      else 0)"

text \<open>\<open>buildTimestampAccessor\<close> is called with a target only.\<close>

definition buildTimestampAccessor ::
    "Expr \<Rightarrow> string \<Rightarrow> Expr list \<Rightarrow> parseContext \<Rightarrow> ValueExpr result" where
  "buildTimestampAccessor target fn args pc =
     bindE (wrapE ''timestamp accessor requires a field target'' (getIdentName target)) (\<lambda>targetName.
       if args \<noteq> [] then Inl (Errorf ''%s() with a timezone argument is not supported'' [fn])
       else if targetName = ''now''
       then Inr (LiteralValue (VInt64 (foldNowAccessor fn (pc_now pc))))
       else case schema_Field (pc_schema pc) targetName of
              None \<Rightarrow> Inl (Errorf ''unknown identifier %q'' [targetName])
            | Some field \<Rightarrow>
                (if fld_Type field \<noteq> FieldTypeTimestamp
                 then Inl (Errorf ''%s() is only valid on timestamp fields, got %q'' [fn, targetName])
                 else Inr (FieldAccessorValue targetName fn)))"

definition unsupported_value :: "ValueExpr result" where
  "unsupported_value = Inl (Errorf ''unsupported value expression'' [])"

text \<open>
  The four attempts of \<open>buildValueExpr\<close> before it looks at function calls: identifier,
  literal, numeric folding, boolean folding. \<open>None\<close> means that none of them applied.
\<close>

definition simpleValueExpr :: "Expr \<Rightarrow> parseContext \<Rightarrow> ValueExpr option result" where
  "simpleValueExpr expr pc =
     (case getIdentName expr of
        Inr identName \<Rightarrow>
          (if identName = ''now'' then Inr (Some (LiteralValue (VInt64 (word_of_int (pc_now pc)))))
           else case schema_Field (pc_schema pc) identName of
                  None \<Rightarrow> Inl (Errorf ''unknown identifier %q'' [identName])
                | Some _ \<Rightarrow> Inr (Some (FieldRef identName)))
      | Inl _ \<Rightarrow>
     (case getConstValue expr of
        Inr literal \<Rightarrow> Inr (Some (LiteralValue literal))
      | Inl _ \<Rightarrow>
     bindE (evaluateNumeric (pc_time pc) (pc_now pc) expr) (\<lambda>value.
       case value of Some v \<Rightarrow> Inr (Some (LiteralValue (VInt64 v))) | None \<Rightarrow>
     bindE (evaluateBoolExpr expr) (\<lambda>boolVal.
       case boolVal of Some b \<Rightarrow> Inr (Some (LiteralValue (VBool b))) | None \<Rightarrow> Inr None))))"

text \<open>
  After the numeric attempt failed, the repeated attempt for \<open>_+_\<close>, \<open>_-_\<close> and \<open>_*_\<close> in the
  source fails again and ends in the final error.
\<close>

fun buildValueExpr :: "Expr \<Rightarrow> parseContext \<Rightarrow> ValueExpr result" where
  "buildValueExpr (CallExpr target fn args) pc =
     bindE (simpleValueExpr (CallExpr target fn args) pc) (\<lambda>simple.
       case simple of Some v \<Rightarrow> Inr v | None \<Rightarrow>
       (if target \<noteq> None \<and> isTimestampAccessor fn
        then buildTimestampAccessor (the target) fn args pc
        else if fn = ''size'' then
          (case args of
             [a] \<Rightarrow> bindE (buildValueExpr a pc) (\<lambda>arg. Inr (FunctionValue ''size'' [arg]))
           | _ \<Rightarrow> Inl (Errorf ''size() expects one argument'' []))
        else if fn = ''_+_'' \<or> fn = ''_-_'' \<or> fn = ''_*_'' then
          bindE (evaluateNumeric (pc_time pc) (pc_now pc) (CallExpr target fn args)) (\<lambda>value.
            case value of Some v \<Rightarrow> Inr (LiteralValue (VInt64 v)) | None \<Rightarrow> unsupported_value)
        else unsupported_value))"
| "buildValueExpr expr pc =
     bindE (simpleValueExpr expr pc) (\<lambda>simple.
       case simple of Some v \<Rightarrow> Inr v | None \<Rightarrow> unsupported_value)"

section \<open>Conditions\<close>

definition check_field_operator ::
    "parseContext \<Rightarrow> ValueExpr \<Rightarrow> ComparisonOperator \<Rightarrow> unit result" where
  "check_field_operator pc left op =
     (case left of
        FieldRef name \<Rightarrow>
          (case schema_Field (pc_schema pc) name of
             None \<Rightarrow> Inl (Errorf ''unknown identifier %q'' [name])
           | Some def0 \<Rightarrow>
               bindE (if fld_Kind def0 = FieldKindVirtualAlias
                      then case ResolveAlias (pc_schema pc) name of
                             None \<Rightarrow> Inl (Errorf ''invalid alias %q'' [name])
                           | Some d \<Rightarrow> Inr d
                      else Inr def0) (\<lambda>def.
                 case fld_AllowedComparisonOps def of
                   None \<Rightarrow> Inr ()
                 | Some ops \<Rightarrow>
                     (if op \<in> set ops then Inr ()
                      else Inl (Errorf ''operator %s not allowed for field %q'' [sqlOperator op, name]))))
      | _ \<Rightarrow> Inr ())"

definition buildComparisonCondition ::
    "string \<Rightarrow> Expr list \<Rightarrow> parseContext \<Rightarrow> Condition result" where
  "buildComparisonCondition fn args pc =
     (case args of
        [a, b] \<Rightarrow>
          bindE (toComparisonOperator fn) (\<lambda>op.
          bindE (buildValueExpr a pc) (\<lambda>left.
          bindE (buildValueExpr b pc) (\<lambda>right.
            case (left, right) of
              (LiteralValue l, LiteralValue r) \<Rightarrow>
                bindE (compareLiterals l op r) (\<lambda>outcome. Inr (ConstantCondition outcome))
            | (LiteralValue l, _) \<Rightarrow>
                bindE (check_field_operator pc right (mirrorComparisonOperator op)) (\<lambda>_.
                  Inr (ComparisonCondition right (mirrorComparisonOperator op) left))
            | _ \<Rightarrow>
                bindE (check_field_operator pc left op) (\<lambda>_.
                  Inr (ComparisonCondition left op right)))))
      | _ \<Rightarrow> Inl (Errorf ''comparison expects two arguments'' []))"

definition buildInCondition :: "Expr list \<Rightarrow> parseContext \<Rightarrow> Condition result" where
  "buildInCondition args pc =
     (case args of
        [a, b] \<Rightarrow>
          bindE
            (case getIdentName a of
               Inl _ \<Rightarrow> Inr None
             | Inr identName \<Rightarrow>
                 bindE
                   (case schema_Field (pc_schema pc) identName of
                      None \<Rightarrow> Inl (Errorf ''unknown identifier %q'' [identName])
                    | Some field \<Rightarrow>
                        (if fld_Kind field = FieldKindVirtualAlias
                            \<and> ResolveAlias (pc_schema pc) identName = None
                         then Inl (Errorf ''invalid alias %q'' [identName]) else Inr ()))
                   (\<lambda>_. case b of
                      ListExpr elements \<Rightarrow>
                        bindE (mapE (\<lambda>element. buildValueExpr element pc) elements) (\<lambda>values.
                          Inr (Some (InCondition (FieldRef identName) values)))
                    | _ \<Rightarrow> Inr None))
            (\<lambda>found. case found of Some c \<Rightarrow> Inr c | None \<Rightarrow>
               (case getIdentName b of
                  Inl _ \<Rightarrow> Inl (Errorf ''invalid use of in operator'' [])
                | Inr identName \<Rightarrow>
                    (case schema_Field (pc_schema pc) identName of
                       None \<Rightarrow> Inl (Errorf ''unknown identifier %q'' [identName])
                     | Some _ \<Rightarrow>
                         bindE (buildValueExpr a pc) (\<lambda>element.
                           Inr (ElementInCondition element identName)))))
      | _ \<Rightarrow> Inl (Errorf ''in operator expects two arguments'' []))"

definition buildTextMatchCondition ::
    "Expr option \<Rightarrow> Expr list \<Rightarrow> Schema \<Rightarrow> TextMatchMode \<Rightarrow> Condition result" where
  "buildTextMatchCondition target args schema mode =
     (case target of
        None \<Rightarrow> Inl (Errorf ''text match requires a target'' [])
      | Some t \<Rightarrow>
          bindE (getIdentName t) (\<lambda>targetName.
            case schema_Field schema targetName of
              None \<Rightarrow> Inl (Errorf ''unknown identifier %q'' [targetName])
            | Some field \<Rightarrow>
                (if \<not> fld_SupportsContains field
                 then Inl (Errorf ''identifier %q does not support text matching'' [targetName])
                 else case args of
                   [a] \<Rightarrow>
                     bindE (wrapE ''text match only supports literal arguments'' (getConstValue a))
                       (\<lambda>value. case value of
                          VString str \<Rightarrow> Inr (TextMatchCondition targetName mode str)
                        | _ \<Rightarrow> Inl (Errorf ''text match argument must be a string'' []))
                 | _ \<Rightarrow> Inl (Errorf ''text match expects exactly one argument'' []))))"

definition buildMatchesCondition ::
    "Expr option \<Rightarrow> Expr list \<Rightarrow> Schema \<Rightarrow> Condition result" where
  "buildMatchesCondition target args schema =
     (case target of
        None \<Rightarrow> Inl (Errorf ''matches requires a target'' [])
      | Some t \<Rightarrow>
          bindE (getIdentName t) (\<lambda>targetName.
            case schema_Field schema targetName of
              None \<Rightarrow> Inl (Errorf ''unknown identifier %q'' [targetName])
            | Some field \<Rightarrow>
                (if \<not> fld_SupportsContains field
                 then Inl (Errorf ''identifier %q does not support matches()'' [targetName])
                 else case args of
                   [a] \<Rightarrow>
                     bindE (wrapE ''matches only supports literal arguments'' (getConstValue a))
                       (\<lambda>value. case value of
                          VString pattern \<Rightarrow> Inr (RegexCondition targetName pattern)
                        | _ \<Rightarrow> Inl (Errorf ''matches argument must be a string'' []))
                 | _ \<Rightarrow> Inl (Errorf ''matches expects exactly one argument'' []))))"

subsection \<open>Set operations\<close>

definition mapConditions :: "string list \<Rightarrow> (string \<Rightarrow> Condition) \<Rightarrow> Condition list" where
  "mapConditions values f = map f values"

text \<open>\<open>conds[0]\<close> panics on an empty slice; the callers pass non-empty ones.\<close>

fun combineConditions :: "LogicalOperator \<Rightarrow> Condition list \<Rightarrow> Condition option" where
  "combineConditions op [] = None"
| "combineConditions op (c # cs) = Some (foldl (LogicalCondition op) c cs)"

fun distinct_loop :: "string list \<Rightarrow> string list \<Rightarrow> string list \<Rightarrow> string list" where
  "distinct_loop seen out [] = out"
| "distinct_loop seen out (v # vs) =
     (if v \<in> set seen then distinct_loop seen out vs
      else distinct_loop (v # seen) (out @ [v]) vs)"

definition distinctStrings :: "string list \<Rightarrow> string list" where
  "distinctStrings values = distinct_loop [] [] values"

definition membership :: "string \<Rightarrow> string \<Rightarrow> Condition" where
  "membership fieldName s = ElementInCondition (LiteralValue (VString s)) fieldName"

definition sizeEquals :: "string \<Rightarrow> nat \<Rightarrow> Condition" where
  "sizeEquals fieldName n =
     ComparisonCondition (FunctionValue ''size'' [FieldRef fieldName]) CompareEq
       (LiteralValue (VInt64 (of_nat n)))"

definition index_panic :: go_error where
  "index_panic = Errorf ''runtime error: index out of range'' []"

definition option_or_panic :: "'a option \<Rightarrow> 'a result" where
  "option_or_panic x = (case x of Some a \<Rightarrow> Inr a | None \<Rightarrow> Inl index_panic)"

definition literal_strings :: "Expr list \<Rightarrow> string list result" where
  "literal_strings elements =
     mapE (\<lambda>el.
       bindE (wrapE ''set operations only support literal string elements'' (getConstValue el)) (\<lambda>v.
         case v of VString s \<Rightarrow> Inr s
         | _ \<Rightarrow> Inl (Errorf ''set operations require string elements'' []))) elements"

definition setCondition :: "string \<Rightarrow> string \<Rightarrow> string list \<Rightarrow> Condition result" where
  "setCondition fn fieldName values =
     (if fn = ''sets.contains'' then
        (if values = [] then Inr (ConstantCondition True)
         else option_or_panic
                (combineConditions LogicalAnd (mapConditions values (membership fieldName))))
      else if fn = ''sets.intersects'' then
        (if values = [] then Inr (ConstantCondition False)
         else option_or_panic
                (combineConditions LogicalOr (mapConditions values (membership fieldName))))
      else if fn = ''sets.equivalent'' then
        (let distinct = distinctStrings values in
         if distinct = [] then Inr (sizeEquals fieldName 0)
         else bindE (option_or_panic
                (combineConditions LogicalAnd (mapConditions distinct (membership fieldName))))
                (\<lambda>contains. Inr (LogicalCondition LogicalAnd contains
                                  (sizeEquals fieldName (length distinct)))))
      else Inl (Errorf ''unsupported set operation %q'' [fn]))"

definition buildSetCondition :: "string \<Rightarrow> Expr list \<Rightarrow> parseContext \<Rightarrow> Condition result" where
  "buildSetCondition fn args pc =
     (case args of
        [a, b] \<Rightarrow>
          bindE (wrapE ''set operations require a list field as the first argument'' (getIdentName a))
            (\<lambda>fieldName.
              case schema_Field (pc_schema pc) fieldName of
                None \<Rightarrow> Inl (Errorf ''unknown identifier %q'' [fieldName])
              | Some field \<Rightarrow>
                  (if fld_Kind field \<noteq> FieldKindJSONList
                   then Inl (Errorf ''set operations require a list field, got %q'' [fieldName])
                   else case b of
                     ListExpr elements \<Rightarrow>
                       bindE (literal_strings elements) (\<lambda>values. setCondition fn fieldName values)
                   | _ \<Rightarrow> Inl (Errorf ''set operations require a list literal as the second argument'' [])))
      | _ \<Rightarrow> Inl (Errorf ''%s expects two arguments'' [fn]))"

subsection \<open>Comprehensions\<close>

text \<open>\<open>GetBoolValue\<close> of a constant is false unless it holds the boolean true.\<close>

definition GetBoolValue :: "Constant \<Rightarrow> bool" where
  "GetBoolValue c = (c = BoolValue True)"

definition isInt64Value :: "Constant \<Rightarrow> bool" where
  "isInt64Value c = (case c of Int64Value _ \<Rightarrow> True | _ \<Rightarrow> False)"

definition call_function :: "Expr \<Rightarrow> string option" where
  "call_function e = (case e of CallExpr _ fn _ \<Rightarrow> Some fn | _ \<Rightarrow> None)"

definition detectComprehensionKind :: "Expr \<Rightarrow> Expr \<Rightarrow> ComprehensionKind result" where
  "detectComprehensionKind accuInit loopStep =
     (case accuInit of
        ConstExpr c \<Rightarrow>
          (if \<not> GetBoolValue c \<and> call_function loopStep = Some ''_||_'' then Inr ComprehensionExists
           else if GetBoolValue c \<and> call_function loopStep = Some ''_&&_'' then Inr ComprehensionAll
           else if isInt64Value c \<and> call_function loopStep = Some ''_?_:_''
           then Inr ComprehensionExistsOne
           else Inl (Errorf ''unsupported comprehension type (supported: exists, all, exists_one)'' []))
      | _ \<Rightarrow> Inl (Errorf ''comprehension accumulator must be initialized with a constant'' []))"

definition isIterVarExpr :: "Expr \<Rightarrow> string \<Rightarrow> bool" where
  "isIterVarExpr expr iterVar = (expr = IdentExpr iterVar)"

definition constant_string :: "string \<Rightarrow> Expr \<Rightarrow> string result" where
  "constant_string what e =
     bindE (wrapE (what @ '' argument must be a constant string'') (getConstValue e)) (\<lambda>value.
       case value of VString s \<Rightarrow> Inr s
       | _ \<Rightarrow> Inl (Errorf (what @ '' argument must be a string'') []))"

definition buildEqualsPredicate :: "Expr list \<Rightarrow> string \<Rightarrow> PredicateExpr result" where
  "buildEqualsPredicate args iterVar =
     (case args of
        [a, b] \<Rightarrow>
          bindE (if isIterVarExpr a iterVar then Inr b
                 else if isIterVarExpr b iterVar then Inr a
                 else Inl (Errorf ''equality predicate must compare against the iteration variable %q'' [iterVar]))
            (\<lambda>constExpr. bindE (constant_string ''equality'' constExpr) (\<lambda>v. Inr (EqualsPredicate v)))
      | _ \<Rightarrow> Inl (Errorf ''equality predicate expects exactly two arguments'' []))"

text \<open>The shared shape of \<open>t.startsWith(c)\<close>, \<open>t.endsWith(c)\<close> and \<open>t.contains(c)\<close>.\<close>

definition text_predicate ::
    "string \<Rightarrow> Expr option \<Rightarrow> Expr list \<Rightarrow> string \<Rightarrow> string result" where
  "text_predicate what target args iterVar =
     (if target \<noteq> Some (IdentExpr iterVar)
      then Inl (Errorf (what @ '' target must be the iteration variable %q'') [iterVar])
      else case args of
             [a] \<Rightarrow> constant_string what a
           | _ \<Rightarrow> Inl (Errorf (what @ '' expects exactly one argument'') []))"

definition buildStartsWithPredicate ::
    "Expr option \<Rightarrow> Expr list \<Rightarrow> string \<Rightarrow> PredicateExpr result" where
  "buildStartsWithPredicate target args iterVar =
     bindE (text_predicate ''startsWith'' target args iterVar) (\<lambda>s. Inr (StartsWithPredicate s))"

definition buildEndsWithPredicate ::
    "Expr option \<Rightarrow> Expr list \<Rightarrow> string \<Rightarrow> PredicateExpr result" where
  "buildEndsWithPredicate target args iterVar =
     bindE (text_predicate ''endsWith'' target args iterVar) (\<lambda>s. Inr (EndsWithPredicate s))"

definition buildContainsPredicate ::
    "Expr option \<Rightarrow> Expr list \<Rightarrow> string \<Rightarrow> PredicateExpr result" where
  "buildContainsPredicate target args iterVar =
     bindE (text_predicate ''contains'' target args iterVar) (\<lambda>s. Inr (ContainsPredicate s))"

definition predicate_of_call :: "Expr \<Rightarrow> string \<Rightarrow> PredicateExpr result" where
  "predicate_of_call predicateExpr iterVar =
     (case predicateExpr of
        CallExpr target fn args \<Rightarrow>
          (if fn = ''_==_'' then buildEqualsPredicate args iterVar
           else if fn = ''startsWith'' then buildStartsWithPredicate target args iterVar
           else if fn = ''endsWith'' then buildEndsWithPredicate target args iterVar
           else if fn = ''contains'' then buildContainsPredicate target args iterVar
           else Inl (Errorf ''unsupported predicate function %q in comprehension (supported: ==, startsWith, endsWith, contains)'' [fn]))
      | _ \<Rightarrow> Inl (Errorf ''comprehension predicate must be a function call'' []))"

definition extractPredicate :: "string \<Rightarrow> Expr \<Rightarrow> PredicateExpr result" where
  "extractPredicate iterVar loopStep =
     (case loopStep of
        CallExpr _ fn args \<Rightarrow>
          bindE
            (if fn = ''_?_:_'' then
               (case args of [p, _, _] \<Rightarrow> Inr p
                | _ \<Rightarrow> Inl (Errorf ''exists_one loop step must have three arguments'' []))
             else
               (case args of [_, p] \<Rightarrow> Inr p
                | _ \<Rightarrow> Inl (Errorf ''comprehension loop step must have two arguments'' [])))
            (\<lambda>predicateExpr. predicate_of_call predicateExpr iterVar)
      | _ \<Rightarrow> Inl (Errorf ''comprehension loop step must be a call expression'' []))"

definition buildComprehensionCondition ::
    "string \<Rightarrow> Expr \<Rightarrow> Expr \<Rightarrow> Expr \<Rightarrow> Schema \<Rightarrow> Condition result" where
  "buildComprehensionCondition iterVar iterRange accuInit loopStep schema =
     bindE (detectComprehensionKind accuInit loopStep) (\<lambda>kind.
       case iterRange of
         IdentExpr fieldName \<Rightarrow>
           (case schema_Field schema fieldName of
              None \<Rightarrow> Inl (Errorf ''unknown field %q in comprehension'' [fieldName])
            | Some field \<Rightarrow>
                (if fld_Kind field \<noteq> FieldKindJSONList
                 then Inl (Errorf ''field %q does not support comprehension (must be a list)'' [fieldName])
                 else bindE (extractPredicate iterVar loopStep) (\<lambda>predicate.
                   Inr (ListComprehensionCondition kind fieldName iterVar predicate))))
       | _ \<Rightarrow> Inl (Errorf ''comprehension range must be a field identifier'' []))"

subsection \<open>The recursive descent\<close>

definition comparison_functions :: "string list" where
  "comparison_functions = [''_==_'', ''_!=_'', ''_<_'', ''_>_'', ''_<=_'', ''_>=_'']"

definition set_functions :: "string list" where
  "set_functions = [''sets.contains'', ''sets.intersects'', ''sets.equivalent'']"

fun buildCondition :: "Expr \<Rightarrow> parseContext \<Rightarrow> Condition result"
and buildCallCondition :: "Expr option \<Rightarrow> string \<Rightarrow> Expr list \<Rightarrow> parseContext \<Rightarrow> Condition result"
where
  "buildCondition (CallExpr target fn args) pc = buildCallCondition target fn args pc"
| "buildCondition (ConstExpr c) pc =
     bindE (getConstValue (ConstExpr c)) (\<lambda>val.
       case val of VBool v \<Rightarrow> Inr (ConstantCondition v)
       | _ \<Rightarrow> Inl (Errorf ''filter must evaluate to a boolean value'' []))"
| "buildCondition (IdentExpr name) pc =
     (case schema_Field (pc_schema pc) name of
        None \<Rightarrow> Inl (Errorf ''unknown identifier %q'' [name])
      | Some field \<Rightarrow>
          (if fld_Type field \<noteq> FieldTypeBool
           then Inl (Errorf ''identifier %q is not boolean'' [name])
           else Inr (FieldPredicateCondition name)))"
| "buildCondition (ComprehensionExpr iterVar iterRange accuInit loopStep) pc =
     buildComprehensionCondition iterVar iterRange accuInit loopStep (pc_schema pc)"
| "buildCondition (ListExpr es) pc = Inl (Errorf ''unsupported top-level expression'' [])"
| "buildCondition OtherExpr pc = Inl (Errorf ''unsupported top-level expression'' [])"
| "buildCallCondition target fn args pc =
     (if fn = ''_&&_'' then
        (case args of
           [a, b] \<Rightarrow> bindE (buildCondition a pc) (\<lambda>left. bindE (buildCondition b pc) (\<lambda>right.
                       Inr (LogicalCondition LogicalAnd left right)))
         | _ \<Rightarrow> Inl (Errorf ''logical AND expects two arguments'' []))
      else if fn = ''_||_'' then
        (case args of
           [a, b] \<Rightarrow> bindE (buildCondition a pc) (\<lambda>left. bindE (buildCondition b pc) (\<lambda>right.
                       Inr (LogicalCondition LogicalOr left right)))
         | _ \<Rightarrow> Inl (Errorf ''logical OR expects two arguments'' []))
      else if fn = ''!_'' then
        (case args of
           [a] \<Rightarrow> bindE (buildCondition a pc) (\<lambda>child. Inr (NotCondition child))
         | _ \<Rightarrow> Inl (Errorf ''logical NOT expects one argument'' []))
      else if fn \<in> set comparison_functions then buildComparisonCondition fn args pc
      else if fn = ''@in'' then buildInCondition args pc
      else if fn = ''contains'' then buildTextMatchCondition target args (pc_schema pc) TextMatchContains
      else if fn = ''startsWith'' then buildTextMatchCondition target args (pc_schema pc) TextMatchPrefix
      else if fn = ''endsWith'' then buildTextMatchCondition target args (pc_schema pc) TextMatchSuffix
      else if fn = ''matches'' then buildMatchesCondition target args (pc_schema pc)
      else if fn \<in> set set_functions then buildSetCondition fn args pc
      else bindE (evaluateBool target fn args) (\<lambda>val.
             case val of Some v \<Rightarrow> Inr (ConstantCondition v)
             | None \<Rightarrow> Inl (Errorf ''unsupported call expression %q'' [fn])))"

end
