(* ===== verification/Filter_Render.thy ===== *)
theory Filter_Render
  imports Filter_Parser
begin

text \<open>
  The SQL renderer of the filter engine (\<open>internal/filter/render.go\<close>), the engine that
  composes parsing and rendering (\<open>engine.go\<close>) and the helper that appends the rendered
  filters to a query (\<open>helpers.go\<close>). The renderer is a state record, passed through every
  method that calls \<open>addArg\<close>; a method returns an error or its result with the new state.
\<close>

section \<open>State\<close>

record renderer =
  r_schema :: Schema
  r_dialect :: DialectName
  r_placeholderOffset :: nat
  r_placeholderCounter :: nat
  r_args :: "any_value list"

record renderResult =
  rr_sql :: string
  rr_trivial :: bool
  rr_unsatisfiable :: bool

record RenderOptions =
  ro_Dialect :: DialectName
  ro_PlaceholderOffset :: nat
  ro_DisableNullChecks :: bool

record Statement =
  st_SQL :: string
  st_Args :: "any_value list"

definition newRenderer :: "Schema \<Rightarrow> RenderOptions \<Rightarrow> renderer" where
  "newRenderer schema opts =
     \<lparr>r_schema = schema, r_dialect = ro_Dialect opts,
      r_placeholderOffset = ro_PlaceholderOffset opts, r_placeholderCounter = 0, r_args = []\<rparr>"

type_synonym 'a rm = "renderer \<Rightarrow> go_error + ('a \<times> renderer)"

definition retR :: "'a \<Rightarrow> 'a rm" where
  "retR a = (\<lambda>r. Inr (a, r))"

definition errR :: "string \<Rightarrow> string list \<Rightarrow> 'a rm" where
  "errR fmt as = (\<lambda>r. Inl (Errorf fmt as))"

definition liftR :: "'a result \<Rightarrow> 'a rm" where
  "liftR m = (\<lambda>r. case m of Inl e \<Rightarrow> Inl e | Inr a \<Rightarrow> Inr (a, r))"

definition bindR :: "'a rm \<Rightarrow> ('a \<Rightarrow> 'b rm) \<Rightarrow> 'b rm" where
  "bindR m f = (\<lambda>r. case m r of Inl e \<Rightarrow> Inl e | Inr (a, r') \<Rightarrow> f a r')"

lemma bindR_cong [fundef_cong]:
  "m r = m' r' \<Longrightarrow> r = r' \<Longrightarrow> (\<And>a s. m' r' = Inr (a, s) \<Longrightarrow> f a s = g a s)
     \<Longrightarrow> bindR m f r = bindR m' g r'"
  by (auto simp: bindR_def split: sum.splits)

fun mapR :: "('a \<Rightarrow> 'b rm) \<Rightarrow> 'a list \<Rightarrow> 'b list rm" where
  "mapR f [] = retR []"
| "mapR f (x # xs) = bindR (f x) (\<lambda>y. bindR (mapR f xs) (\<lambda>ys. retR (y # ys)))"

definition sql_result :: "string \<Rightarrow> renderResult" where
  "sql_result s = \<lparr>rr_sql = s, rr_trivial = False, rr_unsatisfiable = False\<rparr>"

definition trivial_result :: renderResult where
  "trivial_result = \<lparr>rr_sql = [], rr_trivial = True, rr_unsatisfiable = False\<rparr>"

definition unsatisfiable_result :: renderResult where
  "unsatisfiable_result = \<lparr>rr_sql = ''1 = 0'', rr_trivial = False, rr_unsatisfiable = True\<rparr>"

section \<open>Arguments and placeholders\<close>

definition placeholder :: "DialectName \<Rightarrow> nat \<Rightarrow> string" where
  "placeholder d n = (if d = DialectPostgres then ''$'' @ decimal n else ''?'')"

definition addArg :: "any_value \<Rightarrow> string rm" where
  "addArg value = (\<lambda>r.
     let r' = r\<lparr>r_placeholderCounter := r_placeholderCounter r + 1, r_args := r_args r @ [value]\<rparr>
     in Inr (placeholder (r_dialect r) (r_placeholderOffset r + r_placeholderCounter r'), r'))"

definition addBoolArg :: "bool \<Rightarrow> string rm" where
  "addBoolArg value = (\<lambda>r.
     addArg (if r_dialect r = DialectSQLite then VInt (if value then 1 else 0) else VBool value) r)"

fun expectLiteral :: "ValueExpr \<Rightarrow> any_value result" where
  "expectLiteral (LiteralValue v) = Inr v"
| "expectLiteral _ = Inl (Errorf ''expression must be a literal'' [])"

definition expectBool :: "ValueExpr \<Rightarrow> bool result" where
  "expectBool expr =
     bindE (expectLiteral expr) (\<lambda>lit.
       case lit of VBool b \<Rightarrow> Inr b | _ \<Rightarrow> Inl (Errorf ''boolean literal required'' []))"

fun toInt64 :: "any_value \<Rightarrow> int64 result" where
  "toInt64 (VInt v) = Inr (word_of_int v)"
| "toInt64 (VInt64 v) = Inr v"
| "toInt64 (VFloat64 v) = Inr (float_to_int64 v)"
| "toInt64 _ = Inl (Errorf ''cannot convert %T to int64'' [])"

definition expectNumericLiteral :: "ValueExpr \<Rightarrow> int64 result" where
  "expectNumericLiteral expr = bindE (expectLiteral expr) toInt64"

section \<open>Dialect-specific expressions\<close>

definition jsonPath :: "Field \<Rightarrow> string" where
  "jsonPath field = ''$.'' @ join ''.'' (fld_JSONPath field)"

fun json_accessor :: "string \<Rightarrow> string list \<Rightarrow> bool \<Rightarrow> string" where
  "json_accessor expr [] terminalText = expr"
| "json_accessor expr [part] terminalText =
     (if terminalText then expr @ ''->>'' @ [CHR 0x27] @ part @ [CHR 0x27] else expr @ ''->'' @ [CHR 0x27] @ part @ [CHR 0x27])"
| "json_accessor expr (part # next # path) terminalText =
     json_accessor (expr @ ''->'' @ [CHR 0x27] @ part @ [CHR 0x27]) (next # path) terminalText"

definition buildPostgresJSONAccessor :: "string \<Rightarrow> string list \<Rightarrow> bool \<Rightarrow> string" where
  "buildPostgresJSONAccessor base path terminalText = json_accessor base path terminalText"

definition jsonExtractExpr :: "DialectName \<Rightarrow> Field \<Rightarrow> string" where
  "jsonExtractExpr d field =
     (let column = qualifyColumn d (fld_Column field) in
      case d of
        DialectSQLite \<Rightarrow> ''JSON_EXTRACT('' @ column @ '', '' @ [CHR 0x27] @ jsonPath field @ [CHR 0x27] @ '')''
      | DialectMySQL \<Rightarrow> ''JSON_EXTRACT('' @ column @ '', '' @ [CHR 0x27] @ jsonPath field @ [CHR 0x27] @ '')''
      | DialectPostgres \<Rightarrow> buildPostgresJSONAccessor column (fld_JSONPath field) True
      | DialectOther _ \<Rightarrow> [])"

definition jsonArrayExpr :: "DialectName \<Rightarrow> Field \<Rightarrow> string" where
  "jsonArrayExpr d field =
     (let column = qualifyColumn d (fld_Column field) in
      case d of
        DialectSQLite \<Rightarrow> ''JSON_EXTRACT('' @ column @ '', '' @ [CHR 0x27] @ jsonPath field @ [CHR 0x27] @ '')''
      | DialectMySQL \<Rightarrow> ''JSON_EXTRACT('' @ column @ '', '' @ [CHR 0x27] @ jsonPath field @ [CHR 0x27] @ '')''
      | DialectPostgres \<Rightarrow> buildPostgresJSONAccessor column (fld_JSONPath field) False
      | DialectOther _ \<Rightarrow> [])"

definition jsonArrayLengthExpr :: "DialectName \<Rightarrow> Field \<Rightarrow> string" where
  "jsonArrayLengthExpr d field =
     (let arrayExpr = jsonArrayExpr d field in
      case d of
        DialectSQLite \<Rightarrow> ''JSON_ARRAY_LENGTH(COALESCE('' @ arrayExpr @ '', JSON_ARRAY()))''
      | DialectMySQL \<Rightarrow> ''JSON_LENGTH(COALESCE('' @ arrayExpr @ '', JSON_ARRAY()))''
      | DialectPostgres \<Rightarrow> ''jsonb_array_length(COALESCE('' @ arrayExpr @ '', '[]'::jsonb))''
      | DialectOther _ \<Rightarrow> [])"

definition stringLengthExpr :: "DialectName \<Rightarrow> string \<Rightarrow> string" where
  "stringLengthExpr d colExpr =
     (if d = DialectMySQL then ''CHAR_LENGTH('' @ colExpr @ '')'' else ''LENGTH('' @ colExpr @ '')'')"

record accessorSpec =
  as_sqlite :: string
  as_pg :: string
  as_mysql :: string
  as_off :: "nat \<times> nat \<times> nat"

definition accessorSpecs :: "string \<rightharpoonup> accessorSpec" where
  "accessorSpecs = map_of
     [(''getFullYear'', \<lparr>as_sqlite = ''%Y'', as_pg = ''YEAR'', as_mysql = ''YEAR'', as_off = (0, 0, 0)\<rparr>),
      (''getMonth'', \<lparr>as_sqlite = ''%m'', as_pg = ''MONTH'', as_mysql = ''MONTH'', as_off = (1, 1, 1)\<rparr>),
      (''getDate'', \<lparr>as_sqlite = ''%d'', as_pg = ''DAY'', as_mysql = ''DAYOFMONTH'', as_off = (0, 0, 0)\<rparr>),
      (''getDayOfMonth'', \<lparr>as_sqlite = ''%d'', as_pg = ''DAY'', as_mysql = ''DAYOFMONTH'', as_off = (1, 1, 1)\<rparr>),
      (''getDayOfWeek'', \<lparr>as_sqlite = ''%w'', as_pg = ''DOW'', as_mysql = ''DAYOFWEEK'', as_off = (0, 0, 1)\<rparr>),
      (''getDayOfYear'', \<lparr>as_sqlite = ''%j'', as_pg = ''DOY'', as_mysql = ''DAYOFYEAR'', as_off = (1, 1, 1)\<rparr>),
      (''getHours'', \<lparr>as_sqlite = ''%H'', as_pg = ''HOUR'', as_mysql = ''HOUR'', as_off = (0, 0, 0)\<rparr>),
      (''getMinutes'', \<lparr>as_sqlite = ''%M'', as_pg = ''MINUTE'', as_mysql = ''MINUTE'', as_off = (0, 0, 0)\<rparr>),
      (''getSeconds'', \<lparr>as_sqlite = ''%S'', as_pg = ''SECOND'', as_mysql = ''SECOND'', as_off = (0, 0, 0)\<rparr>)]"

text \<open>The dialect's date part before the offset is applied, with the offset.\<close>

definition accessor_base :: "DialectName \<Rightarrow> accessorSpec \<Rightarrow> string \<Rightarrow> (string \<times> nat) result" where
  "accessor_base d spec col =
     (case d of
        DialectSQLite \<Rightarrow>
          Inr (''CAST(strftime('' @ [CHR 0x27] @ as_sqlite spec @ [CHR 0x27] @ '', '' @ col @ '', 'unixepoch') AS INTEGER)'', fst (as_off spec))
      | DialectPostgres \<Rightarrow>
          Inr (''CAST(EXTRACT('' @ as_pg spec @ '' FROM to_timestamp('' @ col @ '') AT TIME ZONE 'UTC') AS INTEGER)'',
               fst (snd (as_off spec)))
      | DialectMySQL \<Rightarrow> Inr (as_mysql spec @ ''('' @ col @ '')'', snd (snd (as_off spec)))
      | DialectOther n \<Rightarrow> Inl (Errorf ''unsupported dialect %q'' [n]))"

definition timestampAccessorExpr :: "DialectName \<Rightarrow> Field \<Rightarrow> string \<Rightarrow> string result" where
  "timestampAccessorExpr d field accessor =
     (case accessorSpecs accessor of
        None \<Rightarrow> Inl (Errorf ''unsupported timestamp accessor %q'' [accessor])
      | Some spec \<Rightarrow>
          bindE (accessor_base d spec (qualifyColumn d (fld_Column field))) (\<lambda>(base, off).
            Inr (if off \<noteq> 0 then ''('' @ base @ '' - '' @ decimal off @ '')'' else base)))"

definition jsonExistsSQL :: "DialectName \<Rightarrow> Field \<Rightarrow> string result" where
  "jsonExistsSQL d field =
     (let expr = jsonExtractExpr d field in
      case d of
        DialectSQLite \<Rightarrow> Inr (expr @ '' IS NOT NULL'')
      | DialectPostgres \<Rightarrow> Inr (expr @ '' IS NOT NULL'')
      | DialectMySQL \<Rightarrow> Inr (''COALESCE(JSON_TYPE('' @ expr @ ''), 'NULL') != 'NULL'' @ [CHR 0x27])
      | DialectOther n \<Rightarrow> Inl (Errorf ''unsupported dialect %s'' [n]))"

definition jsonBoolPredicate :: "DialectName \<Rightarrow> Field \<Rightarrow> string result" where
  "jsonBoolPredicate d field =
     (let expr = jsonExtractExpr d field in
      case d of
        DialectSQLite \<Rightarrow> Inr (expr @ '' IS TRUE'')
      | DialectMySQL \<Rightarrow> Inr (''COALESCE('' @ expr @ '', CAST('false' AS JSON)) = CAST('true' AS JSON)'')
      | DialectPostgres \<Rightarrow> Inr (''('' @ expr @ '')::boolean IS TRUE'')
      | DialectOther n \<Rightarrow> Inl (Errorf ''unsupported dialect %s'' [n]))"

section \<open>LIKE patterns\<close>

text \<open>
  \<open>strings.NewReplacer\<close> with one-byte keys replaces each byte of the input independently.
  Backslash is the escape byte of text matches, the exclamation mark that of tag matches.
\<close>

definition escapeLikeLiteral :: "string \<Rightarrow> string" where
  "escapeLikeLiteral s =
     concat (map (\<lambda>c. if c = CHR 0x5C \<or> c = CHR ''%'' \<or> c = CHR ''_'' then [CHR 0x5C, c] else [c]) s)"

definition likePattern :: "TextMatchMode \<Rightarrow> string \<Rightarrow> string" where
  "likePattern mode value =
     (let escaped = escapeLikeLiteral value in
      case mode of
        TextMatchPrefix \<Rightarrow> escaped @ ''%''
      | TextMatchSuffix \<Rightarrow> ''%'' @ escaped
      | TextMatchContains \<Rightarrow> ''%'' @ escaped @ ''%'')"

definition tagLikePattern :: "TextMatchMode \<Rightarrow> string \<Rightarrow> string" where
  "tagLikePattern mode value =
     (let escaped =
        concat (map (\<lambda>c. if c = CHR ''!'' \<or> c = CHR ''%'' \<or> c = CHR ''_'' then [CHR ''!'', c] else [c]) value)
      in case mode of
        TextMatchPrefix \<Rightarrow> escaped @ ''%''
      | TextMatchSuffix \<Rightarrow> ''%'' @ escaped
      | TextMatchContains \<Rightarrow> ''%'' @ escaped @ ''%'')"

definition foldedLike :: "string \<Rightarrow> string \<Rightarrow> string rm" where
  "foldedLike colExpr pattern = (\<lambda>r. bindR (addArg (VString pattern)) (\<lambda>ph. retR
     (case r_dialect r of
        DialectSQLite \<Rightarrow> ''memos_unicode_lower('' @ colExpr @ '') LIKE memos_unicode_lower('' @ ph @ '') ESCAPE '' @ [CHR 0x27] @ [CHR 0x5C] @ [CHR 0x27]
      | DialectPostgres \<Rightarrow> colExpr @ '' ILIKE '' @ ph
      | _ \<Rightarrow> colExpr @ '' LIKE '' @ ph)) r)"

section \<open>Tag predicates\<close>

definition tagElementTextMatch :: "string \<Rightarrow> TextMatchMode \<Rightarrow> string \<Rightarrow> string rm" where
  "tagElementTextMatch element mode value = (\<lambda>r.
     if value = [] then retR (''1 = 1'') r
     else case r_dialect r of
       DialectSQLite \<Rightarrow>
         (case mode of
            TextMatchPrefix \<Rightarrow>
              bindR (addArg (VString value)) (\<lambda>ph. retR (''instr('' @ element @ '', '' @ ph @ '') = 1'')) r
          | TextMatchSuffix \<Rightarrow>
              bindR (addArg (VString value)) (\<lambda>lengthValue.
              bindR (addArg (VString value)) (\<lambda>compareValue.
                retR (''(substr('' @ element @ '', -length('' @ lengthValue @ '')) COLLATE BINARY) = ('' @ compareValue @ '' COLLATE BINARY)''))) r
          | TextMatchContains \<Rightarrow>
              bindR (addArg (VString value)) (\<lambda>ph. retR (''instr('' @ element @ '', '' @ ph @ '') > 0'')) r)
     | DialectMySQL \<Rightarrow>
         bindR (addArg (VString (tagLikePattern mode value))) (\<lambda>ph.
           retR (''CAST('' @ element @ '' AS BINARY) LIKE CAST('' @ ph @ '' AS BINARY) ESCAPE '!'' @ [CHR 0x27])) r
     | DialectPostgres \<Rightarrow>
         bindR (addArg (VString (tagLikePattern mode value))) (\<lambda>ph.
           retR (''('' @ element @ '' COLLATE '' @ [CHR 0x22] @ ''C'' @ [CHR 0x22] @ '') LIKE ('' @ ph @ ''::text COLLATE '' @ [CHR 0x22] @ ''C'' @ [CHR 0x22] @ '') ESCAPE '!'' @ [CHR 0x27])) r
     | DialectOther n \<Rightarrow> errR ''unsupported dialect %s'' [n] r)"

definition tagElementPredicateSQL :: "string \<Rightarrow> PredicateExpr \<Rightarrow> string rm" where
  "tagElementPredicateSQL element pred = (\<lambda>r.
     case pred of
       EqualsPredicate v \<Rightarrow>
         bindR (addArg (VString v)) (\<lambda>ph.
           case r_dialect r of
             DialectSQLite \<Rightarrow> retR (''('' @ element @ '' COLLATE BINARY) = ('' @ ph @ '' COLLATE BINARY)'')
           | DialectMySQL \<Rightarrow> retR (''CAST('' @ element @ '' AS BINARY) = CAST('' @ ph @ '' AS BINARY)'')
           | DialectPostgres \<Rightarrow> retR (''('' @ element @ '' COLLATE '' @ [CHR 0x22] @ ''C'' @ [CHR 0x22] @ '') = ('' @ ph @ ''::text COLLATE '' @ [CHR 0x22] @ ''C'' @ [CHR 0x22] @ '')'')
           | DialectOther n \<Rightarrow> errR ''unsupported dialect %s'' [n]) r
     | StartsWithPredicate p \<Rightarrow> tagElementTextMatch element TextMatchPrefix p r
     | EndsWithPredicate s \<Rightarrow> tagElementTextMatch element TextMatchSuffix s r
     | ContainsPredicate s \<Rightarrow> tagElementTextMatch element TextMatchContains s r)"

text \<open>The row source and the length of a tag array, per dialect.\<close>

definition tag_rows :: "DialectName \<Rightarrow> string \<Rightarrow> (string \<times> string) result" where
  "tag_rows d arrayExpr =
     (case d of
        DialectSQLite \<Rightarrow>
          (let arr = ''COALESCE('' @ arrayExpr @ '', JSON_ARRAY())''
           in Inr (''json_each('' @ arr @ '') AS tag_item'', ''json_array_length('' @ arr @ '')''))
      | DialectMySQL \<Rightarrow>
          (let arr = ''COALESCE('' @ arrayExpr @ '', JSON_ARRAY())''
           in Inr (''JSON_TABLE('' @ arr @ '', '$[*]' COLUMNS (value LONGTEXT PATH '$')) AS tag_item'',
                   ''JSON_LENGTH('' @ arr @ '')''))
      | DialectPostgres \<Rightarrow>
          (let arr = ''COALESCE('' @ arrayExpr @ '', '[]'::jsonb)''
           in Inr (''jsonb_array_elements_text('' @ arr @ '') AS tag_item(value)'',
                   ''jsonb_array_length('' @ arr @ '')''))
      | DialectOther n \<Rightarrow> Inl (Errorf ''unsupported dialect %s'' [n]))"

definition anyMatch :: "DialectName \<Rightarrow> string \<Rightarrow> string \<Rightarrow> string" where
  "anyMatch d elements cond =
     (if d = DialectMySQL then ''(SELECT COUNT(*) FROM '' @ elements @ '' WHERE '' @ cond @ '') > 0''
      else ''EXISTS (SELECT 1 FROM '' @ elements @ '' WHERE '' @ cond @ '')'')"

definition noMatch :: "DialectName \<Rightarrow> string \<Rightarrow> string \<Rightarrow> string" where
  "noMatch d elements cond =
     (if d = DialectMySQL then ''(SELECT COUNT(*) FROM '' @ elements @ '' WHERE '' @ cond @ '') = 0''
      else ''NOT EXISTS (SELECT 1 FROM '' @ elements @ '' WHERE '' @ cond @ '')'')"

definition renderTagComprehension ::
    "Field \<Rightarrow> PredicateExpr \<Rightarrow> ComprehensionKind \<Rightarrow> renderResult rm" where
  "renderTagComprehension field pred kind = (\<lambda>r.
     let d = r_dialect r in
     bindR (tagElementPredicateSQL ''tag_item.value'' pred) (\<lambda>elemCond.
     bindR (liftR (tag_rows d (jsonArrayExpr d field))) (\<lambda>(elements, len).
       retR (sql_result
         (case kind of
            ComprehensionExists \<Rightarrow> anyMatch d elements elemCond
          | ComprehensionAll \<Rightarrow>
              ''('' @ len @ '' > 0 AND '' @ noMatch d elements (''NOT ('' @ elemCond @ '')'') @ '')''
          | ComprehensionExistsOne \<Rightarrow>
              ''(SELECT COUNT(*) FROM '' @ elements @ '' WHERE '' @ elemCond @ '') = 1'')))) r)"

definition renderJSONListContains :: "Field \<Rightarrow> string \<Rightarrow> renderResult rm" where
  "renderJSONListContains field value =
     renderTagComprehension field (EqualsPredicate value) ComprehensionExists"

definition renderListComprehension ::
    "ComprehensionKind \<Rightarrow> string \<Rightarrow> PredicateExpr \<Rightarrow> renderResult rm" where
  "renderListComprehension kind name pred = (\<lambda>r.
     case schema_Field (r_schema r) name of
       None \<Rightarrow> errR ''unknown field %q'' [name] r
     | Some field \<Rightarrow>
         (if fld_Kind field \<noteq> FieldKindJSONList then errR ''field %q is not a JSON list'' [name] r
          else renderTagComprehension field pred kind r))"

section \<open>Atomic conditions\<close>

definition renderFieldPredicate :: "string \<Rightarrow> renderResult rm" where
  "renderFieldPredicate name = (\<lambda>r.
     case schema_Field (r_schema r) name of
       None \<Rightarrow> errR ''unknown field %q'' [name] r
     | Some field \<Rightarrow>
         (case fld_Kind field of
            FieldKindBoolColumn \<Rightarrow>
              retR (sql_result (qualifyColumn (r_dialect r) (fld_Column field) @ '' IS TRUE'')) r
          | FieldKindJSONBool \<Rightarrow>
              bindR (liftR (jsonBoolPredicate (r_dialect r) field)) (\<lambda>s. retR (sql_result s)) r
          | FieldKindJSONExists \<Rightarrow>
              bindR (liftR (wrapE ''failed to render JSON existence predicate''
                              (jsonExistsSQL (r_dialect r) field))) (\<lambda>s. retR (sql_result s)) r
          | _ \<Rightarrow> errR ''field %q cannot be used as a predicate'' [name] r))"

definition comparison_sql :: "string \<Rightarrow> ComparisonOperator \<Rightarrow> any_value \<Rightarrow> renderResult rm" where
  "comparison_sql expr op value =
     bindR (addArg value) (\<lambda>ph. retR (sql_result (expr @ '' '' @ sqlOperator op @ '' '' @ ph)))"

definition renderAccessorComparison ::
    "string \<Rightarrow> string \<Rightarrow> ComparisonOperator \<Rightarrow> ValueExpr \<Rightarrow> renderResult rm" where
  "renderAccessorComparison name accessor op right = (\<lambda>r.
     case schema_Field (r_schema r) name of
       None \<Rightarrow> errR ''unknown field %q'' [name] r
     | Some field \<Rightarrow>
         bindR (liftR (expectNumericLiteral right)) (\<lambda>value.
         bindR (liftR (timestampAccessorExpr (r_dialect r) field accessor)) (\<lambda>expr.
           comparison_sql expr op (VInt64 value))) r)"

definition size_field :: "Schema \<Rightarrow> string \<Rightarrow> ValueExpr list \<Rightarrow> Field result" where
  "size_field schema fname args =
     (if fname \<noteq> ''size'' then Inl (Errorf ''unsupported function %s in comparison'' [fname])
      else case args of
        [FieldRef name] \<Rightarrow>
          (case schema_Field schema name of
             None \<Rightarrow> Inl (Errorf ''unknown field %q'' [name])
           | Some field \<Rightarrow>
               (if fld_Kind field = FieldKindVirtualAlias
                then case ResolveAlias schema name of
                       None \<Rightarrow> Inl (Errorf ''invalid alias %q'' [name]) | Some f \<Rightarrow> Inr f
                else Inr field))
      | [_] \<Rightarrow> Inl (Errorf ''size() argument must be a field'' [])
      | _ \<Rightarrow> Inl (Errorf ''size() expects one argument'' []))"

definition renderFunctionComparison ::
    "string \<Rightarrow> ValueExpr list \<Rightarrow> ComparisonOperator \<Rightarrow> ValueExpr \<Rightarrow> renderResult rm" where
  "renderFunctionComparison fname args op right = (\<lambda>r.
     bindR (liftR (size_field (r_schema r) fname args)) (\<lambda>field.
     bindR (liftR (expectNumericLiteral right)) (\<lambda>value.
     bindR (liftR
       (if fld_Kind field = FieldKindJSONList then Inr (jsonArrayLengthExpr (r_dialect r) field)
        else if fld_Kind field = FieldKindScalar \<and> fld_Type field = FieldTypeString
        then Inr (stringLengthExpr (r_dialect r) (columnExpr field (r_dialect r)))
        else Inl (Errorf ''size() does not support field %q'' [fld_Name field]))) (\<lambda>expr.
       comparison_sql expr op (VInt64 value)))) r)"

text \<open>The literal of a scalar comparison, converted to the field's type.\<close>

definition scalar_arg :: "Field \<Rightarrow> any_value \<Rightarrow> any_value result" where
  "scalar_arg field lit =
     (case fld_Type field of
        FieldTypeString \<Rightarrow>
          (case lit of VString v \<Rightarrow> Inr (VString v)
           | _ \<Rightarrow> Inl (Errorf ''field %q expects string value'' [fld_Name field]))
      | FieldTypeInt \<Rightarrow>
          bindE (wrapE ''field %q expects integer value'' (toInt64 lit)) (\<lambda>n. Inr (VInt64 n))
      | FieldTypeTimestamp \<Rightarrow>
          bindE (wrapE ''field %q expects integer value'' (toInt64 lit)) (\<lambda>n. Inr (VInt64 n))
      | FieldTypeBool \<Rightarrow> Inl (Errorf ''unsupported data type %q for field %s'' [''bool'', fld_Name field]))"

definition renderScalarComparison ::
    "Field \<Rightarrow> ComparisonOperator \<Rightarrow> ValueExpr \<Rightarrow> renderResult rm" where
  "renderScalarComparison field op right = (\<lambda>r.
     bindR (liftR (expectLiteral right)) (\<lambda>lit.
       if lit = VNil then
         (case op of
            CompareEq \<Rightarrow> retR (sql_result (columnExpr field (r_dialect r) @ '' IS NULL''))
          | CompareNeq \<Rightarrow> retR (sql_result (columnExpr field (r_dialect r) @ '' IS NOT NULL''))
          | _ \<Rightarrow> errR ''operator %s not supported for null comparison'' [sqlOperator op])
       else bindR (liftR (scalar_arg field lit)) (\<lambda>value.
              comparison_sql (columnExpr field (r_dialect r)) op value)) r)"

definition renderBoolColumnComparison ::
    "Field \<Rightarrow> ComparisonOperator \<Rightarrow> ValueExpr \<Rightarrow> renderResult rm" where
  "renderBoolColumnComparison field op right = (\<lambda>r.
     bindR (liftR (expectBool right)) (\<lambda>value.
     bindR (addBoolArg value) (\<lambda>ph.
       retR (sql_result (qualifyColumn (r_dialect r) (fld_Column field) @ '' '' @ sqlOperator op @ '' '' @ ph)))) r)"

definition sqlite_json_bool :: "Field \<Rightarrow> string \<Rightarrow> ComparisonOperator \<Rightarrow> bool \<Rightarrow> string result" where
  "sqlite_json_bool field jsonExpr op value =
     (case op of
        CompareEq \<Rightarrow>
          (if fld_Name field = ''has_task_list''
           then Inr (jsonExpr @ '' = '' @ (if value then ''1'' else ''0''))
           else if value then Inr (jsonExpr @ '' IS TRUE'')
           else Inr (''NOT('' @ jsonExpr @ '' IS TRUE)''))
      | CompareNeq \<Rightarrow>
          (if fld_Name field = ''has_task_list''
           then Inr (jsonExpr @ '' != '' @ (if value then ''1'' else ''0''))
           else if value then Inr (''NOT('' @ jsonExpr @ '' IS TRUE)'')
           else Inr (jsonExpr @ '' IS TRUE''))
      | _ \<Rightarrow> Inl (Errorf ''operator %s not supported for boolean JSON field'' [sqlOperator op]))"

definition renderJSONBoolComparison ::
    "Field \<Rightarrow> ComparisonOperator \<Rightarrow> ValueExpr \<Rightarrow> renderResult rm" where
  "renderJSONBoolComparison field op right = (\<lambda>r.
     bindR (liftR (expectBool right)) (\<lambda>value.
       let jsonExpr = jsonExtractExpr (r_dialect r) field in
       case r_dialect r of
         DialectSQLite \<Rightarrow>
           bindR (liftR (sqlite_json_bool field jsonExpr op value)) (\<lambda>s. retR (sql_result s))
       | DialectMySQL \<Rightarrow>
           retR (sql_result (jsonExpr @ '' '' @ sqlOperator op @ '' CAST('' @ [CHR 0x27] @ (if value then ''true'' else ''false'') @ [CHR 0x27] @ '' AS JSON)''))
       | DialectPostgres \<Rightarrow>
           bindR (addArg (VBool value)) (\<lambda>ph.
             retR (sql_result (''('' @ jsonExpr @ '')::boolean '' @ sqlOperator op @ '' '' @ ph)))
       | DialectOther n \<Rightarrow> errR ''unsupported dialect %s'' [n]) r)"

definition renderJSONExistsComparison ::
    "Field \<Rightarrow> ComparisonOperator \<Rightarrow> ValueExpr \<Rightarrow> renderResult rm" where
  "renderJSONExistsComparison field op right = (\<lambda>r.
     bindR (liftR (wrapE ''json existence comparison requires a boolean value'' (expectBool right)))
       (\<lambda>value.
     bindR (liftR (wrapE ''failed to render JSON existence comparison''
                     (jsonExistsSQL (r_dialect r) field))) (\<lambda>existsSQL.
     bindR (case op of
              CompareEq \<Rightarrow> retR value
            | CompareNeq \<Rightarrow> retR (\<not> value)
            | _ \<Rightarrow> errR ''operator %s not supported for field %q'' [sqlOperator op, fld_Name field])
       (\<lambda>want. retR (sql_result (if want then existsSQL else ''NOT ('' @ existsSQL @ '')''))))) r)"

definition renderComparison ::
    "ValueExpr \<Rightarrow> ComparisonOperator \<Rightarrow> ValueExpr \<Rightarrow> renderResult rm" where
  "renderComparison left op right = (\<lambda>r.
     case left of
       FieldRef name \<Rightarrow>
         (case schema_Field (r_schema r) name of
            None \<Rightarrow> errR ''unknown field %q'' [name] r
          | Some field \<Rightarrow>
              (case fld_Kind field of
                 FieldKindBoolColumn \<Rightarrow> renderBoolColumnComparison field op right r
               | FieldKindJSONBool \<Rightarrow> renderJSONBoolComparison field op right r
               | FieldKindJSONExists \<Rightarrow> renderJSONExistsComparison field op right r
               | FieldKindScalar \<Rightarrow> renderScalarComparison field op right r
               | _ \<Rightarrow> errR ''field %q does not support comparison'' [fld_Name field] r))
     | FunctionValue fname args \<Rightarrow> renderFunctionComparison fname args op right r
     | FieldAccessorValue name accessor \<Rightarrow> renderAccessorComparison name accessor op right r
     | LiteralValue _ \<Rightarrow>
         errR ''comparison must start with a field reference or supported function'' [] r)"

definition tag_value_sql :: "Field \<Rightarrow> ValueExpr \<Rightarrow> string rm" where
  "tag_value_sql field v =
     bindR (liftR (expectLiteral v)) (\<lambda>lit.
       case lit of
         VString str \<Rightarrow> bindR (renderJSONListContains field str) (\<lambda>condition. retR (rr_sql condition))
       | _ \<Rightarrow> errR ''tags must be compared with string literals'' [])"

definition renderTagInList :: "ValueExpr list \<Rightarrow> renderResult rm" where
  "renderTagInList values = (\<lambda>r.
     case ResolveAlias (r_schema r) ''tag'' of
       None \<Rightarrow> errR ''tag attribute is not configured'' [] r
     | Some field \<Rightarrow>
         bindR (mapR (tag_value_sql field) values) (\<lambda>conditions.
           retR (sql_result
             (case conditions of
                [] \<Rightarrow> ''1 = 0''
              | [c] \<Rightarrow> c
              | _ \<Rightarrow> ''('' @ join '' OR '' conditions @ '')''))) r)"

definition scalar_in_arg :: "Field \<Rightarrow> ValueExpr \<Rightarrow> string rm" where
  "scalar_in_arg field v =
     bindR (liftR (expectLiteral v)) (\<lambda>lit.
       case fld_Type field of
         FieldTypeString \<Rightarrow>
           (case lit of VString str \<Rightarrow> addArg (VString str)
            | _ \<Rightarrow> errR ''field %q expects string values'' [fld_Name field])
       | FieldTypeInt \<Rightarrow> bindR (liftR (toInt64 lit)) (\<lambda>num. addArg (VInt64 num))
       | _ \<Rightarrow> errR ''field %q does not support IN() comparisons'' [fld_Name field])"

definition renderScalarInCondition :: "Field \<Rightarrow> ValueExpr list \<Rightarrow> renderResult rm" where
  "renderScalarInCondition field values = (\<lambda>r.
     bindR (mapR (scalar_in_arg field) values) (\<lambda>placeholders.
       retR (sql_result (columnExpr field (r_dialect r) @ '' IN ('' @ join '','' placeholders @ '')''))) r)"

definition renderInCondition :: "ValueExpr \<Rightarrow> ValueExpr list \<Rightarrow> renderResult rm" where
  "renderInCondition left values = (\<lambda>r.
     case left of
       FieldRef name \<Rightarrow>
         (if name = ''tag'' then renderTagInList values r
          else case schema_Field (r_schema r) name of
                 None \<Rightarrow> errR ''unknown field %q'' [name] r
               | Some field \<Rightarrow>
                   (if fld_Kind field \<noteq> FieldKindScalar
                    then errR ''field %q does not support IN()'' [name] r
                    else renderScalarInCondition field values r))
     | _ \<Rightarrow> errR ''IN operator requires a field on the left-hand side'' [] r)"

definition renderElementInCondition :: "ValueExpr \<Rightarrow> string \<Rightarrow> renderResult rm" where
  "renderElementInCondition element name = (\<lambda>r.
     case schema_Field (r_schema r) name of
       None \<Rightarrow> errR ''unknown field %q'' [name] r
     | Some field \<Rightarrow>
         (if fld_Kind field \<noteq> FieldKindJSONList then errR ''field %q is not a tag list'' [name] r
          else bindR (liftR (expectLiteral element)) (\<lambda>lit.
                 case lit of
                   VString str \<Rightarrow> renderJSONListContains field str
                 | _ \<Rightarrow> errR ''tags membership requires string literal'' []) r))"

definition renderTextMatch :: "string \<Rightarrow> TextMatchMode \<Rightarrow> string \<Rightarrow> renderResult rm" where
  "renderTextMatch name mode value = (\<lambda>r.
     case schema_Field (r_schema r) name of
       None \<Rightarrow> errR ''unknown field %q'' [name] r
     | Some field \<Rightarrow>
         bindR (foldedLike (columnExpr field (r_dialect r)) (likePattern mode value))
           (\<lambda>s. retR (sql_result s)) r)"

definition renderRegex :: "string \<Rightarrow> string \<Rightarrow> renderResult rm" where
  "renderRegex name pattern = (\<lambda>r.
     case schema_Field (r_schema r) name of
       None \<Rightarrow> errR ''unknown field %q'' [name] r
     | Some field \<Rightarrow>
         (let column = columnExpr field (r_dialect r) in
          case r_dialect r of
            DialectPostgres \<Rightarrow>
              bindR (addArg (VString pattern)) (\<lambda>ph. retR (sql_result (column @ '' ~ '' @ ph))) r
          | DialectOther n \<Rightarrow> errR ''unsupported dialect %s'' [n] r
          | _ \<Rightarrow>
              bindR (addArg (VString pattern)) (\<lambda>ph. retR (sql_result (column @ '' REGEXP '' @ ph))) r))"

section \<open>Boolean structure\<close>

definition combineAnd :: "renderResult \<Rightarrow> renderResult \<Rightarrow> renderResult" where
  "combineAnd left right =
     (if rr_unsatisfiable left \<or> rr_unsatisfiable right then unsatisfiable_result
      else if rr_trivial left then right
      else if rr_trivial right then left
      else sql_result (''('' @ rr_sql left @ '' AND '' @ rr_sql right @ '')''))"

definition combineOr :: "renderResult \<Rightarrow> renderResult \<Rightarrow> renderResult" where
  "combineOr left right =
     (if rr_trivial left \<or> rr_trivial right then trivial_result
      else if rr_unsatisfiable left then right
      else if rr_unsatisfiable right then left
      else sql_result (''('' @ rr_sql left @ '' OR '' @ rr_sql right @ '')''))"

definition combineNot :: "renderResult \<Rightarrow> renderResult" where
  "combineNot child =
     (if rr_trivial child then unsatisfiable_result
      else if rr_unsatisfiable child then trivial_result
      else sql_result (''NOT ('' @ rr_sql child @ '')''))"

fun renderCondition :: "Condition \<Rightarrow> renderResult rm" where
  "renderCondition (LogicalCondition op left right) =
     bindR (renderCondition left) (\<lambda>l. bindR (renderCondition right) (\<lambda>x.
       retR (case op of LogicalAnd \<Rightarrow> combineAnd l x | LogicalOr \<Rightarrow> combineOr l x)))"
| "renderCondition (NotCondition c) = bindR (renderCondition c) (\<lambda>child. retR (combineNot child))"
| "renderCondition (FieldPredicateCondition name) = renderFieldPredicate name"
| "renderCondition (ComparisonCondition left op right) = renderComparison left op right"
| "renderCondition (InCondition left values) = renderInCondition left values"
| "renderCondition (ElementInCondition element name) = renderElementInCondition element name"
| "renderCondition (TextMatchCondition name mode value) = renderTextMatch name mode value"
| "renderCondition (RegexCondition name pattern) = renderRegex name pattern"
| "renderCondition (ListComprehensionCondition kind name iterVar pred) =
     renderListComprehension kind name pred"
| "renderCondition (ConstantCondition v) =
     retR (if v then trivial_result else unsatisfiable_result)"

definition Render :: "Schema \<Rightarrow> RenderOptions \<Rightarrow> Condition \<Rightarrow> Statement result" where
  "Render schema opts cond =
     bindE (renderCondition cond (newRenderer schema opts)) (\<lambda>(result, r).
       Inr \<lparr>st_SQL = (if rr_unsatisfiable result then ''1 = 0''
                      else if rr_trivial result then [] else rr_sql result),
            st_Args = r_args r\<rparr>)"

section \<open>The engine (engine.go)\<close>

text \<open>
  \<open>env_Compile\<close> is the CEL compiler followed by \<open>cel.AstToParsedExpr\<close>: it parses and
  type-checks a filter text. The clock is the engine's \<open>nowFunc\<close>.
\<close>

record Engine =
  eng_schema :: Schema
  eng_env_Compile :: "string \<Rightarrow> Expr result"
  eng_now :: go_time
  eng_time :: time_lib

record Program =
  prog_schema :: Schema
  prog_condition :: Condition

definition Compile :: "Engine \<Rightarrow> string \<Rightarrow> Program result" where
  "Compile e filterText =
     (if trim_space filterText = [] then Inl (Errorf ''filter expression is empty'' [])
      else bindE (wrapE ''failed to compile filter'' (eng_env_Compile e filterText)) (\<lambda>expr.
           bindE (buildCondition expr
                    \<lparr>pc_schema = eng_schema e, pc_now = eng_now e, pc_time = eng_time e\<rparr>) (\<lambda>cond.
             Inr \<lparr>prog_schema = eng_schema e, prog_condition = cond\<rparr>)))"

definition program_Render :: "Program \<Rightarrow> RenderOptions \<Rightarrow> Statement result" where
  "program_Render p opts = Render (prog_schema p) opts (prog_condition p)"

definition CompileToStatement :: "Engine \<Rightarrow> string \<Rightarrow> RenderOptions \<Rightarrow> Statement result" where
  "CompileToStatement e filterText opts =
     bindE (Compile e filterText) (\<lambda>program. program_Render program opts)"

section \<open>Appending filters to a query (helpers.go)\<close>

fun AppendConditions ::
    "Engine \<Rightarrow> string list \<Rightarrow> DialectName \<Rightarrow> string list \<Rightarrow> any_value list
      \<Rightarrow> (string list \<times> any_value list) result" where
  "AppendConditions e [] dialect wheres args = Inr (wheres, args)"
| "AppendConditions e (filterStr # filters) dialect wheres args =
     bindE (CompileToStatement e filterStr
              \<lparr>ro_Dialect = dialect, ro_PlaceholderOffset = length args, ro_DisableNullChecks = False\<rparr>)
       (\<lambda>stmt.
         if st_SQL stmt = [] then AppendConditions e filters dialect wheres args
         else AppendConditions e filters dialect (wheres @ [''('' @ st_SQL stmt @ '')''])
                (args @ st_Args stmt))"

end
