(* ===== verification/Filter_Placeholders.thy ===== *)
theory Filter_Placeholders
  imports Filter_Render
begin

text \<open>
  Placeholders and bind arguments: a rendered condition without constant sub-conditions names
  exactly the arguments it appended, each once, numbered consecutively after the offset and in
  the order of the text. Constant folding drops the text of a sub-condition but not its
  arguments, so the property needs its hypothesis.
\<close>

section \<open>The placeholders of a SQL text\<close>

definition mark_char :: "DialectName \<Rightarrow> char" where
  "mark_char d = (if d = DialectPostgres then CHR ''$'' else CHR ''?'')"

text \<open>The placeholders in the order of the text: the mark with the digits that follow it.\<close>

fun marks :: "DialectName \<Rightarrow> string \<Rightarrow> string list" where
  "marks d [] = []"
| "marks d (c # s) = (if c = mark_char d then (c # takeWhile is_digit s) # marks d s else marks d s)"

definition plain :: "DialectName \<Rightarrow> string \<Rightarrow> bool" where
  "plain d s = (mark_char d \<notin> set s)"

lemma plain_append [simp]: "plain d (a @ b) \<longleftrightarrow> plain d a \<and> plain d b"
  by (auto simp: plain_def)

lemma plain_Nil [simp]: "plain d []"
  by (simp add: plain_def)

lemma plain_Cons [simp]: "plain d (c # s) \<longleftrightarrow> c \<noteq> mark_char d \<and> plain d s"
  by (auto simp: plain_def)

lemma mark_char_simps [simp]:
  "mark_char DialectPostgres = CHR ''$''" "mark_char DialectSQLite = CHR ''?''"
  "mark_char DialectMySQL = CHR ''?''" "mark_char (DialectOther n) = CHR ''?''"
  by (simp_all add: mark_char_def)

lemma mark_char_cases: "mark_char d = CHR ''$'' \<or> mark_char d = CHR ''?''"
  by (simp add: mark_char_def)

lemma mark_char_not [simp]:
  "c \<noteq> CHR ''$'' \<Longrightarrow> c \<noteq> CHR ''?'' \<Longrightarrow> (c = mark_char d) = False"
  "c \<noteq> CHR ''$'' \<Longrightarrow> c \<noteq> CHR ''?'' \<Longrightarrow> (mark_char d = c) = False"
  using mark_char_cases [of d] by auto

lemma marks_plain: "plain d s \<Longrightarrow> marks d s = []"
  by (induction s) (auto simp: plain_def)

lemma marks_plain_append: "plain d a \<Longrightarrow> marks d (a @ b) = marks d b"
  by (induction a) auto

lemma takeWhile_digit_append:
  "\<not> is_digit c \<Longrightarrow> takeWhile is_digit (a @ c # b) = takeWhile is_digit a"
  by (induction a) auto

lemma marks_append: "\<not> is_digit c \<Longrightarrow> marks d (a @ c # b) = marks d a @ marks d (c # b)"
  by (induction a) (auto simp: takeWhile_digit_append)

lemma mark_char_not_digit: "\<not> is_digit (mark_char d)"
  using mark_char_cases [of d] by (auto simp: is_digit_def)

lemma decimal_not_mark: "mark_char d \<notin> set (decimal n)"
  using decimal_digits [of n] mark_char_not_digit [of d] by (auto simp: list_all_iff)

lemma plain_decimal [simp]: "plain d (decimal n)"
  by (simp add: plain_def decimal_not_mark)

lemma marks_placeholder: "marks d (placeholder d n) = [placeholder d n]"
proof -
  have "takeWhile is_digit (decimal n) = decimal n"
    using decimal_digits [of n] by (simp add: takeWhile_eq_all_conv list_all_iff)
  then show ?thesis by (simp add: placeholder_def mark_char_def marks_plain)
qed

section \<open>Schemas whose texts hold no placeholder\<close>

definition schema_plain :: "Schema \<Rightarrow> bool" where
  "schema_plain s =
     (\<forall>name f d. sch_Fields s name = Some f \<longrightarrow>
        plain d (columnExpr f d) \<and> plain d (qualifyColumn d (fld_Column f))
        \<and> (\<forall>p \<in> set (fld_JSONPath f). plain d p))"

lemma plain_drop: "plain d s \<Longrightarrow> plain d (drop n s)"
  by (auto simp: plain_def dest: in_set_dropD)

lemma sprintf1_plain: "plain m e \<Longrightarrow> plain m a \<Longrightarrow> plain m (sprintf1 e a u)"
proof (induction e a u rule: sprintf1.induct)
  case (3 c d cs a used)
  then show ?case by (simp add: plain_drop)
qed simp_all

definition field_plain :: "Field \<Rightarrow> bool" where
  "field_plain f =
     (\<forall>d. plain d (col_Table (fld_Column f)) \<and> plain d (col_Name (fld_Column f))
        \<and> (\<forall>p \<in> set (fld_JSONPath f). plain d p)
        \<and> (\<forall>e. fld_Expressions f d = Some e \<longrightarrow> plain d e))"

lemma qualifyColumn_plain:
  "plain d (col_Table c) \<Longrightarrow> plain d (col_Name c) \<Longrightarrow> plain d (qualifyColumn d c)"
  by (cases "d = DialectPostgres") (simp_all add: qualifyColumn_def)

lemma field_plain_texts:
  assumes "field_plain f"
  shows "plain d (columnExpr f d)" "plain d (qualifyColumn d (fld_Column f))"
    "p \<in> set (fld_JSONPath f) \<Longrightarrow> plain d p"
  using assms
  by (auto simp: field_plain_def columnExpr_def Let_def qualifyColumn_plain sprintf1_plain
      split: option.splits)

lemma fields_plain: "list_all (\<lambda>(n, f). field_plain f) fs \<Longrightarrow> map_of fs name = Some f \<Longrightarrow> field_plain f"
  by (auto dest!: map_of_SomeD simp: list_all_iff)

lemmas schema_expr_defs = creator_expr_def creator_expr_mysql_def memo_space_expr_sqlite_def
  memo_space_expr_mysql_def memo_space_expr_postgres_def attachment_space_expr_sqlite_def
  attachment_space_expr_mysql_def attachment_space_expr_postgres_def

lemma memo_fields_plain: "list_all (\<lambda>(n, f). field_plain f) memo_fields"
  by (simp add: memo_fields_def field_plain_def schema_expr_defs split: if_splits)

lemma attachment_fields_plain: "list_all (\<lambda>(n, f). field_plain f) attachment_fields"
  by (simp add: attachment_fields_def field_plain_def schema_expr_defs split: if_splits)

lemma NewSchema_plain: "schema_plain NewSchema"
  using fields_plain [OF memo_fields_plain]
  by (auto simp: schema_plain_def NewSchema_def intro: field_plain_texts)

lemma NewAttachmentSchema_plain: "schema_plain NewAttachmentSchema"
  using fields_plain [OF attachment_fields_plain]
  by (auto simp: schema_plain_def NewAttachmentSchema_def intro: field_plain_texts)

section \<open>The contract of the rendering methods\<close>

lemma bindR_Inr_iff [result_simps]:
  "bindR m f r = Inr (b, r2) \<longleftrightarrow> (\<exists>a r1. m r = Inr (a, r1) \<and> f a r1 = Inr (b, r2))"
  by (auto simp: bindR_def split: sum.splits)

lemma retR_Inr_iff [result_simps]: "retR a r = Inr (b, r') \<longleftrightarrow> b = a \<and> r' = r"
  by (auto simp: retR_def)

lemma errR_Inr_iff [result_simps]: "errR fmt as r = Inr (b, r') \<longleftrightarrow> False"
  by (simp add: errR_def)

lemma liftR_Inr_iff [result_simps]: "liftR m r = Inr (b, r') \<longleftrightarrow> m = Inr b \<and> r' = r"
  by (auto simp: liftR_def split: sum.splits)

lemma string_literal_Inr_iff [result_simps]:
  "(case lit of VString s \<Rightarrow> f s | _ \<Rightarrow> errR fmt as) r = Inr (b, r')
     \<longleftrightarrow> (\<exists>s. lit = VString s \<and> f s r = Inr (b, r'))"
  by (cases lit) (simp_all add: errR_def)

text \<open>
  \<open>ph_ok r s r'\<close>: the text \<open>s\<close> written between the states \<open>r\<close> and \<open>r'\<close> holds exactly the
  placeholders of the arguments appended between them, in order.
\<close>

definition ph_ok :: "renderer \<Rightarrow> string \<Rightarrow> renderer \<Rightarrow> bool" where
  "ph_ok r s r' \<longleftrightarrow>
     r_schema r' = r_schema r \<and> r_dialect r' = r_dialect r
     \<and> r_placeholderOffset r' = r_placeholderOffset r
     \<and> (\<exists>vs. r_args r' = r_args r @ vs
          \<and> r_placeholderCounter r' = r_placeholderCounter r + length vs)
     \<and> marks (r_dialect r) s =
         map (placeholder (r_dialect r))
           [r_placeholderOffset r + r_placeholderCounter r + 1
            ..< r_placeholderOffset r + r_placeholderCounter r' + 1]"

lemma ph_refl: "plain (r_dialect r) s \<Longrightarrow> ph_ok r s r"
  by (simp add: ph_ok_def marks_plain)

lemma ph_text: "ph_ok r s r' \<Longrightarrow> marks (r_dialect r) u = marks (r_dialect r) s \<Longrightarrow> ph_ok r u r'"
  by (simp add: ph_ok_def)

lemma ph_frame:
  assumes "ph_ok r s r'"
  shows "r_schema r' = r_schema r" "r_dialect r' = r_dialect r"
  using assms by (simp_all add: ph_ok_def)

lemma ph_trans:
  assumes "ph_ok r s r1" "ph_ok r1 t r2"
    and "marks (r_dialect r) u = marks (r_dialect r) s @ marks (r_dialect r) t"
  shows "ph_ok r u r2"
proof -
  define n0 n1 n2 where n: "n0 = r_placeholderOffset r + r_placeholderCounter r + 1"
    "n1 = r_placeholderOffset r + r_placeholderCounter r1 + 1"
    "n2 = r_placeholderOffset r + r_placeholderCounter r2 + 1"
  have le: "n0 \<le> n1" "n1 \<le> n2" using assms(1,2) by (auto simp: ph_ok_def n)
  have "[n0..<n1] @ [n1..<n2] = [n0..<n2]"
    using le by (rule upt_join)
  then have "map (placeholder (r_dialect r)) [n0..<n2]
      = map (placeholder (r_dialect r)) [n0..<n1] @ map (placeholder (r_dialect r)) [n1..<n2]"
    by (metis map_append)
  then have "marks (r_dialect r) u = map (placeholder (r_dialect r)) [n0..<n2]"
    using assms by (simp add: ph_ok_def n)
  then show ?thesis using assms(1,2) by (auto simp: ph_ok_def n)
qed

lemma ph_addArg: "addArg v r = Inr (ph, r') \<Longrightarrow> ph_ok r ph r'"
  by (auto simp: addArg_def Let_def ph_ok_def marks_placeholder)

lemma ph_addBoolArg: "addBoolArg v r = Inr (ph, r') \<Longrightarrow> ph_ok r ph r'"
  by (auto simp: addBoolArg_def intro: ph_addArg)

definition emits :: "string rm \<Rightarrow> bool" where
  "emits m \<longleftrightarrow> (\<forall>r s r'. schema_plain (r_schema r) \<longrightarrow> m r = Inr (s, r') \<longrightarrow> ph_ok r s r')"

definition emits_result :: "renderResult rm \<Rightarrow> bool" where
  "emits_result m \<longleftrightarrow>
     (\<forall>r x r'. schema_plain (r_schema r) \<longrightarrow> m r = Inr (x, r') \<longrightarrow>
        ph_ok r (rr_sql x) r' \<and> \<not> rr_trivial x \<and> \<not> rr_unsatisfiable x)"

named_theorems emission \<open>the rendering methods keep text and arguments in step\<close>

lemma emitsI:
  "(\<And>r s r'. schema_plain (r_schema r) \<Longrightarrow> m r = Inr (s, r') \<Longrightarrow> ph_ok r s r') \<Longrightarrow> emits m"
  by (simp add: emits_def)

lemma emitsD: "emits m \<Longrightarrow> schema_plain (r_schema r) \<Longrightarrow> m r = Inr (s, r') \<Longrightarrow> ph_ok r s r'"
  by (simp add: emits_def)

lemma emits_resultI:
  "(\<And>r x r'. schema_plain (r_schema r) \<Longrightarrow> m r = Inr (x, r') \<Longrightarrow>
      ph_ok r (rr_sql x) r' \<and> \<not> rr_trivial x \<and> \<not> rr_unsatisfiable x) \<Longrightarrow> emits_result m"
  by (simp add: emits_result_def)

lemma emits_resultD:
  assumes "emits_result m" "schema_plain (r_schema r)" "m r = Inr (x, r')"
  shows "ph_ok r (rr_sql x) r'" "\<not> rr_trivial x" "\<not> rr_unsatisfiable x"
  using assms by (auto simp: emits_result_def)

lemma sql_result_sel [simp]:
  "rr_sql (sql_result s) = s" "\<not> rr_trivial (sql_result s)" "\<not> rr_unsatisfiable (sql_result s)"
  by (simp_all add: sql_result_def)

text \<open>Text around one placeholder, and the texts of a plain schema.\<close>

lemma marks_around:
  assumes "plain d a" "\<not> is_digit c" "plain d (c # b)"
  shows "marks d (a @ ph @ c # b) = marks d ph"
  using assms by (simp add: marks_plain_append marks_append marks_plain)

lemma schema_plain_field:
  assumes "schema_plain s" "schema_Field s name = Some f"
  shows "plain d (columnExpr f d)" "plain d (qualifyColumn d (fld_Column f))"
    "\<forall>p \<in> set (fld_JSONPath f). plain d p"
  using assms by (auto simp: schema_plain_def schema_Field_def)

lemma schema_plain_alias:
  assumes "schema_plain s" "ResolveAlias s name = Some f"
  shows "plain d (columnExpr f d)" "plain d (qualifyColumn d (fld_Column f))"
    "\<forall>p \<in> set (fld_JSONPath f). plain d p"
  using assms by (auto simp: schema_plain_def ResolveAlias_def split: option.splits if_splits)

lemma plain_join: "plain d sep \<Longrightarrow> \<forall>x \<in> set xs. plain d x \<Longrightarrow> plain d (join sep xs)"
  by (induction sep xs rule: join.induct) auto

lemma json_accessor_plain:
  "plain d e \<Longrightarrow> \<forall>p \<in> set path. plain d p \<Longrightarrow> plain d (json_accessor e path t)"
  by (induction e path t rule: json_accessor.induct) auto

lemma json_texts_plain:
  assumes "plain d (qualifyColumn d (fld_Column f))" "\<forall>p \<in> set (fld_JSONPath f). plain d p"
  shows "plain d (jsonExtractExpr d f)" "plain d (jsonArrayExpr d f)"
    "plain d (jsonArrayLengthExpr d f)"
  using assms
  by (cases d; simp add: jsonExtractExpr_def jsonArrayExpr_def jsonArrayLengthExpr_def Let_def
      jsonPath_def plain_join buildPostgresJSONAccessor_def json_accessor_plain)+

lemma sqlOperator_plain [simp]: "plain d (sqlOperator op)"
  by (cases op) auto

section \<open>Every method keeps the contract\<close>

lemma comparison_sql_emits [emission]:
  assumes "plain (r_dialect r) expr" "comparison_sql expr op v r = Inr (x, r')"
  shows "ph_ok r (rr_sql x) r' \<and> \<not> rr_trivial x \<and> \<not> rr_unsatisfiable x"
  using assms
  by (auto simp: comparison_sql_def result_simps marks_plain_append dest!: ph_addArg intro: ph_text)

lemma foldedLike_emits:
  assumes "plain (r_dialect r) col" "foldedLike col pat r = Inr (s, r')"
  shows "ph_ok r s r'"
proof -
  from assms(2) obtain ph where ph: "ph_ok r ph r'"
    and s: "s = (case r_dialect r of
        DialectSQLite \<Rightarrow> ''memos_unicode_lower('' @ col @ '') LIKE memos_unicode_lower('' @ ph
            @ '') ESCAPE '' @ [CHR 0x27] @ [CHR 0x5C] @ [CHR 0x27]
      | DialectPostgres \<Rightarrow> col @ '' ILIKE '' @ ph
      | _ \<Rightarrow> col @ '' LIKE '' @ ph)"
    by (auto simp: foldedLike_def result_simps dest: ph_addArg)
  have "marks (r_dialect r) s = marks (r_dialect r) ph"
    using assms(1) s
    by (cases "r_dialect r") (simp_all add: marks_plain_append marks_append is_digit_def)
  with ph show ?thesis by (rule ph_text)
qed

lemma tagElementTextMatch_emits:
  assumes "plain (r_dialect r) el" "tagElementTextMatch el mode v r = Inr (s, r')"
  shows "ph_ok r s r'"
proof (cases "v = []")
  case True
  with assms(2) show ?thesis by (auto simp: tagElementTextMatch_def result_simps intro: ph_refl)
next
  case False
  show ?thesis
  proof (cases "r_dialect r = DialectSQLite \<and> mode = TextMatchSuffix")
    case True
    with False assms obtain p1 r1 p2 where ok: "ph_ok r p1 r1" "ph_ok r1 p2 r'"
      and s: "s = ''(substr('' @ el @ '', -length('' @ p1 @ '')) COLLATE BINARY) = ('' @ p2
                @ '' COLLATE BINARY)''"
      by (auto simp: tagElementTextMatch_def result_simps dest!: ph_addArg)
    have "marks (r_dialect r) s = marks (r_dialect r) p1 @ marks (r_dialect r) p2"
      using s assms(1) True by (simp add: marks_plain_append marks_append is_digit_def)
    with ok show ?thesis by (rule ph_trans)
  next
    case other: False
    obtain ph where ok: "ph_ok r ph r'" and "marks (r_dialect r) s = marks (r_dialect r) ph"
      using assms False other
      by (cases "r_dialect r"; cases mode)
        (auto simp: tagElementTextMatch_def result_simps marks_plain_append marks_append is_digit_def
          dest!: ph_addArg)
    then show ?thesis by (rule ph_text)
  qed
qed

lemma tagElementPredicateSQL_emits:
  assumes "plain (r_dialect r) el" "tagElementPredicateSQL el pred r = Inr (s, r')"
  shows "ph_ok r s r'"
proof (cases pred)
  case (EqualsPredicate v)
  with assms obtain ph where ok: "ph_ok r ph r'" and "marks (r_dialect r) s = marks (r_dialect r) ph"
    by (cases "r_dialect r")
      (auto simp: tagElementPredicateSQL_def result_simps marks_plain_append marks_append is_digit_def
        dest!: ph_addArg)
  then show ?thesis by (rule ph_text)
qed (use assms in \<open>auto simp: tagElementPredicateSQL_def intro: tagElementTextMatch_emits\<close>)

lemma tag_rows_plain:
  assumes "tag_rows d arr = Inr (els, len)" "plain d arr"
  shows "plain d els \<and> plain d len"
  using assms by (cases d) (auto simp: tag_rows_def Let_def)

lemma renderTagComprehension_emits:
  assumes "plain (r_dialect r) (jsonArrayExpr (r_dialect r) f)"
    and "renderTagComprehension f pred kind r = Inr (x, r')"
  shows "ph_ok r (rr_sql x) r' \<and> \<not> rr_trivial x \<and> \<not> rr_unsatisfiable x"
proof -
  from assms(2) obtain elc els len where
    el: "tagElementPredicateSQL ''tag_item.value'' pred r = Inr (elc, r')"
    and rows: "tag_rows (r_dialect r) (jsonArrayExpr (r_dialect r) f) = Inr (els, len)"
    and x: "x = sql_result (case kind of
            ComprehensionExists \<Rightarrow> anyMatch (r_dialect r) els elc
          | ComprehensionAll \<Rightarrow> ''('' @ len @ '' > 0 AND ''
              @ noMatch (r_dialect r) els (''NOT ('' @ elc @ '')'') @ '')''
          | ComprehensionExistsOne \<Rightarrow> ''(SELECT COUNT(*) FROM '' @ els @ '' WHERE '' @ elc @ '') = 1'')"
    by (auto simp: renderTagComprehension_def Let_def result_simps)
  have ok: "ph_ok r elc r'"
    using el by (rule tagElementPredicateSQL_emits [rotated]) simp
  have "plain (r_dialect r) els" "plain (r_dialect r) len"
    using tag_rows_plain [OF rows assms(1)] by simp_all
  then have "marks (r_dialect r) (rr_sql x) = marks (r_dialect r) elc"
    using x by (cases kind; cases "r_dialect r = DialectMySQL")
      (simp_all add: anyMatch_def noMatch_def marks_plain_append marks_append marks_plain is_digit_def)
  with ok x show ?thesis by (auto intro: ph_text)
qed

lemma field_emits:
  assumes "schema_plain (r_schema r)" "schema_Field (r_schema r) name = Some f"
  shows "plain (r_dialect r) (columnExpr f (r_dialect r))"
    "plain (r_dialect r) (qualifyColumn (r_dialect r) (fld_Column f))"
    "plain (r_dialect r) (jsonExtractExpr (r_dialect r) f)"
    "plain (r_dialect r) (jsonArrayExpr (r_dialect r) f)"
    "plain (r_dialect r) (jsonArrayLengthExpr (r_dialect r) f)"
  using schema_plain_field [OF assms] by (simp_all add: json_texts_plain)

lemma alias_emits:
  assumes "schema_plain (r_schema r)" "ResolveAlias (r_schema r) name = Some f"
  shows "plain (r_dialect r) (columnExpr f (r_dialect r))"
    "plain (r_dialect r) (qualifyColumn (r_dialect r) (fld_Column f))"
    "plain (r_dialect r) (jsonArrayExpr (r_dialect r) f)"
    "plain (r_dialect r) (jsonArrayLengthExpr (r_dialect r) f)"
  using schema_plain_alias [OF assms] by (simp_all add: json_texts_plain)

lemma jsonBoolPredicate_plain:
  "jsonBoolPredicate d f = Inr s \<Longrightarrow> plain d (jsonExtractExpr d f) \<Longrightarrow> plain d s"
  by (cases d) (auto simp: jsonBoolPredicate_def Let_def)

lemma jsonExistsSQL_plain:
  "jsonExistsSQL d f = Inr s \<Longrightarrow> plain d (jsonExtractExpr d f) \<Longrightarrow> plain d s"
  by (cases d) (auto simp: jsonExistsSQL_def Let_def)

lemma renderFieldPredicate_emits [emission]: "emits_result (renderFieldPredicate name)"
  by (rule emits_resultI)
    (auto simp: renderFieldPredicate_def result_simps field_emits intro!: ph_refl
      dest: jsonBoolPredicate_plain jsonExistsSQL_plain
      split: option.splits FieldKind.splits)

lemma accessorSpecs_plain:
  assumes "accessorSpecs n = Some spec"
  shows "plain d (as_sqlite spec)" "plain d (as_pg spec)" "plain d (as_mysql spec)"
  using assms by (auto simp: accessorSpecs_def split: if_splits)

lemma timestampAccessorExpr_plain:
  assumes "timestampAccessorExpr d f acc = Inr s" "plain d (qualifyColumn d (fld_Column f))"
  shows "plain d s"
  using assms
  by (cases d)
    (auto simp: timestampAccessorExpr_def accessor_base_def result_simps accessorSpecs_plain
      split: option.splits if_splits)

lemma renderAccessorComparison_emits [emission]:
  "emits_result (renderAccessorComparison name acc op right)"
proof (rule emits_resultI)
  fix r x r'
  assume s: "schema_plain (r_schema r)"
    and x: "renderAccessorComparison name acc op right r = Inr (x, r')"
  then obtain f v e where f: "schema_Field (r_schema r) name = Some f"
    and e: "timestampAccessorExpr (r_dialect r) f acc = Inr e"
    and c: "comparison_sql e op (VInt64 v) r = Inr (x, r')"
    by (auto simp: renderAccessorComparison_def result_simps split: option.splits)
  have "plain (r_dialect r) e"
    using e field_emits(2) [OF s f] by (rule timestampAccessorExpr_plain)
  then show "ph_ok r (rr_sql x) r' \<and> \<not> rr_trivial x \<and> \<not> rr_unsatisfiable x"
    using c by (rule comparison_sql_emits)
qed

lemma size_field_source:
  assumes "size_field sch n args = Inr f"
  shows "\<exists>name. schema_Field sch name = Some f \<or> ResolveAlias sch name = Some f"
  using assms
  by (auto simp: size_field_def split: if_splits list.splits ValueExpr.splits option.splits)

lemma renderFunctionComparison_emits [emission]:
  "emits_result (renderFunctionComparison n args op right)"
proof (rule emits_resultI)
  fix r x r'
  assume s: "schema_plain (r_schema r)"
    and x: "renderFunctionComparison n args op right r = Inr (x, r')"
  then obtain f v e where f: "size_field (r_schema r) n args = Inr f"
    and e: "e = jsonArrayLengthExpr (r_dialect r) f
          \<or> e = stringLengthExpr (r_dialect r) (columnExpr f (r_dialect r))"
    and c: "comparison_sql e op (VInt64 v) r = Inr (x, r')"
    by (auto simp: renderFunctionComparison_def result_simps split: if_splits)
  have "plain (r_dialect r) (jsonArrayLengthExpr (r_dialect r) f)"
    "plain (r_dialect r) (columnExpr f (r_dialect r))"
    using size_field_source [OF f] s by (auto intro: field_emits alias_emits)
  then have "plain (r_dialect r) e"
    using e by (auto simp: stringLengthExpr_def)
  then show "ph_ok r (rr_sql x) r' \<and> \<not> rr_trivial x \<and> \<not> rr_unsatisfiable x"
    using c by (rule comparison_sql_emits)
qed

lemma renderScalarComparison_emits:
  assumes "plain (r_dialect r) (columnExpr f (r_dialect r))"
    and "renderScalarComparison f op right r = Inr (x, r')"
  shows "ph_ok r (rr_sql x) r' \<and> \<not> rr_trivial x \<and> \<not> rr_unsatisfiable x"
  using assms
  by (auto simp: renderScalarComparison_def result_simps
      intro!: ph_refl dest: comparison_sql_emits [rotated]
      split: if_splits ComparisonOperator.splits)

lemma renderBoolColumnComparison_emits:
  assumes "plain (r_dialect r) (qualifyColumn (r_dialect r) (fld_Column f))"
    and "renderBoolColumnComparison f op right r = Inr (x, r')"
  shows "ph_ok r (rr_sql x) r' \<and> \<not> rr_trivial x \<and> \<not> rr_unsatisfiable x"
  using assms
  by (auto simp: renderBoolColumnComparison_def result_simps marks_plain_append
      dest!: ph_addBoolArg intro: ph_text)

lemma sqlite_json_bool_plain:
  "sqlite_json_bool f e op v = Inr s \<Longrightarrow> plain d e \<Longrightarrow> plain d s"
  by (auto simp: sqlite_json_bool_def split: ComparisonOperator.splits if_splits)

lemma renderJSONBoolComparison_emits:
  assumes "plain (r_dialect r) (jsonExtractExpr (r_dialect r) f)"
    and "renderJSONBoolComparison f op right r = Inr (x, r')"
  shows "ph_ok r (rr_sql x) r' \<and> \<not> rr_trivial x \<and> \<not> rr_unsatisfiable x"
proof (cases "r_dialect r = DialectPostgres")
  case True
  with assms show ?thesis
    by (auto simp: renderJSONBoolComparison_def result_simps Let_def marks_plain_append
        dest!: ph_addArg intro: ph_text)
next
  case False
  with assms show ?thesis
    by (cases "r_dialect r")
      (auto simp: renderJSONBoolComparison_def result_simps Let_def
        dest: sqlite_json_bool_plain intro!: ph_refl)
qed

lemma renderJSONExistsComparison_emits:
  assumes "plain (r_dialect r) (jsonExtractExpr (r_dialect r) f)"
    and "renderJSONExistsComparison f op right r = Inr (x, r')"
  shows "ph_ok r (rr_sql x) r' \<and> \<not> rr_trivial x \<and> \<not> rr_unsatisfiable x"
  using assms
  by (cases op)
    (auto simp: renderJSONExistsComparison_def result_simps
      intro!: ph_refl dest: jsonExistsSQL_plain)

lemma renderComparison_emits [emission]: "emits_result (renderComparison left op right)"
proof (cases left)
  case (FieldRef name)
  then show ?thesis
    by (intro emits_resultI)
      (auto simp: renderComparison_def errR_Inr_iff split: option.splits FieldKind.splits
        dest!: renderScalarComparison_emits [rotated] renderBoolColumnComparison_emits [rotated]
          renderJSONBoolComparison_emits [rotated] renderJSONExistsComparison_emits [rotated]
        dest: field_emits)
next
  case (LiteralValue v)
  then show ?thesis by (intro emits_resultI) (simp add: renderComparison_def errR_Inr_iff)
next
  case (FunctionValue n args)
  then show ?thesis
    using renderFunctionComparison_emits [of n args op right]
    by (simp add: renderComparison_def emits_result_def)
next
  case (FieldAccessorValue n acc)
  then show ?thesis
    using renderAccessorComparison_emits [of n acc op right]
    by (simp add: renderComparison_def emits_result_def)
qed

text \<open>Lists of texts: the conditions of \<open>tag in [...]\<close> and the placeholders of \<open>IN (...)\<close>.\<close>

lemma mapR_emits:
  assumes step: "\<And>v r s r'. v \<in> set vs \<Longrightarrow> P (r_schema r) (r_dialect r) \<Longrightarrow> f v r = Inr (s, r') \<Longrightarrow> ph_ok r s r'"
    and "P (r_schema r) (r_dialect r)" "mapR f vs r = Inr (ss, r')"
    and "sep = c # sep'" "\<not> is_digit c" "plain (r_dialect r) sep"
  shows "ph_ok r (join sep ss) r'"
  using assms
proof (induction vs arbitrary: r ss)
  case Nil
  then show ?case by (auto simp: result_simps intro: ph_refl)
next
  case (Cons v vs)
  from Cons.prems(3) obtain s r1 ss' where s: "f v r = Inr (s, r1)"
    and ss': "mapR f vs r1 = Inr (ss', r')" and ss: "ss = s # ss'"
    by (auto simp: result_simps)
  have ok: "ph_ok r s r1" using Cons.prems(1) [OF _ Cons.prems(2) s] by simp
  have "ph_ok r1 (join sep ss') r'"
    using Cons.prems ok by (intro Cons.IH [OF _ _ ss']) (auto simp: ph_frame [OF ok])
  moreover have "marks (r_dialect r) (join sep ss)
      = marks (r_dialect r) s @ marks (r_dialect r) (join sep ss')"
    using Cons.prems(4-6) ss by (cases ss') (simp_all add: marks_append marks_plain_append)
  ultimately show ?case by (rule ph_trans [OF ok])
qed

lemma tag_value_sql_emits:
  assumes "plain (r_dialect r) (jsonArrayExpr (r_dialect r) f)" "tag_value_sql f v r = Inr (s, r')"
  shows "ph_ok r s r'"
  using assms
  by (auto simp: tag_value_sql_def result_simps renderJSONListContains_def
      dest!: renderTagComprehension_emits [rotated])

lemma renderTagInList_emits: "emits_result (renderTagInList values)"
proof (rule emits_resultI)
  fix r x r'
  assume sp: "schema_plain (r_schema r)" and x: "renderTagInList values r = Inr (x, r')"
  then obtain f cs where f: "ResolveAlias (r_schema r) ''tag'' = Some f"
    and cs: "mapR (tag_value_sql f) values r = Inr (cs, r')"
    and x': "x = sql_result (case cs of [] \<Rightarrow> ''1 = 0'' | [c] \<Rightarrow> c | _ \<Rightarrow> ''('' @ join '' OR '' cs @ '')'')"
    by (auto simp: renderTagInList_def result_simps split: option.splits)
  have ok: "ph_ok r (join '' OR '' cs) r'"
  proof (rule mapR_emits [where P = "\<lambda>s d. schema_plain s \<and> ResolveAlias s ''tag'' = Some f", OF _ _ cs])
    fix v r s r'
    assume "schema_plain (r_schema r) \<and> ResolveAlias (r_schema r) ''tag'' = Some f"
      and "tag_value_sql f v r = Inr (s, r')"
    then show "ph_ok r s r'" using alias_emits(3) tag_value_sql_emits by blast
  qed (use sp f in \<open>auto simp: is_digit_def\<close>)
  have "marks (r_dialect r) (rr_sql x) = marks (r_dialect r) (join '' OR '' cs)"
    using x' by (auto simp: marks_append is_digit_def split: list.splits)
  with ok x' show "ph_ok r (rr_sql x) r' \<and> \<not> rr_trivial x \<and> \<not> rr_unsatisfiable x"
    by (auto intro: ph_text)
qed

lemma scalar_in_arg_emits: "scalar_in_arg f v r = Inr (s, r') \<Longrightarrow> ph_ok r s r'"
  by (cases "fld_Type f") (auto simp: scalar_in_arg_def result_simps dest: ph_addArg)

lemma renderScalarInCondition_emits:
  assumes "plain (r_dialect r) (columnExpr f (r_dialect r))"
    and "renderScalarInCondition f vs r = Inr (x, r')"
  shows "ph_ok r (rr_sql x) r' \<and> \<not> rr_trivial x \<and> \<not> rr_unsatisfiable x"
proof -
  from assms(2) obtain phs where phs: "mapR (scalar_in_arg f) vs r = Inr (phs, r')"
    and x: "x = sql_result (columnExpr f (r_dialect r) @ '' IN ('' @ join '','' phs @ '')'')"
    by (auto simp: renderScalarInCondition_def result_simps)
  have ok: "ph_ok r (join '','' phs) r'"
    by (rule mapR_emits [where P = "\<lambda>_ _. True", OF _ _ phs])
      (auto simp: is_digit_def intro: scalar_in_arg_emits)
  have "marks (r_dialect r) (rr_sql x) = marks (r_dialect r) (join '','' phs)"
    using x assms(1) by (simp add: marks_plain_append marks_append is_digit_def)
  with ok x show ?thesis by (auto intro: ph_text)
qed

lemma renderInCondition_emits [emission]: "emits_result (renderInCondition left values)"
proof (rule emits_resultI)
  fix r x r'
  assume sp: "schema_plain (r_schema r)" and x: "renderInCondition left values r = Inr (x, r')"
  then consider "renderTagInList values r = Inr (x, r')"
    | name f where "schema_Field (r_schema r) name = Some f"
        "renderScalarInCondition f values r = Inr (x, r')"
    by (auto simp: renderInCondition_def errR_Inr_iff
        split: ValueExpr.splits option.splits if_splits)
  then show "ph_ok r (rr_sql x) r' \<and> \<not> rr_trivial x \<and> \<not> rr_unsatisfiable x"
  proof cases
    case 1
    then show ?thesis using renderTagInList_emits sp by (auto simp: emits_result_def)
  next
    case 2
    then show ?thesis using field_emits(1) [OF sp] renderScalarInCondition_emits by blast
  qed
qed

lemma renderElementInCondition_emits [emission]: "emits_result (renderElementInCondition e name)"
  by (rule emits_resultI)
    (auto simp: renderElementInCondition_def result_simps renderJSONListContains_def
      dest!: renderTagComprehension_emits [rotated] dest: field_emits
      split: option.split_asm if_split_asm)

lemma renderListComprehension_emits [emission]: "emits_result (renderListComprehension kind name pred)"
  by (rule emits_resultI)
    (auto simp: renderListComprehension_def result_simps
      dest!: renderTagComprehension_emits [rotated] dest: field_emits split: option.splits if_splits)

lemma renderTextMatch_emits [emission]: "emits_result (renderTextMatch name mode v)"
  by (rule emits_resultI)
    (auto simp: renderTextMatch_def result_simps dest!: foldedLike_emits [rotated]
      dest: field_emits split: option.splits)

lemma renderRegex_emits [emission]: "emits_result (renderRegex name pat)"
proof (rule emits_resultI)
  fix r x r'
  assume sp: "schema_plain (r_schema r)" and x: "renderRegex name pat r = Inr (x, r')"
  then obtain f ph where f: "schema_Field (r_schema r) name = Some f" and ok: "ph_ok r ph r'"
    and "x = sql_result (columnExpr f (r_dialect r) @ '' ~ '' @ ph)
       \<or> x = sql_result (columnExpr f (r_dialect r) @ '' REGEXP '' @ ph)"
    by (auto simp: renderRegex_def result_simps Let_def dest!: ph_addArg
        split: option.splits DialectName.splits)
  then show "ph_ok r (rr_sql x) r' \<and> \<not> rr_trivial x \<and> \<not> rr_unsatisfiable x"
    using field_emits(1) [OF sp f] by (auto simp: marks_plain_append intro: ph_text)
qed

section \<open>Conditions without constants\<close>

fun const_free :: "Condition \<Rightarrow> bool" where
  "const_free (LogicalCondition op l r) = (const_free l \<and> const_free r)"
| "const_free (NotCondition c) = const_free c"
| "const_free (ConstantCondition v) = False"
| "const_free _ = True"

lemma renderCondition_emits: "const_free c \<Longrightarrow> emits_result (renderCondition c)"
proof (induction c)
  case (LogicalCondition op a b)
  show ?case
  proof (rule emits_resultI)
    fix r x r'
    assume sp: "schema_plain (r_schema r)"
      and "renderCondition (LogicalCondition op a b) r = Inr (x, r')"
    then obtain y r1 z where y: "renderCondition a r = Inr (y, r1)"
      and z: "renderCondition b r1 = Inr (z, r')"
      and x: "x = (case op of LogicalAnd \<Rightarrow> combineAnd y z | LogicalOr \<Rightarrow> combineOr y z)"
      by (auto simp: result_simps)
    have ya: "ph_ok r (rr_sql y) r1" "\<not> rr_trivial y" "\<not> rr_unsatisfiable y"
      using emits_resultD [OF LogicalCondition.IH(1) sp y] LogicalCondition.prems by simp_all
    have "schema_plain (r_schema r1)" using sp ph_frame [OF ya(1)] by simp
    then have za: "ph_ok r1 (rr_sql z) r'" "\<not> rr_trivial z" "\<not> rr_unsatisfiable z"
      using emits_resultD [OF LogicalCondition.IH(2) _ z] LogicalCondition.prems by simp_all
    have "marks (r_dialect r) (rr_sql x) = marks (r_dialect r) (rr_sql y) @ marks (r_dialect r) (rr_sql z)"
      using x ya za
      by (cases op) (simp_all add: combineAnd_def combineOr_def marks_append is_digit_def)
    then have "ph_ok r (rr_sql x) r'" using ya(1) za(1) by (rule ph_trans [rotated 2])
    then show "ph_ok r (rr_sql x) r' \<and> \<not> rr_trivial x \<and> \<not> rr_unsatisfiable x"
      using x ya za by (cases op) (simp_all add: combineAnd_def combineOr_def)
  qed
next
  case (NotCondition c)
  then have IH: "emits_result (renderCondition c)" by simp
  show ?case
  proof (rule emits_resultI)
    fix r x r'
    assume sp: "schema_plain (r_schema r)" and "renderCondition (NotCondition c) r = Inr (x, r')"
    then obtain y where y: "renderCondition c r = Inr (y, r')" and x: "x = combineNot y"
      by (auto simp: result_simps)
    note ok = emits_resultD [OF IH sp y]
    then have "x = sql_result (''NOT ('' @ rr_sql y @ '')'')" using x by (simp add: combineNot_def)
    then show "ph_ok r (rr_sql x) r' \<and> \<not> rr_trivial x \<and> \<not> rr_unsatisfiable x"
      using ok by (auto simp: marks_append is_digit_def intro: ph_text)
  qed
qed (simp_all add: emission)

section \<open>Properties\<close>

lemma newRenderer_sel [simp]:
  "r_schema (newRenderer s opts) = s" "r_dialect (newRenderer s opts) = ro_Dialect opts"
  "r_placeholderOffset (newRenderer s opts) = ro_PlaceholderOffset opts"
  "r_placeholderCounter (newRenderer s opts) = 0" "r_args (newRenderer s opts) = []"
  by (simp_all add: newRenderer_def)

lemma Render_marks:
  assumes "schema_plain sch" "const_free c" "Render sch opts c = Inr st"
  shows "marks (ro_Dialect opts) (st_SQL st) =
    map (placeholder (ro_Dialect opts))
      [ro_PlaceholderOffset opts + 1 ..< ro_PlaceholderOffset opts + length (st_Args st) + 1]"
proof -
  from assms(3) obtain x r where x: "renderCondition c (newRenderer sch opts) = Inr (x, r)"
    and st: "st = \<lparr>st_SQL = (if rr_unsatisfiable x then ''1 = 0'' else if rr_trivial x then []
                             else rr_sql x), st_Args = r_args r\<rparr>"
    by (auto simp: Render_def result_simps)
  note ok = emits_resultD [OF renderCondition_emits [OF assms(2)] _ x]
  with assms(1) have "ph_ok (newRenderer sch opts) (rr_sql x) r" "st_SQL st = rr_sql x"
    by (simp_all add: st)
  then show ?thesis by (auto simp: ph_ok_def st)
qed

lemma AppendConditions_marks:
  assumes "schema_plain (eng_schema e)"
    and "AppendConditions e filters d ws as = Inr (ws', as')"
    and "\<forall>f \<in> set filters. \<forall>p. Compile e f = Inr p \<longrightarrow> const_free (prog_condition p)"
  shows "\<exists>w a. ws' = ws @ w \<and> as' = as @ a
    \<and> concat (map (marks d) w) = map (placeholder d) [length as + 1 ..< length as' + 1]"
  using assms
proof (induction e filters d ws as rule: AppendConditions.induct)
  case (1 e d ws as)
  then show ?case by simp
next
  case (2 e f fs d ws as)
  define opts where "opts = \<lparr>ro_Dialect = d, ro_PlaceholderOffset = length as, ro_DisableNullChecks = False\<rparr>"
  from "2.prems"(2) obtain p st where p: "Compile e f = Inr p" and st: "program_Render p opts = Inr st"
    and c: "CompileToStatement e f opts = Inr st"
    by (auto simp: result_simps CompileToStatement_def opts_def)
  have "prog_schema p = eng_schema e"
    using p by (auto simp: Compile_def result_simps split: if_splits)
  moreover have "const_free (prog_condition p)" using "2.prems"(3) p by auto
  ultimately have m: "marks d (st_SQL st) = map (placeholder d) [length as + 1 ..< length as + length (st_Args st) + 1]"
    using Render_marks [of "prog_schema p" "prog_condition p" opts st] st "2.prems"(1)
    by (simp add: program_Render_def opts_def)
  show ?case
  proof (cases "st_SQL st = []")
    case True
    then have "AppendConditions e fs d ws as = Inr (ws', as')"
      using "2.prems"(2) c by (simp add: opts_def)
    then show ?thesis using "2.IH"(1) [OF c [unfolded opts_def] True] "2.prems" by auto
  next
    case False
    let ?ws = "ws @ [''('' @ st_SQL st @ '')'']" and ?as = "as @ st_Args st"
    have "AppendConditions e fs d ?ws ?as = Inr (ws', as')"
      using "2.prems"(2) c False by (simp add: opts_def)
    then obtain w a where wa: "ws' = ?ws @ w" "as' = ?as @ a"
      and ms: "concat (map (marks d) w) = map (placeholder d) [length ?as + 1 ..< length as' + 1]"
      using "2.IH"(2) [OF c [unfolded opts_def] False] "2.prems" by auto
    have "marks d (''('' @ st_SQL st @ '')'') = marks d (st_SQL st)"
      by (simp add: marks_append is_digit_def)
    then have "concat (map (marks d) ((''('' @ st_SQL st @ '')'') # w))
        = map (placeholder d) ([length as + 1 ..< length ?as + 1] @ [length ?as + 1 ..< length as' + 1])"
      using m ms by simp
    also have "[length as + 1 ..< length ?as + 1] @ [length ?as + 1 ..< length as' + 1]
        = [length as + 1 ..< length as' + 1]"
      by (rule upt_join) (simp_all add: wa(2))
    finally show ?thesis using wa by auto
  qed
qed

text \<open>C1: The SQL text rendered from a filter condition without constant sub-conditions, over the
  memo or the attachment schema and for every dialect, holds exactly one placeholder per bind
  argument: in the order of the text they are the placeholders of the offset plus one, plus
  two, and so on up to the number of arguments.\<close>

theorem Render_placeholders:
  assumes "sch = NewSchema \<or> sch = NewAttachmentSchema" "const_free c" "Render sch opts c = Inr st"
  shows "marks (ro_Dialect opts) (st_SQL st) =
    map (placeholder (ro_Dialect opts))
      [ro_PlaceholderOffset opts + 1 ..< ro_PlaceholderOffset opts + length (st_Args st) + 1]"
  using assms Render_marks NewSchema_plain NewAttachmentSchema_plain by blast

definition sample_opts :: RenderOptions where
  "sample_opts = \<lparr>ro_Dialect = DialectPostgres, ro_PlaceholderOffset = 2, ro_DisableNullChecks = False\<rparr>"

definition sample_condition :: Condition where
  "sample_condition =
     LogicalCondition LogicalOr (FieldPredicateCondition ''pinned'')
       (ComparisonCondition (FieldRef ''visibility'') CompareEq (LiteralValue (VString ''PUBLIC'')))"

lemmas render_eval = schema_Field_def NewSchema_def memo_fields_def bindR_def retR_def liftR_def
  renderFieldPredicate_def renderComparison_def renderScalarComparison_def scalar_arg_def
  comparison_sql_def addArg_def newRenderer_def columnExpr_def qualifyColumn_def sql_result_def
  combineOr_def combineAnd_def Let_def placeholder_def decimal.simps digit_char_def

lemma sample_Render:
  "Render NewSchema sample_opts sample_condition =
     Inr \<lparr>st_SQL = ''(memo.pinned IS TRUE OR memo.visibility = $3)'', st_Args = [VString ''PUBLIC'']\<rparr>"
  by (simp add: Render_def sample_condition_def sample_opts_def render_eval)

theorem Render_placeholders_witness:
  "const_free sample_condition
   \<and> marks DialectPostgres ''(memo.pinned IS TRUE OR memo.visibility = $3)'' = [''$3'']"
proof -
  have "const_free sample_condition" by (simp add: sample_condition_def)
  then show ?thesis
    using Render_placeholders [OF disjI1 [OF refl] _ sample_Render]
    by (simp add: sample_opts_def placeholder_def decimal.simps digit_char_def)
qed

text \<open>Conjoining any renderable filter condition with a constant false condition renders to the
  text "1 = 0", which has no placeholder, while every bind argument of the first condition is
  kept. The query then carries more arguments than placeholders.\<close>

theorem Render_false_keeps_args:
  assumes "Render sch opts c = Inr st"
  shows "Render sch opts (LogicalCondition LogicalAnd c (ConstantCondition False)) =
           Inr \<lparr>st_SQL = ''1 = 0'', st_Args = st_Args st\<rparr>
         \<and> marks (ro_Dialect opts) ''1 = 0'' = []"
  using assms
  by (auto simp: Render_def result_simps bindR_def retR_def combineAnd_def unsatisfiable_result_def)

theorem Render_false_keeps_args_witness:
  "Render NewSchema sample_opts
     (LogicalCondition LogicalAnd sample_condition (ConstantCondition False)) =
       Inr \<lparr>st_SQL = ''1 = 0'', st_Args = [VString ''PUBLIC'']\<rparr>"
  using Render_false_keeps_args [OF sample_Render] by simp

text \<open>C3. Let no filter of a list compile to a condition with a constant part. Then appending the filters to a query
  keeps the clauses and arguments already there, and the new clauses hold one placeholder per new argument,
  numbered from the number of arguments already bound. Constant parts have to be excluded: where \<open>combineAnd\<close> or
  \<open>combineOr\<close> drops the text of an operand beside a constant, its arguments stay (\<open>Render_false_keeps_args\<close>).\<close>

theorem AppendConditions_placeholders:
  assumes "eng_schema e = NewSchema \<or> eng_schema e = NewAttachmentSchema"
    and "AppendConditions e filters d ws as = Inr (ws', as')"
    and "\<forall>f \<in> set filters. \<forall>p. Compile e f = Inr p \<longrightarrow> const_free (prog_condition p)"
  shows "\<exists>w a. ws' = ws @ w \<and> as' = as @ a
    \<and> concat (map (marks d) w) = map (placeholder d) [length as + 1 ..< length as' + 1]"
proof -
  have "schema_plain (eng_schema e)"
    using assms(1) NewSchema_plain NewAttachmentSchema_plain by metis
  then show ?thesis using assms(2,3) by (rule AppendConditions_marks)
qed

text \<open>A concrete engine whose compiler knows one filter text.\<close>

definition sample_filter :: string where
  "sample_filter = ''visibility == 'x'  ''"

definition sample_engine :: Engine where
  "sample_engine =
     \<lparr>eng_schema = NewSchema,
      eng_env_Compile = (\<lambda>_. Inr (CallExpr None ''_==_'' [IdentExpr ''visibility'', ConstExpr (StringValue ''x'')])),
      eng_now = 0,
      eng_time = \<lparr>parse_RFC3339 = (\<lambda>_. Inl (Errorf ''parse'' [])), parse_Duration = (\<lambda>_. Inl (Errorf ''parse'' []))\<rparr>\<rparr>"

lemma sample_Compile:
  "Compile sample_engine sample_filter =
     Inr \<lparr>prog_schema = NewSchema,
          prog_condition = ComparisonCondition (FieldRef ''visibility'') CompareEq (LiteralValue (VString ''x''))\<rparr>"
proof -
  have "CHR ''v'' \<in> set (trim_space sample_filter)"
    by (rule trim_space_keeps) (simp_all add: white_space_def sample_filter_def)
  then have "trim_space sample_filter \<noteq> []" by auto
  then show ?thesis
    by (simp add: Compile_def sample_engine_def comparison_functions_def buildComparisonCondition_def
        toComparisonOperator_def simpleValueExpr_def schema_Field_def NewSchema_def memo_fields_def
        check_field_operator_def)
qed

lemma sample_AppendConditions:
  "AppendConditions sample_engine [sample_filter] DialectPostgres [''1 = 1''] [VInt 7] =
     Inr ([''1 = 1'', ''(memo.visibility = $2)''], [VInt 7, VString ''x''])"
  by (simp add: CompileToStatement_def sample_Compile program_Render_def Render_def render_eval)

theorem AppendConditions_placeholders_witness:
  "marks DialectPostgres ''(memo.visibility = $2)'' = [''$2'']
   \<and> AppendConditions sample_engine [sample_filter] DialectPostgres [''1 = 1''] [VInt 7] =
     Inr ([''1 = 1'', ''(memo.visibility = $2)''], [VInt 7, VString ''x''])"
proof -
  have "eng_schema sample_engine = NewSchema" by (simp add: sample_engine_def)
  then obtain w a where "[''1 = 1'', ''(memo.visibility = $2)''] = [''1 = 1''] @ w"
    and "concat (map (marks DialectPostgres) w) = map (placeholder DialectPostgres) [2 ..< 3]"
    using AppendConditions_placeholders [OF disjI1 sample_AppendConditions]
    by (auto simp: sample_Compile numeral_2_eq_2 numeral_3_eq_3)
  then show ?thesis
    using sample_AppendConditions
    by (simp add: placeholder_def decimal.simps digit_char_def is_digit_def del: AppendConditions.simps)
qed

end
