(* ===== verification/Filter_Injection.thy ===== *)
theory Filter_Injection
  imports Filter_Placeholders
begin

text \<open>
  Injection safety of the renderer: the SQL text does not depend on the strings and numbers of
  the filter, apart from which strings are empty. \<open>erase\<close> replaces every nonempty string and every number of a
  condition by a fixed one; the
  erased condition renders to the same text, or fails with the same error, and the two
  argument lists have the same length. What the text does depend on is the shape of the
  condition, the field names, the booleans and nulls, and whether a tag pattern is empty.
\<close>

section \<open>Erasing user data\<close>

definition erase_string :: "string \<Rightarrow> string" where
  "erase_string s = (if s = [] then [] else ''x'')"

fun erase_any :: "any_value \<Rightarrow> any_value" where
  "erase_any (VString s) = VString (erase_string s)"
| "erase_any (VInt64 i) = VInt64 0"
| "erase_any (VInt i) = VInt 0"
| "erase_any (VFloat64 f) = VFloat64 0"
| "erase_any v = v"

fun erase_value :: "ValueExpr \<Rightarrow> ValueExpr" where
  "erase_value (LiteralValue v) = LiteralValue (erase_any v)"
| "erase_value v = v"

fun erase_pred :: "PredicateExpr \<Rightarrow> PredicateExpr" where
  "erase_pred (StartsWithPredicate s) = StartsWithPredicate (erase_string s)"
| "erase_pred (EndsWithPredicate s) = EndsWithPredicate (erase_string s)"
| "erase_pred (ContainsPredicate s) = ContainsPredicate (erase_string s)"
| "erase_pred (EqualsPredicate s) = EqualsPredicate (erase_string s)"

fun erase :: "Condition \<Rightarrow> Condition" where
  "erase (LogicalCondition op l r) = LogicalCondition op (erase l) (erase r)"
| "erase (NotCondition c) = NotCondition (erase c)"
| "erase (ComparisonCondition l op r) = ComparisonCondition l op (erase_value r)"
| "erase (InCondition l vs) = InCondition l (map erase_value vs)"
| "erase (ElementInCondition e f) = ElementInCondition (erase_value e) f"
| "erase (TextMatchCondition f m v) = TextMatchCondition f m (erase_string v)"
| "erase (RegexCondition f p) = RegexCondition f (erase_string p)"
| "erase (ListComprehensionCondition k f v p) = ListComprehensionCondition k f v (erase_pred p)"
| "erase c = c"

section \<open>Simulation\<close>

text \<open>Two states that differ in the values of the arguments only.\<close>

definition same_state :: "renderer \<Rightarrow> renderer \<Rightarrow> bool" where
  "same_state r q \<longleftrightarrow> r_schema q = r_schema r \<and> r_dialect q = r_dialect r
     \<and> r_placeholderOffset q = r_placeholderOffset r
     \<and> r_placeholderCounter q = r_placeholderCounter r \<and> length (r_args q) = length (r_args r)"

definition sim_result :: "go_error + ('a \<times> renderer) \<Rightarrow> go_error + ('a \<times> renderer) \<Rightarrow> bool" where
  "sim_result a b = rel_sum (=) (rel_prod (=) same_state) a b"

text \<open>Two methods write the same text from two such states, or fail alike.\<close>

definition simulates :: "'a rm \<Rightarrow> 'a rm \<Rightarrow> bool" where
  "simulates m n \<longleftrightarrow> (\<forall>r q. same_state r q \<longrightarrow> sim_result (m r) (n q))"

lemma simI: "(\<And>r q. same_state r q \<Longrightarrow> sim_result (m r) (n q)) \<Longrightarrow> simulates m n"
  by (simp add: simulates_def)

lemma simD: "simulates m n \<Longrightarrow> same_state r q \<Longrightarrow> sim_result (m r) (n q)"
  by (simp add: simulates_def)

lemma same_state_refl [simp]: "same_state r r"
  by (simp add: same_state_def)

lemma same_state_sel:
  assumes "same_state r q"
  shows "r_schema q = r_schema r" "r_dialect q = r_dialect r"
  using assms by (simp_all add: same_state_def)

named_theorems sim_rules \<open>results that agree up to the argument values\<close>

lemma sim_ret [sim_rules]: "same_state r q \<Longrightarrow> sim_result (retR a r) (retR a q)"
  by (simp add: sim_result_def retR_def)

lemma sim_err [sim_rules]: "sim_result (errR f a r) (errR f a q)"
  by (simp add: sim_result_def errR_def)

lemma sim_lift [sim_rules]: "same_state r q \<Longrightarrow> sim_result (liftR m r) (liftR m q)"
  by (cases m) (simp_all add: sim_result_def liftR_def)

lemma sim_addArg [sim_rules]: "same_state r q \<Longrightarrow> sim_result (addArg v r) (addArg w q)"
  by (auto simp: sim_result_def addArg_def same_state_def Let_def)

lemma sim_addBoolArg [sim_rules]: "same_state r q \<Longrightarrow> sim_result (addBoolArg v r) (addBoolArg v q)"
  by (simp add: addBoolArg_def sim_addArg)

lemma sim_bind [sim_rules]:
  assumes "sim_result (m r) (n q)"
    and "\<And>a r' q'. same_state r' q' \<Longrightarrow> sim_result (f a r') (g a q')"
  shows "sim_result (bindR m f r) (bindR n g q)"
  using assms unfolding sim_result_def bindR_def by (cases "m r"; cases "n q") auto

text \<open>Two computations that yield related, not equal, values.\<close>

lemma sim_bind_rel:
  assumes "rel_sum (=) R a b"
    and "\<And>x y. R x y \<Longrightarrow> sim_result (f x r) (g y q)"
  shows "sim_result (bindR (liftR a) f r) (bindR (liftR b) g q)"
  using assms by (cases a; cases b) (auto simp: bindR_def liftR_def sim_result_def)

lemma sim_bind_lift:
  "same_state r q \<Longrightarrow> (\<And>a. sim_result (f a r) (g a q))
    \<Longrightarrow> sim_result (bindR (liftR m) f r) (bindR (liftR m) g q)"
  by (cases m) (simp_all add: bindR_def liftR_def sim_result_def)

lemma sim_mapR [sim_rules]:
  assumes "same_state r q" "\<And>v. v \<in> set vs \<Longrightarrow> simulates (f v) (g (h v))"
  shows "sim_result (mapR f vs r) (mapR g (map h vs) q)"
  using assms
proof (induction vs arbitrary: r q)
  case (Cons v vs)
  have "sim_result (f v r) (g (h v) q)" using Cons.prems by (auto intro: simD)
  with Cons show ?case by (auto intro!: sim_bind sim_ret)
qed (simp add: sim_ret)

section \<open>Erased literals\<close>

lemma erase_literal: "rel_sum (=) (\<lambda>x y. y = erase_any x) (expectLiteral v) (expectLiteral (erase_value v))"
  by (cases v) simp_all

lemma erase_any_nil [simp]: "erase_any x = VNil \<longleftrightarrow> x = VNil"
  by (cases x) simp_all

lemma erase_string_Nil [simp]: "erase_string s = [] \<longleftrightarrow> s = []"
  by (simp add: erase_string_def)

lemma erase_bool: "expectBool (erase_value v) = expectBool v"
proof (cases v)
  case (LiteralValue x)
  then show ?thesis by (cases x) (simp_all add: expectBool_def bindE_def)
qed (simp_all add: expectBool_def)

lemma erase_int: "rel_sum (=) (\<lambda>_ _. True) (toInt64 x) (toInt64 (erase_any x))"
  by (cases x) simp_all

lemma erase_numeric:
  "rel_sum (=) (\<lambda>_ _. True) (expectNumericLiteral v) (expectNumericLiteral (erase_value v))"
  by (cases v) (simp_all add: expectNumericLiteral_def bindE_def erase_int)

lemma erase_scalar: "rel_sum (=) (\<lambda>_ _. True) (scalar_arg f x) (scalar_arg f (erase_any x))"
  by (cases "fld_Type f"; cases x) (simp_all add: scalar_arg_def bindE_def wrapE_def)

section \<open>The methods\<close>

lemma sim_comparison [sim_rules]:
  "same_state r q \<Longrightarrow> sim_result (comparison_sql e op v r) (comparison_sql e op w q)"
  unfolding comparison_sql_def by (intro sim_rules)

lemma sim_foldedLike:
  "same_state r q \<Longrightarrow> sim_result (foldedLike c p r) (foldedLike c p' q)"
  by (frule same_state_sel(2)) (simp add: foldedLike_def sim_rules)

lemma sim_textMatch:
  assumes "same_state r q"
  shows "sim_result (tagElementTextMatch el mode v r) (tagElementTextMatch el mode (erase_string v) q)"
  using assms same_state_sel(2) [OF assms] unfolding tagElementTextMatch_def
  by (cases "r_dialect r"; cases mode) (auto intro!: sim_rules)

lemma sim_predicate:
  assumes "same_state r q"
  shows "sim_result (tagElementPredicateSQL el p r) (tagElementPredicateSQL el (erase_pred p) q)"
  using assms same_state_sel(2) [OF assms] unfolding tagElementPredicateSQL_def
  by (cases p; cases "r_dialect r") (auto intro!: sim_rules sim_textMatch)

lemma sim_tagComprehension [sim_rules]:
  assumes "same_state r q"
  shows "sim_result (renderTagComprehension f p k r) (renderTagComprehension f (erase_pred p) k q)"
  unfolding renderTagComprehension_def Let_def same_state_sel(2) [OF assms]
  by (auto split: prod.splits intro!: sim_bind sim_ret sim_lift sim_predicate [OF assms])

lemma sim_listContains:
  "same_state r q \<Longrightarrow> sim_result (renderJSONListContains f v r) (renderJSONListContains f (erase_string v) q)"
  using sim_tagComprehension [of r q f "EqualsPredicate v"] by (simp add: renderJSONListContains_def)

lemma sim_listComprehension:
  "simulates (renderListComprehension k n p) (renderListComprehension k n (erase_pred p))"
  by (rule simI, frule same_state_sel(1))
    (auto simp: renderListComprehension_def split: option.splits intro!: sim_rules)

lemma sim_fieldPredicate: "simulates (renderFieldPredicate n) (renderFieldPredicate n)"
  by (rule simI, frule same_state_sel(1), frule same_state_sel(2))
    (auto simp: renderFieldPredicate_def split: option.splits FieldKind.splits intro!: sim_rules)

lemma sim_accessorComparison:
  assumes "same_state r q"
  shows "sim_result (renderAccessorComparison n a op v r) (renderAccessorComparison n a op (erase_value v) q)"
  unfolding renderAccessorComparison_def same_state_sel [OF assms]
  using assms by (cases "schema_Field (r_schema r) n")
    (auto intro!: sim_bind_rel [OF erase_numeric] intro: sim_rules)

lemma sim_functionComparison:
  assumes "same_state r q"
  shows "sim_result (renderFunctionComparison n as op v r) (renderFunctionComparison n as op (erase_value v) q)"
  unfolding renderFunctionComparison_def same_state_sel [OF assms]
  by (rule sim_bind_lift [OF assms], rule sim_bind_rel [OF erase_numeric],
      rule sim_bind_lift [OF assms], rule sim_comparison [OF assms])

lemma sim_scalarComparison:
  assumes "same_state r q"
  shows "sim_result (renderScalarComparison f op v r) (renderScalarComparison f op (erase_value v) q)"
  unfolding renderScalarComparison_def same_state_sel [OF assms]
  by (rule sim_bind_rel [OF erase_literal], cases op)
    (auto intro!: sim_ret sim_err sim_bind_rel [OF erase_scalar] sim_comparison assms)

lemma sim_jsonBoolComparison:
  assumes "same_state r q"
  shows "sim_result (renderJSONBoolComparison f op v r) (renderJSONBoolComparison f op v q)"
  unfolding renderJSONBoolComparison_def Let_def same_state_sel [OF assms]
  by (rule sim_bind_lift [OF assms], cases "r_dialect r") (auto intro!: sim_rules assms)

lemma sim_jsonExistsComparison:
  assumes "same_state r q"
  shows "sim_result (renderJSONExistsComparison f op v r) (renderJSONExistsComparison f op v q)"
  unfolding renderJSONExistsComparison_def Let_def same_state_sel [OF assms]
  by (rule sim_bind_lift [OF assms], rule sim_bind_lift [OF assms], rule sim_bind, cases op)
    (auto intro: sim_ret sim_err assms)

lemma sim_boolColumnComparison:
  assumes "same_state r q"
  shows "sim_result (renderBoolColumnComparison f op v r) (renderBoolColumnComparison f op v q)"
  unfolding renderBoolColumnComparison_def same_state_sel [OF assms]
  using assms by (auto intro!: sim_rules)

lemma bool_comparisons_erase [simp]:
  "renderBoolColumnComparison f op (erase_value v) = renderBoolColumnComparison f op v"
  "renderJSONBoolComparison f op (erase_value v) = renderJSONBoolComparison f op v"
  "renderJSONExistsComparison f op (erase_value v) = renderJSONExistsComparison f op v"
  by (simp_all add: renderBoolColumnComparison_def renderJSONBoolComparison_def
      renderJSONExistsComparison_def erase_bool)

lemma sim_comparisonCondition: "simulates (renderComparison l op v) (renderComparison l op (erase_value v))"
  by (rule simI, frule same_state_sel(1))
    (auto simp: renderComparison_def split: ValueExpr.splits option.splits FieldKind.splits
      intro!: sim_err sim_boolColumnComparison sim_jsonBoolComparison sim_jsonExistsComparison
        sim_scalarComparison sim_functionComparison sim_accessorComparison)

lemma sim_tagValue: "simulates (tag_value_sql f v) (tag_value_sql f (erase_value v))"
proof (rule simI)
  fix r q
  assume st: "same_state r q"
  show "sim_result (tag_value_sql f v r) (tag_value_sql f (erase_value v) q)"
    unfolding tag_value_sql_def
  proof (rule sim_bind_rel [OF erase_literal])
    fix x y
    assume "y = erase_any x"
    then show "sim_result
        ((case x of VString s \<Rightarrow> bindR (renderJSONListContains f s) (\<lambda>c. retR (rr_sql c))
          | _ \<Rightarrow> errR ''tags must be compared with string literals'' []) r)
        ((case y of VString s \<Rightarrow> bindR (renderJSONListContains f s) (\<lambda>c. retR (rr_sql c))
          | _ \<Rightarrow> errR ''tags must be compared with string literals'' []) q)"
      using st by (cases x) (auto intro!: sim_err sim_bind sim_ret sim_listContains)
  qed
qed

lemma sim_scalarIn: "simulates (scalar_in_arg f v) (scalar_in_arg f (erase_value v))"
proof (rule simI)
  fix r q
  assume st: "same_state r q"
  show "sim_result (scalar_in_arg f v r) (scalar_in_arg f (erase_value v) q)"
    unfolding scalar_in_arg_def
    by (rule sim_bind_rel [OF erase_literal], cases "fld_Type f")
      (auto split: any_value.splits intro!: sim_err sim_addArg sim_bind_rel [OF erase_int] st elim: erase_any.elims)
qed

lemma sim_tagInList: "simulates (renderTagInList vs) (renderTagInList (map erase_value vs))"
  by (rule simI, frule same_state_sel(1))
    (auto simp: renderTagInList_def split: option.splits
      intro!: sim_bind sim_mapR sim_ret sim_err sim_tagValue)

lemma sim_scalarInCondition:
  assumes "same_state r q"
  shows "sim_result (renderScalarInCondition f vs r) (renderScalarInCondition f (map erase_value vs) q)"
  unfolding renderScalarInCondition_def same_state_sel [OF assms]
  using assms by (auto intro!: sim_bind sim_mapR sim_ret sim_scalarIn)

lemma sim_inCondition: "simulates (renderInCondition l vs) (renderInCondition l (map erase_value vs))"
  by (rule simI, frule same_state_sel(1))
    (auto simp: renderInCondition_def split: ValueExpr.splits option.splits
      intro!: sim_err sim_scalarInCondition simD [OF sim_tagInList])

lemma sim_elementIn: "simulates (renderElementInCondition e n) (renderElementInCondition (erase_value e) n)"
proof (rule simI)
  fix r q
  assume st: "same_state r q"
  show "sim_result (renderElementInCondition e n r) (renderElementInCondition (erase_value e) n q)"
  proof (cases "\<exists>x. e = LiteralValue x")
    case True
    then obtain x where "e = LiteralValue x" by blast
    then show ?thesis
      using st unfolding renderElementInCondition_def same_state_sel [OF st]
      by (cases x) (auto split: option.splits simp: bindR_def liftR_def intro!: sim_err sim_listContains)
  next
    case False
    then show ?thesis
      using st unfolding renderElementInCondition_def same_state_sel [OF st]
      by (cases e) (auto split: option.splits simp: bindR_def liftR_def sim_result_def errR_def)
  qed
qed

lemma sim_renderTextMatch: "simulates (renderTextMatch n m v) (renderTextMatch n m (erase_string v))"
  by (rule simI, frule same_state_sel(1), frule same_state_sel(2))
    (auto simp: renderTextMatch_def split: option.splits intro!: sim_err sim_bind sim_ret sim_foldedLike)

lemma sim_regex: "simulates (renderRegex n p) (renderRegex n (erase_string p))"
  by (rule simI, frule same_state_sel(1), frule same_state_sel(2))
    (auto simp: renderRegex_def Let_def split: option.splits DialectName.splits intro!: sim_rules)

lemma sim_renderCondition: "simulates (renderCondition c) (renderCondition (erase c))"
proof (induction c)
  case (LogicalCondition op l r)
  then show ?case by (auto intro!: simI sim_bind sim_ret dest: simD)
next
  case (NotCondition c)
  then show ?case by (auto intro!: simI sim_bind sim_ret dest: simD)
next
  case (ConstantCondition b)
  then show ?case by (auto intro!: simI sim_ret)
qed (simp_all add: sim_fieldPredicate sim_comparisonCondition sim_inCondition sim_elementIn
    sim_renderTextMatch sim_regex sim_listComprehension)

section \<open>Property\<close>

text \<open>C4. Of the numbers of a condition the SQL text it renders to does not depend at all, and of its strings only on
  which of them are empty, on which the renderer of tag predicates branches: replacing every nonempty string by "x"
  and every number by zero gives the same text, or the same error, and as many bind arguments, for every
  schema, dialect and offset. No filter value is spliced into the text of the query.\<close>

theorem Render_text_independent_of_values:
  "map_sum id (\<lambda>st. (st_SQL st, length (st_Args st))) (Render sch opts (erase c)) =
   map_sum id (\<lambda>st. (st_SQL st, length (st_Args st))) (Render sch opts c)"
  using simD [OF sim_renderCondition [of c] same_state_refl [of "newRenderer sch opts"]]
  by (cases "renderCondition c (newRenderer sch opts)";
      cases "renderCondition (erase c) (newRenderer sch opts)")
    (auto simp: Render_def sim_result_def bindE_def same_state_def split: prod.splits)

end
