(* ===== verification/Resource_Names.thy ===== *)
theory Resource_Names
  imports Memos_Prelude
begin

text \<open>
  Resource names of the API (\<open>server/router/api/v1/resource_name.go\<close>) and the identifier formats
  they carry (\<open>internal/base\<close>, \<open>internal/util\<close>). The generators of fresh identifiers
  (\<open>shortuuid.New\<close>, \<open>util.GenUUID\<close>) are arguments.
\<close>

section \<open>Identifier formats (internal/base)\<close>

definition isASCIILetter :: "char \<Rightarrow> bool" where
  "isASCIILetter c = (c \<in> set ''ABCDEFGHIJKLMNOPQRSTUVWXYZ'' \<or> c \<in> set ''abcdefghijklmnopqrstuvwxyz'')"

definition isASCIIDigit :: "char \<Rightarrow> bool" where
  "isASCIIDigit c = (c \<in> set ''0123456789'')"

definition isASCIIAlphanumeric :: "char \<Rightarrow> bool" where
  "isASCIIAlphanumeric c = (isASCIILetter c \<or> isASCIIDigit c)"

definition IsUsernameCharacter :: "char \<Rightarrow> bool" where
  "IsUsernameCharacter c = (isASCIIAlphanumeric c \<or> c = CHR ''-'')"

definition MaxUsernameLength :: nat where
  "MaxUsernameLength = 36"

definition IsValidUsername :: "string \<Rightarrow> bool" where
  "IsValidUsername username =
     (if username = [] \<or> length username > MaxUsernameLength
         \<or> \<not> isASCIIAlphanumeric (hd username) \<or> \<not> isASCIIAlphanumeric (last username) then False
      else list_all IsUsernameCharacter username)"

text \<open>
  The regular expression \<open>^[a-zA-Z0-9](?:[a-zA-Z0-9-]{0,34}[a-zA-Z0-9])?$\<close>, read from left to
  right: one class, then nothing or up to 34 characters and one more class.
\<close>

definition UIDMatcher :: "string \<Rightarrow> bool" where
  "UIDMatcher s =
     (case s of
        [] \<Rightarrow> False
      | c # rest \<Rightarrow>
          isASCIIAlphanumeric c
          \<and> (rest = []
             \<or> (length (butlast rest) \<le> 34 \<and> list_all IsUsernameCharacter (butlast rest)
                \<and> isASCIIAlphanumeric (last rest))))"

definition ConvertStringToInt32 :: "string \<Rightarrow> int result" where
  "ConvertStringToInt32 src = parse_int32 src"

section \<open>Names\<close>

abbreviation UserNamePrefix :: string where "UserNamePrefix \<equiv> ''users/''"
abbreviation MemoNamePrefix :: string where "MemoNamePrefix \<equiv> ''memos/''"
abbreviation AttachmentNamePrefix :: string where "AttachmentNamePrefix \<equiv> ''attachments/''"
abbreviation ReactionNamePrefix :: string where "ReactionNamePrefix \<equiv> ''reactions/''"
abbreviation InboxNamePrefix :: string where "InboxNamePrefix \<equiv> ''inboxes/''"
abbreviation IdentityProviderNamePrefix :: string where
  "IdentityProviderNamePrefix \<equiv> ''identity-providers/''"
abbreviation SpaceNamePrefix :: string where "SpaceNamePrefix \<equiv> ''spaces/''"
abbreviation SpaceMemberNamePrefix :: string where "SpaceMemberNamePrefix \<equiv> ''members/''"
abbreviation SpaceInvitationNamePrefix :: string where "SpaceInvitationNamePrefix \<equiv> ''invitations/''"

text \<open>The loop over the prefixes; its last equation is the index out of range the length check excludes.\<close>

fun name_tokens :: "string \<Rightarrow> string list \<Rightarrow> string list \<Rightarrow> string list result" where
  "name_tokens name parts [] = Inr []"
| "name_tokens name (part # token # parts) (tokenPrefix # rest) =
     (if part @ ''/'' \<noteq> tokenPrefix
      then Inl (Errorf ''invalid prefix %q in request %q'' [tokenPrefix, name])
      else if token = []
      then Inl (Errorf ''invalid request %q with empty prefix %q'' [name, tokenPrefix])
      else bindE (name_tokens name parts rest) (\<lambda>tokens. Inr (token # tokens)))"
| "name_tokens name parts (tokenPrefix # rest) =
     Inl (Errorf ''runtime error: index out of range'' [])"

definition GetNameParentTokens :: "string \<Rightarrow> string list \<Rightarrow> string list result" where
  "GetNameParentTokens name tokenPrefixes =
     (let parts = split (CHR ''/'') name in
      if length parts \<noteq> 2 * length tokenPrefixes then Inl (Errorf ''invalid request %q'' [name])
      else name_tokens name parts tokenPrefixes)"

definition ExtractInstanceSettingKeyFromName :: "string \<Rightarrow> string result" where
  "ExtractInstanceSettingKeyFromName name =
     (let pre = ''instance/settings/'' in
      if \<not> has_prefix name pre
      then Inl (Errorf ''invalid instance setting name: expected prefix %q, got %q'' [pre, name])
      else let settingKey = trim_prefix name pre in
        if settingKey = []
        then Inl (Errorf ''invalid instance setting name: empty setting key in %q'' [name])
        else if contains settingKey ''/''
        then Inl (Errorf ''invalid instance setting name: setting key cannot contain '/' in %q'' [name])
        else Inr settingKey)"

definition token_int32 :: "string \<Rightarrow> string \<Rightarrow> int result" where
  "token_int32 fmt token =
     (case ConvertStringToInt32 token of Inl _ \<Rightarrow> Inl (Errorf fmt [token]) | Inr n \<Rightarrow> Inr n)"

definition ExtractUserIDFromName :: "string \<Rightarrow> int result" where
  "ExtractUserIDFromName name =
     bindE (GetNameParentTokens name [UserNamePrefix]) (\<lambda>tokens.
       token_int32 ''invalid user ID %q'' (tokens ! 0))"

definition ExtractMemoUIDFromName :: "string \<Rightarrow> string result" where
  "ExtractMemoUIDFromName name =
     bindE (GetNameParentTokens name [MemoNamePrefix]) (\<lambda>tokens. Inr (tokens ! 0))"

definition buildMemoName :: "string \<Rightarrow> string" where
  "buildMemoName uid = MemoNamePrefix @ uid"

definition ExtractSpaceUIDFromName :: "string \<Rightarrow> string result" where
  "ExtractSpaceUIDFromName name =
     bindE (GetNameParentTokens name [SpaceNamePrefix]) (\<lambda>tokens. Inr (tokens ! 0))"

definition ExtractSpaceMemberTokensFromName :: "string \<Rightarrow> (string \<times> string) result" where
  "ExtractSpaceMemberTokensFromName name =
     bindE (GetNameParentTokens name [SpaceNamePrefix, SpaceMemberNamePrefix]) (\<lambda>tokens.
       Inr (tokens ! 0, tokens ! 1))"

definition ExtractSpaceInvitationTokensFromName :: "string \<Rightarrow> (string \<times> string) result" where
  "ExtractSpaceInvitationTokensFromName name =
     bindE (GetNameParentTokens name [SpaceNamePrefix, SpaceInvitationNamePrefix]) (\<lambda>tokens.
       Inr (tokens ! 0, tokens ! 1))"

definition ExtractAttachmentUIDFromName :: "string \<Rightarrow> string result" where
  "ExtractAttachmentUIDFromName name =
     bindE (GetNameParentTokens name [AttachmentNamePrefix]) (\<lambda>tokens. Inr (tokens ! 0))"

definition ExtractMemoReactionIDFromName :: "string \<Rightarrow> (string \<times> int) result" where
  "ExtractMemoReactionIDFromName name =
     bindE (GetNameParentTokens name [MemoNamePrefix, ReactionNamePrefix]) (\<lambda>tokens.
     bindE (token_int32 ''invalid reaction ID %q'' (tokens ! 1)) (\<lambda>reactionID.
       Inr (tokens ! 0, reactionID)))"

definition ExtractInboxIDFromName :: "string \<Rightarrow> int result" where
  "ExtractInboxIDFromName name =
     bindE (GetNameParentTokens name [InboxNamePrefix]) (\<lambda>tokens.
       token_int32 ''invalid inbox ID %q'' (tokens ! 0))"

definition ExtractIdentityProviderUIDFromName :: "string \<Rightarrow> string result" where
  "ExtractIdentityProviderUIDFromName name =
     bindE (GetNameParentTokens name [IdentityProviderNamePrefix]) (\<lambda>tokens. Inr (tokens ! 0))"

definition ValidateAndGenerateUID :: "string \<Rightarrow> string \<Rightarrow> string result" where
  "ValidateAndGenerateUID shortuuid provided =
     (let uid = trim_space provided in
      if uid = [] then Inr shortuuid
      else if \<not> UIDMatcher uid
      then Inl (Errorf ''invalid UID: must be 1-36 characters, contain only letters, digits, or hyphens, and start and end with a letter or digit'' [])
      else Inr uid)"

definition ValidateAndGenerateSpaceUID :: "string \<Rightarrow> string \<Rightarrow> string \<Rightarrow> string result" where
  "ValidateAndGenerateSpaceUID uuid shortuuid provided =
     (if trim_space provided = [] then Inr uuid else ValidateAndGenerateUID shortuuid provided)"

section \<open>Lemmas\<close>

lemma alnum_username_char: "isASCIIAlphanumeric c \<Longrightarrow> IsUsernameCharacter c"
  by (simp add: IsUsernameCharacter_def)

lemma IsUsernameCharacter_not_slash: "IsUsernameCharacter c \<Longrightarrow> c \<noteq> CHR ''/''"
  by (auto simp: IsUsernameCharacter_def isASCIIAlphanumeric_def isASCIILetter_def isASCIIDigit_def)

text \<open>The name made from prefixes and tokens, and the prefixes the code uses.\<close>

fun build_name :: "string list \<Rightarrow> string list \<Rightarrow> string list" where
  "build_name (p # ps) (t # ts) = butlast p # t # build_name ps ts"
| "build_name _ _ = []"

definition prefix_ok :: "string \<Rightarrow> bool" where
  "prefix_ok p = (p \<noteq> [] \<and> last p = CHR ''/'' \<and> CHR ''/'' \<notin> set (butlast p))"

lemma prefix_ok_prefixes [simp]:
  "prefix_ok UserNamePrefix" "prefix_ok MemoNamePrefix" "prefix_ok AttachmentNamePrefix"
  "prefix_ok ReactionNamePrefix" "prefix_ok InboxNamePrefix" "prefix_ok SpaceNamePrefix"
  "prefix_ok SpaceMemberNamePrefix" "prefix_ok SpaceInvitationNamePrefix"
  "prefix_ok IdentityProviderNamePrefix"
  by (simp_all add: prefix_ok_def)

definition token_ok :: "string \<Rightarrow> bool" where
  "token_ok t = (t \<noteq> [] \<and> CHR ''/'' \<notin> set t)"

lemma name_tokens_iff:
  assumes "list_all prefix_ok ps" "length parts = 2 * length ps" "\<forall>p \<in> set parts. CHR ''/'' \<notin> set p"
  shows "name_tokens name parts ps = Inr ts \<longleftrightarrow>
    parts = build_name ps ts \<and> length ts = length ps \<and> list_all token_ok ts"
  using assms
proof (induction name parts ps arbitrary: ts rule: name_tokens.induct)
  case (2 name part token parts p ps)
  have eq: "part @ ''/'' = p \<longleftrightarrow> part = butlast p"
    using "2.prems"(1) by (cases p rule: rev_cases) (auto simp: prefix_ok_def)
  show ?case
  proof (cases "part @ ''/'' = p \<and> token \<noteq> []")
    case True
    then have "name_tokens name parts ps = Inr us \<longleftrightarrow>
        parts = build_name ps us \<and> length us = length ps \<and> list_all token_ok us" for us
      using 2 by auto
    with True eq "2.prems" show ?thesis
      by (cases ts) (auto simp: result_simps token_ok_def [of token])
  next
    case False
    with eq show ?thesis by (cases ts) (auto simp: token_ok_def [of "[]"])
  qed
qed auto

lemma GetNameParentTokens_iff:
  assumes "list_all prefix_ok ps" "ps \<noteq> []"
  shows "GetNameParentTokens name ps = Inr ts \<longleftrightarrow>
    name = join ''/'' (build_name ps ts) \<and> length ts = length ps \<and> list_all token_ok ts"
proof -
  have len: "length (build_name ps ts) = 2 * length ps" if "length ts = length ps"
    using that by (induction ps ts rule: build_name.induct) auto
  have fresh: "\<forall>p \<in> set (build_name ps ts). CHR ''/'' \<notin> set p"
    if "length ts = length ps" "list_all token_ok ts"
    using that assms(1)
  proof (induction ps ts rule: build_name.induct)
    case (1 p ps t ts)
    then have "CHR ''/'' \<notin> set (butlast p)" by (auto simp: prefix_ok_def)
    with 1 show ?case by (auto simp: token_ok_def)
  qed auto
  have parts: "\<forall>p \<in> set (split (CHR ''/'') name). CHR ''/'' \<notin> set p"
    by (simp add: split_parts_fresh)
  show ?thesis
  proof
    assume "GetNameParentTokens name ps = Inr ts"
    then have "length (split (CHR ''/'') name) = 2 * length ps"
      "name_tokens name (split (CHR ''/'') name) ps = Inr ts"
      by (auto simp: GetNameParentTokens_def Let_def split: if_splits)
    with name_tokens_iff [OF assms(1) _ parts]
    show "name = join ''/'' (build_name ps ts) \<and> length ts = length ps \<and> list_all token_ok ts"
      by (metis join_split)
  next
    assume *: "name = join ''/'' (build_name ps ts) \<and> length ts = length ps \<and> list_all token_ok ts"
    then have ne: "build_name ps ts \<noteq> []" using len assms(2) by fastforce
    have sp: "split (CHR ''/'') name = build_name ps ts"
      using * fresh ne by (auto intro: split_join)
    then show "GetNameParentTokens name ps = Inr ts"
      using * len name_tokens_iff [OF assms(1), of "build_name ps ts" name ts] fresh
      by (simp add: GetNameParentTokens_def)
  qed
qed

lemmas extract_defs = ExtractMemoUIDFromName_def ExtractSpaceUIDFromName_def
  ExtractSpaceMemberTokensFromName_def ExtractMemoReactionIDFromName_def ExtractUserIDFromName_def

lemma length_1_iff: "length xs = Suc 0 \<longleftrightarrow> (\<exists>x. xs = [x])"
  by (cases xs) auto

lemma length_2_iff: "length xs = Suc (Suc 0) \<longleftrightarrow> (\<exists>x y. xs = [x, y])"
  by (cases xs; cases "tl xs") auto

lemma tokens_one:
  assumes "prefix_ok p"
  shows "GetNameParentTokens name [p] = Inr ts \<longleftrightarrow> (\<exists>t. ts = [t] \<and> name = p @ t \<and> token_ok t)"
proof -
  have p: "butlast p @ ''/'' = p" using assms by (metis append_butlast_last_id prefix_ok_def)
  have "join ''/'' (build_name [p] [t]) = (butlast p @ ''/'') @ t" for t by simp
  then show ?thesis
    unfolding p using assms by (auto simp del: build_name.simps simp: GetNameParentTokens_iff length_1_iff)
qed

lemma tokens_two:
  assumes "prefix_ok p" "prefix_ok q"
  shows "GetNameParentTokens name [p, q] = Inr ts \<longleftrightarrow>
    (\<exists>t u. ts = [t, u] \<and> name = p @ t @ ''/'' @ q @ u \<and> token_ok t \<and> token_ok u)"
proof -
  have p: "butlast p @ ''/'' = p" "butlast q @ ''/'' = q"
    using assms by (metis append_butlast_last_id prefix_ok_def)+
  have "join ''/'' (build_name [p, q] [t, u]) = (butlast p @ ''/'') @ t @ ''/'' @ (butlast q @ ''/'') @ u" for t u
    by simp
  then show ?thesis
    unfolding p using assms by (auto simp del: build_name.simps simp: GetNameParentTokens_iff length_2_iff)
qed

lemma UIDMatcher_chars: "UIDMatcher uid \<longleftrightarrow> uid \<noteq> [] \<and> length uid \<le> 36
    \<and> isASCIIAlphanumeric (hd uid) \<and> isASCIIAlphanumeric (last uid) \<and> list_all IsUsernameCharacter uid"
proof (cases uid)
  case Nil
  then show ?thesis by (simp add: UIDMatcher_def)
next
  case (Cons c rest)
  then show ?thesis
    by (cases rest rule: rev_cases) (auto simp: UIDMatcher_def alnum_username_char)
qed

lemma UIDMatcher_token_ok: "UIDMatcher uid \<Longrightarrow> token_ok uid"
  using IsUsernameCharacter_not_slash by (auto simp: UIDMatcher_chars token_ok_def list_all_iff)

section \<open>Properties\<close>

text \<open>The regular expression for resource identifiers and the hand-written username check
  accept the same strings.\<close>

theorem UIDMatcher_IsValidUsername: "UIDMatcher s = IsValidUsername s"
  by (auto simp: UIDMatcher_chars IsValidUsername_def MaxUsernameLength_def)

text \<open>Extracting the identifier of a memo name succeeds exactly on the names built from a
  non-empty identifier without a slash, and returns that identifier: extraction inverts building,
  and no other name is accepted.\<close>

theorem ExtractMemoUIDFromName_iff:
  "ExtractMemoUIDFromName name = Inr uid \<longleftrightarrow>
     name = buildMemoName uid \<and> uid \<noteq> [] \<and> CHR ''/'' \<notin> set uid"
  by (auto simp: ExtractMemoUIDFromName_def buildMemoName_def result_simps tokens_one token_ok_def)

text \<open>A space member name is accepted exactly when it is "spaces/" with a non-empty space
  identifier, "/members/" and a non-empty username, neither holding a slash; the two tokens are
  returned in that order.\<close>

theorem ExtractSpaceMemberTokensFromName_iff:
  "ExtractSpaceMemberTokensFromName name = Inr (space, user) \<longleftrightarrow>
     name = ''spaces/'' @ space @ ''/members/'' @ user
     \<and> space \<noteq> [] \<and> CHR ''/'' \<notin> set space \<and> user \<noteq> [] \<and> CHR ''/'' \<notin> set user"
    (is "_ \<longleftrightarrow> ?name")
proof
  assume "ExtractSpaceMemberTokensFromName name = Inr (space, user)"
  then show ?name
    by (auto simp: ExtractSpaceMemberTokensFromName_def result_simps tokens_two token_ok_def)
next
  assume ?name
  then have "GetNameParentTokens name [SpaceNamePrefix, SpaceMemberNamePrefix] = Inr [space, user]"
    by (simp add: tokens_two token_ok_def)
  then show "ExtractSpaceMemberTokensFromName name = Inr (space, user)"
    by (simp add: ExtractSpaceMemberTokensFromName_def)
qed

text \<open>The name of a reaction, built from a valid memo identifier and a positive 32-bit number,
  is read back as that identifier and number.\<close>

theorem ExtractMemoReactionIDFromName_roundtrip:
  assumes "UIDMatcher uid" "n < 2 ^ 31"
  shows "ExtractMemoReactionIDFromName (buildMemoName uid @ ''/reactions/'' @ decimal n) = Inr (uid, int n)"
proof -
  have "token_ok (decimal n)"
    using decimal_digits [of n] by (auto simp: token_ok_def list_all_iff is_digit_def)
  then have "GetNameParentTokens (buildMemoName uid @ ''/reactions/'' @ decimal n)
      [MemoNamePrefix, ReactionNamePrefix] = Inr [uid, decimal n]"
    using UIDMatcher_token_ok [OF assms(1)] by (simp add: tokens_two buildMemoName_def)
  then show ?thesis
    using parse_decimal [OF assms(2)]
    by (simp add: ExtractMemoReactionIDFromName_def token_int32_def ConvertStringToInt32_def)
qed

theorem ExtractMemoReactionIDFromName_roundtrip_witness:
  "ExtractMemoReactionIDFromName ''memos/a-1/reactions/42'' = Inr (''a-1'', 42)"
proof -
  have "UIDMatcher ''a-1''"
    by (simp add: UIDMatcher_def isASCIIAlphanumeric_def isASCIILetter_def isASCIIDigit_def
        IsUsernameCharacter_def)
  then show ?thesis
    using ExtractMemoReactionIDFromName_roundtrip [of "''a-1''" 42]
    by (simp add: buildMemoName_def decimal.simps digit_char_def)
qed

end
