(* ===== verification/Store_Tables.thy ===== *)
theory Store_Tables
  imports Resource_Names
begin

text \<open>
  The relational state of the store: one record per table row and one record for the database
  (\<open>store/migration/sqlite/LATEST.sql\<close>), the sentinel errors of the package \<open>store\<close>, and the few
  query forms the SQLite driver uses. String-typed Go values (\<open>RowStatus\<close>, \<open>Visibility\<close>, roles)
  are strings, so that unknown values stay possible. A statement fails only when it violates a
  constraint of the schema; an operation that fails returns no new database, which is the
  rollback of its transaction. Foreign keys are not enforced, as the driver opens the database
  with \<open>foreign_keys(0)\<close>.
\<close>

section \<open>Values\<close>

type_synonym int32 = int
type_synonym RowStatus = string
type_synonym Visibility = string
type_synonym SpaceMemberStatus = string
type_synonym SpaceMemberRole = string

abbreviation Normal :: RowStatus where "Normal \<equiv> ''NORMAL''"
abbreviation Archived :: RowStatus where "Archived \<equiv> ''ARCHIVED''"
abbreviation Public :: Visibility where "Public \<equiv> ''PUBLIC''"
abbreviation Protected :: Visibility where "Protected \<equiv> ''PROTECTED''"
abbreviation Private :: Visibility where "Private \<equiv> ''PRIVATE''"
abbreviation SpaceAudience :: Visibility where "SpaceAudience \<equiv> ''SPACE''"
abbreviation SpaceMemberStatusInvited :: SpaceMemberStatus where "SpaceMemberStatusInvited \<equiv> ''INVITED''"
abbreviation SpaceMemberStatusActive :: SpaceMemberStatus where "SpaceMemberStatusActive \<equiv> ''ACTIVE''"
abbreviation SpaceMemberRoleAdmin :: SpaceMemberRole where "SpaceMemberRoleAdmin \<equiv> ''ADMIN''"
abbreviation SpaceMemberRoleUser :: SpaceMemberRole where "SpaceMemberRoleUser \<equiv> ''USER''"

definition IsActiveMember :: "SpaceMemberRole \<Rightarrow> bool" where
  "IsActiveMember r = (r = SpaceMemberRoleAdmin \<or> r = SpaceMemberRoleUser)"

text \<open>The sentinel errors, other errors by their message, and the errors of the database.\<close>

datatype store_error =
  ErrLastSpaceAdmin | ErrSpacePermissionDenied | ErrSpaceMemberNotActive | ErrSpaceAlreadyExists
| ErrSpaceMemberAlreadyExists | ErrSpaceNotFound | ErrSpaceMemberNotFound
| ErrSpaceInvitationNotFound | ErrUserHasSpaceMembership
| ErrMemoSpaceNotWritable | ErrMemoSpaceMembershipRequired | ErrMemoPermissionDenied
| ErrMemoShareConflict | ErrMemoMutationConflict
| ErrReactionMemoNotFound | ErrReactionPermissionDenied
| NewError string
| ErrNoRows | ErrConstraintUnique | ErrConstraintPrimaryKey | ErrConstraintCheck | ErrSyntax
| WrapError store_error string

section \<open>Rows\<close>

record User =
  u_ID :: int32
  u_RowStatus :: RowStatus
  u_CreatedTs :: int
  u_UpdatedTs :: int
  u_Username :: string
  u_Role :: string
  u_Email :: string
  u_Nickname :: string
  u_PasswordHash :: string
  u_AvatarURL :: string
  u_Description :: string

record space_row =
  sp_id :: int32
  sp_uid :: string
  sp_title :: string
  sp_description :: string

record space_member_row =
  sm_space_id :: int32
  sm_user_id :: int32
  sm_status :: SpaceMemberStatus
  sm_role :: SpaceMemberRole

text \<open>A memo; its payload is a message in the program and its JSON text in a row.\<close>

record 'p Memo =
  m_ID :: int32
  m_UID :: string
  m_RowStatus :: RowStatus
  m_CreatorID :: int32
  m_CreatedTs :: int
  m_UpdatedTs :: int
  m_Content :: string
  m_Visibility :: Visibility
  m_Pinned :: bool
  m_Payload :: 'p
  m_SpaceID :: "int32 option"

record memo_relation_row =
  rel_memo_id :: int32
  rel_related_memo_id :: int32
  rel_type :: string

record Attachment =
  at_ID :: int32
  at_UID :: string
  at_CreatorID :: int32
  at_MemoID :: "int32 option"
  at_StorageType :: string
  at_Reference :: string
  at_Payload :: string

text \<open>The columns of \<open>attachment\<close> that only its own operations read are kept apart, under the row's key;
  keys are never used again.\<close>

record attachment_file_row =
  af_id :: int32
  af_CreatedTs :: int
  af_UpdatedTs :: int
  af_Filename :: string
  af_Blob :: string
  af_Type :: string
  af_Size :: int

record reaction_row =
  re_id :: int32
  re_created_ts :: int
  re_creator_id :: int32
  re_memo_id :: int32
  re_type :: string

record memo_share_row =
  sh_id :: int32
  sh_uid :: string
  sh_memo_id :: int32
  sh_creator_id :: int32
  sh_created_ts :: int
  sh_expires_ts :: "int option"

record inbox_row =
  in_id :: int32
  in_sender_id :: int32
  in_receiver_id :: int32
  in_status :: string
  in_message :: string

record user_identity_row =
  ui_id :: int32
  ui_user_id :: int32
  ui_provider :: string
  ui_extern_uid :: string

record user_setting_row =
  us_user_id :: int32
  us_key :: string
  us_value :: string

text \<open>The tables, the counters of the \<open>AUTOINCREMENT\<close> keys and the clock of the database.\<close>

record db =
  db_user :: "User list"
  db_space :: "space_row list"
  db_space_member :: "space_member_row list"
  db_memo :: "string Memo list"
  db_memo_relation :: "memo_relation_row list"
  db_attachment :: "Attachment list"
  db_attachment_file :: "attachment_file_row list"
  db_reaction :: "reaction_row list"
  db_memo_share :: "memo_share_row list"
  db_inbox :: "inbox_row list"
  db_user_identity :: "user_identity_row list"
  db_user_setting :: "user_setting_row list"
  db_user_seq :: int
  db_space_seq :: int
  db_memo_seq :: int
  db_attachment_seq :: int
  db_reaction_seq :: int
  db_memo_share_seq :: int
  db_user_identity_seq :: int
  db_inbox_seq :: int
  db_now :: int

definition empty_db :: db where
  "empty_db =
     \<lparr>db_user = [], db_space = [], db_space_member = [], db_memo = [], db_memo_relation = [],
      db_attachment = [], db_attachment_file = [], db_reaction = [], db_memo_share = [], db_inbox = [],
      db_user_identity = [], db_user_setting = [],
      db_user_seq = 0, db_space_seq = 0, db_memo_seq = 0, db_attachment_seq = 0, db_reaction_seq = 0, db_memo_share_seq = 0,
      db_user_identity_seq = 0, db_inbox_seq = 0, db_now = 0\<rparr>"

section \<open>Query forms\<close>

text \<open>\<open>QueryRow\<close>: the first row of a result, \<open>None\<close> for \<open>sql.ErrNoRows\<close>.\<close>

fun first_row :: "'a list \<Rightarrow> 'a option" where
  "first_row [] = None"
| "first_row (r # rs) = Some r"

definition user_status :: "db \<Rightarrow> int32 \<Rightarrow> RowStatus option" where
  "user_status d uid = first_row (map u_RowStatus (filter (\<lambda>u. u_ID u = uid) (db_user d)))"

definition space_exists :: "db \<Rightarrow> int32 \<Rightarrow> bool" where
  "space_exists d sid = (\<exists>s \<in> set (db_space d). sp_id s = sid)"

text \<open>A row of \<open>space_member\<close> joined with a \<open>NORMAL\<close> user.\<close>

definition user_normal :: "db \<Rightarrow> int32 \<Rightarrow> bool" where
  "user_normal d uid = (\<exists>u \<in> set (db_user d). u_ID u = uid \<and> u_RowStatus u = Normal)"

definition member_is :: "int32 \<Rightarrow> int32 \<Rightarrow> SpaceMemberStatus \<Rightarrow> space_member_row \<Rightarrow> bool" where
  "member_is sid uid st sm = (sm_space_id sm = sid \<and> sm_user_id sm = uid \<and> sm_status sm = st)"

definition joined_role :: "db \<Rightarrow> int32 \<Rightarrow> int32 \<Rightarrow> SpaceMemberRole option" where
  "joined_role d sid uid =
     first_row [sm_role sm. sm \<leftarrow> db_space_member d, u \<leftarrow> db_user d,
       u_ID u = sm_user_id sm \<and> member_is sid uid SpaceMemberStatusActive sm \<and> u_RowStatus u = Normal]"

text \<open>The number of active administrators of a space.\<close>

definition admin_count :: "db \<Rightarrow> int32 \<Rightarrow> nat" where
  "admin_count d sid =
     length [sm. sm \<leftarrow> db_space_member d, u \<leftarrow> db_user d,
       u_ID u = sm_user_id sm \<and> sm_space_id sm = sid \<and> sm_status sm = SpaceMemberStatusActive
       \<and> sm_role sm = SpaceMemberRoleAdmin \<and> u_RowStatus u = Normal]"

text \<open>\<open>LIMIT\<close> and \<open>OFFSET\<close>: a negative limit is no limit, a negative offset none.\<close>

definition sql_limit :: "int option \<Rightarrow> int option \<Rightarrow> 'a list \<Rightarrow> 'a list" where
  "sql_limit limit offset rows =
     (case limit of
        None \<Rightarrow> rows
      | Some l \<Rightarrow>
          (let skipped = (case offset of None \<Rightarrow> rows | Some i \<Rightarrow> drop (nat i) rows)
           in if l < 0 then skipped else take (nat l) skipped))"

definition update_rows :: "('r \<Rightarrow> bool) \<Rightarrow> ('r \<Rightarrow> 'r) \<Rightarrow> 'r list \<Rightarrow> 'r list" where
  "update_rows p f = map (\<lambda>r. if p r then f r else r)"

text \<open>\<open>INSERT INTO space_member\<close> with its primary key and the check of the role.\<close>

definition insert_space_member :: "space_member_row \<Rightarrow> db \<Rightarrow> store_error + db" where
  "insert_space_member row d =
     (if \<exists>sm \<in> set (db_space_member d).
           sm_space_id sm = sm_space_id row \<and> sm_user_id sm = sm_user_id row
      then Inl ErrConstraintPrimaryKey
      else if \<not> IsActiveMember (sm_role row) then Inl ErrConstraintCheck
      else Inr (d\<lparr>db_space_member := db_space_member d @ [row]\<rparr>))"

text \<open>\<open>INSERT INTO space\<close> with its unique \<open>uid\<close> and its counter.\<close>

definition insert_space :: "string \<Rightarrow> string \<Rightarrow> string \<Rightarrow> db \<Rightarrow> store_error + (space_row \<times> db)" where
  "insert_space uid title description d =
     (if \<exists>s \<in> set (db_space d). sp_uid s = uid then Inl ErrConstraintUnique
      else let row = \<lparr>sp_id = db_space_seq d + 1, sp_uid = uid, sp_title = title,
                      sp_description = description\<rparr>
           in Inr (row, d\<lparr>db_space := db_space d @ [row], db_space_seq := db_space_seq d + 1\<rparr>))"

section \<open>Keys\<close>

text \<open>What the primary keys and the checks of the schema guarantee of every database.\<close>

definition db_keys :: "db \<Rightarrow> bool" where
  "db_keys d =
     (distinct (map u_ID (db_user d)) \<and> distinct (map sp_id (db_space d))
      \<and> distinct (map (\<lambda>sm. (sm_space_id sm, sm_user_id sm)) (db_space_member d))
      \<and> distinct (map m_ID (db_memo d)) \<and> distinct (map at_ID (db_attachment d))
      \<and> distinct (map in_id (db_inbox d))
      \<and> (\<forall>u \<in> set (db_user d). u_ID u \<le> db_user_seq d)
      \<and> (\<forall>s \<in> set (db_space d). sp_id s \<le> db_space_seq d)
      \<and> (\<forall>sm \<in> set (db_space_member d). sm_space_id sm \<le> db_space_seq d \<and> IsActiveMember (sm_role sm)))"

lemma first_row_iff: "first_row xs = Some x \<longleftrightarrow> (\<exists>ys. xs = x # ys)"
  by (cases xs) auto

lemma first_row_None [simp]: "first_row xs = None \<longleftrightarrow> xs = []"
  by (cases xs) auto

lemma first_row_in: "first_row xs = Some x \<Longrightarrow> x \<in> set xs"
  by (cases xs) auto

lemma update_rows_simps [simp]:
  "update_rows p f [] = []"
  "update_rows p f (r # rs) = (if p r then f r else r) # update_rows p f rs"
  "length (update_rows p f rs) = length rs"
  "set (update_rows p f rs) = (\<lambda>r. if p r then f r else r) ` set rs"
  by (simp_all add: update_rows_def)

lemma update_rows_key: "(\<And>r. k (f r) = k r) \<Longrightarrow> map k (update_rows p f rs) = map k rs"
  by (simp add: update_rows_def)

text \<open>With unique user ids a status determines, and is determined by, the row.\<close>

lemma user_status_iff:
  assumes "distinct (map u_ID (db_user d))"
  shows "user_status d uid = Some st \<longleftrightarrow> (\<exists>u \<in> set (db_user d). u_ID u = uid \<and> u_RowStatus u = st)"
proof -
  have "first_row (map u_RowStatus (filter (\<lambda>u. u_ID u = uid) us)) = Some st \<longleftrightarrow>
      (\<exists>u \<in> set us. u_ID u = uid \<and> u_RowStatus u = st)" if "distinct (map u_ID us)" for us
    using that by (induction us) (auto, metis imageI)
  with assms show ?thesis by (simp add: user_status_def)
qed

lemma user_normal_status:
  "distinct (map u_ID (db_user d)) \<Longrightarrow> user_normal d uid \<longleftrightarrow> user_status d uid = Some Normal"
  by (simp add: user_status_iff user_normal_def)

lemma joined_role_Some:
  "joined_role d sid uid = Some r \<Longrightarrow>
     user_normal d uid \<and> (\<exists>sm \<in> set (db_space_member d). member_is sid uid SpaceMemberStatusActive sm \<and> sm_role sm = r)"
  unfolding joined_role_def
  by (drule first_row_in) (auto simp: user_normal_def member_is_def split: if_splits)

end
