(* ===== verification/Space_Store.thy ===== *)
theory Space_Store
  imports Store_Tables
begin

text \<open>
  Spaces, memberships and invitations: the store layer (\<open>store/space.go\<close>) over the SQLite driver
  (\<open>store/db/sqlite/space.go\<close>), and the part of the user operations that can end an
  administrator's account (\<open>store/db/sqlite/user.go\<close>, \<open>user_identity.go\<close>). A nil pointer argument
  is \<open>None\<close>; an operation maps a database to an error or to its result with the new database.
\<close>

section \<open>Arguments and results (store/space.go)\<close>

record Space =
  Space_ID :: int32
  Space_UID :: string
  Space_Title :: string
  Space_Description :: string
  Space_CurrentUserRole :: SpaceMemberRole
  Space_MemberCount :: nat

record FindSpace =
  fs_ID :: "int32 option"
  fs_IDList :: "int32 list"
  fs_UID :: "string option"
  fs_MemberUserID :: "int32 option"
  fs_Limit :: "int option"
  fs_Offset :: "int option"

record UpdateSpace =
  us_ID :: int32
  us_Title :: "string option"
  us_Description :: "string option"

record SpaceMember =
  mem_SpaceID :: int32
  mem_UserID :: int32
  mem_Role :: SpaceMemberRole

record FindSpaceMember =
  fm_SpaceID :: "int32 option"
  fm_UserID :: "int32 option"
  fm_ViewerUserID :: "int32 option"
  fm_Limit :: "int option"
  fm_Offset :: "int option"

record UpdateSpaceMember =
  um_SpaceID :: int32
  um_UserID :: int32
  um_Role :: "SpaceMemberRole option"

text \<open>\<open>DeleteSpaceMember\<close>, \<open>AcceptSpaceInvitation\<close>, \<open>DeclineSpaceInvitation\<close> and
  \<open>RevokeSpaceInvitation\<close> have the same two fields.\<close>

record space_user_key =
  key_SpaceID :: int32
  key_UserID :: int32

record SpaceInvitation =
  inv_SpaceID :: int32
  inv_UserID :: int32
  inv_Role :: SpaceMemberRole

record FindSpaceInvitation =
  fi_SpaceID :: "int32 option"
  fi_UserID :: "int32 option"
  fi_ViewerUserID :: "int32 option"
  fi_Limit :: "int option"
  fi_Offset :: "int option"

definition opt_eq :: "'a option \<Rightarrow> 'a \<Rightarrow> bool" where
  "opt_eq v x = (case v of None \<Rightarrow> True | Some a \<Rightarrow> x = a)"

section \<open>The driver (store/db/sqlite/space.go)\<close>

definition requireSQLiteActiveUser :: "db \<Rightarrow> int32 \<Rightarrow> store_error + unit" where
  "requireSQLiteActiveUser d userID =
     (case user_status d userID of
        None \<Rightarrow> Inl ErrSpaceMemberNotActive
      | Some rowStatus \<Rightarrow>
          (if rowStatus \<noteq> Normal then Inl ErrSpaceMemberNotActive else Inr ()))"

definition authorizeSQLiteSpaceAdmin :: "db \<Rightarrow> int32 \<Rightarrow> int32 \<Rightarrow> store_error + unit" where
  "authorizeSQLiteSpaceAdmin d spaceID actorUserID =
     (if \<not> space_exists d spaceID then Inl ErrSpaceNotFound
      else case joined_role d spaceID actorUserID of
        None \<Rightarrow> Inl ErrSpacePermissionDenied
      | Some role \<Rightarrow>
          (if role \<noteq> SpaceMemberRoleAdmin then Inl ErrSpacePermissionDenied else Inr ()))"

definition isSQLiteUniqueViolation :: "store_error \<Rightarrow> bool" where
  "isSQLiteUniqueViolation e = (e = ErrConstraintUnique \<or> e = ErrConstraintPrimaryKey)"

definition DB_CreateSpace :: "Space \<Rightarrow> int32 \<Rightarrow> db \<Rightarrow> store_error + (Space \<times> db)" where
  "DB_CreateSpace create creatorID d =
     bindE (requireSQLiteActiveUser d creatorID) (\<lambda>_.
       case insert_space (Space_UID create) (Space_Title create) (Space_Description create) d of
         Inl e \<Rightarrow>
           (if isSQLiteUniqueViolation e then Inl ErrSpaceAlreadyExists
            else Inl (WrapError e ''failed to create space''))
       | Inr (row, d1) \<Rightarrow>
           (case insert_space_member
                   \<lparr>sm_space_id = sp_id row, sm_user_id = creatorID,
                    sm_status = SpaceMemberStatusActive, sm_role = SpaceMemberRoleAdmin\<rparr> d1 of
              Inl e \<Rightarrow> Inl (WrapError e ''failed to create initial space admin'')
            | Inr d2 \<Rightarrow>
                Inr (\<lparr>Space_ID = sp_id row, Space_UID = sp_uid row, Space_Title = sp_title row,
                      Space_Description = sp_description row,
                      Space_CurrentUserRole = SpaceMemberRoleAdmin, Space_MemberCount = 1\<rparr>, d2)))"

text \<open>The active members of a space, and the summary of a space for a viewer: his role with
  the number of active members, one row per role of his (the primary key allows one).\<close>

definition active_members :: "db \<Rightarrow> int32 \<Rightarrow> space_member_row list" where
  "active_members d sid =
     filter (\<lambda>sm. sm_space_id sm = sid \<and> sm_status sm = SpaceMemberStatusActive
                  \<and> IsActiveMember (sm_role sm) \<and> user_normal d (sm_user_id sm)) (db_space_member d)"

definition space_summaries :: "db \<Rightarrow> int32 \<Rightarrow> int32 \<Rightarrow> (SpaceMemberRole \<times> nat) list" where
  "space_summaries d sid viewer =
     [(sm_role vm, length (active_members d sid)). vm \<leftarrow> db_space_member d,
        member_is sid viewer SpaceMemberStatusActive vm \<and> IsActiveMember (sm_role vm)
        \<and> user_normal d viewer]"

definition space_of_row :: "space_row \<Rightarrow> SpaceMemberRole \<Rightarrow> nat \<Rightarrow> Space" where
  "space_of_row s role count =
     \<lparr>Space_ID = sp_id s, Space_UID = sp_uid s, Space_Title = sp_title s,
      Space_Description = sp_description s, Space_CurrentUserRole = role, Space_MemberCount = count\<rparr>"

definition DB_ListSpaces :: "FindSpace \<Rightarrow> db \<Rightarrow> Space list" where
  "DB_ListSpaces q d =
     sql_limit (fs_Limit q) (fs_Offset q)
       [space_of_row s role count.
          s \<leftarrow> rev (sort_key sp_id
                 (filter (\<lambda>s. opt_eq (fs_ID q) (sp_id s)
                            \<and> (fs_IDList q = [] \<or> sp_id s \<in> set (fs_IDList q))
                            \<and> opt_eq (fs_UID q) (sp_uid s)) (db_space d))),
          (role, count) \<leftarrow> (case fs_MemberUserID q of
                            None \<Rightarrow> [([], 0)]
                          | Some viewer \<Rightarrow> space_summaries d (sp_id s) viewer)]"

definition populateSQLiteSpaceSummary :: "db \<Rightarrow> Space \<Rightarrow> int32 \<Rightarrow> store_error + Space" where
  "populateSQLiteSpaceSummary d sp userID =
     (case first_row (space_summaries d (Space_ID sp) userID) of
        None \<Rightarrow> Inl (WrapError ErrNoRows ''failed to populate SQLite space summary'')
      | Some (role, count) \<Rightarrow> Inr (sp\<lparr>Space_CurrentUserRole := role, Space_MemberCount := count\<rparr>))"

definition set_opt :: "'a option \<Rightarrow> 'a \<Rightarrow> 'a" where
  "set_opt v x = (case v of None \<Rightarrow> x | Some a \<Rightarrow> a)"

definition DB_UpdateSpace :: "UpdateSpace \<Rightarrow> int32 \<Rightarrow> db \<Rightarrow> store_error + (Space \<times> db)" where
  "DB_UpdateSpace update actorUserID d =
     bindE (authorizeSQLiteSpaceAdmin d (us_ID update) actorUserID) (\<lambda>_.
       if us_Title update = None \<and> us_Description update = None then Inl ErrSyntax
       else let spaces = update_rows (\<lambda>s. sp_id s = us_ID update)
                  (\<lambda>s. s\<lparr>sp_title := set_opt (us_Title update) (sp_title s),
                         sp_description := set_opt (us_Description update) (sp_description s)\<rparr>)
                  (db_space d);
                d' = d\<lparr>db_space := spaces\<rparr>
            in case first_row (filter (\<lambda>s. sp_id s = us_ID update) spaces) of
                 None \<Rightarrow> Inl ErrNoRows
               | Some s \<Rightarrow>
                   bindE (populateSQLiteSpaceSummary d' (space_of_row s [] 0) actorUserID) (\<lambda>sp.
                     Inr (sp, d')))"

definition DB_CreateSpaceInvitation ::
    "SpaceInvitation \<Rightarrow> int32 \<Rightarrow> db \<Rightarrow> store_error + (SpaceInvitation \<times> db)" where
  "DB_CreateSpaceInvitation create actorUserID d =
     bindE (authorizeSQLiteSpaceAdmin d (inv_SpaceID create) actorUserID) (\<lambda>_.
     bindE (requireSQLiteActiveUser d (inv_UserID create)) (\<lambda>_.
       case insert_space_member
              \<lparr>sm_space_id = inv_SpaceID create, sm_user_id = inv_UserID create,
               sm_status = SpaceMemberStatusInvited, sm_role = inv_Role create\<rparr> d of
         Inl e \<Rightarrow> (if isSQLiteUniqueViolation e then Inl ErrSpaceMemberAlreadyExists else Inl e)
       | Inr d' \<Rightarrow> Inr (create, d')))"

definition member_of_row :: "space_member_row \<Rightarrow> SpaceMember" where
  "member_of_row sm = \<lparr>mem_SpaceID = sm_space_id sm, mem_UserID = sm_user_id sm, mem_Role = sm_role sm\<rparr>"

definition active_member_of :: "db \<Rightarrow> int32 \<Rightarrow> int32 \<Rightarrow> bool" where
  "active_member_of d sid uid =
     (\<exists>sm \<in> set (db_space_member d). member_is sid uid SpaceMemberStatusActive sm
        \<and> IsActiveMember (sm_role sm) \<and> user_normal d uid)"

definition active_admin_of :: "db \<Rightarrow> int32 \<Rightarrow> int32 \<Rightarrow> bool" where
  "active_admin_of d sid uid =
     (\<exists>sm \<in> set (db_space_member d). member_is sid uid SpaceMemberStatusActive sm
        \<and> sm_role sm = SpaceMemberRoleAdmin \<and> user_normal d uid)"

definition DB_ListSpaceMembers :: "FindSpaceMember \<Rightarrow> db \<Rightarrow> SpaceMember list" where
  "DB_ListSpaceMembers q d =
     sql_limit (fm_Limit q) (fm_Offset q)
       (map member_of_row
         (sort_key sm_user_id
           (filter (\<lambda>sm. sm_status sm = SpaceMemberStatusActive \<and> IsActiveMember (sm_role sm)
                       \<and> space_exists d (sm_space_id sm) \<and> user_normal d (sm_user_id sm)
                       \<and> opt_eq (fm_SpaceID q) (sm_space_id sm)
                       \<and> opt_eq (fm_UserID q) (sm_user_id sm)
                       \<and> (case fm_ViewerUserID q of None \<Rightarrow> True
                          | Some viewer \<Rightarrow> active_member_of d (sm_space_id sm) viewer))
             (db_space_member d))))"

definition invitation_of_row :: "space_member_row \<Rightarrow> SpaceInvitation" where
  "invitation_of_row sm = \<lparr>inv_SpaceID = sm_space_id sm, inv_UserID = sm_user_id sm, inv_Role = sm_role sm\<rparr>"

text \<open>\<open>ORDER BY space_id DESC, user_id ASC\<close> as two stable sorts.\<close>

definition DB_ListSpaceInvitations :: "FindSpaceInvitation \<Rightarrow> db \<Rightarrow> SpaceInvitation list" where
  "DB_ListSpaceInvitations q d =
     sql_limit (fi_Limit q) (fi_Offset q)
       (map invitation_of_row
         (sort_key (\<lambda>sm. - sm_space_id sm) (sort_key sm_user_id
           (filter (\<lambda>sm. sm_status sm = SpaceMemberStatusInvited \<and> IsActiveMember (sm_role sm)
                       \<and> space_exists d (sm_space_id sm)
                       \<and> (\<exists>u \<in> set (db_user d). u_ID u = sm_user_id sm)
                       \<and> opt_eq (fi_SpaceID q) (sm_space_id sm)
                       \<and> opt_eq (fi_UserID q) (sm_user_id sm)
                       \<and> (case fi_ViewerUserID q of None \<Rightarrow> True
                          | Some viewer \<Rightarrow>
                              sm_user_id sm = viewer \<and> user_normal d viewer
                              \<or> active_admin_of d (sm_space_id sm) viewer))
             (db_space_member d)))))"

definition DB_AcceptSpaceInvitation ::
    "space_user_key \<Rightarrow> int32 \<Rightarrow> db \<Rightarrow> store_error + (SpaceMember \<times> db)" where
  "DB_AcceptSpaceInvitation accept actorUserID d =
     (if key_UserID accept \<noteq> actorUserID then Inl ErrSpacePermissionDenied
      else bindE (requireSQLiteActiveUser d (key_UserID accept)) (\<lambda>_.
        let pending = (\<lambda>sm. member_is (key_SpaceID accept) (key_UserID accept) SpaceMemberStatusInvited sm
                           \<and> IsActiveMember (sm_role sm))
        in case first_row (filter pending (db_space_member d)) of
             None \<Rightarrow> Inl ErrSpaceInvitationNotFound
           | Some sm \<Rightarrow>
               Inr (member_of_row sm,
                    d\<lparr>db_space_member :=
                       update_rows pending (\<lambda>r. r\<lparr>sm_status := SpaceMemberStatusActive\<rparr>)
                         (db_space_member d)\<rparr>)))"

text \<open>\<open>DELETE FROM space_member\<close> of one key and status, with the number of rows affected.\<close>

definition delete_member :: "int32 \<Rightarrow> int32 \<Rightarrow> SpaceMemberStatus \<Rightarrow> db \<Rightarrow> nat \<times> db" where
  "delete_member sid uid st d =
     (length (filter (member_is sid uid st) (db_space_member d)),
      d\<lparr>db_space_member := filter (\<lambda>sm. \<not> member_is sid uid st sm) (db_space_member d)\<rparr>)"

definition delete_invitation :: "space_user_key \<Rightarrow> db \<Rightarrow> store_error + db" where
  "delete_invitation k d =
     (let (deleted, d') = delete_member (key_SpaceID k) (key_UserID k) SpaceMemberStatusInvited d
      in if deleted = 0 then Inl ErrSpaceInvitationNotFound else Inr d')"

definition DB_DeclineSpaceInvitation :: "space_user_key \<Rightarrow> int32 \<Rightarrow> db \<Rightarrow> store_error + db" where
  "DB_DeclineSpaceInvitation decline actorUserID d =
     (if key_UserID decline \<noteq> actorUserID then Inl ErrSpacePermissionDenied
      else bindE (requireSQLiteActiveUser d (key_UserID decline)) (\<lambda>_. delete_invitation decline d))"

definition DB_RevokeSpaceInvitation :: "space_user_key \<Rightarrow> int32 \<Rightarrow> db \<Rightarrow> store_error + db" where
  "DB_RevokeSpaceInvitation revoke actorUserID d =
     bindE (authorizeSQLiteSpaceAdmin d (key_SpaceID revoke) actorUserID) (\<lambda>_.
       delete_invitation revoke d)"

definition DB_UpdateSpaceMember ::
    "UpdateSpaceMember \<Rightarrow> int32 \<Rightarrow> db \<Rightarrow> store_error + (SpaceMember \<times> db)" where
  "DB_UpdateSpaceMember update actorUserID d =
     bindE (authorizeSQLiteSpaceAdmin d (um_SpaceID update) actorUserID) (\<lambda>_.
     bindE (requireSQLiteActiveUser d (um_UserID update)) (\<lambda>_.
       let target = member_is (um_SpaceID update) (um_UserID update) SpaceMemberStatusActive in
       case first_row (map sm_role (filter target (db_space_member d))) of
         None \<Rightarrow> Inl ErrSpaceMemberNotFound
       | Some currentRole \<Rightarrow>
           (if currentRole = SpaceMemberRoleAdmin \<and> um_Role update \<noteq> None
               \<and> um_Role update \<noteq> Some SpaceMemberRoleAdmin \<and> admin_count d (um_SpaceID update) \<le> 1
            then Inl ErrLastSpaceAdmin
            else case um_Role update of
              None \<Rightarrow> Inl ErrSyntax
            | Some role \<Rightarrow>
                (if \<not> IsActiveMember role then Inl ErrConstraintCheck
                 else let rows = update_rows target (\<lambda>r. r\<lparr>sm_role := role\<rparr>) (db_space_member d)
                      in case first_row (filter target rows) of
                           None \<Rightarrow> Inl ErrNoRows
                         | Some sm \<Rightarrow> Inr (member_of_row sm, d\<lparr>db_space_member := rows\<rparr>)))))"

definition DB_DeleteSpaceMember :: "space_user_key \<Rightarrow> int32 \<Rightarrow> db \<Rightarrow> store_error + db" where
  "DB_DeleteSpaceMember delete actorUserID d =
     (if \<not> space_exists d (key_SpaceID delete) then Inl ErrSpaceNotFound
      else bindE
        (if actorUserID \<noteq> key_UserID delete then
           (case joined_role d (key_SpaceID delete) actorUserID of
              None \<Rightarrow> Inl ErrSpacePermissionDenied
            | Some actorRole \<Rightarrow>
                (if actorRole \<noteq> SpaceMemberRoleAdmin then Inl ErrSpacePermissionDenied else Inr ()))
         else Inr ()) (\<lambda>_.
        case first_row (map sm_role (filter
               (member_is (key_SpaceID delete) (key_UserID delete) SpaceMemberStatusActive)
               (db_space_member d))) of
          None \<Rightarrow> Inl ErrSpaceMemberNotFound
        | Some role \<Rightarrow>
            (if role = SpaceMemberRoleAdmin \<and> user_status d (key_UserID delete) = Some Normal
                \<and> admin_count d (key_SpaceID delete) \<le> 1
             then Inl ErrLastSpaceAdmin
             else Inr (snd (delete_member (key_SpaceID delete) (key_UserID delete)
                              SpaceMemberStatusActive d)))))"

section \<open>Users (store/db/sqlite/user.go, user_identity.go)\<close>

record UpdateUser =
  uu_ID :: int32
  uu_UpdatedTs :: "int option"
  uu_RowStatus :: "RowStatus option"
  uu_Username :: "string option"
  uu_Role :: "string option"
  uu_Email :: "string option"
  uu_Nickname :: "string option"
  uu_AvatarURL :: "string option"
  uu_PasswordHash :: "string option"
  uu_Description :: "string option"

text \<open>\<open>INSERT INTO user\<close>: the counter gives the id, the clock both timestamps, the defaults the
  description and the status; the user name is unique.\<close>

definition insertUser :: "User \<Rightarrow> db \<Rightarrow> store_error + (User \<times> db)" where
  "insertUser create d =
     (if \<exists>u \<in> set (db_user d). u_Username u = u_Username create then Inl ErrConstraintUnique
      else let row = create\<lparr>u_ID := db_user_seq d + 1, u_Description := [], u_CreatedTs := db_now d,
                            u_UpdatedTs := db_now d, u_RowStatus := Normal\<rparr>
           in Inr (row, d\<lparr>db_user := db_user d @ [row], db_user_seq := db_user_seq d + 1\<rparr>))"

definition DB_CreateUser :: "User \<Rightarrow> db \<Rightarrow> store_error + (User \<times> db)" where
  "DB_CreateUser create d = insertUser create d"

definition validateSQLiteUserArchive :: "db \<Rightarrow> int32 \<Rightarrow> store_error + unit" where
  "validateSQLiteUserArchive d userID =
     (case user_status d userID of
        None \<Rightarrow> Inl ErrNoRows
      | Some current \<Rightarrow>
          (if current \<noteq> Normal then Inr ()
           else if \<exists>target \<in> set (db_space_member d).
                     sm_user_id target = userID \<and> sm_status target = SpaceMemberStatusActive
                     \<and> sm_role target = SpaceMemberRoleAdmin
                     \<and> \<not> (\<exists>other \<in> set (db_space_member d).
                            sm_space_id other = sm_space_id target \<and> sm_user_id other \<noteq> userID
                            \<and> sm_status other = SpaceMemberStatusActive
                            \<and> sm_role other = SpaceMemberRoleAdmin
                            \<and> user_normal d (sm_user_id other))
                then Inl ErrLastSpaceAdmin else Inr ()))"

definition user_set :: "UpdateUser \<Rightarrow> User \<Rightarrow> User" where
  "user_set update u =
     u\<lparr>u_UpdatedTs := set_opt (uu_UpdatedTs update) (u_UpdatedTs u),
       u_RowStatus := set_opt (uu_RowStatus update) (u_RowStatus u),
       u_Username := set_opt (uu_Username update) (u_Username u),
       u_Email := set_opt (uu_Email update) (u_Email u),
       u_Nickname := set_opt (uu_Nickname update) (u_Nickname u),
       u_AvatarURL := set_opt (uu_AvatarURL update) (u_AvatarURL u),
       u_PasswordHash := set_opt (uu_PasswordHash update) (u_PasswordHash u),
       u_Description := set_opt (uu_Description update) (u_Description u),
       u_Role := set_opt (uu_Role update) (u_Role u)\<rparr>"

definition no_user_set :: "UpdateUser \<Rightarrow> bool" where
  "no_user_set update =
     (uu_UpdatedTs update = None \<and> uu_RowStatus update = None \<and> uu_Username update = None
      \<and> uu_Email update = None \<and> uu_Nickname update = None \<and> uu_AvatarURL update = None
      \<and> uu_PasswordHash update = None \<and> uu_Description update = None \<and> uu_Role update = None)"

text \<open>The update with the unique user name and the check of the status.\<close>

definition DB_UpdateUser :: "UpdateUser \<Rightarrow> db \<Rightarrow> store_error + (User \<times> db)" where
  "DB_UpdateUser update d =
     bindE (if uu_RowStatus update = Some Archived then validateSQLiteUserArchive d (uu_ID update)
            else Inr ()) (\<lambda>_.
       if no_user_set update then Inl ErrSyntax
       else let users = update_rows (\<lambda>u. u_ID u = uu_ID update) (user_set update) (db_user d)
            in if \<exists>u \<in> set users. u_ID u = uu_ID update
                    \<and> u_RowStatus u \<noteq> Normal \<and> u_RowStatus u \<noteq> Archived
               then Inl ErrConstraintCheck
               else if \<not> distinct (map u_Username users) then Inl ErrConstraintUnique
               else case first_row (filter (\<lambda>u. u_ID u = uu_ID update) users) of
                      None \<Rightarrow> Inl ErrNoRows
                    | Some u \<Rightarrow> Inr (u, d\<lparr>db_user := users\<rparr>))"

section \<open>The store (store/space.go)\<close>

definition Store_CreateSpace :: "Space option \<Rightarrow> int32 \<Rightarrow> db \<Rightarrow> store_error + (Space \<times> db)" where
  "Store_CreateSpace create creatorID d =
     (case create of
        None \<Rightarrow> Inl (NewError ''space is required'')
      | Some c \<Rightarrow>
          (if \<not> UIDMatcher (Space_UID c) then Inl (NewError ''invalid uid'')
           else if trim_space (Space_Title c) = [] then Inl (NewError ''space title is required'')
           else DB_CreateSpace c creatorID d))"

definition Store_GetSpace :: "FindSpace \<Rightarrow> db \<Rightarrow> Space option" where
  "Store_GetSpace q d = first_row (DB_ListSpaces q d)"

definition Store_UpdateSpace :: "UpdateSpace option \<Rightarrow> int32 \<Rightarrow> db \<Rightarrow> store_error + (Space \<times> db)" where
  "Store_UpdateSpace update actorUserID d =
     (case update of
        None \<Rightarrow> Inl (NewError ''space update is required'')
      | Some u \<Rightarrow>
          (if (case us_Title u of Some t \<Rightarrow> trim_space t = [] | None \<Rightarrow> False)
           then Inl (NewError ''space title is required'')
           else if us_Title u = None \<and> us_Description u = None
           then Inl (NewError ''space update requires at least one field'')
           else DB_UpdateSpace u actorUserID d))"

definition Store_GetSpaceMember :: "FindSpaceMember \<Rightarrow> db \<Rightarrow> SpaceMember option" where
  "Store_GetSpaceMember q d = first_row (DB_ListSpaceMembers q d)"

definition Store_UpdateSpaceMember ::
    "UpdateSpaceMember option \<Rightarrow> int32 \<Rightarrow> db \<Rightarrow> store_error + (SpaceMember \<times> db)" where
  "Store_UpdateSpaceMember update actorUserID d =
     (case update of
        None \<Rightarrow> Inl (NewError ''space member role is required'')
      | Some u \<Rightarrow>
          (case um_Role u of
             None \<Rightarrow> Inl (NewError ''space member role is required'')
           | Some role \<Rightarrow>
               (if \<not> IsActiveMember role then Inl (NewError ''invalid space member role'')
                else DB_UpdateSpaceMember u actorUserID d)))"

definition Store_DeleteSpaceMember :: "space_user_key option \<Rightarrow> int32 \<Rightarrow> db \<Rightarrow> store_error + db" where
  "Store_DeleteSpaceMember delete actorUserID d =
     (case delete of
        None \<Rightarrow> Inl (NewError ''space member deletion requires space, user, and actor'')
      | Some k \<Rightarrow>
          (if key_SpaceID k \<le> 0 \<or> key_UserID k \<le> 0 \<or> actorUserID \<le> 0
           then Inl (NewError ''space member deletion requires space, user, and actor'')
           else DB_DeleteSpaceMember k actorUserID d))"

definition Store_CreateSpaceInvitation ::
    "SpaceInvitation option \<Rightarrow> int32 \<Rightarrow> db \<Rightarrow> store_error + (SpaceInvitation \<times> db)" where
  "Store_CreateSpaceInvitation create actorUserID d =
     (case create of
        None \<Rightarrow> Inl (NewError ''space invitation requires space, user, and actor'')
      | Some c \<Rightarrow>
          (if inv_SpaceID c \<le> 0 \<or> inv_UserID c \<le> 0 \<or> actorUserID \<le> 0
           then Inl (NewError ''space invitation requires space, user, and actor'')
           else if \<not> IsActiveMember (inv_Role c) then Inl (NewError ''invalid space invitation role'')
           else DB_CreateSpaceInvitation c actorUserID d))"

definition Store_GetSpaceInvitation :: "FindSpaceInvitation \<Rightarrow> db \<Rightarrow> SpaceInvitation option" where
  "Store_GetSpaceInvitation q d = first_row (DB_ListSpaceInvitations q d)"

definition Store_AcceptSpaceInvitation ::
    "space_user_key option \<Rightarrow> int32 \<Rightarrow> db \<Rightarrow> store_error + (SpaceMember \<times> db)" where
  "Store_AcceptSpaceInvitation accept actorUserID d =
     (case accept of
        None \<Rightarrow> Inl (NewError ''space invitation acceptance requires space, user, and actor'')
      | Some k \<Rightarrow>
          (if key_SpaceID k \<le> 0 \<or> key_UserID k \<le> 0 \<or> actorUserID \<le> 0
           then Inl (NewError ''space invitation acceptance requires space, user, and actor'')
           else if key_UserID k \<noteq> actorUserID then Inl ErrSpacePermissionDenied
           else DB_AcceptSpaceInvitation k actorUserID d))"

definition Store_DeclineSpaceInvitation :: "space_user_key option \<Rightarrow> int32 \<Rightarrow> db \<Rightarrow> store_error + db" where
  "Store_DeclineSpaceInvitation decline actorUserID d =
     (case decline of
        None \<Rightarrow> Inl (NewError ''space invitation decline requires space, user, and actor'')
      | Some k \<Rightarrow>
          (if key_SpaceID k \<le> 0 \<or> key_UserID k \<le> 0 \<or> actorUserID \<le> 0
           then Inl (NewError ''space invitation decline requires space, user, and actor'')
           else if key_UserID k \<noteq> actorUserID then Inl ErrSpacePermissionDenied
           else DB_DeclineSpaceInvitation k actorUserID d))"

definition Store_RevokeSpaceInvitation :: "space_user_key option \<Rightarrow> int32 \<Rightarrow> db \<Rightarrow> store_error + db" where
  "Store_RevokeSpaceInvitation revoke actorUserID d =
     (case revoke of
        None \<Rightarrow> Inl (NewError ''space invitation revocation requires space, user, and actor'')
      | Some k \<Rightarrow>
          (if key_SpaceID k \<le> 0 \<or> key_UserID k \<le> 0 \<or> actorUserID \<le> 0
           then Inl (NewError ''space invitation revocation requires space, user, and actor'')
           else DB_RevokeSpaceInvitation k actorUserID d))"

end
