(* ===== verification/Store_Deletion.thy ===== *)
theory Store_Deletion
  imports Space_Store
begin

text \<open>
  Deletion of a user (\<open>store/db/sqlite/user_delete.go\<close>) and of a space
  (\<open>store/db/sqlite/space_delete.go\<close>) with everything they own. Identifiers are deleted in batches of
  500, one statement per batch. \<open>payload_ok\<close> says whether \<open>protojson\<close> can read the payload text
  of an attachment.
\<close>

section \<open>Batches\<close>

definition deleteUserBatchSize :: int where
  "deleteUserBatchSize = 500"

function batches :: "nat \<Rightarrow> 'a list \<Rightarrow> 'a list list" where
  "batches n xs = (if xs = [] \<or> n = 0 then [] else take n xs # batches n (drop n xs))"
  by pat_completeness auto
termination
  by (relation "measure (\<lambda>(n, xs). length xs)") auto

declare batches.simps [simp del]

definition deleteUserBatches :: "'a list \<Rightarrow> int \<Rightarrow> 'a list list" where
  "deleteUserBatches values n =
     (if values = [] then [] else batches (if n \<le> 0 then length values else nat n) values)"

definition deleteUserPlaceholder :: "nat \<Rightarrow> string" where
  "deleteUserPlaceholder i = ''?''"

definition deleteUserInClause :: "nat \<Rightarrow> 'a list \<Rightarrow> string \<times> 'a list" where
  "deleteUserInClause start values =
     (''('' @ join '', '' (map (\<lambda>i. deleteUserPlaceholder (start + i)) [0..<length values]) @ '')'', values)"

text \<open>One \<open>DELETE ... WHERE column IN clause\<close> per batch.\<close>

definition delete_in_batches ::
    "int32 list \<Rightarrow> (int32 list \<Rightarrow> db \<Rightarrow> db) \<Rightarrow> db \<Rightarrow> db" where
  "delete_in_batches ids del d =
     foldl (\<lambda>d batch. del (snd (deleteUserInClause 1 batch)) d) d (deleteUserBatches ids deleteUserBatchSize)"

section \<open>Statements\<close>

definition deleteMemosTx :: "int32 list \<Rightarrow> db \<Rightarrow> db" where
  "deleteMemosTx memoIDs =
     delete_in_batches memoIDs (\<lambda>ids d. d\<lparr>db_memo := filter (\<lambda>m. m_ID m \<notin> set ids) (db_memo d)\<rparr>)"

definition deleteReactionsByMemoIDsTx :: "int32 list \<Rightarrow> db \<Rightarrow> db" where
  "deleteReactionsByMemoIDsTx memoIDs =
     delete_in_batches memoIDs
       (\<lambda>ids d. d\<lparr>db_reaction := filter (\<lambda>r. re_memo_id r \<notin> set ids) (db_reaction d)\<rparr>)"

definition deleteAttachmentsByIDsTx :: "int32 list \<Rightarrow> db \<Rightarrow> db" where
  "deleteAttachmentsByIDsTx attachmentIDs =
     delete_in_batches attachmentIDs
       (\<lambda>ids d. d\<lparr>db_attachment := filter (\<lambda>a. at_ID a \<notin> set ids) (db_attachment d)\<rparr>)"

definition deleteReactionsByCreatorTx :: "int32 \<Rightarrow> db \<Rightarrow> db" where
  "deleteReactionsByCreatorTx userID d =
     d\<lparr>db_reaction := filter (\<lambda>r. re_creator_id r \<noteq> userID) (db_reaction d)\<rparr>"

definition deleteSQLiteMemoSetShares :: "int32 list \<Rightarrow> db \<Rightarrow> db" where
  "deleteSQLiteMemoSetShares memoIDs =
     delete_in_batches memoIDs
       (\<lambda>ids d. d\<lparr>db_memo_share := filter (\<lambda>s. sh_memo_id s \<notin> set ids) (db_memo_share d)\<rparr>)"

definition deleteMemoSharesTx :: "int32 \<Rightarrow> int32 list \<Rightarrow> db \<Rightarrow> db" where
  "deleteMemoSharesTx userID memoIDs d =
     delete_in_batches memoIDs
       (\<lambda>ids d. d\<lparr>db_memo_share := filter (\<lambda>s. sh_memo_id s \<notin> set ids) (db_memo_share d)\<rparr>)
       (d\<lparr>db_memo_share := filter (\<lambda>s. sh_creator_id s \<noteq> userID) (db_memo_share d)\<rparr>)"

definition deleteInboxesByIDsTx :: "int32 list \<Rightarrow> db \<Rightarrow> db" where
  "deleteInboxesByIDsTx inboxIDs =
     delete_in_batches inboxIDs (\<lambda>ids d. d\<lparr>db_inbox := filter (\<lambda>i. in_id i \<notin> set ids) (db_inbox d)\<rparr>)"

definition deleteUserIdentitiesTx :: "int32 \<Rightarrow> db \<Rightarrow> db" where
  "deleteUserIdentitiesTx userID d =
     d\<lparr>db_user_identity := filter (\<lambda>i. ui_user_id i \<noteq> userID) (db_user_identity d)\<rparr>"

definition deleteUserSettingsTx :: "int32 \<Rightarrow> db \<Rightarrow> db" where
  "deleteUserSettingsTx userID d =
     d\<lparr>db_user_setting := filter (\<lambda>s. us_user_id s \<noteq> userID) (db_user_setting d)\<rparr>"

definition deleteMemoRelationsTx :: "int32 list \<Rightarrow> db \<Rightarrow> db" where
  "deleteMemoRelationsTx memoIDs =
     delete_in_batches memoIDs
       (\<lambda>ids d. d\<lparr>db_memo_relation :=
          filter (\<lambda>r. \<not> (rel_memo_id r \<in> set ids \<or> rel_related_memo_id r \<in> set ids)) (db_memo_relation d)\<rparr>)"

definition deleteUserRowTx :: "int32 \<Rightarrow> db \<Rightarrow> db" where
  "deleteUserRowTx userID d = d\<lparr>db_user := filter (\<lambda>u. u_ID u \<noteq> userID) (db_user d)\<rparr>"

section \<open>What a deletion collects\<close>

text \<open>The rows of one query, appended to the attachments unless already seen.\<close>

fun appendDeleteUserAttachments ::
    "(string \<Rightarrow> bool) \<Rightarrow> Attachment list \<Rightarrow> int32 list \<Rightarrow> Attachment list
      \<Rightarrow> store_error + (int32 list \<times> Attachment list)" where
  "appendDeleteUserAttachments payload_ok [] seen attachments = Inr (seen, attachments)"
| "appendDeleteUserAttachments payload_ok (row # rows) seen attachments =
     (if at_ID row \<in> set seen then appendDeleteUserAttachments payload_ok rows seen attachments
      else if at_Payload row \<noteq> [] \<and> \<not> payload_ok (at_Payload row)
      then Inl (NewError ''proto: invalid payload'')
      else appendDeleteUserAttachments payload_ok rows (at_ID row # seen) (attachments @ [row]))"

definition attachments_of_memos :: "db \<Rightarrow> int32 list \<Rightarrow> Attachment list" where
  "attachments_of_memos d ids =
     filter (\<lambda>a. case at_MemoID a of None \<Rightarrow> False | Some m \<Rightarrow> m \<in> set ids) (db_attachment d)"

fun append_batches ::
    "(string \<Rightarrow> bool) \<Rightarrow> (int32 list \<Rightarrow> Attachment list) \<Rightarrow> int32 list list \<Rightarrow> int32 list
      \<Rightarrow> Attachment list \<Rightarrow> store_error + Attachment list" where
  "append_batches payload_ok query [] seen attachments = Inr attachments"
| "append_batches payload_ok query (batch # bs) seen attachments =
     bindE (appendDeleteUserAttachments payload_ok
              (query (snd (deleteUserInClause 1 batch))) seen attachments)
       (\<lambda>(seen', attachments'). append_batches payload_ok query bs seen' attachments')"

definition listDeleteUserAttachments ::
    "(string \<Rightarrow> bool) \<Rightarrow> db \<Rightarrow> int32 \<Rightarrow> int32 list \<Rightarrow> store_error + Attachment list" where
  "listDeleteUserAttachments payload_ok d userID memoIDs =
     bindE (appendDeleteUserAttachments payload_ok
              (filter (\<lambda>a. at_CreatorID a = userID) (db_attachment d)) [] [])
       (\<lambda>(seen, attachments).
         append_batches payload_ok (attachments_of_memos d)
           (deleteUserBatches memoIDs deleteUserBatchSize) seen attachments)"

definition listSQLiteMemoSetAttachments ::
    "(string \<Rightarrow> bool) \<Rightarrow> db \<Rightarrow> int32 list \<Rightarrow> store_error + Attachment list" where
  "listSQLiteMemoSetAttachments payload_ok d memoIDs =
     append_batches payload_ok (\<lambda>ids. sort_key at_ID (attachments_of_memos d ids))
       (deleteUserBatches memoIDs deleteUserBatchSize) [] []"

definition listDeleteUserMemos :: "db \<Rightarrow> int32 \<Rightarrow> int32 list" where
  "listDeleteUserMemos d userID = sort (map m_ID (filter (\<lambda>m. m_CreatorID m = userID) (db_memo d)))"

definition listDeleteUserSettingKeys :: "db \<Rightarrow> int32 \<Rightarrow> string list" where
  "listDeleteUserSettingKeys d userID =
     map us_key (filter (\<lambda>s. us_user_id s = userID) (db_user_setting d))"

definition listDeleteUserInboxIDs :: "db \<Rightarrow> int32 \<Rightarrow> int32 list" where
  "listDeleteUserInboxIDs d userID =
     map in_id (filter (\<lambda>i. in_sender_id i = userID \<or> in_receiver_id i = userID) (db_inbox d))"

definition attachmentIDsFromList :: "Attachment list \<Rightarrow> int32 list" where
  "attachmentIDsFromList attachments = map at_ID attachments"

record deleteUserTargetSet =
  ts_memoIDs :: "int32 list"
  ts_attachments :: "Attachment list"
  ts_attachmentIDs :: "int32 list"
  ts_userSettingKeys :: "string list"
  ts_inboxIDs :: "int32 list"

definition collectDeleteUserTargets ::
    "(string \<Rightarrow> bool) \<Rightarrow> db \<Rightarrow> int32 \<Rightarrow> store_error + deleteUserTargetSet" where
  "collectDeleteUserTargets payload_ok d userID =
     (let memoIDs = listDeleteUserMemos d userID in
      bindE (listDeleteUserAttachments payload_ok d userID memoIDs) (\<lambda>attachments.
        Inr \<lparr>ts_memoIDs = memoIDs, ts_attachments = attachments,
             ts_attachmentIDs = attachmentIDsFromList attachments,
             ts_userSettingKeys = listDeleteUserSettingKeys d userID,
             ts_inboxIDs = listDeleteUserInboxIDs d userID\<rparr>))"

definition deleteUserTargetsTx :: "int32 \<Rightarrow> deleteUserTargetSet \<Rightarrow> db \<Rightarrow> db" where
  "deleteUserTargetsTx userID targets d =
     (let memoIDs = ts_memoIDs targets;
          d = deleteMemosTx memoIDs d;
          d = deleteReactionsByMemoIDsTx memoIDs d;
          d = deleteAttachmentsByIDsTx (ts_attachmentIDs targets) d;
          d = deleteReactionsByCreatorTx userID d;
          d = deleteMemoSharesTx userID memoIDs d;
          d = deleteInboxesByIDsTx (ts_inboxIDs targets) d;
          d = deleteUserIdentitiesTx userID d;
          d = deleteUserSettingsTx userID d;
          d = deleteMemoRelationsTx memoIDs d
      in deleteUserRowTx userID d)"

section \<open>The operations\<close>

record DeleteUserResult =
  dur_Attachments :: "Attachment list"
  dur_UserSettingKeys :: "string list"

text \<open>\<open>failpoint\<close> is the test hook that makes the transaction fail before its commit.\<close>

definition DB_DeleteUser ::
    "(string \<Rightarrow> bool) \<Rightarrow> bool \<Rightarrow> int32 \<Rightarrow> db \<Rightarrow> store_error + (DeleteUserResult \<times> db)" where
  "DB_DeleteUser payload_ok failpoint userID d =
     (if \<not> (\<exists>u \<in> set (db_user d). u_ID u = userID)
      then Inr (\<lparr>dur_Attachments = [], dur_UserSettingKeys = []\<rparr>, d)
      else if length (filter (\<lambda>sm. sm_user_id sm = userID \<and> sm_status sm \<noteq> SpaceMemberStatusInvited)
                        (db_space_member d)) \<noteq> 0
      then Inl ErrUserHasSpaceMembership
      else let d1 = d\<lparr>db_space_member :=
                      filter (\<lambda>sm. \<not> (sm_user_id sm = userID \<and> sm_status sm = SpaceMemberStatusInvited))
                        (db_space_member d)\<rparr>
           in case collectDeleteUserTargets payload_ok d1 userID of
                Inl e \<Rightarrow> Inl (WrapError e ''failed to collect delete user targets'')
              | Inr targets \<Rightarrow>
                  (let d2 = deleteUserTargetsTx userID targets d1 in
                   if failpoint then Inl (NewError ''delete user failpoint before commit'')
                   else Inr (\<lparr>dur_Attachments = ts_attachments targets,
                              dur_UserSettingKeys = ts_userSettingKeys targets\<rparr>, d2)))"

definition deleteSQLiteMemoSetTx ::
    "(string \<Rightarrow> bool) \<Rightarrow> int32 list \<Rightarrow> db \<Rightarrow> store_error + (Attachment list \<times> db)" where
  "deleteSQLiteMemoSetTx payload_ok memoIDs d =
     (case listSQLiteMemoSetAttachments payload_ok d memoIDs of
        Inl e \<Rightarrow> Inl (WrapError e ''failed to collect memo attachments'')
      | Inr attachments \<Rightarrow>
          (let d = deleteSQLiteMemoSetShares memoIDs d;
               d = deleteMemosTx memoIDs d;
               d = deleteReactionsByMemoIDsTx memoIDs d;
               d = deleteAttachmentsByIDsTx (attachmentIDsFromList attachments) d;
               d = deleteMemoRelationsTx memoIDs d
           in Inr (attachments, d)))"

definition requireSQLiteSpaceDeleteAdmin :: "db \<Rightarrow> int32 \<Rightarrow> int32 \<Rightarrow> store_error + unit" where
  "requireSQLiteSpaceDeleteAdmin d spaceID actorUserID =
     (case user_status d actorUserID of
        None \<Rightarrow> Inl ErrSpacePermissionDenied
      | Some actorStatus \<Rightarrow>
          (if actorStatus \<noteq> Normal then Inl ErrSpacePermissionDenied
           else if \<not> space_exists d spaceID then Inl ErrSpaceNotFound
           else case first_row (map sm_role (filter
                       (member_is spaceID actorUserID SpaceMemberStatusActive) (db_space_member d))) of
                  None \<Rightarrow> Inl ErrSpacePermissionDenied
                | Some role \<Rightarrow>
                    (if role \<noteq> SpaceMemberRoleAdmin then Inl ErrSpacePermissionDenied else Inr ())))"

definition listSQLiteSpaceDeleteMemoIDs :: "db \<Rightarrow> int32 \<Rightarrow> int32 list" where
  "listSQLiteSpaceDeleteMemoIDs d spaceID =
     sort (map m_ID (filter (\<lambda>m. m_SpaceID m = Some spaceID) (db_memo d)))"

definition DB_DeleteSpace ::
    "(string \<Rightarrow> bool) \<Rightarrow> int32 \<Rightarrow> int32 \<Rightarrow> db \<Rightarrow> store_error + (Attachment list \<times> db)" where
  "DB_DeleteSpace payload_ok spaceID actorUserID d =
     bindE (requireSQLiteSpaceDeleteAdmin d spaceID actorUserID) (\<lambda>_.
       let memoIDs = listSQLiteSpaceDeleteMemoIDs d spaceID in
       case deleteSQLiteMemoSetTx payload_ok memoIDs d of
         Inl e \<Rightarrow> Inl (WrapError e ''failed to delete assigned memo set'')
       | Inr (attachments, d1) \<Rightarrow>
           (let d2 = d1\<lparr>db_space_member :=
                        filter (\<lambda>sm. sm_space_id sm \<noteq> spaceID) (db_space_member d1)\<rparr>;
                count = length (filter (\<lambda>s. sp_id s = spaceID) (db_space d2));
                d3 = d2\<lparr>db_space := filter (\<lambda>s. sp_id s \<noteq> spaceID) (db_space d2)\<rparr>
            in if count \<noteq> 1 then Inl ErrSpaceNotFound else Inr (attachments, d3)))"

definition Store_DeleteSpace ::
    "(string \<Rightarrow> bool) \<Rightarrow> (int32 \<times> int32) option \<Rightarrow> db \<Rightarrow> store_error + (Attachment list \<times> db)" where
  "Store_DeleteSpace payload_ok delete d =
     (case delete of
        None \<Rightarrow> Inl (NewError ''space deletion requires space and actor'')
      | Some (spaceID, actorUserID) \<Rightarrow>
          (if spaceID \<le> 0 \<or> actorUserID \<le> 0
           then Inl (NewError ''space deletion requires space and actor'')
           else DB_DeleteSpace payload_ok spaceID actorUserID d))"

section \<open>Batching is invisible\<close>

lemma concat_batches: "n > 0 \<Longrightarrow> concat (batches n xs) = xs"
proof (induction n xs rule: batches.induct)
  case (1 n xs)
  then show ?case
    by (cases "xs = []") (simp_all add: batches.simps [of n xs] batches.simps [of n "[]"])
qed

lemma batches_size: "b \<in> set (batches n xs) \<Longrightarrow> b \<noteq> [] \<and> length b \<le> n"
proof (induction n xs rule: batches.induct)
  case (1 n xs)
  then show ?case
    by (cases "xs = [] \<or> n = 0") (auto simp: batches.simps [of n xs])
qed

lemma concat_deleteUserBatches: "concat (deleteUserBatches xs n) = xs"
  by (simp add: deleteUserBatches_def concat_batches)

lemma in_clause_args [simp]: "snd (deleteUserInClause i xs) = xs"
  by (simp add: deleteUserInClause_def)

lemma delete_in_batches_once:
  assumes "\<And>d. del [] d = d" "\<And>a b d. del b (del a d) = del (a @ b) d"
  shows "delete_in_batches ids del d = del ids d"
proof -
  have "foldl (\<lambda>d b. del b d) d bs = del (concat bs) d" for bs d
    by (induction bs arbitrary: d) (simp_all add: assms)
  then show ?thesis by (simp add: delete_in_batches_def concat_deleteUserBatches)
qed

lemma filter_notin_append: "filter (\<lambda>x. k x \<notin> set b) (filter (\<lambda>x. k x \<notin> set a) xs)
    = filter (\<lambda>x. k x \<notin> set (a @ b)) xs"
  by (induction xs) auto

named_theorems statement_simps \<open>a batched statement is one statement\<close>

lemma deleteMemosTx_eq [statement_simps]:
  "deleteMemosTx ids d = d\<lparr>db_memo := filter (\<lambda>m. m_ID m \<notin> set ids) (db_memo d)\<rparr>"
  unfolding deleteMemosTx_def by (subst delete_in_batches_once) (simp_all add: conj_commute conj_left_commute)

lemma deleteReactionsByMemoIDsTx_eq [statement_simps]:
  "deleteReactionsByMemoIDsTx ids d = d\<lparr>db_reaction := filter (\<lambda>r. re_memo_id r \<notin> set ids) (db_reaction d)\<rparr>"
  unfolding deleteReactionsByMemoIDsTx_def
  by (subst delete_in_batches_once) (simp_all add: conj_commute conj_left_commute)

lemma deleteAttachmentsByIDsTx_eq [statement_simps]:
  "deleteAttachmentsByIDsTx ids d = d\<lparr>db_attachment := filter (\<lambda>a. at_ID a \<notin> set ids) (db_attachment d)\<rparr>"
  unfolding deleteAttachmentsByIDsTx_def
  by (subst delete_in_batches_once) (simp_all add: conj_commute conj_left_commute)

lemma deleteSQLiteMemoSetShares_eq [statement_simps]:
  "deleteSQLiteMemoSetShares ids d = d\<lparr>db_memo_share := filter (\<lambda>s. sh_memo_id s \<notin> set ids) (db_memo_share d)\<rparr>"
  unfolding deleteSQLiteMemoSetShares_def
  by (subst delete_in_batches_once) (simp_all add: conj_commute conj_left_commute)

lemma deleteMemoSharesTx_eq [statement_simps]:
  "deleteMemoSharesTx uid ids d =
     d\<lparr>db_memo_share := filter (\<lambda>s. sh_creator_id s \<noteq> uid \<and> sh_memo_id s \<notin> set ids) (db_memo_share d)\<rparr>"
  unfolding deleteMemoSharesTx_def
  by (subst delete_in_batches_once) (simp_all add: conj_commute conj_left_commute)

lemma deleteInboxesByIDsTx_eq [statement_simps]:
  "deleteInboxesByIDsTx ids d = d\<lparr>db_inbox := filter (\<lambda>i. in_id i \<notin> set ids) (db_inbox d)\<rparr>"
  unfolding deleteInboxesByIDsTx_def
  by (subst delete_in_batches_once) (simp_all add: conj_commute conj_left_commute)

lemma deleteMemoRelationsTx_eq [statement_simps]:
  "deleteMemoRelationsTx ids d =
     d\<lparr>db_memo_relation :=
        filter (\<lambda>r. rel_memo_id r \<notin> set ids \<and> rel_related_memo_id r \<notin> set ids) (db_memo_relation d)\<rparr>"
  unfolding deleteMemoRelationsTx_def
  by (subst delete_in_batches_once) (simp_all add: conj_ac)

lemmas statement_defs = deleteReactionsByCreatorTx_def deleteUserIdentitiesTx_def
  deleteUserSettingsTx_def deleteUserRowTx_def

section \<open>Collected attachments\<close>

text \<open>A query appends its rows that were not seen, in order; ids stay distinct.\<close>

lemma append_attachments:
  assumes "appendDeleteUserAttachments ok rows seen as = Inr (seen', as')"
    and "set seen = at_ID ` set as" "distinct (map at_ID as)"
    and "distinct (map at_ID all)" "set rows \<subseteq> set all" "set as \<subseteq> set all"
  shows "set seen' = at_ID ` set as' \<and> set as' = set as \<union> set rows \<and> distinct (map at_ID as')"
  using assms
proof (induction ok rows seen as rule: appendDeleteUserAttachments.induct)
  case (1 ok seen as)
  then show ?case by auto
next
  case (2 ok row rows seen as)
  have inj: "inj_on at_ID (set all)" using "2.prems"(4) by (simp add: distinct_map)
  show ?case
  proof (cases "at_ID row \<in> set seen")
    case True
    then have "row \<in> set as"
      using "2.prems"(2,5,6) inj by (auto simp: inj_on_def)
    with True 2 show ?thesis by auto
  next
    case False
    with 2 show ?thesis by (auto split: if_splits)
  qed
qed

lemma append_batches_spec:
  assumes "append_batches ok query bs seen as = Inr as'"
    and "set seen = at_ID ` set as" "distinct (map at_ID as)"
    and "distinct (map at_ID all)" "\<And>b. set (query b) \<subseteq> set all" "set as \<subseteq> set all"
  shows "set as' = set as \<union> (\<Union>b \<in> set bs. set (query b)) \<and> distinct (map at_ID as')"
  using assms
proof (induction bs arbitrary: seen as)
  case (Cons b bs)
  then obtain seen1 as1 where
      1: "appendDeleteUserAttachments ok (query b) seen as = Inr (seen1, as1)"
    and 2: "append_batches ok query bs seen1 as1 = Inr as'"
    by (auto simp: result_simps)
  have "set seen1 = at_ID ` set as1 \<and> set as1 = set as \<union> set (query b) \<and> distinct (map at_ID as1)"
    using append_attachments [OF 1] Cons.prems by blast
  moreover from this have "set as1 \<subseteq> set all" using Cons.prems(5,6) by auto
  ultimately show ?case using Cons.IH [OF 2] Cons.prems(4,5) by auto
qed auto

lemma attachments_of_concat:
  "(\<Union>b \<in> set bs. set (attachments_of_memos d b)) = set (attachments_of_memos d (concat bs))"
  by (auto simp: attachments_of_memos_def split: option.splits)

lemma set_attachments_of_memos:
  "set (attachments_of_memos d ids) = {a \<in> set (db_attachment d). at_MemoID a \<in> Some ` set ids}"
  by (auto simp: attachments_of_memos_def split: option.splits)

lemma listDeleteUserAttachments_spec:
  assumes "distinct (map at_ID (db_attachment d))" "listDeleteUserAttachments ok d uid ids = Inr as"
  shows "set as = {a \<in> set (db_attachment d). at_CreatorID a = uid \<or> at_MemoID a \<in> Some ` set ids}
    \<and> distinct (map at_ID as)"
proof -
  let ?rows = "filter (\<lambda>a. at_CreatorID a = uid) (db_attachment d)"
  from assms(2) obtain seen as0 where
      1: "appendDeleteUserAttachments ok ?rows [] [] = Inr (seen, as0)"
    and 2: "append_batches ok (attachments_of_memos d) (deleteUserBatches ids deleteUserBatchSize) seen as0 = Inr as"
    by (auto simp: listDeleteUserAttachments_def result_simps)
  have as0: "set seen = at_ID ` set as0" "set as0 = set ?rows" "distinct (map at_ID as0)"
    using append_attachments [OF 1 _ _ assms(1)] by auto
  then have "set as0 \<subseteq> set (db_attachment d)" by auto
  then have "set as = set as0 \<union> (\<Union>b \<in> set (deleteUserBatches ids deleteUserBatchSize). set (attachments_of_memos d b))
      \<and> distinct (map at_ID as)"
    by (intro append_batches_spec [OF 2 as0(1,3) assms(1)]) (auto simp: set_attachments_of_memos)
  then show ?thesis
    unfolding attachments_of_concat
    unfolding concat_deleteUserBatches set_attachments_of_memos as0(2) by auto
qed

lemma listSQLiteMemoSetAttachments_spec:
  assumes "distinct (map at_ID (db_attachment d))" "listSQLiteMemoSetAttachments ok d ids = Inr as"
  shows "set as = {a \<in> set (db_attachment d). at_MemoID a \<in> Some ` set ids} \<and> distinct (map at_ID as)"
proof -
  have "set as = set [] \<union> (\<Union>b \<in> set (deleteUserBatches ids deleteUserBatchSize).
      set (sort_key at_ID (attachments_of_memos d b))) \<and> distinct (map at_ID as)"
    by (rule append_batches_spec [OF assms(2) [unfolded listSQLiteMemoSetAttachments_def] _ _ assms(1)])
      (auto simp: set_attachments_of_memos)
  then show ?thesis
    unfolding set_sort attachments_of_concat
    unfolding concat_deleteUserBatches set_attachments_of_memos by auto
qed

text \<open>Deleting rows by the ids of a subset leaves the complement of the subset.\<close>

lemma filter_by_id:
  assumes "distinct (map k xs)" "set ids = k ` {x \<in> set xs. P x}"
  shows "filter (\<lambda>x. k x \<notin> set ids) xs = filter (\<lambda>x. \<not> P x) xs"
proof (rule filter_cong [OF refl])
  fix x
  assume "x \<in> set xs"
  moreover have "inj_on k (set xs)" using assms(1) by (simp add: distinct_map)
  ultimately show "k x \<notin> set ids \<longleftrightarrow> \<not> P x" using assms(2) by (auto simp: inj_on_def)
qed

section \<open>The cascades as single updates\<close>

definition memo_ids :: "('p Memo \<Rightarrow> bool) \<Rightarrow> 'p Memo list \<Rightarrow> int32 set" where
  "memo_ids P ms = m_ID ` {m \<in> set ms. P m}"

definition delete_user_spec :: "int32 \<Rightarrow> db \<Rightarrow> db" where
  "delete_user_spec uid d =
     (let M = memo_ids (\<lambda>m. m_CreatorID m = uid) (db_memo d) in
      d\<lparr>db_user := filter (\<lambda>u. u_ID u \<noteq> uid) (db_user d),
        db_space_member := filter (\<lambda>sm. sm_user_id sm \<noteq> uid) (db_space_member d),
        db_memo := filter (\<lambda>m. m_CreatorID m \<noteq> uid) (db_memo d),
        db_memo_relation := filter (\<lambda>r. rel_memo_id r \<notin> M \<and> rel_related_memo_id r \<notin> M) (db_memo_relation d),
        db_attachment := filter (\<lambda>a. at_CreatorID a \<noteq> uid \<and> at_MemoID a \<notin> Some ` M) (db_attachment d),
        db_reaction := filter (\<lambda>r. re_creator_id r \<noteq> uid \<and> re_memo_id r \<notin> M) (db_reaction d),
        db_memo_share := filter (\<lambda>s. sh_creator_id s \<noteq> uid \<and> sh_memo_id s \<notin> M) (db_memo_share d),
        db_inbox := filter (\<lambda>i. in_sender_id i \<noteq> uid \<and> in_receiver_id i \<noteq> uid) (db_inbox d),
        db_user_identity := filter (\<lambda>i. ui_user_id i \<noteq> uid) (db_user_identity d),
        db_user_setting := filter (\<lambda>s. us_user_id s \<noteq> uid) (db_user_setting d)\<rparr>)"

definition delete_space_spec :: "int32 \<Rightarrow> db \<Rightarrow> db" where
  "delete_space_spec sid d =
     (let M = memo_ids (\<lambda>m. m_SpaceID m = Some sid) (db_memo d) in
      d\<lparr>db_space := filter (\<lambda>s. sp_id s \<noteq> sid) (db_space d),
        db_space_member := filter (\<lambda>sm. sm_space_id sm \<noteq> sid) (db_space_member d),
        db_memo := filter (\<lambda>m. m_SpaceID m \<noteq> Some sid) (db_memo d),
        db_memo_relation := filter (\<lambda>r. rel_memo_id r \<notin> M \<and> rel_related_memo_id r \<notin> M) (db_memo_relation d),
        db_attachment := filter (\<lambda>a. at_MemoID a \<notin> Some ` M) (db_attachment d),
        db_reaction := filter (\<lambda>r. re_memo_id r \<notin> M) (db_reaction d),
        db_memo_share := filter (\<lambda>s. sh_memo_id s \<notin> M) (db_memo_share d)\<rparr>)"

lemma db_keys_distinct:
  assumes "db_keys d"
  shows "distinct (map at_ID (db_attachment d))" "distinct (map m_ID (db_memo d))"
    "distinct (map in_id (db_inbox d))"
  using assms by (simp_all add: db_keys_def)

lemma collectDeleteUserTargets_spec:
  assumes "db_keys d" "collectDeleteUserTargets ok d uid = Inr t"
  shows "set (ts_memoIDs t) = memo_ids (\<lambda>m. m_CreatorID m = uid) (db_memo d)"
    "set (ts_attachments t) = {a \<in> set (db_attachment d). at_CreatorID a = uid
       \<or> at_MemoID a \<in> Some ` memo_ids (\<lambda>m. m_CreatorID m = uid) (db_memo d)}"
    "distinct (map at_ID (ts_attachments t))"
    "ts_attachmentIDs t = map at_ID (ts_attachments t)"
    "set (ts_inboxIDs t) = in_id ` {i \<in> set (db_inbox d). in_sender_id i = uid \<or> in_receiver_id i = uid}"
proof -
  let ?ids = "listDeleteUserMemos d uid"
  have ids: "set ?ids = memo_ids (\<lambda>m. m_CreatorID m = uid) (db_memo d)"
    by (auto simp: listDeleteUserMemos_def memo_ids_def)
  from assms(2) obtain as where as: "listDeleteUserAttachments ok d uid ?ids = Inr as"
    and t: "ts_memoIDs t = ?ids" "ts_attachments t = as" "ts_attachmentIDs t = map at_ID as"
      "ts_inboxIDs t = listDeleteUserInboxIDs d uid"
    by (auto simp: collectDeleteUserTargets_def Let_def result_simps attachmentIDsFromList_def)
  show "set (ts_memoIDs t) = memo_ids (\<lambda>m. m_CreatorID m = uid) (db_memo d)" using ids t by simp
  show "ts_attachmentIDs t = map at_ID (ts_attachments t)" using t by simp
  show "set (ts_inboxIDs t) = in_id ` {i \<in> set (db_inbox d). in_sender_id i = uid \<or> in_receiver_id i = uid}"
    by (auto simp: t listDeleteUserInboxIDs_def)
  show "set (ts_attachments t) = {a \<in> set (db_attachment d). at_CreatorID a = uid
       \<or> at_MemoID a \<in> Some ` memo_ids (\<lambda>m. m_CreatorID m = uid) (db_memo d)}"
    "distinct (map at_ID (ts_attachments t))"
    using listDeleteUserAttachments_spec [OF db_keys_distinct(1) [OF assms(1)] as] ids t by simp_all
qed

lemma deleteUserTargetsTx_spec:
  assumes keys: "db_keys d" and t: "collectDeleteUserTargets ok d uid = Inr t"
  shows "deleteUserTargetsTx uid t d =
     (let M = memo_ids (\<lambda>m. m_CreatorID m = uid) (db_memo d) in
      d\<lparr>db_user := filter (\<lambda>u. u_ID u \<noteq> uid) (db_user d),
        db_memo := filter (\<lambda>m. m_CreatorID m \<noteq> uid) (db_memo d),
        db_memo_relation := filter (\<lambda>r. rel_memo_id r \<notin> M \<and> rel_related_memo_id r \<notin> M) (db_memo_relation d),
        db_attachment := filter (\<lambda>a. at_CreatorID a \<noteq> uid \<and> at_MemoID a \<notin> Some ` M) (db_attachment d),
        db_reaction := filter (\<lambda>r. re_creator_id r \<noteq> uid \<and> re_memo_id r \<notin> M) (db_reaction d),
        db_memo_share := filter (\<lambda>s. sh_creator_id s \<noteq> uid \<and> sh_memo_id s \<notin> M) (db_memo_share d),
        db_inbox := filter (\<lambda>i. in_sender_id i \<noteq> uid \<and> in_receiver_id i \<noteq> uid) (db_inbox d),
        db_user_identity := filter (\<lambda>i. ui_user_id i \<noteq> uid) (db_user_identity d),
        db_user_setting := filter (\<lambda>s. us_user_id s \<noteq> uid) (db_user_setting d)\<rparr>)"
proof -
  note spec = collectDeleteUserTargets_spec [OF keys t]
  note dist = db_keys_distinct [OF keys]
  have "filter (\<lambda>m. m_ID m \<notin> set (ts_memoIDs t)) (db_memo d) = filter (\<lambda>m. \<not> m_CreatorID m = uid) (db_memo d)"
    using spec(1) by (intro filter_by_id [OF dist(2)]) (simp add: memo_ids_def)
  moreover have "filter (\<lambda>a. at_ID a \<notin> set (ts_attachmentIDs t)) (db_attachment d)
      = filter (\<lambda>a. \<not> (at_CreatorID a = uid
          \<or> at_MemoID a \<in> Some ` memo_ids (\<lambda>m. m_CreatorID m = uid) (db_memo d))) (db_attachment d)"
    using spec(2,4) by (intro filter_by_id [OF dist(1)]) simp
  moreover have "filter (\<lambda>i. in_id i \<notin> set (ts_inboxIDs t)) (db_inbox d)
      = filter (\<lambda>i. \<not> (in_sender_id i = uid \<or> in_receiver_id i = uid)) (db_inbox d)"
    by (intro filter_by_id [OF dist(3)] spec(5))
  ultimately show ?thesis
    using spec(1)
    by (simp add: deleteUserTargetsTx_def Let_def statement_simps statement_defs conj_commute)
qed

lemma DB_DeleteUser_spec:
  assumes "db_keys d" "\<exists>u \<in> set (db_user d). u_ID u = uid"
    and "DB_DeleteUser ok failpoint uid d = Inr (res, d')"
  shows "d' = delete_user_spec uid d
    \<and> set (dur_Attachments res) = set (db_attachment d) - set (db_attachment d')
    \<and> distinct (dur_Attachments res)"
proof -
  let ?d1 = "d\<lparr>db_space_member :=
    filter (\<lambda>sm. \<not> (sm_user_id sm = uid \<and> sm_status sm = SpaceMemberStatusInvited)) (db_space_member d)\<rparr>"
  have keys: "db_keys ?d1"
    using assms(1) by (auto simp: db_keys_def distinct_map inj_on_def)
  from assms(2,3) obtain t where t: "collectDeleteUserTargets ok ?d1 uid = Inr t"
    and res: "dur_Attachments res = ts_attachments t" and d': "d' = deleteUserTargetsTx uid t ?d1"
    and inv: "\<forall>sm \<in> set (db_space_member d). sm_user_id sm = uid \<longrightarrow> sm_status sm = SpaceMemberStatusInvited"
    by (auto simp: DB_DeleteUser_def Let_def filter_empty_conv split: if_splits sum.splits)
  have "filter (\<lambda>sm. \<not> (sm_user_id sm = uid \<and> sm_status sm = SpaceMemberStatusInvited)) (db_space_member d)
      = filter (\<lambda>sm. sm_user_id sm \<noteq> uid) (db_space_member d)"
    using inv by (intro filter_cong) auto
  then have eq: "d' = delete_user_spec uid d"
    using deleteUserTargetsTx_spec [OF keys t] d' by (simp add: delete_user_spec_def Let_def)
  have "distinct (map at_ID (ts_attachments t))" "set (ts_attachments t)
      = {a \<in> set (db_attachment d). at_CreatorID a = uid
           \<or> at_MemoID a \<in> Some ` memo_ids (\<lambda>m. m_CreatorID m = uid) (db_memo d)}"
    using collectDeleteUserTargets_spec(2,3) [OF keys t] by simp_all
  then show ?thesis
    using eq by (auto simp: res delete_user_spec_def Let_def distinct_map)
qed

lemma DB_DeleteSpace_spec:
  assumes "db_keys d" "DB_DeleteSpace ok sid actor d = Inr (as, d')"
  shows "active_admin_of d sid actor \<and> d' = delete_space_spec sid d
    \<and> set as = set (db_attachment d) - set (db_attachment d') \<and> distinct as"
proof -
  let ?ids = "listSQLiteSpaceDeleteMemoIDs d sid"
  let ?M = "memo_ids (\<lambda>m. m_SpaceID m = Some sid) (db_memo d)"
  from assms(2) have adm: "requireSQLiteSpaceDeleteAdmin d sid actor = Inr ()"
    by (auto simp: DB_DeleteSpace_def result_simps)
  from adm have normal: "user_normal d actor"
    using assms(1) by (auto simp: requireSQLiteSpaceDeleteAdmin_def user_normal_status db_keys_def
        split: option.splits if_splits)
  from adm have "\<exists>sm \<in> set (db_space_member d). member_is sid actor SpaceMemberStatusActive sm
      \<and> sm_role sm = SpaceMemberRoleAdmin"
    by (auto simp: requireSQLiteSpaceDeleteAdmin_def split: option.splits if_splits dest!: first_row_in)
      metis
  with normal have A: "active_admin_of d sid actor" by (auto simp: active_admin_of_def)
  have ids: "set ?ids = ?M" by (auto simp: listSQLiteSpaceDeleteMemoIDs_def memo_ids_def)
  from assms(2) have as: "listSQLiteMemoSetAttachments ok d ?ids = Inr as"
    by (auto simp: DB_DeleteSpace_def deleteSQLiteMemoSetTx_def Let_def result_simps
        split: sum.splits if_splits)
  have sp: "set as = {a \<in> set (db_attachment d). at_MemoID a \<in> Some ` ?M}" "distinct (map at_ID as)"
    using listSQLiteMemoSetAttachments_spec [OF db_keys_distinct(1) [OF assms(1)] as] ids by simp_all
  have "filter (\<lambda>m. m_ID m \<notin> ?M) (db_memo d) = filter (\<lambda>m. \<not> m_SpaceID m = Some sid) (db_memo d)"
    using filter_by_id [OF db_keys_distinct(2) [OF assms(1)], of ?ids "\<lambda>m. m_SpaceID m = Some sid"] ids
    by (simp add: memo_ids_def)
  moreover have "filter (\<lambda>a. at_ID a \<notin> at_ID ` set as) (db_attachment d)
      = filter (\<lambda>a. \<not> at_MemoID a \<in> Some ` ?M) (db_attachment d)"
    using filter_by_id [OF db_keys_distinct(1) [OF assms(1)], of "map at_ID as" "\<lambda>a. at_MemoID a \<in> Some ` ?M"] sp
    by simp
  ultimately have eq: "d' = delete_space_spec sid d"
    using assms(2) as ids
    by (auto simp: DB_DeleteSpace_def deleteSQLiteMemoSetTx_def Let_def statement_simps result_simps
        attachmentIDsFromList_def delete_space_spec_def split: if_splits)
  then show ?thesis
    using A sp by (auto simp: delete_space_spec_def Let_def distinct_map)
qed

end
