(* ===== verification/Space_Invariant.thy ===== *)
theory Space_Invariant
  imports Store_Deletion
begin

text \<open>
  The operations on users, spaces and memberships as one transition system, and its main safety
  property: in every reachable database every space has an administrator who is an active member
  with a normal account. Each rule of \<open>store_step\<close> is one operation that succeeded.
\<close>

section \<open>Transitions\<close>

inductive store_step :: "db \<Rightarrow> db \<Rightarrow> bool" where
  tick: "db_now d \<le> t \<Longrightarrow> store_step d (d\<lparr>db_now := t\<rparr>)"
| create_user: "DB_CreateUser c d = Inr (u, d') \<Longrightarrow> store_step d d'"
| update_user: "DB_UpdateUser c d = Inr (u, d') \<Longrightarrow> store_step d d'"
| delete_user: "DB_DeleteUser ok fp uid d = Inr (r, d') \<Longrightarrow> store_step d d'"
| create_space: "Store_CreateSpace c actor d = Inr (s, d') \<Longrightarrow> store_step d d'"
| update_space: "Store_UpdateSpace c actor d = Inr (s, d') \<Longrightarrow> store_step d d'"
| delete_space: "Store_DeleteSpace ok k d = Inr (as, d') \<Longrightarrow> store_step d d'"
| create_invitation: "Store_CreateSpaceInvitation c actor d = Inr (i, d') \<Longrightarrow> store_step d d'"
| accept_invitation: "Store_AcceptSpaceInvitation k actor d = Inr (m, d') \<Longrightarrow> store_step d d'"
| decline_invitation: "Store_DeclineSpaceInvitation k actor d = Inr d' \<Longrightarrow> store_step d d'"
| revoke_invitation: "Store_RevokeSpaceInvitation k actor d = Inr d' \<Longrightarrow> store_step d d'"
| update_member: "Store_UpdateSpaceMember c actor d = Inr (m, d') \<Longrightarrow> store_step d d'"
| delete_member: "Store_DeleteSpaceMember k actor d = Inr d' \<Longrightarrow> store_step d d'"

inductive_cases store_stepE: "store_step d d'"

abbreviation store_reachable :: "db \<Rightarrow> bool" where
  "store_reachable d \<equiv> store_step\<^sup>*\<^sup>* empty_db d"

section \<open>Administrators\<close>

definition admin_row :: "db \<Rightarrow> int32 \<Rightarrow> space_member_row \<Rightarrow> bool" where
  "admin_row d sid sm =
     (sm \<in> set (db_space_member d) \<and> sm_space_id sm = sid \<and> sm_status sm = SpaceMemberStatusActive
      \<and> sm_role sm = SpaceMemberRoleAdmin \<and> user_normal d (sm_user_id sm))"

definition administered :: "db \<Rightarrow> bool" where
  "administered d = (\<forall>s \<in> set (db_space d). \<exists>sm. admin_row d (sp_id s) sm)"

lemma active_admin_of_row: "active_admin_of d sid uid \<longleftrightarrow> (\<exists>sm. admin_row d sid sm \<and> sm_user_id sm = uid)"
  by (auto simp: active_admin_of_def admin_row_def member_is_def)

lemma join_users:
  "distinct (map u_ID us) \<Longrightarrow>
    [sm. u \<leftarrow> us, u_ID u = k \<and> Q \<and> u_RowStatus u = Normal] =
      (if Q \<and> (\<exists>u \<in> set us. u_ID u = k \<and> u_RowStatus u = Normal) then [sm] else [])"
proof (induction us)
  case (Cons u us)
  show ?case
  proof (cases "u_ID u = k")
    case True
    then have "\<forall>v \<in> set us. u_ID v \<noteq> k" using Cons.prems by (auto simp: image_iff)
    with True Cons show ?thesis by auto
  next
    case False
    with Cons show ?thesis by auto
  qed
qed simp

lemma admin_count_rows:
  assumes "distinct (map u_ID (db_user d))"
  shows "admin_count d sid = length (filter (admin_row d sid) (db_space_member d))"
proof -
  have rows: "[sm. sm \<leftarrow> ms, u \<leftarrow> db_user d, u_ID u = sm_user_id sm \<and> sm_space_id sm = sid
         \<and> sm_status sm = SpaceMemberStatusActive \<and> sm_role sm = SpaceMemberRoleAdmin
         \<and> u_RowStatus u = Normal]
      = filter (\<lambda>sm. sm_space_id sm = sid \<and> sm_status sm = SpaceMemberStatusActive
          \<and> sm_role sm = SpaceMemberRoleAdmin \<and> user_normal d (sm_user_id sm)) ms" for ms
  proof (induction ms)
    case (Cons sm ms)
    then show ?case
      using join_users [OF assms, where k = "sm_user_id sm" and sm = sm
          and Q = "sm_space_id sm = sid \<and> sm_status sm = SpaceMemberStatusActive \<and> sm_role sm = SpaceMemberRoleAdmin"]
      by (simp add: user_normal_def)
  qed simp
  show ?thesis
    unfolding admin_count_def rows admin_row_def by (intro arg_cong [where f = length] filter_cong) auto
qed

text \<open>Two administrators at least: one of them is another user.\<close>

lemma other_admin:
  assumes "db_keys d" "admin_count d sid > 1"
  shows "\<exists>sm. admin_row d sid sm \<and> sm_user_id sm \<noteq> uid"
proof -
  let ?rows = "filter (admin_row d sid) (db_space_member d)"
  have inj: "inj_on (\<lambda>sm. (sm_space_id sm, sm_user_id sm)) (set (db_space_member d))"
    and dist: "distinct ?rows" using assms(1) by (auto simp: db_keys_def distinct_map)
  have "length ?rows > 1" using assms by (simp add: admin_count_rows db_keys_def)
  then obtain a b xs where ab: "?rows = a # b # xs"
    by (metis One_nat_def length_Cons list.exhaust list.size(3) not_less_eq not_less_zero)
  then have "a \<in> set ?rows" "b \<in> set ?rows" "a \<noteq> b" using dist unfolding ab by simp_all
  then have rows: "admin_row d sid a" "admin_row d sid b" and "a \<noteq> b" by simp_all
  then have "sm_user_id a \<noteq> sm_user_id b"
    using inj by (auto simp: admin_row_def inj_on_def)
  with rows show ?thesis by metis
qed

section \<open>Every operation keeps the keys and an administrator\<close>

lemma keep_admins:
  assumes "administered d"
    and "\<And>s. s \<in> set (db_space d') \<Longrightarrow> \<exists>s0 \<in> set (db_space d). sp_id s0 = sp_id s"
    and "\<And>s sm. s \<in> set (db_space d') \<Longrightarrow> admin_row d (sp_id s) sm \<Longrightarrow> \<exists>sm'. admin_row d' (sp_id s) sm'"
  shows "administered d'"
  unfolding administered_def
proof
  fix s
  assume s: "s \<in> set (db_space d')"
  then obtain s0 where "s0 \<in> set (db_space d)" "sp_id s0 = sp_id s" using assms(2) by blast
  then obtain sm where "admin_row d (sp_id s) sm" using assms(1) by (auto simp: administered_def)
  then show "\<exists>sm. admin_row d' (sp_id s) sm" using assms(3) s by blast
qed

lemma keep_same_admins:
  assumes "administered d"
    and "\<And>s. s \<in> set (db_space d') \<Longrightarrow> \<exists>s0 \<in> set (db_space d). sp_id s0 = sp_id s"
    and "\<And>s sm. s \<in> set (db_space d') \<Longrightarrow> admin_row d (sp_id s) sm \<Longrightarrow> admin_row d' (sp_id s) sm"
  shows "administered d'"
  by (rule keep_admins [OF assms(1)]) (use assms(2,3) in blast)+

lemma insertUser_keeps:
  assumes "insertUser c d = Inr (u, d')" "db_keys d" "administered d"
  shows "db_keys d' \<and> administered d'"
proof -
  from assms(1) have row: "u_ID u = db_user_seq d + 1"
    and d': "d' = d\<lparr>db_user := db_user d @ [u], db_user_seq := db_user_seq d + 1\<rparr>"
    by (auto simp: insertUser_def Let_def split: if_splits)
  have "db_keys d'" using assms(2) by (force simp: db_keys_def d' row)
  moreover have "administered d'"
    by (rule keep_same_admins [OF assms(3)]) (auto simp: d' admin_row_def user_normal_def)
  ultimately show ?thesis by simp
qed

lemma user_set_ID [simp]: "u_ID (user_set c u) = u_ID u"
  by (simp add: user_set_def)

lemma user_set_status: "u_RowStatus (user_set c u) = set_opt (uu_RowStatus c) (u_RowStatus u)"
  by (simp add: user_set_def)

lemma archive_other_admin:
  assumes "validateSQLiteUserArchive d uid = Inr ()" "db_keys d" "admin_row d sid sm"
  shows "\<exists>sm'. admin_row d sid sm' \<and> sm_user_id sm' \<noteq> uid"
proof (cases "sm_user_id sm = uid")
  case True
  then have "user_status d uid = Some Normal"
    using assms(2,3) by (auto simp: admin_row_def user_normal_status db_keys_def)
  with assms(1,3) True show ?thesis
    by (auto simp: validateSQLiteUserArchive_def admin_row_def split: if_splits)
next
  case False
  with assms(3) show ?thesis by blast
qed

lemma DB_UpdateUser_keeps:
  assumes "DB_UpdateUser c d = Inr (u, d')" "db_keys d" "administered d"
  shows "db_keys d' \<and> administered d'"
proof -
  let ?us = "update_rows (\<lambda>u. u_ID u = uu_ID c) (user_set c) (db_user d)"
  from assms(1) have d': "d' = d\<lparr>db_user := ?us\<rparr>"
    and val: "uu_RowStatus c = Some Archived \<Longrightarrow> validateSQLiteUserArchive d (uu_ID c) = Inr ()"
    and st: "\<forall>u \<in> set ?us. u_ID u = uu_ID c \<longrightarrow> u_RowStatus u = Normal \<or> u_RowStatus u = Archived"
    by (auto simp: DB_UpdateUser_def Let_def result_simps split: if_splits option.splits)
  have "map u_ID ?us = map u_ID (db_user d)" by (rule update_rows_key) simp
  then have keys: "db_keys d'" using assms(2) by (auto simp: db_keys_def d')
  have other: "user_normal d' v" if "user_normal d v" "v \<noteq> uu_ID c" for v
    using that by (auto simp: user_normal_def d' image_iff)
  have self: "user_normal d' v" if v: "user_normal d v" and n: "uu_RowStatus c \<noteq> Some Archived" for v
  proof (cases "v = uu_ID c")
    case True
    with v obtain w where w: "w \<in> set (db_user d)" "u_ID w = uu_ID c" "u_RowStatus w = Normal"
      by (auto simp: user_normal_def)
    then have in': "user_set c w \<in> set ?us" by force
    then have "u_RowStatus (user_set c w) = Normal \<or> u_RowStatus (user_set c w) = Archived"
      using st w by (simp del: update_rows_simps)
    then have "u_RowStatus (user_set c w) = Normal"
      using w n by (auto simp: user_set_status set_opt_def split: option.splits)
    with in' w True show ?thesis
      unfolding user_normal_def d' by (intro bexI [of _ "user_set c w"]) (simp_all del: update_rows_simps)
  qed (use v other in auto)
  have "administered d'"
  proof (rule keep_admins [OF assms(3)])
    fix s sm
    assume "admin_row d (sp_id s) sm"
    then obtain sm' where "admin_row d (sp_id s) sm'" "uu_RowStatus c = Some Archived \<Longrightarrow> sm_user_id sm' \<noteq> uu_ID c"
      using archive_other_admin [OF val assms(2)] by metis
    then have "admin_row d' (sp_id s) sm'"
      using other self by (cases "uu_RowStatus c = Some Archived") (auto simp: admin_row_def d')
    then show "\<exists>sm'. admin_row d' (sp_id s) sm'" by blast
  qed (auto simp: d')
  with keys show ?thesis by simp
qed

lemma DB_DeleteUser_keeps:
  assumes "DB_DeleteUser ok fp uid d = Inr (r, d')" "db_keys d" "administered d"
  shows "db_keys d' \<and> administered d'"
proof (cases "\<exists>u \<in> set (db_user d). u_ID u = uid")
  case True
  then have d': "d' = delete_user_spec uid d" using DB_DeleteUser_spec assms by blast
  have active: "sm_user_id sm \<noteq> uid" if "sm \<in> set (db_space_member d)" "sm_status sm = SpaceMemberStatusActive" for sm
    using assms(1) True that by (auto simp: DB_DeleteUser_def filter_empty_conv split: if_splits)
  have "db_keys d'"
    using assms(2) by (auto simp: db_keys_def d' delete_user_spec_def Let_def distinct_map inj_on_def)
  moreover have "admin_row d' sid sm" if "admin_row d sid sm" for sid sm
  proof -
    have "sm_user_id sm \<noteq> uid" using that active by (simp add: admin_row_def)
    then show ?thesis
      using that by (auto simp: d' delete_user_spec_def Let_def admin_row_def user_normal_def)
  qed
  then have "administered d'"
    by (intro keep_same_admins [OF assms(3)]) (auto simp: d' delete_user_spec_def Let_def)
  ultimately show ?thesis by simp
next
  case False
  then show ?thesis using assms by (auto simp: DB_DeleteUser_def)
qed

lemma DB_CreateSpace_keeps:
  assumes "DB_CreateSpace c actor d = Inr (sp, d')" "db_keys d" "administered d"
  shows "db_keys d' \<and> administered d'"
proof -
  let ?sid = "db_space_seq d + 1"
  let ?sm = "\<lparr>sm_space_id = ?sid, sm_user_id = actor, sm_status = SpaceMemberStatusActive, sm_role = SpaceMemberRoleAdmin\<rparr>"
  let ?row = "\<lparr>sp_id = ?sid, sp_uid = Space_UID c, sp_title = Space_Title c, sp_description = Space_Description c\<rparr>"
  from assms(1) have d': "d' = d\<lparr>db_space := db_space d @ [?row], db_space_seq := ?sid,
                    db_space_member := db_space_member d @ [?sm]\<rparr>"
    and act: "requireSQLiteActiveUser d actor = Inr ()"
    and new: "\<forall>sm \<in> set (db_space_member d). \<not> (sm_space_id sm = ?sid \<and> sm_user_id sm = actor)"
    by (auto simp: DB_CreateSpace_def insert_space_def insert_space_member_def Let_def result_simps
        split: if_splits sum.splits)
  have "db_keys d'" using assms(2) new by (force simp: db_keys_def d' IsActiveMember_def)
  moreover have "user_normal d actor"
    using act assms(2) by (auto simp: requireSQLiteActiveUser_def user_normal_status db_keys_def
        split: option.splits if_splits)
  then have "admin_row d' ?sid ?sm" by (simp add: admin_row_def d' user_normal_def)
  moreover have "admin_row d' sid sm" if "admin_row d sid sm" for sid sm
    using that by (auto simp: admin_row_def d' user_normal_def)
  then have "administered d'"
    using assms(3) \<open>admin_row d' ?sid ?sm\<close> by (auto simp: administered_def d') blast+
  ultimately show ?thesis by simp
qed

lemma DB_UpdateSpace_keeps:
  assumes "DB_UpdateSpace c actor d = Inr (sp, d')" "db_keys d" "administered d"
  shows "db_keys d' \<and> administered d'"
proof -
  define spaces where "spaces = update_rows (\<lambda>s. sp_id s = us_ID c)
      (\<lambda>s. s\<lparr>sp_title := set_opt (us_Title c) (sp_title s),
             sp_description := set_opt (us_Description c) (sp_description s)\<rparr>) (db_space d)"
  have d': "d' = d\<lparr>db_space := spaces\<rparr>"
    using assms(1) unfolding spaces_def
    by (auto simp: DB_UpdateSpace_def Let_def result_simps split: if_splits option.splits)
  have sp: "map sp_id spaces = map sp_id (db_space d)"
    unfolding spaces_def by (rule update_rows_key) simp
  have ids: "sp_id ` set spaces = sp_id ` set (db_space d)" using sp by (metis list.set_map)
  then have "\<forall>s \<in> set spaces. \<exists>s0 \<in> set (db_space d). sp_id s0 = sp_id s" by (metis imageE imageI)
  then have "administered d'"
    by (intro keep_same_admins [OF assms(3)]) (auto simp: d' admin_row_def user_normal_def)
  moreover have "\<forall>s \<in> set spaces. sp_id s \<le> db_space_seq d"
    using assms(2) arg_cong [OF ids, of "\<lambda>A. \<forall>i \<in> A. i \<le> db_space_seq d"] by (simp add: db_keys_def)
  then have "db_keys d'" using assms(2) sp by (auto simp: db_keys_def d')
  ultimately show ?thesis by simp
qed

lemma DB_DeleteSpace_keeps:
  assumes "DB_DeleteSpace ok sid actor d = Inr (as, d')" "db_keys d" "administered d"
  shows "db_keys d' \<and> administered d'"
proof -
  have d': "d' = delete_space_spec sid d" using DB_DeleteSpace_spec assms by blast
  have "db_keys d'"
    using assms(2) by (auto simp: db_keys_def d' delete_space_spec_def Let_def distinct_map inj_on_def)
  moreover have "administered d'"
    by (rule keep_same_admins [OF assms(3)])
      (auto simp: d' delete_space_spec_def Let_def admin_row_def user_normal_def)
  ultimately show ?thesis by simp
qed

lemma insert_space_member_keeps:
  assumes "insert_space_member row d = Inr d'" "space_exists d (sm_space_id row)" "db_keys d" "administered d"
  shows "db_keys d' \<and> administered d'"
proof -
  have d': "d' = d\<lparr>db_space_member := db_space_member d @ [row]\<rparr>"
    and new: "\<forall>sm \<in> set (db_space_member d). \<not> (sm_space_id sm = sm_space_id row \<and> sm_user_id sm = sm_user_id row)"
    and "IsActiveMember (sm_role row)"
    using assms(1) by (auto simp: insert_space_member_def split: if_splits)
  then have "db_keys d'" using assms(2,3) by (force simp: db_keys_def d' space_exists_def)
  moreover have "administered d'"
    by (rule keep_same_admins [OF assms(4)]) (auto simp: d' admin_row_def user_normal_def)
  ultimately show ?thesis by simp
qed

lemma authorize_space_exists: "authorizeSQLiteSpaceAdmin d sid actor = Inr () \<Longrightarrow> space_exists d sid"
  by (auto simp: authorizeSQLiteSpaceAdmin_def split: if_splits)

lemma DB_CreateSpaceInvitation_keeps:
  assumes "DB_CreateSpaceInvitation c actor d = Inr (i, d')" "db_keys d" "administered d"
  shows "db_keys d' \<and> administered d'"
proof -
  let ?row = "\<lparr>sm_space_id = inv_SpaceID c, sm_user_id = inv_UserID c,
               sm_status = SpaceMemberStatusInvited, sm_role = inv_Role c\<rparr>"
  from assms(1) have "insert_space_member ?row d = Inr d'"
    and "authorizeSQLiteSpaceAdmin d (inv_SpaceID c) actor = Inr ()"
    by (auto simp: DB_CreateSpaceInvitation_def result_simps split: sum.splits if_splits)
  then show ?thesis
    using insert_space_member_keeps [of ?row d d'] authorize_space_exists assms(2,3) by simp
qed

text \<open>A change of the rows of \<open>space_member\<close> that keeps the keys and the roles.\<close>

lemma members_keep:
  assumes "map (\<lambda>sm. (sm_space_id sm, sm_user_id sm)) rows = map (\<lambda>sm. (sm_space_id sm, sm_user_id sm)) (db_space_member d)"
    and "\<forall>sm \<in> set rows. IsActiveMember (sm_role sm)" "db_keys d"
  shows "db_keys (d\<lparr>db_space_member := rows\<rparr>)"
proof -
  have "(\<lambda>sm. (sm_space_id sm, sm_user_id sm)) ` set rows = (\<lambda>sm. (sm_space_id sm, sm_user_id sm)) ` set (db_space_member d)"
    using assms(1) by (metis list.set_map)
  then have "\<forall>sm \<in> set rows. \<exists>sm0 \<in> set (db_space_member d). sm_space_id sm = sm_space_id sm0"
    by (auto simp: set_eq_iff image_iff)
  then have "\<forall>sm \<in> set rows. sm_space_id sm \<le> db_space_seq d"
    using assms(3) by (metis db_keys_def)
  then show ?thesis using assms by (simp add: db_keys_def)
qed

lemma DB_AcceptSpaceInvitation_keeps:
  assumes "DB_AcceptSpaceInvitation k actor d = Inr (m, d')" "db_keys d" "administered d"
  shows "db_keys d' \<and> administered d'"
proof -
  define pending where "pending = (\<lambda>sm. member_is (key_SpaceID k) (key_UserID k) SpaceMemberStatusInvited sm
      \<and> IsActiveMember (sm_role sm))"
  define rows where "rows = update_rows pending (\<lambda>r. r\<lparr>sm_status := SpaceMemberStatusActive\<rparr>) (db_space_member d)"
  have d': "d' = d\<lparr>db_space_member := rows\<rparr>"
    using assms(1) unfolding rows_def pending_def
    by (auto simp: DB_AcceptSpaceInvitation_def Let_def result_simps split: if_splits option.splits)
  have "map (\<lambda>sm. (sm_space_id sm, sm_user_id sm)) rows = map (\<lambda>sm. (sm_space_id sm, sm_user_id sm)) (db_space_member d)"
    unfolding rows_def by (rule update_rows_key) simp
  moreover have "\<forall>sm \<in> set rows. IsActiveMember (sm_role sm)"
    using assms(2) by (auto simp: rows_def db_keys_def)
  ultimately have "db_keys d'" unfolding d' by (rule members_keep [OF _ _ assms(2)])
  moreover have "admin_row d' sid sm" if "admin_row d sid sm" for sid sm
    using that by (auto simp: admin_row_def d' rows_def pending_def member_is_def user_normal_def image_iff
        intro!: bexI [of _ sm])
  then have "administered d'" by (intro keep_same_admins [OF assms(3)]) (auto simp: d')
  ultimately show ?thesis by simp
qed

lemma delete_member_keys: "db_keys d \<Longrightarrow> db_keys (snd (delete_member sid uid st d))"
  by (auto simp: delete_member_def db_keys_def distinct_map inj_on_def)

lemma delete_invitation_keeps:
  assumes "delete_invitation k d = Inr d'" "db_keys d" "administered d"
  shows "db_keys d' \<and> administered d'"
proof -
  have d': "d' = snd (delete_member (key_SpaceID k) (key_UserID k) SpaceMemberStatusInvited d)"
    using assms(1) by (auto simp: delete_invitation_def split: prod.splits if_splits)
  have "administered d'"
    by (rule keep_same_admins [OF assms(3)])
      (auto simp: d' delete_member_def admin_row_def member_is_def user_normal_def)
  then show ?thesis using delete_member_keys [OF assms(2)] d' by simp
qed

lemma DB_UpdateSpaceMember_keeps:
  assumes "DB_UpdateSpaceMember c actor d = Inr (m, d')" "db_keys d" "administered d"
  shows "db_keys d' \<and> administered d'"
proof -
  define target where "target = member_is (um_SpaceID c) (um_UserID c) SpaceMemberStatusActive"
  from assms(1) obtain cur role where cur: "first_row (map sm_role (filter target (db_space_member d))) = Some cur"
    and role: "um_Role c = Some role" "IsActiveMember role"
    and d': "d' = d\<lparr>db_space_member := update_rows target (\<lambda>r. r\<lparr>sm_role := role\<rparr>) (db_space_member d)\<rparr>"
    and last: "\<not> (cur = SpaceMemberRoleAdmin \<and> role \<noteq> SpaceMemberRoleAdmin \<and> admin_count d (um_SpaceID c) \<le> 1)"
    unfolding target_def
    by (auto simp: DB_UpdateSpaceMember_def Let_def result_simps split: if_splits option.splits)
  have "map (\<lambda>sm. (sm_space_id sm, sm_user_id sm)) (update_rows target (\<lambda>r. r\<lparr>sm_role := role\<rparr>) (db_space_member d))
      = map (\<lambda>sm. (sm_space_id sm, sm_user_id sm)) (db_space_member d)"
    by (rule update_rows_key) simp
  moreover have "\<forall>sm \<in> set (update_rows target (\<lambda>r. r\<lparr>sm_role := role\<rparr>) (db_space_member d)). IsActiveMember (sm_role sm)"
    using assms(2) role(2) by (auto simp: db_keys_def)
  ultimately have keys: "db_keys d'" unfolding d' by (rule members_keep [OF _ _ assms(2)])
  have other: "admin_row d' sid sm" if "admin_row d sid sm" "\<not> target sm \<or> role = SpaceMemberRoleAdmin" for sid sm
    using that by (auto simp: admin_row_def d' user_normal_def image_iff intro!: bexI [of _ sm])
  have "administered d'"
  proof (rule keep_admins [OF assms(3)])
    fix s sm
    assume sm: "admin_row d (sp_id s) sm"
    show "\<exists>sm'. admin_row d' (sp_id s) sm'"
    proof (cases "target sm \<and> role \<noteq> SpaceMemberRoleAdmin")
      case True
      obtain sm0 where sm0: "sm0 \<in> set (db_space_member d)" "target sm0" "sm_role sm0 = cur"
        using first_row_in [OF cur] by auto
      then have "sm0 = sm"
        using True sm assms(2) by (auto simp: db_keys_def distinct_map inj_on_def target_def member_is_def admin_row_def)
      then have "admin_count d (um_SpaceID c) > 1" using True last sm sm0(3) by (auto simp: admin_row_def)
      then obtain sm' where "admin_row d (um_SpaceID c) sm'" "sm_user_id sm' \<noteq> um_UserID c"
        using other_admin [OF assms(2)] by blast
      moreover have "um_SpaceID c = sp_id s" using True sm by (simp add: target_def member_is_def admin_row_def)
      ultimately show ?thesis using other by (auto simp: target_def member_is_def)
    qed (use sm other in blast)
  qed (auto simp: d')
  with keys show ?thesis by simp
qed

lemma DB_DeleteSpaceMember_keeps:
  assumes "DB_DeleteSpaceMember k actor d = Inr d'" "db_keys d" "administered d"
  shows "db_keys d' \<and> administered d'"
proof -
  define target where "target = member_is (key_SpaceID k) (key_UserID k) SpaceMemberStatusActive"
  from assms(1) obtain cur where cur: "first_row (map sm_role (filter target (db_space_member d))) = Some cur"
    and d': "d' = snd (delete_member (key_SpaceID k) (key_UserID k) SpaceMemberStatusActive d)"
    and last: "\<not> (cur = SpaceMemberRoleAdmin \<and> user_status d (key_UserID k) = Some Normal
        \<and> admin_count d (key_SpaceID k) \<le> 1)"
    unfolding target_def
    by (auto simp: DB_DeleteSpaceMember_def result_simps split: if_splits option.splits)
  have other: "admin_row d' sid sm" if "admin_row d sid sm" "\<not> target sm" for sid sm
    using that by (auto simp: admin_row_def d' delete_member_def target_def user_normal_def)
  have "administered d'"
  proof (rule keep_admins [OF assms(3)])
    fix s sm
    assume sm: "admin_row d (sp_id s) sm"
    show "\<exists>sm'. admin_row d' (sp_id s) sm'"
    proof (cases "target sm")
      case True
      obtain sm0 where sm0: "sm0 \<in> set (db_space_member d)" "target sm0" "sm_role sm0 = cur"
        using first_row_in [OF cur] by auto
      then have "sm0 = sm"
        using True sm assms(2) by (auto simp: db_keys_def distinct_map inj_on_def target_def member_is_def admin_row_def)
      moreover have "user_status d (key_UserID k) = Some Normal"
        using True sm assms(2) by (auto simp: admin_row_def target_def member_is_def user_normal_status db_keys_def)
      ultimately have "admin_count d (key_SpaceID k) > 1" using last sm sm0(3) by (auto simp: admin_row_def)
      then obtain sm' where "admin_row d (key_SpaceID k) sm'" "sm_user_id sm' \<noteq> key_UserID k"
        using other_admin [OF assms(2)] by blast
      moreover have "key_SpaceID k = sp_id s" using True sm by (simp add: target_def member_is_def admin_row_def)
      ultimately show ?thesis using other by (auto simp: target_def member_is_def)
    qed (use sm other in blast)
  qed (auto simp: d' delete_member_def)
  then show ?thesis using delete_member_keys [OF assms(2)] d' by simp
qed

lemma store_step_keeps:
  assumes "store_step d d'" "db_keys d" "administered d"
  shows "db_keys d' \<and> administered d'"
  using assms
proof (induction rule: store_step.induct)
  case (tick d t)
  then show ?case by (auto simp: db_keys_def administered_def admin_row_def user_normal_def)
next
  case (create_user c d u d')
  then show ?case using insertUser_keeps by (auto simp: DB_CreateUser_def)
next
  case (update_user c d u d')
  then show ?case using DB_UpdateUser_keeps by blast
next
  case (delete_user ok fp uid d r d')
  then show ?case using DB_DeleteUser_keeps by blast
next
  case (create_space c actor d s d')
  then show ?case using DB_CreateSpace_keeps by (auto simp: Store_CreateSpace_def split: option.splits if_splits)
next
  case (update_space c actor d s d')
  then show ?case using DB_UpdateSpace_keeps by (auto simp: Store_UpdateSpace_def split: option.splits if_splits)
next
  case (delete_space ok k d as d')
  then show ?case using DB_DeleteSpace_keeps by (auto simp: Store_DeleteSpace_def split: option.splits if_splits)
next
  case (create_invitation c actor d i d')
  then show ?case
    using DB_CreateSpaceInvitation_keeps by (auto simp: Store_CreateSpaceInvitation_def split: option.splits if_splits)
next
  case (accept_invitation k actor d m d')
  then show ?case
    using DB_AcceptSpaceInvitation_keeps by (auto simp: Store_AcceptSpaceInvitation_def split: option.splits if_splits)
next
  case (decline_invitation k actor d d')
  then show ?case
    using delete_invitation_keeps
    by (auto simp: Store_DeclineSpaceInvitation_def DB_DeclineSpaceInvitation_def result_simps split: option.splits if_splits)
next
  case (revoke_invitation k actor d d')
  then show ?case
    using delete_invitation_keeps
    by (auto simp: Store_RevokeSpaceInvitation_def DB_RevokeSpaceInvitation_def result_simps split: option.splits if_splits)
next
  case (update_member c actor d m d')
  then show ?case
    using DB_UpdateSpaceMember_keeps by (auto simp: Store_UpdateSpaceMember_def split: option.splits if_splits)
next
  case (delete_member k actor d d')
  then show ?case
    using DB_DeleteSpaceMember_keeps by (auto simp: Store_DeleteSpaceMember_def split: option.splits if_splits)
qed

lemma store_reachable_keeps: "store_reachable d \<Longrightarrow> db_keys d \<and> administered d"
proof (induction rule: rtranclp_induct)
  case base
  then show ?case by (simp add: db_keys_def administered_def empty_db_def)
next
  case (step y z)
  then show ?case using store_step_keeps by blast
qed

end
