(* ===== verification/Cache.thy ===== *)
theory Cache
  imports Memos_Prelude
begin

text \<open>
  The in-memory cache of \<open>store/cache/cache.go\<close>: entries with an expiration, the counter that is
  kept beside the map, the eviction of the oldest entries when the cache is over its limit, and
  the contract of the package's \<open>Interface\<close> as a locale. Times and durations are nanoseconds, and
  the instant of \<open>time.Now\<close> is the argument \<open>now\<close>. The order in which \<open>sync.Map.Range\<close> visits the
  entries is unspecified: it is the argument \<open>rng\<close>, a rearrangement of the entries. Each operation
  is one step; calls of one cache from several goroutines are a sequence of such steps (the code does not make \<open>Get\<close> and
  \<open>SetWithTTL\<close> atomic with respect to each other; their inner interleavings are not modelled).
\<close>

section \<open>Entries and configuration\<close>

text \<open>A value of type \<open>any\<close>, as far as the package inspects it.\<close>

datatype 'v any = AnyString string | AnyBytes "nat list" | AnyMap nat | AnyOther 'v

record 'v item =
  it_value :: "'v any"
  it_expiration :: int
  it_size :: int

record Config =
  cfg_DefaultTTL :: int
  cfg_CleanupInterval :: int
  cfg_MaxItems :: int
  cfg_OnEviction :: bool

type_synonym 'v entries = "(string \<times> 'v item) list"
type_synonym 'v range_order = "'v entries \<Rightarrow> 'v entries"

text \<open>The calls of \<open>OnEviction\<close> are logged in \<open>c_evicted\<close>; \<open>c_stopped\<close> says that \<open>stopChan\<close> is
  closed.\<close>

record 'v Cache =
  c_itemCount :: int
  c_data :: "'v entries"
  c_config :: Config
  c_stopped :: bool
  c_evicted :: "(string \<times> 'v any) list"

definition DefaultConfig :: Config where
  "DefaultConfig = \<lparr>cfg_DefaultTTL = 10 * 60 * 10 ^ 9, cfg_CleanupInterval = 5 * 60 * 10 ^ 9,
     cfg_MaxItems = 1000, cfg_OnEviction = False\<rparr>"

definition New :: "Config \<Rightarrow> 'v Cache" where
  "New config = \<lparr>c_itemCount = 0, c_data = [], c_config = config, c_stopped = False, c_evicted = []\<rparr>"

definition NewDefault :: "'v Cache" where
  "NewDefault = New DefaultConfig"

fun estimateSize :: "'v any \<Rightarrow> int" where
  "estimateSize (AnyString v) = int (length v) + 24"
| "estimateSize (AnyBytes v) = int (length v) + 24"
| "estimateSize (AnyMap n) = int n * 64"
| "estimateSize (AnyOther v) = 64"

section \<open>Operations\<close>

definition map_delete :: "string \<Rightarrow> 'v entries \<Rightarrow> 'v entries" where
  "map_delete key xs = filter (\<lambda>e. fst e \<noteq> key) xs"

definition map_store :: "string \<Rightarrow> 'v item \<Rightarrow> 'v entries \<Rightarrow> 'v entries" where
  "map_store key itm xs = map_delete key xs @ [(key, itm)]"

definition call_OnEviction :: "string \<Rightarrow> 'v any \<Rightarrow> 'v Cache \<Rightarrow> 'v Cache" where
  "call_OnEviction key v c =
     (if cfg_OnEviction (c_config c) then c\<lparr>c_evicted := c_evicted c @ [(key, v)]\<rparr> else c)"

text \<open>The index of the candidate with the latest expiration, the first of them.\<close>

definition newestIdx :: "'v entries \<Rightarrow> nat" where
  "newestIdx cs =
     fold (\<lambda>i best. if it_expiration (snd (cs ! best)) < it_expiration (snd (cs ! i)) then i else best)
       [1..<length cs] 0"

definition candidate_step :: "nat \<Rightarrow> string \<times> 'v item \<Rightarrow> 'v entries \<Rightarrow> 'v entries" where
  "candidate_step threshold e cs =
     (if length cs < threshold then cs @ [e]
      else let i = newestIdx cs in
           if it_expiration (snd e) < it_expiration (snd (cs ! i)) then cs[i := e] else cs)"

definition evict :: "string \<times> 'v item \<Rightarrow> 'v Cache \<Rightarrow> 'v Cache" where
  "evict e c = call_OnEviction (fst e) (it_value (snd e)) (c\<lparr>c_data := map_delete (fst e) (c_data c)\<rparr>)"

definition cleanupOldest :: "'v range_order \<Rightarrow> 'v Cache \<Rightarrow> 'v Cache" where
  "cleanupOldest rng c =
     (let threshold = nat (max (cfg_MaxItems (c_config c) div 5) 1) in
      if c_itemCount c \<le> cfg_MaxItems (c_config c) then c
      else let candidates = fold (candidate_step threshold) (rng (c_data c)) [];
               c = fold evict candidates c;
               deletedCount = length candidates
           in if deletedCount > 0 then c\<lparr>c_itemCount := c_itemCount c - int deletedCount\<rparr> else c)"

definition SetWithTTL :: "'v range_order \<Rightarrow> int \<Rightarrow> string \<Rightarrow> 'v any \<Rightarrow> int \<Rightarrow> 'v Cache \<Rightarrow> 'v Cache" where
  "SetWithTTL rng now key v ttl c =
     (let size = estimateSize v;
          c = (case map_of (c_data c) key of
                 Some _ \<Rightarrow> c\<lparr>c_data := map_delete key (c_data c)\<rparr>
               | None \<Rightarrow> c\<lparr>c_itemCount := c_itemCount c + 1\<rparr>);
          c = c\<lparr>c_data := map_store key
                  \<lparr>it_value = v, it_expiration = now + ttl, it_size = size\<rparr> (c_data c)\<rparr>
      in if cfg_MaxItems (c_config c) > 0 \<and> c_itemCount c > cfg_MaxItems (c_config c)
         then cleanupOldest rng c else c)"

definition Cache_Set :: "'v range_order \<Rightarrow> int \<Rightarrow> string \<Rightarrow> 'v any \<Rightarrow> 'v Cache \<Rightarrow> 'v Cache" where
  "Cache_Set rng now key v c = SetWithTTL rng now key v (cfg_DefaultTTL (c_config c)) c"

definition Cache_Get :: "int \<Rightarrow> string \<Rightarrow> 'v Cache \<Rightarrow> 'v any option \<times> 'v Cache" where
  "Cache_Get now key c =
     (case map_of (c_data c) key of
        None \<Rightarrow> (None, c)
      | Some itm \<Rightarrow>
          if it_expiration itm < now
          then (None, call_OnEviction key (it_value itm)
                  (c\<lparr>c_data := map_delete key (c_data c), c_itemCount := c_itemCount c - 1\<rparr>))
          else (Some (it_value itm), c))"

definition Cache_Delete :: "string \<Rightarrow> 'v Cache \<Rightarrow> 'v Cache" where
  "Cache_Delete key c =
     (case map_of (c_data c) key of
        None \<Rightarrow> c
      | Some itm \<Rightarrow> call_OnEviction key (it_value itm)
          (c\<lparr>c_data := map_delete key (c_data c), c_itemCount := c_itemCount c - 1\<rparr>))"

definition Cache_Clear :: "'v range_order \<Rightarrow> 'v Cache \<Rightarrow> 'v Cache" where
  "Cache_Clear rng c =
     (let c = fold (\<lambda>e c. (call_OnEviction (fst e) (it_value (snd e)) c)
                      \<lparr>c_data := map_delete (fst e) (c_data c)\<rparr>) (rng (c_data c)) c
      in c\<lparr>c_itemCount := 0\<rparr>)"

definition Size :: "'v Cache \<Rightarrow> int" where
  "Size c = c_itemCount c"

definition Close :: "'v Cache \<Rightarrow> 'v Cache" where
  "Close c = (if c_stopped c then c else c\<lparr>c_stopped := True\<rparr>)"

definition cleanup :: "'v range_order \<Rightarrow> int \<Rightarrow> 'v Cache \<Rightarrow> 'v Cache" where
  "cleanup rng now c =
     (let expired = filter (\<lambda>e. it_expiration (snd e) < now) (rng (c_data c));
          c = c\<lparr>c_data := fold (\<lambda>e. map_delete (fst e)) expired (c_data c)\<rparr>;
          count = length expired
      in if count > 0
         then fold (\<lambda>e. call_OnEviction (fst e) (it_value (snd e))) expired
                (c\<lparr>c_itemCount := c_itemCount c - int count\<rparr>)
         else c)"

text \<open>One turn of \<open>cleanupLoop\<close>: a tick of the ticker, until the cache is closed.\<close>

definition cleanupLoop_tick :: "'v range_order \<Rightarrow> int \<Rightarrow> 'v Cache \<Rightarrow> 'v Cache" where
  "cleanupLoop_tick rng now c = (if c_stopped c then c else cleanup rng now c)"

section \<open>The oldest candidates\<close>

abbreviation expires :: "string \<times> 'v item \<Rightarrow> int" where
  "expires e \<equiv> it_expiration (snd e)"

lemma newestIdx_prefix:
  assumes f: "\<And>i best. f i best = (if expires (cs ! best) < expires (cs ! i) then i else best)"
    and "0 < length cs" "n \<le> length cs"
  shows "fold f [1..<n] 0 < length cs \<and> (\<forall>j < n. expires (cs ! j) \<le> expires (cs ! fold f [1..<n] 0))"
  using assms(3)
proof (induction n)
  case (Suc n)
  show ?case
  proof (cases "n = 0")
    case False
    then have "fold f [1..<Suc n] 0 = f n (fold f [1..<n] 0)" by simp
    with Suc show ?thesis unfolding f by (fastforce simp: less_Suc_eq)
  qed (use assms(2) in simp)
qed (use assms(2) in simp)

lemma newestIdx_newest:
  assumes "cs \<noteq> []"
  shows "newestIdx cs < length cs" and "e \<in> set cs \<Longrightarrow> expires e \<le> expires (cs ! newestIdx cs)"
  using assms newestIdx_prefix [OF refl, of cs "length cs"]
  by (auto simp: newestIdx_def in_set_conv_nth)

text \<open>The candidates among the entries seen so far: as many as wanted, and no entry that was left
  out expires before one that was taken.\<close>

definition oldest_of :: "nat \<Rightarrow> (string \<times> 'v item) set \<Rightarrow> 'v entries \<Rightarrow> bool" where
  "oldest_of k seen cs =
     (distinct cs \<and> set cs \<subseteq> seen \<and> length cs = min k (card seen)
      \<and> (\<forall>c \<in> set cs. \<forall>e \<in> seen - set cs. expires c \<le> expires e))"

lemma oldest_of_all: "oldest_of k seen cs \<Longrightarrow> finite seen \<Longrightarrow> length cs < k \<Longrightarrow> set cs = seen"
  by (intro card_subset_eq) (auto simp: oldest_of_def distinct_card)

lemma candidate_step_oldest:
  assumes cs: "oldest_of k seen cs" and fin: "finite seen" and new: "e \<notin> seen" and "0 < k"
  shows "oldest_of k (insert e seen) (candidate_step k e cs)"
proof (cases "length cs < k")
  case True
  then have all: "seen = set cs" using oldest_of_all [OF cs fin] by blast
  have "distinct cs" using cs by (simp add: oldest_of_def)
  with True new show ?thesis
    by (simp add: all oldest_of_def candidate_step_def distinct_card)
next
  case False
  with cs have len: "length cs = k" and "k \<le> card seen" and sub: "set cs \<subseteq> seen" and dist: "distinct cs"
    and old: "\<And>c x. c \<in> set cs \<Longrightarrow> x \<in> seen \<Longrightarrow> x \<notin> set cs \<Longrightarrow> expires c \<le> expires x"
    by (auto simp: oldest_of_def)
  define i where "i = newestIdx cs"
  have i: "i < length cs" and top: "\<And>c. c \<in> set cs \<Longrightarrow> expires c \<le> expires (cs ! i)"
    using newestIdx_newest [of cs] len \<open>0 < k\<close> by (auto simp: i_def)
  have min: "min k (card (insert e seen)) = k" using \<open>k \<le> card seen\<close> fin new by simp
  show ?thesis
  proof (cases "expires e < expires (cs ! i)")
    case True
    have "e \<notin> set cs" using new sub by blast
    have set: "set (cs[i := e]) = insert e (set cs - {cs ! i})"
      using i dist by (auto simp: set_update_distinct)
    have "distinct (cs[i := e])" using dist \<open>e \<notin> set cs\<close> by (simp add: distinct_list_update)
    moreover have "expires c \<le> expires x"
      if "c \<in> set (cs[i := e])" "x \<in> insert e seen - set (cs[i := e])" for c x
    proof -
      have c: "expires c \<le> expires (cs ! i)" using that(1) top [of c] True unfolding set by fastforce
      from that(2) consider "x \<in> seen" "x \<notin> set cs" | "x = cs ! i" unfolding set by blast
      then show ?thesis
      proof cases
        case 1
        with old [of "cs ! i" x] i c show ?thesis by fastforce
      qed (use c in simp)
    qed
    ultimately show ?thesis
      using True False len sub min i by (auto simp: oldest_of_def candidate_step_def i_def [symmetric] set)
  next
    case False
    have "expires c \<le> expires x" if "c \<in> set cs" "x \<in> insert e seen - set cs" for c x
      using that(2) old [OF that(1), of x] top [OF that(1)] False by (cases "x = e") auto
    then show ?thesis
      using False \<open>\<not> length cs < k\<close> len sub dist min
      by (auto simp: oldest_of_def candidate_step_def i_def [symmetric])
  qed
qed

lemma candidates_oldest:
  assumes "distinct xs" "0 < k"
  shows "oldest_of k (set xs) (fold (candidate_step k) xs [])"
  using assms(1)
proof (induction xs rule: rev_induct)
  case Nil
  then show ?case by (simp add: oldest_of_def)
next
  case (snoc e xs)
  then show ?case using candidate_step_oldest [of k "set xs" _ e] \<open>0 < k\<close> by simp
qed

section \<open>The counter\<close>

definition cache_inv :: "'v Cache \<Rightarrow> bool" where
  "cache_inv c = (distinct (map fst (c_data c)) \<and> c_itemCount c = int (length (c_data c)))"

definition is_range_order :: "'v range_order \<Rightarrow> bool" where
  "is_range_order rng = (\<forall>xs. distinct xs \<longrightarrow> distinct (rng xs) \<and> set (rng xs) = set xs)"

lemma call_OnEviction_fields [simp]:
  "c_data (call_OnEviction k v c) = c_data c"
  "c_itemCount (call_OnEviction k v c) = c_itemCount c"
  "c_config (call_OnEviction k v c) = c_config c"
  "c_stopped (call_OnEviction k v c) = c_stopped c"
  by (simp_all add: call_OnEviction_def)

lemma fold_call_OnEviction_fields [simp]:
  "c_data (fold (\<lambda>e. call_OnEviction (f e) (g e)) es c) = c_data c"
  "c_itemCount (fold (\<lambda>e. call_OnEviction (f e) (g e)) es c) = c_itemCount c"
  "c_config (fold (\<lambda>e. call_OnEviction (f e) (g e)) es c) = c_config c"
  by (induction es arbitrary: c) simp_all

lemma fold_map_delete: "fold (\<lambda>e. map_delete (fst e)) es xs = filter (\<lambda>e. fst e \<notin> fst ` set es) xs"
  by (induction es arbitrary: xs) (auto simp: map_delete_def conj_commute intro!: filter_cong)

lemma fold_evict_fields [simp]:
  "c_data (fold evict es c) = filter (\<lambda>e. fst e \<notin> fst ` set es) (c_data c)"
  "c_itemCount (fold evict es c) = c_itemCount c"
  "c_config (fold evict es c) = c_config c"
  by (induction es arbitrary: c) (auto simp: evict_def map_delete_def conj_commute intro!: filter_cong)

lemma key_determines: "distinct (map fst xs) \<Longrightarrow> a \<in> set xs \<Longrightarrow> b \<in> set xs \<Longrightarrow> fst a = fst b \<Longrightarrow> a = b"
  by (meson distinct_map inj_onD)

lemma filter_keys:
  assumes "distinct (map fst xs)" "set es \<subseteq> set xs"
  shows "filter (\<lambda>e. fst e \<notin> fst ` set es) xs = filter (\<lambda>e. e \<notin> set es) xs"
proof (rule filter_cong [OF refl])
  fix e assume "e \<in> set xs"
  then show "(fst e \<notin> fst ` set es) = (e \<notin> set es)"
    using key_determines [OF assms(1), of e] assms(2) by blast
qed

lemma length_without:
  assumes "distinct (map fst xs)" "distinct es" "set es \<subseteq> set xs"
  shows "length (filter (\<lambda>e. fst e \<notin> fst ` set es) xs) + length es = length xs"
proof -
  have d: "distinct xs" using assms(1) by (simp add: distinct_map)
  have "length (filter (\<lambda>e. e \<notin> set es) xs) = card (set xs - set es)"
    by (metis d distinct_card distinct_filter set_diff_eq set_filter)
  also have "\<dots> = length xs - length es"
    using d assms(2,3) by (simp add: card_Diff_subset distinct_card)
  finally show ?thesis
    using card_mono [OF _ assms(3)] d assms(2) filter_keys [OF assms(1,3)] by (simp add: distinct_card)
qed

lemma map_delete_count:
  assumes "distinct (map fst xs)" "map_of xs k = Some itm"
  shows "int (length (map_delete k xs)) = int (length xs) - 1"
  using length_without [OF assms(1), of "[(k, itm)]"] map_of_SomeD [OF assms(2)] by (simp add: map_delete_def)

lemma map_delete_distinct: "distinct (map fst xs) \<Longrightarrow> distinct (map fst (map_delete k xs))"
  by (simp add: map_delete_def distinct_map_filter)

lemma map_delete_absent: "map_of xs k = None \<Longrightarrow> map_delete k xs = xs"
  by (force simp: map_delete_def map_of_eq_None_iff filter_id_conv)

lemma map_of_filter_key: "map_of (filter (\<lambda>e. P (fst e)) xs) k = (if P k then map_of xs k else None)"
  by (induction xs) auto

lemma map_of_map_delete [simp]: "map_of (map_delete k xs) k' = (if k' = k then None else map_of xs k')"
  by (simp add: map_delete_def map_of_filter_key [of "\<lambda>x. x \<noteq> k"])

lemma map_store_distinct: "distinct (map fst xs) \<Longrightarrow> distinct (map fst (map_store k itm xs))"
  by (auto simp: map_store_def map_delete_def distinct_map_filter)

lemma map_of_map_store [simp]: "map_of (map_store k itm xs) k' = (if k' = k then Some itm else map_of xs k')"
  by (auto simp: map_store_def map_add_def split: option.splits)

lemma oldest_candidates:
  assumes "cache_inv c" "is_range_order rng" "0 < k"
  shows "oldest_of k (set (c_data c)) (fold (candidate_step k) (rng (c_data c)) [])"
proof -
  have "distinct (c_data c)" using assms(1) by (simp add: cache_inv_def distinct_map)
  then show ?thesis
    using candidates_oldest [of "rng (c_data c)" k] assms(2,3) by (simp add: is_range_order_def)
qed

text \<open>Over the limit, the cleanup removes one fifth of the limit, at least one entry, and keeps
  the counter exact.\<close>

lemma cleanupOldest_spec:
  assumes inv: "cache_inv c" and rng: "is_range_order rng"
    and over: "c_itemCount c > cfg_MaxItems (c_config c)" and pos: "cfg_MaxItems (c_config c) > 0"
  obtains removed where
    "oldest_of (nat (max (cfg_MaxItems (c_config c) div 5) 1)) (set (c_data c)) removed"
    "removed \<noteq> []"
    "c_data (cleanupOldest rng c) = filter (\<lambda>e. e \<notin> set removed) (c_data c)"
    "c_itemCount (cleanupOldest rng c) = c_itemCount c - int (length removed)"
    "c_config (cleanupOldest rng c) = c_config c"
    "cache_inv (cleanupOldest rng c)"
proof -
  define k where "k = nat (max (cfg_MaxItems (c_config c) div 5) 1)"
  define removed where "removed = fold (candidate_step k) (rng (c_data c)) []"
  have old: "oldest_of k (set (c_data c)) removed"
    using oldest_candidates [OF inv rng, of k] by (simp add: removed_def k_def)
  have keys: "distinct (map fst (c_data c))" and len: "c_itemCount c = int (length (c_data c))"
    using inv by (simp_all add: cache_inv_def)
  have sub: "set removed \<subseteq> set (c_data c)" "distinct removed" using old by (simp_all add: oldest_of_def)
  have "c_data c \<noteq> []" using len over pos by auto
  then have "card (set (c_data c)) > 0" by (simp add: card_gt_0_iff)
  then have "removed \<noteq> []" using old by (auto simp: oldest_of_def k_def)
  moreover have data: "c_data (cleanupOldest rng c) = filter (\<lambda>e. fst e \<notin> fst ` set removed) (c_data c)"
    and count: "c_itemCount (cleanupOldest rng c) = c_itemCount c - int (length removed)"
    and "c_config (cleanupOldest rng c) = c_config c"
    using over \<open>removed \<noteq> []\<close>
    by (simp_all add: cleanupOldest_def Let_def k_def [symmetric] removed_def [symmetric])
  moreover have "cache_inv (cleanupOldest rng c)"
    using length_without [OF keys sub(2,1)] keys len
    by (simp add: cache_inv_def data count distinct_map_filter)
  ultimately show thesis
    using that [of removed] old filter_keys [OF keys sub(1)] by (simp add: k_def)
qed

lemma cleanupOldest_shrinks:
  assumes "cache_inv c" "is_range_order rng" "c_itemCount c > cfg_MaxItems (c_config c)" "cfg_MaxItems (c_config c) > 0"
  shows "c_itemCount (cleanupOldest rng c) \<le> c_itemCount c - 1 \<and> c_config (cleanupOldest rng c) = c_config c
    \<and> cache_inv (cleanupOldest rng c)"
proof (rule cleanupOldest_spec [OF assms])
  fix removed :: "'a entries"
  assume "removed \<noteq> []" "c_itemCount (cleanupOldest rng c) = c_itemCount c - int (length removed)"
    "c_config (cleanupOldest rng c) = c_config c" "cache_inv (cleanupOldest rng c)"
  then show ?thesis by (cases removed) simp_all
qed

lemma cache_inv_New: "cache_inv (New config)"
  by (simp add: cache_inv_def New_def)

text \<open>\<open>SetWithTTL\<close> before the limit is enforced.\<close>

definition set_entry :: "string \<Rightarrow> 'v item \<Rightarrow> 'v Cache \<Rightarrow> 'v Cache" where
  "set_entry key itm c =
     (case map_of (c_data c) key of Some _ \<Rightarrow> c | None \<Rightarrow> c\<lparr>c_itemCount := c_itemCount c + 1\<rparr>)
       \<lparr>c_data := map_store key itm (c_data c)\<rparr>"

lemma map_store_delete: "map_store k itm (map_delete k xs) = map_store k itm xs"
  by (simp add: map_store_def map_delete_def)

lemma SetWithTTL_entry:
  "SetWithTTL rng now key v ttl c =
     (let c = set_entry key \<lparr>it_value = v, it_expiration = now + ttl, it_size = estimateSize v\<rparr> c in
      if cfg_MaxItems (c_config c) > 0 \<and> c_itemCount c > cfg_MaxItems (c_config c) then cleanupOldest rng c else c)"
  by (cases "map_of (c_data c) key") (simp_all add: SetWithTTL_def set_entry_def Let_def map_store_delete)

lemma set_entry_fields [simp]:
  "c_data (set_entry key itm c) = map_store key itm (c_data c)"
  "c_config (set_entry key itm c) = c_config c"
  by (simp_all add: set_entry_def split: option.splits)

lemma length_map_store:
  "distinct (map fst xs) \<Longrightarrow>
     int (length (map_store k itm xs)) = int (length xs) + (if map_of xs k = None then 1 else 0)"
  by (cases "map_of xs k") (simp_all add: map_store_def map_delete_absent map_delete_count)

lemma cache_inv_set_entry: "cache_inv c \<Longrightarrow> cache_inv (set_entry key itm c)"
  by (cases "map_of (c_data c) key")
    (simp_all add: cache_inv_def set_entry_def map_store_distinct length_map_store)

lemma set_entry_count: "c_itemCount (set_entry key itm c) \<le> c_itemCount c + 1"
  by (simp add: set_entry_def split: option.splits)

lemma cache_inv_SetWithTTL:
  assumes "cache_inv c" "is_range_order rng"
  shows "cache_inv (SetWithTTL rng now key v ttl c)"
proof -
  define c' where "c' = set_entry key \<lparr>it_value = v, it_expiration = now + ttl, it_size = estimateSize v\<rparr> c"
  have inv: "cache_inv c'" using assms(1) by (simp add: c'_def cache_inv_set_entry)
  show ?thesis
    using inv cleanupOldest_shrinks [OF inv assms(2)]
    by (auto simp: SetWithTTL_entry c'_def [symmetric] Let_def)
qed

lemma cache_inv_Get: "cache_inv c \<Longrightarrow> cache_inv (snd (Cache_Get now key c))"
  by (auto simp: cache_inv_def Cache_Get_def map_delete_count map_delete_distinct split: option.splits)

lemma cache_inv_Delete: "cache_inv c \<Longrightarrow> cache_inv (Cache_Delete key c)"
  by (auto simp: cache_inv_def Cache_Delete_def map_delete_count map_delete_distinct split: option.splits)

lemma Clear_data:
  assumes "set es = set (c_data c)"
  shows "c_data (fold (\<lambda>e c. (call_OnEviction (fst e) (it_value (snd e)) c)
    \<lparr>c_data := map_delete (fst e) (c_data c)\<rparr>) es c) = []"
proof -
  have "c_data (fold (\<lambda>e c. (call_OnEviction (fst e) (it_value (snd e)) c)
      \<lparr>c_data := map_delete (fst e) (c_data c)\<rparr>) es c) = fold (\<lambda>e. map_delete (fst e)) es (c_data c)" for es
    by (induction es arbitrary: c) simp_all
  from this [of es] show ?thesis unfolding fold_map_delete using assms by (simp add: filter_empty_conv)
qed

lemma Clear_empty:
  assumes "cache_inv c" "is_range_order rng"
  shows "c_data (Cache_Clear rng c) = [] \<and> Size (Cache_Clear rng c) = 0"
  using assms by (simp add: Cache_Clear_def Let_def Size_def Clear_data is_range_order_def cache_inv_def distinct_map)

lemma cache_inv_Clear:
  assumes "cache_inv c" "is_range_order rng"
  shows "cache_inv (Cache_Clear rng c)"
  using Clear_empty [OF assms] by (simp add: cache_inv_def Size_def)

lemma cleanup_spec:
  assumes inv: "cache_inv c" and rng: "is_range_order rng"
  shows "c_data (cleanup rng now c) = filter (\<lambda>e. now \<le> expires e) (c_data c)"
    and "cache_inv (cleanup rng now c)"
proof -
  define expired where "expired = filter (\<lambda>e. expires e < now) (rng (c_data c))"
  have keys: "distinct (map fst (c_data c))" "distinct (c_data c)"
    using inv by (simp_all add: cache_inv_def distinct_map)
  have sub: "distinct expired" "set expired = {e \<in> set (c_data c). expires e < now}"
    using rng keys(2) by (auto simp: is_range_order_def expired_def)
  have "c_data (cleanup rng now c) = filter (\<lambda>e. fst e \<notin> fst ` set expired) (c_data c)"
    by (simp add: cleanup_def Let_def expired_def [symmetric] fold_map_delete)
  also have data: "\<dots> = filter (\<lambda>e. now \<le> expires e) (c_data c)"
    using filter_keys [OF keys(1), of expired] sub(2) by (simp add: not_less cong: filter_cong)
  finally show eq: "c_data (cleanup rng now c) = filter (\<lambda>e. now \<le> expires e) (c_data c)" .
  have "c_itemCount (cleanup rng now c) = c_itemCount c - int (length expired)"
    by (simp add: cleanup_def Let_def expired_def [symmetric])
  moreover have "length (filter (\<lambda>e. now \<le> expires e) (c_data c)) + length expired = length (c_data c)"
    using length_without [OF keys(1) sub(1)] sub(2) data by simp
  ultimately show "cache_inv (cleanup rng now c)"
    using inv by (simp add: cache_inv_def eq distinct_map_filter)
qed

lemma cache_inv_cleanupLoop_tick:
  "cache_inv c \<Longrightarrow> is_range_order rng \<Longrightarrow> cache_inv (cleanupLoop_tick rng now c)"
  by (simp add: cleanupLoop_tick_def cleanup_spec(2))

lemma cache_inv_Close: "cache_inv c \<Longrightarrow> cache_inv (Close c)"
  by (simp add: Close_def cache_inv_def)

section \<open>The contract of the interface\<close>

text \<open>What a client of \<open>cache.Interface\<close> may rely on: a value that \<open>Get\<close> returns is the value last
  stored under its key. Entries may vanish at any time, by expiration or eviction.\<close>

locale cache_interface =
  fixes set :: "int \<Rightarrow> string \<Rightarrow> 'v \<Rightarrow> 'c \<Rightarrow> 'c"
    and get :: "int \<Rightarrow> string \<Rightarrow> 'c \<Rightarrow> 'v option \<times> 'c"
    and delete :: "string \<Rightarrow> 'c \<Rightarrow> 'c"
    and tick :: "int \<Rightarrow> 'c \<Rightarrow> 'c"
  assumes get_set: "fst (get now' k' (set now k v c)) = Some w \<Longrightarrow>
      k' = k \<and> w = v \<or> k' \<noteq> k \<and> fst (get now' k' c) = Some w"
    and get_get: "fst (get now' k' (snd (get now k c))) = Some w \<Longrightarrow> fst (get now' k' c) = Some w"
    and get_delete: "fst (get now' k' (delete k c)) = Some w \<Longrightarrow> k' \<noteq> k \<and> fst (get now' k' c) = Some w"
    and get_tick: "fst (get now' k' (tick now c)) = Some w \<Longrightarrow> fst (get now' k' c) = Some w"
begin

text \<open>A cache is coherent with a source of truth when every hit is what the source holds.\<close>

definition coherent :: "(string \<rightharpoonup> 'v) \<Rightarrow> 'c \<Rightarrow> bool" where
  "coherent src c = (\<forall>now k v. fst (get now k c) = Some v \<longrightarrow> src k = Some v)"

lemma coherentD: "coherent src c \<Longrightarrow> fst (get now k c) = Some v \<Longrightarrow> src k = Some v"
  by (simp add: coherent_def)

lemma coherent_set: "coherent src c \<Longrightarrow> src' k = Some v \<Longrightarrow> (\<And>k'. k' \<noteq> k \<Longrightarrow> src' k' = src k') \<Longrightarrow>
    coherent src' (set now k v c)"
  by (auto simp: coherent_def dest!: get_set)

lemma coherent_refresh: "coherent src c \<Longrightarrow> src k = Some v \<Longrightarrow> coherent src (set now k v c)"
  by (rule coherent_set) simp_all

lemma coherent_refresh_list:
  assumes "coherent src c" "\<And>x. x \<in> List.set xs \<Longrightarrow> src (key x) = Some (val x)"
  shows "coherent src (fold (\<lambda>x. set now (key x) (val x)) xs c)"
  using assms by (induction xs arbitrary: c) (auto intro!: coherent_refresh)

lemma coherent_get: "coherent src c \<Longrightarrow> coherent src (snd (get now k c))"
  by (auto simp: coherent_def dest!: get_get)

lemma coherent_delete: "coherent src c \<Longrightarrow> (\<And>k'. k' \<noteq> k \<Longrightarrow> src' k' = src k') \<Longrightarrow> coherent src' (delete k c)"
  by (auto simp: coherent_def dest!: get_delete)

lemma coherent_delete_list:
  "coherent src c \<Longrightarrow> (\<And>k. k \<notin> List.set ks \<Longrightarrow> src' k = src k) \<Longrightarrow> coherent src' (fold delete ks c)"
proof (induction ks arbitrary: src c)
  case (Cons k ks)
  have "coherent (src(k := src' k)) (delete k c)"
    by (rule coherent_delete [OF Cons.prems(1)]) simp
  then show ?case using Cons.prems(2) by (auto intro!: Cons.IH)
qed (simp add: coherent_def)

lemma coherent_tick: "coherent src c \<Longrightarrow> coherent src (tick now c)"
  by (auto simp: coherent_def dest!: get_tick)

end

text \<open>The cache keeps the contract whatever the order of \<open>Range\<close>, since the cleanups only remove
  entries.\<close>

lemma Get_result:
  "fst (Cache_Get now k c) = Some v \<longleftrightarrow>
     (\<exists>itm. map_of (c_data c) k = Some itm \<and> now \<le> it_expiration itm \<and> it_value itm = v)"
  by (auto simp: Cache_Get_def split: option.splits)

lemma map_of_filter_keys_le:
  "map_of (filter (\<lambda>e. P (fst e)) xs) k = Some v \<Longrightarrow> map_of xs k = Some v"
  by (simp add: map_of_filter_key split: if_splits)

lemma cleanupOldest_map_of:
  "map_of (c_data (cleanupOldest rng c)) k = Some itm \<Longrightarrow> map_of (c_data c) k = Some itm"
  by (auto simp: cleanupOldest_def Let_def split: if_splits dest!: map_of_filter_keys_le)

lemma SetWithTTL_map_of:
  "map_of (c_data (SetWithTTL rng now key v ttl c)) k = Some itm \<Longrightarrow>
     (if k = key then itm = \<lparr>it_value = v, it_expiration = now + ttl, it_size = estimateSize v\<rparr>
      else map_of (c_data c) k = Some itm)"
  by (auto simp: SetWithTTL_entry Let_def split: if_splits dest!: cleanupOldest_map_of)

lemma cleanup_map_of: "map_of (c_data (cleanup rng now c)) k = Some itm \<Longrightarrow> map_of (c_data c) k = Some itm"
  by (auto simp: cleanup_def Let_def fold_map_delete split: if_splits dest!: map_of_filter_keys_le)

interpretation memory_cache: cache_interface
  "Cache_Set rng" Cache_Get Cache_Delete "cleanupLoop_tick rng'" for rng rng' :: "'v range_order"
proof
  fix now' k' now k and v w :: "'v any" and c :: "'v Cache"
  show "k' = k \<and> w = v \<or> k' \<noteq> k \<and> fst (Cache_Get now' k' c) = Some w"
    if "fst (Cache_Get now' k' (Cache_Set rng now k v c)) = Some w"
    using that unfolding Get_result Cache_Set_def by (auto dest!: SetWithTTL_map_of split: if_splits)
  show "fst (Cache_Get now' k' c) = Some w"
    if "fst (Cache_Get now' k' (snd (Cache_Get now k c))) = Some w"
    using that unfolding Get_result by (auto simp: Cache_Get_def split: option.splits if_splits)
  show "k' \<noteq> k \<and> fst (Cache_Get now' k' c) = Some w"
    if "fst (Cache_Get now' k' (Cache_Delete k c)) = Some w"
    using that unfolding Get_result by (auto simp: Cache_Delete_def split: option.splits if_splits)
  show "fst (Cache_Get now' k' c) = Some w"
    if "fst (Cache_Get now' k' (cleanupLoop_tick rng' now c)) = Some w"
    using that unfolding Get_result cleanupLoop_tick_def by (auto dest!: cleanup_map_of split: if_splits)
qed

section \<open>Sequences of operations\<close>

inductive cache_step :: "'v Cache \<Rightarrow> 'v Cache \<Rightarrow> bool" where
  step_SetWithTTL: "is_range_order rng \<Longrightarrow> cache_step c (SetWithTTL rng now key v ttl c)"
| step_Set: "is_range_order rng \<Longrightarrow> cache_step c (Cache_Set rng now key v c)"
| step_Get: "cache_step c (snd (Cache_Get now key c))"
| step_Delete: "cache_step c (Cache_Delete key c)"
| step_Clear: "is_range_order rng \<Longrightarrow> cache_step c (Cache_Clear rng c)"
| step_tick: "is_range_order rng \<Longrightarrow> cache_step c (cleanupLoop_tick rng now c)"
| step_Close: "cache_step c (Close c)"

definition within_limit :: "'v Cache \<Rightarrow> bool" where
  "within_limit c = (cfg_MaxItems (c_config c) > 0 \<longrightarrow> c_itemCount c \<le> cfg_MaxItems (c_config c))"

lemma within_limit_SetWithTTL:
  assumes inv: "cache_inv c" and rng: "is_range_order rng" and lim: "within_limit c"
  shows "within_limit (SetWithTTL rng now key v ttl c)"
    and "c_config (SetWithTTL rng now key v ttl c) = c_config c"
proof -
  define c' where "c' = set_entry key \<lparr>it_value = v, it_expiration = now + ttl, it_size = estimateSize v\<rparr> c"
  have inv': "cache_inv c'" using inv by (simp add: c'_def cache_inv_set_entry)
  have cfg: "c_config c' = c_config c" and le: "c_itemCount c' \<le> c_itemCount c + 1"
    by (simp_all add: c'_def set_entry_count)
  let ?over = "cfg_MaxItems (c_config c') > 0 \<and> c_itemCount c' > cfg_MaxItems (c_config c')"
  have eq: "SetWithTTL rng now key v ttl c = (if ?over then cleanupOldest rng c' else c')"
    by (simp add: SetWithTTL_entry c'_def [symmetric] Let_def)
  have "within_limit (cleanupOldest rng c') \<and> c_config (cleanupOldest rng c') = c_config c" if over: ?over
    using cleanupOldest_shrinks [OF inv' rng] lim le over by (auto simp: within_limit_def cfg)
  then show "within_limit (SetWithTTL rng now key v ttl c)"
    and "c_config (SetWithTTL rng now key v ttl c) = c_config c"
    unfolding eq using cfg by (auto simp: within_limit_def)
qed

lemma within_limit_mono:
  "within_limit c \<Longrightarrow> c_config c' = c_config c \<Longrightarrow> c_itemCount c' \<le> c_itemCount c \<Longrightarrow> within_limit c'"
  by (auto simp: within_limit_def)

lemma Clear_config [simp]: "c_config (Cache_Clear rng c) = c_config c"
proof -
  have "c_config (fold (\<lambda>e c. (call_OnEviction (fst e) (it_value (snd e)) c)
      \<lparr>c_data := map_delete (fst e) (c_data c)\<rparr>) es c) = c_config c" for es :: "'a entries" and c
    by (induction es arbitrary: c) simp_all
  then show ?thesis by (simp add: Cache_Clear_def Let_def)
qed

lemma Get_config: "c_config (snd (Cache_Get now key c)) = c_config c"
    "c_itemCount (snd (Cache_Get now key c)) \<le> c_itemCount c"
  by (simp_all add: Cache_Get_def split: option.splits)

lemma Delete_config: "c_config (Cache_Delete key c) = c_config c"
    "c_itemCount (Cache_Delete key c) \<le> c_itemCount c"
  by (simp_all add: Cache_Delete_def split: option.splits)

lemma tick_config: "c_config (cleanupLoop_tick rng now c) = c_config c"
    "c_itemCount (cleanupLoop_tick rng now c) \<le> c_itemCount c"
  by (simp_all add: cleanupLoop_tick_def cleanup_def Let_def)

lemma Close_fields: "c_config (Close c) = c_config c" "c_itemCount (Close c) \<le> c_itemCount c"
  by (simp_all add: Close_def)

lemmas cache_inv_ops = cache_inv_SetWithTTL cache_inv_Get cache_inv_Delete cache_inv_Clear
  cache_inv_cleanupLoop_tick cache_inv_Close

lemma cache_step_keeps:
  assumes "cache_step c c'" "cache_inv c" "within_limit c"
  shows "cache_inv c' \<and> within_limit c' \<and> c_config c' = c_config c"
  using assms(1)
proof cases
  case (step_Clear rng)
  have "c_itemCount (Cache_Clear rng c) = 0" by (simp add: Cache_Clear_def Let_def)
  then show ?thesis using step_Clear assms by (simp add: cache_inv_ops within_limit_def)
qed (use assms in \<open>simp_all add: Cache_Set_def cache_inv_ops within_limit_SetWithTTL Get_config Delete_config
       tick_config within_limit_mono Close_fields\<close>)

lemma cache_reachable_keeps:
  assumes "cache_step\<^sup>*\<^sup>* (New config) c"
  shows "cache_inv c \<and> within_limit c \<and> c_config c = config"
  using assms
proof (induction rule: rtranclp_induct)
  case base
  then show ?case by (simp add: cache_inv_New) (simp add: within_limit_def New_def)
next
  case (step c c')
  then show ?case using cache_step_keeps by metis
qed

section \<open>Properties\<close>

text \<open>C14. Whatever sequence of operations a cache goes through, and whatever the order in which
  its map is ranged over, the counter that \<open>Size\<close> reports is the number of entries, no key occurs
  twice, and a positive \<open>MaxItems\<close> bounds the number of entries.\<close>

theorem cache_size_exact_and_bounded:
  assumes "cache_step\<^sup>*\<^sup>* (New config) c"
  shows "Size c = int (length (c_data c)) \<and> distinct (map fst (c_data c))
    \<and> (cfg_MaxItems config > 0 \<longrightarrow> int (length (c_data c)) \<le> cfg_MaxItems config)"
  using cache_reachable_keeps [OF assms] by (auto simp: cache_inv_def within_limit_def Size_def)

definition small_cache :: "nat Cache" where
  "small_cache = SetWithTTL id 3 ''c'' (AnyOther 3) 50
     (SetWithTTL id 2 ''b'' (AnyString ''x'') 10 (SetWithTTL id 1 ''a'' (AnyOther 1) 100
        (New \<lparr>cfg_DefaultTTL = 10, cfg_CleanupInterval = 5, cfg_MaxItems = 2, cfg_OnEviction = True\<rparr>)))"

lemma small_cache_data:
  "map (\<lambda>e. (fst e, it_value (snd e))) (c_data small_cache) = [(''a'', AnyOther 1), (''c'', AnyOther 3)]
   \<and> c_itemCount small_cache = 2 \<and> c_evicted small_cache = [(''b'', AnyString ''x'')]"
  by code_simp

lemma is_range_order_id: "is_range_order id"
  by (simp add: is_range_order_def)

lemma small_cache_reachable:
  "cache_step\<^sup>*\<^sup>* (New \<lparr>cfg_DefaultTTL = 10, cfg_CleanupInterval = 5, cfg_MaxItems = 2, cfg_OnEviction = True\<rparr>) small_cache"
  unfolding small_cache_def
  by (rule rtranclp.rtrancl_into_rtrancl [OF rtranclp.rtrancl_into_rtrancl [OF
        rtranclp.rtrancl_into_rtrancl [OF rtranclp.rtrancl_refl]]])
    (rule step_SetWithTTL [OF is_range_order_id])+

theorem cache_size_exact_and_bounded_witness:
  "Size small_cache = 2 \<and> length (c_data small_cache) = 2
   \<and> int (length (c_data small_cache)) \<le> 2 \<and> distinct (map fst (c_data small_cache))"
  using cache_size_exact_and_bounded [OF small_cache_reachable] small_cache_data by (simp add: Size_def)

text \<open>When the cache is over its limit, \<open>cleanupOldest\<close> removes exactly one fifth of the
  limit, at least one entry, and the entries it removes are the ones that expire first: no entry
  it keeps expires before an entry it removes. The single pass with a bounded list of candidates
  is thus a selection of the oldest entries for every order of \<open>Range\<close>.\<close>

theorem cleanupOldest_removes_oldest:
  assumes "cache_inv c" "is_range_order rng"
    and "cfg_MaxItems (c_config c) > 0" "c_itemCount c > cfg_MaxItems (c_config c)"
  shows "Size (cleanupOldest rng c) = Size c - max (cfg_MaxItems (c_config c) div 5) 1
    \<and> set (c_data (cleanupOldest rng c)) \<subseteq> set (c_data c)
    \<and> (\<forall>kept \<in> set (c_data (cleanupOldest rng c)).
         \<forall>gone \<in> set (c_data c) - set (c_data (cleanupOldest rng c)).
           it_expiration (snd gone) \<le> it_expiration (snd kept))"
proof -
  define k where "k = nat (max (cfg_MaxItems (c_config c) div 5) 1)"
  obtain removed where r: "oldest_of k (set (c_data c)) removed"
    "c_data (cleanupOldest rng c) = filter (\<lambda>e. e \<notin> set removed) (c_data c)"
    "c_itemCount (cleanupOldest rng c) = c_itemCount c - int (length removed)"
    using cleanupOldest_spec [OF assms(1,2,4,3)] unfolding k_def by blast
  have "card (set (c_data c)) = length (c_data c)"
    using assms(1) by (simp add: cache_inv_def distinct_map distinct_card)
  moreover have "int k \<le> cfg_MaxItems (c_config c)" "int k = max (cfg_MaxItems (c_config c) div 5) 1"
    using assms(3) by (auto simp: k_def)
  ultimately have "int (length removed) = max (cfg_MaxItems (c_config c) div 5) 1"
    using r(1) assms(1,4) by (simp add: oldest_of_def cache_inv_def min_def) linarith
  then show ?thesis using r by (auto simp: oldest_of_def Size_def)
qed

definition full_cache :: "nat Cache" where
  "full_cache = set_entry ''c'' \<lparr>it_value = AnyOther 3, it_expiration = 53, it_size = 64\<rparr>
     (set_entry ''b'' \<lparr>it_value = AnyOther 2, it_expiration = 12, it_size = 64\<rparr>
       (set_entry ''a'' \<lparr>it_value = AnyOther 1, it_expiration = 101, it_size = 64\<rparr>
        (New \<lparr>cfg_DefaultTTL = 10, cfg_CleanupInterval = 5, cfg_MaxItems = 2, cfg_OnEviction = True\<rparr>)))"

lemma full_cache_facts:
  "cache_inv full_cache" "cfg_MaxItems (c_config full_cache) = 2" "c_itemCount full_cache = 3"
  by (simp add: full_cache_def cache_inv_set_entry cache_inv_New, code_simp, code_simp)

theorem cleanupOldest_removes_oldest_witness:
  "Size (cleanupOldest rev full_cache) = 2
   \<and> map (\<lambda>e. (fst e, it_expiration (snd e))) (c_data (cleanupOldest rev full_cache)) = [(''a'', 101), (''c'', 53)]"
proof -
  have "is_range_order rev" by (simp add: is_range_order_def)
  from cleanupOldest_removes_oldest [OF full_cache_facts(1) this]
  have "Size (cleanupOldest rev full_cache) = 2" by (simp add: full_cache_facts Size_def)
  moreover have "map (\<lambda>e. (fst e, it_expiration (snd e))) (c_data (cleanupOldest rev full_cache)) = [(''a'', 101), (''c'', 53)]"
    by code_simp
  ultimately show ?thesis by simp
qed

end
