(* ===== verification/Sql_Like.thy ===== *)
theory Sql_Like
  imports Memos_Prelude "HOL-Library.Char_ord" "HOL-Library.List_Lexorder"
begin

text \<open>
  The \<open>LIKE\<close> operator of SQLite on byte strings, with its optional escape character, the ASCII
  case folding that \<open>LIKE\<close> and \<open>LOWER\<close> use, and stable ascending and descending sorts for
  \<open>ORDER BY\<close>. Text outside ASCII is compared byte by byte.
\<close>

definition ascii_lower :: "char \<Rightarrow> char" where
  "ascii_lower c = (let n = (of_char c :: nat) in if 65 \<le> n \<and> n \<le> 90 then char_of (n + 32) else c)"

definition to_lower :: "string \<Rightarrow> string" where
  "to_lower = map ascii_lower"

fun like :: "char option \<Rightarrow> string \<Rightarrow> string \<Rightarrow> bool" where
  "like esc [] t = (t = [])"
| "like esc (c # p) t =
     (if esc = Some c
      then (case p of
              [] \<Rightarrow> False
            | d # p' \<Rightarrow> (case t of [] \<Rightarrow> False | x # t' \<Rightarrow> ascii_lower x = ascii_lower d \<and> like esc p' t'))
      else if c = CHR ''%'' then like esc p t \<or> (case t of [] \<Rightarrow> False | x # t' \<Rightarrow> like esc (c # p) t')
      else if c = CHR ''_'' then (case t of [] \<Rightarrow> False | x # t' \<Rightarrow> like esc p t')
      else (case t of [] \<Rightarrow> False | x # t' \<Rightarrow> ascii_lower x = ascii_lower c \<and> like esc p t'))"

definition sort_desc :: "('a \<Rightarrow> 'k::linorder) \<Rightarrow> 'a list \<Rightarrow> 'a list" where
  "sort_desc f xs = rev (sort_key f (rev xs))"

lemma set_sort_desc [simp]: "set (sort_desc f xs) = set xs"
  by (simp add: sort_desc_def)

lemma length_sort_desc [simp]: "length (sort_desc f xs) = length xs"
  by (simp add: sort_desc_def)

end
