(* ===== verification/User_Store.thy ===== *)
theory User_Store
  imports Space_Invariant Cache Sql_Like
begin

text \<open>
  The user operations of \<open>store/user.go\<close>, \<open>store/user_delete.go\<close> and \<open>ListUsers\<close> of
  \<open>store/db/sqlite/user.go\<close>, over a store that is the database together with the user cache. The
  main result is that the cache never shows a caller an old user: in every reachable state of one
  process a hit of the user cache is the current row. Pointers are not followed: a cached user
  is a value.
\<close>

section \<open>Listing users\<close>

record FindUser =
  fu_ID :: "int32 option"
  fu_IDList :: "int32 list"
  fu_UsernameList :: "string list"
  fu_RowStatus :: "RowStatus option"
  fu_Username :: "string option"
  fu_Role :: "string option"
  fu_Email :: "string option"
  fu_Nickname :: "string option"
  fu_Search :: "string option"
  fu_Filters :: "string list"
  fu_Limit :: "int option"
  fu_Offset :: "int option"

definition no_find_user :: FindUser where
  "no_find_user = \<lparr>fu_ID = None, fu_IDList = [], fu_UsernameList = [], fu_RowStatus = None, fu_Username = None,
     fu_Role = None, fu_Email = None, fu_Nickname = None, fu_Search = None, fu_Filters = [],
     fu_Limit = None, fu_Offset = None\<rparr>"

definition user_search :: "string \<Rightarrow> User \<Rightarrow> bool" where
  "user_search v u =
     (let query = to_lower (trim_space v); p = ''%'' @ query @ ''%''
      in like None p (to_lower (u_Username u)) \<or> like None p (to_lower (u_Nickname u)))"

definition search_rank :: "string \<Rightarrow> User \<Rightarrow> nat" where
  "search_rank v u =
     (let query = to_lower (trim_space v)
      in if to_lower (u_Username u) = query then 0
         else if like None (query @ ''%'') (to_lower (u_Username u)) then 1
         else if like None (query @ ''%'') (to_lower (u_Nickname u)) then 2 else 3)"

definition searching :: "FindUser \<Rightarrow> string option" where
  "searching q = (case fu_Search q of None \<Rightarrow> None | Some v \<Rightarrow> if trim_space v = [] then None else Some v)"

definition user_matches :: "FindUser \<Rightarrow> User \<Rightarrow> bool" where
  "user_matches q u =
     (opt_eq (fu_ID q) (u_ID u)
      \<and> (fu_IDList q = [] \<or> u_ID u \<in> set (fu_IDList q))
      \<and> (fu_UsernameList q = [] \<or> u_Username u \<in> set (fu_UsernameList q))
      \<and> opt_eq (fu_RowStatus q) (u_RowStatus u) \<and> opt_eq (fu_Username q) (u_Username u)
      \<and> opt_eq (fu_Role q) (u_Role u) \<and> opt_eq (fu_Email q) (u_Email u) \<and> opt_eq (fu_Nickname q) (u_Nickname u)
      \<and> (case searching q of None \<Rightarrow> True | Some v \<Rightarrow> user_search v u))"

definition user_order :: "FindUser \<Rightarrow> User list \<Rightarrow> User list" where
  "user_order q us =
     (case searching q of
        None \<Rightarrow> sort_desc u_CreatedTs (sort_desc u_RowStatus (sort_desc u_ID us))
      | Some v \<Rightarrow> sort_key (search_rank v) (sort_key (\<lambda>u. length (u_Username u))
                   (sort_desc u_CreatedTs (sort_desc u_RowStatus us))))"

definition DB_ListUsers :: "FindUser \<Rightarrow> db \<Rightarrow> store_error + User list" where
  "DB_ListUsers q d =
     (if fu_Filters q \<noteq> [] then Inl (NewError ''user filters are not supported'')
      else Inr (sql_limit (fu_Limit q) (fu_Offset q) (user_order q (filter (user_matches q) (db_user d)))))"

section \<open>The store\<close>

text \<open>The values of the user-setting cache are messages; their type is a parameter.\<close>

record 's Store =
  st_db :: db
  st_userCache :: "User Cache"
  st_userSettingCache :: "'s Cache"
  st_clock :: int

definition Store_New :: "db \<Rightarrow> int \<Rightarrow> 's Store" where
  "Store_New d now = \<lparr>st_db = d, st_userCache = New DefaultConfig, st_userSettingCache = New DefaultConfig, st_clock = now\<rparr>"

definition itoa :: "int \<Rightarrow> string" where
  "itoa i = (if i < 0 then ''-'' @ decimal (nat (- i)) else decimal (nat i))"

definition userCacheKey :: "int32 \<Rightarrow> string" where
  "userCacheKey userID = itoa userID"

definition getUserSettingCacheKey :: "int32 \<Rightarrow> string \<Rightarrow> string" where
  "getUserSettingCacheKey userID key = itoa userID @ ''-'' @ key"

text \<open>\<open>s.userCache.Set(ctx, userCacheKey(user.ID), user)\<close>.\<close>

definition cache_user :: "User range_order \<Rightarrow> User \<Rightarrow> 's Store \<Rightarrow> 's Store" where
  "cache_user rng u s =
     s\<lparr>st_userCache := Cache_Set rng (st_clock s) (userCacheKey (u_ID u)) (AnyOther u) (st_userCache s)\<rparr>"

definition Store_CreateUser :: "User range_order \<Rightarrow> User \<Rightarrow> 's Store \<Rightarrow> store_error + (User \<times> 's Store)" where
  "Store_CreateUser rng create s =
     bindE (DB_CreateUser create (st_db s)) (\<lambda>(user, d). Inr (user, cache_user rng user (s\<lparr>st_db := d\<rparr>)))"

definition Store_CreateUserIfNoUsers ::
    "User range_order \<Rightarrow> User \<Rightarrow> 's Store \<Rightarrow> store_error + (User option \<times> bool \<times> 's Store)" where
  "Store_CreateUserIfNoUsers rng create s =
     bindE (DB_ListUsers (no_find_user\<lparr>fu_Limit := Some 1\<rparr>) (st_db s)) (\<lambda>users.
       if length users > 0 then Inr (None, False, s)
       else bindE (DB_CreateUser create (st_db s)) (\<lambda>(user, d).
              Inr (Some user, True, cache_user rng user (s\<lparr>st_db := d\<rparr>))))"

definition Store_UpdateUser :: "User range_order \<Rightarrow> UpdateUser \<Rightarrow> 's Store \<Rightarrow> store_error + (User \<times> 's Store)" where
  "Store_UpdateUser rng update s =
     bindE (DB_UpdateUser update (st_db s)) (\<lambda>(user, d). Inr (user, cache_user rng user (s\<lparr>st_db := d\<rparr>)))"

definition Store_ListUsers :: "User range_order \<Rightarrow> FindUser \<Rightarrow> 's Store \<Rightarrow> store_error + (User list \<times> 's Store)" where
  "Store_ListUsers rng q s =
     bindE (DB_ListUsers q (st_db s)) (\<lambda>list. Inr (list, fold (cache_user rng) list s))"

definition get_user_from_db :: "User range_order \<Rightarrow> FindUser \<Rightarrow> 's Store \<Rightarrow> store_error + (User option \<times> 's Store)" where
  "get_user_from_db rng q s =
     bindE (Store_ListUsers rng q s) (\<lambda>(list, s).
       case list of
         [] \<Rightarrow> Inr (None, s)
       | user # _ \<Rightarrow> Inr (Some user, cache_user rng user s))"

definition Store_GetUser :: "User range_order \<Rightarrow> FindUser \<Rightarrow> 's Store \<Rightarrow> store_error + (User option \<times> 's Store)" where
  "Store_GetUser rng q s =
     (case fu_ID q of
        None \<Rightarrow> get_user_from_db rng q s
      | Some i \<Rightarrow>
          (let (cached, c) = Cache_Get (st_clock s) (userCacheKey i) (st_userCache s);
               s = s\<lparr>st_userCache := c\<rparr>
           in case cached of
                Some (AnyOther user) \<Rightarrow> Inr (Some user, s)
              | _ \<Rightarrow> get_user_from_db rng q s))"

definition deleteUserCache :: "int32 \<Rightarrow> DeleteUserResult \<Rightarrow> 's Store \<Rightarrow> 's Store" where
  "deleteUserCache userID result s =
     s\<lparr>st_userCache := Cache_Delete (userCacheKey userID) (st_userCache s),
       st_userSettingCache := fold (\<lambda>key. Cache_Delete (getUserSettingCacheKey userID key))
         (dur_UserSettingKeys result) (st_userSettingCache s)\<rparr>"

definition Store_DeleteUser ::
    "(string \<Rightarrow> bool) \<Rightarrow> bool \<Rightarrow> int32 \<Rightarrow> 's Store \<Rightarrow> store_error + (DeleteUserResult \<times> 's Store)" where
  "Store_DeleteUser payload_ok failpoint userID s =
     bindE (DB_DeleteUser payload_ok failpoint userID (st_db s)) (\<lambda>(result, d).
       Inr (result, deleteUserCache userID result (s\<lparr>st_db := d\<rparr>)))"

section \<open>Cache keys\<close>

lemma decimal_inj: "decimal m = decimal n \<Longrightarrow> m = n"
  by (metis digits_value_decimal)

lemma minus_not_digit: "CHR ''-'' \<notin> set (decimal n)"
proof
  assume "CHR ''-'' \<in> set (decimal n)"
  then have "is_digit (CHR ''-'')" using decimal_digits [of n] by (simp add: list_all_iff)
  then show False by (simp add: is_digit_def)
qed

lemma itoa_inj [simp]: "itoa i = itoa j \<longleftrightarrow> i = j"
proof
  assume eq: "itoa i = itoa j"
  have neg: "k < 0 \<longleftrightarrow> CHR ''-'' \<in> set (itoa k)" for k
    by (simp add: itoa_def minus_not_digit)
  have "i < 0 \<longleftrightarrow> j < 0" unfolding neg using eq by simp
  then show "i = j" using eq by (auto simp: itoa_def dest!: decimal_inj split: if_splits)
qed simp

lemma userCacheKey_inj [simp]: "userCacheKey i = userCacheKey j \<longleftrightarrow> i = j"
  by (simp add: userCacheKey_def)

section \<open>Coherence of the user cache\<close>

definition user_row :: "db \<Rightarrow> int32 \<Rightarrow> User option" where
  "user_row d i = first_row (filter (\<lambda>u. u_ID u = i) (db_user d))"

definition user_source :: "db \<Rightarrow> string \<Rightarrow> User any option" where
  "user_source d key = map_option AnyOther (first_row (filter (\<lambda>u. userCacheKey (u_ID u) = key) (db_user d)))"

lemma user_source_key [simp]: "user_source d (userCacheKey i) = map_option AnyOther (user_row d i)"
  by (simp add: user_source_def user_row_def)

lemma user_source_users: "db_user d = db_user d' \<Longrightarrow> user_source d = user_source d'"
  by (rule ext) (simp add: user_source_def)

lemma user_row_Some: "user_row d i = Some u \<Longrightarrow> u \<in> set (db_user d) \<and> u_ID u = i"
  unfolding user_row_def by (drule first_row_in) auto

lemma user_row_iff:
  assumes "distinct (map u_ID (db_user d))"
  shows "user_row d i = Some u \<longleftrightarrow> u \<in> set (db_user d) \<and> u_ID u = i"
proof
  assume "u \<in> set (db_user d) \<and> u_ID u = i"
  moreover have "first_row (filter (\<lambda>u. u_ID u = i) us) = Some u"
    if "distinct (map u_ID us)" "u \<in> set us" "u_ID u = i" for us
    using that by (induction us) (auto simp: image_iff)
  ultimately show "user_row d i = Some u" using assms by (simp add: user_row_def)
qed (rule user_row_Some)

text \<open>The coherence of the interface, at the user cache and the user table.\<close>

definition user_cache_coherent :: "'s Store \<Rightarrow> bool" where
  "user_cache_coherent s = memory_cache.coherent (user_source (st_db s)) (st_userCache s)"

lemma coherent_New: "memory_cache.coherent src (New config)"
  by (simp add: memory_cache.coherent_def New_def Cache_Get_def)

lemma cache_user_db [simp]: "st_db (cache_user rng u s) = st_db s"
  by (simp add: cache_user_def)

lemma cache_user_list_db [simp]: "st_db (fold (cache_user rng) us s) = st_db s"
  by (induction us arbitrary: s) simp_all

lemma cache_user_coherent:
  assumes "user_cache_coherent s" "user_row (st_db s) (u_ID u) = Some u"
  shows "user_cache_coherent (cache_user rng u s)"
  using assms unfolding user_cache_coherent_def cache_user_def
  by (simp, intro memory_cache.coherent_refresh) simp_all

lemma cache_users_coherent:
  assumes "user_cache_coherent s" "\<And>u. u \<in> set us \<Longrightarrow> user_row (st_db s) (u_ID u) = Some u"
  shows "user_cache_coherent (fold (cache_user rng) us s)"
  using assms
proof (induction us arbitrary: s)
  case (Cons u us)
  then show ?case using cache_user_coherent [of s u rng] by simp
qed simp

text \<open>After a change of one user the cache entry written with the new row makes the cache
  coherent with the new table.\<close>

lemma cache_user_changed:
  assumes "user_cache_coherent s" "user_row d (u_ID u) = Some u"
    and "\<And>i. i \<noteq> u_ID u \<Longrightarrow> filter (\<lambda>v. u_ID v = i) (db_user d) = filter (\<lambda>v. u_ID v = i) (db_user (st_db s))"
  shows "user_cache_coherent (cache_user rng u (s\<lparr>st_db := d\<rparr>))"
proof -
  have other: "user_source d k = user_source (st_db s) k" if "k \<noteq> userCacheKey (u_ID u)" for k
  proof (cases "\<exists>i. k = userCacheKey i")
    case True
    then obtain i where i: "k = userCacheKey i" by blast
    then have "i \<noteq> u_ID u" using that by auto
    with i show ?thesis using assms(3) [of i] by (simp add: user_row_def)
  next
    case False
    then have "userCacheKey (u_ID v) \<noteq> k" for v by metis
    then have none: "(userCacheKey (u_ID v) = k) = False" for v by simp
    show ?thesis unfolding user_source_def none by simp
  qed
  show ?thesis
    using assms(1,2) unfolding user_cache_coherent_def cache_user_def
    by (simp, intro memory_cache.coherent_set [of "user_source (st_db s)"]) (simp_all add: other)
qed

lemma DB_CreateUser_row:
  assumes "db_keys d" "DB_CreateUser c d = Inr (u, d')"
  shows "user_row d' (u_ID u) = Some u"
    and "i \<noteq> u_ID u \<Longrightarrow> filter (\<lambda>v. u_ID v = i) (db_user d') = filter (\<lambda>v. u_ID v = i) (db_user d)"
proof -
  have "filter (\<lambda>v. u_ID v = u_ID u) (db_user d) = []"
    using assms by (auto simp: DB_CreateUser_def insertUser_def Let_def db_keys_def filter_empty_conv split: if_splits)
  then show "user_row d' (u_ID u) = Some u"
    and "i \<noteq> u_ID u \<Longrightarrow> filter (\<lambda>v. u_ID v = i) (db_user d') = filter (\<lambda>v. u_ID v = i) (db_user d)"
    using assms by (auto simp: DB_CreateUser_def insertUser_def Let_def user_row_def split: if_splits)
qed

lemma DB_UpdateUser_row:
  assumes "DB_UpdateUser c d = Inr (u, d')"
  shows "user_row d' (u_ID u) = Some u"
    and "i \<noteq> u_ID u \<Longrightarrow> filter (\<lambda>v. u_ID v = i) (db_user d') = filter (\<lambda>v. u_ID v = i) (db_user d)"
proof -
  define users where "users = update_rows (\<lambda>u. u_ID u = uu_ID c) (user_set c) (db_user d)"
  have u: "first_row (filter (\<lambda>u. u_ID u = uu_ID c) users) = Some u" and d': "d' = d\<lparr>db_user := users\<rparr>"
    using assms by (auto simp: DB_UpdateUser_def users_def [symmetric] Let_def result_simps split: if_splits option.splits)
  have ID: "u_ID u = uu_ID c" using first_row_in [OF u] by simp
  show "user_row d' (u_ID u) = Some u" using u by (simp add: user_row_def d' ID)
  have "filter (\<lambda>v. u_ID v = i) (update_rows (\<lambda>u. u_ID u = uu_ID c) (user_set c) us) = filter (\<lambda>v. u_ID v = i) us"
    if "i \<noteq> uu_ID c" for us
    using that by (induction us) (auto simp: user_set_ID)
  then show "i \<noteq> u_ID u \<Longrightarrow> filter (\<lambda>v. u_ID v = i) (db_user d') = filter (\<lambda>v. u_ID v = i) (db_user d)"
    by (simp add: d' ID users_def)
qed

lemma DB_DeleteUser_rows:
  assumes "db_keys d" "DB_DeleteUser ok fp uid d = Inr (r, d')"
  shows "db_user d' = filter (\<lambda>u. u_ID u \<noteq> uid) (db_user d)"
proof (cases "\<exists>u \<in> set (db_user d). u_ID u = uid")
  case True
  then show ?thesis using DB_DeleteUser_spec [OF assms(1) True assms(2)] by (simp add: delete_user_spec_def Let_def)
next
  case False
  then show ?thesis using assms(2) by (auto simp: DB_DeleteUser_def filter_id_conv)
qed

lemma DB_ListUsers_rows: "DB_ListUsers q d = Inr us \<Longrightarrow> u \<in> set us \<Longrightarrow> u \<in> set (db_user d)"
  by (auto simp: DB_ListUsers_def sql_limit_def Let_def user_order_def split: if_splits option.splits
      dest!: in_set_takeD in_set_dropD)

text \<open>\<open>GetUser\<close> by id finds the row, and so do the queries that miss the cache.\<close>

lemma DB_ListUsers_by_id:
  assumes "distinct (map u_ID (db_user d))"
  shows "DB_ListUsers (no_find_user\<lparr>fu_ID := Some i\<rparr>) d = Inr (case user_row d i of None \<Rightarrow> [] | Some u \<Rightarrow> [u])"
proof -
  have "filter (user_matches (no_find_user\<lparr>fu_ID := Some i\<rparr>)) us = filter (\<lambda>u. u_ID u = i) us" for us
    by (intro filter_cong refl) (simp add: user_matches_def no_find_user_def opt_eq_def searching_def)
  moreover have "filter (\<lambda>u. u_ID u = i) us = (case first_row (filter (\<lambda>u. u_ID u = i) us) of None \<Rightarrow> [] | Some u \<Rightarrow> [u])"
    if "distinct (map u_ID us)" for us
    using that by (induction us) (auto simp: filter_empty_conv image_iff)
  ultimately have "filter (user_matches (no_find_user\<lparr>fu_ID := Some i\<rparr>)) (db_user d)
      = (case user_row d i of None \<Rightarrow> [] | Some u \<Rightarrow> [u])"
    using assms by (simp add: user_row_def)
  then show ?thesis
    by (simp add: DB_ListUsers_def user_order_def searching_def no_find_user_def sql_limit_def
        sort_desc_def split: option.splits)
qed

section \<open>Runs of one process\<close>

text \<open>The user operations, the background cleanups, the passing of time, and every operation on
  the database that leaves the users as they are.\<close>

inductive store_run :: "'s Store \<Rightarrow> 's Store \<Rightarrow> bool" where
  run_create: "Store_CreateUser rng c s = Inr (u, s') \<Longrightarrow> store_run s s'"
| run_create_first: "Store_CreateUserIfNoUsers rng c s = Inr (u, b, s') \<Longrightarrow> store_run s s'"
| run_update: "Store_UpdateUser rng c s = Inr (u, s') \<Longrightarrow> store_run s s'"
| run_list: "Store_ListUsers rng q s = Inr (us, s') \<Longrightarrow> store_run s s'"
| run_get: "Store_GetUser rng q s = Inr (u, s') \<Longrightarrow> store_run s s'"
| run_delete: "Store_DeleteUser ok fp uid s = Inr (r, s') \<Longrightarrow> store_run s s'"
| run_cleanup: "store_run s (s\<lparr>st_userCache := cleanupLoop_tick rng (st_clock s) (st_userCache s)\<rparr>)"
| run_clock: "store_run s (s\<lparr>st_clock := t\<rparr>)"
| run_other: "store_step (st_db s) d \<Longrightarrow> db_user d = db_user (st_db s) \<Longrightarrow> store_run s (s\<lparr>st_db := d\<rparr>)"

definition people_inv :: "db \<Rightarrow> bool" where
  "people_inv d = (db_keys d \<and> administered d)"

definition run_inv :: "'s Store \<Rightarrow> bool" where
  "run_inv s = (people_inv (st_db s) \<and> user_cache_coherent s)"

lemma run_inv_keys: "run_inv s \<Longrightarrow> db_keys (st_db s)"
  by (simp add: run_inv_def people_inv_def)

lemma run_inv_row: "run_inv s \<Longrightarrow> u \<in> set (db_user (st_db s)) \<Longrightarrow> user_row (st_db s) (u_ID u) = Some u"
  using run_inv_keys [of s] by (simp add: db_keys_def user_row_iff)

lemma run_inv_New: "run_inv (Store_New empty_db now)"
  using store_reachable_keeps [of empty_db]
  by (simp add: run_inv_def people_inv_def Store_New_def user_cache_coherent_def coherent_New)

lemma people_step: "people_inv d \<Longrightarrow> store_step d d' \<Longrightarrow> people_inv d'"
  using store_step_keeps by (simp add: people_inv_def)

lemma run_inv_create:
  assumes "run_inv s" "DB_CreateUser c (st_db s) = Inr (u, d)"
  shows "run_inv (cache_user rng u (s\<lparr>st_db := d\<rparr>))"
  using assms DB_CreateUser_row [OF run_inv_keys [OF assms(1)] assms(2)]
  by (auto simp: run_inv_def intro: people_step store_step.create_user intro!: cache_user_changed)

lemma run_inv_update:
  assumes "run_inv s" "DB_UpdateUser c (st_db s) = Inr (u, d)"
  shows "run_inv (cache_user rng u (s\<lparr>st_db := d\<rparr>))"
  using assms DB_UpdateUser_row [OF assms(2)]
  by (auto simp: run_inv_def intro: people_step store_step.update_user intro!: cache_user_changed)

lemma run_inv_cache_user: "run_inv s \<Longrightarrow> u \<in> set (db_user (st_db s)) \<Longrightarrow> run_inv (cache_user rng u s)"
  using run_inv_row [of s u] by (auto simp: run_inv_def intro!: cache_user_coherent)

lemma run_inv_list:
  assumes "run_inv s" "Store_ListUsers rng q s = Inr (us, s')"
  shows "run_inv s' \<and> st_db s' = st_db s \<and> set us \<subseteq> set (db_user (st_db s))"
proof -
  from assms(2) have us: "DB_ListUsers q (st_db s) = Inr us" and s': "s' = fold (cache_user rng) us s"
    by (auto simp: Store_ListUsers_def result_simps)
  have "set us \<subseteq> set (db_user (st_db s))" using DB_ListUsers_rows [OF us] by blast
  then show ?thesis
    using assms(1) run_inv_row [OF assms(1)] by (auto simp: s' run_inv_def intro!: cache_users_coherent)
qed

lemma run_inv_get_db:
  assumes "run_inv s" "get_user_from_db rng q s = Inr (u, s')"
  shows "run_inv s' \<and> st_db s' = st_db s"
proof -
  obtain us t where us: "Store_ListUsers rng q s = Inr (us, t)"
    and rest: "(case us of [] \<Rightarrow> Inr (None, t) | v # _ \<Rightarrow> Inr (Some v, cache_user rng v t)) = (Inr (u, s') :: store_error + _)"
    using assms(2) by (auto simp: get_user_from_db_def bindE_Inr_iff)
  show ?thesis
    using rest run_inv_list [OF assms(1) us] by (cases us) (auto intro!: run_inv_cache_user)
qed

lemma run_inv_cache_get:
  "run_inv s \<Longrightarrow> run_inv (s\<lparr>st_userCache := snd (Cache_Get now k (st_userCache s))\<rparr>)"
  by (simp add: run_inv_def user_cache_coherent_def memory_cache.coherent_get)

lemma run_inv_get:
  assumes "run_inv s" "Store_GetUser rng q s = Inr (u, s')"
  shows "run_inv s' \<and> st_db s' = st_db s"
proof (cases "fu_ID q")
  case None
  then show ?thesis using assms run_inv_get_db by (simp add: Store_GetUser_def)
next
  case (Some i)
  let ?s = "s\<lparr>st_userCache := snd (Cache_Get (st_clock s) (userCacheKey i) (st_userCache s))\<rparr>"
  have "u = None \<or> True" "s' = ?s \<or> get_user_from_db rng q ?s = Inr (u, s')"
    using assms(2) Some by (auto simp: Store_GetUser_def Let_def split: prod.splits option.splits any.splits)
  then show ?thesis
    using run_inv_cache_get [OF assms(1)] run_inv_get_db [of ?s] by auto
qed

lemma run_inv_delete:
  assumes "run_inv s" "Store_DeleteUser ok fp uid s = Inr (r, s')"
  shows "run_inv s'"
proof -
  obtain d where d: "DB_DeleteUser ok fp uid (st_db s) = Inr (r, d)" and s': "s' = deleteUserCache uid r (s\<lparr>st_db := d\<rparr>)"
    using assms(2) by (auto simp: Store_DeleteUser_def result_simps)
  have rows: "db_user d = filter (\<lambda>u. u_ID u \<noteq> uid) (db_user (st_db s))"
    by (rule DB_DeleteUser_rows [OF run_inv_keys [OF assms(1)] d])
  have "user_source d k = user_source (st_db s) k" if "k \<noteq> userCacheKey uid" for k
  proof -
    have "filter (\<lambda>u. userCacheKey (u_ID u) = k) (db_user d) = filter (\<lambda>u. userCacheKey (u_ID u) = k) (db_user (st_db s))"
      unfolding rows filter_filter using that by (intro filter_cong refl) auto
    then show ?thesis by (simp add: user_source_def)
  qed
  then have "user_cache_coherent s'"
    using assms(1) unfolding s' run_inv_def user_cache_coherent_def deleteUserCache_def
    by (auto intro!: memory_cache.coherent_delete)
  then show ?thesis
    using assms(1) d by (auto simp: run_inv_def s' deleteUserCache_def intro: people_step store_step.delete_user)
qed

lemma store_run_keeps:
  assumes "store_run s s'" "run_inv s"
  shows "run_inv s'"
  using assms(1)
proof cases
  case (run_create rng c u)
  then show ?thesis using assms(2) by (auto simp: Store_CreateUser_def result_simps intro!: run_inv_create)
next
  case (run_create_first rng c u b)
  then show ?thesis
    using assms(2) by (auto simp: Store_CreateUserIfNoUsers_def result_simps split: if_splits intro!: run_inv_create)
next
  case (run_update rng c u)
  then show ?thesis using assms(2) by (auto simp: Store_UpdateUser_def result_simps intro!: run_inv_update)
next
  case (run_other d)
  then show ?thesis
    using assms(2) user_source_users [of d "st_db s"]
    by (auto simp: run_inv_def user_cache_coherent_def intro: people_step)
next
  case (run_cleanup rng)
  then show ?thesis using assms(2) by (simp add: run_inv_def user_cache_coherent_def memory_cache.coherent_tick)
next
  case (run_clock t)
  then show ?thesis using assms(2) by (simp add: run_inv_def user_cache_coherent_def)
qed (use assms(2) run_inv_list run_inv_get run_inv_delete in blast)+

lemma store_runs_keep: "store_run\<^sup>*\<^sup>* s s' \<Longrightarrow> run_inv s \<Longrightarrow> run_inv s'"
  by (induction rule: rtranclp_induct) (auto intro: store_run_keeps)

text \<open>In a state that keeps the invariant, a read by id is the row of the table.\<close>

lemma get_user_from_db_by_id:
  assumes "run_inv s"
  shows "\<exists>s'. get_user_from_db rng (no_find_user\<lparr>fu_ID := Some i\<rparr>) s = Inr (user_row (st_db s) i, s')"
  using DB_ListUsers_by_id [of "st_db s" i] run_inv_keys [OF assms]
  by (simp add: get_user_from_db_def Store_ListUsers_def db_keys_def split: option.splits)

lemma Store_GetUser_row:
  assumes "run_inv s"
  shows "\<exists>s'. Store_GetUser rng (no_find_user\<lparr>fu_ID := Some i\<rparr>) s = Inr (user_row (st_db s) i, s')
    \<and> run_inv s' \<and> st_db s' = st_db s"
proof -
  let ?q = "no_find_user\<lparr>fu_ID := Some i\<rparr>"
  let ?c = "Cache_Get (st_clock s) (userCacheKey i) (st_userCache s)"
  have ID: "fu_ID ?q = Some i" by simp
  have "\<exists>s'. Store_GetUser rng ?q s = Inr (user_row (st_db s) i, s')"
  proof (cases "\<exists>u. fst ?c = Some (AnyOther u)")
    case True
    then obtain u where u: "fst ?c = Some (AnyOther u)" by blast
    have "user_source (st_db s) (userCacheKey i) = Some (AnyOther u)"
      using assms u unfolding run_inv_def user_cache_coherent_def by (blast intro: memory_cache.coherentD)
    then have "user_row (st_db s) i = Some u" by simp
    then show ?thesis using u by (cases ?c) (simp add: Store_GetUser_def ID)
  next
    case False
    then have "Store_GetUser rng ?q s = get_user_from_db rng ?q (s\<lparr>st_userCache := snd ?c\<rparr>)"
      by (auto simp: Store_GetUser_def Let_def split: prod.splits option.splits any.splits)
    then show ?thesis using get_user_from_db_by_id [OF run_inv_cache_get [OF assms]] by simp
  qed
  then show ?thesis using run_inv_get [OF assms] by blast
qed

section \<open>Properties\<close>

text \<open>C16. The user cache is transparent: after any run of one process, whatever entries were
  cached, expired or evicted and whatever users were created, renamed, archived or deleted,
  \<open>GetUser\<close> by id succeeds, returns exactly the current row of the user table, or nothing when the
  user does not exist, and does not change the database.\<close>

theorem Store_GetUser_current:
  assumes "store_run\<^sup>*\<^sup>* (Store_New empty_db now) s"
  shows "\<exists>s'. Store_GetUser rng (no_find_user\<lparr>fu_ID := Some i\<rparr>) s
      = Inr (first_row (filter (\<lambda>u. u_ID u = i) (db_user (st_db s))), s') \<and> st_db s' = st_db s"
  using Store_GetUser_row [OF store_runs_keep [OF assms run_inv_New], of rng i] by (auto simp: user_row_def)

definition alice :: User where
  "alice = \<lparr>u_ID = 0, u_RowStatus = [], u_CreatedTs = 0, u_UpdatedTs = 0, u_Username = ''alice'', u_Role = ''USER'',
     u_Email = [], u_Nickname = [], u_PasswordHash = [], u_AvatarURL = [], u_Description = []\<rparr>"

text \<open>The first user is created, then archived while the cache still holds the entry.\<close>

definition archived_run :: "nat Store" where
  "archived_run =
     (case bindE (Store_CreateUser id alice (Store_New empty_db 5)) (\<lambda>(u, s).
        Store_UpdateUser id \<lparr>uu_ID = 1, uu_UpdatedTs = None, uu_RowStatus = Some Archived, uu_Username = None,
          uu_Role = None, uu_Email = None, uu_Nickname = None, uu_AvatarURL = None, uu_PasswordHash = None,
          uu_Description = None\<rparr> s) of
        Inl _ \<Rightarrow> Store_New empty_db 5 | Inr (_, s) \<Rightarrow> s)"

lemma archived_run_reachable: "store_run\<^sup>*\<^sup>* (Store_New empty_db 5) archived_run"
  unfolding archived_run_def
  by (auto simp: result_simps split: sum.splits
      intro!: rtranclp.rtrancl_into_rtrancl [OF rtranclp.rtrancl_into_rtrancl [OF rtranclp.rtrancl_refl]]
      intro: run_create run_update)

theorem Store_GetUser_current_witness:
  "\<exists>s'. Store_GetUser id (no_find_user\<lparr>fu_ID := Some 1\<rparr>) archived_run
     = Inr (Some (alice\<lparr>u_ID := 1, u_RowStatus := Archived\<rparr>), s')"
proof -
  have "first_row (filter (\<lambda>u. u_ID u = 1) (db_user (st_db archived_run)))
      = Some (alice\<lparr>u_ID := 1, u_RowStatus := Archived\<rparr>)"
    by code_simp
  then show ?thesis
    using Store_GetUser_current [OF archived_run_reachable, of id 1] by auto
qed

end
