(* ===== verification/Sql_Predicates.thy ===== *)
theory Sql_Predicates
  imports Space_Store
begin

text \<open>
  The SQL predicates that restrict memo queries to what a caller may read: the texts built by
  \<open>store/db/sqlite/memo_access.go\<close>, \<open>store/db/mysql/memo_access.go\<close> and
  \<open>store/db/postgres/memo_access.go\<close>. The builders are modelled as they are, on strings. The small
  abstract syntax of SQL conditions below has a printer and a three-valued evaluation over the
  rows of the tables; each text is shown to be the printing of one condition, so that the
  evaluation of the condition says what the text selects.
\<close>

section \<open>Conditions\<close>

datatype sqlval = SNull | SInt int | SText string

datatype sexpr = Col string string | Param int32 | Lit string

datatype scond =
  CEq sexpr sexpr
| CNeq sexpr sexpr
| CIn sexpr "string list"
| CNotNull sexpr
| CAnd scond scond
| COr scond scond
| CParen scond
| CExists string string scond
| CFalse

type_synonym sqlrow = "string \<rightharpoonup> sqlval"

text \<open>The parameters of a condition in the order of its text.\<close>

fun params_e :: "sexpr \<Rightarrow> int32 list" where
  "params_e (Param v) = [v]"
| "params_e _ = []"

fun params :: "scond \<Rightarrow> int32 list" where
  "params (CEq a b) = params_e a @ params_e b"
| "params (CNeq a b) = params_e a @ params_e b"
| "params (CIn a vs) = params_e a"
| "params (CNotNull a) = params_e a"
| "params (CAnd a b) = params a @ params b"
| "params (COr a b) = params a @ params b"
| "params (CParen a) = params a"
| "params (CExists t a c) = params c"
| "params CFalse = []"

text \<open>The text: \<open>q\<close> quotes a column name, \<open>ph\<close> is the placeholder of the n-th argument of the
  query, of which \<open>n\<close> come before the condition.\<close>

fun text_e :: "(string \<Rightarrow> string) \<Rightarrow> (nat \<Rightarrow> string) \<Rightarrow> nat \<Rightarrow> sexpr \<Rightarrow> string" where
  "text_e q ph n (Col a c) = a @ ''.'' @ q c"
| "text_e q ph n (Param v) = ph (n + 1)"
| "text_e q ph n (Lit s) = [CHR 0x27] @ s @ [CHR 0x27]"

fun text_c :: "(string \<Rightarrow> string) \<Rightarrow> (nat \<Rightarrow> string) \<Rightarrow> nat \<Rightarrow> scond \<Rightarrow> string" where
  "text_c q ph n (CEq a b) = text_e q ph n a @ '' = '' @ text_e q ph (n + length (params_e a)) b"
| "text_c q ph n (CNeq a b) = text_e q ph n a @ '' <> '' @ text_e q ph (n + length (params_e a)) b"
| "text_c q ph n (CIn a vs) =
     text_e q ph n a @ '' IN ('' @ join '', '' (map (\<lambda>v. [CHR 0x27] @ v @ [CHR 0x27]) vs) @ '')''"
| "text_c q ph n (CNotNull a) = text_e q ph n a @ '' IS NOT NULL''"
| "text_c q ph n (CAnd a b) = text_c q ph n a @ '' AND '' @ text_c q ph (n + length (params a)) b"
| "text_c q ph n (COr a b) = text_c q ph n a @ '' OR '' @ text_c q ph (n + length (params a)) b"
| "text_c q ph n (CParen a) = ''('' @ text_c q ph n a @ '')''"
| "text_c q ph n (CExists t a c) =
     ''EXISTS (SELECT 1 FROM '' @ t @ '' AS '' @ a @ '' WHERE '' @ text_c q ph n c @ '')''"
| "text_c q ph n CFalse = ''1 = 0''"

text \<open>Three-valued evaluation; \<open>None\<close> is unknown.\<close>

fun eval_e :: "(string \<rightharpoonup> sqlrow) \<Rightarrow> sexpr \<Rightarrow> sqlval" where
  "eval_e env (Col a c) =
     (case env a of None \<Rightarrow> SNull | Some row \<Rightarrow> (case row c of None \<Rightarrow> SNull | Some v \<Rightarrow> v))"
| "eval_e env (Param v) = SInt v"
| "eval_e env (Lit s) = SText s"

definition eq3 :: "sqlval \<Rightarrow> sqlval \<Rightarrow> bool option" where
  "eq3 x y = (if x = SNull \<or> y = SNull then None else Some (x = y))"

definition and3 :: "bool option \<Rightarrow> bool option \<Rightarrow> bool option" where
  "and3 x y = (if x = Some False \<or> y = Some False then Some False
               else if x = Some True \<and> y = Some True then Some True else None)"

definition or3 :: "bool option \<Rightarrow> bool option \<Rightarrow> bool option" where
  "or3 x y = (if x = Some True \<or> y = Some True then Some True
              else if x = Some False \<and> y = Some False then Some False else None)"

fun eval_c :: "(string \<Rightarrow> sqlrow list) \<Rightarrow> (string \<rightharpoonup> sqlrow) \<Rightarrow> scond \<Rightarrow> bool option" where
  "eval_c tables env (CEq a b) = eq3 (eval_e env a) (eval_e env b)"
| "eval_c tables env (CNeq a b) = map_option Not (eq3 (eval_e env a) (eval_e env b))"
| "eval_c tables env (CIn a vs) =
     (if eval_e env a = SNull then None else Some (eval_e env a \<in> SText ` set vs))"
| "eval_c tables env (CNotNull a) = Some (eval_e env a \<noteq> SNull)"
| "eval_c tables env (CAnd a b) = and3 (eval_c tables env a) (eval_c tables env b)"
| "eval_c tables env (COr a b) = or3 (eval_c tables env a) (eval_c tables env b)"
| "eval_c tables env (CParen a) = eval_c tables env a"
| "eval_c tables env (CExists t a c) =
     Some (\<exists>row \<in> set (tables t). eval_c tables (env(a \<mapsto> row)) c = Some True)"
| "eval_c tables env CFalse = Some False"

section \<open>The builders\<close>

record MemoAccessScope =
  acc_UserID :: "int32 option"
  acc_AllowPublic :: bool
  acc_AllowProtected :: bool

text \<open>The builders of SQLite and MySQL are the same text; \<open>args\<close> are the arguments bound so far.\<close>

definition sqliteMemoAccessPredicate ::
    "MemoAccessScope \<Rightarrow> string \<Rightarrow> string \<Rightarrow> int32 list \<Rightarrow> string \<times> int32 list" where
  "sqliteMemoAccessPredicate access memoAlias memberAlias args =
     (let clauses = (if acc_AllowPublic access then [memoAlias @ ''.`visibility` = 'PUBLIC'' @ [CHR 0x27]] else []);
          (clauses, args) =
            (case acc_UserID access of
               None \<Rightarrow> (clauses, args)
             | Some uid \<Rightarrow>
                 (let args = args @ [uid];
                      args = args @ [uid];
                      auths = [''('' @ memoAlias @ ''.`visibility` = 'PRIVATE' AND '' @ memoAlias @ ''.`creator_id` = ?)''];
                      auths = (if acc_AllowProtected access
                               then auths @ [memoAlias @ ''.`visibility` = 'PROTECTED'' @ [CHR 0x27]] else auths);
                      args = args @ [uid];
                      auths = auths @ [''('' @ memoAlias @ ''.`visibility` = 'SPACE' AND EXISTS (SELECT 1 FROM `space_member` AS ''
                        @ memberAlias @ '' WHERE '' @ memberAlias @ ''.`space_id` = '' @ memoAlias @ ''.`space_id` AND ''
                        @ memberAlias @ ''.`user_id` = ? AND '' @ memberAlias @ ''.`status` = 'ACTIVE' AND ''
                        @ memberAlias @ ''.`role` IN ('ADMIN', 'USER')))'']
                  in (clauses @ [''(EXISTS (SELECT 1 FROM `user` AS `access_user` WHERE `access_user`.`id` = ? AND `access_user`.`row_status` = 'NORMAL') AND (''
                        @ join '' OR '' auths @ ''))''], args)))
      in if clauses = [] then (''1 = 0'', args)
         else let validMemo = ''('' @ memoAlias @ ''.`visibility` IN ('PUBLIC', 'PROTECTED', 'PRIVATE', 'SPACE')''
                    @ '' AND EXISTS (SELECT 1 FROM `user` AS `valid_creator` WHERE `valid_creator`.`id` = '' @ memoAlias
                    @ ''.`creator_id` AND `valid_creator`.`row_status` IN ('NORMAL', 'ARCHIVED'))''
                    @ '' AND ('' @ memoAlias @ ''.`visibility` <> 'SPACE' OR ('' @ memoAlias @ ''.`space_id` IS NOT NULL''
                    @ '' AND EXISTS (SELECT 1 FROM `space` AS `valid_space` WHERE `valid_space`.`id` = '' @ memoAlias @ ''.`space_id`))))'';
                  (validState, args) =
                    (case acc_UserID access of
                       None \<Rightarrow> (memoAlias @ ''.`row_status` = 'NORMAL'' @ [CHR 0x27], args)
                     | Some uid \<Rightarrow>
                         (''('' @ memoAlias @ ''.`row_status` = 'NORMAL' OR ('' @ memoAlias @ ''.`row_status` = 'ARCHIVED' AND ''
                            @ memoAlias @ ''.`creator_id` = ?))'', args @ [uid]))
              in (''('' @ join '' OR '' clauses @ '') AND '' @ validMemo @ '' AND '' @ validState, args))"

definition mysqlMemoAccessPredicate ::
    "MemoAccessScope \<Rightarrow> string \<Rightarrow> string \<Rightarrow> int32 list \<Rightarrow> string \<times> int32 list" where
  "mysqlMemoAccessPredicate access memoAlias memberAlias args =
     sqliteMemoAccessPredicate access memoAlias memberAlias args"

definition postgres_placeholder :: "nat \<Rightarrow> string" where
  "postgres_placeholder n = ''$'' @ decimal n"

definition pg_user :: string where
  "pg_user = [CHR 0x22] @ ''user'' @ [CHR 0x22]"

definition postgresMemoAccessPredicate ::
    "MemoAccessScope \<Rightarrow> string \<Rightarrow> string \<Rightarrow> int32 list \<Rightarrow> string \<times> int32 list" where
  "postgresMemoAccessPredicate access memoAlias memberAlias args =
     (let clauses = (if acc_AllowPublic access then [memoAlias @ ''.visibility = 'PUBLIC'' @ [CHR 0x27]] else []);
          (clauses, args) =
            (case acc_UserID access of
               None \<Rightarrow> (clauses, args)
             | Some uid \<Rightarrow>
                 (let activeHolder = postgres_placeholder (length args + 1);
                      args = args @ [uid];
                      privateHolder = postgres_placeholder (length args + 1);
                      args = args @ [uid];
                      auths = [''('' @ memoAlias @ ''.visibility = 'PRIVATE' AND '' @ memoAlias @ ''.creator_id = '' @ privateHolder @ '')''];
                      auths = (if acc_AllowProtected access
                               then auths @ [memoAlias @ ''.visibility = 'PROTECTED'' @ [CHR 0x27]] else auths);
                      memberHolder = postgres_placeholder (length args + 1);
                      args = args @ [uid];
                      auths = auths @ [''('' @ memoAlias @ ''.visibility = 'SPACE' AND EXISTS (SELECT 1 FROM space_member AS ''
                        @ memberAlias @ '' WHERE '' @ memberAlias @ ''.space_id = '' @ memoAlias @ ''.space_id AND ''
                        @ memberAlias @ ''.user_id = '' @ memberHolder @ '' AND '' @ memberAlias @ ''.status = 'ACTIVE' AND ''
                        @ memberAlias @ ''.role IN ('ADMIN', 'USER')))'']
                  in (clauses @ [''(EXISTS (SELECT 1 FROM '' @ pg_user @ '' AS access_user WHERE access_user.id = ''
                        @ activeHolder @ '' AND access_user.row_status = 'NORMAL') AND (''
                        @ join '' OR '' auths @ ''))''], args)))
      in if clauses = [] then (''1 = 0'', args)
         else let validMemo = ''('' @ memoAlias @ ''.visibility IN ('PUBLIC', 'PROTECTED', 'PRIVATE', 'SPACE')''
                    @ '' AND EXISTS (SELECT 1 FROM '' @ pg_user @ '' AS valid_creator WHERE valid_creator.id = '' @ memoAlias
                    @ ''.creator_id AND valid_creator.row_status IN ('NORMAL', 'ARCHIVED'))''
                    @ '' AND ('' @ memoAlias @ ''.visibility <> 'SPACE' OR ('' @ memoAlias @ ''.space_id IS NOT NULL''
                    @ '' AND EXISTS (SELECT 1 FROM space AS valid_space WHERE valid_space.id = '' @ memoAlias @ ''.space_id))))'';
                  (validState, args) =
                    (case acc_UserID access of
                       None \<Rightarrow> (memoAlias @ ''.row_status = 'NORMAL'' @ [CHR 0x27], args)
                     | Some uid \<Rightarrow>
                         (''('' @ memoAlias @ ''.row_status = 'NORMAL' OR ('' @ memoAlias @ ''.row_status = 'ARCHIVED' AND ''
                            @ memoAlias @ ''.creator_id = '' @ postgres_placeholder (length args + 1) @ ''))'', args @ [uid]))
              in (''('' @ join '' OR '' clauses @ '') AND '' @ validMemo @ '' AND '' @ validState, args))"

section \<open>The condition the texts print\<close>

text \<open>\<open>q\<close> quotes aliases and column names; \<open>tu\<close>, \<open>ts\<close> and \<open>tm\<close> are the texts of the table names.\<close>

fun or_list :: "scond list \<Rightarrow> scond" where
  "or_list [] = CFalse"
| "or_list [c] = c"
| "or_list (c # cs) = COr c (or_list cs)"

definition access_clauses ::
    "(string \<Rightarrow> string) \<Rightarrow> string \<Rightarrow> string \<Rightarrow> MemoAccessScope \<Rightarrow> string \<Rightarrow> string \<Rightarrow> scond list" where
  "access_clauses q tu tm access ma mb =
     (if acc_AllowPublic access then [CEq (Col ma ''visibility'') (Lit Public)] else [])
     @ (case acc_UserID access of
          None \<Rightarrow> []
        | Some uid \<Rightarrow>
            [CParen (CAnd
               (CExists tu (q ''access_user'')
                 (CAnd (CEq (Col (q ''access_user'') ''id'') (Param uid))
                       (CEq (Col (q ''access_user'') ''row_status'') (Lit Normal))))
               (CParen (or_list
                 ([CParen (CAnd (CEq (Col ma ''visibility'') (Lit Private)) (CEq (Col ma ''creator_id'') (Param uid)))]
                  @ (if acc_AllowProtected access then [CEq (Col ma ''visibility'') (Lit Protected)] else [])
                  @ [CParen (CAnd (CEq (Col ma ''visibility'') (Lit SpaceAudience))
                       (CExists tm mb
                         (CAnd (CEq (Col mb ''space_id'') (Col ma ''space_id''))
                         (CAnd (CEq (Col mb ''user_id'') (Param uid))
                         (CAnd (CEq (Col mb ''status'') (Lit SpaceMemberStatusActive))
                               (CIn (Col mb ''role'') [SpaceMemberRoleAdmin, SpaceMemberRoleUser]))))))]))))])"

definition memo_access_cond ::
    "(string \<Rightarrow> string) \<Rightarrow> string \<Rightarrow> string \<Rightarrow> string \<Rightarrow> MemoAccessScope \<Rightarrow> string \<Rightarrow> string \<Rightarrow> scond" where
  "memo_access_cond q tu ts tm access ma mb =
     (let clauses = access_clauses q tu tm access ma mb in
      if clauses = [] then CFalse
      else CAnd (CParen (or_list clauses))
        (CAnd (CParen (CAnd (CIn (Col ma ''visibility'') [Public, Protected, Private, SpaceAudience])
                (CAnd (CExists tu (q ''valid_creator'')
                         (CAnd (CEq (Col (q ''valid_creator'') ''id'') (Col ma ''creator_id''))
                               (CIn (Col (q ''valid_creator'') ''row_status'') [Normal, Archived])))
                      (CParen (COr (CNeq (Col ma ''visibility'') (Lit SpaceAudience))
                        (CParen (CAnd (CNotNull (Col ma ''space_id''))
                          (CExists ts (q ''valid_space'')
                            (CEq (Col (q ''valid_space'') ''id'') (Col ma ''space_id''))))))))))
          (case acc_UserID access of
             None \<Rightarrow> CEq (Col ma ''row_status'') (Lit Normal)
           | Some uid \<Rightarrow>
               CParen (COr (CEq (Col ma ''row_status'') (Lit Normal))
                 (CParen (CAnd (CEq (Col ma ''row_status'') (Lit Archived))
                               (CEq (Col ma ''creator_id'') (Param uid))))))))"

definition backquote :: "string \<Rightarrow> string" where
  "backquote s = ''`'' @ s @ ''`''"

text \<open>Each text is the printing of the condition, and the arguments appended are its parameters
  in the order of the text.\<close>

lemma sqliteMemoAccessPredicate_text:
  "sqliteMemoAccessPredicate access ma mb args =
     (let c = memo_access_cond backquote ''`user`'' ''`space`'' ''`space_member`'' access ma mb
      in (text_c backquote (\<lambda>_. ''?'') (length args) c, args @ params c))"
  by (cases "acc_AllowPublic access"; cases "acc_UserID access"; cases "acc_AllowProtected access")
    (simp_all add: sqliteMemoAccessPredicate_def memo_access_cond_def access_clauses_def backquote_def)

lemma postgresMemoAccessPredicate_text:
  "postgresMemoAccessPredicate access ma mb args =
     (let c = memo_access_cond id pg_user ''space'' ''space_member'' access ma mb
      in (text_c id postgres_placeholder (length args) c, args @ params c))"
  by (cases "acc_AllowPublic access"; cases "acc_UserID access"; cases "acc_AllowProtected access")
    (simp_all add: postgresMemoAccessPredicate_def memo_access_cond_def access_clauses_def)

section \<open>What the condition selects\<close>

definition user_sql :: "User \<Rightarrow> sqlrow" where
  "user_sql u = [''id'' \<mapsto> SInt (u_ID u), ''row_status'' \<mapsto> SText (u_RowStatus u)]"

definition space_sql :: "space_row \<Rightarrow> sqlrow" where
  "space_sql s = [''id'' \<mapsto> SInt (sp_id s)]"

definition member_sql :: "space_member_row \<Rightarrow> sqlrow" where
  "member_sql sm = [''space_id'' \<mapsto> SInt (sm_space_id sm), ''user_id'' \<mapsto> SInt (sm_user_id sm),
     ''status'' \<mapsto> SText (sm_status sm), ''role'' \<mapsto> SText (sm_role sm)]"

definition memo_sql :: "'p Memo \<Rightarrow> sqlrow" where
  "memo_sql m = [''id'' \<mapsto> SInt (m_ID m), ''creator_id'' \<mapsto> SInt (m_CreatorID m),
     ''row_status'' \<mapsto> SText (m_RowStatus m), ''visibility'' \<mapsto> SText (m_Visibility m),
     ''space_id'' \<mapsto> (case m_SpaceID m of None \<Rightarrow> SNull | Some s \<Rightarrow> SInt s)]"

definition db_tables :: "string \<Rightarrow> string \<Rightarrow> string \<Rightarrow> db \<Rightarrow> string \<Rightarrow> sqlrow list" where
  "db_tables tu ts tm d t =
     (if t = tu then map user_sql (db_user d)
      else if t = ts then map space_sql (db_space d)
      else if t = tm then map member_sql (db_space_member d) else [])"

lemma eq3_True [simp]: "eq3 x y = Some True \<longleftrightarrow> x \<noteq> SNull \<and> x = y"
  "eq3 x y = Some False \<longleftrightarrow> x \<noteq> SNull \<and> y \<noteq> SNull \<and> x \<noteq> y"
  by (auto simp: eq3_def)

lemma and3_True [simp]: "and3 x y = Some True \<longleftrightarrow> x = Some True \<and> y = Some True"
  by (auto simp: and3_def)

lemma or3_True [simp]: "or3 x y = Some True \<longleftrightarrow> x = Some True \<or> y = Some True"
  by (auto simp: or3_def)

lemma map_Not_True [simp]: "map_option Not x = Some True \<longleftrightarrow> x = Some False"
  by (cases x) auto

text \<open>The rows a caller may list: the meaning of the condition on the tables.\<close>

definition memo_listed :: "db \<Rightarrow> MemoAccessScope \<Rightarrow> 'p Memo \<Rightarrow> bool" where
  "memo_listed d access m =
     ((acc_AllowPublic access \<and> m_Visibility m = Public
       \<or> (\<exists>uid. acc_UserID access = Some uid \<and> user_normal d uid
            \<and> (m_Visibility m = Private \<and> m_CreatorID m = uid
               \<or> acc_AllowProtected access \<and> m_Visibility m = Protected
               \<or> m_Visibility m = SpaceAudience
                 \<and> (\<exists>sm \<in> set (db_space_member d). m_SpaceID m = Some (sm_space_id sm) \<and> sm_user_id sm = uid
                      \<and> sm_status sm = SpaceMemberStatusActive \<and> IsActiveMember (sm_role sm)))))
      \<and> m_Visibility m \<in> {Public, Protected, Private, SpaceAudience}
      \<and> (\<exists>u \<in> set (db_user d). u_ID u = m_CreatorID m \<and> (u_RowStatus u = Normal \<or> u_RowStatus u = Archived))
      \<and> (m_Visibility m = SpaceAudience \<longrightarrow> (\<exists>sid. m_SpaceID m = Some sid \<and> space_exists d sid))
      \<and> (m_RowStatus m = Normal \<or> m_RowStatus m = Archived \<and> acc_UserID access = Some (m_CreatorID m)))"

text \<open>Aliases that keep the references of the condition apart.\<close>

definition aliases_ok :: "(string \<Rightarrow> string) \<Rightarrow> string \<Rightarrow> string \<Rightarrow> bool" where
  "aliases_ok q ma mb =
     (ma \<noteq> mb \<and> ma \<noteq> q ''access_user'' \<and> ma \<noteq> q ''valid_creator'' \<and> ma \<noteq> q ''valid_space'')"

lemma space_id_cases:
  "(case v of None \<Rightarrow> SNull | Some s \<Rightarrow> SInt s) \<noteq> SNull \<longleftrightarrow> (\<exists>s. v = Some s)"
  "SInt x = (case v of None \<Rightarrow> SNull | Some s \<Rightarrow> SInt s) \<longleftrightarrow> v = Some x"
  by (auto split: option.splits)

lemma or_list_True:
  "cs \<noteq> [] \<Longrightarrow> eval_c tables env (or_list cs) = Some True \<longleftrightarrow> (\<exists>c \<in> set cs. eval_c tables env c = Some True)"
  by (induction cs rule: or_list.induct) auto

lemma memo_column_eval:
  "eval_e (env(ma \<mapsto> memo_sql m)) (Col ma ''visibility'') = SText (m_Visibility m)"
  "eval_e (env(ma \<mapsto> memo_sql m)) (Col ma ''creator_id'') = SInt (m_CreatorID m)"
  "eval_e (env(ma \<mapsto> memo_sql m)) (Col ma ''row_status'') = SText (m_RowStatus m)"
  "eval_e (env(ma \<mapsto> memo_sql m)) (Col ma ''space_id'') = (case m_SpaceID m of None \<Rightarrow> SNull | Some s \<Rightarrow> SInt s)"
  by (simp_all add: memo_sql_def)

lemma active_user_eval:
  "eval_c (db_tables tu ts tm d) env
     (CExists tu a (CAnd (CEq (Col a ''id'') (Param uid)) (CEq (Col a ''row_status'') (Lit Normal)))) = Some True
   \<longleftrightarrow> user_normal d uid"
  by (auto simp: db_tables_def user_sql_def user_normal_def)

lemma active_member_eval:
  assumes "ma \<noteq> mb" "tu \<noteq> tm" "ts \<noteq> tm"
  shows "eval_c (db_tables tu ts tm d) [ma \<mapsto> memo_sql m]
     (CExists tm mb
        (CAnd (CEq (Col mb ''space_id'') (Col ma ''space_id''))
        (CAnd (CEq (Col mb ''user_id'') (Param uid))
        (CAnd (CEq (Col mb ''status'') (Lit SpaceMemberStatusActive))
              (CIn (Col mb ''role'') [SpaceMemberRoleAdmin, SpaceMemberRoleUser]))))) = Some True
   \<longleftrightarrow> (\<exists>sm \<in> set (db_space_member d). m_SpaceID m = Some (sm_space_id sm) \<and> sm_user_id sm = uid
          \<and> sm_status sm = SpaceMemberStatusActive \<and> IsActiveMember (sm_role sm))"
proof -
  have tab: "db_tables tu ts tm d tm = map member_sql (db_space_member d)"
    using assms by (simp add: db_tables_def)
  have row: "eval_c (db_tables tu ts tm d) ([ma \<mapsto> memo_sql m](mb \<mapsto> member_sql sm))
        (CAnd (CEq (Col mb ''space_id'') (Col ma ''space_id''))
        (CAnd (CEq (Col mb ''user_id'') (Param uid))
        (CAnd (CEq (Col mb ''status'') (Lit SpaceMemberStatusActive))
              (CIn (Col mb ''role'') [SpaceMemberRoleAdmin, SpaceMemberRoleUser])))) = Some True
     \<longleftrightarrow> m_SpaceID m = Some (sm_space_id sm) \<and> sm_user_id sm = uid
          \<and> sm_status sm = SpaceMemberStatusActive \<and> IsActiveMember (sm_role sm)" for sm
    using assms(1) by (simp add: memo_sql_def member_sql_def space_id_cases IsActiveMember_def)
  show ?thesis by (simp only: eval_c.simps(8) option.inject tab set_map bex_simps row) simp
qed

lemma or_clauses_eval:
  "eval_c tables env (CParen (or_list (x # (if b then [y] else []) @ [z]))) = Some True \<longleftrightarrow>
     eval_c tables env x = Some True \<or> b \<and> eval_c tables env y = Some True \<or> eval_c tables env z = Some True"
  by simp

lemma access_clauses_eval:
  assumes "aliases_ok q ma mb" "tu \<noteq> ts" "tu \<noteq> tm" "ts \<noteq> tm"
  shows "(\<exists>c \<in> set (access_clauses q tu tm access ma mb).
      eval_c (db_tables tu ts tm d) [ma \<mapsto> memo_sql m] c = Some True) \<longleftrightarrow>
    (acc_AllowPublic access \<and> m_Visibility m = Public
       \<or> (\<exists>uid. acc_UserID access = Some uid \<and> user_normal d uid
            \<and> (m_Visibility m = Private \<and> m_CreatorID m = uid
               \<or> acc_AllowProtected access \<and> m_Visibility m = Protected
               \<or> m_Visibility m = SpaceAudience
                 \<and> (\<exists>sm \<in> set (db_space_member d). m_SpaceID m = Some (sm_space_id sm) \<and> sm_user_id sm = uid
                      \<and> sm_status sm = SpaceMemberStatusActive \<and> IsActiveMember (sm_role sm)))))"
proof -
  have "ma \<noteq> mb" using assms(1) by (simp add: aliases_ok_def)
  note member = active_member_eval [OF this assms(3,4)]
  have vis: "eval_c (db_tables tu ts tm d) [ma \<mapsto> memo_sql m] (CEq (Col ma ''visibility'') (Lit v)) = Some True
      \<longleftrightarrow> m_Visibility m = v" for v
    by (simp add: memo_sql_def)
  have creator: "eval_c (db_tables tu ts tm d) [ma \<mapsto> memo_sql m] (CEq (Col ma ''creator_id'') (Param uid)) = Some True
      \<longleftrightarrow> m_CreatorID m = uid" for uid
    by (simp add: memo_sql_def)
  show ?thesis
  proof (cases "acc_UserID access")
    case None
    then show ?thesis by (simp add: access_clauses_def memo_sql_def)
  next
    case (Some uid)
    then show ?thesis
      by (simp only: access_clauses_def Some option.case set_append bex_Un list.set bex_simps append_Cons append_Nil
          eval_c.simps(5) eval_c.simps(7) [of _ _ "CAnd _ _"] and3_True or_clauses_eval active_user_eval member vis creator)
        (simp add: memo_sql_def)
  qed
qed

lemma access_clauses_Nil: "access_clauses q tu tm access ma mb = [] \<Longrightarrow> \<not> acc_AllowPublic access \<and> acc_UserID access = None"
  by (auto simp: access_clauses_def split: if_splits option.splits)

lemma valid_memo_regroup:
  "(t \<longrightarrow> s) \<Longrightarrow>
    (p \<and> (q \<and> (r = True) \<and> (\<not> v \<or> s \<and> (t = True))) \<and> u) = (p \<and> q \<and> r \<and> (v \<longrightarrow> t) \<and> u)"
  by auto

lemma memo_access_cond_eval:
  assumes "aliases_ok q ma mb" "tu \<noteq> ts" "tu \<noteq> tm" "ts \<noteq> tm"
  shows "eval_c (db_tables tu ts tm d) [ma \<mapsto> memo_sql m] (memo_access_cond q tu ts tm access ma mb) = Some True
    \<longleftrightarrow> memo_listed d access m"
proof (cases "access_clauses q tu tm access ma mb = []")
  case True
  then show ?thesis
    using access_clauses_Nil [OF True] by (simp add: memo_access_cond_def memo_listed_def)
next
  case False
  have state: "eval_c (db_tables tu ts tm d) [ma \<mapsto> memo_sql m]
      (case acc_UserID access of
         None \<Rightarrow> CEq (Col ma ''row_status'') (Lit Normal)
       | Some uid \<Rightarrow> CParen (COr (CEq (Col ma ''row_status'') (Lit Normal))
           (CParen (CAnd (CEq (Col ma ''row_status'') (Lit Archived)) (CEq (Col ma ''creator_id'') (Param uid))))))
      = Some True \<longleftrightarrow> m_RowStatus m = Normal \<or> m_RowStatus m = Archived \<and> acc_UserID access = Some (m_CreatorID m)"
    by (cases "acc_UserID access") (auto simp: memo_sql_def)
  have ne: "ma \<noteq> q ''valid_creator''" "ma \<noteq> q ''valid_space''" using assms(1) by (simp_all add: aliases_ok_def)
  have creator: "(\<exists>row \<in> set (db_tables tu ts tm d tu).
      eval_c (db_tables tu ts tm d) ([ma \<mapsto> memo_sql m](q ''valid_creator'' \<mapsto> row))
        (CAnd (CEq (Col (q ''valid_creator'') ''id'') (Col ma ''creator_id''))
              (CIn (Col (q ''valid_creator'') ''row_status'') [Normal, Archived])) = Some True)
      \<longleftrightarrow> (\<exists>u \<in> set (db_user d). u_ID u = m_CreatorID m \<and> (u_RowStatus u = Normal \<or> u_RowStatus u = Archived))"
    using ne by (auto simp: db_tables_def user_sql_def memo_sql_def)
  have space: "(\<exists>row \<in> set (db_tables tu ts tm d ts).
      eval_c (db_tables tu ts tm d) ([ma \<mapsto> memo_sql m](q ''valid_space'' \<mapsto> row))
        (CEq (Col (q ''valid_space'') ''id'') (Col ma ''space_id'')) = Some True)
      \<longleftrightarrow> (\<exists>sid. m_SpaceID m = Some sid \<and> space_exists d sid)"
    using ne assms(2) by (auto simp: db_tables_def space_sql_def memo_sql_def space_exists_def space_id_cases)
  let ?eval = "eval_c (db_tables tu ts tm d) [ma \<mapsto> memo_sql m]"
  have vis: "?eval (CIn (Col ma ''visibility'') [Public, Protected, Private, SpaceAudience]) = Some True
      \<longleftrightarrow> m_Visibility m \<in> {Public, Protected, Private, SpaceAudience}"
    and notspace: "?eval (CNeq (Col ma ''visibility'') (Lit SpaceAudience)) = Some True
      \<longleftrightarrow> m_Visibility m \<noteq> SpaceAudience"
    and sid: "?eval (CNotNull (Col ma ''space_id'')) = Some True \<longleftrightarrow> (\<exists>s. m_SpaceID m = Some s)"
    by (simp_all add: memo_sql_def space_id_cases eq3_def del: not_None_eq)
  show ?thesis
    unfolding memo_access_cond_def Let_def memo_listed_def if_not_P [OF False]
    unfolding eval_c.simps(5,6,7) and3_True or3_True vis notspace sid state or_list_True [OF False]
      access_clauses_eval [OF assms]
    unfolding eval_c.simps(8) option.inject creator space
    by (rule valid_memo_regroup) blast
qed

end
