(* ===== verification/Space_Properties.thy ===== *)
theory Space_Properties
  imports Space_Invariant
begin

text \<open>
  Properties of the space operations: the invariant of reachable databases, who can become an
  active member, and what an invitation does. The concrete databases at the end apply them.
\<close>

section \<open>Active memberships\<close>

definition active_keys :: "db \<Rightarrow> (int32 \<times> int32) set" where
  "active_keys d =
     {(sm_space_id sm, sm_user_id sm) | sm. sm \<in> set (db_space_member d) \<and> sm_status sm = SpaceMemberStatusActive}"

lemma active_keys_iff:
  "(sid, uid) \<in> active_keys d \<longleftrightarrow> (\<exists>sm \<in> set (db_space_member d). member_is sid uid SpaceMemberStatusActive sm)"
  by (auto simp: active_keys_def member_is_def)

lemma active_keys_subset:
  "(\<And>sm. sm \<in> set (db_space_member d') \<Longrightarrow> sm_status sm = SpaceMemberStatusActive \<Longrightarrow>
      (sm_space_id sm, sm_user_id sm) \<in> active_keys d) \<Longrightarrow> active_keys d' \<subseteq> active_keys d"
  by (auto simp: active_keys_def)

lemma active_keysI [intro]:
  "sm \<in> set (db_space_member d) \<Longrightarrow> sm_status sm = SpaceMemberStatusActive \<Longrightarrow>
     (sm_space_id sm, sm_user_id sm) \<in> active_keys d"
  by (auto simp: active_keys_def)

lemma delete_member_active: "active_keys (snd (delete_member sid uid st d)) \<subseteq> active_keys d"
  by (rule active_keys_subset) (auto simp: delete_member_def)

lemma delete_invitation_active: "delete_invitation k d = Inr d' \<Longrightarrow> active_keys d' \<subseteq> active_keys d"
  using delete_member_active by (auto simp: delete_invitation_def split: prod.splits if_splits) (metis snd_conv subsetD)

lemma update_member_active:
  assumes "DB_UpdateSpaceMember c actor d = Inr (m, d')"
  shows "active_keys d' \<subseteq> active_keys d"
proof -
  obtain p f where d': "d' = d\<lparr>db_space_member := update_rows p f (db_space_member d)\<rparr>"
    and f: "\<And>r. sm_space_id (f r) = sm_space_id r \<and> sm_user_id (f r) = sm_user_id r \<and> sm_status (f r) = sm_status r"
  proof -
    from assms obtain role where "d' = d\<lparr>db_space_member :=
        update_rows (member_is (um_SpaceID c) (um_UserID c) SpaceMemberStatusActive) (\<lambda>r. r\<lparr>sm_role := role\<rparr>) (db_space_member d)\<rparr>"
      by (auto simp: DB_UpdateSpaceMember_def Let_def result_simps split: if_splits option.splits)
    then show ?thesis by (rule that) simp
  qed
  show ?thesis by (rule active_keys_subset) (auto simp: d' f split: if_splits)
qed

lemma accept_active:
  assumes "DB_AcceptSpaceInvitation k actor d = Inr (m, d')" "(sid, uid) \<in> active_keys d'" "(sid, uid) \<notin> active_keys d"
  shows "uid = actor \<and> (\<exists>sm \<in> set (db_space_member d). member_is sid uid SpaceMemberStatusInvited sm)"
proof -
  define pending where "pending = (\<lambda>sm. member_is (key_SpaceID k) (key_UserID k) SpaceMemberStatusInvited sm
      \<and> IsActiveMember (sm_role sm))"
  have d': "d' = d\<lparr>db_space_member := update_rows pending (\<lambda>r. r\<lparr>sm_status := SpaceMemberStatusActive\<rparr>) (db_space_member d)\<rparr>"
    and k: "key_UserID k = actor"
    using assms(1) unfolding pending_def
    by (auto simp: DB_AcceptSpaceInvitation_def Let_def result_simps split: if_splits option.splits)
  from assms(2) obtain sm where "sm \<in> set (db_space_member d)" "sm_space_id sm = sid" "sm_user_id sm = uid"
    "pending sm \<or> sm_status sm = SpaceMemberStatusActive"
    by (auto simp: active_keys_def d')
  with assms(3) k show ?thesis by (auto simp: active_keys_iff member_is_def pending_def)
qed

lemma create_space_active:
  assumes "DB_CreateSpace c actor d = Inr (sp, d')" "(sid, uid) \<in> active_keys d'" "(sid, uid) \<notin> active_keys d"
  shows "uid = actor"
  using assms
  by (auto simp: DB_CreateSpace_def insert_space_def insert_space_member_def Let_def result_simps active_keys_iff
      member_is_def split: if_splits sum.splits)

lemma step_active:
  assumes "store_step d d'" "db_keys d" "(sid, uid) \<in> active_keys d'" "(sid, uid) \<notin> active_keys d"
  shows "(\<exists>c s. Store_CreateSpace c uid d = Inr (s, d'))
    \<or> (\<exists>k m. Store_AcceptSpaceInvitation k uid d = Inr (m, d')
         \<and> (\<exists>sm \<in> set (db_space_member d). member_is sid uid SpaceMemberStatusInvited sm))"
  using assms
proof (induction rule: store_step.induct)
  case (create_space c actor d s d')
  then have "DB_CreateSpace (the c) actor d = Inr (s, d')"
    by (auto simp: Store_CreateSpace_def split: option.splits if_splits)
  then have "uid = actor" using create_space create_space_active by blast
  with create_space show ?case by blast
next
  case (accept_invitation k actor d m d')
  then have "DB_AcceptSpaceInvitation (the k) actor d = Inr (m, d')"
    by (auto simp: Store_AcceptSpaceInvitation_def split: option.splits if_splits)
  then have "uid = actor \<and> (\<exists>sm \<in> set (db_space_member d). member_is sid uid SpaceMemberStatusInvited sm)"
    using accept_invitation accept_active by blast
  with accept_invitation show ?case by blast
next
  case (tick d t)
  then show ?case by (simp add: active_keys_def)
next
  case (create_user c d u d')
  then show ?case by (auto simp: DB_CreateUser_def insertUser_def Let_def active_keys_def split: if_splits)
next
  case (update_user c d u d')
  then show ?case
    by (auto simp: DB_UpdateUser_def Let_def active_keys_def result_simps split: if_splits option.splits)
next
  case (delete_user ok fp u d r d')
  then have "active_keys d' \<subseteq> active_keys d"
  proof (cases "\<exists>w \<in> set (db_user d). u_ID w = u")
    case True
    then have "d' = delete_user_spec u d" using DB_DeleteUser_spec delete_user by blast
    then show ?thesis by (auto simp: active_keys_def delete_user_spec_def Let_def)
  qed (auto simp: DB_DeleteUser_def)
  with delete_user show ?case by blast
next
  case (update_space c actor d s d')
  then show ?case
    by (auto simp: Store_UpdateSpace_def DB_UpdateSpace_def Let_def active_keys_def result_simps
        split: if_splits option.splits)
next
  case (delete_space ok k d as d')
  then obtain sp actor where "DB_DeleteSpace ok sp actor d = Inr (as, d')"
    by (auto simp: Store_DeleteSpace_def split: option.splits if_splits)
  then have "d' = delete_space_spec sp d" using DB_DeleteSpace_spec delete_space by blast
  with delete_space show ?case by (auto simp: active_keys_def delete_space_spec_def Let_def)
next
  case (create_invitation c actor d i d')
  then show ?case
    by (auto simp: Store_CreateSpaceInvitation_def DB_CreateSpaceInvitation_def insert_space_member_def
        active_keys_iff member_is_def result_simps split: option.splits if_splits sum.splits)
next
  case (decline_invitation k actor d d')
  then have "delete_invitation (the k) d = Inr d'"
    by (auto simp: Store_DeclineSpaceInvitation_def DB_DeclineSpaceInvitation_def result_simps
        split: option.splits if_splits)
  then show ?case using decline_invitation delete_invitation_active by blast
next
  case (revoke_invitation k actor d d')
  then have "delete_invitation (the k) d = Inr d'"
    by (auto simp: Store_RevokeSpaceInvitation_def DB_RevokeSpaceInvitation_def result_simps
        split: option.splits if_splits)
  then show ?case using revoke_invitation delete_invitation_active by blast
next
  case (update_member c actor d m d')
  then have "DB_UpdateSpaceMember (the c) actor d = Inr (m, d')"
    by (auto simp: Store_UpdateSpaceMember_def split: option.splits if_splits)
  then show ?case using update_member update_member_active by blast
next
  case (delete_member k actor d d')
  then have "active_keys d' \<subseteq> active_keys d"
    using delete_member_active
    by (auto simp: Store_DeleteSpaceMember_def DB_DeleteSpaceMember_def result_simps split: option.splits if_splits) blast+
  with delete_member show ?case by blast
qed

section \<open>Concrete databases\<close>

definition sample_user :: "string \<Rightarrow> User" where
  "sample_user name =
     \<lparr>u_ID = 0, u_RowStatus = Normal, u_CreatedTs = 0, u_UpdatedTs = 0, u_Username = name, u_Role = ''USER'',
      u_Email = [], u_Nickname = [], u_PasswordHash = [], u_AvatarURL = [], u_Description = []\<rparr>"

definition sample_space :: Space where
  "sample_space =
     \<lparr>Space_ID = 0, Space_UID = ''team'', Space_Title = ''Team'', Space_Description = [],
      Space_CurrentUserRole = [], Space_MemberCount = 0\<rparr>"

definition sample_db1 :: db where
  "sample_db1 = empty_db\<lparr>db_user := [(sample_user ''ann'')\<lparr>u_ID := 1\<rparr>], db_user_seq := 1\<rparr>"

definition sample_db2 :: db where
  "sample_db2 = sample_db1\<lparr>db_space := [\<lparr>sp_id = 1, sp_uid = ''team'', sp_title = ''Team'', sp_description = []\<rparr>],
     db_space_seq := 1,
     db_space_member := [\<lparr>sm_space_id = 1, sm_user_id = 1, sm_status = SpaceMemberStatusActive,
                           sm_role = SpaceMemberRoleAdmin\<rparr>]\<rparr>"

lemmas sample_defs = sample_user_def sample_space_def sample_db1_def sample_db2_def empty_db_def

lemma sample_create_user: "\<exists>u. DB_CreateUser (sample_user ''ann'') empty_db = Inr (u, sample_db1)"
  by (simp add: DB_CreateUser_def insertUser_def Let_def sample_defs)

lemma sample_create_space: "\<exists>s. Store_CreateSpace (Some sample_space) 1 sample_db1 = Inr (s, sample_db2)"
proof -
  have "UIDMatcher ''team''"
    by (simp add: UIDMatcher_def isASCIIAlphanumeric_def isASCIILetter_def IsUsernameCharacter_def)
  moreover have "CHR ''T'' \<in> set (trim_space ''Team'')"
    by (rule trim_space_keeps) (simp_all add: white_space_def)
  then have "trim_space ''Team'' \<noteq> []" by auto
  ultimately show ?thesis
    by (simp add: Store_CreateSpace_def DB_CreateSpace_def requireSQLiteActiveUser_def user_status_def
        insert_space_def insert_space_member_def IsActiveMember_def Let_def sample_defs)
qed

lemma sample_reachable: "store_reachable sample_db2"
  using sample_create_user sample_create_space
  by (meson converse_rtranclp_into_rtranclp create_space create_user r_into_rtranclp)

section \<open>Properties\<close>

text \<open>C11: In every database reachable by the operations on users, spaces, memberships and
  invitations, every space has an administrator: an active member with the role ADMIN whose
  account is normal. No sequence of demotions, removals, departures, archivings and deletions
  leaves a space without one.\<close>

theorem reachable_space_has_admin:
  assumes "store_reachable d" "s \<in> set (db_space d)"
  shows "\<exists>uid. active_admin_of d (sp_id s) uid"
  using store_reachable_keeps [OF assms(1)] assms(2) by (auto simp: administered_def active_admin_of_row)

theorem reachable_space_has_admin_witness:
  "store_reachable sample_db2 \<and> (\<exists>uid. active_admin_of sample_db2 1 uid)"
proof -
  have "\<lparr>sp_id = 1, sp_uid = ''team'', sp_title = ''Team'', sp_description = []\<rparr> \<in> set (db_space sample_db2)"
    by (simp add: sample_db2_def)
  from reachable_space_has_admin [OF sample_reachable this] sample_reachable show ?thesis by simp
qed

text \<open>C12: Membership needs consent. When an operation makes a user an active member of a space, the
  user himself performed it: he created the space, or he accepted an invitation to it that was
  pending before. No operation of another user, an administrator included, does.\<close>

theorem active_membership_by_consent:
  assumes "store_step d d'" "db_keys d" "(sid, uid) \<in> active_keys d'" "(sid, uid) \<notin> active_keys d"
  shows "(\<exists>c s. Store_CreateSpace c uid d = Inr (s, d'))
    \<or> (\<exists>k m. Store_AcceptSpaceInvitation k uid d = Inr (m, d')
         \<and> (\<exists>sm \<in> set (db_space_member d). member_is sid uid SpaceMemberStatusInvited sm))"
  using assms by (rule step_active)

theorem active_membership_by_consent_witness:
  "(1, 1) \<in> active_keys sample_db2 \<and> (\<exists>c s. Store_CreateSpace c 1 sample_db1 = Inr (s, sample_db2))"
proof -
  have step: "store_step sample_db1 sample_db2" using sample_create_space create_space by blast
  have keys: "db_keys sample_db1" by (simp add: db_keys_def sample_defs)
  have "(1, 1) \<in> active_keys sample_db2" "(1, 1) \<notin> active_keys sample_db1"
    "\<not> (\<exists>sm \<in> set (db_space_member sample_db1). member_is 1 1 SpaceMemberStatusInvited sm)"
    by (simp_all add: active_keys_iff member_is_def sample_defs)
  then show ?thesis using active_membership_by_consent [OF step keys] by blast
qed

text \<open>Accepting an invitation succeeds exactly when the actor is the invitee, his account is
  normal and an invitation for him to this space is pending; it then makes him an active member
  with the invited role.\<close>

theorem Store_AcceptSpaceInvitation_iff:
  assumes "db_keys d" "sid > 0" "uid > 0" "actor > 0"
  shows "(\<exists>m d'. Store_AcceptSpaceInvitation (Some \<lparr>key_SpaceID = sid, key_UserID = uid\<rparr>) actor d = Inr (m, d'))
    \<longleftrightarrow> actor = uid \<and> user_normal d uid
        \<and> (\<exists>sm \<in> set (db_space_member d). member_is sid uid SpaceMemberStatusInvited sm)"
proof -
  have "IsActiveMember (sm_role sm)" if "sm \<in> set (db_space_member d)" for sm
    using assms(1) that by (simp add: db_keys_def)
  then have "filter (\<lambda>sm. member_is sid uid SpaceMemberStatusInvited sm \<and> IsActiveMember (sm_role sm)) (db_space_member d)
      = filter (member_is sid uid SpaceMemberStatusInvited) (db_space_member d)"
    by (intro filter_cong) auto
  then show ?thesis
    using assms
    by (auto simp: Store_AcceptSpaceInvitation_def DB_AcceptSpaceInvitation_def requireSQLiteActiveUser_def
        user_normal_status db_keys_def Let_def result_simps filter_empty_conv split: option.splits dest!: first_row_in)
qed

definition sample_db3 :: db where
  "sample_db3 = sample_db2\<lparr>db_user := db_user sample_db2 @ [(sample_user ''bob'')\<lparr>u_ID := 2\<rparr>], db_user_seq := 2,
     db_space_member := db_space_member sample_db2
       @ [\<lparr>sm_space_id = 1, sm_user_id = 2, sm_status = SpaceMemberStatusInvited, sm_role = SpaceMemberRoleUser\<rparr>]\<rparr>"

theorem Store_AcceptSpaceInvitation_iff_witness:
  "\<exists>m d'. Store_AcceptSpaceInvitation (Some \<lparr>key_SpaceID = 1, key_UserID = 2\<rparr>) 2 sample_db3 = Inr (m, d')"
proof -
  have "db_keys sample_db3" by (simp add: db_keys_def IsActiveMember_def sample_db3_def sample_defs)
  then show ?thesis
    using Store_AcceptSpaceInvitation_iff [of sample_db3 1 2 2]
    by (simp add: user_normal_def member_is_def sample_db3_def sample_defs)
qed

text \<open>A database where the second user owns a memo with an attachment of the first user, placed in
  the space.\<close>

definition sample_db4 :: db where
  "sample_db4 = sample_db3\<lparr>
     db_memo := [\<lparr>m_ID = 7, m_UID = ''m7'', m_RowStatus = Normal, m_CreatorID = 2, m_CreatedTs = 0, m_UpdatedTs = 0,
                  m_Content = [], m_Visibility = Private, m_Pinned = False, m_Payload = ''{}'', m_SpaceID = Some 1\<rparr>],
     db_attachment := [\<lparr>at_ID = 3, at_UID = ''a3'', at_CreatorID = 1, at_MemoID = Some 7, at_StorageType = [],
                        at_Reference = [], at_Payload = []\<rparr>]\<rparr>"

lemma sample_db4_keys: "db_keys sample_db4"
  by (simp add: db_keys_def IsActiveMember_def sample_db4_def sample_db3_def sample_defs)

lemmas deletion_eval = collectDeleteUserTargets_def listDeleteUserMemos_def listDeleteUserAttachments_def
  listSQLiteMemoSetAttachments_def deleteUserBatches_def deleteUserBatchSize_def batches.simps
  attachments_of_memos_def Let_def sample_db4_def sample_db3_def sample_defs

lemma sample_delete_user: "\<exists>r d'. DB_DeleteUser (\<lambda>_. True) False 2 sample_db4 = Inr (r, d')"
  by (simp add: DB_DeleteUser_def deletion_eval)

lemma sample_delete_space: "\<exists>as d'. DB_DeleteSpace (\<lambda>_. True) 1 1 sample_db4 = Inr (as, d')"
  by (simp add: DB_DeleteSpace_def deleteSQLiteMemoSetTx_def requireSQLiteSpaceDeleteAdmin_def user_status_def
      space_exists_def member_is_def listSQLiteSpaceDeleteMemoIDs_def statement_simps deletion_eval)

text \<open>C9: Deleting an existing user, when it succeeds, performs exactly the cascade: the user, his
  memos, every relation, attachment, reaction and share of those memos, his own attachments,
  reactions, shares, messages, identities, settings and invitations disappear, every other row
  stays, and the returned attachments are the deleted ones, each once.\<close>

theorem DB_DeleteUser_refines:
  assumes "db_keys d" "\<exists>u \<in> set (db_user d). u_ID u = uid"
    and "DB_DeleteUser ok failpoint uid d = Inr (res, d')"
  shows "d' = delete_user_spec uid d
    \<and> set (dur_Attachments res) = set (db_attachment d) - set (db_attachment d')
    \<and> distinct (dur_Attachments res)"
  using assms by (rule DB_DeleteUser_spec)

theorem DB_DeleteUser_refines_witness:
  "\<exists>r d'. DB_DeleteUser (\<lambda>_. True) False 2 sample_db4 = Inr (r, d') \<and> d' = delete_user_spec 2 sample_db4
     \<and> db_memo d' = [] \<and> db_attachment d' = [] \<and> map at_ID (dur_Attachments r) = [3]"
proof -
  from sample_delete_user obtain r d' where del: "DB_DeleteUser (\<lambda>_. True) False 2 sample_db4 = Inr (r, d')" by blast
  have "\<exists>u \<in> set (db_user sample_db4). u_ID u = 2" by (simp add: sample_db4_def sample_db3_def)
  note spec = DB_DeleteUser_refines [OF sample_db4_keys this del]
  have "memo_ids (\<lambda>m. m_CreatorID m = 2) (db_memo sample_db4) = {7}"
    unfolding memo_ids_def set_filter [symmetric] by (simp add: sample_db4_def)
  then have "db_memo (delete_user_spec 2 sample_db4) = []" "db_attachment (delete_user_spec 2 sample_db4) = []"
    by (simp_all add: delete_user_spec_def Let_def) (simp_all add: sample_db4_def)
  then have "db_memo d' = []" "db_attachment d' = []" using spec by simp_all
  moreover have "map at_ID (dur_Attachments r) = [3]"
    using del by (auto simp: DB_DeleteUser_def deletion_eval)
  ultimately show ?thesis using spec del by (intro exI [of _ r] exI [of _ d'] conjI) simp_all
qed

text \<open>C10: Deleting a space, when it succeeds, was asked by one of its active administrators with a
  normal account and performs exactly the cascade: the space, its memberships, the memos placed
  in it and every relation, attachment, reaction and share of those memos disappear and every
  other row stays; the returned attachments are the deleted ones, each once.\<close>

theorem DB_DeleteSpace_refines:
  assumes "db_keys d" "DB_DeleteSpace ok sid actor d = Inr (as, d')"
  shows "active_admin_of d sid actor \<and> d' = delete_space_spec sid d
    \<and> set as = set (db_attachment d) - set (db_attachment d') \<and> distinct as"
  using assms by (rule DB_DeleteSpace_spec)

theorem DB_DeleteSpace_refines_witness:
  "\<exists>as d'. DB_DeleteSpace (\<lambda>_. True) 1 1 sample_db4 = Inr (as, d') \<and> active_admin_of sample_db4 1 1
     \<and> d' = delete_space_spec 1 sample_db4 \<and> db_space d' = [] \<and> db_space_member d' = []"
proof -
  from sample_delete_space obtain as d' where del: "DB_DeleteSpace (\<lambda>_. True) 1 1 sample_db4 = Inr (as, d')" by blast
  note spec = DB_DeleteSpace_refines [OF sample_db4_keys del]
  then have "db_space d' = []" "db_space_member d' = []"
    by (simp_all add: delete_space_spec_def Let_def sample_db4_def sample_db3_def sample_defs)
  with spec del show ?thesis by blast
qed

end
