(* ===== verification/Memo_Access.thy ===== *)
theory Memo_Access
  imports User_Store Sql_Predicates Space_Properties
begin

text \<open>
  Read authorization of memos: the policy of \<open>server/access/memo.go\<close>, the resolution of its inputs
  (\<open>server/access/memo_resolve.go\<close>), the handlers of \<open>server/router/api/v1/memo_access.go\<close> with
  \<open>fetchCurrentUser\<close> (\<open>auth_service_session.go\<close>), and the instance access policy
  (\<open>store/instance_setting.go\<close>). The interface \<open>MemoReadStore\<close> is a record of functions that
  thread the state of the store; its contract is a locale, interpreted on the store with its user
  cache. The main results are that a read of one memo and the SQL predicate of a listing agree
  for every caller, and that the policy fails closed.
\<close>

section \<open>The policy (server/access/memo.go)\<close>

datatype MemoReadDenial =
  MemoReadDenialNone | MemoReadDenialNotFound | MemoReadDenialUnauthenticated | MemoReadDenialPermission

datatype MemoReadClass = MemoReadClassPrivate | MemoReadClassPublic

record MemoReadDecision =
  dec_Denial :: MemoReadDenial
  dec_Class :: MemoReadClass

record 'p MemoReadContext =
  ctx_Memo :: "'p Memo option"
  ctx_Viewer :: "User option"
  ctx_AllowAnonymous :: bool
  ctx_SharedMemoID :: "int32 option"
  ctx_CreatorValid :: bool
  ctx_SpaceValid :: bool
  ctx_ViewerSpaceMember :: bool

definition Allowed :: "MemoReadDecision \<Rightarrow> bool" where
  "Allowed dec = (dec_Denial dec = MemoReadDenialNone)"

text \<open>\<open>MemoReadDecision{Denial: ...}\<close> and \<open>MemoReadDecision{Class: ...}\<close>, with the zero value of the
  other field.\<close>

abbreviation denied :: "MemoReadDenial \<Rightarrow> MemoReadDecision" where
  "denied r \<equiv> \<lparr>dec_Denial = r, dec_Class = MemoReadClassPrivate\<rparr>"

abbreviation granted :: "MemoReadClass \<Rightarrow> MemoReadDecision" where
  "granted c \<equiv> \<lparr>dec_Denial = MemoReadDenialNone, dec_Class = c\<rparr>"

definition CheckMemoReadContext :: "'p MemoReadContext \<Rightarrow> MemoReadDecision" where
  "CheckMemoReadContext ctx =
     (case ctx_Memo ctx of
        None \<Rightarrow> denied MemoReadDenialNotFound
      | Some memo \<Rightarrow>
          if \<not> ctx_CreatorValid ctx then denied MemoReadDenialNotFound
          else if m_Visibility memo \<noteq> Public \<and> m_Visibility memo \<noteq> Protected
            \<and> m_Visibility memo \<noteq> Private \<and> m_Visibility memo \<noteq> SpaceAudience
          then denied MemoReadDenialNotFound
          else if m_Visibility memo = SpaceAudience \<and> (m_SpaceID memo = None \<or> \<not> ctx_SpaceValid ctx)
          then denied MemoReadDenialNotFound
          else
            let viewerActive = (case ctx_Viewer ctx of None \<Rightarrow> False | Some v \<Rightarrow> u_RowStatus v = Normal);
                viewerIsAuthor = (viewerActive
                  \<and> (case ctx_Viewer ctx of None \<Rightarrow> False | Some v \<Rightarrow> u_ID v = m_CreatorID memo))
            in if m_RowStatus memo = Archived \<and> \<not> viewerIsAuthor then denied MemoReadDenialNotFound
               else if m_RowStatus memo \<noteq> Normal \<and> m_RowStatus memo \<noteq> Archived
               then denied MemoReadDenialNotFound
               else
                 let shareApplies = (ctx_SharedMemoID ctx = Some (m_ID memo) \<and> m_Visibility memo \<noteq> SpaceAudience)
                 in if shareApplies then granted MemoReadClassPrivate
                    else if m_Visibility memo = Public
                    then (if ctx_AllowAnonymous ctx then granted MemoReadClassPublic
                          else if viewerActive then granted MemoReadClassPrivate
                          else denied MemoReadDenialUnauthenticated)
                    else if m_Visibility memo = Protected
                    then (if viewerActive then granted MemoReadClassPrivate
                          else denied MemoReadDenialUnauthenticated)
                    else if m_Visibility memo = Private
                    then (if \<not> viewerActive then denied MemoReadDenialUnauthenticated
                          else if \<not> viewerIsAuthor then denied MemoReadDenialPermission
                          else granted MemoReadClassPrivate)
                    else if m_Visibility memo = SpaceAudience
                    then (if \<not> viewerActive then denied MemoReadDenialUnauthenticated
                          else if ctx_ViewerSpaceMember ctx then granted MemoReadClassPrivate
                          else denied MemoReadDenialPermission)
                    else denied MemoReadDenialNotFound)"

section \<open>Resolving the inputs (server/access/memo_resolve.go)\<close>

record 's MemoReadStore =
  mrs_GetUser :: "FindUser \<Rightarrow> 's \<Rightarrow> store_error + (User option \<times> 's)"
  mrs_GetSpace :: "FindSpace \<Rightarrow> 's \<Rightarrow> store_error + (Space option \<times> 's)"
  mrs_GetSpaceMember :: "FindSpaceMember \<Rightarrow> 's \<Rightarrow> store_error + (SpaceMember option \<times> 's)"

record 'p MemoReadFacts =
  facts_Memo :: "'p Memo option"
  facts_CreatorValid :: bool
  facts_SpaceValid :: bool

definition find_user_id :: "int32 \<Rightarrow> FindUser" where
  "find_user_id i = no_find_user\<lparr>fu_ID := Some i\<rparr>"

definition no_find_space :: FindSpace where
  "no_find_space = \<lparr>fs_ID = None, fs_IDList = [], fs_UID = None, fs_MemberUserID = None, fs_Limit = None, fs_Offset = None\<rparr>"

definition find_member :: "int32 \<Rightarrow> int32 \<Rightarrow> FindSpaceMember" where
  "find_member sid uid = \<lparr>fm_SpaceID = Some sid, fm_UserID = Some uid, fm_ViewerUserID = None, fm_Limit = None, fm_Offset = None\<rparr>"

definition ResolveMemoReadFacts ::
    "'s MemoReadStore \<Rightarrow> 'p Memo option \<Rightarrow> 's \<Rightarrow> store_error + ('p MemoReadFacts \<times> 's)" where
  "ResolveMemoReadFacts st memo s =
     (case memo of
        None \<Rightarrow> Inr (\<lparr>facts_Memo = None, facts_CreatorValid = False, facts_SpaceValid = False\<rparr>, s)
      | Some m \<Rightarrow>
          (let creatorID = m_CreatorID m in
           bindE (mrs_GetUser st (find_user_id creatorID) s) (\<lambda>(creator, s).
             let creatorValid = (case creator of
                   None \<Rightarrow> False
                 | Some c \<Rightarrow> u_ID c = creatorID \<and> (u_RowStatus c = Normal \<or> u_RowStatus c = Archived))
             in case m_SpaceID m of
                  None \<Rightarrow> Inr (\<lparr>facts_Memo = Some m, facts_CreatorValid = creatorValid, facts_SpaceValid = True\<rparr>, s)
                | Some sid \<Rightarrow>
                    bindE (mrs_GetSpace st (no_find_space\<lparr>fs_ID := Some sid\<rparr>) s) (\<lambda>(space, s).
                      Inr (\<lparr>facts_Memo = Some m, facts_CreatorValid = creatorValid, facts_SpaceValid = (space \<noteq> None)\<rparr>, s)))))"

definition WithViewer ::
    "'p MemoReadFacts \<Rightarrow> 's MemoReadStore \<Rightarrow> User option \<Rightarrow> bool \<Rightarrow> int32 option \<Rightarrow> 's \<Rightarrow>
      store_error + ('p MemoReadContext \<times> 's)" where
  "WithViewer f st viewer allowAnonymous sharedMemoID s =
     (let readContext = \<lparr>ctx_Memo = facts_Memo f, ctx_Viewer = viewer, ctx_AllowAnonymous = allowAnonymous,
            ctx_SharedMemoID = sharedMemoID, ctx_CreatorValid = facts_CreatorValid f,
            ctx_SpaceValid = facts_SpaceValid f, ctx_ViewerSpaceMember = False\<rparr>
      in case facts_Memo f of
           None \<Rightarrow> Inr (readContext, s)
         | Some m \<Rightarrow>
             (case m_SpaceID m of
                None \<Rightarrow> Inr (readContext, s)
              | Some sid \<Rightarrow>
                  if \<not> facts_SpaceValid f then Inr (readContext, s)
                  else (case viewer of
                          None \<Rightarrow> Inr (readContext, s)
                        | Some v \<Rightarrow>
                            if u_RowStatus v \<noteq> Normal then Inr (readContext, s)
                            else bindE (mrs_GetSpaceMember st (find_member sid (u_ID v)) s) (\<lambda>(membership, s).
                                   Inr (readContext\<lparr>ctx_ViewerSpaceMember :=
                                     (case membership of None \<Rightarrow> False | Some mem \<Rightarrow> IsActiveMember (mem_Role mem))\<rparr>, s)))))"

definition ResolveMemoReadContext ::
    "'s MemoReadStore \<Rightarrow> 'p Memo option \<Rightarrow> User option \<Rightarrow> bool \<Rightarrow> int32 option \<Rightarrow> 's \<Rightarrow>
      store_error + ('p MemoReadContext \<times> 's)" where
  "ResolveMemoReadContext st memo viewer allowAnonymous sharedMemoID s =
     bindE (ResolveMemoReadFacts st memo s) (\<lambda>(facts, s). WithViewer facts st viewer allowAnonymous sharedMemoID s)"

section \<open>The instance access policy (store/instance_setting.go)\<close>

datatype InstanceAccessMode =
  INSTANCE_ACCESS_MODE_UNSPECIFIED | INSTANCE_ACCESS_MODE_PRIVATE | INSTANCE_ACCESS_MODE_PUBLIC
| InstanceAccessMode_unknown int

text \<open>A setting is its access part, if it has one. \<open>deployment\<close> is the setting of the deployment
  configuration and \<open>raw\<close> the result of reading the stored one.\<close>

type_synonym InstanceSetting = "InstanceAccessMode option"

definition GetInstanceAccessSetting ::
    "InstanceSetting option \<Rightarrow> store_error + InstanceSetting option \<Rightarrow> store_error + InstanceAccessMode" where
  "GetInstanceAccessSetting deployment raw =
     bindE (case deployment of
              Some setting \<Rightarrow> Inr (Some setting)
            | None \<Rightarrow> (case raw of
                        Inl e \<Rightarrow> Inl (WrapError e ''failed to get instance access setting'')
                      | Inr setting \<Rightarrow> Inr setting)) (\<lambda>instanceSetting.
       let mode = (case instanceSetting of
                     Some (Some m) \<Rightarrow> m
                   | _ \<Rightarrow> INSTANCE_ACCESS_MODE_UNSPECIFIED)
       in Inr (if mode = INSTANCE_ACCESS_MODE_UNSPECIFIED then INSTANCE_ACCESS_MODE_PRIVATE else mode))"

definition AllowsAnonymousAccess ::
    "InstanceSetting option \<Rightarrow> store_error + InstanceSetting option \<Rightarrow> store_error + bool" where
  "AllowsAnonymousAccess deployment raw =
     bindE (GetInstanceAccessSetting deployment raw) (\<lambda>mode. Inr (mode = INSTANCE_ACCESS_MODE_PUBLIC))"

section \<open>The handlers (server/router/api/v1/memo_access.go)\<close>

datatype Code =
  InvalidArgument | NotFound | PermissionDenied | FailedPrecondition | Internal | Unauthenticated | AlreadyExists

text \<open>A gRPC status: its code, its message and the error printed into it, if any. \<open>errors.Wrap\<close>
  outside a status is \<open>PlainError\<close>.\<close>

datatype cause = NoCause | NameCause go_error | StoreCause store_error

datatype api_error = Status Code string cause | PlainError store_error

record 's APIV1Service =
  svc_Store :: "'s MemoReadStore"
  svc_deployment :: "InstanceSetting option"
  svc_raw :: "store_error + InstanceSetting option"

definition svc_anonymous :: "'s APIV1Service \<Rightarrow> store_error + bool" where
  "svc_anonymous svc = AllowsAnonymousAccess (svc_deployment svc) (svc_raw svc)"

definition orElse :: "'a + 'b \<Rightarrow> ('a \<Rightarrow> 'e) \<Rightarrow> 'e + 'b" where
  "orElse m f = (case m of Inl e \<Rightarrow> Inl (f e) | Inr x \<Rightarrow> Inr x)"

lemma orElse_simps [simp]: "orElse (Inl e) f = Inl (f e)" "orElse (Inr x) f = Inr x"
  by (simp_all add: orElse_def)

lemma orElse_Inr_iff [result_simps]: "orElse m f = Inr x \<longleftrightarrow> m = Inr x"
  by (cases m) auto

definition isActiveCurrentUser :: "User option \<Rightarrow> bool" where
  "isActiveCurrentUser user = (case user of None \<Rightarrow> False | Some u \<Rightarrow> u_RowStatus u = Normal)"

text \<open>\<open>userID\<close> is the identity that the interceptor put into the context, 0 for none.\<close>

definition fetchCurrentUser :: "'s APIV1Service \<Rightarrow> int32 \<Rightarrow> 's \<Rightarrow> store_error + (User option \<times> 's)" where
  "fetchCurrentUser svc userID s =
     (if userID = 0 then Inr (None, s)
      else bindE (mrs_GetUser (svc_Store svc) (find_user_id userID) s) (\<lambda>(user, s).
             if user = None then Inl (NewError (''user '' @ itoa userID @ '' not found''))
             else if \<not> isActiveCurrentUser user then Inr (None, s)
             else Inr (user, s)))"

definition buildMemoReadContextForViewer ::
    "'s APIV1Service \<Rightarrow> 'p Memo option \<Rightarrow> User option \<Rightarrow> bool \<Rightarrow> int32 option \<Rightarrow> 's \<Rightarrow>
      api_error + ('p MemoReadContext \<times> 's)" where
  "buildMemoReadContextForViewer svc memo viewer allowAnonymous sharedMemoID s =
     (if memo = None then Inl (Status NotFound ''memo not found'' NoCause)
      else orElse (ResolveMemoReadContext (svc_Store svc) memo viewer allowAnonymous sharedMemoID s)
             (\<lambda>_. Status Internal ''failed to resolve memo access'' NoCause))"

definition buildMemoReadContext ::
    "'s APIV1Service \<Rightarrow> int32 \<Rightarrow> 'p Memo option \<Rightarrow> int32 option \<Rightarrow> 's \<Rightarrow> api_error + ('p MemoReadContext \<times> 's)" where
  "buildMemoReadContext svc userID memo sharedMemoID s =
     bindE (orElse (fetchCurrentUser svc userID s) (\<lambda>_. Status Internal ''failed to get user'' NoCause)) (\<lambda>(viewer, s).
     bindE (if viewer = None
            then orElse (svc_anonymous svc) (\<lambda>_. Status Internal ''failed to resolve instance access policy'' NoCause)
            else Inr False) (\<lambda>allowAnonymous.
       buildMemoReadContextForViewer svc memo viewer allowAnonymous sharedMemoID s))"

definition memoAccessDecisionError :: "MemoReadDecision \<Rightarrow> api_error option" where
  "memoAccessDecisionError decision =
     (case dec_Denial decision of
        MemoReadDenialNone \<Rightarrow> None
      | MemoReadDenialNotFound \<Rightarrow> Some (Status NotFound ''memo not found'' NoCause)
      | MemoReadDenialUnauthenticated \<Rightarrow> Some (Status Unauthenticated ''user not authenticated'' NoCause)
      | MemoReadDenialPermission \<Rightarrow> Some (Status PermissionDenied ''permission denied'' NoCause))"

definition checkMemoReadAccess :: "'s APIV1Service \<Rightarrow> int32 \<Rightarrow> 'p Memo option \<Rightarrow> 's \<Rightarrow> api_error + 's" where
  "checkMemoReadAccess svc userID memo s =
     bindE (buildMemoReadContext svc userID memo None s) (\<lambda>(readContext, s).
       case memoAccessDecisionError (CheckMemoReadContext readContext) of
         None \<Rightarrow> Inr s | Some e \<Rightarrow> Inl e)"

definition newMemoAccessScope :: "User option \<Rightarrow> bool \<Rightarrow> MemoAccessScope" where
  "newMemoAccessScope currentUser allowPublic =
     \<lparr>acc_UserID = map_option u_ID currentUser, acc_AllowPublic = allowPublic, acc_AllowProtected = (currentUser \<noteq> None)\<rparr>"

definition resolveMemoAccessScope ::
    "'s APIV1Service \<Rightarrow> int32 \<Rightarrow> 's \<Rightarrow> api_error + (MemoAccessScope \<times> User option \<times> 's)" where
  "resolveMemoAccessScope svc userID s =
     bindE (orElse (fetchCurrentUser svc userID s) (\<lambda>e. PlainError (WrapError e ''failed to get current user''))) (\<lambda>(currentUser, s).
     bindE (if currentUser = None
            then orElse (svc_anonymous svc) (\<lambda>e. PlainError (WrapError e ''failed to resolve instance access policy''))
            else Inr True) (\<lambda>allowPublic.
       Inr (newMemoAccessScope currentUser allowPublic, currentUser, s)))"

definition isActiveSpaceMember :: "'s APIV1Service \<Rightarrow> int32 \<Rightarrow> int32 \<Rightarrow> 's \<Rightarrow> store_error + (bool \<times> 's)" where
  "isActiveSpaceMember svc spaceID userID s =
     bindE (mrs_GetUser (svc_Store svc) (find_user_id userID) s) (\<lambda>(user, s).
       if \<not> (case user of None \<Rightarrow> False | Some u \<Rightarrow> u_RowStatus u = Normal) then Inr (False, s)
       else bindE (mrs_GetSpaceMember (svc_Store svc) (find_member spaceID userID) s) (\<lambda>(membership, s).
              Inr (case membership of None \<Rightarrow> False | Some mem \<Rightarrow> IsActiveMember (mem_Role mem), s)))"

definition resolveWritableSpaceByName :: "'s APIV1Service \<Rightarrow> string \<Rightarrow> int32 \<Rightarrow> 's \<Rightarrow> api_error + (Space \<times> 's)" where
  "resolveWritableSpaceByName svc name userID s =
     bindE (orElse (ExtractSpaceUIDFromName name) (\<lambda>e. Status InvalidArgument ''invalid space name'' (NameCause e))) (\<lambda>spaceUID.
     bindE (orElse (mrs_GetSpace (svc_Store svc) (no_find_space\<lparr>fs_UID := Some spaceUID\<rparr>) s)
              (\<lambda>_. Status Internal ''failed to get space'' NoCause)) (\<lambda>(space, s).
       case space of
         None \<Rightarrow> Inl (Status NotFound ''space not found'' NoCause)
       | Some sp \<Rightarrow>
           bindE (orElse (isActiveSpaceMember svc (Space_ID sp) userID s)
                    (\<lambda>_. Status Internal ''failed to resolve space membership'' NoCause)) (\<lambda>(active, s).
             if \<not> active then Inl (Status NotFound ''space not found'' NoCause) else Inr (sp, s))))"

definition sameOptionalInt32 :: "int32 option \<Rightarrow> int32 option \<Rightarrow> bool" where
  "sameOptionalInt32 left right =
     (case (left, right) of (Some l, Some r) \<Rightarrow> l = r | _ \<Rightarrow> left = None \<and> right = None)"

text \<open>\<open>stderrors.Is\<close> looks through the wrapped errors.\<close>

fun error_is :: "store_error \<Rightarrow> store_error \<Rightarrow> bool" where
  "error_is (WrapError e msg) t = (WrapError e msg = t \<or> error_is e t)"
| "error_is e t = (e = t)"

definition mapMemoWriteError :: "store_error \<Rightarrow> string \<Rightarrow> api_error" where
  "mapMemoWriteError err operation =
     (if error_is err ErrMemoMutationConflict then Status FailedPrecondition ''memo state changed'' (StoreCause err)
      else if error_is err ErrMemoSpaceNotWritable
      then Status FailedPrecondition ''memo space is no longer writable'' NoCause
      else if error_is err ErrMemoSpaceMembershipRequired \<or> error_is err ErrMemoPermissionDenied
      then Status PermissionDenied ''permission denied'' NoCause
      else if error_is err ErrMemoShareConflict
      then Status FailedPrecondition ''revoke active shares before using the SPACE audience'' NoCause
      else Status Internal operation (StoreCause err))"

definition requireAssignedMemoWritable :: "'s APIV1Service \<Rightarrow> 'p Memo \<Rightarrow> int32 \<Rightarrow> 's \<Rightarrow> api_error + 's" where
  "requireAssignedMemoWritable svc memo userID s =
     (case m_SpaceID memo of
        None \<Rightarrow> Inr s
      | Some sid \<Rightarrow>
          bindE (orElse (mrs_GetSpace (svc_Store svc) (no_find_space\<lparr>fs_ID := Some sid\<rparr>) s)
                   (\<lambda>_. Status Internal ''failed to get memo space'' NoCause)) (\<lambda>(space, s).
            case space of
              None \<Rightarrow> Inl (Status FailedPrecondition ''memo has invalid space placement'' NoCause)
            | Some sp \<Rightarrow>
                bindE (orElse (isActiveSpaceMember svc (Space_ID sp) userID s)
                         (\<lambda>_. Status Internal ''failed to resolve space membership'' NoCause)) (\<lambda>(active, s).
                  if \<not> active then Inl (Status PermissionDenied ''active space membership is required'' NoCause)
                  else Inr s)))"

section \<open>The contract of MemoReadStore\<close>

text \<open>What the policy relies on: reads succeed, show the tables as they are, and keep the tables.
  \<open>tables\<close> are the tables behind a state and \<open>inv\<close> the states a store can be in.\<close>

locale memo_read_store =
  fixes st :: "'s MemoReadStore"
    and inv :: "'s \<Rightarrow> bool"
    and tables :: "'s \<Rightarrow> db"
  assumes keys: "inv s \<Longrightarrow> db_keys (tables s)"
    and GetUser_law: "inv s \<Longrightarrow> \<exists>s'. mrs_GetUser st (no_find_user\<lparr>fu_ID := Some i\<rparr>) s = Inr (user_row (tables s) i, s')
      \<and> inv s' \<and> tables s' = tables s"
    and GetSpace_law: "inv s \<Longrightarrow> \<exists>s'. mrs_GetSpace st q s = Inr (Store_GetSpace q (tables s), s')
      \<and> inv s' \<and> tables s' = tables s"
    and GetSpaceMember_law: "inv s \<Longrightarrow> \<exists>s'. mrs_GetSpaceMember st q' s = Inr (Store_GetSpaceMember q' (tables s), s')
      \<and> inv s' \<and> tables s' = tables s"

lemma sort_key_Nil [simp]: "sort_key f xs = [] \<longleftrightarrow> xs = []"
  by (metis length_0_conv length_sort)

lemma Store_GetSpace_by_id: "Store_GetSpace (no_find_space\<lparr>fs_ID := Some sid\<rparr>) d \<noteq> None \<longleftrightarrow> space_exists d sid"
  by (auto simp: Store_GetSpace_def DB_ListSpaces_def no_find_space_def sql_limit_def opt_eq_def space_exists_def
      filter_empty_conv)

lemma Store_GetSpace_id:
  "Store_GetSpace (no_find_space\<lparr>fs_ID := Some sid\<rparr>) d = Some sp \<Longrightarrow> Space_ID sp = sid"
  unfolding Store_GetSpace_def
  by (drule first_row_in)
    (auto simp: DB_ListSpaces_def no_find_space_def sql_limit_def opt_eq_def space_of_row_def)

definition member_found :: "SpaceMember option \<Rightarrow> bool" where
  "member_found membership = (case membership of None \<Rightarrow> False | Some mem \<Rightarrow> IsActiveMember (mem_Role mem))"

lemma Store_GetSpaceMember_found:
  "member_found (Store_GetSpaceMember (find_member sid uid) d) \<longleftrightarrow> space_exists d sid \<and> active_member_of d sid uid"
proof -
  define rows where "rows = filter (\<lambda>sm. sm_status sm = SpaceMemberStatusActive \<and> IsActiveMember (sm_role sm)
      \<and> space_exists d (sm_space_id sm) \<and> user_normal d (sm_user_id sm) \<and> sm_space_id sm = sid \<and> sm_user_id sm = uid)
      (db_space_member d)"
  have eq: "Store_GetSpaceMember (find_member sid uid) d = first_row (map member_of_row (sort_key sm_user_id rows))"
    by (simp add: Store_GetSpaceMember_def DB_ListSpaceMembers_def find_member_def opt_eq_def sql_limit_def rows_def)
  have "member_found (first_row (map member_of_row xs)) \<longleftrightarrow> xs \<noteq> []" if "\<forall>sm \<in> set xs. IsActiveMember (sm_role sm)" for xs
    using that by (cases xs) (simp_all add: member_found_def member_of_row_def)
  from this [of "sort_key sm_user_id rows"]
  have "member_found (Store_GetSpaceMember (find_member sid uid) d) \<longleftrightarrow> rows \<noteq> []"
    by (simp add: eq rows_def)
  then show ?thesis
    by (auto simp: rows_def filter_empty_conv active_member_of_def member_is_def)
qed

text \<open>The context that the tables determine.\<close>

definition creator_valid :: "db \<Rightarrow> 'p Memo \<Rightarrow> bool" where
  "creator_valid d m =
     (\<exists>u \<in> set (db_user d). u_ID u = m_CreatorID m \<and> (u_RowStatus u = Normal \<or> u_RowStatus u = Archived))"

definition placement_valid :: "db \<Rightarrow> 'p Memo \<Rightarrow> bool" where
  "placement_valid d m = (case m_SpaceID m of None \<Rightarrow> True | Some sid \<Rightarrow> space_exists d sid)"

definition viewer_member :: "db \<Rightarrow> 'p Memo \<Rightarrow> User option \<Rightarrow> bool" where
  "viewer_member d m viewer =
     (case (m_SpaceID m, viewer) of
        (Some sid, Some v) \<Rightarrow> space_exists d sid \<and> u_RowStatus v = Normal \<and> active_member_of d sid (u_ID v)
      | _ \<Rightarrow> False)"

definition read_context :: "db \<Rightarrow> 'p Memo \<Rightarrow> User option \<Rightarrow> bool \<Rightarrow> int32 option \<Rightarrow> 'p MemoReadContext" where
  "read_context d m viewer anon shared =
     \<lparr>ctx_Memo = Some m, ctx_Viewer = viewer, ctx_AllowAnonymous = anon, ctx_SharedMemoID = shared,
      ctx_CreatorValid = creator_valid d m, ctx_SpaceValid = placement_valid d m,
      ctx_ViewerSpaceMember = viewer_member d m viewer\<rparr>"

lemma creator_valid_row:
  assumes "db_keys d"
  shows "(case user_row d (m_CreatorID m) of
      None \<Rightarrow> False | Some c \<Rightarrow> u_ID c = m_CreatorID m \<and> (u_RowStatus c = Normal \<or> u_RowStatus c = Archived))
    \<longleftrightarrow> creator_valid d m"
proof -
  have "distinct (map u_ID (db_user d))" using assms by (simp add: db_keys_def)
  note row = user_row_iff [OF this, of "m_CreatorID m"]
  have "creator_valid d m \<longleftrightarrow>
      (\<exists>u. user_row d (m_CreatorID m) = Some u \<and> (u_RowStatus u = Normal \<or> u_RowStatus u = Archived))"
    unfolding row creator_valid_def by blast
  then show ?thesis using user_row_Some [of d "m_CreatorID m"] by (simp split: option.splits)
qed

lemma user_row_normal:
  "db_keys d \<Longrightarrow> (\<exists>u. user_row d i = Some u \<and> u_RowStatus u = Normal) \<longleftrightarrow> user_normal d i"
  using user_row_iff [of d i] by (auto simp: db_keys_def user_normal_def)

context memo_read_store
begin

lemma ResolveMemoReadFacts_law:
  assumes "inv s"
  shows "\<exists>s'. ResolveMemoReadFacts st (Some m) s
      = Inr (\<lparr>facts_Memo = Some m, facts_CreatorValid = creator_valid (tables s) m,
              facts_SpaceValid = placement_valid (tables s) m\<rparr>, s') \<and> inv s' \<and> tables s' = tables s"
proof -
  obtain s1 where s1: "mrs_GetUser st (find_user_id (m_CreatorID m)) s = Inr (user_row (tables s) (m_CreatorID m), s1)"
    "inv s1" "tables s1 = tables s"
    using GetUser_law [OF assms] by (auto simp: find_user_id_def)
  show ?thesis
  proof (cases "m_SpaceID m")
    case None
    then show ?thesis
      using s1 creator_valid_row [OF keys [OF assms], of m]
      by (simp add: ResolveMemoReadFacts_def placement_valid_def)
  next
    case (Some sid)
    obtain s2 where "mrs_GetSpace st (no_find_space\<lparr>fs_ID := Some sid\<rparr>) s1
        = Inr (Store_GetSpace (no_find_space\<lparr>fs_ID := Some sid\<rparr>) (tables s), s2)" "inv s2" "tables s2 = tables s"
      using GetSpace_law [OF s1(2)] s1(3) by auto
    with Some s1 show ?thesis
      using creator_valid_row [OF keys [OF assms], of m] Store_GetSpace_by_id [of sid "tables s"]
      by (simp add: ResolveMemoReadFacts_def placement_valid_def del: not_None_eq)
  qed
qed

lemma WithViewer_law:
  assumes "inv s"
  shows "\<exists>s'. WithViewer \<lparr>facts_Memo = Some m, facts_CreatorValid = creator_valid (tables s) m,
              facts_SpaceValid = placement_valid (tables s) m\<rparr> st viewer anon shared s
      = Inr (read_context (tables s) m viewer anon shared, s') \<and> inv s' \<and> tables s' = tables s"
proof (cases "\<exists>sid v. m_SpaceID m = Some sid \<and> placement_valid (tables s) m \<and> viewer = Some v \<and> u_RowStatus v = Normal")
  case True
  then obtain sid v where sv: "m_SpaceID m = Some sid" "placement_valid (tables s) m" "viewer = Some v" "u_RowStatus v = Normal"
    by blast
  obtain s1 where "mrs_GetSpaceMember st (find_member sid (u_ID v)) s
      = Inr (Store_GetSpaceMember (find_member sid (u_ID v)) (tables s), s1)" "inv s1" "tables s1 = tables s"
    using GetSpaceMember_law [OF assms] by blast
  with sv show ?thesis
    using Store_GetSpaceMember_found [of sid "u_ID v" "tables s"]
    by (simp add: WithViewer_def read_context_def viewer_member_def placement_valid_def member_found_def)
next
  case False
  then have "viewer_member (tables s) m viewer = False"
    by (auto simp: viewer_member_def placement_valid_def split: option.splits)
  with False assms show ?thesis
    by (cases "m_SpaceID m"; cases viewer) (auto simp: WithViewer_def read_context_def Let_def)
qed

lemma ResolveMemoReadContext_law:
  assumes "inv s"
  shows "\<exists>s'. ResolveMemoReadContext st (Some m) viewer anon shared s
      = Inr (read_context (tables s) m viewer anon shared, s') \<and> inv s' \<and> tables s' = tables s"
proof -
  obtain s1 where "ResolveMemoReadFacts st (Some m) s
      = Inr (\<lparr>facts_Memo = Some m, facts_CreatorValid = creator_valid (tables s) m,
              facts_SpaceValid = placement_valid (tables s) m\<rparr>, s1)" "inv s1" "tables s1 = tables s"
    using ResolveMemoReadFacts_law [OF assms] by blast
  then show ?thesis
    using WithViewer_law [of s1 m viewer anon shared] by (simp add: ResolveMemoReadContext_def)
qed

lemma isActiveSpaceMember_law:
  assumes "inv s" "svc_Store svc = st"
  shows "\<exists>s'. isActiveSpaceMember svc sid uid s
      = Inr (space_exists (tables s) sid \<and> active_member_of (tables s) sid uid, s') \<and> inv s' \<and> tables s' = tables s"
proof -
  let ?d = "tables s"
  obtain s1 where s1: "mrs_GetUser st (find_user_id uid) s = Inr (user_row ?d uid, s1)" "inv s1" "tables s1 = ?d"
    using GetUser_law [OF assms(1)] by (auto simp: find_user_id_def)
  have normal: "(case user_row ?d uid of None \<Rightarrow> False | Some u \<Rightarrow> u_RowStatus u = Normal) \<longleftrightarrow> user_normal ?d uid"
    using user_row_normal [OF keys [OF assms(1)], of uid] by (auto split: option.splits)
  obtain s2 where s2: "mrs_GetSpaceMember st (find_member sid uid) s1
      = Inr (Store_GetSpaceMember (find_member sid uid) ?d, s2)" "inv s2" "tables s2 = ?d"
    using GetSpaceMember_law [OF s1(2)] s1(3) by metis
  show ?thesis
  proof (cases "user_normal ?d uid")
    case True
    then show ?thesis
      using s1(1) s2 assms(2) Store_GetSpaceMember_found [of sid uid ?d]
      by (simp add: isActiveSpaceMember_def normal member_found_def [symmetric])
  next
    case False
    then have "\<not> active_member_of ?d sid uid" by (simp add: active_member_of_def)
    with False show ?thesis using s1 assms(2) by (simp add: isActiveSpaceMember_def normal)
  qed
qed

end

text \<open>The store with its user cache keeps the contract.\<close>

definition MemoReadStore_of :: "User range_order \<Rightarrow> 'x Store MemoReadStore" where
  "MemoReadStore_of rng =
     \<lparr>mrs_GetUser = Store_GetUser rng,
      mrs_GetSpace = (\<lambda>q s. Inr (Store_GetSpace q (st_db s), s)),
      mrs_GetSpaceMember = (\<lambda>q s. Inr (Store_GetSpaceMember q (st_db s), s))\<rparr>"

interpretation cached_store: memo_read_store "MemoReadStore_of rng" run_inv st_db for rng
  by unfold_locales (simp_all add: MemoReadStore_of_def run_inv_keys Store_GetUser_row)

section \<open>The policy\<close>

definition viewer_active :: "User option \<Rightarrow> bool" where
  "viewer_active viewer = (\<exists>v. viewer = Some v \<and> u_RowStatus v = Normal)"

definition viewer_is_author :: "User option \<Rightarrow> 'p Memo \<Rightarrow> bool" where
  "viewer_is_author viewer m = (\<exists>v. viewer = Some v \<and> u_RowStatus v = Normal \<and> u_ID v = m_CreatorID m)"

text \<open>What must hold of a memo before any reader is considered.\<close>

definition memo_readable :: "'p MemoReadContext \<Rightarrow> 'p Memo \<Rightarrow> bool" where
  "memo_readable ctx m =
     (ctx_CreatorValid ctx \<and> m_Visibility m \<in> {Public, Protected, Private, SpaceAudience}
      \<and> (m_Visibility m = SpaceAudience \<longrightarrow> m_SpaceID m \<noteq> None \<and> ctx_SpaceValid ctx)
      \<and> (m_RowStatus m = Normal \<or> m_RowStatus m = Archived \<and> viewer_is_author (ctx_Viewer ctx) m))"

definition share_applies :: "'p MemoReadContext \<Rightarrow> 'p Memo \<Rightarrow> bool" where
  "share_applies ctx m = (ctx_SharedMemoID ctx = Some (m_ID m) \<and> m_Visibility m \<noteq> SpaceAudience)"

definition audience_denial :: "'p MemoReadContext \<Rightarrow> 'p Memo \<Rightarrow> MemoReadDenial" where
  "audience_denial ctx m =
     (if share_applies ctx m \<or> m_Visibility m = Public \<and> ctx_AllowAnonymous ctx then MemoReadDenialNone
      else if \<not> viewer_active (ctx_Viewer ctx) then MemoReadDenialUnauthenticated
      else if m_Visibility m = Private \<and> \<not> viewer_is_author (ctx_Viewer ctx) m
           \<or> m_Visibility m = SpaceAudience \<and> \<not> ctx_ViewerSpaceMember ctx then MemoReadDenialPermission
      else MemoReadDenialNone)"

definition viewer_id_is :: "User option \<Rightarrow> int32 \<Rightarrow> bool" where
  "viewer_id_is viewer i = (case viewer of None \<Rightarrow> False | Some v \<Rightarrow> u_ID v = i)"

lemma viewer_active_case: "(case viewer of None \<Rightarrow> False | Some v \<Rightarrow> u_RowStatus v = Normal) = viewer_active viewer"
  by (cases viewer) (simp_all add: viewer_active_def)

lemma viewer_is_author_alt: "viewer_is_author viewer m = (viewer_active viewer \<and> viewer_id_is viewer (m_CreatorID m))"
  by (cases viewer) (auto simp: viewer_active_def viewer_is_author_def viewer_id_is_def)

lemmas viewer_simps = viewer_active_case viewer_id_is_def [symmetric] viewer_is_author_alt

lemma CheckMemoReadContext_denial:
  assumes "ctx_Memo ctx = Some m"
  shows "dec_Denial (CheckMemoReadContext ctx) =
    (if memo_readable ctx m then audience_denial ctx m else MemoReadDenialNotFound)"
proof (cases "memo_readable ctx m")
  case True
  then have vis: "m_Visibility m = Public \<or> m_Visibility m = Protected \<or> m_Visibility m = Private \<or> m_Visibility m = SpaceAudience"
    and rest: "ctx_CreatorValid ctx" "m_Visibility m = SpaceAudience \<longrightarrow> m_SpaceID m \<noteq> None \<and> ctx_SpaceValid ctx"
    "m_RowStatus m = Normal \<or> m_RowStatus m = Archived \<and> viewer_is_author (ctx_Viewer ctx) m"
    by (auto simp: memo_readable_def)
  from vis show ?thesis
    by (elim disjE; use True rest assms in \<open>auto simp: CheckMemoReadContext_def Let_def audience_denial_def share_applies_def viewer_simps\<close>)
next
  case False
  then show ?thesis
    using assms by (auto simp: CheckMemoReadContext_def Let_def memo_readable_def viewer_simps)
qed

lemma Allowed_iff:
  assumes "ctx_Memo ctx = Some m"
  shows "Allowed (CheckMemoReadContext ctx) \<longleftrightarrow> memo_readable ctx m \<and> audience_denial ctx m = MemoReadDenialNone"
  by (simp add: Allowed_def CheckMemoReadContext_denial [OF assms])

text \<open>For one caller the policy on the context of the tables is what a listing shows.\<close>

lemma Allowed_listed:
  assumes viewer: "\<And>v. viewer = Some v \<Longrightarrow> v \<in> set (db_user d) \<and> u_RowStatus v = Normal"
    and anon: "viewer \<noteq> None \<Longrightarrow> \<not> anon"
  shows "Allowed (CheckMemoReadContext (read_context d m viewer anon None))
    \<longleftrightarrow> memo_listed d (newMemoAccessScope viewer (anon \<or> viewer \<noteq> None)) m"
proof -
  let ?ctx = "read_context d m viewer anon None"
  have ctx: "ctx_Memo ?ctx = Some m" by (simp add: read_context_def)
  show ?thesis
  proof (cases viewer)
    case None
    then show ?thesis
      unfolding Allowed_iff [OF ctx] memo_listed_def
      by (auto simp: read_context_def memo_readable_def audience_denial_def share_applies_def viewer_active_def
          viewer_is_author_def newMemoAccessScope_def creator_valid_def)
  next
    case (Some v)
    then have v: "u_RowStatus v = Normal" "user_normal d (u_ID v)" "\<not> anon"
      using viewer anon by (auto simp: user_normal_def)
    have member: "viewer_member d m viewer \<longleftrightarrow> (\<exists>sid. m_SpaceID m = Some sid \<and> space_exists d sid \<and> active_member_of d sid (u_ID v))"
      using Some v by (auto simp: viewer_member_def split: option.splits)
    have row: "(\<exists>sm \<in> set (db_space_member d). m_SpaceID m = Some (sm_space_id sm) \<and> sm_user_id sm = u_ID v
        \<and> sm_status sm = SpaceMemberStatusActive \<and> IsActiveMember (sm_role sm))
      \<longleftrightarrow> (\<exists>sid. m_SpaceID m = Some sid \<and> active_member_of d sid (u_ID v))"
      using v by (auto simp: active_member_of_def member_is_def)
    have placed: "m_SpaceID m \<noteq> None \<and> placement_valid d m \<longleftrightarrow> (\<exists>sid. m_SpaceID m = Some sid \<and> space_exists d sid)"
      by (auto simp: placement_valid_def split: option.splits)
    have who: "viewer_active viewer" "viewer_is_author viewer m \<longleftrightarrow> u_ID v = m_CreatorID m"
      using Some v by (simp_all add: viewer_active_def viewer_is_author_def)
    have scope: "newMemoAccessScope viewer (anon \<or> viewer \<noteq> None)
        = \<lparr>acc_UserID = Some (u_ID v), acc_AllowPublic = True, acc_AllowProtected = True\<rparr>"
      using Some by (simp add: newMemoAccessScope_def)
    have readable: "memo_readable ?ctx m \<longleftrightarrow> creator_valid d m \<and> m_Visibility m \<in> {Public, Protected, Private, SpaceAudience}
        \<and> (m_Visibility m = SpaceAudience \<longrightarrow> (\<exists>sid. m_SpaceID m = Some sid \<and> space_exists d sid))
        \<and> (m_RowStatus m = Normal \<or> m_RowStatus m = Archived \<and> u_ID v = m_CreatorID m)"
      by (simp add: memo_readable_def read_context_def who placed [symmetric] del: not_None_eq)
    have audience: "audience_denial ?ctx m = MemoReadDenialNone \<longleftrightarrow>
        \<not> (m_Visibility m = Private \<and> u_ID v \<noteq> m_CreatorID m \<or> m_Visibility m = SpaceAudience \<and> \<not> viewer_member d m viewer)"
      using v by (simp add: audience_denial_def read_context_def who share_applies_def)
    show ?thesis
    proof (cases "m_Visibility m \<in> {Public, Protected, Private, SpaceAudience}")
      case True
      then consider "m_Visibility m = Public" | "m_Visibility m = Protected" | "m_Visibility m = Private"
        | "m_Visibility m = SpaceAudience" by blast
      then show ?thesis
        unfolding Allowed_iff [OF ctx] readable audience memo_listed_def scope creator_valid_def member
        by cases (simp_all add: v(2) row, auto)
    qed (simp only: Allowed_iff [OF ctx] readable memo_listed_def simp_thms)
  qed
qed

section \<open>Point reads and listings\<close>

context memo_read_store
begin

lemma fetchCurrentUser_law:
  assumes "inv s" "svc_Store svc = st" "fetchCurrentUser svc uid s = Inr (cur, s')"
  shows "inv s' \<and> tables s' = tables s \<and> (\<forall>v. cur = Some v \<longrightarrow> v \<in> set (db_user (tables s)) \<and> u_RowStatus v = Normal)"
proof (cases "uid = 0")
  case True
  then show ?thesis using assms by (simp add: fetchCurrentUser_def)
next
  case False
  obtain s1 where s1: "mrs_GetUser st (find_user_id uid) s = Inr (user_row (tables s) uid, s1)" "inv s1" "tables s1 = tables s"
    using GetUser_law [OF assms(1)] by (auto simp: find_user_id_def)
  then show ?thesis
    using assms(2,3) False user_row_Some [of "tables s" uid]
    by (auto simp: fetchCurrentUser_def isActiveCurrentUser_def split: if_splits option.splits)
qed

lemma checkMemoReadAccess_law:
  assumes "inv s" "svc_Store svc = st" "resolveMemoAccessScope svc uid s = Inr (scope, cur, s1)"
  shows "(\<exists>s2. checkMemoReadAccess svc uid (Some m) s = Inr s2) \<longleftrightarrow> memo_listed (tables s) scope m"
proof -
  obtain t where cur: "fetchCurrentUser svc uid s = Inr (cur, t)"
    using assms(3) by (auto simp: resolveMemoAccessScope_def result_simps)
  have t: "inv t" "tables t = tables s" "\<And>v. cur = Some v \<Longrightarrow> v \<in> set (db_user (tables s)) \<and> u_RowStatus v = Normal"
    using fetchCurrentUser_law [OF assms(1,2) cur] by auto
  define anon where "anon = (cur = None \<and> svc_anonymous svc = Inr True)"
  have anon: "(if cur = None
      then orElse (svc_anonymous svc) (\<lambda>_. Status Internal ''failed to resolve instance access policy'' NoCause)
      else Inr False) = Inr anon" and scope: "scope = newMemoAccessScope cur (anon \<or> cur \<noteq> None)"
    using assms(3) cur by (auto simp: resolveMemoAccessScope_def anon_def result_simps split: if_splits)
  obtain t' where ctx: "ResolveMemoReadContext st (Some m) cur anon None t
      = Inr (read_context (tables s) m cur anon None, t')"
    using ResolveMemoReadContext_law [OF t(1), of m cur anon None] t(2) by auto
  have "buildMemoReadContext svc uid (Some m) None s = Inr (read_context (tables s) m cur anon None, t')"
    unfolding buildMemoReadContext_def cur orElse_simps bindE_simps prod.case anon
    using ctx assms(2) by (simp add: buildMemoReadContextForViewer_def)
  then have "(\<exists>s2. checkMemoReadAccess svc uid (Some m) s = Inr s2)
      \<longleftrightarrow> Allowed (CheckMemoReadContext (read_context (tables s) m cur anon None))"
    by (simp add: checkMemoReadAccess_def memoAccessDecisionError_def Allowed_def split: MemoReadDenial.splits)
  also have "\<dots> \<longleftrightarrow> memo_listed (tables s) scope m"
    unfolding scope by (rule Allowed_listed) (use t(3) in \<open>auto simp: anon_def\<close>)
  finally show ?thesis .
qed

text \<open>A space is resolved for writing exactly for its active members; every other caller sees what
  a caller sees who asks for a space that does not exist.\<close>

lemma resolveWritableSpaceByName_law:
  assumes "inv s" "svc_Store svc = st" "ExtractSpaceUIDFromName name = Inr suid"
  shows "case Store_GetSpace (no_find_space\<lparr>fs_UID := Some suid\<rparr>) (tables s) of
      None \<Rightarrow> resolveWritableSpaceByName svc name uid s = Inl (Status NotFound ''space not found'' NoCause)
    | Some sp \<Rightarrow>
        if space_exists (tables s) (Space_ID sp) \<and> active_member_of (tables s) (Space_ID sp) uid
        then \<exists>s'. resolveWritableSpaceByName svc name uid s = Inr (sp, s') \<and> inv s' \<and> tables s' = tables s
        else resolveWritableSpaceByName svc name uid s = Inl (Status NotFound ''space not found'' NoCause)"
proof -
  let ?q = "no_find_space\<lparr>fs_UID := Some suid\<rparr>"
  obtain s1 where s1: "mrs_GetSpace st ?q s = Inr (Store_GetSpace ?q (tables s), s1)" "inv s1" "tables s1 = tables s"
    using GetSpace_law [OF assms(1)] by blast
  show ?thesis
  proof (cases "Store_GetSpace ?q (tables s)")
    case None
    then show ?thesis using s1(1) assms(2,3) by (simp add: resolveWritableSpaceByName_def)
  next
    case (Some sp)
    obtain s2 where "isActiveSpaceMember svc (Space_ID sp) uid s1
        = Inr (space_exists (tables s) (Space_ID sp) \<and> active_member_of (tables s) (Space_ID sp) uid, s2)"
        "inv s2" "tables s2 = tables s"
      using isActiveSpaceMember_law [OF s1(2) assms(2), of "Space_ID sp" uid] s1(3) by auto
    then show ?thesis using s1(1) assms(2,3) Some by (simp add: resolveWritableSpaceByName_def)
  qed
qed

end

section \<open>Properties\<close>

text \<open>A run that creates a user and a space, and a memo of that space.\<close>

definition sample_run :: "nat Store" where
  "sample_run =
     (case Store_CreateUser id (sample_user ''ann'') (Store_New empty_db 5) of
        Inl _ \<Rightarrow> Store_New empty_db 5 | Inr (_, s) \<Rightarrow> s\<lparr>st_db := sample_db2\<rparr>)"

definition sample_svc :: "nat Store APIV1Service" where
  "sample_svc = \<lparr>svc_Store = MemoReadStore_of id, svc_deployment = Some (Some INSTANCE_ACCESS_MODE_PRIVATE), svc_raw = Inr None\<rparr>"

definition sample_memo :: "string Memo" where
  "sample_memo = \<lparr>m_ID = 1, m_UID = ''note'', m_RowStatus = Normal, m_CreatorID = 1, m_CreatedTs = 0, m_UpdatedTs = 0,
     m_Content = ''hello'', m_Visibility = SpaceAudience, m_Pinned = False, m_Payload = [], m_SpaceID = Some 1\<rparr>"

definition sample_scope :: MemoAccessScope where
  "sample_scope = \<lparr>acc_UserID = Some 1, acc_AllowPublic = True, acc_AllowProtected = True\<rparr>"

lemma sample_run_reachable: "store_run\<^sup>*\<^sup>* (Store_New empty_db 5) sample_run"
proof -
  obtain u where "DB_CreateUser (sample_user ''ann'') empty_db = Inr (u, sample_db1)"
    using sample_create_user by blast
  then have c: "Store_CreateUser id (sample_user ''ann'') (Store_New empty_db 5 :: nat Store)
      = Inr (u, cache_user id u ((Store_New empty_db 5)\<lparr>st_db := sample_db1\<rparr>))"
    by (simp add: Store_CreateUser_def Store_New_def)
  let ?s1 = "cache_user id u ((Store_New empty_db 5)\<lparr>st_db := sample_db1\<rparr>) :: nat Store"
  have "store_run ?s1 (?s1\<lparr>st_db := sample_db2\<rparr>)"
    using sample_create_space by (auto intro!: run_other store_step.create_space simp: sample_db2_def)
  moreover have "store_run (Store_New empty_db 5) ?s1" by (rule run_create [OF c])
  ultimately show ?thesis by (simp add: sample_run_def c)
qed

lemma sample_scope_resolved: "\<exists>cur s1. resolveMemoAccessScope sample_svc 1 sample_run = Inr (sample_scope, cur, s1)"
proof -
  have "(case resolveMemoAccessScope sample_svc 1 sample_run of Inl _ \<Rightarrow> False | Inr (sc, _) \<Rightarrow> sc = sample_scope)"
    by code_simp
  then show ?thesis by (auto split: sum.splits)
qed

lemma sample_access: "\<exists>s2. checkMemoReadAccess sample_svc 1 (Some sample_memo) sample_run = Inr s2"
proof -
  have "(case checkMemoReadAccess sample_svc 1 (Some sample_memo) sample_run of Inl _ \<Rightarrow> False | Inr _ \<Rightarrow> True)"
    by code_simp
  then show ?thesis by (auto split: sum.splits)
qed

text \<open>C17. For every caller, a read of one memo is allowed exactly when the SQLite listing predicate
  of that caller selects the memo's row: the text that \<open>sqliteMemoAccessPredicate\<close> builds is the
  printing of a condition, its arguments are the condition's parameters in order, and the
  condition is true of the row, in three-valued logic over the current tables, exactly when
  \<open>checkMemoReadAccess\<close> succeeds. This holds after any run of the store, with whatever the user cache
  contains, for anonymous, archived and active callers, and for every visibility, placement and
  lifecycle state a row can hold, unknown ones included.\<close>

theorem point_read_agrees_with_sqlite_listing:
  assumes "store_run\<^sup>*\<^sup>* (Store_New empty_db now) s" "svc_Store svc = MemoReadStore_of rng"
    and "resolveMemoAccessScope svc userID s = Inr (scope, cur, s1)"
    and "aliases_ok backquote ma mb"
  shows "let c = memo_access_cond backquote ''`user`'' ''`space`'' ''`space_member`'' scope ma mb in
    sqliteMemoAccessPredicate scope ma mb args = (text_c backquote (\<lambda>_. ''?'') (length args) c, args @ params c)
    \<and> ((\<exists>s2. checkMemoReadAccess svc userID (Some m) s = Inr s2) \<longleftrightarrow>
        eval_c (db_tables ''`user`'' ''`space`'' ''`space_member`'' (st_db s)) [ma \<mapsto> memo_sql m] c = Some True)"
  using cached_store.checkMemoReadAccess_law [OF store_runs_keep [OF assms(1) run_inv_New] assms(2,3), of m]
  unfolding Let_def sqliteMemoAccessPredicate_text
  by (subst memo_access_cond_eval [OF assms(4)]) (simp_all add: Let_def)

theorem point_read_agrees_with_sqlite_listing_witness:
  "eval_c (db_tables ''`user`'' ''`space`'' ''`space_member`'' sample_db2) [''`memo`'' \<mapsto> memo_sql sample_memo]
     (memo_access_cond backquote ''`user`'' ''`space`'' ''`space_member`'' sample_scope ''`memo`'' ''`access_member`'') = Some True"
proof -
  obtain cur s1 where r: "resolveMemoAccessScope sample_svc 1 sample_run = Inr (sample_scope, cur, s1)"
    using sample_scope_resolved by blast
  have "svc_Store sample_svc = MemoReadStore_of id" "aliases_ok backquote ''`memo`'' ''`access_member`''"
    "st_db sample_run = sample_db2"
    by (simp add: sample_svc_def, code_simp, code_simp)
  then show ?thesis
    using point_read_agrees_with_sqlite_listing [OF sample_run_reachable _ r, of id "''`memo`''" "''`access_member`''" "[]" sample_memo]
      sample_access by (simp add: Let_def)
qed

text \<open>The same for the predicate that the Postgres driver builds, with its numbered
  placeholders.\<close>

theorem point_read_agrees_with_postgres_listing:
  assumes "store_run\<^sup>*\<^sup>* (Store_New empty_db now) s" "svc_Store svc = MemoReadStore_of rng"
    and "resolveMemoAccessScope svc userID s = Inr (scope, cur, s1)"
    and "aliases_ok id ma mb"
  shows "let c = memo_access_cond id pg_user ''space'' ''space_member'' scope ma mb in
    postgresMemoAccessPredicate scope ma mb args = (text_c id postgres_placeholder (length args) c, args @ params c)
    \<and> ((\<exists>s2. checkMemoReadAccess svc userID (Some m) s = Inr s2) \<longleftrightarrow>
        eval_c (db_tables pg_user ''space'' ''space_member'' (st_db s)) [ma \<mapsto> memo_sql m] c = Some True)"
  using cached_store.checkMemoReadAccess_law [OF store_runs_keep [OF assms(1) run_inv_New] assms(2,3), of m]
  unfolding Let_def postgresMemoAccessPredicate_text
  by (subst memo_access_cond_eval [OF assms(4)]) (simp_all add: Let_def pg_user_def)

theorem point_read_agrees_with_postgres_listing_witness:
  "eval_c (db_tables pg_user ''space'' ''space_member'' sample_db2) [''memo'' \<mapsto> memo_sql sample_memo]
     (memo_access_cond id pg_user ''space'' ''space_member'' sample_scope ''memo'' ''access_member'') = Some True"
proof -
  obtain cur s1 where r: "resolveMemoAccessScope sample_svc 1 sample_run = Inr (sample_scope, cur, s1)"
    using sample_scope_resolved by blast
  have "svc_Store sample_svc = MemoReadStore_of id" "aliases_ok id ''memo'' ''access_member''" "st_db sample_run = sample_db2"
    by (simp add: sample_svc_def, code_simp, code_simp)
  then show ?thesis
    using point_read_agrees_with_postgres_listing [OF sample_run_reachable _ r, of id "''memo''" "''access_member''" "[]" sample_memo]
      sample_access by (simp add: Let_def)
qed

text \<open>The policy fails closed, and its denials do not disclose: a memo without a valid creator,
  with an unknown audience, with a \<open>SPACE\<close> audience but no existing space, with an unknown lifecycle
  state, or archived and read by anyone but its active author, is \<open>NotFound\<close> for every reader and
  every share; of the others, the audience alone decides.\<close>

theorem CheckMemoReadContext_decides:
  "dec_Denial (CheckMemoReadContext ctx) =
    (case ctx_Memo ctx of
       None \<Rightarrow> MemoReadDenialNotFound
     | Some m \<Rightarrow> if memo_readable ctx m then audience_denial ctx m else MemoReadDenialNotFound)"
  using CheckMemoReadContext_denial [of ctx] by (cases "ctx_Memo ctx") (simp_all add: CheckMemoReadContext_def)

text \<open>A share token never widens access beyond the one memo it names: if a read is allowed with
  a share and not without it, then the share is of exactly this memo, the memo's audience is not
  \<open>SPACE\<close>, and the memo is live or read by its active author.\<close>

theorem share_is_exact:
  assumes "Allowed (CheckMemoReadContext ctx)"
    and "\<not> Allowed (CheckMemoReadContext (ctx\<lparr>ctx_SharedMemoID := None\<rparr>))"
  shows "\<exists>m. ctx_Memo ctx = Some m \<and> ctx_SharedMemoID ctx = Some (m_ID m) \<and> m_Visibility m \<noteq> SpaceAudience
    \<and> (m_RowStatus m = Normal \<or> m_RowStatus m = Archived \<and> viewer_is_author (ctx_Viewer ctx) m)"
proof (cases "ctx_Memo ctx")
  case None
  then show ?thesis using assms(1) by (simp add: CheckMemoReadContext_def Allowed_def)
next
  case (Some m)
  let ?ctx = "ctx\<lparr>ctx_SharedMemoID := None\<rparr>"
  have "memo_readable ctx m" "audience_denial ctx m = MemoReadDenialNone"
    using assms(1) Allowed_iff [OF Some] by simp_all
  moreover have "audience_denial ?ctx m \<noteq> MemoReadDenialNone"
    using assms(2) Allowed_iff [of ?ctx m] Some \<open>memo_readable ctx m\<close>
    by (auto simp: memo_readable_def)
  ultimately show ?thesis
    using Some by (auto simp: audience_denial_def share_applies_def memo_readable_def split: if_splits)
qed

definition shared_context :: "string MemoReadContext" where
  "shared_context = \<lparr>ctx_Memo = Some (sample_memo\<lparr>m_Visibility := Private, m_SpaceID := None\<rparr>), ctx_Viewer = None,
     ctx_AllowAnonymous = False, ctx_SharedMemoID = Some 1, ctx_CreatorValid = True, ctx_SpaceValid = True,
     ctx_ViewerSpaceMember = False\<rparr>"

theorem share_is_exact_witness:
  "\<exists>m. ctx_Memo shared_context = Some m \<and> ctx_SharedMemoID shared_context = Some (m_ID m) \<and> m_Visibility m \<noteq> SpaceAudience"
proof -
  have "Allowed (CheckMemoReadContext shared_context)"
    "\<not> Allowed (CheckMemoReadContext (shared_context\<lparr>ctx_SharedMemoID := None\<rparr>))"
    by code_simp+
  from share_is_exact [OF this] show ?thesis by blast
qed

text \<open>A space can be resolved for writing by its name exactly by its active members, and a
  caller who is not a member gets the very error of a space that does not exist.\<close>

theorem resolveWritableSpaceByName_hides:
  assumes "store_run\<^sup>*\<^sup>* (Store_New empty_db now) s" "svc_Store svc = MemoReadStore_of rng"
    and "ExtractSpaceUIDFromName name = Inr suid"
  shows "(if \<exists>sp. Store_GetSpace (no_find_space\<lparr>fs_UID := Some suid\<rparr>) (st_db s) = Some sp
            \<and> space_exists (st_db s) (Space_ID sp) \<and> active_member_of (st_db s) (Space_ID sp) userID
     then \<exists>sp s'. resolveWritableSpaceByName svc name userID s = Inr (sp, s')
            \<and> Store_GetSpace (no_find_space\<lparr>fs_UID := Some suid\<rparr>) (st_db s) = Some sp
     else resolveWritableSpaceByName svc name userID s = Inl (Status NotFound ''space not found'' NoCause))"
  using cached_store.resolveWritableSpaceByName_law [OF store_runs_keep [OF assms(1) run_inv_New] assms(2,3), of userID]
  by (auto split: option.splits if_splits)

theorem resolveWritableSpaceByName_hides_witness:
  "(\<exists>sp s'. resolveWritableSpaceByName sample_svc ''spaces/team'' 1 sample_run = Inr (sp, s'))
   \<and> resolveWritableSpaceByName sample_svc ''spaces/team'' 7 sample_run = Inl (Status NotFound ''space not found'' NoCause)
   \<and> resolveWritableSpaceByName sample_svc ''spaces/none'' 1 sample_run = Inl (Status NotFound ''space not found'' NoCause)"
proof -
  have svc: "svc_Store sample_svc = MemoReadStore_of id" by (simp add: sample_svc_def)
  have names: "ExtractSpaceUIDFromName ''spaces/team'' = Inr ''team''" "ExtractSpaceUIDFromName ''spaces/none'' = Inr ''none''"
    by code_simp+
  have db: "st_db sample_run = sample_db2" by code_simp
  have none: "Store_GetSpace (no_find_space\<lparr>fs_UID := Some ''none''\<rparr>) sample_db2 = None" by code_simp
  have team: "map_option Space_ID (Store_GetSpace (no_find_space\<lparr>fs_UID := Some ''team''\<rparr>) sample_db2) = Some 1"
    "space_exists sample_db2 1" "active_member_of sample_db2 1 1" "\<not> active_member_of sample_db2 1 7"
    by code_simp+
  show ?thesis
    using resolveWritableSpaceByName_hides [OF sample_run_reachable svc names(1), of 1]
      resolveWritableSpaceByName_hides [OF sample_run_reachable svc names(1), of 7]
      resolveWritableSpaceByName_hides [OF sample_run_reachable svc names(2), of 1] none team
    by (auto simp: db)
qed

end
