(* ===== verification/Filter_Access.thy ===== *)
theory Filter_Access
  imports Filter_Render Memo_Access "HOL-Library.List_Lexorder" "HOL-Library.Char_ord"
begin

text \<open>
  The check of the spaces that a filter names (\<open>filter_access.go\<close>, with \<open>filterDialect\<close> of
  \<open>memo_view_service.go\<close>): a filter may refer to a space only by a plain equality with the name of a space
  to which the caller belongs, or with null.
\<close>

section \<open>The names in a condition\<close>

fun valueReferencesSpace :: "ValueExpr \<Rightarrow> bool" where
  "valueReferencesSpace (FieldRef name) = (name = ''space'')"
| "valueReferencesSpace (FunctionValue _ args) = list_ex valueReferencesSpace args"
| "valueReferencesSpace (FieldAccessorValue field _) = (field = ''space'')"
| "valueReferencesSpace (LiteralValue _) = False"

text \<open>The set of names, as a list without repetitions.\<close>

definition add_name :: "string \<Rightarrow> string list \<Rightarrow> string list" where
  "add_name name names = (if name \<in> set names then names else names @ [name])"

fun collectSpaceFilterNames :: "Condition \<Rightarrow> bool \<Rightarrow> string list \<Rightarrow> string list result" where
  "collectSpaceFilterNames (LogicalCondition _ l r) negated names =
     bindE (collectSpaceFilterNames l negated names) (collectSpaceFilterNames r negated)"
| "collectSpaceFilterNames (NotCondition e) negated names = collectSpaceFilterNames e True names"
| "collectSpaceFilterNames (ComparisonCondition l op r) negated names =
     (if \<not> valueReferencesSpace l \<and> \<not> valueReferencesSpace r then Inr names
      else (case l of
        FieldRef field \<Rightarrow>
          if field \<noteq> ''space'' \<or> negated \<or> op \<noteq> CompareEq
          then Inl (Errorf ''space only supports a non-negated equality comparison'' [])
          else (case r of
            LiteralValue VNil \<Rightarrow> Inr names
          | LiteralValue (VString name) \<Rightarrow> Inr (add_name name names)
          | _ \<Rightarrow> Inl (Errorf ''space must be compared with a resource name or null'' []))
      | _ \<Rightarrow> Inl (Errorf ''space only supports a non-negated equality comparison'' [])))"
| "collectSpaceFilterNames (InCondition l values) negated names =
     (if valueReferencesSpace l \<or> list_ex valueReferencesSpace values
      then Inl (Errorf ''space does not support the in operator'' []) else Inr names)"
| "collectSpaceFilterNames (ElementInCondition element field) negated names =
     (if field = ''space'' \<or> valueReferencesSpace element
      then Inl (Errorf ''space does not support the in operator'' []) else Inr names)"
| "collectSpaceFilterNames (FieldPredicateCondition field) negated names =
     (if field = ''space'' then Inl (Errorf ''space must be compared with a resource name or null'' []) else Inr names)"
| "collectSpaceFilterNames (TextMatchCondition field _ _) negated names =
     (if field = ''space'' then Inl (Errorf ''space does not support text matching'' []) else Inr names)"
| "collectSpaceFilterNames (RegexCondition field _) negated names =
     (if field = ''space'' then Inl (Errorf ''space does not support regular expressions'' []) else Inr names)"
| "collectSpaceFilterNames (ListComprehensionCondition _ _ field _) negated names =
     (if field = ''space'' then Inl (Errorf ''space does not support list operations'' []) else Inr names)"
| "collectSpaceFilterNames (ConstantCondition _) negated names = Inr names"

section \<open>The check\<close>

fun resolve_names :: "'s APIV1Service \<Rightarrow> int32 \<Rightarrow> string list \<Rightarrow> 's \<Rightarrow> api_error + 's" where
  "resolve_names svc userID [] s = Inr s"
| "resolve_names svc userID (name # names) s =
     bindE (resolveWritableSpaceByName svc name userID s) (\<lambda>(_, s). resolve_names svc userID names s)"

definition filterDialect :: "string \<Rightarrow> DialectName" where
  "filterDialect driver =
     (if driver = ''mysql'' then DialectMySQL else if driver = ''postgres'' then DialectPostgres else DialectSQLite)"

definition validateFilterSpaceAccess ::
    "'s APIV1Service \<Rightarrow> string \<Rightarrow> string \<Rightarrow> Engine \<Rightarrow> User option \<Rightarrow> 's \<Rightarrow> api_error + 's" where
  "validateFilterSpaceAccess svc driver filterText engine user s =
     (let invalid = (\<lambda>e. Status InvalidArgument ''invalid filter: %v'' (NameCause e)) in
      bindE (orElse (Compile engine filterText) invalid) (\<lambda>program.
      bindE (orElse (program_Render program
               \<lparr>ro_Dialect = filterDialect driver, ro_PlaceholderOffset = 0, ro_DisableNullChecks = False\<rparr>) invalid) (\<lambda>_.
      bindE (orElse (collectSpaceFilterNames (prog_condition program) False []) invalid) (\<lambda>spaceNames.
        if spaceNames = [] then Inr s
        else (case user of
                None \<Rightarrow> Inl (Status Unauthenticated ''user not authenticated'' NoCause)
              | Some u \<Rightarrow> resolve_names svc (u_ID u) (sort spaceNames) s)))))"

text \<open>\<open>DefaultEngine\<close> and \<open>DefaultAttachmentEngine\<close>: the CEL environment of each schema, or the error of its
  construction, is an argument.\<close>

definition NewEngine :: "go_error + (string \<Rightarrow> Expr result) \<Rightarrow> go_time \<Rightarrow> time_lib \<Rightarrow> Schema \<Rightarrow> Engine result" where
  "NewEngine env now lib schema =
     bindE (wrapE ''failed to create CEL environment'' env) (\<lambda>compile_fn.
       Inr \<lparr>eng_schema = schema, eng_env_Compile = compile_fn, eng_now = now, eng_time = lib\<rparr>)"

definition validate_with ::
    "Engine result \<Rightarrow> 's APIV1Service \<Rightarrow> string \<Rightarrow> string \<Rightarrow> User option \<Rightarrow> 's \<Rightarrow> api_error + 's" where
  "validate_with eng svc driver filterText user s =
     bindE (orElse eng (\<lambda>e. Status Internal ''failed to initialize filter: %v'' (NameCause e))) (\<lambda>engine.
       validateFilterSpaceAccess svc driver filterText engine user s)"

definition validateMemoFilterForUser where
  "validateMemoFilterForUser env now lib = validate_with (NewEngine env now lib NewSchema)"

definition validateAttachmentFilterForUser where
  "validateAttachmentFilterForUser env now lib = validate_with (NewEngine env now lib NewAttachmentSchema)"

section \<open>What an accepted condition can tell\<close>

text \<open>The two-valued reading of a condition over a reading of its leaves.\<close>

fun holds :: "(Condition \<Rightarrow> bool) \<Rightarrow> Condition \<Rightarrow> bool" where
  "holds L (LogicalCondition LogicalAnd l r) = (holds L l \<and> holds L r)"
| "holds L (LogicalCondition LogicalOr l r) = (holds L l \<or> holds L r)"
| "holds L (NotCondition e) = (\<not> holds L e)"
| "holds L (ConstantCondition b) = b"
| "holds L leaf = L leaf"

fun leaf_references_space :: "Condition \<Rightarrow> bool" where
  "leaf_references_space (ComparisonCondition l _ r) = (valueReferencesSpace l \<or> valueReferencesSpace r)"
| "leaf_references_space (InCondition l values) = (valueReferencesSpace l \<or> list_ex valueReferencesSpace values)"
| "leaf_references_space (ElementInCondition element field) = (field = ''space'' \<or> valueReferencesSpace element)"
| "leaf_references_space (FieldPredicateCondition field) = (field = ''space'')"
| "leaf_references_space (TextMatchCondition field _ _) = (field = ''space'')"
| "leaf_references_space (RegexCondition field _) = (field = ''space'')"
| "leaf_references_space (ListComprehensionCondition _ _ field _) = (field = ''space'')"
| "leaf_references_space _ = False"

text \<open>A row in the space of the given name, or in none: an equality of the space with a literal reads the
  space; a leaf without a reference does not; any other reference may read it in any way.\<close>

definition row_leaf :: "(Condition \<Rightarrow> bool) \<Rightarrow> (Condition \<Rightarrow> string option \<Rightarrow> bool) \<Rightarrow> string option \<Rightarrow> Condition \<Rightarrow> bool" where
  "row_leaf others wild sp c =
     (case c of
        ComparisonCondition (FieldRef field) CompareEq (LiteralValue v) \<Rightarrow>
          if field = ''space'' then (case v of VNil \<Rightarrow> sp = None | VString name \<Rightarrow> sp = Some name | _ \<Rightarrow> wild c sp)
          else others c
      | _ \<Rightarrow> if leaf_references_space c then wild c sp else others c)"

lemma collect_grows: "collectSpaceFilterNames c negated ns = Inr ns' \<Longrightarrow> set ns \<subseteq> set ns'"
proof (induction c negated ns arbitrary: ns' rule: collectSpaceFilterNames.induct)
  case (1 op l r negated names)
  then obtain ns1 where "collectSpaceFilterNames l negated names = Inr ns1" "collectSpaceFilterNames r negated ns1 = Inr ns'"
    by (auto simp: result_simps)
  with 1 show ?case by blast
qed (auto simp: add_name_def split: if_splits ValueExpr.splits any_value.splits)

text \<open>An accepted condition reads the space only through equalities with the collected names and with null.\<close>

lemma row_leaf_plain:
  "\<not> leaf_references_space c \<Longrightarrow> row_leaf others wild sp c = others c"
  by (cases c) (auto simp: row_leaf_def split: ValueExpr.splits ComparisonOperator.splits)

lemma collect_blind:
  assumes "collectSpaceFilterNames c negated ns = Inr ns'" "n1 \<notin> set ns'" "n2 \<notin> set ns'"
  shows "holds (row_leaf others wild (Some n1)) c = holds (row_leaf others wild (Some n2)) c"
  using assms
proof (induction c negated ns arbitrary: ns' rule: collectSpaceFilterNames.induct)
  case (1 op l r negated names)
  then obtain ns1 where l: "collectSpaceFilterNames l negated names = Inr ns1" and r: "collectSpaceFilterNames r negated ns1 = Inr ns'"
    by (auto simp: result_simps)
  have "n1 \<notin> set ns1" "n2 \<notin> set ns1" using collect_grows [OF r] 1(4,5) by blast+
  then have "holds (row_leaf others wild (Some n1)) l = holds (row_leaf others wild (Some n2)) l" by (rule 1(1) [OF l])
  moreover have "holds (row_leaf others wild (Some n1)) r = holds (row_leaf others wild (Some n2)) r"
    by (rule 1(2) [OF l r 1(4,5)])
  ultimately show ?case by (cases op) simp_all
next
  case (3 l op r negated names)
  show ?case
  proof (cases "valueReferencesSpace l \<or> valueReferencesSpace r")
    case False
    then show ?thesis by (simp add: row_leaf_plain)
  next
    case True
    then obtain v where "l = FieldRef ''space''" "op = CompareEq" "r = LiteralValue v"
        "v = VNil \<or> (\<exists>n. v = VString n \<and> n \<in> set ns')"
      using 3(1) by (auto simp: add_name_def split: if_splits ValueExpr.splits any_value.splits)
    then show ?thesis using 3(2,3) by (auto simp: row_leaf_def)
  qed
qed (auto simp: row_leaf_plain split: if_splits)

section \<open>What an accepted filter names\<close>

definition member_space :: "db \<Rightarrow> int32 \<Rightarrow> string \<Rightarrow> bool" where
  "member_space d u name =
     (\<exists>suid sp. ExtractSpaceUIDFromName name = Inr suid \<and> Store_GetSpace (no_find_space\<lparr>fs_UID := Some suid\<rparr>) d = Some sp
        \<and> space_exists d (Space_ID sp) \<and> active_member_of d (Space_ID sp) u)"

lemma resolve_member:
  assumes "run_inv s" "svc_Store svc = MemoReadStore_of rng" "resolveWritableSpaceByName svc name u s = Inr (sp, s1)"
  shows "member_space (st_db s) u name \<and> run_inv s1 \<and> st_db s1 = st_db s"
proof -
  obtain suid where suid: "ExtractSpaceUIDFromName name = Inr suid"
    using assms(3) by (auto simp: resolveWritableSpaceByName_def result_simps)
  note law = cached_store.resolveWritableSpaceByName_law [OF assms(1,2) suid, of u]
  show ?thesis
  proof (cases "Store_GetSpace (no_find_space\<lparr>fs_UID := Some suid\<rparr>) (st_db s)")
    case None
    then show ?thesis using law assms(3) by simp
  next
    case (Some sp')
    then show ?thesis using law assms(3) suid by (auto simp: member_space_def split: if_splits)
  qed
qed

lemma resolve_names_members:
  assumes "svc_Store svc = MemoReadStore_of rng"
  shows "run_inv s \<Longrightarrow> resolve_names svc u names s = Inr s' \<Longrightarrow>
    (\<forall>n \<in> set names. member_space (st_db s) u n) \<and> run_inv s' \<and> st_db s' = st_db s"
proof (induction names arbitrary: s)
  case (Cons n names)
  then obtain sp s1 where s1: "resolveWritableSpaceByName svc n u s = Inr (sp, s1)" "resolve_names svc u names s1 = Inr s'"
    by (auto simp: result_simps)
  from resolve_member [OF Cons.prems(1) assms s1(1)] Cons.IH [of s1] s1(2) show ?case by simp
qed simp

lemma validated_names:
  assumes "validateFilterSpaceAccess svc driver filterText engine user s = Inr s'" "Compile engine filterText = Inr program"
  obtains names where "collectSpaceFilterNames (prog_condition program) False [] = Inr names"
    "(if names = [] then Inr s else (case user of
        None \<Rightarrow> Inl (Status Unauthenticated ''user not authenticated'' NoCause)
      | Some u \<Rightarrow> resolve_names svc (u_ID u) (sort names) s)) = Inr s'"
proof (cases "program_Render program
    \<lparr>ro_Dialect = filterDialect driver, ro_PlaceholderOffset = 0, ro_DisableNullChecks = False\<rparr>")
  case (Inl e)
  with assms(1) show ?thesis by (simp add: validateFilterSpaceAccess_def Let_def assms(2) orElse_def)
next
  case rendered: (Inr r)
  show ?thesis
  proof (cases "collectSpaceFilterNames (prog_condition program) False []")
    case (Inl e)
    with assms(1) show ?thesis by (simp add: validateFilterSpaceAccess_def Let_def assms(2) rendered orElse_def)
  next
    case (Inr names)
    from assms(1) have "(if names = [] then Inr s else (case user of
        None \<Rightarrow> Inl (Status Unauthenticated ''user not authenticated'' NoCause)
      | Some u \<Rightarrow> resolve_names svc (u_ID u) (sort names) s)) = Inr s'"
      by (simp only: validateFilterSpaceAccess_def Let_def assms(2) rendered Inr orElse_def sum.case bindE_simps)
    with Inr show ?thesis by (rule that)
  qed
qed

definition foreign :: "db \<Rightarrow> User option \<Rightarrow> string \<Rightarrow> bool" where
  "foreign d user name = (case user of None \<Rightarrow> True | Some u \<Rightarrow> \<not> member_space d (u_ID u) name)"

text \<open>C18. A filter that is accepted for a caller cannot tell foreign spaces apart. For two spaces to which the
  caller does not belong - any two, for an anonymous caller - the compiled condition has the same truth value
  on a row in one and the same row in the other, whatever its other leaves say and however any
  other kind of reference to the space would be evaluated. So neither the existence of a space nor what is in it can be
  probed by a filter, not even under negation; and the check leaves the database as it is.\<close>

theorem accepted_filter_blind_to_foreign_spaces:
  assumes "store_run\<^sup>*\<^sup>* (Store_New empty_db now) s" "svc_Store svc = MemoReadStore_of rng"
    "validateFilterSpaceAccess svc driver filterText engine user s = Inr s'" "Compile engine filterText = Inr program"
    "foreign (st_db s) user n1" "foreign (st_db s) user n2"
  shows "holds (row_leaf others wild (Some n1)) (prog_condition program) = holds (row_leaf others wild (Some n2)) (prog_condition program)
    \<and> st_db s' = st_db s"
proof -
  have inv: "run_inv s" by (rule store_runs_keep [OF assms(1) run_inv_New])
  obtain names where names: "collectSpaceFilterNames (prog_condition program) False [] = Inr names"
    and rest: "(if names = [] then Inr s else (case user of
                None \<Rightarrow> Inl (Status Unauthenticated ''user not authenticated'' NoCause)
              | Some u \<Rightarrow> resolve_names svc (u_ID u) (sort names) s)) = Inr s'"
    by (rule validated_names [OF assms(3,4)])
  have "(\<forall>n \<in> set names. \<not> foreign (st_db s) user n) \<and> st_db s' = st_db s"
  proof (cases "names = []")
    case False
    then obtain u where u: "user = Some u" "resolve_names svc (u_ID u) (sort names) s = Inr s'"
      using rest by (cases user) simp_all
    from resolve_names_members [OF assms(2) inv u(2)] show ?thesis by (simp add: foreign_def u(1))
  qed (use rest in simp)
  then have n: "n1 \<notin> set names" "n2 \<notin> set names" and db: "st_db s' = st_db s" using assms(5,6) by blast+
  show ?thesis by (rule conjI [OF collect_blind [OF names n] db])
qed

text \<open>The filter \<open>space == 'spaces/team' || pinned\<close> of a member of the space \<open>team\<close>.\<close>

definition team_condition :: Condition where
  "team_condition = LogicalCondition LogicalOr
     (ComparisonCondition (FieldRef ''space'') CompareEq (LiteralValue (VString ''spaces/team''))) (FieldPredicateCondition ''pinned'')"

definition team_expr :: Expr where
  "team_expr = CallExpr None ''_||_''
     [CallExpr None ''_==_'' [IdentExpr ''space'', ConstExpr (StringValue ''spaces/team'')], IdentExpr ''pinned'']"

definition team_engine :: Engine where
  "team_engine = \<lparr>eng_schema = NewSchema, eng_env_Compile = (\<lambda>_. Inr team_expr), eng_now = 0,
     eng_time = \<lparr>parse_RFC3339 = (\<lambda>_. Inl (Errorf ''parse'' [])), parse_Duration = (\<lambda>_. Inl (Errorf ''parse'' []))\<rparr>\<rparr>"

definition team_filter :: string where
  "team_filter = ''space == 'spaces/team' || pinned''"

definition team_member :: User where
  "team_member = alice\<lparr>u_ID := 1, u_RowStatus := Normal\<rparr>"

lemma team_Compile: "Compile team_engine team_filter = Inr \<lparr>prog_schema = NewSchema, prog_condition = team_condition\<rparr>"
proof -
  have "CHR ''e'' \<in> set (trim_space team_filter)"
    by (rule trim_space_keeps) (simp_all add: white_space_def team_filter_def)
  then have "trim_space team_filter \<noteq> []" by auto
  then show ?thesis
    by (simp add: Compile_def team_engine_def team_expr_def team_condition_def comparison_functions_def
        buildComparisonCondition_def toComparisonOperator_def simpleValueExpr_def schema_Field_def NewSchema_def
        memo_fields_def check_field_operator_def)
qed

theorem accepted_filter_blind_to_foreign_spaces_witness:
  "\<exists>s'. validateFilterSpaceAccess sample_svc ''sqlite'' team_filter team_engine (Some team_member) sample_run = Inr s'
    \<and> holds (row_leaf (\<lambda>_. False) (\<lambda>_ sp. sp = Some ''spaces/x'') (Some ''spaces/x'')) team_condition
      = holds (row_leaf (\<lambda>_. False) (\<lambda>_ sp. sp = Some ''spaces/x'') (Some ''spaces/y'')) team_condition
    \<and> holds (row_leaf (\<lambda>_. False) (\<lambda>_ sp. sp = Some ''spaces/x'') (Some ''spaces/team'')) team_condition
    \<and> st_db s' = sample_db2"
proof -
  have svc: "svc_Store sample_svc = MemoReadStore_of id" by (simp add: sample_svc_def)
  have db: "st_db sample_run = sample_db2" by code_simp
  have "case resolve_names sample_svc (u_ID team_member) [''spaces/team''] sample_run of Inl _ \<Rightarrow> False | Inr _ \<Rightarrow> True"
    by code_simp
  then obtain s' where r: "resolve_names sample_svc (u_ID team_member) [''spaces/team''] sample_run = Inr s'"
    by (auto split: sum.splits)
  have "case program_Render \<lparr>prog_schema = NewSchema, prog_condition = team_condition\<rparr>
      \<lparr>ro_Dialect = filterDialect ''sqlite'', ro_PlaceholderOffset = 0, ro_DisableNullChecks = False\<rparr> of Inl _ \<Rightarrow> False | Inr _ \<Rightarrow> True"
    by code_simp
  then have v: "validateFilterSpaceAccess sample_svc ''sqlite'' team_filter team_engine (Some team_member) sample_run = Inr s'"
    using r by (simp add: validateFilterSpaceAccess_def team_Compile Let_def team_condition_def add_name_def
        del: resolve_names.simps split: sum.split_asm)
  have "ExtractSpaceUIDFromName ''spaces/x'' = Inr ''x''" "ExtractSpaceUIDFromName ''spaces/y'' = Inr ''y''"
    "Store_GetSpace (no_find_space\<lparr>fs_UID := Some ''x''\<rparr>) sample_db2 = None"
    "Store_GetSpace (no_find_space\<lparr>fs_UID := Some ''y''\<rparr>) sample_db2 = None" by code_simp+
  then have "foreign (st_db sample_run) (Some team_member) ''spaces/x''" "foreign (st_db sample_run) (Some team_member) ''spaces/y''"
    by (simp_all add: foreign_def member_space_def db)
  from accepted_filter_blind_to_foreign_spaces [OF sample_run_reachable svc v team_Compile this,
      where wild = "\<lambda>_ sp. sp = Some ''spaces/x''" and others = "\<lambda>_. False"]
  show ?thesis using v by (auto simp: db team_condition_def row_leaf_def)
qed

end
