(* ===== verification/User_Settings.thy ===== *)
theory User_Settings
  imports User_Store
begin

text \<open>
  User settings: \<open>store/user_setting.go\<close> and \<open>store/db/sqlite/user_setting.go\<close>, with the messages of
  \<open>proto/store/user_setting.proto\<close>. Every operation takes the store and returns its result with the
  new store, also when it fails: the caches keep what was read before the error. The encoding of the
  stored text is a third-party package and a parameter. An element of a repeated field is never nil.
\<close>

section \<open>Messages\<close>

type_synonym timestamp = int

record GeneralUserSetting =
  gs_Locale :: string
  gs_MemoVisibility :: string
  gs_Theme :: string
  gs_SaveMediaMetadata :: bool

record UserTagMetadata =
  tm_BackgroundColor :: "string option"
  tm_BlurContent :: bool

record ClientInfo =
  ci_UserAgent :: string
  ci_IpAddress :: string
  ci_DeviceType :: string
  ci_Os :: string
  ci_Browser :: string

record RefreshToken =
  rt_TokenId :: string
  rt_ExpiresAt :: "timestamp option"
  rt_CreatedAt :: "timestamp option"
  rt_ClientInfo :: "ClientInfo option"
  rt_Description :: string

record PersonalAccessToken =
  pat_TokenId :: string
  pat_TokenHash :: string
  pat_Description :: string
  pat_ExpiresAt :: "timestamp option"
  pat_CreatedAt :: "timestamp option"
  pat_LastUsedAt :: "timestamp option"

record MemoView =
  mv_Id :: string
  mv_Title :: string
  mv_Filter :: string

record Webhook =
  wh_Id :: string
  wh_Title :: string
  wh_Url :: string
  wh_SigningSecret :: string

datatype UserSetting_Key =
    KEY_UNSPECIFIED | GENERAL | MEMO_VIEWS | WEBHOOKS | REFRESH_TOKENS | PERSONAL_ACCESS_TOKENS | TAGS

datatype setting_value =
    General GeneralUserSetting
  | MemoViews "MemoView list"
  | Webhooks "Webhook list"
  | RefreshTokens "RefreshToken list"
  | PersonalAccessTokens "PersonalAccessToken list"
  | Tags "string \<rightharpoonup> UserTagMetadata"

text \<open>The message of the cache, and the argument of an update, whose value can be missing.\<close>

record UserSetting =
  us_UserId :: int32
  us_Key :: UserSetting_Key
  us_Value :: "setting_value option"

record RawUserSetting =
  raw_UserID :: int32
  raw_Key :: UserSetting_Key
  raw_Value :: string

record FindUserSetting =
  fs_UserID :: "int32 option"
  fs_Key :: UserSetting_Key

definition KeyString :: "UserSetting_Key \<Rightarrow> string" where
  "KeyString k =
     (case k of KEY_UNSPECIFIED \<Rightarrow> ''KEY_UNSPECIFIED'' | GENERAL \<Rightarrow> ''GENERAL'' | MEMO_VIEWS \<Rightarrow> ''MEMO_VIEWS''
      | WEBHOOKS \<Rightarrow> ''WEBHOOKS'' | REFRESH_TOKENS \<Rightarrow> ''REFRESH_TOKENS''
      | PERSONAL_ACCESS_TOKENS \<Rightarrow> ''PERSONAL_ACCESS_TOKENS'' | TAGS \<Rightarrow> ''TAGS'')"

definition all_keys :: "UserSetting_Key list" where
  "all_keys = [KEY_UNSPECIFIED, GENERAL, MEMO_VIEWS, WEBHOOKS, REFRESH_TOKENS, PERSONAL_ACCESS_TOKENS, TAGS]"

text \<open>The generated map \<open>UserSetting_Key_value\<close>: a missing name gives the zero value.\<close>

definition Key_of_string :: "string \<Rightarrow> UserSetting_Key" where
  "Key_of_string s = (case filter (\<lambda>k. KeyString k = s) all_keys of [] \<Rightarrow> KEY_UNSPECIFIED | k # _ \<Rightarrow> k)"

section \<open>Getters\<close>

text \<open>\<open>GetRefreshTokens().RefreshTokens\<close> reads a field of what may be a nil pointer.\<close>

definition nil_panic :: store_error where
  "nil_panic = NewError ''invalid memory address or nil pointer dereference''"

definition GetRefreshTokens :: "UserSetting \<Rightarrow> RefreshToken list option" where
  "GetRefreshTokens m = (case us_Value m of Some (RefreshTokens ts) \<Rightarrow> Some ts | _ \<Rightarrow> None)"

definition GetPersonalAccessTokens :: "UserSetting \<Rightarrow> PersonalAccessToken list option" where
  "GetPersonalAccessTokens m = (case us_Value m of Some (PersonalAccessTokens ts) \<Rightarrow> Some ts | _ \<Rightarrow> None)"

definition GetWebhooks :: "UserSetting \<Rightarrow> Webhook list option" where
  "GetWebhooks m = (case us_Value m of Some (Webhooks ws) \<Rightarrow> Some ws | _ \<Rightarrow> None)"

text \<open>\<open>GetMemoViews().GetMemoViews()\<close>, which is safe on nil.\<close>

definition GetMemoViews :: "UserSetting \<Rightarrow> MemoView list" where
  "GetMemoViews m = (case us_Value m of Some (MemoViews vs) \<Rightarrow> vs | _ \<Rightarrow> [])"

text \<open>The message that \<open>convertUserSettingToRaw\<close> marshals: a value of another kind reads as the empty message.\<close>

definition value_of_kind :: "UserSetting_Key \<Rightarrow> setting_value option \<Rightarrow> setting_value option" where
  "value_of_kind k v =
     (case (k, v) of
        (KEY_UNSPECIFIED, _) \<Rightarrow> None
      | (GENERAL, Some (General g)) \<Rightarrow> Some (General g)
      | (GENERAL, _) \<Rightarrow> Some (General \<lparr>gs_Locale = [], gs_MemoVisibility = [], gs_Theme = [], gs_SaveMediaMetadata = False\<rparr>)
      | (MEMO_VIEWS, Some (MemoViews vs)) \<Rightarrow> Some (MemoViews vs) | (MEMO_VIEWS, _) \<Rightarrow> Some (MemoViews [])
      | (WEBHOOKS, Some (Webhooks ws)) \<Rightarrow> Some (Webhooks ws) | (WEBHOOKS, _) \<Rightarrow> Some (Webhooks [])
      | (REFRESH_TOKENS, Some (RefreshTokens ts)) \<Rightarrow> Some (RefreshTokens ts) | (REFRESH_TOKENS, _) \<Rightarrow> Some (RefreshTokens [])
      | (PERSONAL_ACCESS_TOKENS, Some (PersonalAccessTokens ts)) \<Rightarrow> Some (PersonalAccessTokens ts)
      | (PERSONAL_ACCESS_TOKENS, _) \<Rightarrow> Some (PersonalAccessTokens [])
      | (TAGS, Some (Tags ts)) \<Rightarrow> Some (Tags ts) | (TAGS, _) \<Rightarrow> Some (Tags (\<lambda>_. None)))"

definition kind_of :: "setting_value \<Rightarrow> UserSetting_Key" where
  "kind_of v =
     (case v of General _ \<Rightarrow> GENERAL | MemoViews _ \<Rightarrow> MEMO_VIEWS | Webhooks _ \<Rightarrow> WEBHOOKS | RefreshTokens _ \<Rightarrow> REFRESH_TOKENS
      | PersonalAccessTokens _ \<Rightarrow> PERSONAL_ACCESS_TOKENS | Tags _ \<Rightarrow> TAGS)"

section \<open>Conversion\<close>

text \<open>\<open>protojson.Marshal\<close>, \<open>Unmarshal\<close> into a message of the given kind, and what SQLite's \<open>json_extract\<close>
  reads as the token hashes of a stored text.\<close>

record codec =
  cd_marshal :: "setting_value \<Rightarrow> store_error + string"
  cd_unmarshal :: "UserSetting_Key \<Rightarrow> string \<Rightarrow> store_error + setting_value"
  cd_json_hashes :: "string \<Rightarrow> string list"

text \<open>What the store relies on: a message that was marshalled is read back, as a message of its kind, and
  the database sees the hashes of its tokens.\<close>

definition codec_ok :: "codec \<Rightarrow> bool" where
  "codec_ok cdc =
     ((\<forall>v text. cd_marshal cdc v = Inr text \<longrightarrow> cd_unmarshal cdc (kind_of v) text = Inr v)
      \<and> (\<forall>k text v. cd_unmarshal cdc k text = Inr v \<longrightarrow> kind_of v = k)
      \<and> (\<forall>ts text h. cd_marshal cdc (PersonalAccessTokens ts) = Inr text \<longrightarrow> h \<noteq> [] \<longrightarrow>
           (h \<in> set (cd_json_hashes cdc text) \<longleftrightarrow> h \<in> pat_TokenHash ` set ts)))"

definition convertUserSettingFromRaw :: "codec \<Rightarrow> RawUserSetting \<Rightarrow> store_error + UserSetting option" where
  "convertUserSettingFromRaw cdc raw =
     (if raw_Key raw = KEY_UNSPECIFIED then Inr None
      else case cd_unmarshal cdc (raw_Key raw) (raw_Value raw) of
             Inl e \<Rightarrow> Inl (if raw_Key raw = TAGS then WrapError e ''unmarshal tags user setting'' else e)
           | Inr v \<Rightarrow> Inr (Some \<lparr>us_UserId = raw_UserID raw, us_Key = raw_Key raw, us_Value = Some v\<rparr>))"

definition convertUserSettingToRaw :: "codec \<Rightarrow> UserSetting \<Rightarrow> store_error + RawUserSetting" where
  "convertUserSettingToRaw cdc m =
     (case value_of_kind (us_Key m) (us_Value m) of
        None \<Rightarrow> Inl (NewError ''unsupported user setting key'')
      | Some v \<Rightarrow>
          (case cd_marshal cdc v of
             Inl e \<Rightarrow> Inl (if us_Key m = TAGS then WrapError e ''marshal tags user setting'' else e)
           | Inr text \<Rightarrow> Inr \<lparr>raw_UserID = us_UserId m, raw_Key = us_Key m, raw_Value = text\<rparr>))"

section \<open>Statements of the driver\<close>

definition DB_UpsertUserSetting :: "RawUserSetting \<Rightarrow> db \<Rightarrow> RawUserSetting \<times> db" where
  "DB_UpsertUserSetting upsert d =
     (let here = (\<lambda>r. us_user_id r = raw_UserID upsert \<and> us_key r = KeyString (raw_Key upsert))
      in (upsert,
          d\<lparr>db_user_setting :=
             (if \<exists>r \<in> set (db_user_setting d). here r
              then update_rows here (\<lambda>r. r\<lparr>us_value := raw_Value upsert\<rparr>) (db_user_setting d)
              else db_user_setting d @ [\<lparr>us_user_id = raw_UserID upsert, us_key = KeyString (raw_Key upsert),
                                          us_value = raw_Value upsert\<rparr>])\<rparr>))"

definition setting_matches :: "FindUserSetting \<Rightarrow> user_setting_row \<Rightarrow> bool" where
  "setting_matches q r =
     ((fs_Key q = KEY_UNSPECIFIED \<or> us_key r = KeyString (fs_Key q)) \<and> opt_eq (fs_UserID q) (us_user_id r))"

definition raw_of_row :: "user_setting_row \<Rightarrow> RawUserSetting" where
  "raw_of_row r = \<lparr>raw_UserID = us_user_id r, raw_Key = Key_of_string (us_key r), raw_Value = us_value r\<rparr>"

definition DB_ListUserSettings :: "FindUserSetting \<Rightarrow> db \<Rightarrow> RawUserSetting list" where
  "DB_ListUserSettings q d = map raw_of_row (filter (setting_matches q) (db_user_setting d))"

definition DB_DeleteUserSettings :: "FindUserSetting \<Rightarrow> db \<Rightarrow> db" where
  "DB_DeleteUserSettings q d = d\<lparr>db_user_setting := filter (\<lambda>r. \<not> setting_matches q r) (db_user_setting d)\<rparr>"

definition DB_GetUserByPATHash :: "codec \<Rightarrow> string \<Rightarrow> db \<Rightarrow> store_error + (int32 \<times> PersonalAccessToken)" where
  "DB_GetUserByPATHash cdc tokenHash d =
     (case first_row (filter (\<lambda>r. us_key r = ''PERSONAL_ACCESS_TOKENS'' \<and> tokenHash \<in> set (cd_json_hashes cdc (us_value r)))
             (db_user_setting d)) of
        None \<Rightarrow> Inl ErrNoRows
      | Some r \<Rightarrow>
          bindE (cd_unmarshal cdc PERSONAL_ACCESS_TOKENS (us_value r)) (\<lambda>v.
            case first_row (filter (\<lambda>pat. pat_TokenHash pat = tokenHash)
                   (case v of PersonalAccessTokens ts \<Rightarrow> ts | _ \<Rightarrow> [])) of
              None \<Rightarrow> Inl (NewError ''PAT not found'')
            | Some pat \<Rightarrow> Inr (us_user_id r, pat)))"

section \<open>The store\<close>

text \<open>An operation returns its result and the store it leaves, with or without an error.\<close>

type_synonym 'a op = "UserSetting Store \<Rightarrow> (store_error + 'a) \<times> UserSetting Store"

definition bindS :: "'a op \<Rightarrow> ('a \<Rightarrow> 'b op) \<Rightarrow> 'b op" where
  "bindS m f s = (case m s of (Inl e, s') \<Rightarrow> (Inl e, s') | (Inr a, s') \<Rightarrow> f a s')"

definition wrapS :: "string \<Rightarrow> 'a op \<Rightarrow> 'a op" where
  "wrapS msg m s = (case m s of (Inl e, s') \<Rightarrow> (Inl (WrapError e msg), s') | (Inr a, s') \<Rightarrow> (Inr a, s'))"

definition liftS :: "store_error + 'a \<Rightarrow> 'a op" where
  "liftS r s = (r, s)"

abbreviation returnS :: "'a \<Rightarrow> 'a op" where "returnS a \<equiv> liftS (Inr a)"

definition cache_setting :: "UserSetting range_order \<Rightarrow> UserSetting \<Rightarrow> UserSetting Store \<Rightarrow> UserSetting Store" where
  "cache_setting rng m s =
     s\<lparr>st_userSettingCache := Cache_Set rng (st_clock s) (getUserSettingCacheKey (us_UserId m) (KeyString (us_Key m)))
         (AnyOther m) (st_userSettingCache s)\<rparr>"

definition Store_UpsertUserSetting :: "UserSetting range_order \<Rightarrow> codec \<Rightarrow> UserSetting \<Rightarrow> UserSetting op" where
  "Store_UpsertUserSetting rng cdc upsert s =
     (case convertUserSettingToRaw cdc upsert of
        Inl e \<Rightarrow> (Inl e, s)
      | Inr raw \<Rightarrow>
          (let (raw, d) = DB_UpsertUserSetting raw (st_db s); s = s\<lparr>st_db := d\<rparr>
           in case convertUserSettingFromRaw cdc raw of
                Inl e \<Rightarrow> (Inl e, s)
              | Inr None \<Rightarrow> (Inl (NewError ''unexpected nil user setting''), s)
              | Inr (Some m) \<Rightarrow> (Inr m, cache_setting rng m s)))"

fun list_settings :: "UserSetting range_order \<Rightarrow> codec \<Rightarrow> RawUserSetting list \<Rightarrow> UserSetting list op" where
  "list_settings rng cdc [] s = (Inr [], s)"
| "list_settings rng cdc (raw # raws) s =
     (case convertUserSettingFromRaw cdc raw of
        Inl e \<Rightarrow> (Inl e, s)
      | Inr None \<Rightarrow> list_settings rng cdc raws s
      | Inr (Some m) \<Rightarrow>
          (case list_settings rng cdc raws (cache_setting rng m s) of
             (Inl e, s') \<Rightarrow> (Inl e, s')
           | (Inr ms, s') \<Rightarrow> (Inr (m # ms), s')))"

definition Store_ListUserSettings :: "UserSetting range_order \<Rightarrow> codec \<Rightarrow> FindUserSetting \<Rightarrow> UserSetting list op" where
  "Store_ListUserSettings rng cdc q s = list_settings rng cdc (DB_ListUserSettings q (st_db s)) s"

definition get_setting_from_db :: "UserSetting range_order \<Rightarrow> codec \<Rightarrow> FindUserSetting \<Rightarrow> UserSetting option op" where
  "get_setting_from_db rng cdc q =
     bindS (Store_ListUserSettings rng cdc q) (\<lambda>list.
       case list of
         [] \<Rightarrow> returnS None
       | [m] \<Rightarrow> (\<lambda>s. (Inr (Some m), cache_setting rng m s))
       | _ \<Rightarrow> liftS (Inl (NewError (''expected 1 user setting, but got '' @ decimal (length list)))))"

definition Store_GetUserSetting :: "UserSetting range_order \<Rightarrow> codec \<Rightarrow> FindUserSetting \<Rightarrow> UserSetting option op" where
  "Store_GetUserSetting rng cdc q s =
     (case fs_UserID q of
        None \<Rightarrow> get_setting_from_db rng cdc q s
      | Some uid \<Rightarrow>
          (let (cached, c) = Cache_Get (st_clock s) (getUserSettingCacheKey uid (KeyString (fs_Key q))) (st_userSettingCache s);
               s = s\<lparr>st_userSettingCache := c\<rparr>
           in case cached of
                Some (AnyOther m) \<Rightarrow> (Inr (Some m), s)
              | _ \<Rightarrow> get_setting_from_db rng cdc q s))"

definition Store_DeleteUserSettings :: "UserSetting range_order \<Rightarrow> codec \<Rightarrow> FindUserSetting \<Rightarrow> unit op" where
  "Store_DeleteUserSettings rng cdc q =
     bindS (Store_ListUserSettings rng cdc q) (\<lambda>existing s.
       (Inr (), s\<lparr>st_db := DB_DeleteUserSettings q (st_db s),
                  st_userSettingCache := fold (\<lambda>m. Cache_Delete (getUserSettingCacheKey (us_UserId m) (KeyString (us_Key m))))
                    existing (st_userSettingCache s)\<rparr>))"

definition setting_query :: "int32 \<Rightarrow> UserSetting_Key \<Rightarrow> FindUserSetting" where
  "setting_query userID k = \<lparr>fs_UserID = Some userID, fs_Key = k\<rparr>"

definition upsert_value :: "UserSetting range_order \<Rightarrow> codec \<Rightarrow> int32 \<Rightarrow> setting_value \<Rightarrow> unit op" where
  "upsert_value rng cdc userID v =
     bindS (Store_UpsertUserSetting rng cdc \<lparr>us_UserId = userID, us_Key = kind_of v, us_Value = Some v\<rparr>) (\<lambda>_. returnS ())"

section \<open>Refresh tokens\<close>

definition GetUserRefreshTokens :: "UserSetting range_order \<Rightarrow> codec \<Rightarrow> int32 \<Rightarrow> RefreshToken list op" where
  "GetUserRefreshTokens rng cdc userID =
     bindS (Store_GetUserSetting rng cdc (setting_query userID REFRESH_TOKENS)) (\<lambda>m.
       case m of
         None \<Rightarrow> returnS []
       | Some m \<Rightarrow> (case GetRefreshTokens m of None \<Rightarrow> liftS (Inl nil_panic) | Some ts \<Rightarrow> returnS ts))"

definition AddUserRefreshToken :: "UserSetting range_order \<Rightarrow> codec \<Rightarrow> int32 \<Rightarrow> RefreshToken \<Rightarrow> unit op" where
  "AddUserRefreshToken rng cdc userID token =
     bindS (GetUserRefreshTokens rng cdc userID) (\<lambda>tokens.
       upsert_value rng cdc userID (RefreshTokens (tokens @ [token])))"

definition RemoveUserRefreshToken :: "UserSetting range_order \<Rightarrow> codec \<Rightarrow> int32 \<Rightarrow> string \<Rightarrow> unit op" where
  "RemoveUserRefreshToken rng cdc userID tokenID =
     bindS (GetUserRefreshTokens rng cdc userID) (\<lambda>existingTokens.
       upsert_value rng cdc userID (RefreshTokens (filter (\<lambda>t. rt_TokenId t \<noteq> tokenID) existingTokens)))"

definition GetUserRefreshTokenByID ::
    "UserSetting range_order \<Rightarrow> codec \<Rightarrow> int32 \<Rightarrow> string \<Rightarrow> RefreshToken option op" where
  "GetUserRefreshTokenByID rng cdc userID tokenID =
     bindS (GetUserRefreshTokens rng cdc userID) (\<lambda>tokens.
       returnS (first_row (filter (\<lambda>t. rt_TokenId t = tokenID) tokens)))"

section \<open>Personal access tokens\<close>

definition GetUserPersonalAccessTokens :: "UserSetting range_order \<Rightarrow> codec \<Rightarrow> int32 \<Rightarrow> PersonalAccessToken list op" where
  "GetUserPersonalAccessTokens rng cdc userID =
     bindS (Store_GetUserSetting rng cdc (setting_query userID PERSONAL_ACCESS_TOKENS)) (\<lambda>m.
       case m of
         None \<Rightarrow> returnS []
       | Some m \<Rightarrow> (case GetPersonalAccessTokens m of None \<Rightarrow> liftS (Inl nil_panic) | Some ts \<Rightarrow> returnS ts))"

definition AddUserPersonalAccessToken :: "UserSetting range_order \<Rightarrow> codec \<Rightarrow> int32 \<Rightarrow> PersonalAccessToken \<Rightarrow> unit op" where
  "AddUserPersonalAccessToken rng cdc userID token =
     bindS (GetUserPersonalAccessTokens rng cdc userID) (\<lambda>tokens.
       upsert_value rng cdc userID (PersonalAccessTokens (tokens @ [token])))"

definition RemoveUserPersonalAccessToken :: "UserSetting range_order \<Rightarrow> codec \<Rightarrow> int32 \<Rightarrow> string \<Rightarrow> unit op" where
  "RemoveUserPersonalAccessToken rng cdc userID tokenID =
     bindS (GetUserPersonalAccessTokens rng cdc userID) (\<lambda>existingTokens.
       upsert_value rng cdc userID (PersonalAccessTokens (filter (\<lambda>t. pat_TokenId t \<noteq> tokenID) existingTokens)))"

text \<open>The loop of \<open>UpdatePATLastUsed\<close>: \<open>None\<close> when it stores nothing.\<close>

fun touch_token :: "string \<Rightarrow> timestamp option \<Rightarrow> PersonalAccessToken list \<Rightarrow> PersonalAccessToken list option" where
  "touch_token tokenID lastUsed [] = None"
| "touch_token tokenID lastUsed (token # tokens) =
     (if pat_TokenId token = tokenID
      then (case (lastUsed, pat_LastUsedAt token) of
              (Some new, Some old) \<Rightarrow> if \<not> old < new then None else Some (token\<lparr>pat_LastUsedAt := lastUsed\<rparr> # tokens)
            | _ \<Rightarrow> Some (token\<lparr>pat_LastUsedAt := lastUsed\<rparr> # tokens))
      else map_option ((#) token) (touch_token tokenID lastUsed tokens))"

definition UpdatePATLastUsed ::
    "UserSetting range_order \<Rightarrow> codec \<Rightarrow> int32 \<Rightarrow> string \<Rightarrow> timestamp option \<Rightarrow> unit op" where
  "UpdatePATLastUsed rng cdc userID tokenID lastUsed =
     bindS (GetUserPersonalAccessTokens rng cdc userID) (\<lambda>tokens.
       case touch_token tokenID lastUsed tokens of
         None \<Rightarrow> returnS ()
       | Some updatedTokens \<Rightarrow> upsert_value rng cdc userID (PersonalAccessTokens updatedTokens))"

definition Store_GetUserByPATHash ::
    "User range_order \<Rightarrow> codec \<Rightarrow> string \<Rightarrow> (int32 \<times> User \<times> PersonalAccessToken) op" where
  "Store_GetUserByPATHash rngU cdc tokenHash s =
     (case DB_GetUserByPATHash cdc tokenHash (st_db s) of
        Inl e \<Rightarrow> (Inl e, s)
      | Inr (userID, pat) \<Rightarrow>
          (case Store_GetUser rngU (no_find_user\<lparr>fu_ID := Some userID\<rparr>) s of
             Inl e \<Rightarrow> (Inl e, s)
           | Inr (None, s) \<Rightarrow> (Inl (NewError ''user not found for PAT''), s)
           | Inr (Some user, s) \<Rightarrow> (Inr (userID, user, pat), s)))"

section \<open>Webhooks\<close>

definition GetUserWebhooks :: "UserSetting range_order \<Rightarrow> codec \<Rightarrow> int32 \<Rightarrow> Webhook list op" where
  "GetUserWebhooks rng cdc userID =
     bindS (Store_GetUserSetting rng cdc (setting_query userID WEBHOOKS)) (\<lambda>m.
       case m of
         None \<Rightarrow> returnS []
       | Some m \<Rightarrow> (case GetWebhooks m of None \<Rightarrow> liftS (Inl nil_panic) | Some ws \<Rightarrow> returnS ws))"

definition AddUserWebhook :: "UserSetting range_order \<Rightarrow> codec \<Rightarrow> int32 \<Rightarrow> Webhook \<Rightarrow> unit op" where
  "AddUserWebhook rng cdc userID webhook =
     bindS (GetUserWebhooks rng cdc userID) (\<lambda>existingWebhooks.
       let updatedWebhooks = map (\<lambda>w. if wh_Id w = wh_Id webhook then webhook else w) existingWebhooks;
           webhookExists = (\<exists>w \<in> set existingWebhooks. wh_Id w = wh_Id webhook)
       in upsert_value rng cdc userID (Webhooks (if webhookExists then updatedWebhooks else updatedWebhooks @ [webhook])))"

definition RemoveUserWebhook :: "UserSetting range_order \<Rightarrow> codec \<Rightarrow> int32 \<Rightarrow> string \<Rightarrow> unit op" where
  "RemoveUserWebhook rng cdc userID webhookID =
     bindS (GetUserWebhooks rng cdc userID) (\<lambda>oldWebhooks.
       upsert_value rng cdc userID (Webhooks (filter (\<lambda>w. webhookID \<noteq> wh_Id w) oldWebhooks)))"

fun replace_webhook :: "Webhook \<Rightarrow> Webhook list \<Rightarrow> Webhook list" where
  "replace_webhook webhook [] = []"
| "replace_webhook webhook (w # ws) = (if wh_Id w = wh_Id webhook then webhook # ws else w # replace_webhook webhook ws)"

text \<open>\<open>webhooks[i] = webhook\<close> writes into the slice of the message that the cache holds, when it still holds
  it.\<close>

definition assign_cached_webhooks :: "int32 \<Rightarrow> Webhook list \<Rightarrow> UserSetting Store \<Rightarrow> UserSetting Store" where
  "assign_cached_webhooks userID ws s =
     (let key = getUserSettingCacheKey userID (KeyString WEBHOOKS); c = st_userSettingCache s
      in s\<lparr>st_userSettingCache := c\<lparr>c_data := map (\<lambda>(k, itm). (k,
           if k = key then itm\<lparr>it_value := (case it_value itm of
               AnyOther m \<Rightarrow> AnyOther (m\<lparr>us_Value := Some (Webhooks ws)\<rparr>) | v \<Rightarrow> v)\<rparr> else itm)) (c_data c)\<rparr>\<rparr>)"

definition UpdateUserWebhook :: "UserSetting range_order \<Rightarrow> codec \<Rightarrow> int32 \<Rightarrow> Webhook \<Rightarrow> unit op" where
  "UpdateUserWebhook rng cdc userID webhook =
     bindS (GetUserWebhooks rng cdc userID) (\<lambda>webhooks s.
       let updated = replace_webhook webhook webhooks
       in upsert_value rng cdc userID (Webhooks updated)
            (if \<exists>w \<in> set webhooks. wh_Id w = wh_Id webhook then assign_cached_webhooks userID updated s else s))"

section \<open>Memo views\<close>

definition GetUserMemoViews :: "UserSetting range_order \<Rightarrow> codec \<Rightarrow> int32 \<Rightarrow> MemoView list op" where
  "GetUserMemoViews rng cdc userID =
     bindS (wrapS ''get memo views user setting'' (Store_GetUserSetting rng cdc (setting_query userID MEMO_VIEWS))) (\<lambda>m.
       returnS (case m of None \<Rightarrow> [] | Some m \<Rightarrow> GetMemoViews m))"

definition upsertUserMemoViews :: "UserSetting range_order \<Rightarrow> codec \<Rightarrow> int32 \<Rightarrow> MemoView list \<Rightarrow> unit op" where
  "upsertUserMemoViews rng cdc userID memoViews =
     wrapS ''upsert memo views user setting'' (upsert_value rng cdc userID (MemoViews memoViews))"

definition AddUserMemoView :: "UserSetting range_order \<Rightarrow> codec \<Rightarrow> int32 \<Rightarrow> MemoView \<Rightarrow> unit op" where
  "AddUserMemoView rng cdc userID memoView =
     bindS (wrapS ''get existing memo views'' (GetUserMemoViews rng cdc userID)) (\<lambda>existing.
       wrapS ''add memo view'' (upsertUserMemoViews rng cdc userID (existing @ [memoView])))"

definition update_view :: "string option \<Rightarrow> string option \<Rightarrow> MemoView \<Rightarrow> MemoView" where
  "update_view title flt item =
     \<lparr>mv_Id = mv_Id item, mv_Title = set_opt title (mv_Title item), mv_Filter = set_opt flt (mv_Filter item)\<rparr>"

definition UpdateUserMemoView ::
    "UserSetting range_order \<Rightarrow> codec \<Rightarrow> int32 \<Rightarrow> string \<Rightarrow> string option \<Rightarrow> string option \<Rightarrow> MemoView option op" where
  "UpdateUserMemoView rng cdc userID memoViewID title flt =
     bindS (wrapS ''get existing memo views'' (GetUserMemoViews rng cdc userID)) (\<lambda>existing.
       let found = filter (\<lambda>item. mv_Id item = memoViewID) existing;
           memoViews = map (\<lambda>item. if mv_Id item = memoViewID then update_view title flt item else item) existing
       in if found = [] then returnS None
          else bindS (wrapS ''update memo view'' (upsertUserMemoViews rng cdc userID memoViews)) (\<lambda>_.
                 returnS (Some (update_view title flt (last found)))))"

definition RemoveUserMemoView :: "UserSetting range_order \<Rightarrow> codec \<Rightarrow> int32 \<Rightarrow> string \<Rightarrow> bool op" where
  "RemoveUserMemoView rng cdc userID memoViewID =
     bindS (wrapS ''get existing memo views'' (GetUserMemoViews rng cdc userID)) (\<lambda>existing.
       if \<not> (\<exists>item \<in> set existing. mv_Id item = memoViewID) then returnS False
       else bindS (wrapS ''remove memo view''
              (upsertUserMemoViews rng cdc userID (filter (\<lambda>item. mv_Id item \<noteq> memoViewID) existing))) (\<lambda>_.
              returnS True))"

end
