(* ===== verification/Settings_Invariant.thy ===== *)
theory Settings_Invariant
  imports User_Settings
begin

text \<open>
  The user settings as a map from users and keys to values, and the invariant of the table and its
  cache that makes every operation of \<open>User_Settings\<close> act on this map.
\<close>

section \<open>Keys\<close>

lemma split_at_last:
  assumes "xs @ c # ys = xs' @ c # ys'" "c \<notin> set ys" "c \<notin> set ys'"
  shows "xs = xs' \<and> ys = ys'"
proof -
  have tw: "takeWhile (\<lambda>x. x \<noteq> c) (rev (as @ c # bs)) = rev bs" if "c \<notin> set bs" for as bs
    using that by (subst rev.simps(2) rev_append; simp)+ (auto simp: takeWhile_append)
  have "ys = ys'" using tw [of ys xs] tw [of ys' xs'] assms by simp
  with assms(1) show ?thesis by simp
qed

lemma KeyString_inj [simp]: "KeyString k = KeyString l \<longleftrightarrow> k = l"
  by (cases k; cases l) (simp_all add: KeyString_def)

lemma KeyString_no_minus: "CHR ''-'' \<notin> set (KeyString k)"
  by (cases k) (simp_all add: KeyString_def)

lemma Key_of_KeyString [simp]: "Key_of_string (KeyString k) = k"
  by (cases k) (simp_all add: Key_of_string_def all_keys_def KeyString_def)

lemma setting_cache_key_inj [simp]:
  "getUserSettingCacheKey u (KeyString k) = getUserSettingCacheKey u' (KeyString k') \<longleftrightarrow> u = u' \<and> k = k'"
proof
  assume eq: "getUserSettingCacheKey u (KeyString k) = getUserSettingCacheKey u' (KeyString k')"
  show "u = u' \<and> k = k'"
    using split_at_last [of "itoa u" "CHR ''-''" "KeyString k" "itoa u'" "KeyString k'"] KeyString_no_minus [of k]
      KeyString_no_minus [of k'] eq
    by (simp add: getUserSettingCacheKey_def)
qed simp

lemma kind_of_specified [simp]: "kind_of v \<noteq> KEY_UNSPECIFIED"
  by (cases v) (simp_all add: kind_of_def)

lemma value_of_kind_Some: "value_of_kind k v = Some w \<Longrightarrow> kind_of w = k"
  by (cases k) (auto simp: value_of_kind_def kind_of_def split: option.splits setting_value.splits)

lemma value_of_kind_id [simp]: "value_of_kind (kind_of v) (Some v) = Some v"
  by (cases v) (simp_all add: value_of_kind_def kind_of_def)

section \<open>The stored values\<close>

definition value_of_row :: "codec \<Rightarrow> user_setting_row \<Rightarrow> setting_value option" where
  "value_of_row cdc r =
     (case cd_unmarshal cdc (Key_of_string (us_key r)) (us_value r) of Inr v \<Rightarrow> Some v | Inl _ \<Rightarrow> None)"

definition message_of :: "codec \<Rightarrow> user_setting_row \<Rightarrow> UserSetting" where
  "message_of cdc r = \<lparr>us_UserId = us_user_id r, us_Key = Key_of_string (us_key r), us_Value = value_of_row cdc r\<rparr>"

abbreviation is_row :: "int32 \<Rightarrow> UserSetting_Key \<Rightarrow> user_setting_row \<Rightarrow> bool" where
  "is_row u k r \<equiv> us_user_id r = u \<and> us_key r = KeyString k"

definition stored :: "codec \<Rightarrow> db \<Rightarrow> int32 \<Rightarrow> UserSetting_Key \<Rightarrow> setting_value option" where
  "stored cdc d u k = Option.bind (first_row (filter (is_row u k) (db_user_setting d))) (value_of_row cdc)"

definition rows_ok :: "codec \<Rightarrow> db \<Rightarrow> bool" where
  "rows_ok cdc d =
     (distinct (map (\<lambda>r. (us_user_id r, us_key r)) (db_user_setting d))
      \<and> (\<forall>r \<in> set (db_user_setting d). \<exists>v. us_key r = KeyString (kind_of v) \<and> cd_marshal cdc v = Inr (us_value r)))"

definition setting_source :: "codec \<Rightarrow> db \<Rightarrow> string \<Rightarrow> UserSetting any option" where
  "setting_source cdc d key =
     map_option (AnyOther \<circ> message_of cdc)
       (first_row (filter (\<lambda>r. getUserSettingCacheKey (us_user_id r) (us_key r) = key) (db_user_setting d)))"

definition settings_inv :: "codec \<Rightarrow> UserSetting Store \<Rightarrow> bool" where
  "settings_inv cdc s =
     (codec_ok cdc \<and> rows_ok cdc (st_db s) \<and> memory_cache.coherent (setting_source cdc (st_db s)) (st_userSettingCache s))"

lemma row_value:
  assumes "codec_ok cdc" "rows_ok cdc d" "r \<in> set (db_user_setting d)"
  obtains v where "us_key r = KeyString (kind_of v)" "value_of_row cdc r = Some v" "cd_marshal cdc v = Inr (us_value r)"
proof -
  obtain v where v: "us_key r = KeyString (kind_of v)" "cd_marshal cdc v = Inr (us_value r)"
    using assms(2,3) by (auto simp: rows_ok_def)
  have "cd_unmarshal cdc (kind_of v) (us_value r) = Inr v" using assms(1) v(2) by (simp add: codec_ok_def)
  then have "value_of_row cdc r = Some v" by (simp add: value_of_row_def v(1))
  from that [OF v(1) this v(2)] show thesis .
qed

lemma convert_row:
  assumes "codec_ok cdc" "rows_ok cdc d" "r \<in> set (db_user_setting d)"
  shows "convertUserSettingFromRaw cdc (raw_of_row r) = Inr (Some (message_of cdc r))"
proof -
  obtain v where v: "us_key r = KeyString (kind_of v)" "value_of_row cdc r = Some v"
    using row_value [OF assms] .
  then show ?thesis
    by (auto simp: convertUserSettingFromRaw_def raw_of_row_def message_of_def value_of_row_def split: sum.splits)
qed

lemma first_row_unique_row:
  "distinct (map f xs) \<Longrightarrow> x \<in> set xs \<Longrightarrow> first_row (filter (\<lambda>y. f y = f x) xs) = Some x"
  by (induction xs) (auto simp: image_iff)

lemma rows_ok_row:
  assumes "rows_ok cdc d" "r \<in> set (db_user_setting d)"
  shows "first_row (filter (\<lambda>r'. us_user_id r' = us_user_id r \<and> us_key r' = us_key r) (db_user_setting d)) = Some r"
proof -
  have "distinct (map (\<lambda>r. (us_user_id r, us_key r)) (db_user_setting d))" using assms(1) by (simp add: rows_ok_def)
  from first_row_unique_row [OF this assms(2)] show ?thesis by simp
qed

lemma source_rows:
  assumes "rows_ok cdc d"
  shows "filter (\<lambda>r. getUserSettingCacheKey (us_user_id r) (us_key r) = getUserSettingCacheKey u (KeyString k)) (db_user_setting d)
    = filter (is_row u k) (db_user_setting d)"
proof (rule filter_cong [OF refl])
  fix r assume "r \<in> set (db_user_setting d)"
  then obtain k' where "us_key r = KeyString k'" using assms by (auto simp: rows_ok_def)
  then show "(getUserSettingCacheKey (us_user_id r) (us_key r) = getUserSettingCacheKey u (KeyString k)) = is_row u k r"
    by simp
qed

lemma source_of_row:
  assumes "rows_ok cdc d" "r \<in> set (db_user_setting d)"
  shows "setting_source cdc d (getUserSettingCacheKey (us_user_id r) (KeyString (us_Key (message_of cdc r))))
    = Some (AnyOther (message_of cdc r))"
proof -
  obtain k where k: "us_key r = KeyString k" using assms by (auto simp: rows_ok_def)
  have "first_row (filter (is_row (us_user_id r) k) (db_user_setting d)) = Some r"
    using rows_ok_row [OF assms] by (simp add: k)
  then show ?thesis by (simp add: setting_source_def source_rows [OF assms(1)] message_of_def k)
qed

section \<open>Reading\<close>

text \<open>What an operation leaves alone besides the settings and their cache.\<close>

definition rest_kept :: "UserSetting Store \<Rightarrow> UserSetting Store \<Rightarrow> bool" where
  "rest_kept s s' = (st_userCache s' = st_userCache s \<and> st_clock s' = st_clock s
     \<and> (\<exists>rows. st_db s' = (st_db s)\<lparr>db_user_setting := rows\<rparr>))"

lemma rest_kept_refl [simp]: "rest_kept s s"
  by (simp add: rest_kept_def exI [of _ "db_user_setting (st_db s)"])

lemma rest_kept_trans: "rest_kept s s' \<Longrightarrow> rest_kept s' s'' \<Longrightarrow> rest_kept s s''"
  by (auto simp: rest_kept_def)

definition read_only :: "UserSetting Store \<Rightarrow> UserSetting Store \<Rightarrow> bool" where
  "read_only s s' = (st_userCache s' = st_userCache s \<and> st_clock s' = st_clock s \<and> st_db s' = st_db s)"

lemma read_only_rest: "read_only s s' \<Longrightarrow> rest_kept s s'"
  by (simp add: read_only_def rest_kept_def exI [of _ "db_user_setting (st_db s)"])

lemma cache_setting_read_only [simp]: "read_only s (cache_setting rng m s)"
  by (simp add: read_only_def cache_setting_def)

lemma cache_setting_inv:
  assumes "settings_inv cdc s" "r \<in> set (db_user_setting (st_db s))"
  shows "settings_inv cdc (cache_setting rng (message_of cdc r) s)"
proof -
  have ok: "rows_ok cdc (st_db s)" using assms(1) by (simp add: settings_inv_def)
  have "memory_cache.coherent (setting_source cdc (st_db s))
      (Cache_Set rng (st_clock s) (getUserSettingCacheKey (us_user_id r) (KeyString (us_Key (message_of cdc r))))
        (AnyOther (message_of cdc r)) (st_userSettingCache s))"
    using assms(1) source_of_row [OF ok assms(2)] unfolding settings_inv_def
    by (intro memory_cache.coherent_refresh) simp_all
  then show ?thesis using assms(1) by (simp add: settings_inv_def cache_setting_def message_of_def)
qed

lemma list_settings_rows:
  assumes "settings_inv cdc s" "set rows \<subseteq> set (db_user_setting (st_db s))"
  shows "\<exists>s'. list_settings rng cdc (map raw_of_row rows) s = (Inr (map (message_of cdc) rows), s')
    \<and> settings_inv cdc s' \<and> read_only s s'"
  using assms
proof (induction rows arbitrary: s)
  case Nil
  then show ?case by (simp add: read_only_def)
next
  case (Cons r rows)
  let ?s = "cache_setting rng (message_of cdc r) s"
  have db: "st_db ?s = st_db s" by (simp add: cache_setting_def)
  obtain s' where s': "list_settings rng cdc (map raw_of_row rows) ?s = (Inr (map (message_of cdc) rows), s')"
    "settings_inv cdc s'" "read_only ?s s'"
    using Cons.IH [of ?s] cache_setting_inv [OF Cons.prems(1)] Cons.prems(2) db by auto
  have "convertUserSettingFromRaw cdc (raw_of_row r) = Inr (Some (message_of cdc r))"
    using convert_row [of cdc "st_db s" r] Cons.prems by (simp add: settings_inv_def)
  with s' show ?case by (simp add: read_only_def cache_setting_def)
qed

lemma ListUserSettings_rows:
  assumes "settings_inv cdc s"
  shows "\<exists>s'. Store_ListUserSettings rng cdc q s
      = (Inr (map (message_of cdc) (filter (setting_matches q) (db_user_setting (st_db s)))), s')
    \<and> settings_inv cdc s' \<and> read_only s s'"
  using list_settings_rows [OF assms, of "filter (setting_matches q) (db_user_setting (st_db s))" rng]
  by (auto simp: Store_ListUserSettings_def DB_ListUserSettings_def)

lemma matching_rows:
  assumes "k \<noteq> KEY_UNSPECIFIED"
  shows "filter (setting_matches (setting_query u k)) rows = filter (is_row u k) rows"
  using assms by (intro filter_cong refl) (auto simp: setting_matches_def setting_query_def opt_eq_def)

lemma one_row:
  assumes "rows_ok cdc d"
  shows "filter (is_row u k) (db_user_setting d)
    = (case first_row (filter (is_row u k) (db_user_setting d)) of None \<Rightarrow> [] | Some r \<Rightarrow> [r])"
proof -
  have "distinct (map (\<lambda>r. (us_user_id r, us_key r)) rows) \<Longrightarrow>
      filter (is_row u k) rows = (case first_row (filter (is_row u k) rows) of None \<Rightarrow> [] | Some r \<Rightarrow> [r])" for rows
    by (induction rows) (auto simp: filter_empty_conv image_iff split: option.splits)
  then show ?thesis using assms by (simp add: rows_ok_def)
qed

lemma stored_message:
  assumes "codec_ok cdc" "rows_ok cdc d"
  shows "map_option (message_of cdc) (first_row (filter (is_row u k) (db_user_setting d)))
    = map_option (\<lambda>v. \<lparr>us_UserId = u, us_Key = k, us_Value = Some v\<rparr>) (stored cdc d u k)"
proof (cases "first_row (filter (is_row u k) (db_user_setting d))")
  case None
  then show ?thesis by (simp add: stored_def)
next
  case (Some r)
  then have r: "r \<in> set (db_user_setting d)" "is_row u k r" using first_row_in [OF Some] by auto
  obtain v where "value_of_row cdc r = Some v" using row_value [OF assms r(1)] .
  then show ?thesis using Some r(2) by (simp add: stored_def message_of_def)
qed

lemma get_setting_from_db_row:
  assumes "settings_inv cdc s" "k \<noteq> KEY_UNSPECIFIED"
  shows "\<exists>s'. get_setting_from_db rng cdc (setting_query u k) s
      = (Inr (map_option (\<lambda>v. \<lparr>us_UserId = u, us_Key = k, us_Value = Some v\<rparr>) (stored cdc (st_db s) u k)), s')
    \<and> settings_inv cdc s' \<and> read_only s s'"
proof -
  have ok: "codec_ok cdc" "rows_ok cdc (st_db s)" using assms(1) by (simp_all add: settings_inv_def)
  obtain s1 where s1: "Store_ListUserSettings rng cdc (setting_query u k) s
      = (Inr (map (message_of cdc) (filter (is_row u k) (db_user_setting (st_db s)))), s1)" "settings_inv cdc s1" "read_only s s1"
    using ListUserSettings_rows [OF assms(1), of rng "setting_query u k"] by (auto simp: matching_rows [OF assms(2)])
  show ?thesis
  proof (cases "first_row (filter (is_row u k) (db_user_setting (st_db s)))")
    case None
    then show ?thesis
      using s1 one_row [OF ok(2), of u k] stored_message [OF ok, of u k]
      by (simp add: get_setting_from_db_def bindS_def liftS_def stored_def)
  next
    case (Some r)
    then have r: "r \<in> set (db_user_setting (st_db s1))" using first_row_in [OF Some] s1(3) by (simp add: read_only_def)
    show ?thesis
      using s1 one_row [OF ok(2), of u k] stored_message [OF ok, of u k] Some
        cache_setting_inv [OF s1(2) r, of rng]
      by (simp add: get_setting_from_db_def bindS_def read_only_def cache_setting_def)
  qed
qed

lemma settings_cache_get:
  "settings_inv cdc s \<Longrightarrow>
    settings_inv cdc (s\<lparr>st_userSettingCache := snd (Cache_Get now key (st_userSettingCache s))\<rparr>)"
  by (simp add: settings_inv_def memory_cache.coherent_get)

lemma source_key:
  assumes "codec_ok cdc" "rows_ok cdc d"
  shows "setting_source cdc d (getUserSettingCacheKey u (KeyString k))
    = map_option (\<lambda>v. AnyOther \<lparr>us_UserId = u, us_Key = k, us_Value = Some v\<rparr>) (stored cdc d u k)"
proof -
  have "setting_source cdc d (getUserSettingCacheKey u (KeyString k))
      = map_option AnyOther (map_option (message_of cdc) (first_row (filter (is_row u k) (db_user_setting d))))"
    by (simp add: setting_source_def source_rows [OF assms(2)] option.map_comp)
  then show ?thesis by (simp add: stored_message [OF assms] option.map_comp comp_def)
qed

lemma GetUserSetting_row:
  assumes "settings_inv cdc s" "k \<noteq> KEY_UNSPECIFIED"
  shows "\<exists>s'. Store_GetUserSetting rng cdc (setting_query u k) s
      = (Inr (map_option (\<lambda>v. \<lparr>us_UserId = u, us_Key = k, us_Value = Some v\<rparr>) (stored cdc (st_db s) u k)), s')
    \<and> settings_inv cdc s' \<and> read_only s s'"
proof -
  let ?key = "getUserSettingCacheKey u (KeyString k)"
  let ?c = "Cache_Get (st_clock s) ?key (st_userSettingCache s)"
  let ?s = "s\<lparr>st_userSettingCache := snd ?c\<rparr>"
  have ok: "codec_ok cdc" "rows_ok cdc (st_db s)" using assms(1) by (simp_all add: settings_inv_def)
  have f: "fs_UserID (setting_query u k) = Some u" "fs_Key (setting_query u k) = k" by (simp_all add: setting_query_def)
  show ?thesis
  proof (cases "\<exists>m. fst ?c = Some (AnyOther m)")
    case True
    then obtain m where m: "fst ?c = Some (AnyOther m)" by blast
    have "setting_source cdc (st_db s) ?key = Some (AnyOther m)"
      using assms(1) m unfolding settings_inv_def by (blast intro: memory_cache.coherentD)
    then have "Some m = map_option (\<lambda>v. \<lparr>us_UserId = u, us_Key = k, us_Value = Some v\<rparr>) (stored cdc (st_db s) u k)"
      unfolding source_key [OF ok] by (cases "stored cdc (st_db s) u k") simp_all
    moreover have "Store_GetUserSetting rng cdc (setting_query u k) s = (Inr (Some m), ?s)"
      using m f by (cases ?c) (simp add: Store_GetUserSetting_def)
    ultimately show ?thesis using settings_cache_get [OF assms(1)] by (auto simp: read_only_def)
  next
    case False
    then have "Store_GetUserSetting rng cdc (setting_query u k) s = get_setting_from_db rng cdc (setting_query u k) ?s"
      using f by (auto simp: Store_GetUserSetting_def Let_def split: prod.splits option.splits any.splits)
    then show ?thesis
      using get_setting_from_db_row [OF settings_cache_get [OF assms(1), of "st_clock s" ?key] assms(2), of rng u]
      by (auto simp: read_only_def)
  qed
qed

section \<open>Writing\<close>

lemma source_other:
  assumes "rows_ok cdc d" "\<And>u k. key \<noteq> getUserSettingCacheKey u (KeyString k)"
  shows "setting_source cdc d key = None"
proof -
  have "filter (\<lambda>r. getUserSettingCacheKey (us_user_id r) (us_key r) = key) (db_user_setting d) = []"
    using assms by (force simp: filter_empty_conv rows_ok_def)
  then show ?thesis unfolding setting_source_def by simp
qed

text \<open>Two tables with the same values give the same source, key by key.\<close>

lemma source_cong:
  assumes "codec_ok cdc" "rows_ok cdc d" "rows_ok cdc d'"
    and "\<And>u k. key = getUserSettingCacheKey u (KeyString k) \<Longrightarrow> stored cdc d' u k = stored cdc d u k"
  shows "setting_source cdc d' key = setting_source cdc d key"
proof (cases "\<exists>u k. key = getUserSettingCacheKey u (KeyString k)")
  case True
  then obtain u k where key: "key = getUserSettingCacheKey u (KeyString k)" by blast
  show ?thesis
    using assms(4) [OF key] unfolding key source_key [OF assms(1,2)] source_key [OF assms(1,3)] by simp
next
  case False
  then show ?thesis using source_other [OF assms(2), of key] source_other [OF assms(3), of key] by auto
qed

definition store_value :: "int32 \<Rightarrow> UserSetting_Key \<Rightarrow> setting_value option \<Rightarrow> (int32 \<Rightarrow> UserSetting_Key \<Rightarrow> setting_value option)
    \<Rightarrow> (int32 \<Rightarrow> UserSetting_Key \<Rightarrow> setting_value option)" where
  "store_value u k v f = (\<lambda>u' k'. if u' = u \<and> k' = k then v else f u' k')"

lemma store_value_at [simp]: "store_value u k v f u k = v"
  by (simp add: store_value_def)

lemma store_value_other: "(u', k') \<noteq> (u, k) \<Longrightarrow> store_value u k v f u' k' = f u' k'"
  by (auto simp: store_value_def)

lemma filter_rows_update:
  "filter (is_row u' k') (update_rows (is_row u k) (\<lambda>r. r\<lparr>us_value := t\<rparr>) rows)
    = (if u' = u \<and> k' = k then map (\<lambda>r. r\<lparr>us_value := t\<rparr>) (filter (is_row u k) rows) else filter (is_row u' k') rows)"
  by (induction rows) auto

lemma first_row_map: "first_row (map f xs) = map_option f (first_row xs)"
  by (cases xs) auto

lemma upsert_rows:
  assumes "codec_ok cdc" "rows_ok cdc d" "cd_marshal cdc v = Inr text"
    and d': "d' = snd (DB_UpsertUserSetting \<lparr>raw_UserID = u, raw_Key = kind_of v, raw_Value = text\<rparr> d)"
  shows "rows_ok cdc d'" "stored cdc d' = store_value u (kind_of v) (Some v) (stored cdc d)"
proof -
  let ?here = "is_row u (kind_of v)"
  let ?new = "\<lparr>us_user_id = u, us_key = KeyString (kind_of v), us_value = text\<rparr>"
  have val: "value_of_row cdc r = Some v" if "us_key r = KeyString (kind_of v)" "us_value r = text" for r
    using assms(1,3) that by (simp add: value_of_row_def codec_ok_def)
  have rows: "db_user_setting d' = (if \<exists>r \<in> set (db_user_setting d). ?here r
      then update_rows ?here (\<lambda>r. r\<lparr>us_value := text\<rparr>) (db_user_setting d) else db_user_setting d @ [?new])"
    unfolding d' DB_UpsertUserSetting_def Let_def by (simp cong: if_cong split del: if_split)
  have keys: "map (\<lambda>r. (us_user_id r, us_key r)) (update_rows ?here (\<lambda>r. r\<lparr>us_value := text\<rparr>) rs)
      = map (\<lambda>r. (us_user_id r, us_key r)) rs" for rs
    by (induction rs) auto
  have old: "\<forall>r \<in> set (db_user_setting d). \<exists>w. us_key r = KeyString (kind_of w) \<and> cd_marshal cdc w = Inr (us_value r)"
    and dist: "distinct (map (\<lambda>r. (us_user_id r, us_key r)) (db_user_setting d))"
    using assms(2) by (simp_all add: rows_ok_def)
  show "rows_ok cdc d'"
  proof (cases "\<exists>r \<in> set (db_user_setting d). ?here r")
    case True
    have eq: "db_user_setting d' = update_rows ?here (\<lambda>r. r\<lparr>us_value := text\<rparr>) (db_user_setting d)" unfolding rows by (rule if_P [OF True])
    have "\<exists>w. us_key r = KeyString (kind_of w) \<and> cd_marshal cdc w = Inr (us_value r)" if "r \<in> set (db_user_setting d')" for r
      using that old assms(3) unfolding eq by (auto split: if_splits)
    then show ?thesis using dist by (simp add: rows_ok_def eq keys)
  next
    case False
    have eq: "db_user_setting d' = db_user_setting d @ [?new]" unfolding rows by (rule if_not_P [OF False])
    show ?thesis using dist old False assms(3) by (auto simp: rows_ok_def eq)
  qed
  have "stored cdc d' u' k' = store_value u (kind_of v) (Some v) (stored cdc d) u' k'" for u' k'
  proof (cases "\<exists>r \<in> set (db_user_setting d). ?here r")
    case True
    have eq: "db_user_setting d' = update_rows ?here (\<lambda>r. r\<lparr>us_value := text\<rparr>) (db_user_setting d)" unfolding rows by (rule if_P [OF True])
    obtain r where r: "first_row (filter ?here (db_user_setting d)) = Some r"
      using True by (cases "filter ?here (db_user_setting d)") (auto simp: filter_empty_conv)
    have "us_key r = KeyString (kind_of v)" using first_row_in [OF r] by simp
    then show ?thesis
      using r val [of "r\<lparr>us_value := text\<rparr>"]
      by (simp add: stored_def store_value_def eq filter_rows_update first_row_map)
  next
    case False
    have eq: "db_user_setting d' = db_user_setting d @ [?new]" unfolding rows by (rule if_not_P [OF False])
    have none: "filter ?here (db_user_setting d) = []" using False by (simp add: filter_empty_conv)
    show ?thesis
      using val [of ?new] none
      by (cases "filter (is_row u' k') (db_user_setting d)") (auto simp: stored_def store_value_def eq)
  qed
  then show "stored cdc d' = store_value u (kind_of v) (Some v) (stored cdc d)" by blast
qed

text \<open>The cache may hold anything under the key that is written.\<close>

definition coherent_but :: "codec \<Rightarrow> string \<Rightarrow> UserSetting Store \<Rightarrow> bool" where
  "coherent_but cdc key s =
     (codec_ok cdc \<and> rows_ok cdc (st_db s)
      \<and> (\<exists>src. memory_cache.coherent src (st_userSettingCache s) \<and> (\<forall>k. k \<noteq> key \<longrightarrow> src k = setting_source cdc (st_db s) k)))"

lemma settings_inv_but: "settings_inv cdc s \<Longrightarrow> coherent_but cdc key s"
  by (auto simp: settings_inv_def coherent_but_def)

lemma UpsertUserSetting_but:
  assumes inv: "coherent_but cdc (getUserSettingCacheKey (us_UserId m) (KeyString (us_Key m))) s"
    and op: "Store_UpsertUserSetting rng cdc m s = (res, s')"
  shows "case res of
      Inl e \<Rightarrow> s' = s
    | Inr m' \<Rightarrow> settings_inv cdc s' \<and> rest_kept s s'
        \<and> (\<exists>v. value_of_kind (us_Key m) (us_Value m) = Some v \<and> m' = m\<lparr>us_Value := Some v\<rparr>
            \<and> stored cdc (st_db s') = store_value (us_UserId m) (us_Key m) (Some v) (stored cdc (st_db s)))"
proof (cases "convertUserSettingToRaw cdc m")
  case (Inl e)
  then show ?thesis using op by (auto simp: Store_UpsertUserSetting_def)
next
  case (Inr raw)
  then obtain v where v: "value_of_kind (us_Key m) (us_Value m) = Some v"
    and raw: "cd_marshal cdc v = Inr (raw_Value raw)" "raw_UserID raw = us_UserId m" "raw_Key raw = us_Key m"
    by (auto simp: convertUserSettingToRaw_def split: option.splits sum.splits)
  have kind: "kind_of v = us_Key m" by (rule value_of_kind_Some [OF v])
  have raw_eq: "raw = \<lparr>raw_UserID = us_UserId m, raw_Key = kind_of v, raw_Value = raw_Value raw\<rparr>"
    using raw kind by simp
  define d' where "d' = snd (DB_UpsertUserSetting raw (st_db s))"
  have ok: "codec_ok cdc" "rows_ok cdc (st_db s)" using inv by (simp_all add: coherent_but_def)
  have d': "d' = snd (DB_UpsertUserSetting \<lparr>raw_UserID = us_UserId m, raw_Key = kind_of v, raw_Value = raw_Value raw\<rparr> (st_db s))"
    unfolding d'_def by (subst raw_eq) (rule refl)
  note new = upsert_rows [OF ok raw(1) d']
  let ?m = "\<lparr>us_UserId = us_UserId m, us_Key = us_Key m, us_Value = Some v\<rparr>"
  let ?key = "getUserSettingCacheKey (us_UserId m) (KeyString (us_Key m))"
  have conv: "convertUserSettingFromRaw cdc raw = Inr (Some ?m)"
  proof -
    have "cd_unmarshal cdc (us_Key m) (raw_Value raw) = Inr v" using ok(1) raw(1) kind [symmetric] by (simp add: codec_ok_def)
    then show ?thesis using raw kind kind_of_specified [of v] by (simp add: convertUserSettingFromRaw_def)
  qed
  have same: "fst (DB_UpsertUserSetting raw (st_db s)) = raw" by (simp add: DB_UpsertUserSetting_def Let_def)
  have res: "res = Inr ?m" "s' = cache_setting rng ?m (s\<lparr>st_db := d'\<rparr>)"
    using op Inr conv same by (auto simp: Store_UpsertUserSetting_def d'_def Let_def split: prod.splits)
  have src: "setting_source cdc d' ?key = Some (AnyOther ?m)"
    using new by (simp add: source_key [OF ok(1) new(1)] kind)
  have other: "setting_source cdc d' key = setting_source cdc (st_db s) key" if "key \<noteq> ?key" for key
    by (rule source_cong [OF ok new(1)]) (use that new(2) kind in \<open>auto simp: store_value_def\<close>)
  obtain src0 where c: "memory_cache.coherent src0 (st_userSettingCache s)"
    and src0: "\<And>k. k \<noteq> ?key \<Longrightarrow> src0 k = setting_source cdc (st_db s) k"
    using inv by (auto simp: coherent_but_def)
  have "memory_cache.coherent (setting_source cdc d') (Cache_Set rng (st_clock s) ?key (AnyOther ?m) (st_userSettingCache s))"
    using c src other src0 by (intro memory_cache.coherent_set [where src = src0]) simp_all
  then have "settings_inv cdc s'"
    using ok(1) new(1) by (simp add: res(2) settings_inv_def cache_setting_def)
  moreover have "rest_kept s s'"
    by (auto simp: res(2) rest_kept_def cache_setting_def d'_def DB_UpsertUserSetting_def Let_def)
  ultimately show ?thesis
    using new(2) v by (simp add: res cache_setting_def kind)
qed

lemma UpsertUserSetting_spec:
  assumes "settings_inv cdc s" "Store_UpsertUserSetting rng cdc m s = (res, s')"
  shows "case res of
      Inl e \<Rightarrow> s' = s
    | Inr m' \<Rightarrow> settings_inv cdc s' \<and> rest_kept s s'
        \<and> (\<exists>v. value_of_kind (us_Key m) (us_Value m) = Some v \<and> m' = m\<lparr>us_Value := Some v\<rparr>
            \<and> stored cdc (st_db s') = store_value (us_UserId m) (us_Key m) (Some v) (stored cdc (st_db s)))"
  by (rule UpsertUserSetting_but [OF settings_inv_but [OF assms(1)] assms(2)])

lemma upsert_value_spec:
  assumes "coherent_but cdc (getUserSettingCacheKey u (KeyString (kind_of v))) s" "upsert_value rng cdc u v s = (res, s')"
  shows "case res of
      Inl e \<Rightarrow> s' = s
    | Inr _ \<Rightarrow> settings_inv cdc s' \<and> rest_kept s s'
        \<and> stored cdc (st_db s') = store_value u (kind_of v) (Some v) (stored cdc (st_db s))"
proof -
  let ?m = "\<lparr>us_UserId = u, us_Key = kind_of v, us_Value = Some v\<rparr>"
  obtain res0 s0 where up: "Store_UpsertUserSetting rng cdc ?m s = (res0, s0)" by (cases "Store_UpsertUserSetting rng cdc ?m s")
  show ?thesis
    using UpsertUserSetting_but [of cdc ?m, simplified, OF assms(1) up] assms(2) up
    by (cases res0) (auto simp: upsert_value_def bindS_def liftS_def)
qed

end
