(* ===== verification/Settings_Runs.thy ===== *)
theory Settings_Runs
  imports Settings_Invariant
begin

text \<open>
  The operations on settings as steps of one process, together with the user operations: what each
  does to the stored values, the invariant of all reachable states, and where the refresh tokens
  of a reachable state come from.
\<close>

section \<open>Reading a kind of setting\<close>

lemma stored_kind:
  assumes "settings_inv cdc s" "stored cdc (st_db s) u k = Some v"
  shows "kind_of v = k"
proof -
  have ok: "codec_ok cdc" using assms(1) by (simp add: settings_inv_def)
  obtain r where r: "first_row (filter (is_row u k) (db_user_setting (st_db s))) = Some r" "value_of_row cdc r = Some v"
    using assms(2) by (auto simp: stored_def bind_eq_Some_conv)
  have "us_key r = KeyString k" using first_row_in [OF r(1)] by simp
  then show ?thesis using r(2) ok by (auto simp: value_of_row_def codec_ok_def split: sum.splits)
qed

definition refresh_tokens :: "setting_value option \<Rightarrow> RefreshToken list" where
  "refresh_tokens v = (case v of Some (RefreshTokens ts) \<Rightarrow> ts | _ \<Rightarrow> [])"

definition access_tokens :: "setting_value option \<Rightarrow> PersonalAccessToken list" where
  "access_tokens v = (case v of Some (PersonalAccessTokens ts) \<Rightarrow> ts | _ \<Rightarrow> [])"

definition webhooks_of :: "setting_value option \<Rightarrow> Webhook list" where
  "webhooks_of v = (case v of Some (Webhooks ws) \<Rightarrow> ws | _ \<Rightarrow> [])"

definition views_of :: "setting_value option \<Rightarrow> MemoView list" where
  "views_of v = (case v of Some (MemoViews vs) \<Rightarrow> vs | _ \<Rightarrow> [])"

lemma kind_cases:
  "kind_of v = REFRESH_TOKENS \<Longrightarrow> \<exists>ts. v = RefreshTokens ts"
  "kind_of v = PERSONAL_ACCESS_TOKENS \<Longrightarrow> \<exists>ps. v = PersonalAccessTokens ps"
  "kind_of v = WEBHOOKS \<Longrightarrow> \<exists>ws. v = Webhooks ws"
  "kind_of v = MEMO_VIEWS \<Longrightarrow> \<exists>vs. v = MemoViews vs"
  by (cases v; simp add: kind_of_def)+

lemma kind_of_simps [simp]:
  "kind_of (RefreshTokens ts) = REFRESH_TOKENS" "kind_of (PersonalAccessTokens ps) = PERSONAL_ACCESS_TOKENS"
  "kind_of (Webhooks ws) = WEBHOOKS" "kind_of (MemoViews vs) = MEMO_VIEWS"
  by (simp_all add: kind_of_def)

lemma GetUserRefreshTokens_value:
  assumes "settings_inv cdc s"
  shows "\<exists>s'. GetUserRefreshTokens rng cdc u s = (Inr (refresh_tokens (stored cdc (st_db s) u REFRESH_TOKENS)), s')
    \<and> settings_inv cdc s' \<and> read_only s s'"
  using GetUserSetting_row [OF assms, of REFRESH_TOKENS rng u] stored_kind [OF assms, of u REFRESH_TOKENS]
  by (cases "stored cdc (st_db s) u REFRESH_TOKENS")
    (auto simp: GetUserRefreshTokens_def bindS_def liftS_def refresh_tokens_def GetRefreshTokens_def dest!: kind_cases)

lemma GetUserPersonalAccessTokens_value:
  assumes "settings_inv cdc s"
  shows "\<exists>s'. GetUserPersonalAccessTokens rng cdc u s = (Inr (access_tokens (stored cdc (st_db s) u PERSONAL_ACCESS_TOKENS)), s')
    \<and> settings_inv cdc s' \<and> read_only s s'"
  using GetUserSetting_row [OF assms, of PERSONAL_ACCESS_TOKENS rng u] stored_kind [OF assms, of u PERSONAL_ACCESS_TOKENS]
  by (cases "stored cdc (st_db s) u PERSONAL_ACCESS_TOKENS")
    (auto simp: GetUserPersonalAccessTokens_def bindS_def liftS_def access_tokens_def GetPersonalAccessTokens_def dest!: kind_cases)

lemma GetUserWebhooks_value:
  assumes "settings_inv cdc s"
  shows "\<exists>s'. GetUserWebhooks rng cdc u s = (Inr (webhooks_of (stored cdc (st_db s) u WEBHOOKS)), s')
    \<and> settings_inv cdc s' \<and> read_only s s'"
  using GetUserSetting_row [OF assms, of WEBHOOKS rng u] stored_kind [OF assms, of u WEBHOOKS]
  by (cases "stored cdc (st_db s) u WEBHOOKS")
    (auto simp: GetUserWebhooks_def bindS_def liftS_def webhooks_of_def GetWebhooks_def dest!: kind_cases)

lemma GetUserMemoViews_value:
  assumes "settings_inv cdc s"
  shows "\<exists>s'. GetUserMemoViews rng cdc u s = (Inr (views_of (stored cdc (st_db s) u MEMO_VIEWS)), s')
    \<and> settings_inv cdc s' \<and> read_only s s'"
  using GetUserSetting_row [OF assms, of MEMO_VIEWS rng u] stored_kind [OF assms, of u MEMO_VIEWS]
  by (cases "stored cdc (st_db s) u MEMO_VIEWS")
    (auto simp: GetUserMemoViews_def bindS_def wrapS_def liftS_def views_of_def GetMemoViews_def dest!: kind_cases)

section \<open>Read, change, write back\<close>

text \<open>What an operation may do: it keeps the invariant and everything but the settings, and its
  failure changes no stored value.\<close>

definition writes :: "codec \<Rightarrow> UserSetting Store \<Rightarrow> UserSetting Store \<Rightarrow> int32 \<Rightarrow> setting_value \<Rightarrow> bool \<Rightarrow> bool" where
  "writes cdc s s' u v success =
     (settings_inv cdc s' \<and> rest_kept s s'
      \<and> stored cdc (st_db s') = (if success then store_value u (kind_of v) (Some v) (stored cdc (st_db s))
          else stored cdc (st_db s)))"

lemma upsert_value_writes:
  assumes "settings_inv cdc s" "read_only s0 s" "upsert_value rng cdc u v s = (res, s')"
  shows "writes cdc s0 s' u v (\<exists>x. res = Inr x)"
proof -
  have "st_db s = st_db s0" "rest_kept s0 s" using assms(2) read_only_rest by (auto simp: read_only_def)
  with upsert_value_spec [OF settings_inv_but [OF assms(1)] assms(3)] assms(1) show ?thesis
    by (cases res) (auto simp: writes_def intro: rest_kept_trans)
qed

lemma modify_writes:
  assumes get: "\<exists>s1. get s = (Inr x, s1) \<and> settings_inv cdc s1 \<and> read_only s s1"
    and op: "bindS get (\<lambda>x. upsert_value rng cdc u (g x)) s = (res, s')"
  shows "writes cdc s s' u (g x) (\<exists>y. res = Inr y)"
proof -
  obtain s1 where s1: "get s = (Inr x, s1)" "settings_inv cdc s1" "read_only s s1" using get by blast
  show ?thesis by (rule upsert_value_writes [OF s1(2,3)]) (use op s1(1) in \<open>simp add: bindS_def\<close>)
qed

lemma AddUserRefreshToken_writes:
  assumes "settings_inv cdc s" "AddUserRefreshToken rng cdc u t s = (res, s')"
  shows "writes cdc s s' u (RefreshTokens (refresh_tokens (stored cdc (st_db s) u REFRESH_TOKENS) @ [t])) (\<exists>y. res = Inr y)"
  by (rule modify_writes [where get = "GetUserRefreshTokens rng cdc u" and s = s, OF GetUserRefreshTokens_value [OF assms(1)], OF assms(2) [unfolded AddUserRefreshToken_def]])

lemma RemoveUserRefreshToken_writes:
  assumes "settings_inv cdc s" "RemoveUserRefreshToken rng cdc u tid s = (res, s')"
  shows "writes cdc s s' u (RefreshTokens (filter (\<lambda>t. rt_TokenId t \<noteq> tid) (refresh_tokens (stored cdc (st_db s) u REFRESH_TOKENS))))
    (\<exists>y. res = Inr y)"
  by (rule modify_writes [where get = "GetUserRefreshTokens rng cdc u" and s = s, OF GetUserRefreshTokens_value [OF assms(1)], OF assms(2) [unfolded RemoveUserRefreshToken_def]])

lemma AddUserPersonalAccessToken_writes:
  assumes "settings_inv cdc s" "AddUserPersonalAccessToken rng cdc u t s = (res, s')"
  shows "writes cdc s s' u (PersonalAccessTokens (access_tokens (stored cdc (st_db s) u PERSONAL_ACCESS_TOKENS) @ [t])) (\<exists>y. res = Inr y)"
  by (rule modify_writes [where get = "GetUserPersonalAccessTokens rng cdc u" and s = s, OF GetUserPersonalAccessTokens_value [OF assms(1)], OF assms(2) [unfolded AddUserPersonalAccessToken_def]])

lemma RemoveUserPersonalAccessToken_writes:
  assumes "settings_inv cdc s" "RemoveUserPersonalAccessToken rng cdc u tid s = (res, s')"
  shows "writes cdc s s' u (PersonalAccessTokens (filter (\<lambda>t. pat_TokenId t \<noteq> tid) (access_tokens (stored cdc (st_db s) u PERSONAL_ACCESS_TOKENS))))
    (\<exists>y. res = Inr y)"
  by (rule modify_writes [where get = "GetUserPersonalAccessTokens rng cdc u" and s = s, OF GetUserPersonalAccessTokens_value [OF assms(1)], OF assms(2) [unfolded RemoveUserPersonalAccessToken_def]])

lemma RemoveUserWebhook_writes:
  assumes "settings_inv cdc s" "RemoveUserWebhook rng cdc u wid s = (res, s')"
  shows "writes cdc s s' u (Webhooks (filter (\<lambda>w. wid \<noteq> wh_Id w) (webhooks_of (stored cdc (st_db s) u WEBHOOKS)))) (\<exists>y. res = Inr y)"
  by (rule modify_writes [where get = "GetUserWebhooks rng cdc u" and s = s, OF GetUserWebhooks_value [OF assms(1)], OF assms(2) [unfolded RemoveUserWebhook_def]])

lemma AddUserWebhook_writes:
  assumes "settings_inv cdc s" "AddUserWebhook rng cdc u w s = (res, s')"
  shows "\<exists>ws. writes cdc s s' u (Webhooks ws) (\<exists>y. res = Inr y)"
  using modify_writes [where get = "GetUserWebhooks rng cdc u" and s = s, OF GetUserWebhooks_value [OF assms(1)], OF assms(2) [unfolded AddUserWebhook_def Let_def]] by blast

lemma UpdatePATLastUsed_writes:
  assumes "settings_inv cdc s" "UpdatePATLastUsed rng cdc u tid t s = (res, s')"
  shows "\<exists>ps success. writes cdc s s' u (PersonalAccessTokens ps) success"
proof -
  let ?ts = "access_tokens (stored cdc (st_db s) u PERSONAL_ACCESS_TOKENS)"
  obtain s1 where s1: "GetUserPersonalAccessTokens rng cdc u s = (Inr ?ts, s1)" "settings_inv cdc s1" "read_only s s1"
    using GetUserPersonalAccessTokens_value [OF assms(1)] by blast
  show ?thesis
  proof (cases "touch_token tid t ?ts")
    case None
    then have "s' = s1" using assms(2) s1(1) by (simp add: UpdatePATLastUsed_def bindS_def liftS_def)
    then have "writes cdc s s' u (PersonalAccessTokens []) False"
      using s1(2,3) read_only_rest [OF s1(3)] by (simp add: writes_def read_only_def)
    then show ?thesis by blast
  next
    case (Some ts)
    then have "upsert_value rng cdc u (PersonalAccessTokens ts) s1 = (res, s')"
      using assms(2) s1(1) by (simp add: UpdatePATLastUsed_def bindS_def)
    from upsert_value_writes [OF s1(2,3) this] show ?thesis by blast
  qed
qed

lemma map_of_map_items: "map_of (map (\<lambda>(k, x). (k, f k x)) xs) key = map_option (f key) (map_of xs key)"
  by (induction xs) auto

lemma assign_cached_coherent:
  assumes "settings_inv cdc s"
  shows "coherent_but cdc (getUserSettingCacheKey u (KeyString WEBHOOKS)) (assign_cached_webhooks u ws s)"
proof -
  let ?key = "getUserSettingCacheKey u (KeyString WEBHOOKS)"
  let ?c = "st_userSettingCache (assign_cached_webhooks u ws s)"
  let ?src = "(setting_source cdc (st_db s))(?key := map_option it_value (map_of (c_data ?c) ?key))"
  have same: "map_of (c_data ?c) k = map_of (c_data (st_userSettingCache s)) k" if "k \<noteq> ?key" for k
    using that by (simp add: assign_cached_webhooks_def Let_def map_of_map_items option.map_ident)
  have coh: "memory_cache.coherent (setting_source cdc (st_db s)) (st_userSettingCache s)"
    using assms by (simp add: settings_inv_def)
  have "?src k = Some v" if hit: "fst (Cache_Get now k ?c) = Some v" for now k v
  proof (cases "k = ?key")
    case True
    then show ?thesis using hit by (auto simp: Get_result)
  next
    case False
    have "fst (Cache_Get now k (st_userSettingCache s)) = Some v" using hit unfolding Get_result same [OF False] .
    then show ?thesis using memory_cache.coherentD [OF coh] False by simp
  qed
  then have "memory_cache.coherent ?src ?c" by (simp add: memory_cache.coherent_def)
  then show ?thesis
    using assms unfolding coherent_but_def settings_inv_def
    by (intro conjI exI [of _ ?src]) (auto simp: assign_cached_webhooks_def Let_def)
qed

lemma UpdateUserWebhook_writes:
  assumes "settings_inv cdc s" "UpdateUserWebhook rng cdc u w s = (Inr x, s')"
  shows "writes cdc s s' u (Webhooks (replace_webhook w (webhooks_of (stored cdc (st_db s) u WEBHOOKS)))) True"
proof -
  let ?ws = "webhooks_of (stored cdc (st_db s) u WEBHOOKS)"
  obtain s1 where s1: "GetUserWebhooks rng cdc u s = (Inr ?ws, s1)" "settings_inv cdc s1" "read_only s s1"
    using GetUserWebhooks_value [OF assms(1)] by blast
  define s2 where "s2 = (if \<exists>v \<in> set ?ws. wh_Id v = wh_Id w then assign_cached_webhooks u (replace_webhook w ?ws) s1 else s1)"
  have up: "upsert_value rng cdc u (Webhooks (replace_webhook w ?ws)) s2 = (Inr x, s')"
    using assms(2) s1(1) by (simp add: UpdateUserWebhook_def bindS_def s2_def Let_def)
  have but: "coherent_but cdc (getUserSettingCacheKey u (KeyString (kind_of (Webhooks (replace_webhook w ?ws))))) s2"
    using assign_cached_coherent [OF s1(2)] settings_inv_but [OF s1(2)] by (simp add: s2_def)
  have "rest_kept s s2" "stored cdc (st_db s2) = stored cdc (st_db s)"
    using read_only_rest [OF s1(3)] s1(3)
    by (auto simp: s2_def assign_cached_webhooks_def Let_def read_only_def rest_kept_def)
  then show ?thesis
    using upsert_value_spec [OF but up] by (auto simp: writes_def intro: rest_kept_trans)
qed

lemma bindS_Inr: "m s = (Inr a, s1) \<Longrightarrow> bindS m f s = f a s1"
  by (simp add: bindS_def)

lemma wrapS_result: "wrapS msg m s = (res, s') \<Longrightarrow> \<exists>res0. m s = (res0, s') \<and> ((\<exists>x. res = Inr x) = (\<exists>x. res0 = Inr x))"
  by (auto simp: wrapS_def split: prod.splits sum.splits)

lemma wrapped_views:
  assumes "settings_inv cdc s" "read_only s0 s" "wrapS msg (upsertUserMemoViews rng cdc u vs) s = (res, s')"
  shows "writes cdc s0 s' u (MemoViews vs) (\<exists>x. res = Inr x)"
proof -
  obtain res1 where 1: "upsertUserMemoViews rng cdc u vs s = (res1, s')" "(\<exists>x. res = Inr x) = (\<exists>x. res1 = Inr x)"
    using wrapS_result [OF assms(3)] by blast
  obtain res0 where 0: "upsert_value rng cdc u (MemoViews vs) s = (res0, s')" "(\<exists>x. res1 = Inr x) = (\<exists>x. res0 = Inr x)"
    using wrapS_result [OF 1(1) [unfolded upsertUserMemoViews_def]] by blast
  show ?thesis unfolding 1(2) 0(2) by (rule upsert_value_writes [OF assms(1,2) 0(1)])
qed

lemma wrapped_get_views:
  assumes "settings_inv cdc s"
  shows "\<exists>s'. wrapS msg (GetUserMemoViews rng cdc u) s = (Inr (views_of (stored cdc (st_db s) u MEMO_VIEWS)), s')
    \<and> settings_inv cdc s' \<and> read_only s s'"
  using GetUserMemoViews_value [OF assms, of rng u] by (auto simp: wrapS_def)

lemma AddUserMemoView_writes:
  assumes "settings_inv cdc s" "AddUserMemoView rng cdc u v s = (res, s')"
  shows "writes cdc s s' u (MemoViews (views_of (stored cdc (st_db s) u MEMO_VIEWS) @ [v])) (\<exists>x. res = Inr x)"
proof -
  obtain s1 where s1: "wrapS ''get existing memo views'' (GetUserMemoViews rng cdc u) s
      = (Inr (views_of (stored cdc (st_db s) u MEMO_VIEWS)), s1)" "settings_inv cdc s1" "read_only s s1"
    using wrapped_get_views [OF assms(1)] by blast
  show ?thesis by (rule wrapped_views [OF s1(2,3)]) (use assms(2) s1(1) in \<open>simp add: AddUserMemoView_def bindS_def\<close>)
qed

lemma no_write: "settings_inv cdc s1 \<Longrightarrow> read_only s s1 \<Longrightarrow> writes cdc s s1 u v False"
  using read_only_rest [of s s1] by (simp add: writes_def read_only_def)

lemma UpdateUserMemoView_writes:
  assumes "settings_inv cdc s" "UpdateUserMemoView rng cdc u i title flt s = (res, s')"
  shows "\<exists>vs success. writes cdc s s' u (MemoViews vs) success"
proof -
  let ?vs = "views_of (stored cdc (st_db s) u MEMO_VIEWS)"
  let ?found = "filter (\<lambda>item. mv_Id item = i) ?vs"
  obtain s1 where s1: "wrapS ''get existing memo views'' (GetUserMemoViews rng cdc u) s = (Inr ?vs, s1)"
    "settings_inv cdc s1" "read_only s s1" using wrapped_get_views [OF assms(1)] by blast
  show ?thesis
  proof (cases "?found = []")
    case True
    then have "s' = s1" using assms(2) s1(1) by (simp add: UpdateUserMemoView_def bindS_def liftS_def)
    then show ?thesis using no_write [OF s1(2,3)] by blast
  next
    case False
    let ?new = "map (\<lambda>item. if mv_Id item = i then update_view title flt item else item) ?vs"
    have "\<exists>res0. wrapS ''update memo view'' (upsertUserMemoViews rng cdc u ?new) s1 = (res0, s')"
      using assms(2) s1(1) False
      by (simp add: UpdateUserMemoView_def bindS_def liftS_def Let_def split: prod.splits sum.splits) blast?
    then show ?thesis using wrapped_views [OF s1(2,3)] by blast
  qed
qed

lemma RemoveUserMemoView_writes:
  assumes "settings_inv cdc s" "RemoveUserMemoView rng cdc u i s = (res, s')"
  shows "\<exists>vs success. writes cdc s s' u (MemoViews vs) success"
proof -
  let ?vs = "views_of (stored cdc (st_db s) u MEMO_VIEWS)"
  obtain s1 where s1: "wrapS ''get existing memo views'' (GetUserMemoViews rng cdc u) s = (Inr ?vs, s1)"
    "settings_inv cdc s1" "read_only s s1" using wrapped_get_views [OF assms(1)] by blast
  show ?thesis
  proof (cases "\<exists>item \<in> set ?vs. mv_Id item = i")
    case False
    then have "s' = s1" using assms(2) s1(1) by (simp add: RemoveUserMemoView_def bindS_def liftS_def)
    then show ?thesis using no_write [OF s1(2,3)] by blast
  next
    case True
    let ?upsert = "wrapS ''remove memo view'' (upsertUserMemoViews rng cdc u (filter (\<lambda>item. mv_Id item \<noteq> i) ?vs))"
    obtain res0 s0 where w: "?upsert s1 = (res0, s0)" by (cases "?upsert s1")
    have "RemoveUserMemoView rng cdc u i s = (if \<not> (\<exists>item \<in> set ?vs. mv_Id item = i) then returnS False else bindS ?upsert (\<lambda>_. returnS True)) s1"
      unfolding RemoveUserMemoView_def using s1(1) by (rule bindS_Inr)
    also have "\<dots> = bindS ?upsert (\<lambda>_. returnS True) s1" by (subst if_not_P) (use True in auto)
    finally have "RemoveUserMemoView rng cdc u i s = bindS ?upsert (\<lambda>_. returnS True) s1" .
    then have "s' = s0" using assms(2) w by (auto simp: bindS_def liftS_def split: sum.splits)
    then show ?thesis using wrapped_views [OF s1(2,3)] w by blast
  qed
qed

section \<open>Deletion\<close>

lemma settings_inv_frame:
  assumes "settings_inv cdc s" "db_user_setting (st_db s') = db_user_setting (st_db s)"
    and "st_userSettingCache s' = st_userSettingCache s"
  shows "settings_inv cdc s'" "stored cdc (st_db s') = stored cdc (st_db s)"
proof -
  have "setting_source cdc (st_db s') = setting_source cdc (st_db s)"
    by (rule ext) (simp add: setting_source_def assms(2))
  then show "settings_inv cdc s'" using assms by (simp add: settings_inv_def rows_ok_def)
  show "stored cdc (st_db s') = stored cdc (st_db s)" by (intro ext) (simp add: stored_def assms(2))
qed

lemma drop_rows:
  assumes inv: "settings_inv cdc s"
    and rows: "db_user_setting (st_db s') = filter (\<lambda>r. \<not> P (us_user_id r) (us_key r)) (db_user_setting (st_db s))"
    and cache: "st_userSettingCache s' = fold Cache_Delete ks (st_userSettingCache s)"
    and ks: "\<And>r. r \<in> set (db_user_setting (st_db s)) \<Longrightarrow> P (us_user_id r) (us_key r) \<Longrightarrow>
      getUserSettingCacheKey (us_user_id r) (us_key r) \<in> set ks"
  shows "settings_inv cdc s' \<and> stored cdc (st_db s') = (\<lambda>u k. if P u (KeyString k) then None else stored cdc (st_db s) u k)"
proof -
  have ok: "codec_ok cdc" "rows_ok cdc (st_db s)" using inv by (simp_all add: settings_inv_def)
  have ok': "rows_ok cdc (st_db s')" using ok(2) by (auto simp: rows_ok_def rows distinct_map_filter)
  have row: "filter (is_row u k) (db_user_setting (st_db s'))
      = (if P u (KeyString k) then [] else filter (is_row u k) (db_user_setting (st_db s)))" for u k
  proof -
    have "filter (is_row u k) (filter (\<lambda>r. \<not> P (us_user_id r) (us_key r)) rs) = (if P u (KeyString k) then [] else filter (is_row u k) rs)" for rs
      by (induction rs) auto
    then show ?thesis unfolding rows .
  qed
  have st: "stored cdc (st_db s') u k = (if P u (KeyString k) then None else stored cdc (st_db s) u k)" for u k
    unfolding stored_def row by simp
  have "setting_source cdc (st_db s') key = setting_source cdc (st_db s) key" if out: "key \<notin> set ks" for key
  proof (rule source_cong [OF ok ok'])
    fix u k assume key: "key = getUserSettingCacheKey u (KeyString k)"
    show "stored cdc (st_db s') u k = stored cdc (st_db s) u k"
    proof (cases "P u (KeyString k)")
      case True
      have "filter (is_row u k) (db_user_setting (st_db s)) = []"
        using ks True out key by (fastforce simp: filter_empty_conv)
      then show ?thesis unfolding stored_def row by simp
    qed (simp add: st)
  qed
  then have "memory_cache.coherent (setting_source cdc (st_db s')) (st_userSettingCache s')"
    using inv unfolding cache settings_inv_def by (auto intro: memory_cache.coherent_delete_list)
  then show ?thesis using ok(1) ok' st by (auto simp: settings_inv_def)
qed

lemma DeleteUserSettings_spec:
  assumes inv: "settings_inv cdc s" and op: "Store_DeleteUserSettings rng cdc q s = (res, s')"
  shows "settings_inv cdc s' \<and> rest_kept s s'
    \<and> stored cdc (st_db s') = (\<lambda>u k. if (fs_Key q = KEY_UNSPECIFIED \<or> k = fs_Key q) \<and> opt_eq (fs_UserID q) u then None
        else stored cdc (st_db s) u k)"
proof -
  let ?rows = "filter (setting_matches q) (db_user_setting (st_db s))"
  let ?P = "\<lambda>u k. (fs_Key q = KEY_UNSPECIFIED \<or> k = KeyString (fs_Key q)) \<and> opt_eq (fs_UserID q) u"
  obtain s1 where s1: "Store_ListUserSettings rng cdc q s = (Inr (map (message_of cdc) ?rows), s1)"
    "settings_inv cdc s1" "read_only s s1"
    using ListUserSettings_rows [OF inv] by blast
  have db1: "st_db s1 = st_db s" using s1(3) by (simp add: read_only_def)
  let ?ks = "map (\<lambda>r. getUserSettingCacheKey (us_user_id r) (KeyString (Key_of_string (us_key r)))) ?rows"
  have s': "s' = s1\<lparr>st_db := DB_DeleteUserSettings q (st_db s),
      st_userSettingCache := fold Cache_Delete ?ks (st_userSettingCache s1)\<rparr>"
    using op s1(1) db1 by (simp add: Store_DeleteUserSettings_def bindS_def fold_map comp_def message_of_def)
  have rows: "db_user_setting (st_db s') = filter (\<lambda>r. \<not> ?P (us_user_id r) (us_key r)) (db_user_setting (st_db s1))"
    by (simp add: s' DB_DeleteUserSettings_def setting_matches_def db1)
  have same_key: "KeyString (Key_of_string (us_key r)) = us_key r" if "r \<in> set (db_user_setting (st_db s1))" for r
    using that s1(2) by (auto simp: settings_inv_def rows_ok_def)
  have "settings_inv cdc s' \<and> stored cdc (st_db s') = (\<lambda>u k. if ?P u (KeyString k) then None else stored cdc (st_db s1) u k)"
  proof (rule drop_rows [OF s1(2) rows])
    show "st_userSettingCache s' = fold Cache_Delete ?ks (st_userSettingCache s1)" by (simp add: s')
    show "getUserSettingCacheKey (us_user_id r) (us_key r) \<in> set ?ks"
      if "r \<in> set (db_user_setting (st_db s1))" "?P (us_user_id r) (us_key r)" for r
    proof -
      have "setting_matches q r" using that(2) by (simp add: setting_matches_def)
      then have "r \<in> set ?rows" using that(1) db1 by simp
      then show ?thesis using imageI [of r "set ?rows" "\<lambda>r. getUserSettingCacheKey (us_user_id r) (KeyString (Key_of_string (us_key r)))"]
        by (simp only: set_map same_key [OF that(1)])
    qed
  qed
  moreover have "rest_kept s s'"
    using s1(3) by (auto simp: s' rest_kept_def read_only_def DB_DeleteUserSettings_def)
  ultimately show ?thesis by (simp add: db1 cong: if_cong)
qed

lemma DB_DeleteUser_settings:
  assumes "db_keys d" "DB_DeleteUser ok fp uid d = Inr (r, d')"
  shows "d' = d \<and> (\<forall>u \<in> set (db_user d). u_ID u \<noteq> uid)
    \<or> db_user_setting d' = filter (\<lambda>x. us_user_id x \<noteq> uid) (db_user_setting d)
       \<and> dur_UserSettingKeys r = map us_key (filter (\<lambda>x. us_user_id x = uid) (db_user_setting d))"
proof (cases "\<exists>u \<in> set (db_user d). u_ID u = uid")
  case True
  have "d' = delete_user_spec uid d" using DB_DeleteUser_spec [OF assms(1) True assms(2)] by blast
  moreover have "dur_UserSettingKeys r = map us_key (filter (\<lambda>x. us_user_id x = uid) (db_user_setting d))"
    using assms(2) True
    by (auto simp: DB_DeleteUser_def Let_def collectDeleteUserTargets_def listDeleteUserSettingKeys_def result_simps
        split: if_splits sum.splits)
  ultimately show ?thesis by (simp add: delete_user_spec_def Let_def)
next
  case False
  then show ?thesis using assms(2) by (auto simp: DB_DeleteUser_def split: if_splits)
qed

lemma DeleteUser_settings:
  assumes inv: "settings_inv cdc s" "db_keys (st_db s)" and op: "Store_DeleteUser ok fp uid s = Inr (r, s')"
    and row: "\<exists>u \<in> set (db_user (st_db s)). u_ID u = uid"
  shows "settings_inv cdc s' \<and> stored cdc (st_db s') = (\<lambda>u k. if u = uid then None else stored cdc (st_db s) u k)"
proof -
  obtain d where d: "DB_DeleteUser ok fp uid (st_db s) = Inr (r, d)" and s': "s' = deleteUserCache uid r (s\<lparr>st_db := d\<rparr>)"
    using op by (auto simp: Store_DeleteUser_def result_simps)
  have rows: "db_user_setting d = filter (\<lambda>x. us_user_id x \<noteq> uid) (db_user_setting (st_db s))"
    and keys: "dur_UserSettingKeys r = map us_key (filter (\<lambda>x. us_user_id x = uid) (db_user_setting (st_db s)))"
    using DB_DeleteUser_settings [OF inv(2) d] row by blast+
  show ?thesis
    by (rule drop_rows [OF inv(1), where P = "\<lambda>u k. u = uid" and ks = "map (getUserSettingCacheKey uid) (dur_UserSettingKeys r)"])
      (auto simp: s' deleteUserCache_def rows keys fold_map comp_def)
qed

lemma DeleteUser_none:
  assumes "Store_DeleteUser ok fp uid s = Inr (r, s')" "\<not> (\<exists>u \<in> set (db_user (st_db s)). u_ID u = uid)"
  shows "st_db s' = st_db s" "st_userSettingCache s' = st_userSettingCache s"
  using assms by (auto simp: Store_DeleteUser_def DB_DeleteUser_def deleteUserCache_def)

section \<open>Runs of one process\<close>

text \<open>Every operation of \<open>User_Settings\<close>, also when it fails, the user operations and those on the
  database that leave the settings as they are, the background cleanup and the passing of time.
  Left out are a failing \<open>UpdateUserWebhook\<close> (see C13), a write of the whole list of refresh tokens that does not
  go through \<open>AddUserRefreshToken\<close> or \<open>RemoveUserRefreshToken\<close>, and a read of the unspecified key. Refresh tokens are added under the pairs of
  \<open>issued\<close>, a user and a token id, only.\<close>

inductive setting_step :: "codec \<Rightarrow> (int32 \<times> string) set \<Rightarrow> UserSetting Store \<Rightarrow> UserSetting Store \<Rightarrow> bool"
  for cdc :: codec and issued :: "(int32 \<times> string) set" where
  upsert: "us_Key m \<noteq> REFRESH_TOKENS \<Longrightarrow> Store_UpsertUserSetting rng cdc m s = (r1, s') \<Longrightarrow> setting_step cdc issued s s'"
| list: "Store_ListUserSettings rng cdc q s = (r2, s') \<Longrightarrow> setting_step cdc issued s s'"
| get: "k \<noteq> KEY_UNSPECIFIED \<Longrightarrow> Store_GetUserSetting rng cdc (setting_query u k) s = (r3, s') \<Longrightarrow> setting_step cdc issued s s'"
| delete: "Store_DeleteUserSettings rng cdc q s = (r4, s') \<Longrightarrow> setting_step cdc issued s s'"
| add_refresh: "(u, rt_TokenId t) \<in> issued \<Longrightarrow> AddUserRefreshToken rng cdc u t s = (r5, s') \<Longrightarrow> setting_step cdc issued s s'"
| remove_refresh: "RemoveUserRefreshToken rng cdc u tid s = (r6, s') \<Longrightarrow> setting_step cdc issued s s'"
| add_pat: "AddUserPersonalAccessToken rng cdc u p s = (r7, s') \<Longrightarrow> setting_step cdc issued s s'"
| remove_pat: "RemoveUserPersonalAccessToken rng cdc u tid s = (r8, s') \<Longrightarrow> setting_step cdc issued s s'"
| touch_pat: "UpdatePATLastUsed rng cdc u tid ts s = (r9, s') \<Longrightarrow> setting_step cdc issued s s'"
| add_webhook: "AddUserWebhook rng cdc u w s = (r10, s') \<Longrightarrow> setting_step cdc issued s s'"
| remove_webhook: "RemoveUserWebhook rng cdc u wid s = (r11, s') \<Longrightarrow> setting_step cdc issued s s'"
| update_webhook: "UpdateUserWebhook rng cdc u w s = (Inr x, s') \<Longrightarrow> setting_step cdc issued s s'"
| add_view: "AddUserMemoView rng cdc u v s = (r12, s') \<Longrightarrow> setting_step cdc issued s s'"
| update_view: "UpdateUserMemoView rng cdc u i title flt s = (r13, s') \<Longrightarrow> setting_step cdc issued s s'"
| remove_view: "RemoveUserMemoView rng cdc u i s = (r14, s') \<Longrightarrow> setting_step cdc issued s s'"
| delete_user: "Store_DeleteUser ok fp u s = Inr (r15, s') \<Longrightarrow> setting_step cdc issued s s'"
| people: "store_run s s' \<Longrightarrow> db_user_setting (st_db s') = db_user_setting (st_db s) \<Longrightarrow>
    st_userSettingCache s' = st_userSettingCache s \<Longrightarrow> setting_step cdc issued s s'"
| cleanup: "setting_step cdc issued s (s\<lparr>st_userSettingCache := cleanupLoop_tick rng (st_clock s) (st_userSettingCache s)\<rparr>)"

definition session_inv :: "codec \<Rightarrow> UserSetting Store \<Rightarrow> bool" where
  "session_inv cdc s = (settings_inv cdc s \<and> run_inv s)"

definition has_token :: "codec \<Rightarrow> UserSetting Store \<Rightarrow> int32 \<Rightarrow> string \<Rightarrow> bool" where
  "has_token cdc s u tid = (tid \<in> rt_TokenId ` set (refresh_tokens (stored cdc (st_db s) u REFRESH_TOKENS)))"

lemma run_inv_rest_kept:
  assumes "rest_kept s s'" "run_inv s"
  shows "run_inv s'"
proof -
  obtain rows where db: "st_db s' = (st_db s)\<lparr>db_user_setting := rows\<rparr>" and c: "st_userCache s' = st_userCache s"
    using assms(1) by (auto simp: rest_kept_def)
  have "people_inv (st_db s')"
    using assms(2) by (simp add: run_inv_def people_inv_def db db_keys_def administered_def admin_row_def user_normal_def)
  moreover have "user_source (st_db s') = user_source (st_db s)" by (rule user_source_users) (simp add: db)
  ultimately show ?thesis using assms(2) by (simp add: run_inv_def user_cache_coherent_def c)
qed

lemma read_only_step:
  "settings_inv cdc s' \<Longrightarrow> read_only s s' \<Longrightarrow> run_inv s \<Longrightarrow> session_inv cdc s' \<and> has_token cdc s' = has_token cdc s"
  using run_inv_rest_kept [OF read_only_rest] by (simp add: session_inv_def has_token_def read_only_def fun_eq_iff)

lemma writes_step:
  assumes "writes cdc s s' u v success" "kind_of v \<noteq> REFRESH_TOKENS" "run_inv s"
  shows "session_inv cdc s' \<and> has_token cdc s' = has_token cdc s"
  using assms run_inv_rest_kept
  by (auto simp: writes_def session_inv_def has_token_def fun_eq_iff store_value_def split: if_splits)

lemma writes_tokens:
  assumes "writes cdc s s' u (RefreshTokens ts) success" "run_inv s"
  shows "session_inv cdc s' \<and> (\<forall>u' tid. has_token cdc s' u' tid \<longrightarrow> has_token cdc s u' tid \<or> u' = u \<and> tid \<in> rt_TokenId ` set ts)"
  using assms run_inv_rest_kept
  by (auto simp: writes_def session_inv_def has_token_def store_value_def refresh_tokens_def split: if_splits)

lemma setting_step_spec:
  assumes "setting_step cdc issued s s'" "session_inv cdc s"
  shows "session_inv cdc s' \<and> (\<forall>u tid. has_token cdc s' u tid \<longrightarrow> has_token cdc s u tid \<or> (u, tid) \<in> issued)"
proof -
  have inv: "settings_inv cdc s" and run: "run_inv s" using assms(2) by (simp_all add: session_inv_def)
  note same = read_only_step [OF _ _ run] writes_step [OF _ _ run]
  from assms(1) show ?thesis
  proof cases
    case (upsert m rng r)
    show ?thesis
    proof (cases r)
      case (Inl e)
      then show ?thesis using UpsertUserSetting_spec [OF inv upsert(2)] assms(2) by simp
    next
      case (Inr m')
      then obtain v where v: "settings_inv cdc s'" "rest_kept s s'" "value_of_kind (us_Key m) (us_Value m) = Some v"
        "stored cdc (st_db s') = store_value (us_UserId m) (us_Key m) (Some v) (stored cdc (st_db s))"
        using UpsertUserSetting_spec [OF inv upsert(2)] by auto
      then have "writes cdc s s' (us_UserId m) v True" using value_of_kind_Some [OF v(3)] by (simp add: writes_def)
      then show ?thesis using same(2) upsert(1) value_of_kind_Some [OF v(3)] by simp
    qed
  next
    case (list rng q r)
    then show ?thesis using ListUserSettings_rows [OF inv, of rng q] same(1) by auto
  next
    case (get k rng u r)
    then show ?thesis using GetUserSetting_row [OF inv, of k rng u] same(1) by auto
  next
    case (delete rng q r)
    note D = DeleteUserSettings_spec [OF inv delete]
    then show ?thesis
      using run_inv_rest_kept [of s s'] run by (auto simp: session_inv_def has_token_def refresh_tokens_def split: if_splits)
  next
    case (add_refresh u t rng r)
    note W = writes_tokens [OF AddUserRefreshToken_writes [OF inv add_refresh(2)] run]
    from W have "session_inv cdc s' \<and> (\<forall>u' tid. has_token cdc s' u' tid \<longrightarrow> has_token cdc s u' tid
        \<or> u' = u \<and> (tid = rt_TokenId t \<or> has_token cdc s u tid))" by (simp add: has_token_def)
    then show ?thesis using add_refresh(1) by blast
  next
    case (remove_refresh rng u tid r)
    note W = writes_tokens [OF RemoveUserRefreshToken_writes [OF inv remove_refresh] run]
    then show ?thesis by (auto simp: has_token_def)
  next
    case (touch_pat rng u tid ts r)
    then show ?thesis using UpdatePATLastUsed_writes [OF inv touch_pat] same(2) by fastforce
  next
    case (add_webhook rng u w r)
    then show ?thesis using AddUserWebhook_writes [OF inv add_webhook] same(2) by fastforce
  next
    case (update_view rng u i title flt r)
    then show ?thesis using UpdateUserMemoView_writes [OF inv update_view] same(2) by fastforce
  next
    case (remove_view rng u i r)
    then show ?thesis using RemoveUserMemoView_writes [OF inv remove_view] same(2) by fastforce
  next
    case (delete_user ok fp u r)
    have run': "run_inv s'" by (rule run_inv_delete [OF run delete_user])
    show ?thesis
    proof (cases "\<exists>v \<in> set (db_user (st_db s)). u_ID v = u")
      case True
      then show ?thesis
        using DeleteUser_settings [OF inv run_inv_keys [OF run] delete_user True] run'
        by (auto simp: session_inv_def has_token_def refresh_tokens_def split: if_splits)
    next
      case False
      have db: "db_user_setting (st_db s') = db_user_setting (st_db s)" using DeleteUser_none(1) [OF delete_user False] by simp
      then show ?thesis
        using settings_inv_frame [OF inv db DeleteUser_none(2) [OF delete_user False]] run' by (simp add: session_inv_def has_token_def)
    qed
  next
    case people
    then show ?thesis
      using settings_inv_frame [OF inv people(2,3)] store_run_keeps [OF people(1) run] by (simp add: session_inv_def has_token_def)
  next
    case (cleanup rng)
    then show ?thesis
      using inv run by (simp add: session_inv_def settings_inv_def memory_cache.coherent_tick has_token_def run_inv_def user_cache_coherent_def)
  qed (use same(2) AddUserPersonalAccessToken_writes RemoveUserPersonalAccessToken_writes RemoveUserWebhook_writes
        UpdateUserWebhook_writes AddUserMemoView_writes inv in fastforce)+
qed

end
