(* ===== verification/Go_Fields.thy ===== *)
theory Go_Fields
  imports Memos_Prelude
begin

text \<open>
  \<open>strings.Fields\<close> of Go's library, which the cron parser and the bearer token parser call.
\<close>

text \<open>\<open>strings.Fields\<close>: the maximal parts without white space.\<close>

fun word_of :: "string \<Rightarrow> string" where
  "word_of [] = []"
| "word_of (c # s) = (if ws_len white_space (c # s) \<noteq> 0 then [] else c # word_of s)"

lemma trim_left_length: "length (trim_left ws s) \<le> length s"
proof (induction ws s rule: trim_left.induct)
  case (1 ws s)
  show ?case
  proof (cases "ws_len ws s = 0")
    case True
    then show ?thesis by (simp add: trim_left.simps [of ws s])
  next
    case False
    then show ?thesis using 1 by (simp add: trim_left.simps [of ws s])
  qed
qed

function Fields :: "string \<Rightarrow> string list" where
  "Fields s =
     (let t = trim_left white_space s
      in if t = [] then [] else if word_of t = [] then []
         else word_of t # Fields (drop (length (word_of t)) t))"
  by pat_completeness auto
termination
proof (relation "measure length")
  fix s t
  assume "t = trim_left white_space s" "t \<noteq> []" "word_of t \<noteq> []"
  then have "0 < length t" "0 < length (word_of t)" "length t \<le> length s"
    using trim_left_length [of white_space s] by simp_all
  then show "(drop (length (word_of t)) t, s) \<in> measure length"
    by (simp del: length_greater_0_conv)
qed simp

declare Fields.simps [simp del]

end
