(* ===== verification/Authentication.thy ===== *)
theory Authentication
  imports Settings_Runs Memo_Access Resource_Names Go_Fields
begin

text \<open>
  Authentication and the access control of methods: \<open>server/auth\<close> (\<open>token.go\<close>, \<open>extract.go\<close>,
  \<open>authenticator.go\<close>, \<open>context.go\<close>), and \<open>acl_config.go\<close>, \<open>authz.go\<close> and the authentication interceptor of
  \<open>connect_interceptors.go\<close> in \<open>server/router/api/v1\<close>. The JWT package, SHA-256 and the random generator
  are parameters; cookies are parsed as \<open>net/http\<close> does. The clock of the store is \<open>time.Now\<close>.
\<close>

section \<open>Tokens (token.go)\<close>

definition Issuer :: string where "Issuer = ''memos''"
definition KeyID :: string where "KeyID = ''v1''"
definition AccessTokenAudienceName :: string where "AccessTokenAudienceName = ''user.access-token''"
definition RefreshTokenAudienceName :: string where "RefreshTokenAudienceName = ''user.refresh-token''"
definition RefreshTokenCookieName :: string where "RefreshTokenCookieName = ''memos_refresh''"
definition PersonalAccessTokenPrefix :: string where "PersonalAccessTokenPrefix = ''memos_pat_''"

text \<open>Durations in nanoseconds.\<close>

definition AccessTokenDuration :: int where "AccessTokenDuration = 15 * 60 * 1000000000"
definition RefreshTokenDuration :: int where "RefreshTokenDuration = 30 * 24 * 60 * 60 * 1000000000"

text \<open>The fields of the three claims structures: what a structure does not have is absent from its JSON
  and empty here.\<close>

record claims =
  cl_Name :: string
  cl_Type :: string
  cl_Role :: string
  cl_Status :: string
  cl_Username :: string
  cl_TokenID :: string
  cl_Issuer :: string
  cl_Audience :: "string list"
  cl_Subject :: string
  cl_IssuedAt :: "int option"
  cl_ExpiresAt :: "int option"

record jwt_header =
  jh_alg :: string
  jh_kid :: "string option"

text \<open>The JWT package: \<open>NewNumericDate\<close>, \<open>SignedString\<close>, and \<open>ParseWithClaims\<close> with its key function, the
  required issuer and the required audience.\<close>

record jwt_lib =
  jl_date :: "int \<Rightarrow> int"
  jl_sign :: "jwt_header \<Rightarrow> claims \<Rightarrow> string \<Rightarrow> store_error + string"
  jl_parse :: "int \<Rightarrow> string \<Rightarrow> (jwt_header \<Rightarrow> store_error + string) \<Rightarrow> string \<Rightarrow> string \<Rightarrow> store_error + claims"

text \<open>The documented behaviour: dates are truncated to seconds; a signed token is parsed, into the claims
  that were signed, when its claims have the issuer and the audience, are not expired and the key
  function gives the key; a parsed signed token gives the claims that were signed, with the key that signed
  them; and only claims with the issuer and the audience are accepted, before they expire. The claims are
  written as JSON, which does not keep every byte: the behaviour is stated for claims of ASCII strings.\<close>

definition ascii :: "string \<Rightarrow> bool" where
  "ascii s = list_all (\<lambda>c. of_char c < (128::nat)) s"

definition plain_claims :: "claims \<Rightarrow> bool" where
  "plain_claims c = list_all ascii ([cl_Name c, cl_Type c, cl_Role c, cl_Status c, cl_Username c, cl_TokenID c,
     cl_Issuer c, cl_Subject c] @ cl_Audience c)"

definition unexpired :: "int \<Rightarrow> claims \<Rightarrow> bool" where
  "unexpired now c = (case cl_ExpiresAt c of None \<Rightarrow> True | Some e \<Rightarrow> now < e)"

definition jwt_ok :: "jwt_lib \<Rightarrow> bool" where
  "jwt_ok j =
     ((\<forall>t. jl_date j t \<le> t \<and> t < jl_date j t + 1000000000)
      \<and> (\<forall>h c k t now keyf iss aud. plain_claims c \<longrightarrow> jl_sign j h c k = Inr t \<longrightarrow> keyf h = Inr k \<longrightarrow> cl_Issuer c = iss \<longrightarrow>
           aud \<in> set (cl_Audience c) \<longrightarrow> unexpired now c \<longrightarrow> jl_parse j now t keyf iss aud = Inr c)
      \<and> (\<forall>h c k t now keyf iss aud c'. plain_claims c \<longrightarrow> jl_sign j h c k = Inr t \<longrightarrow> jl_parse j now t keyf iss aud = Inr c' \<longrightarrow>
           c' = c \<and> keyf h = Inr k)
      \<and> (\<forall>now t keyf iss aud c. jl_parse j now t keyf iss aud = Inr c \<longrightarrow>
           cl_Issuer c = iss \<and> aud \<in> set (cl_Audience c) \<and> unexpired now c))"

definition token_header :: jwt_header where
  "token_header = \<lparr>jh_alg = ''HS256'', jh_kid = Some KeyID\<rparr>"

definition no_claims :: claims where
  "no_claims = \<lparr>cl_Name = [], cl_Type = [], cl_Role = [], cl_Status = [], cl_Username = [], cl_TokenID = [],
     cl_Issuer = [], cl_Audience = [], cl_Subject = [], cl_IssuedAt = None, cl_ExpiresAt = None\<rparr>"

text \<open>\<open>expirationTime\<close> is \<open>None\<close> for the zero time.\<close>

definition generateToken ::
    "jwt_lib \<Rightarrow> int \<Rightarrow> string \<Rightarrow> int32 \<Rightarrow> string \<Rightarrow> int option \<Rightarrow> string \<Rightarrow> store_error + string" where
  "generateToken j now username userID audience expirationTime secret =
     jl_sign j token_header
       (no_claims\<lparr>cl_Name := username, cl_Issuer := Issuer, cl_Audience := [audience], cl_IssuedAt := Some (jl_date j now),
          cl_Subject := itoa userID, cl_ExpiresAt := map_option (jl_date j) expirationTime\<rparr>) secret"

definition GenerateAccessToken ::
    "jwt_lib \<Rightarrow> int \<Rightarrow> string \<Rightarrow> int32 \<Rightarrow> int option \<Rightarrow> string \<Rightarrow> store_error + string" where
  "GenerateAccessToken j now username userID expirationTime secret =
     generateToken j now username userID AccessTokenAudienceName expirationTime secret"

definition GenerateAccessTokenV2 ::
    "jwt_lib \<Rightarrow> int \<Rightarrow> int32 \<Rightarrow> string \<Rightarrow> string \<Rightarrow> string \<Rightarrow> string \<Rightarrow> store_error + (string \<times> int)" where
  "GenerateAccessTokenV2 j now userID username role status secret =
     (let expiresAt = now + AccessTokenDuration in
      bindE (jl_sign j token_header
        (no_claims\<lparr>cl_Type := ''access'', cl_Role := role, cl_Status := status, cl_Username := username,
           cl_Issuer := Issuer, cl_Audience := [AccessTokenAudienceName], cl_Subject := itoa userID,
           cl_IssuedAt := Some (jl_date j now), cl_ExpiresAt := Some (jl_date j expiresAt)\<rparr>) secret) (\<lambda>tokenString.
        Inr (tokenString, expiresAt)))"

definition GenerateRefreshToken ::
    "jwt_lib \<Rightarrow> int \<Rightarrow> int32 \<Rightarrow> string \<Rightarrow> string \<Rightarrow> store_error + (string \<times> int)" where
  "GenerateRefreshToken j now userID tokenID secret =
     (let expiresAt = now + RefreshTokenDuration in
      bindE (jl_sign j token_header
        (no_claims\<lparr>cl_Type := ''refresh'', cl_TokenID := tokenID,
           cl_Issuer := Issuer, cl_Audience := [RefreshTokenAudienceName], cl_Subject := itoa userID,
           cl_IssuedAt := Some (jl_date j now), cl_ExpiresAt := Some (jl_date j expiresAt)\<rparr>) secret) (\<lambda>tokenString.
        Inr (tokenString, expiresAt)))"

text \<open>The random string, or the error, and the UUID of the fallback are arguments.\<close>

definition GeneratePersonalAccessToken :: "go_error + string \<Rightarrow> string \<Rightarrow> string" where
  "GeneratePersonalAccessToken randomStr uuid =
     PersonalAccessTokenPrefix @ (case randomStr of Inl _ \<Rightarrow> uuid | Inr r \<Rightarrow> r)"

definition hex_digit :: "nat \<Rightarrow> char" where
  "hex_digit n = (''0123456789abcdef'' ! n)"

definition HashPersonalAccessToken :: "(string \<Rightarrow> nat list) \<Rightarrow> string \<Rightarrow> string" where
  "HashPersonalAccessToken sha256 token = concat (map (\<lambda>b. [hex_digit (b div 16), hex_digit (b mod 16)]) (sha256 token))"

definition verifyJWTKeyFunc :: "string \<Rightarrow> jwt_header \<Rightarrow> store_error + string" where
  "verifyJWTKeyFunc secret h =
     (if jh_alg h \<noteq> ''HS256'' then Inl (NewError ''unexpected signing method'')
      else if jh_kid h \<noteq> Some KeyID then Inl (NewError ''unexpected kid'')
      else Inr secret)"

definition ParseAccessTokenV2 :: "jwt_lib \<Rightarrow> int \<Rightarrow> string \<Rightarrow> string \<Rightarrow> store_error + claims" where
  "ParseAccessTokenV2 j now tokenString secret =
     bindE (jl_parse j now tokenString (verifyJWTKeyFunc secret) Issuer AccessTokenAudienceName) (\<lambda>claims.
       if cl_Type claims \<noteq> ''access'' then Inl (NewError ''invalid token type: expected access token'') else Inr claims)"

definition ParseRefreshToken :: "jwt_lib \<Rightarrow> int \<Rightarrow> string \<Rightarrow> string \<Rightarrow> store_error + claims" where
  "ParseRefreshToken j now tokenString secret =
     bindE (jl_parse j now tokenString (verifyJWTKeyFunc secret) Issuer RefreshTokenAudienceName) (\<lambda>claims.
       if cl_Type claims \<noteq> ''refresh'' then Inl (NewError ''invalid token type: expected refresh token'') else Inr claims)"

section \<open>Credentials of a request (extract.go)\<close>

text \<open>\<open>strings.EqualFold\<close> with a lower-case ASCII word: of the other code points only the long s and the
  Kelvin sign fold to ASCII letters.\<close>

fun fold_case :: "string \<Rightarrow> string" where
  "fold_case [] = []"
| "fold_case (c # s) =
     (if has_prefix (c # s) [CHR 0xC5, CHR 0xBF] then CHR ''s'' # fold_case (drop 1 s)
      else if has_prefix (c # s) [CHR 0xE2, CHR 0x84, CHR 0xAA] then CHR ''k'' # fold_case (drop 2 s)
      else ascii_lower c # fold_case s)"

definition fold_eq :: "string \<Rightarrow> string \<Rightarrow> bool" where
  "fold_eq s word = (fold_case s = word)"

definition ExtractBearerToken :: "string \<Rightarrow> string" where
  "ExtractBearerToken authHeader =
     (if authHeader = [] then []
      else (case Fields authHeader of
              [scheme, token] \<Rightarrow> if fold_eq scheme ''bearer'' then token else []
            | _ \<Rightarrow> []))"

text \<open>The cookies of a header as \<open>net/http\<close> reads them: at most 3000 parts between semicolons, each trimmed
  and cut at the first \<open>=\<close>, a value quoted or not and of valid bytes.\<close>

definition blank :: "char \<Rightarrow> bool" where
  "blank c = (c = CHR '' '' \<or> c = CHR 0x09 \<or> c = CHR 0x0A \<or> c = CHR 0x0D)"

definition trim_blank :: "string \<Rightarrow> string" where
  "trim_blank s = rev (dropWhile blank (rev (dropWhile blank s)))"

definition valid_value_byte :: "char \<Rightarrow> bool" where
  "valid_value_byte c = (0x20 \<le> (of_char c :: nat) \<and> (of_char c :: nat) < 0x7F \<and> c \<notin> {CHR 0x22, CHR '';'', CHR 0x5C})"

definition cookie_value :: "string \<Rightarrow> string option" where
  "cookie_value raw =
     (let raw = (if length raw > 1 \<and> hd raw = CHR 0x22 \<and> last raw = CHR 0x22 then butlast (tl raw) else raw)
      in if list_all valid_value_byte raw then Some raw else None)"

definition cookie_part :: "string \<Rightarrow> string \<Rightarrow> string option" where
  "cookie_part name part =
     (let part = trim_blank part;
          key = takeWhile (\<lambda>c. c \<noteq> CHR ''='') part;
          rest = drop (Suc (length key)) part
      in if trim_blank key = name then cookie_value rest else None)"

definition request_cookie :: "string \<Rightarrow> string \<Rightarrow> string option" where
  "request_cookie name line =
     (let parts = split (CHR '';'') line
      in if 3000 < length parts then None else first_row (List.map_filter (cookie_part name) parts))"

definition ExtractRefreshTokenFromCookie :: "string \<Rightarrow> string" where
  "ExtractRefreshTokenFromCookie cookieHeader =
     (if cookieHeader = [] then []
      else case request_cookie RefreshTokenCookieName cookieHeader of None \<Rightarrow> [] | Some v \<Rightarrow> v)"

section \<open>The authenticator (authenticator.go)\<close>

record Authenticator =
  au_secret :: string
  au_jwt :: jwt_lib
  au_sha256 :: "string \<Rightarrow> nat list"
  au_codec :: codec
  au_users :: "User range_order"
  au_settings :: "UserSetting range_order"

record UserClaims =
  uc_UserID :: int32
  uc_Username :: string
  uc_Role :: string
  uc_Status :: string

text \<open>The error of \<open>strconv.ParseInt\<close> is kept without the number it quotes.\<close>

definition subject_id :: "claims \<Rightarrow> store_error + int32" where
  "subject_id c =
     orElse (ConvertStringToInt32 (cl_Subject c)) (\<lambda>_. WrapError (NewError ''strconv.ParseInt'') ''invalid user ID in token'')"

definition AuthenticateByAccessTokenV2 :: "Authenticator \<Rightarrow> int \<Rightarrow> string \<Rightarrow> store_error + UserClaims" where
  "AuthenticateByAccessTokenV2 a now accessToken =
     bindE (orElse (ParseAccessTokenV2 (au_jwt a) now accessToken (au_secret a)) (\<lambda>e. WrapError e ''invalid access token'')) (\<lambda>claims.
     bindE (subject_id claims) (\<lambda>userID.
       Inr \<lparr>uc_UserID = userID, uc_Username = cl_Username claims, uc_Role = cl_Role claims, uc_Status = cl_Status claims\<rparr>))"

text \<open>\<open>s.Store.GetUser\<close> by id, as an operation.\<close>

definition get_user :: "Authenticator \<Rightarrow> int32 \<Rightarrow> User option op" where
  "get_user a userID s =
     (case Store_GetUser (au_users a) (find_user_id userID) s of Inl e \<Rightarrow> (Inl e, s) | Inr (user, s') \<Rightarrow> (Inr user, s'))"

definition AuthenticateByRefreshToken :: "Authenticator \<Rightarrow> string \<Rightarrow> (User \<times> string) op" where
  "AuthenticateByRefreshToken a refreshToken s =
     bindS (liftS (orElse (ParseRefreshToken (au_jwt a) (st_clock s) refreshToken (au_secret a))
       (\<lambda>e. WrapError e ''invalid refresh token''))) (\<lambda>claims.
     bindS (liftS (subject_id claims)) (\<lambda>userID.
     bindS (wrapS ''failed to get refresh token'' (GetUserRefreshTokenByID (au_settings a) (au_codec a) userID (cl_TokenID claims))) (\<lambda>token.
       case token of
         None \<Rightarrow> liftS (Inl (NewError ''refresh token revoked''))
       | Some token \<Rightarrow>
           if (case rt_ExpiresAt token of Some e \<Rightarrow> e < st_clock s | None \<Rightarrow> False)
           then liftS (Inl (NewError ''refresh token expired''))
           else bindS (wrapS ''failed to get user'' (get_user a userID)) (\<lambda>user.
             case user of
               None \<Rightarrow> liftS (Inl (NewError ''user not found''))
             | Some user \<Rightarrow>
                 if u_RowStatus user = Archived then liftS (Inl (NewError ''user is archived''))
                 else returnS (user, cl_TokenID claims))))) s"

definition AuthenticateByPAT :: "Authenticator \<Rightarrow> string \<Rightarrow> (User \<times> PersonalAccessToken) op" where
  "AuthenticateByPAT a token s =
     (if \<not> has_prefix token PersonalAccessTokenPrefix then (Inl (NewError ''invalid PAT format''), s)
      else bindS (wrapS ''invalid PAT'' (Store_GetUserByPATHash (au_users a) (au_codec a) (HashPersonalAccessToken (au_sha256 a) token)))
        (\<lambda>(userID, user, pat).
          if (case pat_ExpiresAt pat of Some e \<Rightarrow> e < st_clock s | None \<Rightarrow> False) then liftS (Inl (NewError ''PAT expired''))
          else if u_RowStatus user = Archived then liftS (Inl (NewError ''user is archived''))
          else returnS (user, pat)) s)"

record AuthResult =
  ar_User :: "User option"
  ar_Claims :: "UserClaims option"
  ar_AccessToken :: string

record bearerAuth =
  ba_user :: User
  ba_claims :: "UserClaims option"
  ba_pat :: "PersonalAccessToken option"

text \<open>\<open>recordPATUsage\<close> starts a goroutine, which runs when it runs: an operation that starts some returns them
  beside its result, as the user and the token of each.\<close>

type_synonym pat_usage = "(int32 \<times> string) list"

definition recordPATUsage :: "Authenticator \<Rightarrow> int32 \<times> string \<Rightarrow> unit op" where
  "recordPATUsage a = (\<lambda>(userID, tokenID) s. UpdatePATLastUsed (au_settings a) (au_codec a) userID tokenID (Some (st_clock s)) s)"

definition resolveBearer :: "Authenticator \<Rightarrow> string \<Rightarrow> (bearerAuth option \<times> pat_usage) op" where
  "resolveBearer a token s =
     (if token = [] then (Inr (None, []), s)
      else if \<not> has_prefix token PersonalAccessTokenPrefix
      then (case AuthenticateByAccessTokenV2 a (st_clock s) token of
              Inl e \<Rightarrow> (Inr (None, []), s)
            | Inr claims \<Rightarrow>
                bindS (get_user a (uc_UserID claims)) (\<lambda>user.
                  returnS (case user of
                    Some user \<Rightarrow>
                      if u_RowStatus user \<noteq> Archived
                      then (Some \<lparr>ba_user = user, ba_claims = Some claims, ba_pat = None\<rparr>, []) else (None, [])
                  | None \<Rightarrow> (None, []))) s)
      else (case AuthenticateByPAT a token s of
              (Inr (user, pat), s) \<Rightarrow>
                (Inr (Some \<lparr>ba_user = user, ba_claims = None, ba_pat = Some pat\<rparr>, [(u_ID user, pat_TokenId pat)]), s)
            | (Inl e, s) \<Rightarrow> (Inr (None, []), s)))"

definition AuthenticateToUser :: "Authenticator \<Rightarrow> string \<Rightarrow> string \<Rightarrow> (User option \<times> pat_usage) op" where
  "AuthenticateToUser a authHeader cookieHeader =
     bindS (resolveBearer a (ExtractBearerToken authHeader)) (\<lambda>(bearer, usage).
       case bearer of
         Some b \<Rightarrow> returnS (Some (ba_user b), usage)
       | None \<Rightarrow>
           let refreshToken = ExtractRefreshTokenFromCookie cookieHeader in
           if cookieHeader \<noteq> [] \<and> refreshToken \<noteq> []
           then bindS (AuthenticateByRefreshToken a refreshToken) (\<lambda>(user, _). returnS (Some user, usage))
           else returnS (None, usage))"

definition Authenticate :: "Authenticator \<Rightarrow> string \<Rightarrow> UserSetting Store \<Rightarrow> (AuthResult option \<times> pat_usage) \<times> UserSetting Store" where
  "Authenticate a authHeader s =
     (let token = ExtractBearerToken authHeader
      in case resolveBearer a token s of
           (Inr (Some b, usage), s') \<Rightarrow>
             ((Some (if ba_pat b \<noteq> None then \<lparr>ar_User = Some (ba_user b), ar_Claims = None, ar_AccessToken = token\<rparr>
                     else \<lparr>ar_User = None, ar_Claims = ba_claims b, ar_AccessToken = token\<rparr>), usage), s')
         | (Inr (None, usage), s') \<Rightarrow> ((None, usage), s')
         | (Inl e, s') \<Rightarrow> ((None, []), s'))"

section \<open>The identity in the context (context.go)\<close>

record request_context =
  ctx_UserID :: "int32 option"
  ctx_AccessToken :: "string option"
  ctx_UserClaims :: "UserClaims option"

definition GetUserID :: "request_context \<Rightarrow> int32" where
  "GetUserID ctx = (case ctx_UserID ctx of Some v \<Rightarrow> v | None \<Rightarrow> 0)"

definition GetAccessToken :: "request_context \<Rightarrow> string" where
  "GetAccessToken ctx = (case ctx_AccessToken ctx of Some v \<Rightarrow> v | None \<Rightarrow> [])"

definition GetUserClaims :: "request_context \<Rightarrow> UserClaims option" where
  "GetUserClaims ctx = ctx_UserClaims ctx"

definition SetUserInContext :: "request_context \<Rightarrow> User \<Rightarrow> string \<Rightarrow> request_context" where
  "SetUserInContext ctx user accessToken =
     (let ctx = ctx\<lparr>ctx_UserID := Some (u_ID user)\<rparr>
      in if accessToken \<noteq> [] then ctx\<lparr>ctx_AccessToken := Some accessToken\<rparr> else ctx)"

definition SetUserClaimsInContext :: "request_context \<Rightarrow> UserClaims \<Rightarrow> request_context" where
  "SetUserClaimsInContext ctx claims = ctx\<lparr>ctx_UserClaims := Some claims\<rparr>"

definition ApplyToContext :: "request_context \<Rightarrow> AuthResult option \<Rightarrow> request_context" where
  "ApplyToContext ctx result =
     (case result of
        None \<Rightarrow> ctx
      | Some r \<Rightarrow>
          (case ar_Claims r of
             Some claims \<Rightarrow> (SetUserClaimsInContext ctx claims)\<lparr>ctx_UserID := Some (uc_UserID claims)\<rparr>
           | None \<Rightarrow> (case ar_User r of Some user \<Rightarrow> SetUserInContext ctx user (ar_AccessToken r) | None \<Rightarrow> ctx)))"

end
