(* ===== verification/Handlers.thy ===== *)
theory Handlers
  imports Authentication
begin

text \<open>
  The shape of the API handlers: an operation on the store that answers a value or an error of the API
  and leaves a store in both cases, with the sequencing that the early returns of the handlers express.
\<close>

type_synonym ('s, 'a) act = "'s \<Rightarrow> (api_error + 'a) \<times> 's"

definition bindH :: "('s, 'a) act \<Rightarrow> ('a \<Rightarrow> ('s, 'b) act) \<Rightarrow> ('s, 'b) act" where
  "bindH m f s = (case m s of (Inl e, s') \<Rightarrow> (Inl e, s') | (Inr a, s') \<Rightarrow> f a s')"

definition liftH :: "api_error + 'a \<Rightarrow> ('s, 'a) act" where
  "liftH r s = (r, s)"

abbreviation returnH :: "'a \<Rightarrow> ('s, 'a) act" where "returnH a \<equiv> liftH (Inr a)"

abbreviation failH :: "Code \<Rightarrow> string \<Rightarrow> ('s, 'a) act" where "failH c msg \<equiv> liftH (Inl (Status c msg NoCause))"

abbreviation statusH :: "Code \<Rightarrow> string \<Rightarrow> store_error \<Rightarrow> api_error" where
  "statusH c msg \<equiv> (\<lambda>e. Status c msg (StoreCause e))"

text \<open>A call of the store whose error becomes an error of the API.\<close>

definition callH :: "(store_error \<Rightarrow> api_error) \<Rightarrow> ('s \<Rightarrow> (store_error + 'a) \<times> 's) \<Rightarrow> ('s, 'a) act" where
  "callH f m s = (case m s of (Inl e, s') \<Rightarrow> (Inl (f e), s') | (Inr a, s') \<Rightarrow> (Inr a, s'))"

text \<open>A call of the store that leaves it as it was when it fails.\<close>

definition keepE :: "('s \<Rightarrow> store_error + ('a \<times> 's)) \<Rightarrow> 's \<Rightarrow> (store_error + 'a) \<times> 's" where
  "keepE m s = (case m s of Inl e \<Rightarrow> (Inl e, s) | Inr (a, s') \<Rightarrow> (Inr a, s'))"

text \<open>The error printed into a status: a status printed into another one keeps its own cause.\<close>

definition cause_of :: "api_error \<Rightarrow> cause" where
  "cause_of e = (case e of Status c msg x \<Rightarrow> x | PlainError x \<Rightarrow> StoreCause x)"

definition wrapH :: "(api_error \<Rightarrow> api_error) \<Rightarrow> ('s, 'a) act \<Rightarrow> ('s, 'a) act" where
  "wrapH f m s = (case m s of (Inl e, s') \<Rightarrow> (Inl (f e), s') | (Inr a, s') \<Rightarrow> (Inr a, s'))"

named_theorems act_simps \<open>what an operation answers, by its parts\<close>

lemma bindH_Inr [act_simps]: "bindH m f s = (Inr b, s'') \<longleftrightarrow> (\<exists>a s'. m s = (Inr a, s') \<and> f a s' = (Inr b, s''))"
  by (auto simp: bindH_def split: prod.splits sum.splits)

lemma bindH_any: "bindH m f s = r \<Longrightarrow> (\<And>e s'. m s = (Inl e, s') \<Longrightarrow> r = (Inl e, s') \<Longrightarrow> P)
    \<Longrightarrow> (\<And>a s'. m s = (Inr a, s') \<Longrightarrow> f a s' = r \<Longrightarrow> P) \<Longrightarrow> P"
  by (auto simp: bindH_def split: prod.splits sum.splits)

lemma liftH_iff [act_simps]: "liftH r s = (r', s') \<longleftrightarrow> r = r' \<and> s = s'"
  by (simp add: liftH_def)

lemma callH_Inr [act_simps]: "callH f m s = (Inr a, s') \<longleftrightarrow> m s = (Inr a, s')"
  by (auto simp: callH_def split: prod.splits sum.splits)

lemma keepE_Inr [act_simps]: "keepE m s = (Inr a, s') \<longleftrightarrow> m s = Inr (a, s')"
  by (auto simp: keepE_def split: sum.splits)

lemma wrapH_Inr [act_simps]: "wrapH f m s = (Inr a, s') \<longleftrightarrow> m s = (Inr a, s')"
  by (auto simp: wrapH_def split: prod.splits sum.splits)

text \<open>A property of stores that every part keeps is kept by the whole.\<close>

definition keeps :: "('s \<Rightarrow> bool) \<Rightarrow> ('s, 'a) act \<Rightarrow> bool" where
  "keeps P m = (\<forall>s r s'. P s \<longrightarrow> m s = (r, s') \<longrightarrow> P s')"

lemma keepsD: "keeps P m \<Longrightarrow> m s = (r, s') \<Longrightarrow> P s \<Longrightarrow> P s'"
  by (auto simp: keeps_def)

lemma keeps_bindH [intro]:
  assumes "keeps P m" "\<And>a. keeps P (f a)"
  shows "keeps P (bindH m f)"
  unfolding keeps_def
proof (intro allI impI)
  fix s r s'
  assume "P s" and run: "bindH m f s = (r, s')"
  show "P s'" using run
    by (rule bindH_any) (use assms \<open>P s\<close> in \<open>auto dest: keepsD\<close>)
qed

lemma keeps_liftH [simp, intro]: "keeps P (liftH r)"
  by (simp add: keeps_def liftH_def)

lemma keeps_callH: "(\<And>s r s'. P s \<Longrightarrow> m s = (r, s') \<Longrightarrow> P s') \<Longrightarrow> keeps P (callH f m)"
  by (auto simp: keeps_def callH_def split: prod.splits sum.splits)

lemma keeps_wrapH: "keeps P m \<Longrightarrow> keeps P (wrapH f m)"
  by (auto simp: keeps_def wrapH_def split: prod.splits sum.splits)

section \<open>The service\<close>

text \<open>What the handlers use: the service with its store, the authenticator with the secret, the general
  instance setting as it is read (\<open>DisallowPasswordAuth\<close> and \<open>DisallowUserRegistration\<close>), and
  \<open>bcrypt.CompareHashAndPassword\<close>.\<close>

record GeneralSetting =
  gs_DisallowPasswordAuth :: bool
  gs_DisallowUserRegistration :: bool

record Server =
  sv_Service :: "UserSetting Store APIV1Service"
  sv_Auth :: Authenticator
  sv_General :: "store_error + GeneralSetting"
  sv_password :: "string \<Rightarrow> string \<Rightarrow> bool"

type_synonym 'a api = "(UserSetting Store, 'a) act"

definition fetch_current :: "Server \<Rightarrow> request_context \<Rightarrow> (store_error \<Rightarrow> api_error) \<Rightarrow> User option api" where
  "fetch_current sv ctx f = callH f (keepE (fetchCurrentUser (sv_Service sv) (GetUserID ctx)))"

definition find_users :: "Server \<Rightarrow> FindUser \<Rightarrow> (store_error \<Rightarrow> api_error) \<Rightarrow> User option api" where
  "find_users sv q f = callH f (keepE (mrs_GetUser (svc_Store (sv_Service sv)) q))"

section \<open>Users by name (user_resource_name.go, user_service.go)\<close>

definition parseUsernameFromName :: "string \<Rightarrow> string result" where
  "parseUsernameFromName name =
     bindE (GetNameParentTokens name [UserNamePrefix]) (\<lambda>tokens.
       if tokens ! 0 = [] then Inl (Errorf ''invalid user name %q'' [name]) else Inr (tokens ! 0))"

definition BuildUserName :: "string \<Rightarrow> string" where
  "BuildUserName username = UserNamePrefix @ username"

definition validateWritableUsername :: "string \<Rightarrow> unit result" where
  "validateWritableUsername username =
     (if \<not> IsValidUsername username then Inl (Errorf ''invalid username %q'' [username]) else Inr ())"

text \<open>Every caller prints the error of \<open>resolveUserFromName\<close> into a status: \<open>f\<close> is that status.\<close>

definition ResolveUserByName :: "Server \<Rightarrow> (cause \<Rightarrow> api_error) \<Rightarrow> string \<Rightarrow> User option api" where
  "ResolveUserByName sv f name =
     bindH (liftH (orElse (parseUsernameFromName name) (\<lambda>e. f (NameCause e)))) (\<lambda>username.
       find_users sv (no_find_user\<lparr>fu_Username := Some username\<rparr>)
         (\<lambda>e. f (StoreCause (WrapError e ''resolve user by name: GetUser failed''))))"

definition resolveUserFromName :: "Server \<Rightarrow> (cause \<Rightarrow> api_error) \<Rightarrow> string \<Rightarrow> User api" where
  "resolveUserFromName sv f name =
     bindH (ResolveUserByName sv f name) (\<lambda>user.
       case user of
         None \<Rightarrow> liftH (Inl (f (NameCause (Errorf ''user not found: %s'' [name]))))
       | Some u \<Rightarrow> returnH u)"

text \<open>The names with a user and one more part: \<open>users/u/collection/part\<close>.\<close>

definition user_part_name :: "string \<Rightarrow> string \<Rightarrow> (string \<times> string) option" where
  "user_part_name collection name =
     (case split (CHR ''/'') name of
        [a, b, c, d] \<Rightarrow> if a = ''users'' \<and> c = collection then Some (b, d) else None
      | _ \<Rightarrow> None)"

definition resolve_user_part :: "Server \<Rightarrow> string \<Rightarrow> go_error \<Rightarrow> (cause \<Rightarrow> api_error) \<Rightarrow> string \<Rightarrow> (User \<times> string) api" where
  "resolve_user_part sv collection err f name =
     (case user_part_name collection name of
        None \<Rightarrow> liftH (Inl (f (NameCause err)))
      | Some (username, part) \<Rightarrow>
          bindH (resolveUserFromName sv f (BuildUserName username)) (\<lambda>user. returnH (user, part)))"

definition resolveUserAndSettingKeyFromName :: "Server \<Rightarrow> (cause \<Rightarrow> api_error) \<Rightarrow> string \<Rightarrow> (User \<times> string) api" where
  "resolveUserAndSettingKeyFromName sv f name =
     resolve_user_part sv ''settings'' (Errorf ''invalid resource name format: %s'' [name]) f name"

definition resolveUserAndWebhookIDFromName :: "Server \<Rightarrow> (cause \<Rightarrow> api_error) \<Rightarrow> string \<Rightarrow> (User \<times> string) api" where
  "resolveUserAndWebhookIDFromName sv f name =
     resolve_user_part sv ''webhooks'' (Errorf ''invalid webhook name format'' []) f name"

definition resolveUserAndLinkedIdentityProviderFromName ::
    "Server \<Rightarrow> (cause \<Rightarrow> api_error) \<Rightarrow> string \<Rightarrow> (User \<times> string) api" where
  "resolveUserAndLinkedIdentityProviderFromName sv f name =
     resolve_user_part sv ''linkedIdentities'' (Errorf ''invalid linked identity name: %s'' [name]) f name"

section \<open>Access to the resources of a user (user_service_settings.go)\<close>

abbreviation RoleAdmin :: string where "RoleAdmin \<equiv> ''ADMIN''"
abbreviation RoleUser :: string where "RoleUser \<equiv> ''USER''"

definition authorizeUserResourceAccess :: "Server \<Rightarrow> request_context \<Rightarrow> int32 \<Rightarrow> bool \<Rightarrow> User api" where
  "authorizeUserResourceAccess sv ctx userID allowAdmin =
     bindH (fetch_current sv ctx (statusH Internal ''failed to get current user: %v'')) (\<lambda>currentUser.
       case currentUser of
         None \<Rightarrow> failH Unauthenticated ''user not authenticated''
       | Some user \<Rightarrow>
           if u_ID user = userID \<or> (allowAdmin \<and> u_Role user = RoleAdmin) then returnH user
           else failH PermissionDenied ''permission denied'')"

end
