(* ===== verification/Page_Tokens.thy ===== *)
theory Page_Tokens
  imports Handlers
begin

text \<open>
  Pages of a listing (\<open>common.go\<close>): the size of a page, and the token that a client sends back for the next
  one, the base64 text of a protocol message. The base64 functions are those of Go's
  standard library; the message encoding is a parameter. A string is its list of bytes.
\<close>

section \<open>Base64 (encoding/base64, StdEncoding)\<close>

definition base64_alphabet :: string where
  "base64_alphabet = ''ABCDEFGHIJKLMNOPQRSTUVWXYZabcdefghijklmnopqrstuvwxyz0123456789+/''"

definition base64_char :: "nat \<Rightarrow> char" where
  "base64_char n = base64_alphabet ! n"

fun index_of :: "char \<Rightarrow> string \<Rightarrow> nat option" where
  "index_of c [] = None"
| "index_of c (x # xs) = (if x = c then Some 0 else map_option Suc (index_of c xs))"

definition base64_value :: "char \<Rightarrow> nat option" where
  "base64_value c = index_of c base64_alphabet"

definition byte :: "char \<Rightarrow> nat" where
  "byte c = of_char c"

definition byte_char :: "nat \<Rightarrow> char" where
  "byte_char n = char_of n"

text \<open>Six bits per character; a last group of one or two bytes is padded.\<close>

fun EncodeToString :: "string \<Rightarrow> string" where
  "EncodeToString [] = []"
| "EncodeToString [a] = [base64_char (byte a div 4), base64_char (byte a mod 4 * 16), CHR ''='', CHR ''='']"
| "EncodeToString [a, b] =
     [base64_char (byte a div 4), base64_char (byte a mod 4 * 16 + byte b div 16), base64_char (byte b mod 16 * 4), CHR ''='']"
| "EncodeToString (a # b # c # rest) =
     [base64_char (byte a div 4), base64_char (byte a mod 4 * 16 + byte b div 16),
      base64_char (byte b mod 16 * 4 + byte c div 64), base64_char (byte c mod 64)] @ EncodeToString rest"

text \<open>Line breaks are skipped wherever they stand. Padding ends the text; bits that the last character has
  to spare are dropped.\<close>

definition base64_error :: "'a result" where
  "base64_error = Inl (Errorf ''illegal base64 data'' [])"

fun decode_groups :: "string \<Rightarrow> string result" where
  "decode_groups [] = Inr []"
| "decode_groups (w # x # y # z # rest) =
     (case (base64_value w, base64_value x) of
        (Some i, Some j) \<Rightarrow>
          if y = CHR ''='' then (if z = CHR ''='' \<and> rest = [] then Inr [byte_char (i * 4 + j div 16)] else base64_error)
          else (case base64_value y of
                  None \<Rightarrow> base64_error
                | Some k \<Rightarrow>
                    if z = CHR ''='' then
                      (if rest = [] then Inr [byte_char (i * 4 + j div 16), byte_char (j mod 16 * 16 + k div 4)] else base64_error)
                    else (case base64_value z of
                            None \<Rightarrow> base64_error
                          | Some l \<Rightarrow>
                              bindE (decode_groups rest) (\<lambda>bs.
                                Inr ([byte_char (i * 4 + j div 16), byte_char (j mod 16 * 16 + k div 4),
                                      byte_char (k mod 4 * 64 + l)] @ bs))))
      | _ \<Rightarrow> base64_error)"
| "decode_groups _ = base64_error"

definition DecodeString :: "string \<Rightarrow> string result" where
  "DecodeString s = decode_groups (filter (\<lambda>c. c \<noteq> CHR 10 \<and> c \<noteq> CHR 13) s)"

section \<open>Page tokens (common.go)\<close>

record PageToken =
  pt_Limit :: int
  pt_Offset :: int

text \<open>\<open>proto.Marshal\<close> and \<open>proto.Unmarshal\<close> of the message.\<close>

record page_lib =
  pl_Marshal :: "PageToken \<Rightarrow> string result"
  pl_Unmarshal :: "string \<Rightarrow> PageToken result"

definition DefaultPageSize :: int where "DefaultPageSize = 50"
definition MaxPageSize :: int where "MaxPageSize = 1000"

text \<open>The conversion of an \<open>int\<close> to an \<open>int32\<close>.\<close>

definition to_int32 :: "int \<Rightarrow> int" where
  "to_int32 i = (i + 2 ^ 31) mod 2 ^ 32 - 2 ^ 31"

definition marshalPageToken :: "page_lib \<Rightarrow> PageToken \<Rightarrow> string result" where
  "marshalPageToken lib t =
     bindE (wrapE ''failed to marshal page token'' (pl_Marshal lib t)) (\<lambda>b. Inr (EncodeToString b))"

definition unmarshalPageToken :: "page_lib \<Rightarrow> string \<Rightarrow> PageToken result" where
  "unmarshalPageToken lib s =
     bindE (wrapE ''failed to decode page token'' (DecodeString s)) (\<lambda>b.
       wrapE ''failed to unmarshal page token'' (pl_Unmarshal lib b))"

definition getPageToken :: "page_lib \<Rightarrow> int \<Rightarrow> int \<Rightarrow> string result" where
  "getPageToken lib limit offset = marshalPageToken lib \<lparr>pt_Limit = to_int32 limit, pt_Offset = to_int32 offset\<rparr>"

definition normalizePageSize :: "int \<Rightarrow> int" where
  "normalizePageSize pageSize =
     (if pageSize \<le> 0 then DefaultPageSize else if pageSize > MaxPageSize then MaxPageSize else pageSize)"

section \<open>Tokens are read back\<close>

text \<open>The documented behaviour of the message encoding: what is written can be read, and is not empty
  unless the message is the zero one.\<close>

definition page_lib_ok :: "page_lib \<Rightarrow> bool" where
  "page_lib_ok lib =
     (\<forall>t. - (2 ^ 31) \<le> pt_Limit t \<longrightarrow> pt_Limit t < 2 ^ 31 \<longrightarrow> - (2 ^ 31) \<le> pt_Offset t \<longrightarrow> pt_Offset t < 2 ^ 31 \<longrightarrow>
        (\<exists>b. pl_Marshal lib t = Inr b \<and> pl_Unmarshal lib b = Inr t \<and> (b = [] \<longrightarrow> pt_Limit t = 0 \<and> pt_Offset t = 0)))"

lemma alphabet_facts:
  "\<forall>n \<in> set [0..<64]. base64_value (base64_char n) = Some n \<and> base64_char n \<noteq> CHR ''=''
     \<and> base64_char n \<noteq> CHR 10 \<and> base64_char n \<noteq> CHR 13"
  by code_simp

lemma base64_char [simp]:
  assumes "n < 64"
  shows "base64_value (base64_char n) = Some n" "base64_char n \<noteq> CHR ''=''" "base64_char n \<noteq> CHR 10" "base64_char n \<noteq> CHR 13"
  using alphabet_facts assms by auto

lemma byte_less [simp]: "byte c < 256"
  by (simp add: byte_def)

lemma byte_char_byte [simp]: "byte_char (byte c) = c"
  by (simp add: byte_char_def byte_def)

lemma byte_div [simp]:
  "byte c div 4 < 64" "byte c div 16 < 16" "byte c div 64 < 4"
  using byte_less [of c] by (simp_all add: less_mult_imp_div_less)

lemma six_bits [simp]:
  "byte a mod 4 * 16 < 64" "byte a mod 4 * 16 + byte b div 16 < 64" "byte b mod 16 * 4 < 64"
  "byte b mod 16 * 4 + byte c div 64 < 64" "byte c mod 64 < 64"
proof -
  have "byte a mod 4 < 4" "byte b mod 16 < 16" "byte c mod 64 < 64" by simp_all
  moreover have "byte b div 16 < 16" "byte c div 64 < 4" by simp_all
  ultimately show "byte a mod 4 * 16 < 64" "byte a mod 4 * 16 + byte b div 16 < 64" "byte b mod 16 * 4 < 64"
    "byte b mod 16 * 4 + byte c div 64 < 64" "byte c mod 64 < 64" by linarith+
qed

lemma byte_parts [simp]:
  "byte b div 16 div 16 = 0" "byte c div 64 div 4 = 0"
  "byte b div 16 mod 16 = byte b div 16" "byte c div 64 mod 4 = byte c div 64"
  by (simp_all only: div_less mod_less byte_div)

lemma encoded_no_breaks: "filter (\<lambda>c. c \<noteq> CHR 10 \<and> c \<noteq> CHR 13) (EncodeToString bs) = EncodeToString bs"
  by (induction bs rule: EncodeToString.induct) simp_all

lemma decode_groups_encoded: "decode_groups (EncodeToString bs) = Inr bs"
  by (induction bs rule: EncodeToString.induct) simp_all

lemma DecodeString_EncodeToString [simp]: "DecodeString (EncodeToString bs) = Inr bs"
  by (simp add: DecodeString_def encoded_no_breaks decode_groups_encoded)

lemma EncodeToString_Nil [simp]: "EncodeToString bs = [] \<longleftrightarrow> bs = []"
  by (cases bs rule: EncodeToString.cases) simp_all

lemma to_int32_id: "- (2 ^ 31) \<le> i \<Longrightarrow> i < 2 ^ 31 \<Longrightarrow> to_int32 i = i"
  by (simp add: to_int32_def)

lemma normalizePageSize_range: "1 \<le> normalizePageSize n" "normalizePageSize n \<le> 1000"
  by (simp_all add: normalizePageSize_def DefaultPageSize_def MaxPageSize_def)

lemma normalizePageSize_again [simp]: "normalizePageSize (normalizePageSize n) = normalizePageSize n"
  by (simp add: normalizePageSize_def DefaultPageSize_def MaxPageSize_def)

lemma page_token_roundtrip:
  assumes "page_lib_ok lib" "1 \<le> limit" "limit \<le> 1000" "0 \<le> offset" "offset < 2 ^ 31"
  obtains t where "getPageToken lib limit offset = Inr t" "t \<noteq> []"
    "unmarshalPageToken lib t = Inr \<lparr>pt_Limit = limit, pt_Offset = offset\<rparr>"
proof -
  have i: "to_int32 limit = limit" "to_int32 offset = offset" using assms by (simp_all add: to_int32_id)
  obtain b where b: "pl_Marshal lib \<lparr>pt_Limit = limit, pt_Offset = offset\<rparr> = Inr b"
      "pl_Unmarshal lib b = Inr \<lparr>pt_Limit = limit, pt_Offset = offset\<rparr>" "b \<noteq> []"
    using assms unfolding page_lib_ok_def
    by (auto dest: spec [of _ "\<lparr>pt_Limit = limit, pt_Offset = offset\<rparr>"])
  show ?thesis
    by (rule that [of "EncodeToString b"])
      (simp_all add: getPageToken_def marshalPageToken_def unmarshalPageToken_def i b)
qed

end
