(* ===== verification/Space_Service.thy ===== *)
theory Space_Service
  imports Page_Tokens
begin

text \<open>
  The handlers of spaces, their members and invitations (\<open>space_service.go\<close>,
  \<open>space_service_converters.go\<close>). A handler reads the caller from the request context, resolves the names of the
  request under the caller's membership, calls the store, and tells the live clients that spaces changed.
\<close>

section \<open>Messages (space_service_converters.go)\<close>

datatype SpaceMember_Role =
  SpaceMember_ROLE_UNSPECIFIED | SpaceMember_ADMIN | SpaceMember_USER | SpaceMember_Role_unknown int

record SpaceMessage =
  ps_Name :: string
  ps_Title :: string
  ps_Description :: string
  ps_CurrentUserRole :: SpaceMember_Role
  ps_MemberCount :: nat

record SpaceMemberMessage =
  pm_Name :: string
  pm_User :: string
  pm_Role :: SpaceMember_Role

record SpaceInvitationMessage =
  pi_Name :: string
  pi_Invitee :: string
  pi_Role :: SpaceMember_Role
  pi_Space :: SpaceMessage

definition buildSpaceName :: "string \<Rightarrow> string" where
  "buildSpaceName uid = SpaceNamePrefix @ uid"

definition buildSpaceMemberName :: "string \<Rightarrow> string \<Rightarrow> string" where
  "buildSpaceMemberName spaceUID username = buildSpaceName spaceUID @ ''/'' @ SpaceMemberNamePrefix @ username"

definition buildSpaceInvitationName :: "string \<Rightarrow> string \<Rightarrow> string" where
  "buildSpaceInvitationName spaceUID username = buildSpaceName spaceUID @ ''/'' @ SpaceInvitationNamePrefix @ username"

definition convertSpaceMemberRoleFromStore :: "SpaceMemberRole \<Rightarrow> SpaceMember_Role" where
  "convertSpaceMemberRoleFromStore role =
     (if role = SpaceMemberRoleAdmin then SpaceMember_ADMIN
      else if role = SpaceMemberRoleUser then SpaceMember_USER else SpaceMember_ROLE_UNSPECIFIED)"

fun convertSpaceMemberRoleToStore :: "SpaceMember_Role \<Rightarrow> SpaceMemberRole option" where
  "convertSpaceMemberRoleToStore SpaceMember_ADMIN = Some SpaceMemberRoleAdmin"
| "convertSpaceMemberRoleToStore SpaceMember_USER = Some SpaceMemberRoleUser"
| "convertSpaceMemberRoleToStore _ = None"

definition convertSpaceMetadataFromStore :: "Space \<Rightarrow> SpaceMessage" where
  "convertSpaceMetadataFromStore sp =
     \<lparr>ps_Name = buildSpaceName (Space_UID sp), ps_Title = Space_Title sp, ps_Description = Space_Description sp,
      ps_CurrentUserRole = SpaceMember_ROLE_UNSPECIFIED, ps_MemberCount = 0\<rparr>"

definition convertSpaceFromStore :: "Space \<Rightarrow> SpaceMessage" where
  "convertSpaceFromStore sp =
     (convertSpaceMetadataFromStore sp)\<lparr>ps_CurrentUserRole := convertSpaceMemberRoleFromStore (Space_CurrentUserRole sp),
        ps_MemberCount := Space_MemberCount sp\<rparr>"

definition convertSpaceMemberFromStore :: "Space \<Rightarrow> User \<Rightarrow> SpaceMember \<Rightarrow> SpaceMemberMessage" where
  "convertSpaceMemberFromStore sp user member =
     \<lparr>pm_Name = buildSpaceMemberName (Space_UID sp) (u_Username user), pm_User = BuildUserName (u_Username user),
      pm_Role = convertSpaceMemberRoleFromStore (mem_Role member)\<rparr>"

definition convertSpaceInvitationFromStore :: "Space \<Rightarrow> User \<Rightarrow> SpaceInvitation \<Rightarrow> SpaceInvitationMessage" where
  "convertSpaceInvitationFromStore sp user invitation =
     \<lparr>pi_Name = buildSpaceInvitationName (Space_UID sp) (u_Username user), pi_Invitee = BuildUserName (u_Username user),
      pi_Role = convertSpaceMemberRoleFromStore (inv_Role invitation), pi_Space = convertSpaceMetadataFromStore sp\<rparr>"

section \<open>The state of a handler\<close>

text \<open>The store, and how often the hub was told that spaces changed. The service, the encoding of page tokens,
  which attachment payloads can be decoded, and the outcome of the removal of files and objects are arguments.\<close>

record space_env =
  sx_Server :: Server
  sx_Pages :: page_lib
  sx_payload_ok :: "string \<Rightarrow> bool"
  sx_cleanup :: "Attachment list \<Rightarrow> store_error option"

record space_state =
  sps_Store :: "UserSetting Store"
  sps_published :: nat

type_synonym 'a space_api = "(space_state, 'a) act"

abbreviation tables_of :: "space_state \<Rightarrow> db" where "tables_of s \<equiv> st_db (sps_Store s)"

definition in_store :: "'a api \<Rightarrow> 'a space_api" where
  "in_store m s = (case m (sps_Store s) of (r, st) \<Rightarrow> (r, s\<lparr>sps_Store := st\<rparr>))"

definition read_db :: "(db \<Rightarrow> 'a) \<Rightarrow> 'a space_api" where
  "read_db f s = (Inr (f (tables_of s)), s)"

definition publishSpaceChanged :: "unit space_api" where
  "publishSpaceChanged s = (Inr (), s\<lparr>sps_published := sps_published s + 1\<rparr>)"

definition mapSpaceMutationError :: "string \<Rightarrow> store_error \<Rightarrow> api_error" where
  "mapSpaceMutationError operation err =
     (if error_is err ErrLastSpaceAdmin then Status FailedPrecondition ''a space must retain an active administrator'' NoCause
      else if error_is err ErrSpacePermissionDenied then Status NotFound ''space not found'' NoCause
      else if error_is err ErrSpaceMemberNotActive then Status FailedPrecondition ''space members must be active users'' NoCause
      else if error_is err ErrSpaceAlreadyExists then Status AlreadyExists ''space already exists'' NoCause
      else if error_is err ErrSpaceMemberAlreadyExists
      then Status AlreadyExists ''space membership or invitation already exists'' NoCause
      else if error_is err ErrSpaceInvitationNotFound then Status NotFound ''space invitation not found'' NoCause
      else if error_is err ErrSpaceNotFound \<or> error_is err ErrSpaceMemberNotFound
      then Status NotFound ''space or membership not found'' NoCause
      else if error_is err ErrNoRows then Status NotFound ''space or membership not found'' NoCause
      else Status Internal (operation @ '': %v'') (StoreCause err))"

text \<open>A call of the store that changes the tables when it succeeds.\<close>

definition change_db :: "string \<Rightarrow> (db \<Rightarrow> store_error + ('a \<times> db)) \<Rightarrow> 'a space_api" where
  "change_db operation m s =
     (case m (tables_of s) of
        Inl e \<Rightarrow> (Inl (mapSpaceMutationError operation e), s)
      | Inr (a, d) \<Rightarrow> (Inr a, s\<lparr>sps_Store := (sps_Store s)\<lparr>st_db := d\<rparr>\<rparr>))"

abbreviation with_unit :: "(db \<Rightarrow> store_error + db) \<Rightarrow> db \<Rightarrow> store_error + (unit \<times> db)" where
  "with_unit m \<equiv> (\<lambda>d. bindE (m d) (\<lambda>d. Inr ((), d)))"

section \<open>Who asks, and for what\<close>

definition requireCurrentSpaceUser :: "space_env \<Rightarrow> request_context \<Rightarrow> User space_api" where
  "requireCurrentSpaceUser env ctx =
     bindH (in_store (fetch_current (sx_Server env) ctx (statusH Internal ''failed to get current user: %v''))) (\<lambda>user.
       case user of
         None \<Rightarrow> failH Unauthenticated ''user not authenticated''
       | Some u \<Rightarrow> returnH u)"

definition resolveMemberSpace :: "string \<Rightarrow> User \<Rightarrow> (Space \<times> SpaceMember) space_api" where
  "resolveMemberSpace name currentUser =
     bindH (liftH (orElse (ExtractSpaceUIDFromName name) (\<lambda>e. Status InvalidArgument ''invalid space name: %v'' (NameCause e)))) (\<lambda>uid.
     bindH (read_db (Store_GetSpace (no_find_space\<lparr>fs_UID := Some uid, fs_MemberUserID := Some (u_ID currentUser)\<rparr>))) (\<lambda>space.
       case space of
         None \<Rightarrow> failH NotFound ''space not found''
       | Some sp \<Rightarrow>
           bindH (read_db (Store_GetSpaceMember (find_member (Space_ID sp) (u_ID currentUser)))) (\<lambda>member.
             case member of
               None \<Rightarrow> failH NotFound ''space not found''
             | Some m \<Rightarrow>
                 if \<not> IsActiveMember (mem_Role m) then failH NotFound ''space not found'' else returnH (sp, m))))"

definition requireSpaceAdministrator :: "SpaceMember option \<Rightarrow> unit space_api" where
  "requireSpaceAdministrator member =
     (case member of
        None \<Rightarrow> failH PermissionDenied ''space administrator permission required''
      | Some m \<Rightarrow>
          if mem_Role m \<noteq> SpaceMemberRoleAdmin then failH PermissionDenied ''space administrator permission required''
          else returnH ())"

definition listSpacePage :: "page_lib \<Rightarrow> int \<Rightarrow> string \<Rightarrow> api_error + (int \<times> int)" where
  "listSpacePage lib pageSize pageToken =
     (if pageToken = [] then Inr (normalizePageSize pageSize, 0)
      else bindE (orElse (unmarshalPageToken lib pageToken) (\<lambda>e. Status InvalidArgument ''invalid page token: %v'' (NameCause e)))
             (\<lambda>token. Inr (normalizePageSize (pt_Limit token), max (pt_Offset token) 0)))"

text \<open>One item more than a page is listed; when it is there, it is cut off and a token for the next page made.\<close>

definition cut_page :: "page_lib \<Rightarrow> int \<Rightarrow> int \<Rightarrow> 'a list \<Rightarrow> api_error + ('a list \<times> string)" where
  "cut_page lib limit offset items =
     (if int (length items) = limit + 1
      then bindE (orElse (getPageToken lib limit (offset + limit)) (\<lambda>e. Status Internal ''failed to create next page token: %v'' (NameCause e)))
             (\<lambda>token. Inr (take (nat limit) items, token))
      else Inr (items, []))"

section \<open>Spaces\<close>

definition CreateSpace :: "space_env \<Rightarrow> string \<Rightarrow> string \<Rightarrow> request_context \<Rightarrow> SpaceMessage option \<Rightarrow> string \<Rightarrow> SpaceMessage space_api" where
  "CreateSpace env uuid shortuuid ctx space spaceId =
     bindH (requireCurrentSpaceUser env ctx) (\<lambda>currentUser.
       case space of
         None \<Rightarrow> failH InvalidArgument ''space is required''
       | Some sp \<Rightarrow>
           (let title = trim_space (ps_Title sp) in
            if title = [] then failH InvalidArgument ''space title is required''
            else
              bindH (liftH (orElse (ValidateAndGenerateSpaceUID uuid shortuuid spaceId) (\<lambda>e. Status InvalidArgument
                ''invalid UID: must be 1-36 characters, contain only letters, digits, or hyphens, and start and end with a letter or digit'' NoCause))) (\<lambda>uid.
              bindH (change_db ''failed to create space''
                       (Store_CreateSpace (Some \<lparr>Space_ID = 0, Space_UID = uid, Space_Title = title,
                          Space_Description = trim_space (ps_Description sp), Space_CurrentUserRole = [], Space_MemberCount = 0\<rparr>)
                          (u_ID currentUser))) (\<lambda>created.
              bindH publishSpaceChanged (\<lambda>_.
                returnH (convertSpaceFromStore created))))))"

definition ListSpaces :: "space_env \<Rightarrow> request_context \<Rightarrow> int \<Rightarrow> string \<Rightarrow> (SpaceMessage list \<times> string) space_api" where
  "ListSpaces env ctx pageSize pageToken =
     bindH (requireCurrentSpaceUser env ctx) (\<lambda>currentUser.
     bindH (liftH (listSpacePage (sx_Pages env) pageSize pageToken)) (\<lambda>(limit, offset).
     bindH (read_db (DB_ListSpaces (no_find_space\<lparr>fs_MemberUserID := Some (u_ID currentUser),
              fs_Limit := Some (limit + 1), fs_Offset := Some offset\<rparr>))) (\<lambda>spaces.
     bindH (liftH (cut_page (sx_Pages env) limit offset spaces)) (\<lambda>(spaces, nextPageToken).
       returnH (map convertSpaceFromStore spaces, nextPageToken)))))"

definition GetSpace :: "space_env \<Rightarrow> request_context \<Rightarrow> string \<Rightarrow> SpaceMessage space_api" where
  "GetSpace env ctx name =
     bindH (requireCurrentSpaceUser env ctx) (\<lambda>currentUser.
     bindH (resolveMemberSpace name currentUser) (\<lambda>(space, _).
       returnH (convertSpaceFromStore space)))"

fun space_paths :: "SpaceMessage \<Rightarrow> string list \<Rightarrow> UpdateSpace \<Rightarrow> api_error + UpdateSpace" where
  "space_paths sp [] update = Inr update"
| "space_paths sp (path # paths) update =
     (if path = ''title'' then
        (if trim_space (ps_Title sp) = [] then Inl (Status InvalidArgument ''space title is required'' NoCause)
         else space_paths sp paths (update\<lparr>us_Title := Some (trim_space (ps_Title sp))\<rparr>))
      else if path = ''description'' then
        space_paths sp paths (update\<lparr>us_Description := Some (trim_space (ps_Description sp))\<rparr>)
      else Inl (Status InvalidArgument (''unsupported update mask path: '' @ path) NoCause))"

definition UpdateSpace_handler ::
    "space_env \<Rightarrow> request_context \<Rightarrow> SpaceMessage option \<Rightarrow> string list option \<Rightarrow> SpaceMessage space_api" where
  "UpdateSpace_handler env ctx space updateMask =
     bindH (requireCurrentSpaceUser env ctx) (\<lambda>currentUser.
       case space of
         None \<Rightarrow> failH InvalidArgument ''space is required''
       | Some sp \<Rightarrow>
           (case updateMask of
              None \<Rightarrow> failH InvalidArgument ''update mask is required''
            | Some paths \<Rightarrow>
                if paths = [] then failH InvalidArgument ''update mask is required''
                else
                  bindH (resolveMemberSpace (ps_Name sp) currentUser) (\<lambda>(target, membership).
                  bindH (requireSpaceAdministrator (Some membership)) (\<lambda>_.
                  bindH (liftH (space_paths sp paths \<lparr>us_ID = Space_ID target, us_Title = None, us_Description = None\<rparr>)) (\<lambda>update.
                  bindH (change_db ''failed to update space'' (Store_UpdateSpace (Some update) (u_ID currentUser))) (\<lambda>updated.
                  bindH publishSpaceChanged (\<lambda>_.
                    returnH (convertSpaceFromStore updated))))))))"

definition DeleteSpace_handler :: "space_env \<Rightarrow> request_context \<Rightarrow> string \<Rightarrow> unit space_api" where
  "DeleteSpace_handler env ctx name =
     bindH (requireCurrentSpaceUser env ctx) (\<lambda>currentUser.
     bindH (resolveMemberSpace name currentUser) (\<lambda>(space, membership).
     bindH (requireSpaceAdministrator (Some membership)) (\<lambda>_.
     bindH (change_db ''failed to delete space'' (Store_DeleteSpace (sx_payload_ok env) (Some (Space_ID space, u_ID currentUser)))) (\<lambda>attachments.
     bindH publishSpaceChanged (\<lambda>_.
       case sx_cleanup env attachments of
         None \<Rightarrow> returnH ()
       | Some e \<Rightarrow> liftH (Inl (Status Internal ''space was deleted but attachment storage cleanup failed: %v'' (StoreCause e))))))))"

section \<open>Invitations\<close>

text \<open>The users of a list by their id; a later entry wins.\<close>

definition users_by_id :: "User list \<Rightarrow> int32 \<Rightarrow> User option" where
  "users_by_id users i = map_of (rev (map (\<lambda>u. (u_ID u, u)) users)) i"

definition list_users :: "space_env \<Rightarrow> string \<Rightarrow> int32 list \<Rightarrow> User list space_api" where
  "list_users env msg ids =
     in_store (callH (statusH Internal msg) (keepE (Store_ListUsers (au_users (sv_Auth (sx_Server env)))
       (no_find_user\<lparr>fu_IDList := ids\<rparr>))))"

definition get_user_by_name :: "space_env \<Rightarrow> string \<Rightarrow> string \<Rightarrow> User option space_api" where
  "get_user_by_name env msg username =
     in_store (find_users (sx_Server env) (no_find_user\<lparr>fu_Username := Some username\<rparr>) (statusH Internal msg))"

definition no_find_invitation :: FindSpaceInvitation where
  "no_find_invitation = \<lparr>fi_SpaceID = None, fi_UserID = None, fi_ViewerUserID = None, fi_Limit = None, fi_Offset = None\<rparr>"

definition CreateSpaceInvitation ::
    "space_env \<Rightarrow> request_context \<Rightarrow> string \<Rightarrow> SpaceInvitationMessage option \<Rightarrow> SpaceInvitationMessage space_api" where
  "CreateSpaceInvitation env ctx parent invitation =
     bindH (requireCurrentSpaceUser env ctx) (\<lambda>currentUser.
       case invitation of
         None \<Rightarrow> failH InvalidArgument ''space invitation is required''
       | Some msg \<Rightarrow>
           bindH (resolveMemberSpace parent currentUser) (\<lambda>(space, callerMembership).
           bindH (requireSpaceAdministrator (Some callerMembership)) (\<lambda>_.
           bindH (liftH (orElse (parseUsernameFromName (pi_Invitee msg))
                    (\<lambda>e. Status InvalidArgument ''invalid invitation invitee: %v'' (NameCause e)))) (\<lambda>targetUsername.
           bindH (get_user_by_name env ''failed to get invitation invitee: %v'' targetUsername) (\<lambda>targetUser.
             case targetUser of
               None \<Rightarrow> failH NotFound ''user not found''
             | Some target \<Rightarrow>
                 if u_RowStatus target \<noteq> Normal
                 then failH FailedPrecondition ''only active users can be invited to a space''
                 else (case convertSpaceMemberRoleToStore (pi_Role msg) of
                   None \<Rightarrow> failH InvalidArgument ''space invitation role must be ADMIN or USER''
                 | Some role \<Rightarrow>
                     if pi_Name msg \<noteq> [] \<and> pi_Name msg \<noteq> buildSpaceInvitationName (Space_UID space) (u_Username target)
                     then failH InvalidArgument ''space invitation name does not match parent and invitee''
                     else
                       bindH (change_db ''failed to create space invitation''
                         (Store_CreateSpaceInvitation
                            (Some \<lparr>inv_SpaceID = Space_ID space, inv_UserID = u_ID target, inv_Role = role\<rparr>) (u_ID currentUser))) (\<lambda>created.
                       bindH publishSpaceChanged (\<lambda>_.
                         returnH (convertSpaceInvitationFromStore space target created)))))))))"

definition invitation_messages :: "Space \<Rightarrow> (int32 \<Rightarrow> User option) \<Rightarrow> SpaceInvitation list \<Rightarrow> SpaceInvitationMessage list" where
  "invitation_messages space users invitations =
     [convertSpaceInvitationFromStore space u i.
        i \<leftarrow> invitations, u \<leftarrow> (case users (inv_UserID i) of None \<Rightarrow> [] | Some u \<Rightarrow> [u]),
        convertSpaceMemberRoleFromStore (inv_Role i) \<noteq> SpaceMember_ROLE_UNSPECIFIED]"

definition ListSpaceInvitations ::
    "space_env \<Rightarrow> request_context \<Rightarrow> string \<Rightarrow> int \<Rightarrow> string \<Rightarrow> (SpaceInvitationMessage list \<times> string) space_api" where
  "ListSpaceInvitations env ctx parent pageSize pageToken =
     bindH (requireCurrentSpaceUser env ctx) (\<lambda>currentUser.
     bindH (resolveMemberSpace parent currentUser) (\<lambda>(space, callerMembership).
     bindH (requireSpaceAdministrator (Some callerMembership)) (\<lambda>_.
     bindH (liftH (listSpacePage (sx_Pages env) pageSize pageToken)) (\<lambda>(limit, offset).
     bindH (read_db (DB_ListSpaceInvitations (no_find_invitation\<lparr>fi_SpaceID := Some (Space_ID space),
              fi_ViewerUserID := Some (u_ID currentUser), fi_Limit := Some (limit + 1), fi_Offset := Some offset\<rparr>))) (\<lambda>invitations.
     bindH (liftH (cut_page (sx_Pages env) limit offset invitations)) (\<lambda>(invitations, nextPageToken).
       if invitations = [] then returnH ([], nextPageToken)
       else bindH (list_users env ''failed to resolve invitation invitees: %v'' (map inv_UserID invitations)) (\<lambda>users.
              returnH (invitation_messages space (users_by_id users) invitations, nextPageToken))))))))"

definition spaces_by_id :: "Space list \<Rightarrow> int32 \<Rightarrow> Space option" where
  "spaces_by_id spaces i = map_of (rev (map (\<lambda>s. (Space_ID s, s)) spaces)) i"

definition ListUserSpaceInvitations ::
    "space_env \<Rightarrow> request_context \<Rightarrow> string \<Rightarrow> int \<Rightarrow> string \<Rightarrow> (SpaceInvitationMessage list \<times> string) space_api" where
  "ListUserSpaceInvitations env ctx parent pageSize pageToken =
     bindH (requireCurrentSpaceUser env ctx) (\<lambda>currentUser.
     bindH (liftH (orElse (parseUsernameFromName parent) (\<lambda>e. Status InvalidArgument ''invalid user parent: %v'' (NameCause e)))) (\<lambda>username.
       if username \<noteq> u_Username currentUser
       then failH PermissionDenied ''users may only list their own space invitations''
       else
         bindH (liftH (listSpacePage (sx_Pages env) pageSize pageToken)) (\<lambda>(limit, offset).
         bindH (read_db (DB_ListSpaceInvitations (no_find_invitation\<lparr>fi_UserID := Some (u_ID currentUser),
                  fi_ViewerUserID := Some (u_ID currentUser), fi_Limit := Some (limit + 1), fi_Offset := Some offset\<rparr>))) (\<lambda>invitations.
         bindH (liftH (cut_page (sx_Pages env) limit offset invitations)) (\<lambda>(invitations, nextPageToken).
           if invitations = [] then returnH ([], nextPageToken)
           else bindH (read_db (DB_ListSpaces (no_find_space\<lparr>fs_IDList := map inv_SpaceID invitations\<rparr>))) (\<lambda>spaces.
                  returnH ([convertSpaceInvitationFromStore sp currentUser i.
                      i \<leftarrow> invitations, sp \<leftarrow> (case spaces_by_id spaces (inv_SpaceID i) of None \<Rightarrow> [] | Some sp \<Rightarrow> [sp]),
                      convertSpaceMemberRoleFromStore (inv_Role i) \<noteq> SpaceMember_ROLE_UNSPECIFIED], nextPageToken)))))))"

definition resolveSpaceInvitationResource ::
    "space_env \<Rightarrow> string \<Rightarrow> User \<Rightarrow> (Space \<times> User \<times> SpaceMember option \<times> SpaceInvitation) space_api" where
  "resolveSpaceInvitationResource env name currentUser =
     bindH (liftH (orElse (ExtractSpaceInvitationTokensFromName name)
              (\<lambda>e. Status InvalidArgument ''invalid space invitation name: %v'' (NameCause e)))) (\<lambda>(spaceUID, username).
     bindH (read_db (Store_GetSpace (no_find_space\<lparr>fs_UID := Some spaceUID\<rparr>))) (\<lambda>space.
       case space of
         None \<Rightarrow> failH NotFound ''space invitation not found''
       | Some sp \<Rightarrow>
     bindH (get_user_by_name env ''failed to resolve invitation invitee: %v'' username) (\<lambda>targetUser.
       case targetUser of
         None \<Rightarrow> failH NotFound ''space invitation not found''
       | Some target \<Rightarrow>
     bindH (read_db (Store_GetSpaceMember (find_member (Space_ID sp) (u_ID currentUser)))) (\<lambda>callerMembership.
       let isInvitee = (u_ID target = u_ID currentUser);
           isAdministrator = (case callerMembership of None \<Rightarrow> False | Some m \<Rightarrow> mem_Role m = SpaceMemberRoleAdmin)
       in if \<not> isInvitee \<and> \<not> isAdministrator then failH NotFound ''space invitation not found''
       else
     bindH (read_db (Store_GetSpaceInvitation (no_find_invitation\<lparr>fi_SpaceID := Some (Space_ID sp),
              fi_UserID := Some (u_ID target), fi_ViewerUserID := Some (u_ID currentUser)\<rparr>))) (\<lambda>invitation.
       case invitation of
         None \<Rightarrow> failH NotFound ''space invitation not found''
       | Some i \<Rightarrow>
           if convertSpaceMemberRoleFromStore (inv_Role i) = SpaceMember_ROLE_UNSPECIFIED
           then failH NotFound ''space invitation not found''
           else returnH (sp, target, callerMembership, i))))))"

definition GetSpaceInvitation :: "space_env \<Rightarrow> request_context \<Rightarrow> string \<Rightarrow> SpaceInvitationMessage space_api" where
  "GetSpaceInvitation env ctx name =
     bindH (requireCurrentSpaceUser env ctx) (\<lambda>currentUser.
     bindH (resolveSpaceInvitationResource env name currentUser) (\<lambda>(space, targetUser, _, invitation).
       returnH (convertSpaceInvitationFromStore space targetUser invitation)))"

definition DeleteSpaceInvitation :: "space_env \<Rightarrow> request_context \<Rightarrow> string \<Rightarrow> unit space_api" where
  "DeleteSpaceInvitation env ctx name =
     bindH (requireCurrentSpaceUser env ctx) (\<lambda>currentUser.
     bindH (resolveSpaceInvitationResource env name currentUser) (\<lambda>(_, targetUser, callerMembership, invitation).
     bindH (requireSpaceAdministrator callerMembership) (\<lambda>_.
     bindH (change_db ''failed to revoke space invitation''
              (with_unit (Store_RevokeSpaceInvitation
                 (Some \<lparr>key_SpaceID = inv_SpaceID invitation, key_UserID = u_ID targetUser\<rparr>) (u_ID currentUser)))) (\<lambda>_.
       publishSpaceChanged))))"

definition AcceptSpaceInvitation :: "space_env \<Rightarrow> request_context \<Rightarrow> string \<Rightarrow> SpaceMemberMessage space_api" where
  "AcceptSpaceInvitation env ctx name =
     bindH (requireCurrentSpaceUser env ctx) (\<lambda>currentUser.
     bindH (resolveSpaceInvitationResource env name currentUser) (\<lambda>(space, targetUser, _, invitation).
       if u_ID targetUser \<noteq> u_ID currentUser
       then failH PermissionDenied ''only the invitee may accept a space invitation''
       else
         bindH (change_db ''failed to accept space invitation''
                  (Store_AcceptSpaceInvitation
                     (Some \<lparr>key_SpaceID = inv_SpaceID invitation, key_UserID = u_ID currentUser\<rparr>) (u_ID currentUser))) (\<lambda>member.
         bindH publishSpaceChanged (\<lambda>_.
           returnH (convertSpaceMemberFromStore space currentUser member)))))"

definition DeclineSpaceInvitation :: "space_env \<Rightarrow> request_context \<Rightarrow> string \<Rightarrow> unit space_api" where
  "DeclineSpaceInvitation env ctx name =
     bindH (requireCurrentSpaceUser env ctx) (\<lambda>currentUser.
     bindH (resolveSpaceInvitationResource env name currentUser) (\<lambda>(_, targetUser, _, invitation).
       if u_ID targetUser \<noteq> u_ID currentUser
       then failH PermissionDenied ''only the invitee may decline a space invitation''
       else
         bindH (change_db ''failed to decline space invitation''
                  (with_unit (Store_DeclineSpaceInvitation
                     (Some \<lparr>key_SpaceID = inv_SpaceID invitation, key_UserID = u_ID currentUser\<rparr>) (u_ID currentUser)))) (\<lambda>_.
           publishSpaceChanged)))"

section \<open>Members\<close>

definition no_find_member :: FindSpaceMember where
  "no_find_member = \<lparr>fm_SpaceID = None, fm_UserID = None, fm_ViewerUserID = None, fm_Limit = None, fm_Offset = None\<rparr>"

definition ListSpaceMembers ::
    "space_env \<Rightarrow> request_context \<Rightarrow> string \<Rightarrow> int \<Rightarrow> string \<Rightarrow> (SpaceMemberMessage list \<times> string) space_api" where
  "ListSpaceMembers env ctx parent pageSize pageToken =
     bindH (requireCurrentSpaceUser env ctx) (\<lambda>currentUser.
     bindH (resolveMemberSpace parent currentUser) (\<lambda>(space, _).
     bindH (liftH (listSpacePage (sx_Pages env) pageSize pageToken)) (\<lambda>(limit, offset).
     bindH (read_db (DB_ListSpaceMembers (no_find_member\<lparr>fm_SpaceID := Some (Space_ID space),
              fm_ViewerUserID := Some (u_ID currentUser), fm_Limit := Some (limit + 1), fm_Offset := Some offset\<rparr>))) (\<lambda>members.
     bindH (liftH (cut_page (sx_Pages env) limit offset members)) (\<lambda>(members, nextPageToken).
       if members = [] then returnH ([], nextPageToken)
       else bindH (list_users env ''failed to resolve space members: %v'' (map mem_UserID members)) (\<lambda>users.
              returnH ([convertSpaceMemberFromStore space u m.
                  m \<leftarrow> members, u \<leftarrow> (case users_by_id users (mem_UserID m) of None \<Rightarrow> [] | Some u \<Rightarrow> [u]),
                  u_RowStatus u = Normal \<and> convertSpaceMemberRoleFromStore (mem_Role m) \<noteq> SpaceMember_ROLE_UNSPECIFIED],
                nextPageToken)))))))"

definition resolveSpaceMemberResource ::
    "space_env \<Rightarrow> string \<Rightarrow> User \<Rightarrow> (Space \<times> User \<times> SpaceMember \<times> SpaceMember) space_api" where
  "resolveSpaceMemberResource env name currentUser =
     bindH (liftH (orElse (ExtractSpaceMemberTokensFromName name)
              (\<lambda>e. Status InvalidArgument ''invalid space member name: %v'' (NameCause e)))) (\<lambda>(spaceUID, username).
     bindH (resolveMemberSpace (buildSpaceName spaceUID) currentUser) (\<lambda>(space, callerMembership).
     bindH (in_store (ResolveUserByName (sx_Server env) (Status Internal ''failed to resolve member user: %v'') (BuildUserName username))) (\<lambda>targetUser.
       case targetUser of
         None \<Rightarrow> failH NotFound ''space member not found''
       | Some target \<Rightarrow>
           if u_RowStatus target \<noteq> Normal then failH NotFound ''space member not found''
           else
             bindH (read_db (Store_GetSpaceMember (no_find_member\<lparr>fm_SpaceID := Some (Space_ID space),
                      fm_UserID := Some (u_ID target), fm_ViewerUserID := Some (u_ID currentUser)\<rparr>))) (\<lambda>targetMembership.
               case targetMembership of
                 None \<Rightarrow> failH NotFound ''space member not found''
               | Some m \<Rightarrow>
                   if \<not> IsActiveMember (mem_Role m) then failH NotFound ''space member not found''
                   else returnH (space, target, callerMembership, m)))))"

definition GetSpaceMember :: "space_env \<Rightarrow> request_context \<Rightarrow> string \<Rightarrow> SpaceMemberMessage space_api" where
  "GetSpaceMember env ctx name =
     bindH (requireCurrentSpaceUser env ctx) (\<lambda>currentUser.
     bindH (resolveSpaceMemberResource env name currentUser) (\<lambda>(space, targetUser, _, membership).
       returnH (convertSpaceMemberFromStore space targetUser membership)))"

text \<open>Which fields an update mask names: the role, the user.\<close>

fun member_paths :: "string list \<Rightarrow> bool \<Rightarrow> bool \<Rightarrow> api_error + (bool \<times> bool)" where
  "member_paths [] roleIncluded userIncluded = Inr (roleIncluded, userIncluded)"
| "member_paths (path # paths) roleIncluded userIncluded =
     (if path = ''role'' then member_paths paths True userIncluded
      else if path = ''user'' then member_paths paths roleIncluded True
      else Inl (Status InvalidArgument (''unsupported update mask path: '' @ path) NoCause))"

definition UpdateSpaceMember_handler ::
    "space_env \<Rightarrow> request_context \<Rightarrow> SpaceMemberMessage option \<Rightarrow> string list option \<Rightarrow> SpaceMemberMessage space_api" where
  "UpdateSpaceMember_handler env ctx spaceMember updateMask =
     bindH (requireCurrentSpaceUser env ctx) (\<lambda>currentUser.
       case spaceMember of
         None \<Rightarrow> failH InvalidArgument ''space member is required''
       | Some msg \<Rightarrow>
           (case updateMask of
              None \<Rightarrow> failH InvalidArgument ''update mask must include role''
            | Some paths \<Rightarrow>
                if paths = [] then failH InvalidArgument ''update mask must include role''
                else
                  bindH (liftH (member_paths paths False False)) (\<lambda>(roleIncluded, userIncluded).
                    if \<not> roleIncluded then failH InvalidArgument ''update mask must include role''
                    else
                      bindH (resolveSpaceMemberResource env (pm_Name msg) currentUser) (\<lambda>(space, targetUser, callerMembership, targetMembership).
                        if userIncluded \<and> pm_User msg = []
                        then failH InvalidArgument ''space member user is required when included in the update mask''
                        else if pm_User msg \<noteq> [] \<and> pm_User msg \<noteq> BuildUserName (u_Username targetUser)
                        then failH InvalidArgument ''space member user does not match name''
                        else
                          bindH (requireSpaceAdministrator (Some callerMembership)) (\<lambda>_.
                            case convertSpaceMemberRoleToStore (pm_Role msg) of
                              None \<Rightarrow> failH InvalidArgument ''space member role must be ADMIN or USER''
                            | Some role \<Rightarrow>
                                bindH (change_db ''failed to update space member''
                                  (Store_UpdateSpaceMember
                                     (Some \<lparr>um_SpaceID = mem_SpaceID targetMembership, um_UserID = mem_UserID targetMembership,
                                        um_Role = Some role\<rparr>) (u_ID currentUser))) (\<lambda>updated.
                                bindH publishSpaceChanged (\<lambda>_.
                                  returnH (convertSpaceMemberFromStore space targetUser updated))))))))"

definition DeleteSpaceMember_handler :: "space_env \<Rightarrow> request_context \<Rightarrow> string \<Rightarrow> unit space_api" where
  "DeleteSpaceMember_handler env ctx name =
     bindH (requireCurrentSpaceUser env ctx) (\<lambda>currentUser.
     bindH (resolveSpaceMemberResource env name currentUser) (\<lambda>(_, targetUser, callerMembership, targetMembership).
     bindH (if u_ID targetUser = u_ID currentUser then returnH ()
            else requireSpaceAdministrator (Some callerMembership)) (\<lambda>_.
     bindH (change_db ''failed to delete space member''
              (with_unit (Store_DeleteSpaceMember
                 (Some \<lparr>key_SpaceID = mem_SpaceID targetMembership, key_UserID = mem_UserID targetMembership\<rparr>) (u_ID currentUser)))) (\<lambda>_.
       publishSpaceChanged))))"

end
