(* ===== verification/User_Identities.thy ===== *)
theory User_Identities
  imports Handlers
begin

text \<open>
  External identities of users: the linkage table (\<open>store/user_identity.go\<close>, \<open>store/db/sqlite/user_identity.go\<close>),
  the resolution of an external sign-in to a local account (\<open>auth_service_sso.go\<close>, \<open>sso_username.go\<close>) and the
  handlers of linked identities (\<open>user_service_identities.go\<close>). The exchange with the identity provider is
  an argument; the times of a linkage are not kept.
\<close>

section \<open>The linkage table\<close>

record FindUserIdentity =
  fx_ID :: "int32 option"
  fx_UserID :: "int32 option"
  fx_Provider :: "string option"
  fx_ExternUID :: "string option"

definition no_find_identity :: FindUserIdentity where
  "no_find_identity = \<lparr>fx_ID = None, fx_UserID = None, fx_Provider = None, fx_ExternUID = None\<rparr>"

text \<open>\<open>(provider, extern_uid)\<close> and \<open>(user_id, provider)\<close> are unique.\<close>

definition insertUserIdentity :: "user_identity_row \<Rightarrow> db \<Rightarrow> store_error + (user_identity_row \<times> db)" where
  "insertUserIdentity create d =
     (if \<exists>r \<in> set (db_user_identity d).
           ui_provider r = ui_provider create \<and> (ui_extern_uid r = ui_extern_uid create \<or> ui_user_id r = ui_user_id create)
      then Inl ErrConstraintUnique
      else let row = create\<lparr>ui_id := db_user_identity_seq d + 1\<rparr>
           in Inr (row, d\<lparr>db_user_identity := db_user_identity d @ [row], db_user_identity_seq := db_user_identity_seq d + 1\<rparr>))"

definition DB_CreateUserIdentity :: "user_identity_row \<Rightarrow> db \<Rightarrow> store_error + (user_identity_row \<times> db)" where
  "DB_CreateUserIdentity create d =
     orElse (insertUserIdentity create d) (\<lambda>e. WrapError e ''failed to create user identity'')"

definition DB_CreateUserWithIdentity :: "User \<Rightarrow> user_identity_row \<Rightarrow> db \<Rightarrow> store_error + (User \<times> db)" where
  "DB_CreateUserWithIdentity createUser createIdentity d =
     bindE (orElse (insertUser createUser d) (\<lambda>e. WrapError e ''failed to create user'')) (\<lambda>(user, d).
     bindE (orElse (insertUserIdentity (createIdentity\<lparr>ui_user_id := u_ID user\<rparr>) d)
             (\<lambda>e. WrapError e ''failed to create user identity'')) (\<lambda>(_, d).
       Inr (user, d)))"

definition DB_ListUserIdentities :: "FindUserIdentity \<Rightarrow> db \<Rightarrow> user_identity_row list" where
  "DB_ListUserIdentities q d =
     sort_key ui_id (filter (\<lambda>r. opt_eq (fx_ID q) (ui_id r) \<and> opt_eq (fx_UserID q) (ui_user_id r)
       \<and> opt_eq (fx_Provider q) (ui_provider r) \<and> opt_eq (fx_ExternUID q) (ui_extern_uid r)) (db_user_identity d))"

record DeleteUserIdentity =
  di_ID :: "int32 option"
  di_UserID :: "int32 option"
  di_Provider :: "string option"

definition DB_DeleteUserIdentities :: "DeleteUserIdentity \<Rightarrow> db \<Rightarrow> db" where
  "DB_DeleteUserIdentities q d =
     d\<lparr>db_user_identity := filter (\<lambda>r. \<not> (opt_eq (di_ID q) (ui_id r) \<and> opt_eq (di_UserID q) (ui_user_id r)
        \<and> opt_eq (di_Provider q) (ui_provider r))) (db_user_identity d)\<rparr>"

definition Store_CreateUserIdentity :: "user_identity_row \<Rightarrow> 's Store \<Rightarrow> store_error + (user_identity_row \<times> 's Store)" where
  "Store_CreateUserIdentity create s =
     bindE (DB_CreateUserIdentity create (st_db s)) (\<lambda>(r, d). Inr (r, s\<lparr>st_db := d\<rparr>))"

definition Store_CreateUserWithIdentity ::
    "User range_order \<Rightarrow> User \<Rightarrow> user_identity_row \<Rightarrow> 's Store \<Rightarrow> store_error + (User \<times> 's Store)" where
  "Store_CreateUserWithIdentity rng createUser createIdentity s =
     bindE (DB_CreateUserWithIdentity createUser createIdentity (st_db s)) (\<lambda>(user, d).
       Inr (user, cache_user rng user (s\<lparr>st_db := d\<rparr>)))"

definition Store_GetUserIdentity :: "FindUserIdentity \<Rightarrow> db \<Rightarrow> user_identity_row option" where
  "Store_GetUserIdentity q d = first_row (DB_ListUserIdentities q d)"

section \<open>External sign-in (auth_service_sso.go)\<close>

record IdentityProviderUserInfo =
  ii_Identifier :: string
  ii_DisplayName :: string
  ii_Email :: string
  ii_AvatarURL :: string

record IdentityProvider =
  ip_Uid :: string
  ip_OAuth2 :: bool
  ip_IdentifierFilter :: string

text \<open>The provider of a UID, the client of a provider, the exchange of a code for a token, the user info of a token,
  and \<open>regexp.Compile\<close> with \<open>MatchString\<close>.\<close>

record 'p idp_lib =
  il_Provider :: "string \<Rightarrow> store_error + IdentityProvider option"
  il_New :: "IdentityProvider \<Rightarrow> store_error + 'p"
  il_Exchange :: "'p \<Rightarrow> string \<Rightarrow> string \<Rightarrow> string \<Rightarrow> store_error + string"
  il_UserInfo :: "'p \<Rightarrow> string \<Rightarrow> store_error + IdentityProviderUserInfo"
  il_Regexp :: "string \<Rightarrow> store_error + (string \<Rightarrow> bool)"

text \<open>Without OAuth2 the user info stays nil, and reading its identifier panics.\<close>

definition resolveSSOIdentity ::
    "'p idp_lib \<Rightarrow> string \<Rightarrow> string \<Rightarrow> string \<Rightarrow> string
      \<Rightarrow> api_error + (IdentityProvider \<times> IdentityProviderUserInfo option)" where
  "resolveSSOIdentity l idpName code redirectURI codeVerifier =
     bindE (orElse (ExtractIdentityProviderUIDFromName idpName)
       (\<lambda>e. Status InvalidArgument ''invalid identity provider name: %v'' (NameCause e))) (\<lambda>idpUID.
     bindE (orElse (il_Provider l idpUID) (statusH Internal ''failed to get identity provider, error: %v'')) (\<lambda>identityProvider.
       case identityProvider of
         None \<Rightarrow> Inl (Status InvalidArgument ''identity provider not found'' NoCause)
       | Some idp \<Rightarrow>
           bindE (if ip_OAuth2 idp
                  then bindE (orElse (il_New l idp) (statusH Internal ''failed to create oauth2 identity provider, error: %v'')) (\<lambda>client.
                       bindE (orElse (il_Exchange l client redirectURI code codeVerifier)
                               (statusH Internal ''failed to exchange token, error: %v'')) (\<lambda>token.
                       bindE (orElse (il_UserInfo l client token) (statusH Internal ''failed to get user info, error: %v'')) (\<lambda>info.
                         Inr (Some info))))
                  else Inr None) (\<lambda>userInfo.
           if ip_IdentifierFilter idp = [] then Inr (idp, userInfo)
           else bindE (orElse (il_Regexp l (ip_IdentifierFilter idp))
                  (statusH Internal ''failed to compile identifier filter regex, error: %v'')) (\<lambda>matches.
                  case userInfo of
                    None \<Rightarrow> Inl (PlainError nil_panic)
                  | Some info \<Rightarrow>
                      if \<not> matches (ii_Identifier info)
                      then Inl (Status PermissionDenied (''identifier '' @ ii_Identifier info @ '' is not allowed'') NoCause)
                      else Inr (idp, userInfo)))))"

definition getLinkedSSOUser :: "Server \<Rightarrow> string \<Rightarrow> string \<Rightarrow> User option api" where
  "getLinkedSSOUser sv provider externUID s =
     (case Store_GetUserIdentity (no_find_identity\<lparr>fx_Provider := Some provider, fx_ExternUID := Some externUID\<rparr>) (st_db s) of
        None \<Rightarrow> (Inr None, s)
      | Some identity \<Rightarrow>
          bindH (find_users sv (find_user_id (ui_user_id identity)) (statusH Internal ''failed to get user, error: %v'')) (\<lambda>user.
            case user of
              None \<Rightarrow> failH Internal (''linked user '' @ itoa (ui_user_id identity) @ '' not found for identity '' @ itoa (ui_id identity))
            | Some u \<Rightarrow> returnH (Some u)) s)"

definition isUniqueConstraintViolation :: "store_error \<Rightarrow> bool" where
  "isUniqueConstraintViolation err = (error_is err ErrConstraintUnique \<or> error_is err ErrConstraintPrimaryKey)"

text \<open>The zero user with the given name and profile, and the zero linkage.\<close>

definition sso_user :: "IdentityProviderUserInfo \<Rightarrow> string \<Rightarrow> string \<Rightarrow> User" where
  "sso_user info passwordHash username =
     \<lparr>u_ID = 0, u_RowStatus = [], u_CreatedTs = 0, u_UpdatedTs = 0, u_Username = username, u_Role = RoleUser,
      u_Email = ii_Email info, u_Nickname = ii_DisplayName info, u_PasswordHash = passwordHash,
      u_AvatarURL = ii_AvatarURL info, u_Description = []\<rparr>"

definition link_row :: "int32 \<Rightarrow> string \<Rightarrow> string \<Rightarrow> user_identity_row" where
  "link_row userID provider externUID =
     \<lparr>ui_id = 0, ui_user_id = userID, ui_provider = provider, ui_extern_uid = externUID\<rparr>"

definition tryUsername ::
    "Server \<Rightarrow> IdentityProviderUserInfo \<Rightarrow> string \<Rightarrow> string \<Rightarrow> string \<Rightarrow> string \<Rightarrow> User option api" where
  "tryUsername sv info passwordHash provider externUID username s =
     (case Store_CreateUserWithIdentity (au_users (sv_Auth sv)) (sso_user info passwordHash username)
             (link_row 0 provider externUID) s of
        Inr (user, s) \<Rightarrow> (Inr (Some user), s)
      | Inl e \<Rightarrow>
          if \<not> isUniqueConstraintViolation e then (Inl (PlainError e), s)
          else getLinkedSSOUser sv provider externUID s)"

definition ssoUsernameFallbackAttempts :: nat where "ssoUsernameFallbackAttempts = 5"

definition deriveSSOUsername :: "string \<Rightarrow> api_error + string" where
  "deriveSSOUsername uuid =
     orElse (bindE (validateWritableUsername uuid) (\<lambda>_. Inr uuid))
       (\<lambda>_. PlainError (NewError ''generated UUID did not satisfy username constraints''))"

text \<open>The attempts with the names that the UUID generator gives.\<close>

fun sso_attempts ::
    "Server \<Rightarrow> IdentityProviderUserInfo \<Rightarrow> string \<Rightarrow> string \<Rightarrow> string \<Rightarrow> string list \<Rightarrow> User api" where
  "sso_attempts sv info passwordHash provider externUID [] =
     liftH (Inl (PlainError (NewError ''exhausted 5 UUID username attempts'')))"
| "sso_attempts sv info passwordHash provider externUID (uuid # uuids) =
     bindH (liftH (deriveSSOUsername uuid)) (\<lambda>username.
     bindH (tryUsername sv info passwordHash provider externUID username) (\<lambda>user.
       case user of
         Some u \<Rightarrow> returnH u
       | None \<Rightarrow> sso_attempts sv info passwordHash provider externUID uuids))"

definition createSSOUser ::
    "Server \<Rightarrow> (nat \<Rightarrow> string) \<Rightarrow> IdentityProviderUserInfo \<Rightarrow> string \<Rightarrow> string \<Rightarrow> string \<Rightarrow> User api" where
  "createSSOUser sv uuids info passwordHash provider externUID =
     bindH (case validateWritableUsername (ii_Identifier info) of
              Inr _ \<Rightarrow> tryUsername sv info passwordHash provider externUID (ii_Identifier info)
            | Inl _ \<Rightarrow> returnH None) (\<lambda>user.
       case user of
         Some u \<Rightarrow> returnH u
       | None \<Rightarrow> sso_attempts sv info passwordHash provider externUID (map uuids [0..<ssoUsernameFallbackAttempts]))"

definition already_linked :: "string \<Rightarrow> user_identity_row \<Rightarrow> User \<Rightarrow> api_error + User" where
  "already_linked externUID existing currentUser =
     (if ui_extern_uid existing = externUID then Inr currentUser
      else Inl (Status AlreadyExists ''identity provider is already linked to another external account for this user'' NoCause))"

definition bindSSOIdentityToUser :: "Server \<Rightarrow> User \<Rightarrow> string \<Rightarrow> string \<Rightarrow> User api" where
  "bindSSOIdentityToUser sv currentUser provider externUID s =
     (let own = no_find_identity\<lparr>fx_UserID := Some (u_ID currentUser), fx_Provider := Some provider\<rparr>
      in case Store_GetUserIdentity own (st_db s) of
           Some existing \<Rightarrow> (already_linked externUID existing currentUser, s)
         | None \<Rightarrow>
             (case Store_CreateUserIdentity (link_row (u_ID currentUser) provider externUID) s of
                Inr (_, s) \<Rightarrow> (Inr currentUser, s)
              | Inl e \<Rightarrow>
                  if \<not> isUniqueConstraintViolation e
                  then (Inl (Status Internal ''failed to create user identity, error: %v'' (StoreCause e)), s)
                  else bindH (getLinkedSSOUser sv provider externUID) (\<lambda>winner s.
                    case winner of
                      Some w \<Rightarrow>
                        if u_ID w \<noteq> u_ID currentUser
                        then (Inl (Status AlreadyExists ''identity provider account is already linked to another user'' NoCause), s)
                        else (Inr currentUser, s)
                    | None \<Rightarrow>
                        (case Store_GetUserIdentity own (st_db s) of
                           Some existing \<Rightarrow> (already_linked externUID existing currentUser, s)
                         | None \<Rightarrow> (Inl (Status Internal ''user identity conflict reported but no winning row found'' NoCause), s))) s))"

text \<open>The random password and its hash, each with the error of its generator, are arguments.\<close>

definition resolveSSOUser ::
    "Server \<Rightarrow> (nat \<Rightarrow> string) \<Rightarrow> store_error + string \<Rightarrow> (string \<Rightarrow> store_error + string) \<Rightarrow> User option
      \<Rightarrow> IdentityProvider \<Rightarrow> IdentityProviderUserInfo option \<Rightarrow> User api" where
  "resolveSSOUser sv uuids randomPassword hash currentUser idp userInfo =
     (case userInfo of
        None \<Rightarrow> liftH (Inl (PlainError nil_panic))
      | Some info \<Rightarrow>
          let provider = ip_Uid idp; externUID = ii_Identifier info in
          if externUID = [] then failH InvalidArgument ''identity provider returned an empty subject identifier''
          else bindH (getLinkedSSOUser sv provider externUID) (\<lambda>user.
            case user of
              Some u \<Rightarrow>
                (case currentUser of
                   Some cu \<Rightarrow>
                     if u_ID cu \<noteq> u_ID u
                     then failH AlreadyExists ''identity provider account is already linked to another user''
                     else returnH u
                 | None \<Rightarrow> returnH u)
            | None \<Rightarrow>
                (case currentUser of
                   Some cu \<Rightarrow> bindSSOIdentityToUser sv cu provider externUID
                 | None \<Rightarrow>
                     bindH (liftH (orElse (sv_General sv) (statusH Internal ''failed to get instance general setting, error: %v''))) (\<lambda>general.
                     if gs_DisallowUserRegistration general then failH PermissionDenied ''user registration is not allowed''
                     else
                     bindH (liftH (orElse randomPassword (statusH Internal ''failed to generate random password, error: %v''))) (\<lambda>password.
                     bindH (liftH (orElse (hash password) (statusH Internal ''failed to generate password hash, error: %v''))) (\<lambda>passwordHash.
                       wrapH (\<lambda>e. Status Internal ''failed to create user, error: %v'' (cause_of e))
                         (createSSOUser sv uuids info passwordHash provider externUID)))))))"

section \<open>Linked identities (user_service_identities.go)\<close>

record LinkedIdentity =
  li_Name :: string
  li_IdpName :: string
  li_ExternUid :: string

definition convertLinkedIdentityFromStore :: "User \<Rightarrow> user_identity_row \<Rightarrow> LinkedIdentity" where
  "convertLinkedIdentityFromStore user identity =
     \<lparr>li_Name = BuildUserName (u_Username user) @ ''/linkedIdentities/'' @ ui_provider identity,
      li_IdpName = IdentityProviderNamePrefix @ ui_provider identity, li_ExternUid = ui_extern_uid identity\<rparr>"

definition identity_of :: "int32 \<Rightarrow> string \<Rightarrow> UserSetting Store \<Rightarrow> user_identity_row option" where
  "identity_of userID provider s =
     Store_GetUserIdentity (no_find_identity\<lparr>fx_UserID := Some userID, fx_Provider := Some provider\<rparr>) (st_db s)"

definition ListLinkedIdentities :: "Server \<Rightarrow> request_context \<Rightarrow> string \<Rightarrow> LinkedIdentity list api" where
  "ListLinkedIdentities sv ctx parent =
     bindH (resolveUserFromName sv (Status InvalidArgument ''invalid parent: %v'') parent) (\<lambda>user.
     bindH (authorizeUserResourceAccess sv ctx (u_ID user) True) (\<lambda>_ s.
       (Inr (map (convertLinkedIdentityFromStore user)
          (DB_ListUserIdentities (no_find_identity\<lparr>fx_UserID := Some (u_ID user)\<rparr>) (st_db s))), s)))"

text \<open>\<open>idp\<close> is what \<open>resolveSSOIdentity\<close> answers for the request.\<close>

definition CreateLinkedIdentity ::
    "Server \<Rightarrow> request_context \<Rightarrow> string \<Rightarrow> api_error + (IdentityProvider \<times> IdentityProviderUserInfo option)
      \<Rightarrow> LinkedIdentity api" where
  "CreateLinkedIdentity sv ctx parent idp =
     bindH (resolveUserFromName sv (Status InvalidArgument ''invalid parent: %v'') parent) (\<lambda>user.
     bindH (fetch_current sv ctx (statusH Internal ''failed to get current user: %v'')) (\<lambda>currentUser.
       case currentUser of
         None \<Rightarrow> failH Unauthenticated ''user not authenticated''
       | Some cu \<Rightarrow>
           if u_ID cu \<noteq> u_ID user then failH PermissionDenied ''permission denied''
           else bindH (liftH idp) (\<lambda>(identityProvider, userInfo).
             case userInfo of
               None \<Rightarrow> liftH (Inl (PlainError nil_panic))
             | Some info \<Rightarrow>
                 bindH (bindSSOIdentityToUser sv cu (ip_Uid identityProvider) (ii_Identifier info)) (\<lambda>_ s.
                   case identity_of (u_ID cu) (ip_Uid identityProvider) s of
                     None \<Rightarrow> (Inl (Status Internal ''linked identity not found after creation'' NoCause), s)
                   | Some identity \<Rightarrow> (Inr (convertLinkedIdentityFromStore user identity), s)))))"

definition GetLinkedIdentity :: "Server \<Rightarrow> request_context \<Rightarrow> string \<Rightarrow> LinkedIdentity api" where
  "GetLinkedIdentity sv ctx name =
     bindH (resolveUserAndLinkedIdentityProviderFromName sv (Status InvalidArgument ''invalid linked identity name: %v'') name)
       (\<lambda>(user, provider).
     bindH (authorizeUserResourceAccess sv ctx (u_ID user) True) (\<lambda>_ s.
       case identity_of (u_ID user) provider s of
         None \<Rightarrow> (Inl (Status NotFound ''linked identity not found'' NoCause), s)
       | Some identity \<Rightarrow> (Inr (convertLinkedIdentityFromStore user identity), s)))"

definition DeleteLinkedIdentity :: "Server \<Rightarrow> request_context \<Rightarrow> string \<Rightarrow> unit api" where
  "DeleteLinkedIdentity sv ctx name =
     bindH (resolveUserAndLinkedIdentityProviderFromName sv (Status InvalidArgument ''invalid linked identity name: %v'') name)
       (\<lambda>(user, provider).
     bindH (authorizeUserResourceAccess sv ctx (u_ID user) True) (\<lambda>_ s.
       case identity_of (u_ID user) provider s of
         None \<Rightarrow> (Inl (Status NotFound ''linked identity not found'' NoCause), s)
       | Some _ \<Rightarrow>
           (Inr (), s\<lparr>st_db := DB_DeleteUserIdentities
              \<lparr>di_ID = None, di_UserID = Some (u_ID user), di_Provider = Some provider\<rparr> (st_db s)\<rparr>)))"

end
