(* ===== verification/Sample_Libraries.thy ===== *)
theory Sample_Libraries
  imports Authentication
begin

text \<open>
  Concrete libraries for the examples: a message codec and a token library given by finite tables. They
  have the documented behaviour that the properties assume.
\<close>

lemma map_of_flip:
  assumes "distinct (map snd tab)" "(x, t) \<in> set tab"
  shows "map_of (map (\<lambda>(x, t). (t, x)) tab) t = Some x"
  using assms by (induction tab) force+

section \<open>Messages\<close>

type_synonym message_table = "(setting_value \<times> string) list"

definition entry_of_text :: "message_table \<Rightarrow> string \<Rightarrow> setting_value option" where
  "entry_of_text tab text = map_of (map (\<lambda>(v, t). (t, v)) tab) text"

text \<open>The comparison of token lists; other messages are not in a table.\<close>

fun same_value :: "setting_value \<Rightarrow> setting_value \<Rightarrow> bool" where
  "same_value (RefreshTokens ts) (RefreshTokens us) = (ts = us)"
| "same_value (PersonalAccessTokens ts) (PersonalAccessTokens us) = (ts = us)"
| "same_value (Webhooks ws) (Webhooks us) = (ws = us)"
| "same_value _ _ = False"

lemma same_value_eq: "same_value v w \<Longrightarrow> v = w"
  by (cases v; cases w) simp_all

definition table_codec :: "message_table \<Rightarrow> codec" where
  "table_codec tab =
     \<lparr>cd_marshal = (\<lambda>v. case find (\<lambda>(w, _). same_value w v) tab of Some (_, t) \<Rightarrow> Inr t | None \<Rightarrow> Inl (NewError ''marshal'')),
      cd_unmarshal = (\<lambda>k text. case entry_of_text tab text of
         Some v \<Rightarrow> if kind_of v = k then Inr v else Inl (NewError ''unmarshal'')
       | None \<Rightarrow> Inl (NewError ''unmarshal'')),
      cd_json_hashes = (\<lambda>text. case entry_of_text tab text of
         Some (PersonalAccessTokens ts) \<Rightarrow> map pat_TokenHash ts
       | _ \<Rightarrow> [])\<rparr>"

lemma table_codec_ok:
  assumes "distinct (map snd tab)"
  shows "codec_ok (table_codec tab)"
proof -
  have found: "entry_of_text tab t = Some v" if m: "cd_marshal (table_codec tab) v = Inr t" for v t
  proof -
    obtain w where "find (\<lambda>(w, _). same_value w v) tab = Some (w, t)"
      using m by (cases "find (\<lambda>(w, _). same_value w v) tab") (auto simp: table_codec_def)
    then have "(w, t) \<in> set tab" "same_value w v" by (auto simp: find_Some_iff dest: nth_mem)
    with map_of_flip [OF assms] show ?thesis by (auto simp: entry_of_text_def dest: same_value_eq)
  qed
  have "cd_unmarshal (table_codec tab) (kind_of v) u = Inr v" if "cd_marshal (table_codec tab) v = Inr u" for v u
    using found [OF that] by (simp add: table_codec_def)
  moreover have "kind_of v = k" if "cd_unmarshal (table_codec tab) k u = Inr v" for k u v
    using that by (auto simp: table_codec_def split: option.splits if_splits)
  moreover have "h \<in> set (cd_json_hashes (table_codec tab) u) \<longleftrightarrow> h \<in> pat_TokenHash ` set ts"
    if "cd_marshal (table_codec tab) (PersonalAccessTokens ts) = Inr u" for ts u h
    using found [OF that] by (simp add: table_codec_def)
  ultimately show ?thesis unfolding codec_ok_def by blast
qed

section \<open>Tokens\<close>

type_synonym token_table = "((jwt_header \<times> claims \<times> string) \<times> string) list"

definition signed_as :: "token_table \<Rightarrow> string \<Rightarrow> (jwt_header \<times> claims \<times> string) option" where
  "signed_as tab t = map_of (map (\<lambda>(x, t). (t, x)) tab) t"

definition table_jwt :: "token_table \<Rightarrow> jwt_lib" where
  "table_jwt tab =
     \<lparr>jl_date = (\<lambda>t. t div 1000000000 * 1000000000),
      jl_sign = (\<lambda>h c k. case map_of tab (h, c, k) of Some t \<Rightarrow> Inr t | None \<Rightarrow> Inl (NewError ''sign'')),
      jl_parse = (\<lambda>now t keyf iss aud.
        case signed_as tab t of
          None \<Rightarrow> Inl (NewError ''malformed'')
        | Some (h, c, k) \<Rightarrow>
            if keyf h = Inr k \<and> cl_Issuer c = iss \<and> aud \<in> set (cl_Audience c) \<and> unexpired now c
            then Inr c else Inl (NewError ''invalid''))\<rparr>"

lemma table_jwt_ok:
  assumes "distinct (map snd tab)"
  shows "jwt_ok (table_jwt tab)"
proof -
  let ?j = "table_jwt tab"
  have date: "jl_date ?j t \<le> t \<and> t < jl_date ?j t + 1000000000" for t
    by (simp add: table_jwt_def) linarith
  have sign: "signed_as tab t = Some (h, c, k)" if "jl_sign ?j h c k = Inr t" for h c k t
    using that map_of_flip [OF assms, folded signed_as_def] by (auto simp: table_jwt_def dest: map_of_SomeD split: option.splits)
  have round: "jl_parse ?j now t keyf iss aud = Inr c"
    if "jl_sign ?j h c k = Inr t" "keyf h = Inr k" "cl_Issuer c = iss" "aud \<in> set (cl_Audience c)" "unexpired now c"
    for h c k t now keyf iss aud
    using sign [OF that(1)] that(2-) by (simp add: table_jwt_def)
  have same: "c' = c \<and> keyf h = Inr k" if "jl_sign ?j h c k = Inr t" "jl_parse ?j now t keyf iss aud = Inr c'"
    for h c k t now keyf iss aud c'
    using sign [OF that(1)] that(2) by (simp add: table_jwt_def split: if_splits)
  have checked: "cl_Issuer c = iss \<and> aud \<in> set (cl_Audience c) \<and> unexpired now c"
    if "jl_parse ?j now t keyf iss aud = Inr c" for now t keyf iss aud c
    using that by (simp add: table_jwt_def split: option.splits prod.splits if_splits)
  show ?thesis
    unfolding jwt_ok_def
  proof (intro conjI)
    show "\<forall>t. jl_date ?j t \<le> t \<and> t < jl_date ?j t + 1000000000" using date by simp
  qed (intro allI impI, (rule round same checked; assumption))+
qed

end
