(* ===== verification/Sso_Properties.thy ===== *)
theory Sso_Properties
  imports User_Identities Sample_Libraries
begin

text \<open>
  External sign-in resolves an external subject to the account that is linked to it and to no other, and
  never takes over an account or a link that is there.
\<close>

section \<open>Links\<close>

definition linked :: "db \<Rightarrow> string \<Rightarrow> string \<Rightarrow> int32 \<Rightarrow> bool" where
  "linked d provider externUID u =
     (\<exists>r \<in> set (db_user_identity d). ui_provider r = provider \<and> ui_extern_uid r = externUID \<and> ui_user_id r = u)"

definition links_unique :: "db \<Rightarrow> bool" where
  "links_unique d =
     (distinct (map (\<lambda>r. (ui_provider r, ui_extern_uid r)) (db_user_identity d))
      \<and> distinct (map (\<lambda>r. (ui_user_id r, ui_provider r)) (db_user_identity d)))"

text \<open>What a sign-in may do to the tables: add a user and a link, and nothing else.\<close>

definition only_adds :: "db \<Rightarrow> db \<Rightarrow> bool" where
  "only_adds d d' =
     (\<exists>us ls. db_user d' = db_user d @ us \<and> db_user_identity d' = db_user_identity d @ ls
        \<and> d' = d\<lparr>db_user := db_user d', db_user_identity := db_user_identity d', db_user_seq := db_user_seq d',
               db_user_identity_seq := db_user_identity_seq d'\<rparr>
        \<and> (links_unique d \<longrightarrow> links_unique d'))"

lemma only_adds_refl [simp]: "only_adds d d"
  by (simp add: only_adds_def)

lemma links_functional:
  "links_unique d \<Longrightarrow> linked d p x u \<Longrightarrow> linked d p x v \<Longrightarrow> u = v"
proof -
  have "ui_user_id r = ui_user_id r'"
    if "distinct (map (\<lambda>r. (ui_provider r, ui_extern_uid r)) rs)" "r \<in> set rs" "r' \<in> set rs"
      "ui_provider r = ui_provider r'" "ui_extern_uid r = ui_extern_uid r'" for rs r r'
    using that by (induction rs) (auto simp: image_iff)
  then show "links_unique d \<Longrightarrow> linked d p x u \<Longrightarrow> linked d p x v \<Longrightarrow> u = v"
    unfolding links_unique_def linked_def by metis
qed

lemma only_adds_linked: "only_adds d d' \<Longrightarrow> linked d p x u \<Longrightarrow> linked d' p x u"
  by (auto simp: only_adds_def linked_def)

lemma insertUserIdentity_row:
  assumes "insertUserIdentity create d = Inr (row, d')"
  shows "d' = d\<lparr>db_user_identity := db_user_identity d @ [create\<lparr>ui_id := db_user_identity_seq d + 1\<rparr>],
      db_user_identity_seq := db_user_identity_seq d + 1\<rparr>
    \<and> (links_unique d \<longrightarrow> links_unique d')"
proof -
  have fresh: "\<not> (\<exists>r \<in> set (db_user_identity d). ui_provider r = ui_provider create
      \<and> (ui_extern_uid r = ui_extern_uid create \<or> ui_user_id r = ui_user_id create))"
    and d': "d' = d\<lparr>db_user_identity := db_user_identity d @ [create\<lparr>ui_id := db_user_identity_seq d + 1\<rparr>],
      db_user_identity_seq := db_user_identity_seq d + 1\<rparr>"
    using assms by (auto simp: insertUserIdentity_def Let_def split: if_splits)
  have "links_unique d \<Longrightarrow> links_unique d'" using fresh by (auto simp: links_unique_def d')
  with d' show ?thesis by simp
qed

lemma insertUserIdentity_adds:
  assumes "insertUserIdentity create d = Inr (row, d')"
  shows "only_adds d d' \<and> linked d' (ui_provider create) (ui_extern_uid create) (ui_user_id create)"
  using insertUserIdentity_row [OF assms] by (auto simp: only_adds_def linked_def)

lemma DB_CreateUserWithIdentity_adds:
  assumes "DB_CreateUserWithIdentity u l d = Inr (user, d')"
  shows "only_adds d d' \<and> linked d' (ui_provider l) (ui_extern_uid l) (u_ID user) \<and> user \<in> set (db_user d')"
proof -
  obtain d1 row where 1: "insertUser u d = Inr (user, d1)" and 2: "insertUserIdentity (l\<lparr>ui_user_id := u_ID user\<rparr>) d1 = Inr (row, d')"
    using assms by (auto simp: DB_CreateUserWithIdentity_def result_simps)
  have d1: "d1 = d\<lparr>db_user := db_user d @ [user], db_user_seq := db_user_seq d + 1\<rparr>"
    using 1 by (auto simp: insertUser_def Let_def split: if_splits)
  note B = insertUserIdentity_row [OF 2]
  have "links_unique d1 = links_unique d" by (simp add: links_unique_def d1)
  then have "links_unique d \<longrightarrow> links_unique d'" using B [THEN conjunct2] by simp
  then show ?thesis using B by (simp add: only_adds_def linked_def d1)
qed

section \<open>The parts of a sign-in\<close>

lemma find_identity_row:
  "Store_GetUserIdentity (no_find_identity\<lparr>fx_Provider := Some p, fx_ExternUID := Some x\<rparr>) d = Some r
    \<Longrightarrow> linked d p x (ui_user_id r)"
  unfolding Store_GetUserIdentity_def DB_ListUserIdentities_def no_find_identity_def linked_def
  by (drule first_row_in) (auto simp: opt_eq_def)

lemma find_own_row:
  "Store_GetUserIdentity (no_find_identity\<lparr>fx_UserID := Some u, fx_Provider := Some p\<rparr>) d = Some r
    \<Longrightarrow> linked d p (ui_extern_uid r) u"
  unfolding Store_GetUserIdentity_def DB_ListUserIdentities_def no_find_identity_def linked_def
  by (drule first_row_in) (auto simp: opt_eq_def)

text \<open>The service reads users through the store and its cache.\<close>

definition reads_store :: "Server \<Rightarrow> bool" where
  "reads_store sv = (svc_Store (sv_Service sv) = MemoReadStore_of (au_users (sv_Auth sv)))"

lemma find_users_row:
  assumes "reads_store sv" "run_inv s"
  shows "\<exists>s'. find_users sv (find_user_id i) f s = (Inr (user_row (st_db s) i), s') \<and> run_inv s' \<and> st_db s' = st_db s"
  using Store_GetUser_row [OF assms(2), of "au_users (sv_Auth sv)" i] assms(1)
  by (auto simp: find_users_def callH_def keepE_def reads_store_def MemoReadStore_of_def find_user_id_def)

lemma getLinkedSSOUser_result:
  assumes "reads_store sv" "run_inv s" "getLinkedSSOUser sv p x s = (Inr r, s')"
  shows "run_inv s' \<and> st_db s' = st_db s \<and> (\<forall>u. r = Some u \<longrightarrow> linked (st_db s) p x (u_ID u) \<and> u \<in> set (db_user (st_db s)))"
proof (cases "Store_GetUserIdentity (no_find_identity\<lparr>fx_Provider := Some p, fx_ExternUID := Some x\<rparr>) (st_db s)")
  case None
  then show ?thesis using assms by (simp add: getLinkedSSOUser_def)
next
  case (Some row)
  obtain s1 where s1: "find_users sv (find_user_id (ui_user_id row)) (statusH Internal ''failed to get user, error: %v'') s
      = (Inr (user_row (st_db s) (ui_user_id row)), s1)" "run_inv s1" "st_db s1 = st_db s"
    using find_users_row [OF assms(1,2)] by blast
  show ?thesis
  proof (cases "user_row (st_db s) (ui_user_id row)")
    case None
    then show ?thesis using assms(3) Some s1 by (simp add: getLinkedSSOUser_def bindH_def liftH_def)
  next
    case (Some u)
    then have "r = Some u" "s' = s1"
      using assms(3) \<open>Store_GetUserIdentity _ _ = Some row\<close> s1 by (simp_all add: getLinkedSSOUser_def bindH_def liftH_def)
    then show ?thesis using s1 user_row_Some [OF Some] find_identity_row [OF \<open>Store_GetUserIdentity _ _ = Some row\<close>] by auto
  qed
qed

text \<open>What a successful part of a sign-in establishes.\<close>

definition signed_in :: "UserSetting Store \<Rightarrow> UserSetting Store \<Rightarrow> string \<Rightarrow> string \<Rightarrow> int32 \<Rightarrow> bool" where
  "signed_in s s' p x u = (only_adds (st_db s) (st_db s') \<and> linked (st_db s') p x u)"

lemma tryUsername_result:
  assumes "reads_store sv" "run_inv s" "tryUsername sv info pw p x name s = (Inr r, s')"
  shows "case r of
      Some u \<Rightarrow> signed_in s s' p x (u_ID u) \<and> u \<in> set (db_user (st_db s'))
    | None \<Rightarrow> run_inv s' \<and> st_db s' = st_db s"
proof (cases "Store_CreateUserWithIdentity (au_users (sv_Auth sv)) (sso_user info pw name) (link_row 0 p x) s")
  case (Inl e)
  then have "getLinkedSSOUser sv p x s = (Inr r, s')" using assms(3) by (simp add: tryUsername_def split: if_splits)
  from getLinkedSSOUser_result [OF assms(1,2) this] show ?thesis by (auto simp: signed_in_def split: option.splits)
next
  case (Inr y)
  obtain user s1 where y: "y = (user, s1)" by (cases y)
  then have "r = Some user" "s' = s1" using assms(3) Inr by (auto simp: tryUsername_def)
  moreover obtain d where "DB_CreateUserWithIdentity (sso_user info pw name) (link_row 0 p x) (st_db s) = Inr (user, d)" "st_db s1 = d"
    using Inr y by (auto simp: Store_CreateUserWithIdentity_def result_simps)
  ultimately show ?thesis
    using DB_CreateUserWithIdentity_adds [of "sso_user info pw name" "link_row 0 p x" "st_db s" user d]
    by (simp add: signed_in_def link_row_def)
qed

lemma sso_attempts_result:
  "reads_store sv \<Longrightarrow> run_inv s \<Longrightarrow> sso_attempts sv info pw p x uuids s = (Inr u, s')
    \<Longrightarrow> signed_in s s' p x (u_ID u) \<and> u \<in> set (db_user (st_db s'))"
proof (induction uuids arbitrary: s)
  case Nil
  then show ?case by (simp add: liftH_def)
next
  case (Cons uuid uuids)
  then obtain name r s1 where r: "tryUsername sv info pw p x name s = (Inr r, s1)"
      "(case r of Some u \<Rightarrow> returnH u | None \<Rightarrow> sso_attempts sv info pw p x uuids) s1 = (Inr u, s')"
    by (auto simp: act_simps)
  note T = tryUsername_result [OF Cons.prems(1,2) r(1)]
  show ?case
  proof (cases r)
    case None
    then show ?thesis using T r(2) Cons.IH [OF Cons.prems(1), of s1] by (simp add: signed_in_def)
  next
    case (Some v)
    then show ?thesis using T r(2) by (auto simp: act_simps)
  qed
qed

lemma createSSOUser_result:
  assumes "reads_store sv" "run_inv s" "createSSOUser sv uuids info pw p x s = (Inr u, s')"
  shows "signed_in s s' p x (u_ID u) \<and> u \<in> set (db_user (st_db s'))"
proof -
  let ?first = "case validateWritableUsername (ii_Identifier info) of
      Inr _ \<Rightarrow> tryUsername sv info pw p x (ii_Identifier info) | Inl _ \<Rightarrow> returnH None"
  obtain r s1 where r: "?first s = (Inr r, s1)"
      "(case r of Some u \<Rightarrow> returnH u | None \<Rightarrow> sso_attempts sv info pw p x (map uuids [0..<ssoUsernameFallbackAttempts])) s1 = (Inr u, s')"
    using assms(3) by (auto simp: createSSOUser_def act_simps)
  have T: "case r of
      Some u \<Rightarrow> signed_in s s1 p x (u_ID u) \<and> u \<in> set (db_user (st_db s1))
    | None \<Rightarrow> run_inv s1 \<and> st_db s1 = st_db s"
  proof (cases "validateWritableUsername (ii_Identifier info)")
    case (Inl e)
    then show ?thesis using r(1) assms(2) by (auto simp: act_simps)
  next
    case (Inr e)
    then show ?thesis using tryUsername_result [OF assms(1,2)] r(1) by simp
  qed
  show ?thesis
  proof (cases r)
    case None
    then show ?thesis using T r(2) sso_attempts_result [OF assms(1), of s1] by (simp add: signed_in_def)
  next
    case (Some v)
    then show ?thesis using T r(2) by (auto simp: act_simps)
  qed
qed

lemma already_linked_result:
  "already_linked x row cu = Inr u \<Longrightarrow> u = cu \<and> ui_extern_uid row = x"
  by (simp add: already_linked_def split: if_splits)

lemma bindSSOIdentityToUser_result:
  assumes "reads_store sv" "run_inv s" "bindSSOIdentityToUser sv cu p x s = (Inr u, s')"
  shows "signed_in s s' p x (u_ID cu) \<and> u = cu \<and> db_user (st_db s') = db_user (st_db s)"
proof -
  let ?own = "no_find_identity\<lparr>fx_UserID := Some (u_ID cu), fx_Provider := Some p\<rparr>"
  have own: "signed_in s s1 p x (u_ID cu) \<and> u = cu \<and> db_user (st_db s1) = db_user (st_db s)"
    if "Store_GetUserIdentity ?own (st_db s) = Some row" "already_linked x row cu = Inr u" "st_db s1 = st_db s" for row s1
    using find_own_row [OF that(1)] already_linked_result [OF that(2)] that(3) by (simp add: signed_in_def)
  show ?thesis
  proof (cases "Store_GetUserIdentity ?own (st_db s)")
    case (Some row)
    then show ?thesis using assms(3) own by (simp add: bindSSOIdentityToUser_def)
  next
    case None
    show ?thesis
    proof (cases "Store_CreateUserIdentity (link_row (u_ID cu) p x) s")
      case (Inr y)
      then obtain row d where d: "insertUserIdentity (link_row (u_ID cu) p x) (st_db s) = Inr (row, d)" "y = (row, s\<lparr>st_db := d\<rparr>)"
        by (auto simp: Store_CreateUserIdentity_def DB_CreateUserIdentity_def result_simps)
      then have "u = cu" "st_db s' = d"
        using assms(3) None Inr by (auto simp: bindSSOIdentityToUser_def)
      then show ?thesis
        using insertUserIdentity_adds [OF d(1)] insertUserIdentity_row [OF d(1)] by (simp add: signed_in_def link_row_def)
    next
      case (Inl e)
      then obtain winner s1 where w: "getLinkedSSOUser sv p x s = (Inr winner, s1)"
        and rest: "(case winner of
            Some w \<Rightarrow> (if u_ID w \<noteq> u_ID cu
              then (Inl (Status AlreadyExists ''identity provider account is already linked to another user'' NoCause), s1)
              else (Inr cu, s1))
          | None \<Rightarrow> (case Store_GetUserIdentity ?own (st_db s1) of
               Some existing \<Rightarrow> (already_linked x existing cu, s1)
             | None \<Rightarrow> (Inl (Status Internal ''user identity conflict reported but no winning row found'' NoCause), s1)))
          = (Inr u, s')"
        using assms(3) None by (auto simp: bindSSOIdentityToUser_def act_simps split: if_splits)
      note G = getLinkedSSOUser_result [OF assms(1,2) w]
      show ?thesis
      proof (cases winner)
        case (Some v)
        then show ?thesis using rest G by (auto simp: signed_in_def split: if_splits)
      next
        case None
        then show ?thesis using rest G \<open>Store_GetUserIdentity ?own (st_db s) = None\<close> by simp
      qed
    qed
  qed
qed

lemma resolveSSOUser_result:
  assumes "reads_store sv" "run_inv s" "resolveSSOUser sv uuids pw hash cu idp info s = (Inr user, s')"
  obtains i where "info = Some i" "ii_Identifier i \<noteq> []" "signed_in s s' (ip_Uid idp) (ii_Identifier i) (u_ID user)"
    "case cu of Some c \<Rightarrow> u_ID user = u_ID c | None \<Rightarrow> user \<in> set (db_user (st_db s'))"
    "db_user (st_db s') \<noteq> db_user (st_db s) \<longrightarrow> cu = None \<and> (\<exists>g. sv_General sv = Inr g \<and> \<not> gs_DisallowUserRegistration g)"
proof -
  obtain i where i: "info = Some i" using assms(3) by (cases info) (auto simp: resolveSSOUser_def act_simps)
  let ?p = "ip_Uid idp" and ?x = "ii_Identifier i"
  have x: "?x \<noteq> []" using assms(3) i by (auto simp: resolveSSOUser_def Let_def act_simps split: if_splits)
  let ?rest = "\<lambda>user. case user of
              Some u \<Rightarrow>
                (case cu of
                   Some cu \<Rightarrow>
                     if u_ID cu \<noteq> u_ID u
                     then failH AlreadyExists ''identity provider account is already linked to another user''
                     else returnH u
                 | None \<Rightarrow> returnH u)
            | None \<Rightarrow>
                (case cu of
                   Some cu \<Rightarrow> bindSSOIdentityToUser sv cu ?p ?x
                 | None \<Rightarrow>
                     bindH (liftH (orElse (sv_General sv) (statusH Internal ''failed to get instance general setting, error: %v''))) (\<lambda>general.
                     if gs_DisallowUserRegistration general then failH PermissionDenied ''user registration is not allowed''
                     else
                     bindH (liftH (orElse pw (statusH Internal ''failed to generate random password, error: %v''))) (\<lambda>password.
                     bindH (liftH (orElse (hash password) (statusH Internal ''failed to generate password hash, error: %v''))) (\<lambda>passwordHash.
                       wrapH (\<lambda>e. Status Internal ''failed to create user, error: %v'' (cause_of e))
                         (createSSOUser sv uuids i passwordHash ?p ?x)))))"
  have "bindH (getLinkedSSOUser sv ?p ?x) ?rest s = (Inr user, s')"
    using assms(3) i x by (simp add: resolveSSOUser_def Let_def)
  then obtain r s1 where r: "getLinkedSSOUser sv ?p ?x s = (Inr r, s1)" "?rest r s1 = (Inr user, s')"
    by (auto simp: act_simps)
  note G = getLinkedSSOUser_result [OF assms(1,2) r(1)]
  have core: "signed_in s s' ?p ?x (u_ID user)
    \<and> (case cu of Some c \<Rightarrow> u_ID user = u_ID c | None \<Rightarrow> user \<in> set (db_user (st_db s')))
    \<and> (db_user (st_db s') \<noteq> db_user (st_db s) \<longrightarrow> cu = None \<and> (\<exists>g. sv_General sv = Inr g \<and> \<not> gs_DisallowUserRegistration g))"
  proof (cases r)
    case (Some u)
    then show ?thesis using r(2) G by (cases cu) (auto simp: signed_in_def act_simps split: if_splits)
  next
    case None
    then have inv: "run_inv s1" and same: "st_db s1 = st_db s" using G by simp_all
    show ?thesis
    proof (cases cu)
      case (Some c)
      then have "bindSSOIdentityToUser sv c ?p ?x s1 = (Inr user, s')" using r(2) None by simp
      from bindSSOIdentityToUser_result [OF assms(1) inv this] show ?thesis using Some same by (simp add: signed_in_def)
    next
      case None
      then obtain g h where g: "sv_General sv = Inr g" "\<not> gs_DisallowUserRegistration g"
          "createSSOUser sv uuids i h ?p ?x s1 = (Inr user, s')"
        using r(2) \<open>r = None\<close> by (auto simp: act_simps result_simps split: if_splits)
      from createSSOUser_result [OF assms(1) inv g(3)] show ?thesis using None g same by (simp add: signed_in_def)
    qed
  qed
  then show ?thesis using that [OF i x] by blast
qed

section \<open>The property\<close>

text \<open>C27. External sign-in resolves the linked account. When a sign-in with an external subject succeeds, the subject is not
  empty and is linked, afterwards, to the account that is returned and to no other; it is the caller's
  own account when a caller was given, and otherwise an account of the user table. The sign-in adds at most
  accounts and links: every account and every link that was there stays as it was, so a subject that was linked before
  resolves to the account of its link, and an account is added only when registration is allowed.\<close>

theorem external_sign_in_resolves_linked_account:
  assumes "reads_store sv" "run_inv s" "links_unique (st_db s)"
    "resolveSSOUser sv uuids pw hash cu idp info s = (Inr user, s')"
  shows "(\<exists>i. info = Some i \<and> ii_Identifier i \<noteq> []
      \<and> (\<forall>v. linked (st_db s') (ip_Uid idp) (ii_Identifier i) v \<longleftrightarrow> v = u_ID user)
      \<and> (\<forall>v. linked (st_db s) (ip_Uid idp) (ii_Identifier i) v \<longrightarrow> v = u_ID user))
    \<and> (case cu of Some c \<Rightarrow> u_ID user = u_ID c | None \<Rightarrow> user \<in> set (db_user (st_db s')))
    \<and> only_adds (st_db s) (st_db s')
    \<and> (db_user (st_db s') \<noteq> db_user (st_db s) \<longrightarrow> cu = None \<and> (\<exists>g. sv_General sv = Inr g \<and> \<not> gs_DisallowUserRegistration g))"
proof -
  obtain i where i: "info = Some i" "ii_Identifier i \<noteq> []" and signed: "signed_in s s' (ip_Uid idp) (ii_Identifier i) (u_ID user)"
    and account: "case cu of Some c \<Rightarrow> u_ID user = u_ID c | None \<Rightarrow> user \<in> set (db_user (st_db s'))"
    and opened: "db_user (st_db s') \<noteq> db_user (st_db s) \<longrightarrow> cu = None \<and> (\<exists>g. sv_General sv = Inr g \<and> \<not> gs_DisallowUserRegistration g)"
    by (rule resolveSSOUser_result [OF assms(1,2,4)])
  let ?p = "ip_Uid idp" and ?x = "ii_Identifier i"
  have adds: "only_adds (st_db s) (st_db s')" and lk: "linked (st_db s') ?p ?x (u_ID user)" using signed by (simp_all add: signed_in_def)
  have "links_unique (st_db s')" using adds assms(3) by (auto simp: only_adds_def)
  then have "linked (st_db s') ?p ?x v \<longleftrightarrow> v = u_ID user" for v using links_functional lk by blast
  moreover have "linked (st_db s) ?p ?x v \<longrightarrow> v = u_ID user" for v using only_adds_linked [OF adds] calculation by blast
  ultimately show ?thesis using i account opened adds by blast
qed

text \<open>The first sign-in of an external subject in a new instance.\<close>

definition sso_server :: Server where
  "sso_server = \<lparr>sv_Service = \<lparr>svc_Store = MemoReadStore_of id, svc_deployment = None, svc_raw = Inr None\<rparr>,
     sv_Auth = \<lparr>au_secret = ''secret'', au_jwt = table_jwt [], au_sha256 = (\<lambda>_. []), au_codec = table_codec [],
       au_users = id, au_settings = id\<rparr>,
     sv_General = Inr \<lparr>gs_DisallowPasswordAuth = False, gs_DisallowUserRegistration = False\<rparr>,
     sv_password = (\<lambda>_ _. False)\<rparr>"

definition github :: IdentityProvider where
  "github = \<lparr>ip_Uid = ''github'', ip_OAuth2 = True, ip_IdentifierFilter = []\<rparr>"

definition octocat :: IdentityProviderUserInfo where
  "octocat = \<lparr>ii_Identifier = ''octocat'', ii_DisplayName = ''Octo'', ii_Email = [], ii_AvatarURL = []\<rparr>"

abbreviation first_sign_in :: "(api_error + User) \<times> UserSetting Store" where
  "first_sign_in \<equiv> resolveSSOUser sso_server (\<lambda>_. ''uuid'') (Inr ''pw'') Inr None github (Some octocat) (Store_New empty_db 5)"

theorem external_sign_in_resolves_linked_account_witness:
  "\<exists>user s'. first_sign_in = (Inr user, s') \<and> u_Username user = ''octocat''
     \<and> (\<forall>v. linked (st_db s') ''github'' ''octocat'' v \<longleftrightarrow> v = 1) \<and> user \<in> set (db_user (st_db s'))"
proof -
  have "case fst first_sign_in of Inr u \<Rightarrow> u_ID u = 1 \<and> u_Username u = ''octocat'' | Inl _ \<Rightarrow> False" by code_simp
  then obtain user s' where run: "first_sign_in = (Inr user, s')" and user: "u_ID user = 1" "u_Username user = ''octocat''"
    by (cases first_sign_in) (auto split: sum.splits)
  have sv: "reads_store sso_server" by (simp add: reads_store_def sso_server_def)
  have unique: "links_unique (st_db (Store_New empty_db 5 :: UserSetting Store))"
    by (simp add: links_unique_def Store_New_def empty_db_def)
  have names: "ip_Uid github = ''github''" "ii_Identifier octocat = ''octocat''" by (simp_all add: github_def octocat_def)
  show ?thesis
    using external_sign_in_resolves_linked_account [OF sv run_inv_New unique run] run user
    by (auto simp: names)
qed

end
