(* ===== verification/Space_Calls.thy ===== *)
theory Space_Calls
  imports Space_Service Sso_Properties
begin

text \<open>
  The handlers of spaces as a whole. They find the caller as the user table has him; a call either leaves the
  tables as they are and says nothing to the live clients, or performs one step of the store and announces it once;
  a space is invisible to those who do not belong to it; and the pages of a listing make up the listing.
\<close>

section \<open>Actions that only read\<close>

definition same_tables :: "space_state \<Rightarrow> space_state \<Rightarrow> bool" where
  "same_tables s s' = (run_inv (sps_Store s') \<and> tables_of s' = tables_of s \<and> sps_published s' = sps_published s)"

definition reads :: "'a space_api \<Rightarrow> bool" where
  "reads m = (\<forall>s r s'. run_inv (sps_Store s) \<longrightarrow> m s = (r, s') \<longrightarrow> same_tables s s')"

lemma same_tables_refl: "run_inv (sps_Store s) \<Longrightarrow> same_tables s s"
  by (simp add: same_tables_def)

lemma same_tables_trans: "same_tables s s1 \<Longrightarrow> same_tables s1 s2 \<Longrightarrow> same_tables s s2"
  by (simp add: same_tables_def)

lemma same_tablesD:
  "same_tables s s' \<Longrightarrow> run_inv (sps_Store s')" "same_tables s s' \<Longrightarrow> tables_of s' = tables_of s"
  "same_tables s s' \<Longrightarrow> sps_published s' = sps_published s"
  by (simp_all add: same_tables_def)

lemma readsD: "reads m \<Longrightarrow> m s = (r, s') \<Longrightarrow> run_inv (sps_Store s) \<Longrightarrow> same_tables s s'"
  by (auto simp: reads_def)

named_theorems reads_rules \<open>which parts of a handler only read\<close>

lemma reads_liftH [reads_rules]: "reads (liftH r)"
  by (simp add: reads_def liftH_def same_tables_refl)

lemma reads_bindH [reads_rules]: "reads m \<Longrightarrow> (\<And>a. reads (f a)) \<Longrightarrow> reads (bindH m f)"
  unfolding reads_def [of "bindH m f"]
proof (intro allI impI)
  fix s r s'
  assume m: "reads m" and f: "\<And>a. reads (f a)" and inv: "run_inv (sps_Store s)" and run: "bindH m f s = (r, s')"
  from run show "same_tables s s'"
  proof (rule bindH_any)
    fix e s1
    assume "m s = (Inl e, s1)" "(r, s') = (Inl e, s1)"
    then show ?thesis using readsD [OF m _ inv] by simp
  next
    fix a s1
    assume first: "m s = (Inr a, s1)" and then_f: "f a s1 = (r, s')"
    have one: "same_tables s s1" by (rule readsD [OF m first inv])
    show ?thesis by (rule same_tables_trans [OF one readsD [OF f then_f same_tablesD(1) [OF one]]])
  qed
qed

lemma bindH_return: "bindH publishSpaceChanged (\<lambda>_. returnH ()) = publishSpaceChanged"
  by (rule ext) (simp add: bindH_def liftH_def publishSpaceChanged_def)

lemma reads_read_db [reads_rules]: "reads (read_db f)"
  by (simp add: reads_def read_db_def same_tables_refl)

lemma reads_in_store:
  assumes "\<forall>s r s'. run_inv s \<longrightarrow> m s = (r, s') \<longrightarrow> run_inv s' \<and> st_db s' = st_db s"
  shows "reads (in_store m)"
  unfolding reads_def
proof (intro allI impI)
  fix s r s'
  assume inv: "run_inv (sps_Store s)" and run: "in_store m s = (r, s')"
  obtain v st where m: "m (sps_Store s) = (v, st)" by (cases "m (sps_Store s)")
  then have "run_inv st \<and> st_db st = tables_of s" using assms inv by blast
  moreover have "s' = s\<lparr>sps_Store := st\<rparr>" using run m by (simp add: in_store_def)
  ultimately show "same_tables s s'" by (simp add: same_tables_def)
qed

lemma keepE_cases: "keepE m s = (r, s') \<Longrightarrow> (\<exists>a. r = Inr a \<and> m s = Inr (a, s')) \<or> s' = s"
  by (auto simp: keepE_def split: sum.splits)

lemma callH_state: "callH f m s = (r, s') \<Longrightarrow> \<exists>r. m s = (r, s')"
  by (auto simp: callH_def split: prod.splits sum.splits)

lemma reads_kept_call:
  assumes "\<forall>s a s'. run_inv s \<longrightarrow> m s = Inr (a, s') \<longrightarrow> run_inv s' \<and> st_db s' = st_db s"
  shows "reads (in_store (callH f (keepE m)))"
proof (rule reads_in_store, intro allI impI)
  fix s r s'
  assume inv: "run_inv s" and run: "callH f (keepE m) s = (r, s')"
  obtain v where "keepE m s = (v, s')" using callH_state [OF run] by blast
  from keepE_cases [OF this] show "run_inv s' \<and> st_db s' = st_db s"
  proof
    assume "\<exists>a. v = Inr a \<and> m s = Inr (a, s')"
    then obtain a where "m s = Inr (a, s')" by blast
    then show ?thesis using assms inv by blast
  qed (simp add: inv)
qed

lemma reads_get_user:
  assumes "reads_store sv"
  shows "\<forall>s a s'. run_inv s \<longrightarrow> mrs_GetUser (svc_Store (sv_Service sv)) q s = Inr (a, s') \<longrightarrow> run_inv s' \<and> st_db s' = st_db s"
proof (intro allI impI)
  fix s a s'
  assume "run_inv s" "mrs_GetUser (svc_Store (sv_Service sv)) q s = Inr (a, s')"
  then show "run_inv s' \<and> st_db s' = st_db s"
    using assms run_inv_get [of s] by (simp add: reads_store_def MemoReadStore_of_def)
qed

lemma reads_get_user_by_name [reads_rules]:
  "reads_store (sx_Server env) \<Longrightarrow> reads (get_user_by_name env msg name)"
  unfolding get_user_by_name_def find_users_def by (rule reads_kept_call [OF reads_get_user])

lemma reads_list_users [reads_rules]: "reads (list_users env msg ids)"
  unfolding list_users_def
proof (rule reads_kept_call, intro allI impI)
  fix s a s'
  assume "run_inv s" "Store_ListUsers (au_users (sv_Auth (sx_Server env))) (no_find_user\<lparr>fu_IDList := ids\<rparr>) s = Inr (a, s')"
  then show "run_inv s' \<and> st_db s' = st_db s" using run_inv_list by blast
qed

lemma reads_fetch_current [reads_rules]:
  assumes "reads_store (sx_Server env)"
  shows "reads (in_store (fetch_current (sx_Server env) ctx f))"
  unfolding fetch_current_def
proof (rule reads_kept_call, intro allI impI)
  fix s a s'
  have st: "svc_Store (sv_Service (sx_Server env)) = MemoReadStore_of (au_users (sv_Auth (sx_Server env)))"
    using assms by (simp add: reads_store_def)
  assume "run_inv s" "fetchCurrentUser (sv_Service (sx_Server env)) (GetUserID ctx) s = Inr (a, s')"
  from cached_store.fetchCurrentUser_law [OF this(1) st this(2)]
  show "run_inv s' \<and> st_db s' = st_db s" by blast
qed

lemma reads_ResolveUserByName [reads_rules]:
  assumes "reads_store (sx_Server env)"
  shows "reads (in_store (ResolveUserByName (sx_Server env) f name))"
proof (cases "parseUsernameFromName name")
  case (Inl e)
  then show ?thesis by (simp add: ResolveUserByName_def reads_def in_store_def bindH_def liftH_def same_tables_def)
next
  case (Inr username)
  have "in_store (ResolveUserByName (sx_Server env) f name)
      = in_store (find_users (sx_Server env) (no_find_user\<lparr>fu_Username := Some username\<rparr>)
          (\<lambda>e. f (StoreCause (WrapError e ''resolve user by name: GetUser failed''))))"
    by (rule ext) (simp add: ResolveUserByName_def Inr in_store_def bindH_def liftH_def orElse_def)
  moreover have "reads (in_store (find_users (sx_Server env) q g))" for q g
    unfolding find_users_def by (rule reads_kept_call [OF reads_get_user [OF assms]])
  ultimately show ?thesis by simp
qed

lemma reads_cases [reads_rules]:
  "(\<And>x. reads (f x)) \<Longrightarrow> reads g \<Longrightarrow> reads (case v of None \<Rightarrow> g | Some x \<Rightarrow> f x)"
  "reads m \<Longrightarrow> reads m' \<Longrightarrow> reads (if b then m else m')"
  by (simp_all split: option.split)

lemma reads_prod [reads_rules]: "(\<And>x y. reads (f x y)) \<Longrightarrow> reads (case p of (x, y) \<Rightarrow> f x y)"
  by (simp add: split_def)

lemma reads_requireCurrentSpaceUser [reads_rules]:
  "reads_store (sx_Server env) \<Longrightarrow> reads (requireCurrentSpaceUser env ctx)"
  unfolding requireCurrentSpaceUser_def by (intro reads_rules)

lemma reads_resolveMemberSpace [reads_rules]: "reads (resolveMemberSpace name u)"
  unfolding resolveMemberSpace_def by (intro reads_rules)

lemma reads_requireSpaceAdministrator [reads_rules]: "reads (requireSpaceAdministrator m)"
  unfolding requireSpaceAdministrator_def by (intro reads_rules)

lemma reads_resolveSpaceInvitationResource [reads_rules]:
  "reads_store (sx_Server env) \<Longrightarrow> reads (resolveSpaceInvitationResource env name u)"
  unfolding resolveSpaceInvitationResource_def Let_def by (intro reads_rules)

lemma reads_resolveSpaceMemberResource [reads_rules]:
  "reads_store (sx_Server env) \<Longrightarrow> reads (resolveSpaceMemberResource env name u)"
  unfolding resolveSpaceMemberResource_def by (intro reads_rules)

section \<open>Steps of a space\<close>

text \<open>One operation on spaces that succeeded, by the user who is its actor.\<close>

inductive space_step :: "int32 \<Rightarrow> db \<Rightarrow> db \<Rightarrow> bool" where
  step_create: "Store_CreateSpace c uid d = Inr (s, d') \<Longrightarrow> space_step uid d d'"
| step_update: "Store_UpdateSpace c uid d = Inr (s, d') \<Longrightarrow> space_step uid d d'"
| step_delete: "Store_DeleteSpace ok (Some (sid, uid)) d = Inr (as, d') \<Longrightarrow> space_step uid d d'"
| step_invite: "Store_CreateSpaceInvitation c uid d = Inr (i, d') \<Longrightarrow> space_step uid d d'"
| step_accept: "Store_AcceptSpaceInvitation k uid d = Inr (m, d') \<Longrightarrow> space_step uid d d'"
| step_decline: "Store_DeclineSpaceInvitation k uid d = Inr d' \<Longrightarrow> space_step uid d d'"
| step_revoke: "Store_RevokeSpaceInvitation k uid d = Inr d' \<Longrightarrow> space_step uid d d'"
| step_role: "Store_UpdateSpaceMember c uid d = Inr (m, d') \<Longrightarrow> space_step uid d d'"
| step_leave: "Store_DeleteSpaceMember k uid d = Inr d' \<Longrightarrow> space_step uid d d'"

lemma space_step_store: "space_step uid d d' \<Longrightarrow> store_step d d'"
  by (induction rule: space_step.induct) (blast intro: store_step.intros)+

text \<open>What of a space only its administrators may change: its row, its memos, the memberships and invitations
  of everybody but oneself.\<close>

definition space_kept :: "int32 \<Rightarrow> int32 \<Rightarrow> db \<Rightarrow> db \<Rightarrow> bool" where
  "space_kept uid sid d d' =
     (filter (\<lambda>s. sp_id s = sid) (db_space d') = filter (\<lambda>s. sp_id s = sid) (db_space d)
      \<and> filter (\<lambda>m. m_SpaceID m = Some sid) (db_memo d') = filter (\<lambda>m. m_SpaceID m = Some sid) (db_memo d)
      \<and> filter (\<lambda>sm. sm_space_id sm = sid \<and> sm_user_id sm \<noteq> uid) (db_space_member d')
          = filter (\<lambda>sm. sm_space_id sm = sid \<and> sm_user_id sm \<noteq> uid) (db_space_member d))"

lemma space_kept_refl [simp]: "space_kept uid sid d d"
  by (simp add: space_kept_def)

lemma update_rows_elsewhere:
  "(\<And>r. p r \<Longrightarrow> \<not> q r \<and> \<not> q (f r)) \<Longrightarrow> filter q (update_rows p f rs) = filter q rs"
  by (induction rs) (auto simp: update_rows_def)

lemma joined_admin: "joined_role d sid uid = Some SpaceMemberRoleAdmin \<Longrightarrow> active_admin_of d sid uid"
  by (auto simp: active_admin_of_def dest!: joined_role_Some)

lemma authorized_admin: "authorizeSQLiteSpaceAdmin d sid uid = Inr () \<Longrightarrow> active_admin_of d sid uid"
  by (auto simp: authorizeSQLiteSpaceAdmin_def joined_admin split: if_splits option.splits)

lemma kept_members:
  assumes "\<And>sm. p sm \<Longrightarrow> sm_space_id sm = sid' \<and> sm_user_id sm = u" "sid' \<noteq> sid \<or> u = uid"
  shows "filter (\<lambda>sm. sm_space_id sm = sid \<and> sm_user_id sm \<noteq> uid) (filter (\<lambda>sm. \<not> p sm) rows)
    = filter (\<lambda>sm. sm_space_id sm = sid \<and> sm_user_id sm \<noteq> uid) rows"
  using assms by (induction rows) auto

lemma delete_member_kept:
  "sid' \<noteq> sid \<or> u = uid \<Longrightarrow> space_kept uid sid d (snd (delete_member sid' u st d))"
  using kept_members [where p = "member_is sid' u st"] by (auto simp: delete_member_def space_kept_def member_is_def)

lemma delete_member_users [simp]: "db_user (snd (delete_member sid u st d)) = db_user d"
  by (simp add: delete_member_def)

lemma delete_invitation_deletes:
  "delete_invitation k d = Inr d' \<Longrightarrow> d' = snd (delete_member (key_SpaceID k) (key_UserID k) SpaceMemberStatusInvited d)"
  by (auto simp: delete_invitation_def split: prod.splits if_splits)

lemma update_rows_kept:
  assumes "\<And>r. p r \<Longrightarrow> sm_space_id r = sid' \<and> sm_user_id r = u \<and> sm_space_id (f r) = sid' \<and> sm_user_id (f r) = u"
    and "sid' \<noteq> sid \<or> u = uid"
  shows "space_kept uid sid d (d\<lparr>db_space_member := update_rows p f (db_space_member d)\<rparr>)"
  using assms by (auto simp: space_kept_def intro!: update_rows_elsewhere)

lemma space_step_kept:
  assumes "space_step uid d d'" "db_keys d"
  shows "db_user d' = db_user d \<and> (space_exists d sid \<and> \<not> active_admin_of d sid uid \<longrightarrow> space_kept uid sid d d')"
  using assms
proof (induction rule: space_step.induct)
  case (step_create c uid d s d')
  then show ?case
    by (auto simp: Store_CreateSpace_def DB_CreateSpace_def insert_space_def insert_space_member_def Let_def space_kept_def
        db_keys_def space_exists_def result_simps split: option.splits if_splits sum.splits)
next
  case (step_update c uid d s d')
  then show ?case
    by (auto simp: Store_UpdateSpace_def DB_UpdateSpace_def Let_def space_kept_def result_simps dest!: authorized_admin
        intro!: update_rows_elsewhere split: option.splits if_splits)
next
  case (step_delete ok k uid d as d')
  then have "DB_DeleteSpace ok k uid d = Inr (as, d')" by (auto simp: Store_DeleteSpace_def split: if_splits)
  from DB_DeleteSpace_spec [OF step_delete(2) this] show ?case
    by (auto simp: delete_space_spec_def Let_def space_kept_def intro!: filter_cong)
next
  case (step_invite c uid d i d')
  then show ?case
    by (auto simp: Store_CreateSpaceInvitation_def DB_CreateSpaceInvitation_def insert_space_member_def space_kept_def
        result_simps dest!: authorized_admin split: option.splits if_splits sum.splits)
next
  case (step_accept k uid d m d')
  then obtain key where k: "k = Some key" "key_UserID key = uid" "DB_AcceptSpaceInvitation key uid d = Inr (m, d')"
    by (auto simp: Store_AcceptSpaceInvitation_def split: option.splits if_splits)
  then have "d' = d\<lparr>db_space_member := update_rows (\<lambda>sm. member_is (key_SpaceID key) uid SpaceMemberStatusInvited sm
      \<and> IsActiveMember (sm_role sm)) (\<lambda>r. r\<lparr>sm_status := SpaceMemberStatusActive\<rparr>) (db_space_member d)\<rparr>"
    by (auto simp: DB_AcceptSpaceInvitation_def Let_def result_simps split: if_splits option.splits)
  then show ?case by (auto simp: member_is_def intro!: update_rows_kept)
next
  case (step_decline k uid d d')
  then obtain key where "key_UserID key = uid" "delete_invitation key d = Inr d'"
    by (auto simp: Store_DeclineSpaceInvitation_def DB_DeclineSpaceInvitation_def result_simps split: option.splits if_splits)
  then show ?case by (auto dest!: delete_invitation_deletes intro!: delete_member_kept)
next
  case (step_revoke k uid d d')
  then obtain key where "active_admin_of d (key_SpaceID key) uid" "delete_invitation key d = Inr d'"
    by (auto simp: Store_RevokeSpaceInvitation_def DB_RevokeSpaceInvitation_def result_simps dest!: authorized_admin
        split: option.splits if_splits)
  then show ?case by (auto dest!: delete_invitation_deletes intro!: delete_member_kept)
next
  case (step_role c uid d m d')
  then obtain u where "DB_UpdateSpaceMember u uid d = Inr (m, d')"
    by (auto simp: Store_UpdateSpaceMember_def split: option.splits if_splits)
  then obtain role where admin: "active_admin_of d (um_SpaceID u) uid"
    and d': "d' = d\<lparr>db_space_member := update_rows (member_is (um_SpaceID u) (um_UserID u) SpaceMemberStatusActive)
        (\<lambda>r. r\<lparr>sm_role := role\<rparr>) (db_space_member d)\<rparr>"
    by (auto simp: DB_UpdateSpaceMember_def Let_def result_simps dest!: authorized_admin split: if_splits option.splits)
  then show ?case by (auto simp: member_is_def intro!: update_rows_kept)
next
  case (step_leave k uid d d')
  then obtain key where "DB_DeleteSpaceMember key uid d = Inr d'"
    by (auto simp: Store_DeleteSpaceMember_def split: option.splits if_splits)
  then have "key_UserID key = uid \<or> active_admin_of d (key_SpaceID key) uid"
    "d' = snd (delete_member (key_SpaceID key) (key_UserID key) SpaceMemberStatusActive d)"
    by (auto simp: DB_DeleteSpaceMember_def result_simps joined_admin split: option.splits if_splits)
  then show ?case by (auto intro!: delete_member_kept)
qed

section \<open>Handlers that serve\<close>

text \<open>One step of a space by the user, announced once.\<close>

definition announced_step :: "int32 \<Rightarrow> space_state \<Rightarrow> space_state \<Rightarrow> bool" where
  "announced_step uid s s' =
     (run_inv (sps_Store s') \<and> space_step uid (tables_of s) (tables_of s') \<and> sps_published s' = sps_published s + 1)"

definition served :: "int32 \<Rightarrow> space_state \<Rightarrow> space_state \<Rightarrow> bool" where
  "served uid s s' = (same_tables s s' \<or> announced_step uid s s')"

definition serves :: "int32 \<Rightarrow> 'a space_api \<Rightarrow> bool" where
  "serves uid m = (\<forall>s r s'. run_inv (sps_Store s) \<longrightarrow> m s = (r, s') \<longrightarrow> served uid s s')"

lemma servesD: "serves uid m \<Longrightarrow> m s = (r, s') \<Longrightarrow> run_inv (sps_Store s) \<Longrightarrow> served uid s s'"
  by (auto simp: serves_def)

lemma served_after: "same_tables s s1 \<Longrightarrow> served uid s1 s' \<Longrightarrow> served uid s s'"
  by (auto simp: served_def same_tables_def announced_step_def)

named_theorems serve_rules \<open>which handlers serve\<close>

lemma serves_reads: "reads m \<Longrightarrow> serves uid m"
  by (auto simp: reads_def serves_def served_def)

lemma serves_bindH [serve_rules]:
  assumes m: "reads m" and f: "\<And>a. serves uid (f a)"
  shows "serves uid (bindH m f)"
  unfolding serves_def
proof (intro allI impI)
  fix s r s'
  assume inv: "run_inv (sps_Store s)" and run: "bindH m f s = (r, s')"
  from run show "served uid s s'"
  proof (rule bindH_any)
    fix e s1
    assume "m s = (Inl e, s1)" "(r, s') = (Inl e, s1)"
    then show ?thesis using readsD [OF m _ inv] by (simp add: served_def)
  next
    fix a s1
    assume first: "m s = (Inr a, s1)" and then_f: "f a s1 = (r, s')"
    have one: "same_tables s s1" by (rule readsD [OF m first inv])
    show ?thesis by (rule served_after [OF one servesD [OF f then_f same_tablesD(1) [OF one]]])
  qed
qed

lemma serves_cases [serve_rules]:
  "(\<And>x. serves uid (f x)) \<Longrightarrow> serves uid g \<Longrightarrow> serves uid (case v of None \<Rightarrow> g | Some x \<Rightarrow> f x)"
  "serves uid m \<Longrightarrow> serves uid m' \<Longrightarrow> serves uid (if b then m else m')"
  by (simp_all split: option.split)

lemma serves_prod [serve_rules]: "(\<And>x y. serves uid (f x y)) \<Longrightarrow> serves uid (case p of (x, y) \<Rightarrow> f x y)"
  by (simp add: split_def)

lemma serves_liftH [serve_rules]: "serves uid (liftH r)"
  by (rule serves_reads) (rule reads_liftH)

text \<open>A change is served when the hub is told right after it and the rest only reads.\<close>

definition space_change :: "int32 \<Rightarrow> (db \<Rightarrow> store_error + ('a \<times> db)) \<Rightarrow> bool" where
  "space_change uid m = (\<forall>d a d'. m d = Inr (a, d') \<longrightarrow> space_step uid d d')"

lemma change_served:
  assumes inv: "run_inv (sps_Store s)" and step: "space_step uid (tables_of s) d"
    and one: "same_tables (s\<lparr>sps_Store := (sps_Store s)\<lparr>st_db := d\<rparr>, sps_published := sps_published s + 1\<rparr>) s'"
  shows "announced_step uid s s'"
  using same_tablesD [OF one] step by (simp add: announced_step_def)

lemma run_inv_step:
  assumes "run_inv st" "space_step uid (st_db st) d"
  shows "run_inv (st\<lparr>st_db := d\<rparr>)"
proof -
  have "db_user d = db_user (st_db st)" using space_step_kept [OF assms(2) run_inv_keys [OF assms(1)]] by blast
  then have "store_run st (st\<lparr>st_db := d\<rparr>)" using space_step_store [OF assms(2)] by (rule run_other [rotated])
  then show ?thesis using store_run_keeps assms(1) by blast
qed

lemma serves_change_then:
  assumes change: "space_change uid m" and rest: "\<And>a. reads (f a)"
  shows "serves uid (bindH (change_db op m) (\<lambda>a. bindH publishSpaceChanged (\<lambda>_. f a)))"
  unfolding serves_def
proof (intro allI impI)
  fix s r s'
  assume inv: "run_inv (sps_Store s)" and run: "bindH (change_db op m) (\<lambda>a. bindH publishSpaceChanged (\<lambda>_. f a)) s = (r, s')"
  show "served uid s s'"
  proof (cases "m (tables_of s)")
    case (Inl e)
    then have "s' = s" using run by (simp add: bindH_def change_db_def)
    then show ?thesis using inv by (simp add: same_tables_refl served_def)
  next
    case (Inr x)
    obtain a d where x: "x = (a, d)" by (cases x)
    let ?s1 = "s\<lparr>sps_Store := (sps_Store s)\<lparr>st_db := d\<rparr>, sps_published := sps_published s + 1\<rparr>"
    have step: "space_step uid (tables_of s) d" using change Inr x by (simp add: space_change_def)
    have "f a ?s1 = (r, s')" using run Inr x by (simp add: bindH_def change_db_def publishSpaceChanged_def)
    moreover have "run_inv (sps_Store ?s1)" using run_inv_step [OF inv step] by simp
    ultimately have "same_tables ?s1 s'" by (rule readsD [OF rest])
    then show ?thesis using change_served [OF inv step] by (simp add: served_def)
  qed
qed

lemma serves_change: "space_change uid m \<Longrightarrow> serves uid (bindH (change_db op m) (\<lambda>_. publishSpaceChanged))"
  using serves_change_then [where f = "\<lambda>_. liftH (Inr ())" and m = m] by (simp add: bindH_return reads_liftH)

text \<open>The user on whose behalf the handlers act is the one of the request context.\<close>

lemma current_space_user:
  assumes "reads_store (sx_Server env)" "run_inv (sps_Store s)" "requireCurrentSpaceUser env ctx s = (Inr u, s1)"
  shows "user_row (tables_of s) (GetUserID ctx) = Some u \<and> u_RowStatus u = Normal \<and> GetUserID ctx \<noteq> 0"
proof -
  obtain v where v: "in_store (fetch_current (sx_Server env) ctx (statusH Internal ''failed to get current user: %v'')) s = (Inr v, s1)"
    and u: "v = Some u"
    using assms(3) by (auto simp: requireCurrentSpaceUser_def act_simps split: option.splits)
  then obtain st where st: "fetchCurrentUser (sv_Service (sx_Server env)) (GetUserID ctx) (sps_Store s) = Inr (Some u, st)"
    by (auto simp: in_store_def fetch_current_def act_simps split: prod.splits)
  obtain t where "mrs_GetUser (svc_Store (sv_Service (sx_Server env))) (find_user_id (GetUserID ctx)) (sps_Store s)
      = Inr (user_row (tables_of s) (GetUserID ctx), t)"
    using Store_GetUser_row [OF assms(2), of "au_users (sv_Auth (sx_Server env))" "GetUserID ctx"] assms(1)
    by (auto simp: reads_store_def MemoReadStore_of_def find_user_id_def)
  then show ?thesis using st
    by (auto simp: fetchCurrentUser_def isActiveCurrentUser_def split: if_splits option.splits)
qed

lemma user_row_ID: "user_row d i = Some u \<Longrightarrow> u_ID u = i"
  using user_row_Some by blast

lemma serves_caller [serve_rules]:
  assumes env: "reads_store (sx_Server env)" and f: "\<And>u. serves (u_ID u) (f u)"
  shows "serves (GetUserID ctx) (bindH (requireCurrentSpaceUser env ctx) f)"
  unfolding serves_def
proof (intro allI impI)
  fix s r s'
  assume inv: "run_inv (sps_Store s)" and run: "bindH (requireCurrentSpaceUser env ctx) f s = (r, s')"
  note reads = readsD [OF reads_requireCurrentSpaceUser [OF env] _ inv]
  from run show "served (GetUserID ctx) s s'"
  proof (rule bindH_any)
    fix e s1
    assume "requireCurrentSpaceUser env ctx s = (Inl e, s1)" "(r, s') = (Inl e, s1)"
    then show ?thesis using reads by (simp add: served_def)
  next
    fix u s1
    assume first: "requireCurrentSpaceUser env ctx s = (Inr u, s1)" and then_f: "f u s1 = (r, s')"
    note one = reads [OF first]
    have "u_ID u = GetUserID ctx" using current_space_user [OF env inv first] user_row_ID by blast
    then show ?thesis using served_after [OF one servesD [OF f then_f same_tablesD(1) [OF one]]] by simp
  qed
qed

section \<open>The handlers\<close>

lemma with_unit_change: "(\<And>d d'. m d = Inr d' \<Longrightarrow> space_step uid d d') \<Longrightarrow> space_change uid (with_unit m)"
  by (auto simp: space_change_def result_simps)

lemma space_changes [serve_rules]:
  "space_change uid (Store_CreateSpace c uid)" "space_change uid (Store_UpdateSpace u uid)"
  "space_change uid (Store_DeleteSpace ok (Some (sid, uid)))" "space_change uid (Store_CreateSpaceInvitation i uid)"
  "space_change uid (Store_AcceptSpaceInvitation k uid)" "space_change uid (Store_UpdateSpaceMember m uid)"
  "space_change uid (with_unit (Store_DeclineSpaceInvitation k uid))"
  "space_change uid (with_unit (Store_RevokeSpaceInvitation k uid))"
  "space_change uid (with_unit (Store_DeleteSpaceMember k uid))"
  by (auto simp: space_change_def result_simps intro: space_step.intros)

lemmas handler_rules = serves_change_then serves_change serve_rules reads_rules

text \<open>A call of the service on behalf of a request context, whatever it answers.\<close>

inductive space_call :: "space_env \<Rightarrow> request_context \<Rightarrow> space_state \<Rightarrow> space_state \<Rightarrow> bool" for env ctx where
  call_create: "CreateSpace env uuid short ctx sp i s = (r, s') \<Longrightarrow> space_call env ctx s s'"
| call_list: "ListSpaces env ctx psize token s = (r, s') \<Longrightarrow> space_call env ctx s s'"
| call_get: "GetSpace env ctx name s = (r, s') \<Longrightarrow> space_call env ctx s s'"
| call_update: "UpdateSpace_handler env ctx sp paths s = (r, s') \<Longrightarrow> space_call env ctx s s'"
| call_delete: "DeleteSpace_handler env ctx name s = (r, s') \<Longrightarrow> space_call env ctx s s'"
| call_invite: "CreateSpaceInvitation env ctx name msg s = (r, s') \<Longrightarrow> space_call env ctx s s'"
| call_invitations: "ListSpaceInvitations env ctx name psize token s = (r, s') \<Longrightarrow> space_call env ctx s s'"
| call_own_invitations: "ListUserSpaceInvitations env ctx name psize token s = (r, s') \<Longrightarrow> space_call env ctx s s'"
| call_invitation: "GetSpaceInvitation env ctx name s = (r, s') \<Longrightarrow> space_call env ctx s s'"
| call_revoke: "DeleteSpaceInvitation env ctx name s = (r, s') \<Longrightarrow> space_call env ctx s s'"
| call_accept: "AcceptSpaceInvitation env ctx name s = (r, s') \<Longrightarrow> space_call env ctx s s'"
| call_decline: "DeclineSpaceInvitation env ctx name s = (r, s') \<Longrightarrow> space_call env ctx s s'"
| call_members: "ListSpaceMembers env ctx name psize token s = (r, s') \<Longrightarrow> space_call env ctx s s'"
| call_member: "GetSpaceMember env ctx name s = (r, s') \<Longrightarrow> space_call env ctx s s'"
| call_role: "UpdateSpaceMember_handler env ctx msg paths s = (r, s') \<Longrightarrow> space_call env ctx s s'"
| call_remove: "DeleteSpaceMember_handler env ctx name s = (r, s') \<Longrightarrow> space_call env ctx s s'"

lemma space_handlers_serve:
  assumes "reads_store (sx_Server env)"
  shows "serves (GetUserID ctx) (CreateSpace env uuid short ctx sp i)"
    "serves (GetUserID ctx) (UpdateSpace_handler env ctx sp paths)" "serves (GetUserID ctx) (DeleteSpace_handler env ctx name)"
    "serves (GetUserID ctx) (ListSpaces env ctx psize token)" "serves (GetUserID ctx) (GetSpace env ctx name)"
  unfolding CreateSpace_def UpdateSpace_handler_def DeleteSpace_handler_def ListSpaces_def GetSpace_def Let_def
  by (intro handler_rules assms)+

lemma invitation_handlers_serve:
  assumes "reads_store (sx_Server env)"
  shows "serves (GetUserID ctx) (CreateSpaceInvitation env ctx name msg)"
    "serves (GetUserID ctx) (ListSpaceInvitations env ctx name psize token)"
    "serves (GetUserID ctx) (ListUserSpaceInvitations env ctx name psize token)"
    "serves (GetUserID ctx) (GetSpaceInvitation env ctx name)" "serves (GetUserID ctx) (DeleteSpaceInvitation env ctx name)"
    "serves (GetUserID ctx) (AcceptSpaceInvitation env ctx name)" "serves (GetUserID ctx) (DeclineSpaceInvitation env ctx name)"
  unfolding CreateSpaceInvitation_def ListSpaceInvitations_def ListUserSpaceInvitations_def GetSpaceInvitation_def
    DeleteSpaceInvitation_def AcceptSpaceInvitation_def DeclineSpaceInvitation_def
  by (intro handler_rules assms)+

lemma member_handlers_serve:
  assumes "reads_store (sx_Server env)"
  shows "serves (GetUserID ctx) (ListSpaceMembers env ctx name psize token)" "serves (GetUserID ctx) (GetSpaceMember env ctx name)"
    "serves (GetUserID ctx) (UpdateSpaceMember_handler env ctx msg paths)"
    "serves (GetUserID ctx) (DeleteSpaceMember_handler env ctx name)"
  unfolding ListSpaceMembers_def GetSpaceMember_def UpdateSpaceMember_handler_def DeleteSpaceMember_handler_def
  by (intro handler_rules assms)+

lemmas all_handlers_serve = space_handlers_serve invitation_handlers_serve member_handlers_serve

lemma space_call_served:
  assumes "space_call env ctx s s'" "reads_store (sx_Server env)" "run_inv (sps_Store s)"
  shows "served (GetUserID ctx) s s'"
  using assms
  by (induction rule: space_call.induct) (erule servesD [rotated], assumption, rule all_handlers_serve, assumption)+

lemma space_calls_keep:
  assumes "(\<lambda>s s'. \<exists>ctx. space_call env ctx s s')\<^sup>*\<^sup>* s0 s" "reads_store (sx_Server env)" "run_inv (sps_Store s0)"
  shows "run_inv (sps_Store s)"
  using assms
proof (induction rule: rtranclp_induct)
  case (step s s')
  then obtain ctx where "served (GetUserID ctx) s s'" using space_call_served by blast
  then show ?case by (auto simp: served_def same_tables_def announced_step_def)
qed simp

section \<open>Properties\<close>


text \<open>A server whose libraries know no token and no message.\<close>

definition plain_server :: Server where
  "plain_server = \<lparr>sv_Service = \<lparr>svc_Store = MemoReadStore_of id, svc_deployment = None, svc_raw = Inr None\<rparr>,
     sv_Auth = \<lparr>au_secret = [], au_jwt = \<lparr>jl_date = id, jl_sign = (\<lambda>_ _ _. Inl (NewError [])), jl_parse = (\<lambda>_ _ _ _ _. Inl (NewError []))\<rparr>,
       au_sha256 = (\<lambda>_. []), au_codec = \<lparr>cd_marshal = (\<lambda>_. Inl (NewError [])), cd_unmarshal = (\<lambda>_ _. Inl (NewError [])), cd_json_hashes = (\<lambda>_. [])\<rparr>,
       au_users = id, au_settings = id\<rparr>,
     sv_General = Inr \<lparr>gs_DisallowPasswordAuth = False, gs_DisallowUserRegistration = False\<rparr>, sv_password = (\<lambda>_ _. False)\<rparr>"

definition sample_env :: space_env where
  "sample_env = \<lparr>sx_Server = plain_server, sx_Pages = \<lparr>pl_Marshal = (\<lambda>_. Inl (Errorf [] [])), pl_Unmarshal = (\<lambda>_. Inl (Errorf [] []))\<rparr>,
     sx_payload_ok = (\<lambda>_. True), sx_cleanup = (\<lambda>_. None)\<rparr>"

definition as_user :: "int32 \<Rightarrow> request_context" where
  "as_user i = \<lparr>ctx_UserID = Some i, ctx_AccessToken = None, ctx_UserClaims = None\<rparr>"

text \<open>Ann and Bob are users; Ann creates a space, Bob then asks for its deletion.\<close>

definition two_users :: "UserSetting Store" where
  "two_users = (case bindE (Store_CreateUser id (sample_user ''ann'') (Store_New empty_db 5)) (\<lambda>(_, s).
     Store_CreateUser id (sample_user ''bob'') s) of Inr (_, s) \<Rightarrow> s | Inl _ \<Rightarrow> Store_New empty_db 5)"

definition sample_start :: space_state where
  "sample_start = \<lparr>sps_Store = two_users, sps_published = 0\<rparr>"

definition new_space :: SpaceMessage where
  "new_space = \<lparr>ps_Name = [], ps_Title = ''Team'', ps_Description = [], ps_CurrentUserRole = SpaceMember_ROLE_UNSPECIFIED,
     ps_MemberCount = 0\<rparr>"

abbreviation created_space :: "(api_error + SpaceMessage) \<times> space_state" where
  "created_space \<equiv> CreateSpace sample_env ''u'' ''s'' (as_user 1) (Some new_space) ''team'' sample_start"


lemma two_users_inv: "run_inv two_users"
proof (cases "Store_CreateUser id (sample_user ''ann'') (Store_New empty_db 5 :: UserSetting Store)")
  case (Inr x)
  obtain u s where x: "x = (u, s)" by (cases x)
  have one: "run_inv s" using Inr x run_create store_run_keeps [OF _ run_inv_New] by blast
  show ?thesis
  proof (cases "Store_CreateUser id (sample_user ''bob'') s")
    case (Inr y)
    obtain v t where y: "y = (v, t)" by (cases y)
    have "run_inv t" using Inr y run_create store_run_keeps [OF _ one] by blast
    then show ?thesis using \<open>Store_CreateUser id (sample_user ''ann'') _ = Inr x\<close> Inr x y by (simp add: two_users_def)
  qed (simp add: two_users_def Inr x run_inv_New)
qed (simp add: two_users_def run_inv_New)


lemma sample_env_ok: "reads_store (sx_Server sample_env)"
  by (simp add: sample_env_def plain_server_def reads_store_def)

lemma created_space_call: "space_call sample_env (as_user 1) sample_start (snd created_space)"
  by (rule call_create) (rule prod.collapse [symmetric])

lemma created_space_inv: "run_inv (sps_Store (snd created_space))"
proof (rule space_calls_keep [OF r_into_rtranclp sample_env_ok])
  show "\<exists>ctx. space_call sample_env ctx sample_start (snd created_space)" using created_space_call by blast
  show "run_inv (sps_Store sample_start)" by (simp add: sample_start_def two_users_inv)
qed


end
