(* ===== verification/Space_Visibility.thy ===== *)
theory Space_Visibility
  imports Space_Calls
begin

text \<open>
  What a caller learns of a space he does not belong to: the handlers answer as if it did not exist.
\<close>

section \<open>Callers\<close>

definition caller_is :: "space_state \<Rightarrow> request_context \<Rightarrow> User \<Rightarrow> bool" where
  "caller_is s ctx u =
     (GetUserID ctx \<noteq> 0 \<and> user_row (tables_of s) (GetUserID ctx) = Some u \<and> u_RowStatus u = Normal)"

lemma caller_found:
  assumes env: "reads_store (sx_Server env)" and inv: "run_inv (sps_Store s)" and caller: "caller_is s ctx u"
  obtains s1 where "requireCurrentSpaceUser env ctx s = (Inr u, s1)" "same_tables s s1"
proof -
  obtain t where "mrs_GetUser (svc_Store (sv_Service (sx_Server env))) (find_user_id (GetUserID ctx)) (sps_Store s)
      = Inr (Some u, t)"
    using Store_GetUser_row [OF inv, of "au_users (sv_Auth (sx_Server env))" "GetUserID ctx"] env caller
    by (auto simp: reads_store_def MemoReadStore_of_def find_user_id_def caller_is_def)
  then have "requireCurrentSpaceUser env ctx s = (Inr u, s\<lparr>sps_Store := t\<rparr>)"
    using caller
    by (simp add: requireCurrentSpaceUser_def in_store_def fetch_current_def callH_def keepE_def fetchCurrentUser_def
        isActiveCurrentUser_def caller_is_def bindH_def liftH_def bindE_simps)
  then show thesis using that readsD [OF reads_requireCurrentSpaceUser [OF env] _ inv] by blast
qed

text \<open>A step of a handler that answers a value or an error.\<close>

lemma bindH_value: "m s = (Inr a, s1) \<Longrightarrow> bindH m f s = f a s1"
  by (simp add: bindH_def)

lemma bindH_error: "m s = (Inl e, s1) \<Longrightarrow> bindH m f s = (Inl e, s1)"
  by (simp add: bindH_def)

section \<open>Spaces one does not belong to\<close>

text \<open>No space with this identifier has the user as an active member; it may not exist at all.\<close>

definition outsider :: "db \<Rightarrow> int32 \<Rightarrow> string \<Rightarrow> bool" where
  "outsider d uid suid = (\<forall>sp \<in> set (db_space d). sp_uid sp = suid \<longrightarrow> \<not> active_member_of d (sp_id sp) uid)"

abbreviation space_hidden :: api_error where
  "space_hidden \<equiv> Status NotFound ''space not found'' NoCause"

lemma no_summary: "\<not> active_member_of d sid uid \<Longrightarrow> space_summaries d sid uid = []"
  by (auto simp: space_summaries_def active_member_of_def filter_empty_conv concat_eq_Nil_conv)

lemma hidden_space:
  assumes "outsider d uid suid"
  shows "Store_GetSpace (no_find_space\<lparr>fs_UID := Some suid, fs_MemberUserID := Some uid\<rparr>) d = None"
proof -
  have "space_summaries d (sp_id sp) uid = []" if "sp \<in> set (db_space d)" "sp_uid sp = suid" for sp
    using assms that no_summary by (auto simp: outsider_def)
  then show ?thesis
    by (auto simp: Store_GetSpace_def DB_ListSpaces_def no_find_space_def opt_eq_def sql_limit_def first_row_None concat_eq_Nil_conv)
qed

lemma resolveMemberSpace_hides:
  assumes "ExtractSpaceUIDFromName name = Inr suid" "outsider (tables_of s) (u_ID u) suid"
  shows "resolveMemberSpace name u s = (Inl space_hidden, s)"
  using assms
  by (simp add: resolveMemberSpace_def bindH_def liftH_def read_db_def hidden_space orElse_def)

lemma member_name_space:
  "ExtractSpaceMemberTokensFromName name = Inr (suid, username) \<Longrightarrow> ExtractSpaceUIDFromName (buildSpaceName suid) = Inr suid"
  by (auto simp: ExtractSpaceMemberTokensFromName_def ExtractSpaceUIDFromName_def buildSpaceName_def result_simps tokens_two tokens_one)

lemma resolveSpaceMemberResource_hides:
  assumes "ExtractSpaceMemberTokensFromName name = Inr (suid, username)" "outsider (tables_of s) (u_ID u) suid"
  shows "resolveSpaceMemberResource env name u s = (Inl space_hidden, s)"
  using assms resolveMemberSpace_hides [OF member_name_space [OF assms(1)] assms(2)]
  by (simp add: resolveSpaceMemberResource_def bindH_def liftH_def orElse_def)

text \<open>The handlers from the moment the caller is known.\<close>

lemma space_handlers_hide:
  assumes u: "requireCurrentSpaceUser env ctx s = (Inr u, s')" "same_tables s s'"
    and hidden: "ExtractSpaceUIDFromName name = Inr suid" "outsider (tables_of s) (u_ID u) suid"
  shows "GetSpace env ctx name s = (Inl space_hidden, s')" "DeleteSpace_handler env ctx name s = (Inl space_hidden, s')"
    "ps_Name sp = name \<Longrightarrow> UpdateSpace_handler env ctx (Some sp) (Some (path # paths)) s = (Inl space_hidden, s')"
    "CreateSpaceInvitation env ctx name (Some msg) s = (Inl space_hidden, s')"
    "ListSpaceInvitations env ctx name psize token s = (Inl space_hidden, s')"
    "ListSpaceMembers env ctx name psize token s = (Inl space_hidden, s')"
proof -
  have r: "resolveMemberSpace name u s' = (Inl space_hidden, s')"
    using resolveMemberSpace_hides [of name suid s' u] hidden same_tablesD(2) [OF u(2)] by simp
  note steps = bindH_value [where m = "requireCurrentSpaceUser env ctx", OF u(1)] bindH_error [where m = "resolveMemberSpace name u", OF r]
  show "GetSpace env ctx name s = (Inl space_hidden, s')" by (simp add: GetSpace_def steps)
  show "DeleteSpace_handler env ctx name s = (Inl space_hidden, s')" by (simp add: DeleteSpace_handler_def steps)
  show "UpdateSpace_handler env ctx (Some sp) (Some (path # paths)) s = (Inl space_hidden, s')" if "ps_Name sp = name"
    by (simp add: UpdateSpace_handler_def steps that)
  show "CreateSpaceInvitation env ctx name (Some msg) s = (Inl space_hidden, s')" by (simp add: CreateSpaceInvitation_def steps)
  show "ListSpaceInvitations env ctx name psize token s = (Inl space_hidden, s')" by (simp add: ListSpaceInvitations_def steps)
  show "ListSpaceMembers env ctx name psize token s = (Inl space_hidden, s')" by (simp add: ListSpaceMembers_def steps)
qed

lemma member_handlers_hide:
  assumes u: "requireCurrentSpaceUser env ctx s = (Inr u, s')" "same_tables s s'"
    and hidden: "ExtractSpaceMemberTokensFromName name = Inr (suid, username)" "outsider (tables_of s) (u_ID u) suid"
  shows "GetSpaceMember env ctx name s = (Inl space_hidden, s')"
    "DeleteSpaceMember_handler env ctx name s = (Inl space_hidden, s')"
    "pm_Name msg = name \<Longrightarrow> UpdateSpaceMember_handler env ctx (Some msg) (Some [''role'']) s = (Inl space_hidden, s')"
proof -
  have r: "resolveSpaceMemberResource env name u s' = (Inl space_hidden, s')"
    using resolveSpaceMemberResource_hides [of name suid username s' u] hidden same_tablesD(2) [OF u(2)] by simp
  note steps = bindH_value [where m = "requireCurrentSpaceUser env ctx", OF u(1)] bindH_error [where m = "resolveSpaceMemberResource env name u", OF r]
  show "GetSpaceMember env ctx name s = (Inl space_hidden, s')" by (simp add: GetSpaceMember_def steps)
  show "DeleteSpaceMember_handler env ctx name s = (Inl space_hidden, s')" by (simp add: DeleteSpaceMember_handler_def steps)
  show "UpdateSpaceMember_handler env ctx (Some msg) (Some [''role'']) s = (Inl space_hidden, s')" if "pm_Name msg = name"
    by (simp add: UpdateSpaceMember_handler_def steps that bindH_value liftH_def)
qed

section \<open>Invitations of others\<close>

abbreviation invitation_hidden :: api_error where
  "invitation_hidden \<equiv> Status NotFound ''space invitation not found'' NoCause"

lemma found_member_admin:
  assumes "Store_GetSpaceMember (find_member sid uid) d = Some m" "mem_Role m = SpaceMemberRoleAdmin"
  shows "active_admin_of d sid uid"
  using assms
  by (fastforce simp: Store_GetSpaceMember_def DB_ListSpaceMembers_def find_member_def opt_eq_def sql_limit_def
      active_admin_of_def member_is_def member_of_row_def dest!: first_row_in)

lemma found_space:
  "Store_GetSpace (no_find_space\<lparr>fs_UID := Some suid\<rparr>) d = Some sp \<Longrightarrow>
     \<exists>row \<in> set (db_space d). sp_uid row = suid \<and> sp_id row = Space_ID sp"
  by (fastforce simp: Store_GetSpace_def DB_ListSpaces_def no_find_space_def opt_eq_def sql_limit_def space_of_row_def
      dest!: first_row_in)

lemma found_by_name:
  assumes "reads_store (sx_Server env)"
  obtains v s1 where "get_user_by_name env msg username s = (Inr v, s1)" "\<forall>t. v = Some t \<longrightarrow> u_Username t = username \<and> t \<in> set (db_user (tables_of s))"
proof -
  let ?q = "no_find_user\<lparr>fu_Username := Some username\<rparr>" and ?rng = "au_users (sv_Auth (sx_Server env))"
  obtain us where us: "DB_ListUsers ?q (tables_of s) = Inr us" by (auto simp: DB_ListUsers_def no_find_user_def)
  have named: "u_Username w = username \<and> w \<in> set (db_user (tables_of s))" if "w \<in> set us" for w
    using us that by (auto simp: DB_ListUsers_def no_find_user_def sql_limit_def user_order_def searching_def sort_desc_def
        user_matches_def opt_eq_def split: if_splits)
  have "fu_ID ?q = None" by (simp add: no_find_user_def)
  then have "\<exists>s1. Store_GetUser ?rng ?q (sps_Store s) = Inr (case us of [] \<Rightarrow> None | w # _ \<Rightarrow> Some w, s1)"
    by (cases us) (simp_all add: Store_GetUser_def get_user_from_db_def Store_ListUsers_def us bindE_simps)
  then obtain s1 where "get_user_by_name env msg username s = (Inr (case us of [] \<Rightarrow> None | w # _ \<Rightarrow> Some w), s\<lparr>sps_Store := s1\<rparr>)"
    using assms
    by (auto simp: get_user_by_name_def find_users_def in_store_def callH_def keepE_def reads_store_def MemoReadStore_of_def)
  then show thesis using that named by (cases us) auto
qed

lemma resolveSpaceInvitationResource_hides:
  assumes env: "reads_store (sx_Server env)" and inv: "run_inv (sps_Store s)"
    and name: "ExtractSpaceInvitationTokensFromName name = Inr (suid, username)" and other: "username \<noteq> u_Username u"
    and no_admin: "\<forall>sp \<in> set (db_space (tables_of s)). sp_uid sp = suid \<longrightarrow> \<not> active_admin_of (tables_of s) (sp_id sp) (u_ID u)"
    and caller: "u \<in> set (db_user (tables_of s))"
  shows "\<exists>s'. resolveSpaceInvitationResource env name u s = (Inl invitation_hidden, s')"
proof (cases "Store_GetSpace (no_find_space\<lparr>fs_UID := Some suid\<rparr>) (tables_of s)")
  case None
  then show ?thesis by (simp add: resolveSpaceInvitationResource_def bindH_def liftH_def orElse_def name read_db_def)
next
  case (Some sp)
  obtain v s1 where v: "get_user_by_name env ''failed to resolve invitation invitee: %v'' username s = (Inr v, s1)"
    "\<forall>t. v = Some t \<longrightarrow> u_Username t = username \<and> t \<in> set (db_user (tables_of s))"
    using found_by_name [OF env] by blast
  have same: "tables_of s1 = tables_of s" using readsD [OF reads_get_user_by_name [OF env] v(1) inv] same_tablesD(2) by blast
  let ?m = "Store_GetSpaceMember (find_member (Space_ID sp) (u_ID u)) (tables_of s1)"
  have no: "\<not> (\<exists>m. ?m = Some m \<and> mem_Role m = SpaceMemberRoleAdmin)"
    using found_space [OF Some] no_admin found_member_admin unfolding same by metis
  have not_self: "u_ID t \<noteq> u_ID u" if "v = Some t" for t
  proof
    assume "u_ID t = u_ID u"
    moreover have "t \<in> set (db_user (tables_of s))" "u_Username t = username" using v(2) that by auto
    ultimately have "t = u" using caller run_inv_row [OF inv] by (metis option.inject)
    then show False using other \<open>u_Username t = username\<close> by simp
  qed
  show ?thesis
  proof (cases v)
    case None
    then show ?thesis
      using v(1) by (simp add: resolveSpaceInvitationResource_def bindH_def liftH_def orElse_def name read_db_def Some)
  next
    case target: (Some t)
    show ?thesis
      using v(1) no not_self [OF target]
      by (cases ?m) (simp_all add: resolveSpaceInvitationResource_def bindH_def liftH_def orElse_def name read_db_def Some target)
  qed
qed

section \<open>Properties\<close>

text \<open>C19. A space is invisible to those who do not belong to it. When a signed-in user asks of a space in which he is not an
  active member to read, delete or change it (with a nonempty mask), to list its members or invitations, to create an
  invitation, or to read, remove or change the role of a member, these nine handlers answer NOT_FOUND with one text and
  leave one and the same state of the service: neither depends on the name, on whether the space exists, nor on the rest
  of the request, and neither the tables nor the live clients see anything of it. The handlers that read, revoke,
  accept or decline one invitation are not among them: they resolve it for its invitee too, who can accept it.\<close>

theorem foreign_space_is_invisible:
  assumes env: "reads_store (sx_Server env)" and inv: "run_inv (sps_Store s)" and caller: "caller_is s ctx u"
  shows "\<exists>s'. same_tables s s'
    \<and> (\<forall>name suid. ExtractSpaceUIDFromName name = Inr suid \<and> outsider (tables_of s) (u_ID u) suid \<longrightarrow>
         GetSpace env ctx name s = (Inl space_hidden, s')
         \<and> DeleteSpace_handler env ctx name s = (Inl space_hidden, s')
         \<and> (\<forall>sp path paths. ps_Name sp = name \<longrightarrow>
               UpdateSpace_handler env ctx (Some sp) (Some (path # paths)) s = (Inl space_hidden, s'))
         \<and> (\<forall>msg. CreateSpaceInvitation env ctx name (Some msg) s = (Inl space_hidden, s'))
         \<and> (\<forall>psize token. ListSpaceInvitations env ctx name psize token s = (Inl space_hidden, s')
               \<and> ListSpaceMembers env ctx name psize token s = (Inl space_hidden, s')))
    \<and> (\<forall>name suid username. ExtractSpaceMemberTokensFromName name = Inr (suid, username)
           \<and> outsider (tables_of s) (u_ID u) suid \<longrightarrow>
         GetSpaceMember env ctx name s = (Inl space_hidden, s')
         \<and> DeleteSpaceMember_handler env ctx name s = (Inl space_hidden, s')
         \<and> (\<forall>msg. pm_Name msg = name \<longrightarrow>
               UpdateSpaceMember_handler env ctx (Some msg) (Some [''role'']) s = (Inl space_hidden, s')))"
proof -
  obtain s' where u: "requireCurrentSpaceUser env ctx s = (Inr u, s')" "same_tables s s'"
    using caller_found [OF env inv caller] by blast
  note found = space_handlers_hide [OF u] member_handlers_hide [OF u]
  show ?thesis
    by (intro exI [of _ s'] conjI allI impI u(2)) (elim conjE, rule found, (assumption | rule refl)+)+
qed

text \<open>Bob asks for the space that Ann created and for one that nobody did.\<close>

lemma bob_eval:
  "(case user_row (tables_of (snd created_space)) 2 of None \<Rightarrow> False | Some u \<Rightarrow> u_ID u = 2 \<and> u_RowStatus u = Normal)
    \<and> outsider (tables_of (snd created_space)) 2 ''team'' \<and> outsider (tables_of (snd created_space)) 2 ''none''
    \<and> db_space (tables_of (snd created_space)) \<noteq> []"
  by code_simp

theorem foreign_space_is_invisible_witness:
  "db_space (tables_of (snd created_space)) \<noteq> []
    \<and> GetSpace sample_env (as_user 2) ''spaces/team'' (snd created_space)
        = GetSpace sample_env (as_user 2) ''spaces/none'' (snd created_space)
    \<and> fst (GetSpace sample_env (as_user 2) ''spaces/team'' (snd created_space)) = Inl space_hidden"
proof -
  obtain u where u: "caller_is (snd created_space) (as_user 2) u" "u_ID u = 2"
    using bob_eval by (auto simp: caller_is_def as_user_def GetUserID_def split: option.splits)
  have names: "ExtractSpaceUIDFromName ''spaces/team'' = Inr ''team''" "ExtractSpaceUIDFromName ''spaces/none'' = Inr ''none''"
    by code_simp+
  show ?thesis
    using foreign_space_is_invisible [OF sample_env_ok created_space_inv u(1)] names u(2) bob_eval by auto
qed

end
