(* ===== verification/Space_Paging.thy ===== *)
theory Space_Paging
  imports Space_Visibility
begin

text \<open>
  The pages of a listing of spaces, one after the other: a client that sends back each page token gets the whole
  listing.
\<close>

section \<open>The listing\<close>

definition member_spaces :: "db \<Rightarrow> int32 \<Rightarrow> Space list" where
  "member_spaces d uid = DB_ListSpaces (no_find_space\<lparr>fs_MemberUserID := Some uid\<rparr>) d"

lemma page_of_spaces:
  assumes "0 \<le> limit"
  shows "DB_ListSpaces (no_find_space\<lparr>fs_MemberUserID := Some uid, fs_Limit := Some limit, fs_Offset := Some offset\<rparr>) d
    = take (nat limit) (drop (nat offset) (member_spaces d uid))"
  using assms by (simp add: member_spaces_def DB_ListSpaces_def no_find_space_def sql_limit_def)

lemma at_most_one_row:
  "distinct (map (\<lambda>sm. (sm_space_id sm, sm_user_id sm)) ms) \<Longrightarrow>
     filter (member_is sid uid st) ms = [] \<or> (\<exists>sm. filter (member_is sid uid st) ms = [sm])"
proof (induction ms)
  case (Cons sm ms)
  then show ?case by (auto simp: member_is_def filter_empty_conv image_iff)
qed simp

lemma one_summary:
  assumes "db_keys d"
  shows "map (\<lambda>_. x) (space_summaries d sid uid) = (if active_member_of d sid uid then [x] else [])"
proof -
  define count where "count = length (active_members d sid)"
  have rows: "[(sm_role vm, count). vm \<leftarrow> ms, member_is sid uid SpaceMemberStatusActive vm \<and> IsActiveMember (sm_role vm) \<and> user_normal d uid]
      = [(sm_role vm, count). vm \<leftarrow> filter (member_is sid uid SpaceMemberStatusActive) ms, IsActiveMember (sm_role vm) \<and> user_normal d uid]" for ms
    by (induction ms) auto
  have summaries: "space_summaries d sid uid = [(sm_role vm, count).
      vm \<leftarrow> filter (member_is sid uid SpaceMemberStatusActive) (db_space_member d), IsActiveMember (sm_role vm) \<and> user_normal d uid]"
    unfolding space_summaries_def count_def [symmetric] by (rule rows)
  have active: "active_member_of d sid uid \<longleftrightarrow> (\<exists>sm \<in> set (filter (member_is sid uid SpaceMemberStatusActive) (db_space_member d)).
      IsActiveMember (sm_role sm) \<and> user_normal d uid)"
    by (auto simp: active_member_of_def)
  have "distinct (map (\<lambda>sm. (sm_space_id sm, sm_user_id sm)) (db_space_member d))" using assms by (simp add: db_keys_def)
  from at_most_one_row [OF this, of sid uid SpaceMemberStatusActive] show ?thesis
    unfolding summaries active by (elim disjE exE) simp_all
qed

lemma member_space_ids:
  assumes "db_keys d"
  shows "map Space_ID (member_spaces d uid) =
    map sp_id (filter (\<lambda>s. active_member_of d (sp_id s) uid) (rev (sort_key sp_id (db_space d))))"
proof -
  have "map Space_ID [space_of_row s role count. s \<leftarrow> ss, (role, count) \<leftarrow> space_summaries d (sp_id s) uid]
      = map sp_id (filter (\<lambda>s. active_member_of d (sp_id s) uid) ss)" for ss
  proof (induction ss)
    case (Cons s ss)
    have "map (Space_ID \<circ> (\<lambda>(role, count). space_of_row s role count)) (space_summaries d (sp_id s) uid)
        = map (\<lambda>_. sp_id s) (space_summaries d (sp_id s) uid)"
      by (rule map_cong) (auto simp: space_of_row_def)
    then show ?case using Cons one_summary [OF assms, of "sp_id s" "sp_id s" uid] by (simp add: case_prod_unfold comp_def)
  qed simp
  then show ?thesis by (simp add: member_spaces_def DB_ListSpaces_def no_find_space_def sql_limit_def opt_eq_def)
qed

lemma member_spaces_exact:
  assumes "db_keys d"
  shows "distinct (map Space_ID (member_spaces d uid))"
    "set (map Space_ID (member_spaces d uid)) = {sid. space_exists d sid \<and> active_member_of d sid uid}"
proof -
  have "distinct (map sp_id (rev (sort_key sp_id (db_space d))))"
    using assms by (simp add: db_keys_def rev_map [symmetric] distinct_map)
  then show "distinct (map Space_ID (member_spaces d uid))"
    unfolding member_space_ids [OF assms] by (rule distinct_map_filter)
  show "set (map Space_ID (member_spaces d uid)) = {sid. space_exists d sid \<and> active_member_of d sid uid}"
    unfolding member_space_ids [OF assms] by (auto simp: space_exists_def)
qed

section \<open>Pages\<close>

text \<open>What a client does that asks for the next page until there is none, at most so many times more.\<close>

fun all_pages :: "nat \<Rightarrow> space_env \<Rightarrow> request_context \<Rightarrow> int \<Rightarrow> string \<Rightarrow> SpaceMessage list option space_api" where
  "all_pages n env ctx psize token =
     bindH (ListSpaces env ctx psize token) (\<lambda>(items, next_token).
       if next_token = [] then returnH (Some items)
       else case n of
         0 \<Rightarrow> returnH None
       | Suc k \<Rightarrow> bindH (all_pages k env ctx psize next_token) (\<lambda>rest. returnH (map_option (\<lambda>xs. items @ xs) rest)))"

lemma caller_same: "same_tables s s' \<Longrightarrow> caller_is s ctx u \<Longrightarrow> caller_is s' ctx u"
  by (simp add: caller_is_def same_tables_def)

definition next_page :: "page_lib \<Rightarrow> int \<Rightarrow> int \<Rightarrow> 'a list \<Rightarrow> string \<Rightarrow> bool" where
  "next_page lib limit offset rows token =
     (if length rows \<le> nat (offset + limit) then token = []
      else token \<noteq> [] \<and> (\<forall>psize. listSpacePage lib psize token = Inr (limit, offset + limit)))"

lemma cut_page_next:
  assumes lib: "page_lib_ok lib" and range: "1 \<le> limit" "limit \<le> 1000" "0 \<le> offset" "int (length rows) < 2 ^ 31"
  obtains token where "cut_page lib limit offset (take (nat (limit + 1)) (drop (nat offset) rows))
      = Inr (take (nat limit) (drop (nat offset) rows), token)"
    "next_page lib limit offset rows token"
proof (cases "length rows \<le> nat (offset + limit)")
  case True
  then have "int (length rows - nat offset) \<noteq> limit + 1" "length rows - nat offset \<le> nat limit"
    "length rows - nat offset \<le> nat (limit + 1)" using range by linarith+
  then show thesis using that [of "[]"] True by (simp add: cut_page_def next_page_def)
next
  case False
  have after: "0 \<le> offset + limit" "offset + limit < 2 ^ 31" using False range by linarith+
  obtain t where t: "getPageToken lib limit (offset + limit) = Inr t" "t \<noteq> []"
      "unmarshalPageToken lib t = Inr \<lparr>pt_Limit = limit, pt_Offset = offset + limit\<rparr>"
    using page_token_roundtrip [OF lib range(1,2) after] by blast
  have n: "normalizePageSize limit = limit" using range by (simp add: normalizePageSize_def MaxPageSize_def)
  have len: "int (length (take (nat (limit + 1)) (drop (nat offset) rows))) = limit + 1" using False range by simp
  have "take (nat limit) (take (nat (limit + 1)) (drop (nat offset) rows)) = take (nat limit) (drop (nat offset) rows)"
    using range by (simp add: min_def)
  then show thesis
    using that [of t] False t after len
    by (simp add: cut_page_def next_page_def listSpacePage_def orElse_def bindE_simps n)
qed

text \<open>One page of the listing.\<close>

lemma ListSpaces_page:
  assumes env: "reads_store (sx_Server env)" and inv: "run_inv (sps_Store s)" and caller: "caller_is s ctx u"
    and lib: "page_lib_ok (sx_Pages env)" and page: "listSpacePage (sx_Pages env) psize token = Inr (limit, offset)"
    and range: "1 \<le> limit" "limit \<le> 1000" "0 \<le> offset" "int (length (member_spaces (tables_of s) (u_ID u))) < 2 ^ 31"
  obtains next_token s' where "ListSpaces env ctx psize token s
      = (Inr (map convertSpaceFromStore (take (nat limit) (drop (nat offset) (member_spaces (tables_of s) (u_ID u)))), next_token), s')"
    "same_tables s s'" "next_page (sx_Pages env) limit offset (member_spaces (tables_of s) (u_ID u)) next_token"
proof -
  obtain s1 where u: "requireCurrentSpaceUser env ctx s = (Inr u, s1)" "same_tables s s1" using caller_found [OF env inv caller] by blast
  let ?rows = "member_spaces (tables_of s) (u_ID u)"
  obtain t where t: "cut_page (sx_Pages env) limit offset (take (nat (limit + 1)) (drop (nat offset) ?rows))
      = Inr (take (nat limit) (drop (nat offset) ?rows), t)" "next_page (sx_Pages env) limit offset ?rows t"
    using cut_page_next [OF lib range] by blast
  have "DB_ListSpaces (no_find_space\<lparr>fs_MemberUserID := Some (u_ID u), fs_Limit := Some (limit + 1), fs_Offset := Some offset\<rparr>) (tables_of s1)
      = take (nat (limit + 1)) (drop (nat offset) ?rows)"
    using page_of_spaces [of "limit + 1"] range same_tablesD(2) [OF u(2)] by simp
  then have "ListSpaces env ctx psize token s = (Inr (map convertSpaceFromStore (take (nat limit) (drop (nat offset) ?rows)), t), s1)"
    using t(1) page
    by (simp add: ListSpaces_def u(1) bindH_def liftH_def read_db_def)
  then show thesis by (rule that [OF _ u(2) t(2)])
qed

lemma rest_of_pages:
  assumes env: "reads_store (sx_Server env)" and lib: "page_lib_ok (sx_Pages env)"
    and "run_inv (sps_Store s)" "caller_is s ctx u"
    and "listSpacePage (sx_Pages env) psize token = Inr (limit, offset)" "1 \<le> limit" "limit \<le> 1000" "0 \<le> offset"
    and "int (length (member_spaces (tables_of s) (u_ID u))) < 2 ^ 31"
    and "length (member_spaces (tables_of s) (u_ID u)) \<le> n + nat offset"
  shows "\<exists>s'. all_pages n env ctx psize token s
      = (Inr (Some (map convertSpaceFromStore (drop (nat offset) (member_spaces (tables_of s) (u_ID u))))), s') \<and> same_tables s s'"
  using assms(3-)
proof (induction n arbitrary: s token offset)
  case (0 s token offset)
  let ?rows = "member_spaces (tables_of s) (u_ID u)"
  obtain t s1 where p: "ListSpaces env ctx psize token s = (Inr (map convertSpaceFromStore (take (nat limit) (drop (nat offset) ?rows)), t), s1)"
    "same_tables s s1" "next_page (sx_Pages env) limit offset ?rows t"
    by (rule ListSpaces_page [OF env "0.prems"(1,2) lib "0.prems"(3-7)])
  have "length ?rows \<le> nat offset" "length ?rows \<le> nat (offset + limit)" using 0 by simp_all
  then have "t = []" "take (nat limit) (drop (nat offset) ?rows) = drop (nat offset) ?rows" using p(3) by (simp_all add: next_page_def)
  then show ?case using p(1,2) by (simp add: bindH_def liftH_def)
next
  case (Suc n s token offset)
  let ?rows = "member_spaces (tables_of s) (u_ID u)"
  obtain t s1 where p: "ListSpaces env ctx psize token s = (Inr (map convertSpaceFromStore (take (nat limit) (drop (nat offset) ?rows)), t), s1)"
    "same_tables s s1" "next_page (sx_Pages env) limit offset ?rows t"
    by (rule ListSpaces_page [OF env Suc.prems(1,2) lib Suc.prems(3-7)])
  show ?case
  proof (cases "length ?rows \<le> nat (offset + limit)")
    case True
    then have "t = []" "take (nat limit) (drop (nat offset) ?rows) = drop (nat offset) ?rows"
      using p(3) Suc.prems(4,6) by (simp_all add: next_page_def nat_add_distrib)
    then show ?thesis using p(1,2) by (simp add: bindH_def liftH_def)
  next
    case False
    have t: "t \<noteq> []" "listSpacePage (sx_Pages env) psize t = Inr (limit, offset + limit)" using p(3) False by (simp_all add: next_page_def)
    have same: "member_spaces (tables_of s1) (u_ID u) = ?rows" using same_tablesD(2) [OF p(2)] by simp
    have "length ?rows \<le> n + nat (offset + limit)" using Suc.prems by linarith
    then obtain s' where rest: "all_pages n env ctx psize t s1
        = (Inr (Some (map convertSpaceFromStore (drop (nat (offset + limit)) ?rows))), s')" "same_tables s1 s'"
      using Suc.IH [of s1 t "offset + limit"] same_tablesD(1) [OF p(2)] caller_same [OF p(2) Suc.prems(2)] t(2) Suc.prems(4-7)
      unfolding same by auto
    have "take (nat limit) (drop (nat offset) ?rows) @ drop (nat (offset + limit)) ?rows = drop (nat offset) ?rows"
      using append_take_drop_id [of "nat limit" "drop (nat offset) ?rows"] Suc.prems(4,6) by (simp add: nat_add_distrib add.commute)
    then have "map convertSpaceFromStore (take (nat limit) (drop (nat offset) ?rows))
        @ map convertSpaceFromStore (drop (nat (offset + limit)) ?rows) = map convertSpaceFromStore (drop (nat offset) ?rows)"
      by (simp only: map_append [symmetric])
    then show ?thesis using p(1) t(1) rest same_tables_trans [OF p(2) rest(2)] by (simp add: bindH_def liftH_def)
  qed
qed

section \<open>Properties\<close>

text \<open>C29. A client that asks for the first page of the spaces of a user and then for the page of each token he gets,
  with any page size, comes to an end after at most as many further requests as there are spaces, and has then got
  every space of which the user is an active member, each exactly once, in the order of the listing. The requests
  change no table. The message encoding is assumed to read what it writes; offsets are 32-bit numbers, so the
  listing is assumed to be shorter than that.\<close>

theorem following_pages_lists_all_spaces:
  assumes env: "reads_store (sx_Server env)" and lib: "page_lib_ok (sx_Pages env)"
    and inv: "run_inv (sps_Store s)" and caller: "caller_is s ctx u"
    and small: "int (length (member_spaces (tables_of s) (u_ID u))) < 2 ^ 31"
    and fuel: "length (member_spaces (tables_of s) (u_ID u)) \<le> n"
  shows "\<exists>spaces s'. all_pages n env ctx psize [] s = (Inr (Some (map convertSpaceFromStore spaces)), s')
    \<and> distinct (map Space_ID spaces)
    \<and> set (map Space_ID spaces) = {sid. space_exists (tables_of s) sid \<and> active_member_of (tables_of s) sid (u_ID u)}
    \<and> same_tables s s'"
proof -
  have page: "listSpacePage (sx_Pages env) psize [] = Inr (normalizePageSize psize, 0)" by (simp add: listSpacePage_def)
  have "\<exists>s'. all_pages n env ctx psize [] s
      = (Inr (Some (map convertSpaceFromStore (drop (nat 0) (member_spaces (tables_of s) (u_ID u))))), s') \<and> same_tables s s'"
    by (rule rest_of_pages [OF env lib inv caller page normalizePageSize_range _ small]) (use fuel in simp_all)
  then obtain s' where "all_pages n env ctx psize [] s
      = (Inr (Some (map convertSpaceFromStore (member_spaces (tables_of s) (u_ID u)))), s')" "same_tables s s'" by auto
  then show ?thesis using member_spaces_exact [OF run_inv_keys [OF inv]]
    by (intro exI [of _ "member_spaces (tables_of s) (u_ID u)"] exI [of _ s'] conjI)
qed

text \<open>A message encoding that writes the two numbers in four bytes each.\<close>

definition int32_bytes :: "int \<Rightarrow> string" where
  "int32_bytes i = (let n = nat (i + 2 ^ 31) in map byte_char [n div 16777216 mod 256, n div 65536 mod 256, n div 256 mod 256, n mod 256])"

definition bytes_int32 :: "string \<Rightarrow> int" where
  "bytes_int32 bs = int (foldl (\<lambda>n c. n * 256 + byte c) 0 bs) - 2 ^ 31"

definition fixed_pages :: page_lib where
  "fixed_pages = \<lparr>pl_Marshal = (\<lambda>t. Inr (int32_bytes (pt_Limit t) @ int32_bytes (pt_Offset t))),
     pl_Unmarshal = (\<lambda>bs. Inr \<lparr>pt_Limit = bytes_int32 (take 4 bs), pt_Offset = bytes_int32 (drop 4 bs)\<rparr>)\<rparr>"

lemma byte_byte_char: "n < 256 \<Longrightarrow> byte (byte_char n) = n"
  by (simp add: byte_def byte_char_def)

lemma four_bytes:
  fixes n :: nat
  assumes "n < 2 ^ 32"
  shows "((n div 16777216 mod 256 * 256 + n div 65536 mod 256) * 256 + n div 256 mod 256) * 256 + n mod 256 = n"
proof -
  have parts: "n div 65536 = n div 256 div 256" "n div 16777216 = n div 256 div 256 div 256"
    by (simp_all add: div_mult2_eq [symmetric])
  have "n div 16777216 < 256" using assms by (simp add: div_less_iff_less_mult)
  then have top: "n div 16777216 mod 256 = n div 256 div 256 div 256" by (simp add: parts)
  show ?thesis unfolding top unfolding parts by (simp only: div_mult_mod_eq)
qed

lemma bytes_int32_bytes: "- (2 ^ 31) \<le> i \<Longrightarrow> i < 2 ^ 31 \<Longrightarrow> bytes_int32 (int32_bytes i) = i"
  using four_bytes [of "nat (i + 2 ^ 31)"] by (simp add: bytes_int32_def int32_bytes_def Let_def byte_byte_char)

lemma fixed_pages_ok: "page_lib_ok fixed_pages"
proof -
  have "length (int32_bytes i) = 4" "int32_bytes i \<noteq> []" for i by (simp_all add: int32_bytes_def Let_def)
  then show ?thesis by (simp add: page_lib_ok_def fixed_pages_def bytes_int32_bytes)
qed

text \<open>Ann has two spaces and lists them one by one.\<close>

definition paged_env :: space_env where
  "paged_env = sample_env\<lparr>sx_Pages := fixed_pages\<rparr>"

abbreviation second_space :: "(api_error + SpaceMessage) \<times> space_state" where
  "second_space \<equiv> CreateSpace sample_env ''u'' ''s'' (as_user 1) (Some (new_space\<lparr>ps_Title := ''Club''\<rparr>)) ''club'' (snd created_space)"

lemma second_space_inv: "run_inv (sps_Store (snd second_space))"
proof (rule space_calls_keep [OF r_into_rtranclp sample_env_ok created_space_inv])
  have "space_call sample_env (as_user 1) (snd created_space) (snd second_space)" by (rule call_create) (rule prod.collapse [symmetric])
  then show "\<exists>ctx. space_call sample_env ctx (snd created_space) (snd second_space)" by blast
qed

lemma ann_eval:
  "(case user_row (tables_of (snd second_space)) 1 of None \<Rightarrow> False | Some u \<Rightarrow> u_ID u = 1 \<and> u_RowStatus u = Normal)
    \<and> length (member_spaces (tables_of (snd second_space)) 1) = 2
    \<and> map sp_id (db_space (tables_of (snd second_space))) = [1, 2]
    \<and> active_member_of (tables_of (snd second_space)) 1 1 \<and> active_member_of (tables_of (snd second_space)) 2 1"
  by code_simp

theorem following_pages_lists_all_spaces_witness:
  "\<exists>spaces s'. all_pages 2 paged_env (as_user 1) 1 [] (snd second_space) = (Inr (Some (map convertSpaceFromStore spaces)), s')
    \<and> set (map Space_ID spaces) = {1, 2}"
proof -
  let ?s = "snd second_space"
  obtain u where u: "caller_is ?s (as_user 1) u" "u_ID u = 1"
    using ann_eval by (auto simp: caller_is_def as_user_def GetUserID_def split: option.splits)
  have env: "reads_store (sx_Server paged_env)" "page_lib_ok (sx_Pages paged_env)"
    using sample_env_ok fixed_pages_ok by (simp_all add: paged_env_def)
  have ids: "{sid. space_exists (tables_of ?s) sid \<and> active_member_of (tables_of ?s) sid 1} = {1, 2}"
  proof -
    have "sp_id ` set (db_space (tables_of ?s)) = {1, 2}" using ann_eval by (metis list.set_map list.simps(15) empty_set)
    then show ?thesis using ann_eval by (auto simp: space_exists_def image_iff set_eq_iff)
  qed
  have len: "length (member_spaces (tables_of ?s) (u_ID u)) = 2" using ann_eval u(2) by simp
  then have "int (length (member_spaces (tables_of ?s) (u_ID u))) < 2 ^ 31" "length (member_spaces (tables_of ?s) (u_ID u)) \<le> 2" by simp_all
  from following_pages_lists_all_spaces [OF env second_space_inv u(1) this, of 1] ids u(2)
  show ?thesis by metis
qed

end
