(* ===== verification/Memo_Store.thy ===== *)
theory Memo_Store
  imports Space_Invariant
begin

text \<open>
  Memo writes: the checks of \<open>store/memo.go\<close> and \<open>store/memo_delete_policy.go\<close>, and the SQLite
  transactions of \<open>store/db/sqlite/memo.go\<close>, \<open>memo_policy.go\<close>, \<open>memo_delete_policy.go\<close>, with
  \<open>applyMemoUpdate\<close> (\<open>memo_attachment.go\<close>) and \<open>sqliteSpaceMemberActive\<close> (\<open>reaction_policy.go\<close>). A
  payload is a message of type \<open>'p\<close>; \<open>marshal\<close> stands for \<open>protojson.Marshal\<close>.
\<close>

section \<open>Checks of the store (store/memo.go)\<close>

record MemoWritePolicy =
  pol_ActorUserID :: int32
  pol_LifecycleOnly :: bool
  pol_CreatingShare :: bool

record 'p UpdateMemo =
  up_ID :: int32
  up_UID :: "string option"
  up_CreatedTs :: "int option"
  up_UpdatedTs :: "int option"
  up_RowStatus :: "RowStatus option"
  up_Content :: "string option"
  up_Visibility :: "Visibility option"
  up_Pinned :: "bool option"
  up_Payload :: "'p option"
  up_SpaceID :: "int32 option"
  up_ClearSpace :: bool
  up_Policy :: "MemoWritePolicy option"

record MemoWriteSnapshot =
  snap_CreatorID :: int32
  snap_RowStatus :: RowStatus
  snap_SpaceID :: "int32 option"
  snap_Visibility :: Visibility
  snap_SourceSpaceExists :: bool
  snap_SourceMemberActive :: bool
  snap_TargetSpaceExists :: bool
  snap_TargetMemberActive :: bool
  snap_HasActiveShare :: bool

definition isValidVisibility :: "Visibility \<Rightarrow> bool" where
  "isValidVisibility v = (v = Public \<or> v = Protected \<or> v = Private \<or> v = SpaceAudience)"

definition validateMemoCreate :: "'p Memo option \<Rightarrow> store_error + unit" where
  "validateMemoCreate create =
     (case create of
        None \<Rightarrow> Inl (NewError ''memo is required'')
      | Some c \<Rightarrow>
          if \<not> UIDMatcher (m_UID c) then Inl (NewError ''invalid uid'')
          else if \<not> isValidVisibility (m_Visibility c) then Inl (NewError ''invalid visibility'')
          else if m_Visibility c = SpaceAudience \<and> m_SpaceID c = None
          then Inl (NewError ''SPACE visibility requires a space'')
          else Inr ())"

definition validateMemoWritePolicy :: "MemoWritePolicy option \<Rightarrow> store_error + unit" where
  "validateMemoWritePolicy policy =
     (case policy of
        None \<Rightarrow> Inr ()
      | Some p \<Rightarrow>
          if pol_ActorUserID p \<le> 0 then Inl (NewError ''memo write policy requires actor'')
          else if pol_LifecycleOnly p \<and> pol_CreatingShare p
          then Inl (NewError ''memo write policy has conflicting actions'')
          else Inr ())"

definition sameMemoSpace :: "int32 option \<Rightarrow> int32 option \<Rightarrow> bool" where
  "sameMemoSpace left right =
     (case (left, right) of (Some l, Some r) \<Rightarrow> l = r | _ \<Rightarrow> left = None \<and> right = None)"

definition isLifecycleOnlyMemoUpdate :: "'p UpdateMemo option \<Rightarrow> bool" where
  "isLifecycleOnlyMemoUpdate update =
     (case update of
        None \<Rightarrow> False
      | Some u \<Rightarrow>
          if \<not> up_ClearSpace u \<and> up_SpaceID u = None \<or> up_ClearSpace u \<and> up_SpaceID u \<noteq> None then False
          else up_UID u = None \<and> up_CreatedTs u = None \<and> up_UpdatedTs u = None \<and> up_RowStatus u = None
               \<and> up_Content u = None \<and> up_Pinned u = None \<and> up_Payload u = None)"

text \<open>The space and the audience the memo will have; the space of the update must accept the actor.\<close>

definition result_space :: "'p UpdateMemo option \<Rightarrow> MemoWriteSnapshot \<Rightarrow> store_error + int32 option" where
  "result_space update snapshot =
     (case update of
        None \<Rightarrow> Inr (snap_SpaceID snapshot)
      | Some u \<Rightarrow>
          if up_SpaceID u \<noteq> None
          then (if \<not> snap_TargetSpaceExists snapshot then Inl ErrMemoSpaceNotWritable
                else if \<not> snap_TargetMemberActive snapshot then Inl ErrMemoSpaceMembershipRequired
                else Inr (up_SpaceID u))
          else if up_ClearSpace u then Inr None
          else Inr (snap_SpaceID snapshot))"

definition result_visibility :: "'p UpdateMemo option \<Rightarrow> MemoWriteSnapshot \<Rightarrow> Visibility" where
  "result_visibility update snapshot =
     (case update of
        None \<Rightarrow> snap_Visibility snapshot
      | Some u \<Rightarrow> (case up_Visibility u of None \<Rightarrow> snap_Visibility snapshot | Some v \<Rightarrow> v))"

definition update_visibility :: "'p UpdateMemo option \<Rightarrow> Visibility option" where
  "update_visibility update = (case update of None \<Rightarrow> None | Some u \<Rightarrow> up_Visibility u)"

definition ValidateMemoWriteSnapshot ::
    "MemoWritePolicy option \<Rightarrow> 'p UpdateMemo option \<Rightarrow> MemoWriteSnapshot option \<Rightarrow> store_error + unit" where
  "ValidateMemoWriteSnapshot policy update snapshot =
     bindE (validateMemoWritePolicy policy) (\<lambda>_.
       case (policy, snapshot) of
         (Some p, Some sn) \<Rightarrow>
           if snap_CreatorID sn \<noteq> pol_ActorUserID p then Inl ErrMemoPermissionDenied
           else if snap_RowStatus sn \<noteq> Normal \<and> snap_RowStatus sn \<noteq> Archived then Inl ErrMemoMutationConflict
           else if pol_CreatingShare p \<and> snap_RowStatus sn \<noteq> Normal then Inl ErrMemoMutationConflict
           else if \<not> isValidVisibility (snap_Visibility sn) then Inl ErrMemoMutationConflict
           else if pol_LifecycleOnly p \<and> \<not> isLifecycleOnlyMemoUpdate update then Inl ErrMemoSpaceMembershipRequired
           else if snap_SpaceID sn \<noteq> None \<and> \<not> snap_SourceSpaceExists sn then Inl ErrMemoSpaceNotWritable
           else if snap_SpaceID sn \<noteq> None \<and> \<not> pol_LifecycleOnly p \<and> \<not> snap_SourceMemberActive sn
           then Inl ErrMemoSpaceMembershipRequired
           else bindE (result_space update sn) (\<lambda>resultSpaceID.
             let resultVisibility = result_visibility update sn;
                 placementChanged = (\<not> sameMemoSpace resultSpaceID (snap_SpaceID sn))
             in if \<not> isValidVisibility resultVisibility then Inl ErrMemoMutationConflict
                else if placementChanged \<and> snap_Visibility sn = SpaceAudience \<and> update_visibility update = None
                then Inl ErrMemoMutationConflict
                else if pol_LifecycleOnly p \<and> \<not> placementChanged then Inl ErrMemoSpaceMembershipRequired
                else if resultVisibility = SpaceAudience \<and> resultSpaceID = None then Inl ErrMemoSpaceNotWritable
                else if pol_CreatingShare p \<and> resultVisibility = SpaceAudience then Inl ErrMemoShareConflict
                else if update_visibility update = Some SpaceAudience \<and> snap_HasActiveShare sn
                then Inl ErrMemoShareConflict
                else Inr ())
       | _ \<Rightarrow> Inl (NewError ''memo write policy snapshot is required''))"

text \<open>Of \<open>store/memo_delete_policy.go\<close>.\<close>

definition MemoDeleteActorCanRead ::
    "RowStatus \<Rightarrow> Visibility \<Rightarrow> int32 option \<Rightarrow> bool \<Rightarrow> bool \<Rightarrow> bool" where
  "MemoDeleteActorCanRead rowStatus visibility spaceID spaceExists actorMember =
     (if rowStatus \<noteq> Normal \<and> rowStatus \<noteq> Archived then False
      else if visibility = Public \<or> visibility = Protected \<or> visibility = Private then True
      else if visibility = SpaceAudience then spaceID \<noteq> None \<and> spaceExists \<and> actorMember
      else False)"

section \<open>Transactions of the driver\<close>

definition memo_row :: "db \<Rightarrow> int32 \<Rightarrow> string Memo option" where
  "memo_row d i = first_row (filter (\<lambda>m. m_ID m = i) (db_memo d))"

definition sqliteSpaceMemberActive :: "db \<Rightarrow> int32 \<Rightarrow> int32 \<Rightarrow> bool" where
  "sqliteSpaceMemberActive d spaceID userID =
     (case first_row (map sm_role (filter (\<lambda>sm. member_is spaceID userID SpaceMemberStatusActive sm
             \<and> IsActiveMember (sm_role sm)) (db_space_member d))) of
        None \<Rightarrow> False | Some role \<Rightarrow> IsActiveMember role)"

definition validateSQLiteMemoSpaceMember :: "db \<Rightarrow> int32 \<Rightarrow> int32 \<Rightarrow> store_error + unit" where
  "validateSQLiteMemoSpaceMember d spaceID userID =
     (if \<not> space_exists d spaceID then Inl ErrMemoSpaceNotWritable
      else if \<not> active_member_of d spaceID userID then Inl ErrMemoSpaceMembershipRequired
      else Inr ())"

definition validateSQLiteMemoCreate :: "db \<Rightarrow> 'p Memo \<Rightarrow> store_error + unit" where
  "validateSQLiteMemoCreate d create =
     (case user_status d (m_CreatorID create) of
        None \<Rightarrow> Inl ErrMemoSpaceMembershipRequired
      | Some actorStatus \<Rightarrow>
          if actorStatus \<noteq> Normal then Inl ErrMemoSpaceMembershipRequired
          else case m_SpaceID create of
                 None \<Rightarrow> Inr ()
               | Some sid \<Rightarrow> validateSQLiteMemoSpaceMember d sid (m_CreatorID create))"

text \<open>\<open>INSERT INTO memo\<close> with the checks of the table; the row is not pinned. The new memo is the
  argument with the returned columns.\<close>

definition insertSQLiteMemo ::
    "('p \<Rightarrow> store_error + string) \<Rightarrow> 'p option Memo \<Rightarrow> db \<Rightarrow> store_error + ('p option Memo \<times> db)" where
  "insertSQLiteMemo marshal create d =
     bindE (case m_Payload create of None \<Rightarrow> Inr ''{}'' | Some p \<Rightarrow> marshal p) (\<lambda>payload.
       let createdTs = (if m_CreatedTs create \<noteq> 0 then m_CreatedTs create else db_now d);
           updatedTs = (if m_UpdatedTs create \<noteq> 0 then m_UpdatedTs create else db_now d);
           row = \<lparr>m_ID = db_memo_seq d + 1, m_UID = m_UID create, m_RowStatus = Normal,
                  m_CreatorID = m_CreatorID create, m_CreatedTs = createdTs, m_UpdatedTs = updatedTs,
                  m_Content = m_Content create, m_Visibility = m_Visibility create, m_Pinned = False,
                  m_Payload = payload, m_SpaceID = m_SpaceID create\<rparr>
       in if \<not> isValidVisibility (m_Visibility create) then Inl ErrConstraintCheck
          else if \<exists>m \<in> set (db_memo d). m_UID m = m_UID create then Inl ErrConstraintUnique
          else Inr (create\<lparr>m_ID := m_ID row, m_CreatedTs := createdTs, m_UpdatedTs := updatedTs, m_RowStatus := Normal\<rparr>,
                    d\<lparr>db_memo := db_memo d @ [row], db_memo_seq := db_memo_seq d + 1\<rparr>))"

definition DB_CreateMemo ::
    "('p \<Rightarrow> store_error + string) \<Rightarrow> 'p option Memo \<Rightarrow> db \<Rightarrow> store_error + ('p option Memo \<times> db)" where
  "DB_CreateMemo marshal create d =
     bindE (validateSQLiteMemoCreate d create) (\<lambda>_. insertSQLiteMemo marshal create d)"

definition sqliteMemoPolicySpaceState :: "db \<Rightarrow> int32 \<Rightarrow> int32 \<Rightarrow> bool \<times> bool" where
  "sqliteMemoPolicySpaceState d spaceID actorUserID =
     (if \<not> space_exists d spaceID then (False, False)
      else (True, sqliteSpaceMemberActive d spaceID actorUserID))"

definition populateSQLiteMemoPolicySpaceState ::
    "db \<Rightarrow> int32 \<Rightarrow> 'p UpdateMemo option \<Rightarrow> MemoWriteSnapshot \<Rightarrow> MemoWriteSnapshot" where
  "populateSQLiteMemoPolicySpaceState d actorUserID update snapshot =
     (let snapshot = (case snap_SpaceID snapshot of
            None \<Rightarrow> snapshot
          | Some sid \<Rightarrow>
              (let (exists, member) = sqliteMemoPolicySpaceState d sid actorUserID
               in snapshot\<lparr>snap_SourceSpaceExists := exists, snap_SourceMemberActive := member\<rparr>))
      in case update of
           None \<Rightarrow> snapshot
         | Some u \<Rightarrow>
             (case up_SpaceID u of
                None \<Rightarrow> snapshot
              | Some sid \<Rightarrow>
                  (let (exists, member) = sqliteMemoPolicySpaceState d sid actorUserID
                   in snapshot\<lparr>snap_TargetSpaceExists := exists, snap_TargetMemberActive := member\<rparr>)))"

definition active_share :: "db \<Rightarrow> memo_share_row \<Rightarrow> bool" where
  "active_share d sh = (case sh_expires_ts sh of None \<Rightarrow> True | Some t \<Rightarrow> t > db_now d)"

definition validateSQLiteMemoWritePolicy ::
    "db \<Rightarrow> int32 \<Rightarrow> MemoWritePolicy \<Rightarrow> 'p UpdateMemo option \<Rightarrow> store_error + unit" where
  "validateSQLiteMemoWritePolicy d memoID policy update =
     (case user_status d (pol_ActorUserID policy) of
        None \<Rightarrow> Inl ErrMemoSpaceMembershipRequired
      | Some actorStatus \<Rightarrow>
          if actorStatus \<noteq> Normal then Inl ErrMemoSpaceMembershipRequired
          else case memo_row d memoID of
                 None \<Rightarrow> Inl ErrMemoMutationConflict
               | Some m \<Rightarrow>
                   (let snapshot = \<lparr>snap_CreatorID = m_CreatorID m, snap_RowStatus = m_RowStatus m,
                          snap_SpaceID = m_SpaceID m, snap_Visibility = m_Visibility m,
                          snap_SourceSpaceExists = False, snap_SourceMemberActive = False,
                          snap_TargetSpaceExists = False, snap_TargetMemberActive = False, snap_HasActiveShare = False\<rparr>;
                        snapshot = populateSQLiteMemoPolicySpaceState d (pol_ActorUserID policy) update snapshot;
                        snapshot = (if update_visibility update = Some SpaceAudience
                          then snapshot\<lparr>snap_HasActiveShare :=
                                 (\<exists>sh \<in> set (db_memo_share d). sh_memo_id sh = memoID \<and> active_share d sh)\<rparr>
                          else snapshot)
                    in ValidateMemoWriteSnapshot (Some policy) update (Some snapshot)))"

definition memo_set :: "string option \<Rightarrow> 'p UpdateMemo \<Rightarrow> string Memo \<Rightarrow> string Memo" where
  "memo_set payload update m =
     m\<lparr>m_UID := set_opt (up_UID update) (m_UID m),
       m_CreatedTs := set_opt (up_CreatedTs update) (m_CreatedTs m),
       m_UpdatedTs := set_opt (up_UpdatedTs update) (m_UpdatedTs m),
       m_RowStatus := set_opt (up_RowStatus update) (m_RowStatus m),
       m_Content := set_opt (up_Content update) (m_Content m),
       m_Visibility := set_opt (up_Visibility update) (m_Visibility m),
       m_Pinned := set_opt (up_Pinned update) (m_Pinned m),
       m_Payload := set_opt payload (m_Payload m),
       m_SpaceID := (if up_ClearSpace update then None
                     else case up_SpaceID update of None \<Rightarrow> m_SpaceID m | Some s \<Rightarrow> Some s)\<rparr>"

definition no_memo_set :: "'p UpdateMemo \<Rightarrow> bool" where
  "no_memo_set update =
     (up_UID update = None \<and> up_CreatedTs update = None \<and> up_UpdatedTs update = None \<and> up_RowStatus update = None
      \<and> up_Content update = None \<and> up_Visibility update = None \<and> up_Pinned update = None \<and> up_Payload update = None
      \<and> \<not> up_ClearSpace update \<and> up_SpaceID update = None)"

definition applyMemoUpdate ::
    "('p \<Rightarrow> store_error + string) \<Rightarrow> 'p UpdateMemo \<Rightarrow> db \<Rightarrow> store_error + db" where
  "applyMemoUpdate marshal update d =
     bindE (case up_Payload update of
              None \<Rightarrow> Inr None
            | Some v \<Rightarrow> (case marshal v of
                          Inl e \<Rightarrow> Inl (WrapError e ''failed to marshal memo payload'')
                        | Inr text \<Rightarrow> Inr (Some text))) (\<lambda>payload.
       if no_memo_set update then Inr d
       else let memos = update_rows (\<lambda>m. m_ID m = up_ID update) (memo_set payload update) (db_memo d)
            in if \<exists>m \<in> set memos. m_ID m = up_ID update
                    \<and> (\<not> isValidVisibility (m_Visibility m) \<or> m_RowStatus m \<noteq> Normal \<and> m_RowStatus m \<noteq> Archived)
               then Inl (WrapError ErrConstraintCheck ''failed to update memo'')
               else if \<not> distinct (map m_UID memos) then Inl (WrapError ErrConstraintUnique ''failed to update memo'')
               else Inr (d\<lparr>db_memo := memos\<rparr>))"

definition DB_UpdateMemo ::
    "('p \<Rightarrow> store_error + string) \<Rightarrow> 'p UpdateMemo \<Rightarrow> db \<Rightarrow> store_error + db" where
  "DB_UpdateMemo marshal update d =
     (case up_Policy update of
        None \<Rightarrow> applyMemoUpdate marshal update d
      | Some policy \<Rightarrow>
          bindE (validateSQLiteMemoWritePolicy d (up_ID update) policy (Some update)) (\<lambda>_.
            applyMemoUpdate marshal update d))"

definition DB_DeleteMemo :: "int32 \<Rightarrow> db \<Rightarrow> db" where
  "DB_DeleteMemo memoID d =
     d\<lparr>db_memo := filter (\<lambda>m. m_ID m \<noteq> memoID) (db_memo d),
       db_reaction := filter (\<lambda>r. re_memo_id r \<noteq> memoID) (db_reaction d)\<rparr>"

record DeleteMemoWithPolicyResult =
  dmr_ActorCanRead :: bool
  dmr_Attachments :: "Attachment list"

definition DB_DeleteMemoWithPolicy ::
    "(string \<Rightarrow> bool) \<Rightarrow> int32 \<Rightarrow> int32 \<Rightarrow> db \<Rightarrow> store_error + (DeleteMemoWithPolicyResult \<times> db)" where
  "DB_DeleteMemoWithPolicy payload_ok memoID actorUserID d =
     (case user_status d actorUserID of
        None \<Rightarrow> Inl ErrMemoPermissionDenied
      | Some actorStatus \<Rightarrow>
          if actorStatus \<noteq> Normal then Inl ErrMemoPermissionDenied
          else case memo_row d memoID of
                 None \<Rightarrow> Inl ErrMemoMutationConflict
               | Some m \<Rightarrow>
                   if m_CreatorID m \<noteq> actorUserID then Inl ErrMemoPermissionDenied
                   else
                     (let spaceExists = (case m_SpaceID m of None \<Rightarrow> False | Some sid \<Rightarrow> space_exists d sid);
                          actorMember = (case m_SpaceID m of
                              None \<Rightarrow> False
                            | Some sid \<Rightarrow> spaceExists \<and> sqliteSpaceMemberActive d sid actorUserID);
                          actorCanRead = MemoDeleteActorCanRead (m_RowStatus m) (m_Visibility m) (m_SpaceID m)
                            spaceExists actorMember
                      in case deleteSQLiteMemoSetTx payload_ok [memoID] d of
                           Inl e \<Rightarrow> Inl (WrapError e ''failed to delete memo set'')
                         | Inr (attachments, d') \<Rightarrow>
                             Inr (\<lparr>dmr_ActorCanRead = actorCanRead, dmr_Attachments = attachments\<rparr>, d')))"

section \<open>The store\<close>

definition Store_CreateMemo ::
    "('p \<Rightarrow> store_error + string) \<Rightarrow> 'p option Memo option \<Rightarrow> db \<Rightarrow> store_error + ('p option Memo \<times> db)" where
  "Store_CreateMemo marshal create d =
     bindE (validateMemoCreate create) (\<lambda>_. DB_CreateMemo marshal (the create) d)"

definition Store_UpdateMemo ::
    "('p \<Rightarrow> store_error + string) \<Rightarrow> 'p UpdateMemo \<Rightarrow> db \<Rightarrow> store_error + db" where
  "Store_UpdateMemo marshal update d =
     (if (case up_UID update of None \<Rightarrow> False | Some uid \<Rightarrow> \<not> UIDMatcher uid) then Inl (NewError ''invalid uid'')
      else if (case up_Visibility update of None \<Rightarrow> False | Some v \<Rightarrow> \<not> isValidVisibility v)
      then Inl (NewError ''invalid visibility'')
      else if up_ClearSpace update \<and> up_Visibility update = Some SpaceAudience
      then Inl (NewError ''SPACE visibility requires a space'')
      else bindE (validateMemoWritePolicy (up_Policy update)) (\<lambda>_. DB_UpdateMemo marshal update d))"

definition Store_DeleteMemoWithPolicy ::
    "(string \<Rightarrow> bool) \<Rightarrow> (int32 \<times> int32) option \<Rightarrow> db \<Rightarrow> store_error + (DeleteMemoWithPolicyResult \<times> db)" where
  "Store_DeleteMemoWithPolicy payload_ok delete d =
     (case delete of
        None \<Rightarrow> Inl (NewError ''memo deletion requires memo and actor'')
      | Some (memoID, actorUserID) \<Rightarrow>
          if memoID \<le> 0 \<or> actorUserID \<le> 0 then Inl (NewError ''memo deletion requires memo and actor'')
          else DB_DeleteMemoWithPolicy payload_ok memoID actorUserID d)"

end
