(* ===== verification/Memo_Participation.thy ===== *)
theory Memo_Participation
  imports Memo_Store
begin

text \<open>
  What users other than the author do with a memo, and what the author grants: share links
  (\<open>store/memo_share.go\<close>, \<open>sqlite/memo_share.go\<close>), comments (\<open>store/memo_comment.go\<close>,
  \<open>sqlite/memo_comment.go\<close>), reactions (\<open>store/reaction.go\<close>, \<open>store/reaction_policy.go\<close>,
  \<open>sqlite/reaction.go\<close>, \<open>sqlite/reaction_policy.go\<close>) and relations (\<open>store/memo_relation.go\<close>,
  \<open>sqlite/memo_relation.go\<close>).
\<close>

section \<open>Shares\<close>

record MemoShare =
  ms_ID :: int32
  ms_UID :: string
  ms_MemoID :: int32
  ms_CreatorID :: int32
  ms_CreatedTs :: int
  ms_ExpiresTs :: "int option"
  ms_Policy :: "MemoWritePolicy option"

record FindMemoShare =
  fms_ID :: "int32 option"
  fms_UID :: "string option"
  fms_MemoID :: "int32 option"
  fms_CreatorID :: "int32 option"

record DeleteMemoShare =
  dms_ID :: "int32 option"
  dms_UID :: "string option"
  dms_MemoID :: "int32 option"
  dms_Policy :: "MemoWritePolicy option"

definition createSQLiteMemoShare :: "MemoShare \<Rightarrow> db \<Rightarrow> store_error + (MemoShare \<times> db)" where
  "createSQLiteMemoShare create d =
     (if \<exists>sh \<in> set (db_memo_share d). sh_uid sh = ms_UID create then Inl ErrConstraintUnique
      else let row = \<lparr>sh_id = db_memo_share_seq d + 1, sh_uid = ms_UID create, sh_memo_id = ms_MemoID create,
                      sh_creator_id = ms_CreatorID create, sh_created_ts = db_now d, sh_expires_ts = ms_ExpiresTs create\<rparr>
           in Inr (create\<lparr>ms_ID := sh_id row, ms_CreatedTs := sh_created_ts row\<rparr>,
                   d\<lparr>db_memo_share := db_memo_share d @ [row], db_memo_share_seq := db_memo_share_seq d + 1\<rparr>))"

definition DB_CreateMemoShare :: "MemoShare \<Rightarrow> db \<Rightarrow> store_error + (MemoShare \<times> db)" where
  "DB_CreateMemoShare create d =
     (case ms_Policy create of
        None \<Rightarrow> createSQLiteMemoShare create d
      | Some policy \<Rightarrow>
          bindE (validateSQLiteMemoWritePolicy d (ms_MemoID create) policy (None :: unit UpdateMemo option)) (\<lambda>_.
            createSQLiteMemoShare create d))"

definition share_of_row :: "memo_share_row \<Rightarrow> MemoShare" where
  "share_of_row sh = \<lparr>ms_ID = sh_id sh, ms_UID = sh_uid sh, ms_MemoID = sh_memo_id sh, ms_CreatorID = sh_creator_id sh,
     ms_CreatedTs = sh_created_ts sh, ms_ExpiresTs = sh_expires_ts sh, ms_Policy = None\<rparr>"

definition share_matches :: "FindMemoShare \<Rightarrow> memo_share_row \<Rightarrow> bool" where
  "share_matches q sh = (opt_eq (fms_ID q) (sh_id sh) \<and> opt_eq (fms_UID q) (sh_uid sh)
     \<and> opt_eq (fms_MemoID q) (sh_memo_id sh) \<and> opt_eq (fms_CreatorID q) (sh_creator_id sh))"

definition DB_ListMemoShares :: "FindMemoShare \<Rightarrow> db \<Rightarrow> MemoShare list" where
  "DB_ListMemoShares q d = map share_of_row (sort_key sh_id (filter (share_matches q) (db_memo_share d)))"

definition DB_GetMemoShare :: "FindMemoShare \<Rightarrow> db \<Rightarrow> MemoShare option" where
  "DB_GetMemoShare q d = first_row (map share_of_row (filter (share_matches q) (db_memo_share d)))"

definition sqliteMemoShareDeleteWhere :: "DeleteMemoShare \<Rightarrow> memo_share_row \<Rightarrow> bool" where
  "sqliteMemoShareDeleteWhere delete sh = (opt_eq (dms_ID delete) (sh_id sh) \<and> opt_eq (dms_UID delete) (sh_uid sh))"

text \<open>\<open>delete.MemoID\<close> is read through its pointer when there is a policy.\<close>

definition DB_DeleteMemoShare :: "DeleteMemoShare \<Rightarrow> db \<Rightarrow> store_error + db" where
  "DB_DeleteMemoShare delete d =
     (case dms_Policy delete of
        None \<Rightarrow> Inr (d\<lparr>db_memo_share := filter (\<lambda>sh. \<not> sqliteMemoShareDeleteWhere delete sh) (db_memo_share d)\<rparr>)
      | Some policy \<Rightarrow>
          (case dms_MemoID delete of
             None \<Rightarrow> Inl (NewError ''nil pointer dereference'')
           | Some memoID \<Rightarrow>
               bindE (validateSQLiteMemoWritePolicy d memoID policy (None :: unit UpdateMemo option)) (\<lambda>_.
                 let gone = (\<lambda>sh. sqliteMemoShareDeleteWhere delete sh \<and> sh_memo_id sh = memoID) in
                 if length (filter gone (db_memo_share d)) \<noteq> 1 then Inl ErrMemoMutationConflict
                 else Inr (d\<lparr>db_memo_share := filter (\<lambda>sh. \<not> gone sh) (db_memo_share d)\<rparr>))))"

definition Store_CreateMemoShare :: "MemoShare option \<Rightarrow> db \<Rightarrow> store_error + (MemoShare \<times> db)" where
  "Store_CreateMemoShare create d =
     (case create of
        None \<Rightarrow> Inl (NewError ''memo share is required'')
      | Some c \<Rightarrow> bindE (validateMemoWritePolicy (ms_Policy c)) (\<lambda>_. DB_CreateMemoShare c d))"

definition Store_DeleteMemoShare :: "DeleteMemoShare option \<Rightarrow> db \<Rightarrow> store_error + db" where
  "Store_DeleteMemoShare delete d =
     (case delete of
        None \<Rightarrow> Inl (NewError ''memo share deletion is required'')
      | Some del \<Rightarrow>
          if dms_ID del = None \<and> dms_UID del = None then Inl (NewError ''memo share deletion requires id or uid'')
          else bindE (validateMemoWritePolicy (dms_Policy del)) (\<lambda>_.
            if dms_Policy del = None then DB_DeleteMemoShare del d
            else if (case dms_MemoID del of None \<Rightarrow> True | Some m \<Rightarrow> m \<le> 0)
            then Inl (NewError ''authorized memo share deletion requires memo'')
            else DB_DeleteMemoShare del d))"

section \<open>Comments\<close>

record MemoCommentAuthorizationSnapshot =
  cas_ActorUserID :: int32
  cas_ActorActive :: bool
  cas_ContextID :: int32
  cas_ContextCreatorID :: int32
  cas_ContextRowStatus :: RowStatus
  cas_ContextVisibility :: Visibility
  cas_ContextSpaceID :: "int32 option"
  cas_ContextSpaceExists :: bool
  cas_ContextMemberActive :: bool

definition ValidateMemoCommentAuthorization :: "MemoCommentAuthorizationSnapshot option \<Rightarrow> store_error + unit" where
  "ValidateMemoCommentAuthorization snapshot =
     (case snapshot of
        None \<Rightarrow> Inl ErrMemoPermissionDenied
      | Some sn \<Rightarrow>
          if cas_ActorUserID sn \<le> 0 \<or> \<not> cas_ActorActive sn then Inl ErrMemoPermissionDenied
          else if cas_ContextID sn \<le> 0 \<or> cas_ContextRowStatus sn \<noteq> Normal \<or> \<not> isValidVisibility (cas_ContextVisibility sn)
          then Inl ErrMemoSpaceNotWritable
          else bindE (if cas_ContextSpaceID sn = None
                      then (if cas_ContextVisibility sn = SpaceAudience then Inl ErrMemoSpaceNotWritable else Inr ())
                      else if \<not> cas_ContextSpaceExists sn then Inl ErrMemoSpaceNotWritable
                      else if \<not> cas_ContextMemberActive sn then Inl ErrMemoSpaceMembershipRequired
                      else Inr ()) (\<lambda>_.
            if cas_ContextVisibility sn = Private
            then (if cas_ContextCreatorID sn \<noteq> cas_ActorUserID sn then Inl ErrMemoPermissionDenied else Inr ())
            else if cas_ContextVisibility sn = Protected \<or> cas_ContextVisibility sn = Public
              \<or> cas_ContextVisibility sn = SpaceAudience then Inr ()
            else Inl ErrMemoSpaceNotWritable))"

definition loadSQLiteMemoParticipation ::
    "db \<Rightarrow> int32 \<Rightarrow> int32 \<Rightarrow> store_error + MemoCommentAuthorizationSnapshot" where
  "loadSQLiteMemoParticipation d memoID actorUserID =
     (case user_status d actorUserID of
        None \<Rightarrow> Inl ErrMemoPermissionDenied
      | Some actorStatus \<Rightarrow>
          (case memo_row d memoID of
             None \<Rightarrow> Inl ErrNoRows
           | Some m \<Rightarrow>
               Inr \<lparr>cas_ActorUserID = actorUserID, cas_ActorActive = (actorStatus = Normal), cas_ContextID = memoID,
                 cas_ContextCreatorID = m_CreatorID m, cas_ContextRowStatus = m_RowStatus m,
                 cas_ContextVisibility = m_Visibility m, cas_ContextSpaceID = m_SpaceID m,
                 cas_ContextSpaceExists = (case m_SpaceID m of None \<Rightarrow> False | Some sid \<Rightarrow> space_exists d sid),
                 cas_ContextMemberActive = (case m_SpaceID m of None \<Rightarrow> False
                    | Some sid \<Rightarrow> sqliteSpaceMemberActive d sid actorUserID)\<rparr>))"

definition authorizeSQLiteMemoComment :: "db \<Rightarrow> int32 \<Rightarrow> int32 \<Rightarrow> store_error + unit" where
  "authorizeSQLiteMemoComment d contextMemoID actorUserID =
     (case loadSQLiteMemoParticipation d contextMemoID actorUserID of
        Inl e \<Rightarrow> if e = ErrNoRows then Inl ErrMemoSpaceNotWritable else Inl e
      | Inr snapshot \<Rightarrow> ValidateMemoCommentAuthorization (Some snapshot))"

section \<open>Reactions\<close>

text \<open>A policy is the actor it names.\<close>

record Reaction =
  rx_ID :: int32
  rx_CreatedTs :: int
  rx_CreatorID :: int32
  rx_MemoID :: int32
  rx_ReactionType :: string
  rx_Policy :: "int32 option"

record FindReaction =
  frx_ID :: "int32 option"
  frx_CreatorID :: "int32 option"
  frx_MemoID :: "int32 option"
  frx_MemoIDList :: "int32 list"

record DeleteReaction =
  drx_ID :: "int32 option"
  drx_MemoID :: "int32 option"
  drx_ActorUserID :: "int32 option"
  drx_Policy :: "int32 option"

definition validateReactionWritePolicy :: "Reaction option \<Rightarrow> store_error + unit" where
  "validateReactionWritePolicy reaction =
     (case reaction of
        None \<Rightarrow> Inr ()
      | Some r \<Rightarrow>
          (case rx_Policy r of
             None \<Rightarrow> Inr ()
           | Some actor \<Rightarrow>
               if rx_CreatorID r \<le> 0 \<or> rx_MemoID r \<le> 0 \<or> actor \<le> 0
               then Inl (NewError ''reaction write policy requires reaction, actor, and memo'')
               else if rx_CreatorID r \<noteq> actor then Inl ErrReactionPermissionDenied
               else Inr ()))"

definition ValidateReactionWriteParticipation ::
    "Reaction option \<Rightarrow> MemoCommentAuthorizationSnapshot option \<Rightarrow> store_error + unit" where
  "ValidateReactionWriteParticipation reaction snapshot =
     bindE (validateReactionWritePolicy reaction) (\<lambda>_.
       case (reaction, snapshot) of
         (Some r, Some sn) \<Rightarrow>
           (case rx_Policy r of
              None \<Rightarrow> Inl (NewError ''reaction write participation state is required'')
            | Some actor \<Rightarrow>
                if cas_ActorUserID sn \<noteq> actor then Inl ErrReactionPermissionDenied
                else if \<not> cas_ActorActive sn then Inl ErrReactionPermissionDenied
                else if cas_ContextID sn \<noteq> rx_MemoID r then Inl ErrMemoMutationConflict
                else ValidateMemoCommentAuthorization (Some sn))
       | _ \<Rightarrow> Inl (NewError ''reaction write participation state is required''))"

definition validateSQLiteReactionWritePolicy :: "db \<Rightarrow> Reaction \<Rightarrow> int32 \<Rightarrow> store_error + unit" where
  "validateSQLiteReactionWritePolicy d reaction actor =
     (case loadSQLiteMemoParticipation d (rx_MemoID reaction) actor of
        Inl e \<Rightarrow> if e = ErrNoRows then Inl ErrReactionMemoNotFound
                 else Inl (WrapError e ''failed to read reaction participation'')
      | Inr participation \<Rightarrow> ValidateReactionWriteParticipation (Some reaction) (Some participation))"

definition upsertSQLiteReaction :: "Reaction \<Rightarrow> db \<Rightarrow> store_error + (Reaction \<times> db)" where
  "upsertSQLiteReaction upsert d =
     (if memo_row d (rx_MemoID upsert) = None then Inl (WrapError ErrReactionMemoNotFound ''failed to create reaction'')
      else if \<exists>r \<in> set (db_reaction d). re_creator_id r = rx_CreatorID upsert \<and> re_memo_id r = rx_MemoID upsert
                \<and> re_type r = rx_ReactionType upsert
      then Inl ErrConstraintUnique
      else let row = \<lparr>re_id = db_reaction_seq d + 1, re_created_ts = db_now d, re_creator_id = rx_CreatorID upsert,
                      re_memo_id = rx_MemoID upsert, re_type = rx_ReactionType upsert\<rparr>
           in Inr (upsert\<lparr>rx_ID := re_id row, rx_CreatedTs := re_created_ts row\<rparr>,
                   d\<lparr>db_reaction := db_reaction d @ [row], db_reaction_seq := db_reaction_seq d + 1\<rparr>))"

definition DB_UpsertReaction :: "Reaction \<Rightarrow> db \<Rightarrow> store_error + (Reaction \<times> db)" where
  "DB_UpsertReaction upsert d =
     (case rx_Policy upsert of
        None \<Rightarrow> upsertSQLiteReaction upsert d
      | Some actor \<Rightarrow> bindE (validateSQLiteReactionWritePolicy d upsert actor) (\<lambda>_. upsertSQLiteReaction upsert d))"

definition reaction_of_row :: "reaction_row \<Rightarrow> Reaction" where
  "reaction_of_row r = \<lparr>rx_ID = re_id r, rx_CreatedTs = re_created_ts r, rx_CreatorID = re_creator_id r,
     rx_MemoID = re_memo_id r, rx_ReactionType = re_type r, rx_Policy = None\<rparr>"

definition DB_ListReactions :: "FindReaction \<Rightarrow> db \<Rightarrow> Reaction list" where
  "DB_ListReactions q d =
     map reaction_of_row (sort_key re_id (filter (\<lambda>r. opt_eq (frx_ID q) (re_id r) \<and> opt_eq (frx_CreatorID q) (re_creator_id r)
       \<and> opt_eq (frx_MemoID q) (re_memo_id r) \<and> (frx_MemoIDList q = [] \<or> re_memo_id r \<in> set (frx_MemoIDList q))) (db_reaction d)))"

definition DB_GetReaction :: "FindReaction \<Rightarrow> db \<Rightarrow> Reaction option" where
  "DB_GetReaction q d = first_row (DB_ListReactions q d)"

text \<open>The pointers that the transaction reads are present when the store has checked them.\<close>

definition deleteReactionAsCreator :: "DeleteReaction \<Rightarrow> int32 \<Rightarrow> db \<Rightarrow> store_error + db" where
  "deleteReactionAsCreator delete actorUserID d =
     bindE (case drx_Policy delete of
              None \<Rightarrow> Inr ()
            | Some actor \<Rightarrow>
                (case drx_MemoID delete of
                   None \<Rightarrow> Inl (NewError ''nil pointer dereference'')
                 | Some memoID \<Rightarrow> validateSQLiteReactionWritePolicy d
                     \<lparr>rx_ID = 0, rx_CreatedTs = 0, rx_CreatorID = actorUserID, rx_MemoID = memoID,
                      rx_ReactionType = [], rx_Policy = Some actor\<rparr> actor)) (\<lambda>_.
       case drx_ID delete of
         None \<Rightarrow> Inl (NewError ''nil pointer dereference'')
       | Some reactionID \<Rightarrow>
           (case first_row (filter (\<lambda>r. re_id r = reactionID) (db_reaction d)) of
              None \<Rightarrow> Inr d
            | Some r \<Rightarrow>
                if re_creator_id r \<noteq> actorUserID \<or> \<not> opt_eq (drx_MemoID delete) (re_memo_id r)
                then Inl ErrReactionPermissionDenied
                else Inr (d\<lparr>db_reaction := filter (\<lambda>r. re_id r \<noteq> reactionID) (db_reaction d)\<rparr>)))"

definition DB_DeleteReaction :: "DeleteReaction \<Rightarrow> db \<Rightarrow> store_error + db" where
  "DB_DeleteReaction delete d =
     (case drx_ActorUserID delete of
        Some actor \<Rightarrow> deleteReactionAsCreator delete actor d
      | None \<Rightarrow>
          if drx_ID delete = None \<and> drx_MemoID delete = None then Inr d
          else Inr (d\<lparr>db_reaction :=
                 filter (\<lambda>r. \<not> (opt_eq (drx_ID delete) (re_id r) \<and> opt_eq (drx_MemoID delete) (re_memo_id r))) (db_reaction d)\<rparr>))"

definition Store_UpsertReaction :: "Reaction option \<Rightarrow> db \<Rightarrow> store_error + (Reaction \<times> db)" where
  "Store_UpsertReaction upsert d =
     (case upsert of
        None \<Rightarrow> Inl (NewError ''reaction is required'')
      | Some r \<Rightarrow> bindE (validateReactionWritePolicy upsert) (\<lambda>_. DB_UpsertReaction r d))"

definition Store_DeleteReaction :: "DeleteReaction option \<Rightarrow> db \<Rightarrow> store_error + db" where
  "Store_DeleteReaction delete d =
     (case delete of
        None \<Rightarrow> Inl (NewError ''reaction deletion is required'')
      | Some del \<Rightarrow>
          (case drx_ActorUserID del of
             None \<Rightarrow> DB_DeleteReaction del d
           | Some actor \<Rightarrow>
               if actor \<le> 0 \<or> (case drx_ID del of None \<Rightarrow> True | Some i \<Rightarrow> i \<le> 0)
               then Inl (NewError ''authorized reaction deletion requires reaction and actor'')
               else bindE (case drx_Policy del of
                             None \<Rightarrow> Inr ()
                           | Some policy \<Rightarrow>
                               (case drx_MemoID del of
                                  None \<Rightarrow> Inl (NewError ''authorized reaction deletion policy requires memo'')
                                | Some memoID \<Rightarrow>
                                    if memoID \<le> 0 then Inl (NewError ''authorized reaction deletion policy requires memo'')
                                    else validateReactionWritePolicy (Some
                                      \<lparr>rx_ID = 0, rx_CreatedTs = 0, rx_CreatorID = actor, rx_MemoID = memoID,
                                       rx_ReactionType = [], rx_Policy = Some policy\<rparr>))) (\<lambda>_.
                      DB_DeleteReaction del d)))"

section \<open>Relations\<close>

type_synonym MemoRelation = memo_relation_row

abbreviation MemoRelationReference :: string where "MemoRelationReference \<equiv> ''REFERENCE''"
abbreviation MemoRelationComment :: string where "MemoRelationComment \<equiv> ''COMMENT''"

record MemoRelationEndpointSnapshot =
  res_ActorUserID :: int32
  res_ActorActive :: bool
  res_EndpointID :: int32
  res_EndpointCreatorID :: int32
  res_EndpointRowStatus :: RowStatus
  res_EndpointVisibility :: Visibility
  res_EndpointSpaceID :: "int32 option"
  res_EndpointSpaceExists :: bool
  res_EndpointMemberActive :: bool

definition ValidateMemoRelationEndpointRead :: "MemoRelationEndpointSnapshot option \<Rightarrow> store_error + unit" where
  "ValidateMemoRelationEndpointRead snapshot =
     (case snapshot of
        None \<Rightarrow> Inl ErrMemoPermissionDenied
      | Some sn \<Rightarrow>
          if \<not> res_ActorActive sn then Inl ErrMemoPermissionDenied
          else if res_EndpointID sn \<le> 0 then Inl ErrMemoMutationConflict
          else if res_EndpointRowStatus sn \<noteq> Normal \<and> res_EndpointRowStatus sn \<noteq> Archived
          then Inl ErrMemoMutationConflict
          else if res_EndpointRowStatus sn = Archived \<and> res_EndpointCreatorID sn \<noteq> res_ActorUserID sn
          then Inl ErrMemoPermissionDenied
          else if \<not> isValidVisibility (res_EndpointVisibility sn) then Inl ErrMemoMutationConflict
          else if res_EndpointVisibility sn = SpaceAudience
            \<and> (res_EndpointSpaceID sn = None \<or> \<not> res_EndpointSpaceExists sn)
          then Inl ErrMemoMutationConflict
          else if res_EndpointVisibility sn = Public \<or> res_EndpointVisibility sn = Protected then Inr ()
          else if res_EndpointVisibility sn = Private
          then (if res_EndpointCreatorID sn \<noteq> res_ActorUserID sn then Inl ErrMemoPermissionDenied else Inr ())
          else if res_EndpointVisibility sn = SpaceAudience
          then (if \<not> res_EndpointMemberActive sn then Inl ErrMemoPermissionDenied else Inr ())
          else Inl ErrMemoMutationConflict)"

record DeleteMemoRelation =
  dmrel_MemoID :: "int32 option"
  dmrel_RelatedMemoID :: "int32 option"
  dmrel_Type :: "string option"

definition ValidateMemoRelationDelete :: "DeleteMemoRelation option \<Rightarrow> store_error + unit" where
  "ValidateMemoRelationDelete delete =
     (case delete of
        None \<Rightarrow> Inl (NewError ''memo relation deletion is required'')
      | Some del \<Rightarrow>
          if dmrel_Type del \<noteq> Some MemoRelationReference
          then Inl (NewError ''only REFERENCE memo relations may be deleted'')
          else if dmrel_MemoID del = None \<and> dmrel_RelatedMemoID del = None
          then Inl (NewError ''memo relation deletion requires an endpoint'')
          else if (case dmrel_MemoID del of None \<Rightarrow> False | Some m \<Rightarrow> m \<le> 0)
            \<or> (case dmrel_RelatedMemoID del of None \<Rightarrow> False | Some m \<Rightarrow> m \<le> 0)
          then Inl (NewError ''memo relation deletion has an invalid endpoint'')
          else Inr ())"

text \<open>\<open>INSERT ... ON CONFLICT DO UPDATE\<close>: an existing relation stays as it is.\<close>

definition upsert_relation :: "MemoRelation \<Rightarrow> db \<Rightarrow> db" where
  "upsert_relation r d =
     (if r \<in> set (db_memo_relation d) then d else d\<lparr>db_memo_relation := db_memo_relation d @ [r]\<rparr>)"

definition DB_UpsertMemoRelation :: "MemoRelation \<Rightarrow> db \<Rightarrow> MemoRelation \<times> db" where
  "DB_UpsertMemoRelation create d = (create, upsert_relation create d)"

definition DB_DeleteMemoRelation :: "DeleteMemoRelation \<Rightarrow> db \<Rightarrow> store_error + db" where
  "DB_DeleteMemoRelation delete d =
     bindE (ValidateMemoRelationDelete (Some delete)) (\<lambda>_.
       Inr (d\<lparr>db_memo_relation := filter (\<lambda>r. \<not> (opt_eq (dmrel_MemoID delete) (rel_memo_id r)
         \<and> opt_eq (dmrel_RelatedMemoID delete) (rel_related_memo_id r) \<and> opt_eq (dmrel_Type delete) (rel_type r)))
         (db_memo_relation d)\<rparr>))"

definition Store_UpsertMemoRelation :: "MemoRelation option \<Rightarrow> db \<Rightarrow> store_error + (MemoRelation \<times> db)" where
  "Store_UpsertMemoRelation create d =
     (case create of
        None \<Rightarrow> Inl (NewError ''only REFERENCE memo relations may be persisted'')
      | Some r \<Rightarrow>
          if rel_type r \<noteq> MemoRelationReference then Inl (NewError ''only REFERENCE memo relations may be persisted'')
          else Inr (DB_UpsertMemoRelation r d))"

definition Store_DeleteMemoRelation :: "DeleteMemoRelation option \<Rightarrow> db \<Rightarrow> store_error + db" where
  "Store_DeleteMemoRelation delete d =
     bindE (ValidateMemoRelationDelete delete) (\<lambda>_. DB_DeleteMemoRelation (the delete) d)"

end
