(* ===== verification/Memo_Mutation.thy ===== *)
theory Memo_Mutation
  imports Memo_Participation
begin

text \<open>
  The one transaction through which the API writes a memo with its attachments and relations:
  \<open>ApplyMemoMutation\<close> of \<open>store/memo_attachment.go\<close> and of \<open>sqlite/memo_attachment.go\<close>, the
  authorization of relation endpoints (\<open>sqlite/memo_relation_policy.go\<close>) and the creation of
  comments (\<open>store/memo.go\<close>). A failing step is the rollback of the whole transaction.
\<close>

record MemoAttachmentBinding =
  mab_ID :: int32
  mab_UID :: string
  mab_UpdatedTs :: int
  mab_WasBoundToMemo :: bool

text \<open>Elements of the two lists of pointers may be nil.\<close>

record 'p MemoMutation =
  mm_MemoCreate :: "'p option Memo option"
  mm_CommentContextMemoID :: "int32 option"
  mm_MemoID :: int32
  mm_MemoCreatorID :: int32
  mm_ExpectedMemoContent :: string
  mm_MemoUpdate :: "'p UpdateMemo option"
  mm_Bindings :: "MemoAttachmentBinding option list"
  mm_RemovedAttachmentIDs :: "int32 list"
  mm_RequiredAttachmentIDs :: "int32 list"
  mm_ReplaceReferenceRelations :: bool
  mm_ReferenceRelations :: "MemoRelation option list"
  mm_Policy :: "MemoWritePolicy option"

section \<open>Checks of the store\<close>

text \<open>The loop over the sorted identifiers, with the previous one.\<close>

fun check_removed :: "int32 option \<Rightarrow> int32 list \<Rightarrow> store_error + unit" where
  "check_removed prev [] = Inr ()"
| "check_removed prev (i # ids) =
     (if i \<le> 0 then Inl (NewError ''removed attachment IDs must be positive'')
      else if prev = Some i then Inl (NewError ''duplicate removed attachment ID'')
      else check_removed (Some i) ids)"

fun check_bindings :: "int32 set \<Rightarrow> MemoAttachmentBinding option list \<Rightarrow> store_error + unit" where
  "check_bindings removed [] = Inr ()"
| "check_bindings removed (None # bs) = check_bindings removed bs"
| "check_bindings removed (Some b # bs) =
     (if mab_ID b \<in> removed then Inl (NewError ''attachment cannot be both bound and removed'')
      else check_bindings removed bs)"

fun check_required :: "int32 set \<Rightarrow> int32 list \<Rightarrow> store_error + unit" where
  "check_required removed [] = Inr ()"
| "check_required removed (i # ids) =
     (if i \<in> removed then Inl (NewError ''attachment cannot be both required and removed'')
      else check_required removed ids)"

fun check_references :: "bool \<Rightarrow> int32 \<Rightarrow> int32 set \<Rightarrow> MemoRelation option list \<Rightarrow> store_error + unit" where
  "check_references creating memoID seen [] = Inr ()"
| "check_references creating memoID seen (None # rs) = Inl (NewError ''only REFERENCE memo relations may be mutated'')"
| "check_references creating memoID seen (Some r # rs) =
     (if rel_related_memo_id r \<le> 0 \<or> rel_type r \<noteq> MemoRelationReference
      then Inl (NewError ''only REFERENCE memo relations may be mutated'')
      else if \<not> creating \<and> rel_memo_id r \<noteq> memoID
      then Inl (NewError ''reference relation source does not match memo mutation'')
      else if memoID > 0 \<and> rel_related_memo_id r = memoID
      then Inl (NewError ''reflexive memo relations are not allowed'')
      else if rel_related_memo_id r \<in> seen then Inl (NewError ''duplicate memo reference relation'')
      else check_references creating memoID (insert (rel_related_memo_id r) seen) rs)"

section \<open>The transaction\<close>

definition sqliteRelationAuthorizationEndpointIDs :: "'p MemoMutation \<Rightarrow> int32 list" where
  "sqliteRelationAuthorizationEndpointIDs mutation =
     (let first = (if mm_MemoCreate mutation = None \<and> mm_MemoID mutation > 0 then [mm_MemoID mutation]
                   else case mm_CommentContextMemoID mutation of None \<Rightarrow> [] | Some i \<Rightarrow> [i]);
          related = [rel_related_memo_id r. Some r \<leftarrow> mm_ReferenceRelations mutation]
      in sort (remdups (first @ related)))"

definition endpoint_snapshot :: "db \<Rightarrow> int32 \<Rightarrow> RowStatus \<Rightarrow> string Memo \<Rightarrow> MemoRelationEndpointSnapshot" where
  "endpoint_snapshot d actor actorStatus m =
     \<lparr>res_ActorUserID = actor, res_ActorActive = (actorStatus = Normal), res_EndpointID = m_ID m,
      res_EndpointCreatorID = m_CreatorID m, res_EndpointRowStatus = m_RowStatus m,
      res_EndpointVisibility = m_Visibility m, res_EndpointSpaceID = m_SpaceID m,
      res_EndpointSpaceExists = (case m_SpaceID m of None \<Rightarrow> False | Some sid \<Rightarrow> space_exists d sid),
      res_EndpointMemberActive = (case m_SpaceID m of None \<Rightarrow> False
        | Some sid \<Rightarrow> space_exists d sid \<and> sqliteSpaceMemberActive d sid actor)\<rparr>"

fun validate_endpoints :: "db \<Rightarrow> int32 \<Rightarrow> RowStatus \<Rightarrow> int32 list \<Rightarrow> store_error + unit" where
  "validate_endpoints d actor actorStatus [] = Inr ()"
| "validate_endpoints d actor actorStatus (i # ids) =
     (case memo_row d i of
        None \<Rightarrow> Inl ErrMemoMutationConflict
      | Some m \<Rightarrow>
          bindE (ValidateMemoRelationEndpointRead (Some (endpoint_snapshot d actor actorStatus m))) (\<lambda>_.
            validate_endpoints d actor actorStatus ids))"

definition validateSQLiteMemoRelationEndpoints :: "db \<Rightarrow> 'p MemoMutation \<Rightarrow> store_error + unit" where
  "validateSQLiteMemoRelationEndpoints d mutation =
     (if \<not> mm_ReplaceReferenceRelations mutation \<and> mm_CommentContextMemoID mutation = None then Inr ()
      else case user_status d (mm_MemoCreatorID mutation) of
             None \<Rightarrow> Inl ErrMemoPermissionDenied
           | Some actorStatus \<Rightarrow>
               validate_endpoints d (mm_MemoCreatorID mutation) actorStatus (sqliteRelationAuthorizationEndpointIDs mutation))"

definition insertSQLiteMemoCommentRelation :: "int32 \<Rightarrow> int32 \<Rightarrow> db \<Rightarrow> store_error + db" where
  "insertSQLiteMemoCommentRelation memoID contextMemoID d =
     (let r = \<lparr>rel_memo_id = memoID, rel_related_memo_id = contextMemoID, rel_type = MemoRelationComment\<rparr> in
      if memoID \<le> 0 \<or> contextMemoID \<le> 0 \<or> memoID = contextMemoID then Inl (NewError ''invalid COMMENT relation'')
      else if r \<in> set (db_memo_relation d) then Inl (WrapError ErrConstraintUnique ''failed to insert COMMENT relation'')
      else Inr (d\<lparr>db_memo_relation := db_memo_relation d @ [r]\<rparr>))"

text \<open>The creation, which also writes the identity of the new memo into the mutation.\<close>

definition mutation_create ::
    "('p \<Rightarrow> store_error + string) \<Rightarrow> 'p MemoMutation \<Rightarrow> db \<Rightarrow> store_error + ('p MemoMutation \<times> db)" where
  "mutation_create marshal mutation d =
     (case mm_MemoCreate mutation of
        None \<Rightarrow> Inr (mutation, d)
      | Some create \<Rightarrow>
          bindE (validateSQLiteMemoCreate d create) (\<lambda>_.
          bindE (case mm_CommentContextMemoID mutation of
                   None \<Rightarrow> Inr ()
                 | Some contextID \<Rightarrow> authorizeSQLiteMemoComment d contextID (m_CreatorID create)) (\<lambda>_.
          bindE (insertSQLiteMemo marshal create d) (\<lambda>(create, d).
            let mutation = mutation\<lparr>mm_MemoCreate := Some create, mm_MemoID := m_ID create,
                  mm_MemoCreatorID := m_CreatorID create, mm_ExpectedMemoContent := m_Content create,
                  mm_ReferenceRelations := map (map_option (\<lambda>r. r\<lparr>rel_memo_id := m_ID create\<rparr>)) (mm_ReferenceRelations mutation)\<rparr>
            in case mm_CommentContextMemoID mutation of
                 None \<Rightarrow> Inr (mutation, d)
               | Some contextID \<Rightarrow>
                   bindE (insertSQLiteMemoCommentRelation (m_ID create) contextID d) (\<lambda>d. Inr (mutation, d))))))"

definition listSQLiteAttachmentSnapshots ::
    "(string \<Rightarrow> bool) \<Rightarrow> db \<Rightarrow> int32 list \<Rightarrow> store_error + Attachment list" where
  "listSQLiteAttachmentSnapshots payload_ok d attachmentIDs =
     append_batches payload_ok
       (\<lambda>ids. sort_key at_ID (filter (\<lambda>a. at_ID a \<in> set ids) (db_attachment d)))
       (deleteUserBatches attachmentIDs deleteUserBatchSize) [] []"

fun bind_attachments ::
    "int32 \<Rightarrow> int32 \<Rightarrow> MemoAttachmentBinding option list \<Rightarrow> db \<Rightarrow> store_error + db" where
  "bind_attachments memoID creatorID [] d = Inr d"
| "bind_attachments memoID creatorID (None # bs) d = Inl (NewError ''nil pointer dereference'')"
| "bind_attachments memoID creatorID (Some b # bs) d =
     (case first_row (filter (\<lambda>a. at_ID a = mab_ID b) (db_attachment d)) of
        None \<Rightarrow> Inl (WrapError ErrMemoMutationConflict (''attachment '' @ mab_UID b @ '' no longer exists''))
      | Some a \<Rightarrow>
          if mab_WasBoundToMemo b \<and> at_MemoID a \<noteq> Some memoID
          then Inl (WrapError ErrMemoMutationConflict (''attachment '' @ mab_UID b @ '' is no longer bound to the memo''))
          else if \<not> mab_WasBoundToMemo b \<and> (at_CreatorID a \<noteq> creatorID \<or> at_MemoID a \<noteq> None)
          then Inl (WrapError ErrMemoMutationConflict (''attachment '' @ mab_UID b @ '' is no longer available''))
          else bind_attachments memoID creatorID bs
                 (d\<lparr>db_attachment := update_rows (\<lambda>a. at_ID a = mab_ID b) (\<lambda>a. a\<lparr>at_MemoID := Some memoID\<rparr>) (db_attachment d),
                    db_attachment_file := update_rows (\<lambda>f. af_id f = mab_ID b) (\<lambda>f. f\<lparr>af_UpdatedTs := mab_UpdatedTs b\<rparr>)
                      (db_attachment_file d)\<rparr>))"

fun delete_removed :: "int32 \<Rightarrow> Attachment list \<Rightarrow> db \<Rightarrow> store_error + db" where
  "delete_removed memoID [] d = Inr d"
| "delete_removed memoID (a # as) d =
     (let gone = (\<lambda>r. at_ID r = at_ID a \<and> at_MemoID r = Some memoID) in
      if length (filter gone (db_attachment d)) \<noteq> 1
      then Inl (WrapError ErrMemoMutationConflict ''attachment is no longer bound to the memo'')
      else delete_removed memoID as (d\<lparr>db_attachment := filter (\<lambda>r. \<not> gone r) (db_attachment d)\<rparr>))"

fun insert_references :: "int32 \<Rightarrow> MemoRelation option list \<Rightarrow> db \<Rightarrow> store_error + db" where
  "insert_references memoID [] d = Inr d"
| "insert_references memoID (None # rs) d = Inl (NewError ''invalid memo reference relation mutation'')"
| "insert_references memoID (Some r # rs) d =
     (if rel_memo_id r \<noteq> memoID \<or> rel_type r \<noteq> MemoRelationReference
      then Inl (NewError ''invalid memo reference relation mutation'')
      else insert_references memoID rs (upsert_relation r d))"

definition replaceMemoReferenceRelations :: "int32 \<Rightarrow> MemoRelation option list \<Rightarrow> db \<Rightarrow> store_error + db" where
  "replaceMemoReferenceRelations memoID relations d =
     insert_references memoID relations
       (d\<lparr>db_memo_relation := filter (\<lambda>r. \<not> (rel_memo_id r = memoID \<and> rel_type r = MemoRelationReference)) (db_memo_relation d)\<rparr>)"

text \<open>The checks of the current state that come before the writes.\<close>

definition mutation_current ::
    "(string \<Rightarrow> bool) \<Rightarrow> 'p MemoMutation \<Rightarrow> db \<Rightarrow> store_error + Attachment list" where
  "mutation_current payload_ok mutation d =
     (case memo_row d (mm_MemoID mutation) of
        None \<Rightarrow> Inl (WrapError ErrMemoMutationConflict ''memo no longer exists'')
      | Some m \<Rightarrow>
          if m_CreatorID m \<noteq> mm_MemoCreatorID mutation \<or> m_Content m \<noteq> mm_ExpectedMemoContent mutation
          then Inl (WrapError ErrMemoMutationConflict ''memo changed while applying mutation'')
          else case listSQLiteAttachmentSnapshots payload_ok d (mm_RemovedAttachmentIDs mutation) of
                 Inl e \<Rightarrow> Inl (WrapError e ''failed to read removed attachments'')
               | Inr removed \<Rightarrow>
                   if length removed \<noteq> length (mm_RemovedAttachmentIDs mutation)
                   then Inl (WrapError ErrMemoMutationConflict ''removed attachment no longer exists'')
                   else if \<exists>a \<in> set removed. at_CreatorID a \<noteq> mm_MemoCreatorID mutation \<or> at_MemoID a \<noteq> Some (mm_MemoID mutation)
                   then Inl (WrapError ErrMemoMutationConflict ''attachment is no longer removable from the memo'')
                   else Inr removed)"

definition mutation_policy :: "'p MemoMutation \<Rightarrow> MemoWritePolicy option" where
  "mutation_policy mutation =
     (case mm_Policy mutation of
        Some p \<Rightarrow> Some p
      | None \<Rightarrow> (case mm_MemoUpdate mutation of None \<Rightarrow> None | Some u \<Rightarrow> up_Policy u))"

definition DB_ApplyMemoMutation ::
    "('p \<Rightarrow> store_error + string) \<Rightarrow> (string \<Rightarrow> bool) \<Rightarrow> 'p MemoMutation \<Rightarrow> db \<Rightarrow> store_error + ('p MemoMutation \<times> db)" where
  "DB_ApplyMemoMutation marshal payload_ok mutation d =
     bindE (validateSQLiteMemoRelationEndpoints d mutation) (\<lambda>_.
     bindE (mutation_create marshal mutation d) (\<lambda>(mutation, d).
     bindE (case mutation_policy mutation of
              None \<Rightarrow> Inr ()
            | Some policy \<Rightarrow> validateSQLiteMemoWritePolicy d (mm_MemoID mutation) policy (mm_MemoUpdate mutation)) (\<lambda>_.
     bindE (mutation_current payload_ok mutation d) (\<lambda>removed.
     bindE (bind_attachments (mm_MemoID mutation) (mm_MemoCreatorID mutation) (mm_Bindings mutation) d) (\<lambda>d.
     bindE (delete_removed (mm_MemoID mutation) removed d) (\<lambda>d.
     bindE (if \<exists>i \<in> set (mm_RequiredAttachmentIDs mutation).
                 \<not> (\<exists>a \<in> set (db_attachment d). at_ID a = i \<and> at_MemoID a = Some (mm_MemoID mutation))
            then Inl (WrapError ErrMemoMutationConflict ''a referenced attachment is no longer bound to the memo'')
            else Inr ()) (\<lambda>_.
     bindE (case mm_MemoUpdate mutation of
              None \<Rightarrow> Inr d
            | Some u \<Rightarrow>
                if up_ID u \<noteq> mm_MemoID mutation
                then Inl (NewError ''memo update target does not match attachment mutation'')
                else applyMemoUpdate marshal u d) (\<lambda>d.
     bindE (if mm_ReplaceReferenceRelations mutation
            then replaceMemoReferenceRelations (mm_MemoID mutation) (mm_ReferenceRelations mutation) d
            else Inr d) (\<lambda>d.
       Inr (mutation, d))))))))))"

section \<open>The store\<close>

definition Store_ApplyMemoMutation ::
    "('p \<Rightarrow> store_error + string) \<Rightarrow> (string \<Rightarrow> bool) \<Rightarrow> 'p MemoMutation option \<Rightarrow> db \<Rightarrow> store_error + ('p MemoMutation \<times> db)" where
  "Store_ApplyMemoMutation marshal payload_ok mutation d =
     (case mutation of
        None \<Rightarrow> Inl (NewError ''memo mutation is required'')
      | Some mutation \<Rightarrow>
          bindE (case mm_MemoCreate mutation of
                   None \<Rightarrow> Inr mutation
                 | Some create \<Rightarrow>
                     if mm_MemoUpdate mutation \<noteq> None \<or> mm_Policy mutation \<noteq> None \<or> mm_RemovedAttachmentIDs mutation \<noteq> []
                     then Inl (NewError ''memo creation mutation cannot update or remove existing state'')
                     else if m_CreatorID create \<le> 0 then Inl (NewError ''memo creation mutation requires creator'')
                     else bindE (validateMemoCreate (Some create)) (\<lambda>_.
                       if (case mm_CommentContextMemoID mutation of None \<Rightarrow> False | Some i \<Rightarrow> i \<le> 0)
                       then Inl (NewError ''comment creation mutation requires a valid context memo'')
                       else Inr (mutation\<lparr>mm_MemoCreatorID := m_CreatorID create, mm_ExpectedMemoContent := m_Content create\<rparr>))) (\<lambda>mutation.
          bindE (validateMemoWritePolicy (mm_Policy mutation)) (\<lambda>_.
            let mutation = mutation\<lparr>mm_RemovedAttachmentIDs := sort (mm_RemovedAttachmentIDs mutation)\<rparr>;
                removed = set (mm_RemovedAttachmentIDs mutation)
            in bindE (check_removed None (mm_RemovedAttachmentIDs mutation)) (\<lambda>_.
               bindE (check_bindings removed (mm_Bindings mutation)) (\<lambda>_.
               bindE (check_required removed (mm_RequiredAttachmentIDs mutation)) (\<lambda>_.
                 if (case mm_Policy mutation of None \<Rightarrow> False | Some p \<Rightarrow> pol_LifecycleOnly p)
                   \<and> (mm_Bindings mutation \<noteq> [] \<or> mm_RemovedAttachmentIDs mutation \<noteq> []
                      \<or> mm_RequiredAttachmentIDs mutation \<noteq> [] \<or> mm_ReplaceReferenceRelations mutation)
                 then Inl ErrMemoSpaceMembershipRequired
                 else if mm_ReplaceReferenceRelations mutation \<and> mm_MemoCreatorID mutation \<le> 0
                 then Inl (NewError ''reference relation mutation requires an actor'')
                 else bindE (if mm_ReplaceReferenceRelations mutation
                             then check_references (mm_MemoCreate mutation \<noteq> None) (mm_MemoID mutation) {} (mm_ReferenceRelations mutation)
                             else Inr ()) (\<lambda>_.
                   DB_ApplyMemoMutation marshal payload_ok mutation d)))))))"

definition comment_mutation :: "'p option Memo \<Rightarrow> int32 \<Rightarrow> int32 \<Rightarrow> 'p MemoMutation" where
  "comment_mutation create contextMemoID actorUserID =
     \<lparr>mm_MemoCreate = Some create, mm_CommentContextMemoID = Some contextMemoID, mm_MemoID = 0,
      mm_MemoCreatorID = actorUserID, mm_ExpectedMemoContent = m_Content create, mm_MemoUpdate = None,
      mm_Bindings = [], mm_RemovedAttachmentIDs = [], mm_RequiredAttachmentIDs = [],
      mm_ReplaceReferenceRelations = False, mm_ReferenceRelations = [], mm_Policy = None\<rparr>"

definition Store_CreateMemoComment ::
    "('p \<Rightarrow> store_error + string) \<Rightarrow> (string \<Rightarrow> bool) \<Rightarrow> 'p option Memo option \<Rightarrow> int32 \<Rightarrow> int32 \<Rightarrow> db \<Rightarrow>
      store_error + ('p option Memo \<times> db)" where
  "Store_CreateMemoComment marshal payload_ok create contextMemoID actorUserID d =
     (case create of
        None \<Rightarrow> Inl (NewError ''comment creation requires memo, context, and matching actor'')
      | Some c \<Rightarrow>
          if contextMemoID \<le> 0 \<or> actorUserID \<le> 0 \<or> m_CreatorID c \<noteq> actorUserID
          then Inl (NewError ''comment creation requires memo, context, and matching actor'')
          else let c = (if m_Visibility c = [] then c\<lparr>m_Visibility := Private\<rparr> else c)
               in bindE (Store_ApplyMemoMutation marshal payload_ok (Some (comment_mutation c contextMemoID actorUserID)) d)
                    (\<lambda>(mutation, d). Inr (the (mm_MemoCreate mutation), d)))"

end
