(* ===== verification/Memo_Invariant.thy ===== *)
theory Memo_Invariant
  imports Memo_Mutation
begin

text \<open>
  The invariant of the memos that the transport-facing writes keep: every memo has an existing
  creator, a known audience and lifecycle state, a placement that exists, a space whenever its
  audience is \<open>SPACE\<close>, and no memo with a \<open>SPACE\<close> audience has an active share.
\<close>

section \<open>The invariant\<close>

definition memo_ok :: "db \<Rightarrow> string Memo \<Rightarrow> bool" where
  "memo_ok d m =
     (isValidVisibility (m_Visibility m) \<and> (m_RowStatus m = Normal \<or> m_RowStatus m = Archived)
      \<and> (m_Visibility m = SpaceAudience \<longrightarrow> m_SpaceID m \<noteq> None)
      \<and> (\<forall>sid. m_SpaceID m = Some sid \<longrightarrow> space_exists d sid)
      \<and> m_CreatorID m \<in> set (map u_ID (db_user d)))"

definition share_ok :: "db \<Rightarrow> memo_share_row \<Rightarrow> string Memo \<Rightarrow> bool" where
  "share_ok d sh m = (sh_memo_id sh = m_ID m \<and> active_share d sh \<longrightarrow> m_Visibility m \<noteq> SpaceAudience)"

definition memos_ok :: "db \<Rightarrow> bool" where
  "memos_ok d =
     ((\<forall>m \<in> set (db_memo d). memo_ok d m \<and> m_ID m \<le> db_memo_seq d)
      \<and> (\<forall>sh \<in> set (db_memo_share d). sh_memo_id sh \<le> db_memo_seq d \<and> (\<forall>m \<in> set (db_memo d). share_ok d sh m)))"

lemma space_exists_ids: "space_exists d sid \<longleftrightarrow> sid \<in> set (map sp_id (db_space d))"
  by (auto simp: space_exists_def)

lemma memo_ok_mono:
  assumes "memo_ok d m" "\<And>sid. m_SpaceID m = Some sid \<Longrightarrow> space_exists d sid \<Longrightarrow> space_exists d' sid"
    and "m_CreatorID m \<in> set (map u_ID (db_user d)) \<Longrightarrow> m_CreatorID m \<in> set (map u_ID (db_user d'))"
  shows "memo_ok d' m"
  using assms unfolding memo_ok_def by blast

lemma active_share_later: "active_share d' sh \<Longrightarrow> db_now d \<le> db_now d' \<Longrightarrow> active_share d sh"
  by (auto simp: active_share_def split: option.splits)

text \<open>Rows may go, time may pass, users and spaces that memos need may not go.\<close>

lemma memos_ok_shrink:
  assumes "memos_ok d" "set (db_memo d') \<subseteq> set (db_memo d)" "set (db_memo_share d') \<subseteq> set (db_memo_share d)"
    and "db_memo_seq d' = db_memo_seq d" "db_now d \<le> db_now d'"
    and "\<And>m sid. m \<in> set (db_memo d') \<Longrightarrow> m_SpaceID m = Some sid \<Longrightarrow> space_exists d sid \<Longrightarrow> space_exists d' sid"
    and "\<And>m. m \<in> set (db_memo d') \<Longrightarrow> m_CreatorID m \<in> set (map u_ID (db_user d)) \<Longrightarrow>
      m_CreatorID m \<in> set (map u_ID (db_user d'))"
  shows "memos_ok d'"
proof -
  have "memo_ok d' m \<and> m_ID m \<le> db_memo_seq d'" if "m \<in> set (db_memo d')" for m
    using that assms(1,2,4) memo_ok_mono [OF _ assms(6,7), of d m] by (auto simp: memos_ok_def)
  moreover have "share_ok d' sh m" if "sh \<in> set (db_memo_share d')" "m \<in> set (db_memo d')" for sh m
  proof -
    have "share_ok d sh m" using that assms(1) subsetD [OF assms(2)] subsetD [OF assms(3)] unfolding memos_ok_def by blast
    then show ?thesis using active_share_later [OF _ assms(5), of sh] by (auto simp: share_ok_def)
  qed
  ultimately show ?thesis using assms(1,3,4) by (auto simp: memos_ok_def)
qed

lemma memos_ok_same:
  assumes "memos_ok d" "db_memo d' = db_memo d" "db_memo_share d' = db_memo_share d"
    and "db_memo_seq d' = db_memo_seq d" "db_now d' = db_now d"
    and "\<And>sid. space_exists d sid \<Longrightarrow> space_exists d' sid" "set (map u_ID (db_user d)) \<subseteq> set (map u_ID (db_user d'))"
  shows "memos_ok d'"
  using assms by (intro memos_ok_shrink [of d d']) auto

section \<open>Operations on users and spaces\<close>

text \<open>The operations on memberships change only the memberships.\<close>

definition only_members :: "db \<Rightarrow> db \<Rightarrow> bool" where
  "only_members d d' = (\<exists>ms. d' = d\<lparr>db_space_member := ms\<rparr>)"

lemma only_members_ok: "only_members d d' \<Longrightarrow> memos_ok d \<Longrightarrow> memos_ok d'"
  by (auto simp: only_members_def intro!: memos_ok_same [of d] simp: space_exists_def)

lemma insert_space_member_only: "insert_space_member row d = Inr d' \<Longrightarrow> only_members d d'"
  by (auto simp: insert_space_member_def only_members_def split: if_splits)

lemma delete_invitation_only: "delete_invitation k d = Inr d' \<Longrightarrow> only_members d d'"
  by (auto simp: delete_invitation_def delete_member_def only_members_def Let_def split: if_splits)

lemma DB_CreateSpaceInvitation_only: "DB_CreateSpaceInvitation c actor d = Inr (i, d') \<Longrightarrow> only_members d d'"
  by (auto simp: DB_CreateSpaceInvitation_def result_simps split: sum.splits if_splits dest: insert_space_member_only)

lemma DB_AcceptSpaceInvitation_only: "DB_AcceptSpaceInvitation k actor d = Inr (m, d') \<Longrightarrow> only_members d d'"
  by (auto simp: DB_AcceptSpaceInvitation_def only_members_def Let_def result_simps split: option.splits if_splits)

lemma DB_UpdateSpaceMember_only: "DB_UpdateSpaceMember c actor d = Inr (m, d') \<Longrightarrow> only_members d d'"
  by (auto simp: DB_UpdateSpaceMember_def only_members_def Let_def result_simps split: option.splits if_splits)

lemma DB_DeleteSpaceMember_only: "DB_DeleteSpaceMember k actor d = Inr d' \<Longrightarrow> only_members d d'"
  by (auto simp: DB_DeleteSpaceMember_def delete_member_def only_members_def Let_def result_simps
      split: option.splits if_splits)

lemma DB_CreateUser_ok: "DB_CreateUser c d = Inr (u, d') \<Longrightarrow> memos_ok d \<Longrightarrow> memos_ok d'"
  by (auto simp: DB_CreateUser_def insertUser_def Let_def space_exists_def split: if_splits intro!: memos_ok_same [of d])

lemma DB_UpdateUser_ok:
  assumes "DB_UpdateUser c d = Inr (u, d')" "memos_ok d"
  shows "memos_ok d'"
proof -
  have d': "d' = d\<lparr>db_user := update_rows (\<lambda>u. u_ID u = uu_ID c) (user_set c) (db_user d)\<rparr>"
    using assms(1) by (auto simp: DB_UpdateUser_def Let_def result_simps split: if_splits option.splits)
  have "map u_ID (db_user d') = map u_ID (db_user d)"
    unfolding d' by (simp add: update_rows_key)
  then have users: "set (map u_ID (db_user d)) \<subseteq> set (map u_ID (db_user d'))" by (simp only: order_refl)
  show ?thesis by (rule memos_ok_same [OF assms(2) _ _ _ _ _ users]) (simp_all add: d' space_exists_def)
qed

lemma DB_DeleteUser_ok:
  assumes "DB_DeleteUser ok fp uid d = Inr (r, d')" "db_keys d" "memos_ok d"
  shows "memos_ok d'"
proof (cases "\<exists>u \<in> set (db_user d). u_ID u = uid")
  case True
  have "d' = delete_user_spec uid d" using DB_DeleteUser_spec [OF assms(2) True assms(1)] by simp
  then have fields: "db_memo d' = filter (\<lambda>m. m_CreatorID m \<noteq> uid) (db_memo d)"
    "set (db_memo_share d') \<subseteq> set (db_memo_share d)" "db_memo_seq d' = db_memo_seq d" "db_now d' = db_now d"
    "db_space d' = db_space d" "db_user d' = filter (\<lambda>u. u_ID u \<noteq> uid) (db_user d)"
    by (simp_all add: delete_user_spec_def Let_def)
  show ?thesis
    using fields(2) by (rule_tac memos_ok_shrink [OF assms(3)]) (auto simp: fields space_exists_def)
next
  case False
  then show ?thesis using assms by (auto simp: DB_DeleteUser_def)
qed

lemma insert_space_ok: "insert_space uid t desc d = Inr (row, d') \<Longrightarrow> memos_ok d \<Longrightarrow> memos_ok d'"
  by (auto simp: insert_space_def Let_def space_exists_def split: if_splits intro!: memos_ok_same [of d])

lemma DB_DeleteSpace_ok:
  assumes "DB_DeleteSpace ok sid actor d = Inr (as, d')" "db_keys d" "memos_ok d"
  shows "memos_ok d'"
proof -
  have "d' = delete_space_spec sid d" using DB_DeleteSpace_spec [OF assms(2,1)] by simp
  then have fields: "db_memo d' = filter (\<lambda>m. m_SpaceID m \<noteq> Some sid) (db_memo d)"
    "set (db_memo_share d') \<subseteq> set (db_memo_share d)" "db_memo_seq d' = db_memo_seq d" "db_now d' = db_now d"
    "db_space d' = filter (\<lambda>s. sp_id s \<noteq> sid) (db_space d)" "db_user d' = db_user d"
    by (simp_all add: delete_space_spec_def Let_def)
  show ?thesis
    using fields(2) by (rule_tac memos_ok_shrink [OF assms(3)]) (auto simp: fields space_exists_def)
qed

lemma DB_CreateSpace_ok:
  assumes "DB_CreateSpace c actor d = Inr (s, d')" "memos_ok d"
  shows "memos_ok d'"
proof -
  obtain row d1 where d1: "insert_space (Space_UID c) (Space_Title c) (Space_Description c) d = Inr (row, d1)"
    and d': "insert_space_member \<lparr>sm_space_id = sp_id row, sm_user_id = actor, sm_status = SpaceMemberStatusActive,
      sm_role = SpaceMemberRoleAdmin\<rparr> d1 = Inr d'"
    using assms(1) by (auto simp: DB_CreateSpace_def result_simps split: sum.splits if_splits)
  show ?thesis
    using only_members_ok [OF insert_space_member_only [OF d'] insert_space_ok [OF d1 assms(2)]] .
qed

lemma DB_UpdateSpace_ok:
  assumes "DB_UpdateSpace c actor d = Inr (s, d')" "memos_ok d"
  shows "memos_ok d'"
proof -
  obtain f where d': "d' = d\<lparr>db_space := update_rows (\<lambda>s. sp_id s = us_ID c) f (db_space d)\<rparr>" and f: "\<And>s. sp_id (f s) = sp_id s"
    using assms(1) by (auto simp: DB_UpdateSpace_def Let_def result_simps split: if_splits option.splits)
  have "map sp_id (db_space d') = map sp_id (db_space d)" unfolding d' by (simp add: update_rows_key f)
  then have "space_exists d' sid = space_exists d sid" for sid
    unfolding space_exists_ids by (simp only:)
  then show ?thesis by (intro memos_ok_same [OF assms(2)]) (simp_all add: d')
qed

lemma store_step_memos_ok:
  assumes "store_step d d'" "db_keys d" "memos_ok d"
  shows "memos_ok d'"
  using assms
proof (induction rule: store_step.induct)
  case (tick d t)
  show ?case by (rule memos_ok_shrink [OF tick(3)]) (use tick(1) in \<open>simp_all add: space_exists_def\<close>)
next
  case (create_user c d u d')
  then show ?case using DB_CreateUser_ok by blast
next
  case (update_user c d u d')
  then show ?case using DB_UpdateUser_ok by blast
next
  case (delete_user ok fp uid d r d')
  then show ?case using DB_DeleteUser_ok by blast
next
  case (create_space c actor d s d')
  then show ?case using DB_CreateSpace_ok by (auto simp: Store_CreateSpace_def split: option.splits if_splits)
next
  case (update_space c actor d s d')
  then show ?case using DB_UpdateSpace_ok by (auto simp: Store_UpdateSpace_def split: option.splits if_splits)
next
  case (delete_space ok k d as d')
  then show ?case using DB_DeleteSpace_ok by (auto simp: Store_DeleteSpace_def split: option.splits if_splits)
next
  case (create_invitation c actor d i d')
  then show ?case using DB_CreateSpaceInvitation_only only_members_ok
    by (fastforce simp: Store_CreateSpaceInvitation_def split: option.splits if_splits)
next
  case (accept_invitation k actor d m d')
  then show ?case using DB_AcceptSpaceInvitation_only only_members_ok
    by (fastforce simp: Store_AcceptSpaceInvitation_def split: option.splits if_splits)
next
  case (decline_invitation k actor d d')
  then show ?case using delete_invitation_only only_members_ok
    by (fastforce simp: Store_DeclineSpaceInvitation_def DB_DeclineSpaceInvitation_def result_simps split: option.splits if_splits)
next
  case (revoke_invitation k actor d d')
  then show ?case using delete_invitation_only only_members_ok
    by (fastforce simp: Store_RevokeSpaceInvitation_def DB_RevokeSpaceInvitation_def result_simps split: option.splits if_splits)
next
  case (update_member c actor d m d')
  then show ?case using DB_UpdateSpaceMember_only only_members_ok
    by (fastforce simp: Store_UpdateSpaceMember_def split: option.splits if_splits)
next
  case (delete_member k actor d d')
  then show ?case using DB_DeleteSpaceMember_only only_members_ok
    by (fastforce simp: Store_DeleteSpaceMember_def split: option.splits if_splits)
qed

section \<open>Authorized writes\<close>

text \<open>What a successful check of a write policy has established.\<close>

definition placed_space :: "'p UpdateMemo option \<Rightarrow> string Memo \<Rightarrow> int32 option" where
  "placed_space update m =
     (case update of
        None \<Rightarrow> m_SpaceID m
      | Some u \<Rightarrow> (case up_SpaceID u of Some s \<Rightarrow> Some s | None \<Rightarrow> if up_ClearSpace u then None else m_SpaceID m))"

definition placed_visibility :: "'p UpdateMemo option \<Rightarrow> string Memo \<Rightarrow> Visibility" where
  "placed_visibility update m = (case update_visibility update of None \<Rightarrow> m_Visibility m | Some v \<Rightarrow> v)"

definition write_authorized :: "db \<Rightarrow> int32 \<Rightarrow> MemoWritePolicy \<Rightarrow> 'p UpdateMemo option \<Rightarrow> string Memo \<Rightarrow> bool" where
  "write_authorized d memoID p update m =
     (memo_row d memoID = Some m \<and> user_status d (pol_ActorUserID p) = Some Normal \<and> m_CreatorID m = pol_ActorUserID p
      \<and> (pol_LifecycleOnly p \<longrightarrow> isLifecycleOnlyMemoUpdate update \<and> placed_space update m \<noteq> m_SpaceID m)
      \<and> (\<forall>sid. m_SpaceID m = Some sid \<longrightarrow> space_exists d sid
           \<and> (\<not> pol_LifecycleOnly p \<longrightarrow> sqliteSpaceMemberActive d sid (pol_ActorUserID p)))
      \<and> (\<forall>u sid. update = Some u \<longrightarrow> up_SpaceID u = Some sid \<longrightarrow>
           space_exists d sid \<and> sqliteSpaceMemberActive d sid (pol_ActorUserID p))
      \<and> isValidVisibility (placed_visibility update m)
      \<and> (placed_visibility update m = SpaceAudience \<longrightarrow> placed_space update m \<noteq> None)
      \<and> (pol_CreatingShare p \<longrightarrow> placed_visibility update m \<noteq> SpaceAudience)
      \<and> (update_visibility update = Some SpaceAudience \<longrightarrow>
           (\<forall>sh \<in> set (db_memo_share d). sh_memo_id sh = memoID \<longrightarrow> \<not> active_share d sh)))"

lemma sameMemoSpace_eq [simp]: "sameMemoSpace l r \<longleftrightarrow> l = r"
  by (auto simp: sameMemoSpace_def split: option.splits)

lemma result_space_Inr:
  "result_space update sn = Inr s \<Longrightarrow> snap_SpaceID sn = m_SpaceID m \<Longrightarrow> s = placed_space update m
     \<and> (\<forall>u sid. update = Some u \<longrightarrow> up_SpaceID u = Some sid \<longrightarrow> snap_TargetSpaceExists sn \<and> snap_TargetMemberActive sn)"
  by (auto simp: result_space_def placed_space_def split: option.splits if_splits)

lemma result_visibility_eq:
  "snap_Visibility sn = m_Visibility m \<Longrightarrow> result_visibility update sn = placed_visibility update m"
  by (auto simp: result_visibility_def placed_visibility_def update_visibility_def split: option.splits)

lemma ValidateMemoWriteSnapshot_D:
  assumes "ValidateMemoWriteSnapshot (Some p) update (Some sn) = Inr ()"
    and row: "snap_SpaceID sn = m_SpaceID m" "snap_Visibility sn = m_Visibility m"
  shows "snap_CreatorID sn = pol_ActorUserID p"
    "pol_LifecycleOnly p \<Longrightarrow> isLifecycleOnlyMemoUpdate update \<and> placed_space update m \<noteq> m_SpaceID m"
    "m_SpaceID m \<noteq> None \<Longrightarrow> snap_SourceSpaceExists sn \<and> (pol_LifecycleOnly p \<or> snap_SourceMemberActive sn)"
    "update = Some u \<Longrightarrow> up_SpaceID u = Some sid \<Longrightarrow> snap_TargetSpaceExists sn \<and> snap_TargetMemberActive sn"
    "isValidVisibility (placed_visibility update m)"
    "placed_visibility update m = SpaceAudience \<Longrightarrow> placed_space update m \<noteq> None"
    "pol_CreatingShare p \<Longrightarrow> placed_visibility update m \<noteq> SpaceAudience"
    "update_visibility update = Some SpaceAudience \<Longrightarrow> \<not> snap_HasActiveShare sn"
proof -
  from assms(1) obtain s where s: "result_space update sn = Inr s"
    by (auto simp: ValidateMemoWriteSnapshot_def Let_def result_simps split: if_splits)
  note sp = result_space_Inr [OF s row(1)]
  show "snap_CreatorID sn = pol_ActorUserID p"
    "pol_LifecycleOnly p \<Longrightarrow> isLifecycleOnlyMemoUpdate update \<and> placed_space update m \<noteq> m_SpaceID m"
    "m_SpaceID m \<noteq> None \<Longrightarrow> snap_SourceSpaceExists sn \<and> (pol_LifecycleOnly p \<or> snap_SourceMemberActive sn)"
    "isValidVisibility (placed_visibility update m)"
    "placed_visibility update m = SpaceAudience \<Longrightarrow> placed_space update m \<noteq> None"
    "pol_CreatingShare p \<Longrightarrow> placed_visibility update m \<noteq> SpaceAudience"
    "update_visibility update = Some SpaceAudience \<Longrightarrow> \<not> snap_HasActiveShare sn"
    using assms(1) conjunct1 [OF sp]
    by (simp_all add: ValidateMemoWriteSnapshot_def Let_def s row result_visibility_eq [OF row(2)] bindE_Inr_iff split: if_splits)
  show "update = Some u \<Longrightarrow> up_SpaceID u = Some sid \<Longrightarrow> snap_TargetSpaceExists sn \<and> snap_TargetMemberActive sn"
    using sp by blast
qed

lemma populate_fields:
  "snap_CreatorID (populateSQLiteMemoPolicySpaceState d a update sn) = snap_CreatorID sn"
  "snap_SpaceID (populateSQLiteMemoPolicySpaceState d a update sn) = snap_SpaceID sn"
  "snap_Visibility (populateSQLiteMemoPolicySpaceState d a update sn) = snap_Visibility sn"
  "snap_SpaceID sn = Some sid \<Longrightarrow> snap_SourceSpaceExists (populateSQLiteMemoPolicySpaceState d a update sn) = space_exists d sid"
  "snap_SpaceID sn = Some sid \<Longrightarrow> snap_SourceMemberActive (populateSQLiteMemoPolicySpaceState d a update sn)
     = (space_exists d sid \<and> sqliteSpaceMemberActive d sid a)"
  "update = Some u \<Longrightarrow> up_SpaceID u = Some sid' \<Longrightarrow>
     snap_TargetSpaceExists (populateSQLiteMemoPolicySpaceState d a update sn) = space_exists d sid'
     \<and> snap_TargetMemberActive (populateSQLiteMemoPolicySpaceState d a update sn)
       = (space_exists d sid' \<and> sqliteSpaceMemberActive d sid' a)"
  by (simp_all add: populateSQLiteMemoPolicySpaceState_def sqliteMemoPolicySpaceState_def Let_def
      split: option.splits prod.splits)

lemma validateSQLiteMemoWritePolicy_D:
  assumes "validateSQLiteMemoWritePolicy d memoID p update = Inr ()"
  shows "\<exists>m. write_authorized d memoID p update m"
proof -
  from assms obtain m where m: "memo_row d memoID = Some m" and user: "user_status d (pol_ActorUserID p) = Some Normal"
    by (auto simp: validateSQLiteMemoWritePolicy_def split: option.splits if_splits)
  define sn0 where "sn0 = \<lparr>snap_CreatorID = m_CreatorID m, snap_RowStatus = m_RowStatus m,
     snap_SpaceID = m_SpaceID m, snap_Visibility = m_Visibility m, snap_SourceSpaceExists = False,
     snap_SourceMemberActive = False, snap_TargetSpaceExists = False, snap_TargetMemberActive = False, snap_HasActiveShare = False\<rparr>"
  define sn1 where "sn1 = populateSQLiteMemoPolicySpaceState d (pol_ActorUserID p) update sn0"
  define sn where "sn = (if update_visibility update = Some SpaceAudience
      then sn1\<lparr>snap_HasActiveShare := (\<exists>sh \<in> set (db_memo_share d). sh_memo_id sh = memoID \<and> active_share d sh)\<rparr> else sn1)"
  have ok: "ValidateMemoWriteSnapshot (Some p) update (Some sn) = Inr ()"
    using assms unfolding validateSQLiteMemoWritePolicy_def m user
    by (simp add: sn_def sn1_def sn0_def Let_def split: if_split_asm)
  have f: "snap_CreatorID sn = m_CreatorID m" "snap_SpaceID sn = m_SpaceID m" "snap_Visibility sn = m_Visibility m"
    "\<And>sid. m_SpaceID m = Some sid \<Longrightarrow> snap_SourceSpaceExists sn = space_exists d sid
       \<and> snap_SourceMemberActive sn = (space_exists d sid \<and> sqliteSpaceMemberActive d sid (pol_ActorUserID p))"
    "\<And>u sid. update = Some u \<Longrightarrow> up_SpaceID u = Some sid \<Longrightarrow> snap_TargetSpaceExists sn = space_exists d sid
       \<and> snap_TargetMemberActive sn = (space_exists d sid \<and> sqliteSpaceMemberActive d sid (pol_ActorUserID p))"
    by (simp_all add: sn_def sn1_def sn0_def populate_fields)
  have share: "update_visibility update = Some SpaceAudience \<Longrightarrow>
      snap_HasActiveShare sn = (\<exists>sh \<in> set (db_memo_share d). sh_memo_id sh = memoID \<and> active_share d sh)"
    by (simp add: sn_def)
  note D = ValidateMemoWriteSnapshot_D [OF ok f(2,3)]
  have src: "space_exists d sid \<and> (\<not> pol_LifecycleOnly p \<longrightarrow> sqliteSpaceMemberActive d sid (pol_ActorUserID p))"
    if "m_SpaceID m = Some sid" for sid
    using D(3) f(4) [OF that] that by auto
  have tgt: "space_exists d sid \<and> sqliteSpaceMemberActive d sid (pol_ActorUserID p)"
    if "update = Some u" "up_SpaceID u = Some sid" for u sid
    using D(4) [OF that] f(5) [OF that] by simp
  have shr: "\<forall>sh \<in> set (db_memo_share d). sh_memo_id sh = memoID \<longrightarrow> \<not> active_share d sh"
    if "update_visibility update = Some SpaceAudience"
    using D(8) [OF that] share [OF that] by simp
  have act: "m_CreatorID m = pol_ActorUserID p"
    using D(1) f(1) by simp
  have "write_authorized d memoID p update m"
    unfolding write_authorized_def using m user act D(2,5,6,7) src tgt shr by blast
  then show ?thesis ..
qed

section \<open>Frames\<close>

text \<open>The rows that authorization reads, apart from the memos and their shares.\<close>

definition people_kept :: "db \<Rightarrow> db \<Rightarrow> bool" where
  "people_kept d d' =
     (db_user d' = db_user d \<and> db_space d' = db_space d \<and> db_space_member d' = db_space_member d
      \<and> db_inbox d' = db_inbox d \<and> db_user_seq d' = db_user_seq d \<and> db_space_seq d' = db_space_seq d
      \<and> db_now d' = db_now d)"

definition memos_kept :: "db \<Rightarrow> db \<Rightarrow> bool" where
  "memos_kept d d' =
     (people_kept d d' \<and> db_memo d' = db_memo d \<and> db_memo_share d' = db_memo_share d \<and> db_memo_seq d' = db_memo_seq d
      \<and> (distinct (map at_ID (db_attachment d)) \<longrightarrow> distinct (map at_ID (db_attachment d'))))"

definition store_ok :: "db \<Rightarrow> bool" where
  "store_ok d = (db_keys d \<and> administered d \<and> memos_ok d)"

lemma people_kept_reads:
  assumes "people_kept d d'"
  shows "space_exists d' = space_exists d" "user_status d' = user_status d" "sqliteSpaceMemberActive d' = sqliteSpaceMemberActive d"
    "administered d' = administered d" "active_share d' = active_share d" "memo_ok d' = memo_ok d"
  using assms
  by (simp_all add: people_kept_def space_exists_def user_status_def sqliteSpaceMemberActive_def administered_def admin_row_def
      user_normal_def active_share_def memo_ok_def fun_eq_iff split: option.splits)

lemma store_ok_frame:
  assumes "people_kept d d'" "store_ok d" "distinct (map m_ID (db_memo d'))" "distinct (map at_ID (db_attachment d'))" "memos_ok d'"
  shows "store_ok d'"
  using assms people_kept_reads(4) [OF assms(1)] by (auto simp: store_ok_def db_keys_def people_kept_def)

lemma memos_kept_refl [simp]: "memos_kept d d"
  by (simp add: memos_kept_def people_kept_def)

lemma memos_kept_trans: "memos_kept d e \<Longrightarrow> memos_kept e f \<Longrightarrow> memos_kept d f"
  by (auto simp: memos_kept_def people_kept_def)

lemma memos_kept_ok:
  assumes "memos_kept d d'" "store_ok d"
  shows "store_ok d'"
proof -
  have p: "people_kept d d'" and f: "db_memo d' = db_memo d" "db_memo_share d' = db_memo_share d" "db_memo_seq d' = db_memo_seq d"
    and at: "distinct (map at_ID (db_attachment d))  \<Longrightarrow> distinct (map at_ID (db_attachment d'))"
    using assms(1) by (auto simp: memos_kept_def)
  have "memos_ok d'"
    using assms(2) by (simp add: store_ok_def memos_ok_def share_ok_def f people_kept_reads [OF p])
  then show ?thesis
    using assms(2) by (intro store_ok_frame [OF p]) (simp_all add: f at store_ok_def db_keys_def)
qed

lemma write_authorized_frame:
  assumes "memos_kept d d'"
  shows "write_authorized d' = write_authorized d"
proof -
  have p: "people_kept d d'" and f: "db_memo d' = db_memo d" "db_memo_share d' = db_memo_share d"
    using assms by (auto simp: memos_kept_def)
  show ?thesis unfolding write_authorized_def memo_row_def f people_kept_reads [OF p] ..
qed

lemma memo_row_Some: "memo_row d i = Some m \<Longrightarrow> m \<in> set (db_memo d) \<and> m_ID m = i"
  unfolding memo_row_def using first_row_in [of "filter (\<lambda>m. m_ID m = i) (db_memo d)" m] by simp

lemma memo_row_unique:
  assumes "distinct (map m_ID (db_memo d))" "memo_row d i = Some m" "m' \<in> set (db_memo d)" "m_ID m' = i"
  shows "m' = m"
  using assms memo_row_Some [OF assms(2)] by (auto simp: distinct_map inj_on_def)

section \<open>Creating, updating and deleting memos\<close>

lemma insert_memo_ok:
  assumes "store_ok d" "insertSQLiteMemo marshal create d = Inr (c, d')" "validateSQLiteMemoCreate d create = Inr ()"
    and space: "m_Visibility create = SpaceAudience \<longrightarrow> m_SpaceID create \<noteq> None"
  shows "store_ok d'"
proof -
  obtain row where d': "d' = d\<lparr>db_memo := db_memo d @ [row], db_memo_seq := db_memo_seq d + 1\<rparr>"
    and row: "m_ID row = db_memo_seq d + 1" "m_RowStatus row = Normal" "m_CreatorID row = m_CreatorID create"
      "m_Visibility row = m_Visibility create" "m_SpaceID row = m_SpaceID create" and vis: "isValidVisibility (m_Visibility create)"
    using assms(2) by (auto simp: insertSQLiteMemo_def Let_def result_simps split: if_splits)
  have people: "people_kept d d'" by (simp add: people_kept_def d')
  note reads = people_kept_reads [OF people]
  obtain w where "w \<in> set (db_user d)" "u_ID w = m_CreatorID create"
    using assms(3) by (auto simp: validateSQLiteMemoCreate_def user_status_def split: option.splits if_splits dest!: first_row_in)
  then have creator: "m_CreatorID create \<in> set (map u_ID (db_user d))"
    by (metis image_eqI image_set)
  have placed: "space_exists d sid" if "m_SpaceID create = Some sid" for sid
    using assms(3) that by (auto simp: validateSQLiteMemoCreate_def validateSQLiteMemoSpaceMember_def split: option.splits if_splits)
  have old: "memos_ok d" and keys: "db_keys d" using assms(1) by (simp_all add: store_ok_def)
  have "memo_ok d row"
    using creator placed vis space row by (simp add: memo_ok_def)
  moreover have "sh_memo_id sh \<noteq> m_ID row" if "sh \<in> set (db_memo_share d)" for sh
    using old that row(1) by (auto simp: memos_ok_def)
  ultimately have ok: "memos_ok d'"
    using old unfolding memos_ok_def reads share_ok_def by (auto simp: d' row(1))
  have "distinct (map m_ID (db_memo d'))"
    using keys old row(1) by (auto simp: d' db_keys_def memos_ok_def)
  then show ?thesis
    by (rule store_ok_frame [OF people assms(1) _ _ ok]) (use keys in \<open>simp add: d' db_keys_def\<close>)
qed

lemma memo_set_key: "m_ID (memo_set payload u m) = m_ID m"
  by (simp add: memo_set_def)

lemma applyMemoUpdate_cases:
  assumes "applyMemoUpdate marshal u d = Inr d'"
  obtains "d' = d"
  | payload where "d' = d\<lparr>db_memo := update_rows (\<lambda>m. m_ID m = up_ID u) (memo_set payload u) (db_memo d)\<rparr>"
      "\<forall>m \<in> set (db_memo d'). m_ID m = up_ID u \<longrightarrow> m_RowStatus m = Normal \<or> m_RowStatus m = Archived"
      "payload = None \<longleftrightarrow> up_Payload u = None"
  using assms by (auto simp: applyMemoUpdate_def Let_def result_simps split: if_splits option.splits sum.splits)

lemma memo_set_placed:
  assumes "\<not> (up_ClearSpace u \<and> up_SpaceID u \<noteq> None)"
  shows "m_SpaceID (memo_set payload u m) = placed_space (Some u) m"
    "m_Visibility (memo_set payload u m) = placed_visibility (Some u) m" "m_CreatorID (memo_set payload u m) = m_CreatorID m"
  using assms by (auto simp: memo_set_def placed_space_def placed_visibility_def update_visibility_def set_opt_def split: option.splits)

lemma update_memo_ok:
  assumes "store_ok d" "applyMemoUpdate marshal u d = Inr d'" "write_authorized d (up_ID u) p (Some u) m"
    and one: "\<not> (up_ClearSpace u \<and> up_SpaceID u \<noteq> None)"
  shows "store_ok d'"
  using assms(2)
proof (cases rule: applyMemoUpdate_cases)
  case 1
  then show ?thesis using assms(1) by simp
next
  case (2 payload)
  note d' = 2(1) and status = 2(2)
  have people: "people_kept d d'" by (simp add: people_kept_def d')
  note reads = people_kept_reads [OF people]
  have old: "memos_ok d" and keys: "db_keys d" using assms(1) by (simp_all add: store_ok_def)
  have auth: "memo_row d (up_ID u) = Some m" "\<And>sid. m_SpaceID m = Some sid \<Longrightarrow> space_exists d sid"
    "\<And>sid. up_SpaceID u = Some sid \<Longrightarrow> space_exists d sid" "isValidVisibility (placed_visibility (Some u) m)"
    "placed_visibility (Some u) m = SpaceAudience \<Longrightarrow> placed_space (Some u) m \<noteq> None"
    "up_Visibility u = Some SpaceAudience \<Longrightarrow> \<forall>sh \<in> set (db_memo_share d). sh_memo_id sh = up_ID u \<longrightarrow> \<not> active_share d sh"
    using assms(3) by (simp_all add: write_authorized_def update_visibility_def)
  let ?m = "memo_set payload u m"
  have row: "m \<in> set (db_memo d)" "m_ID m = up_ID u" using memo_row_Some [OF auth(1)] by auto
  have only: "r = m" if "r \<in> set (db_memo d)" "m_ID r = up_ID u" for r
    using memo_row_unique [OF _ auth(1) that] keys by (simp add: db_keys_def)
  have rows: "r = ?m \<or> r \<in> set (db_memo d)" if "r \<in> set (db_memo d')" for r
    using that only by (auto simp: d' split: if_splits)
  have m': "?m \<in> set (db_memo d')" using row by (force simp: d')
  have place: "space_exists d sid" if "placed_space (Some u) m = Some sid" for sid
    using that auth(2,3) by (auto simp: placed_space_def split: option.splits if_splits)
  have st: "m_RowStatus ?m = Normal \<or> m_RowStatus ?m = Archived"
    using status m' row(2) by (simp add: memo_set_key)
  have "memo_ok d ?m"
    unfolding memo_ok_def memo_set_placed [OF one]
    using auth(4,5) st place old row(1) unfolding memos_ok_def memo_ok_def by blast
  moreover have "share_ok d sh ?m" if "sh \<in> set (db_memo_share d)" for sh
  proof (cases "up_Visibility u")
    case None
    then show ?thesis using that old row
      by (auto simp: memos_ok_def share_ok_def memo_set_placed [OF one] memo_set_key placed_visibility_def update_visibility_def)
  next
    case (Some v)
    then show ?thesis using that auth(6) row(2)
      by (auto simp: share_ok_def memo_set_placed [OF one] memo_set_key placed_visibility_def update_visibility_def)
  qed
  ultimately have good: "memo_ok d r \<and> m_ID r \<le> db_memo_seq d \<and> (\<forall>sh \<in> set (db_memo_share d). share_ok d sh r)"
    if "r \<in> set (db_memo d')" for r
    using rows [OF that] old row(1) by (auto simp: memos_ok_def memo_set_key)
  have f: "db_memo_share d' = db_memo_share d" "db_memo_seq d' = db_memo_seq d" by (simp_all add: d')
  have ok: "memos_ok d'"
    unfolding memos_ok_def reads f share_ok_def using good old by (auto simp: memos_ok_def share_ok_def)
  have "map m_ID (db_memo d') = map m_ID (db_memo d)"
    unfolding d' by (simp add: update_rows_key memo_set_key)
  then have "distinct (map m_ID (db_memo d'))"
    using keys by (simp only: db_keys_def)
  then show ?thesis
    by (rule store_ok_frame [OF people assms(1) _ _ ok]) (use keys in \<open>simp add: d' db_keys_def\<close>)
qed

text \<open>An update that leaves the audience and the placement alone needs no policy to keep the invariant.\<close>

definition keeps_placement :: "'p UpdateMemo \<Rightarrow> bool" where
  "keeps_placement u = (up_Visibility u = None \<and> up_SpaceID u = None \<and> \<not> up_ClearSpace u)"

lemma keeps_placement_ok:
  assumes "store_ok d" "applyMemoUpdate marshal u d = Inr d'" "keeps_placement u"
  shows "store_ok d'"
  using assms(2)
proof (cases rule: applyMemoUpdate_cases)
  case 1
  then show ?thesis using assms(1) by simp
next
  case (2 payload)
  note d' = 2(1) and status = 2(2)
  have people: "people_kept d d'" by (simp add: people_kept_def d')
  note reads = people_kept_reads [OF people]
  have old: "memos_ok d" and keys: "db_keys d" using assms(1) by (simp_all add: store_ok_def)
  have one: "\<not> (up_ClearSpace u \<and> up_SpaceID u \<noteq> None)" using assms(3) by (simp add: keeps_placement_def)
  have same: "m_Visibility (memo_set payload u m) = m_Visibility m \<and> m_SpaceID (memo_set payload u m) = m_SpaceID m" for m
    using assms(3)
    by (simp add: memo_set_placed [OF one] keeps_placement_def placed_space_def placed_visibility_def update_visibility_def)
  have row: "\<exists>m0 \<in> set (db_memo d). m_ID m = m_ID m0 \<and> m_Visibility m = m_Visibility m0 \<and> m_SpaceID m = m_SpaceID m0
      \<and> m_CreatorID m = m_CreatorID m0 \<and> (m_RowStatus m = Normal \<or> m_RowStatus m = Archived)" if "m \<in> set (db_memo d')" for m
  proof -
    from that obtain m0 where m0: "m0 \<in> set (db_memo d)" "m = (if m_ID m0 = up_ID u then memo_set payload u m0 else m0)"
      by (auto simp: d')
    have "m_RowStatus m = Normal \<or> m_RowStatus m = Archived"
      using status that m0 old by (cases "m_ID m0 = up_ID u") (auto simp: memo_set_key memos_ok_def memo_ok_def)
    then show ?thesis using m0 same [of m0] by (intro bexI [of _ m0]) (auto simp: memo_set_key memo_set_placed(3) [OF one])
  qed
  have f: "db_memo_share d' = db_memo_share d" "db_memo_seq d' = db_memo_seq d" by (simp_all add: d')
  have good: "memo_ok d m \<and> m_ID m \<le> db_memo_seq d \<and> (\<forall>sh \<in> set (db_memo_share d). share_ok d sh m)" if m: "m \<in> set (db_memo d')" for m
  proof -
    obtain m0 where m0: "m0 \<in> set (db_memo d)" "m_ID m = m_ID m0" "m_Visibility m = m_Visibility m0" "m_SpaceID m = m_SpaceID m0"
      "m_CreatorID m = m_CreatorID m0" "m_RowStatus m = Normal \<or> m_RowStatus m = Archived" using row [OF m] by blast
    have "memo_ok d m0 \<and> m_ID m0 \<le> db_memo_seq d" "\<forall>sh \<in> set (db_memo_share d). share_ok d sh m0"
      using old m0(1) unfolding memos_ok_def by blast+
    then show ?thesis unfolding memo_ok_def share_ok_def m0(2-5) using m0(6) by blast
  qed
  have ok: "memos_ok d'"
    unfolding memos_ok_def reads f share_ok_def using good old by (auto simp: memos_ok_def share_ok_def)
  have "map m_ID (db_memo d') = map m_ID (db_memo d)"
    unfolding d' by (simp add: update_rows_key memo_set_key)
  then have "distinct (map m_ID (db_memo d'))"
    using keys by (simp only: db_keys_def)
  then show ?thesis
    by (rule store_ok_frame [OF people assms(1) _ _ ok]) (use keys in \<open>simp add: d' db_keys_def\<close>)
qed

lemma memo_set_deleted_ok:
  assumes "deleteSQLiteMemoSetTx ok ids d = Inr (as, d')" "store_ok d"
  shows "store_ok d'"
proof -
  have people: "people_kept d d'" and sub: "db_memo d' = filter (\<lambda>m. m_ID m \<notin> set ids) (db_memo d)"
      "set (db_memo_share d') \<subseteq> set (db_memo_share d)" "db_memo_seq d' = db_memo_seq d" and at: "\<exists>P. db_attachment d' = filter P (db_attachment d)"
    using assms(1) by (auto simp: deleteSQLiteMemoSetTx_def Let_def statement_simps people_kept_def split: sum.splits)
  have keys: "db_keys d" "memos_ok d" using assms(2) by (simp_all add: store_ok_def)
  have "memos_ok d'"
    using sub people_kept_reads(1) [OF people] people
    by (intro memos_ok_shrink [OF keys(2)]) (auto simp: people_kept_def)
  then show ?thesis
    using keys(1) sub(1) at by (intro store_ok_frame [OF people assms(2)]) (auto simp: db_keys_def distinct_map_filter)
qed

section \<open>Shares, reactions, relations, attachments\<close>

lemma share_created_ok:
  assumes "createSQLiteMemoShare c d = Inr (sh, d')" "store_ok d"
    and "\<And>m. m \<in> set (db_memo d) \<Longrightarrow> m_ID m = ms_MemoID c \<Longrightarrow> m_Visibility m \<noteq> SpaceAudience"
    and "ms_MemoID c \<le> db_memo_seq d"
  shows "store_ok d'"
proof -
  obtain row where d': "d' = d\<lparr>db_memo_share := db_memo_share d @ [row], db_memo_share_seq := db_memo_share_seq d + 1\<rparr>"
    and row: "sh_memo_id row = ms_MemoID c"
    using assms(1) by (auto simp: createSQLiteMemoShare_def Let_def split: if_splits)
  have people: "people_kept d d'" by (simp add: people_kept_def d')
  have f: "db_memo d' = db_memo d" "db_memo_seq d' = db_memo_seq d" "set (db_memo_share d') = insert row (set (db_memo_share d))"
    by (simp_all add: d')
  have "memos_ok d" "db_keys d" using assms(2) by (simp_all add: store_ok_def)
  then have "memos_ok d'"
    using assms(3,4) by (auto simp: memos_ok_def share_ok_def f people_kept_reads [OF people] row)
  then show ?thesis
    using \<open>db_keys d\<close> by (intro store_ok_frame [OF people assms(2)]) (simp_all add: d' db_keys_def)
qed

lemma create_share_ok:
  assumes "Store_CreateMemoShare c d = Inr (sh, d')" "store_ok d" "ms_Policy (the c) = Some p" "pol_CreatingShare p"
  shows "store_ok d'"
proof -
  from assms obtain c' where c: "c = Some c'" and v: "validateSQLiteMemoWritePolicy d (ms_MemoID c') p (None :: unit UpdateMemo option) = Inr ()"
    and i: "createSQLiteMemoShare c' d = Inr (sh, d')"
    by (auto simp: Store_CreateMemoShare_def DB_CreateMemoShare_def result_simps split: option.splits)
  from validateSQLiteMemoWritePolicy_D [OF v] obtain m
    where m: "memo_row d (ms_MemoID c') = Some m" "m_Visibility m \<noteq> SpaceAudience"
    using assms(4) by (auto simp: write_authorized_def placed_visibility_def update_visibility_def)
  show ?thesis
  proof (rule share_created_ok [OF i assms(2)])
    show "ms_MemoID c' \<le> db_memo_seq d"
      using memo_row_Some [OF m(1)] assms(2) by (auto simp: store_ok_def memos_ok_def)
  next
    fix r
    assume "r \<in> set (db_memo d)" "m_ID r = ms_MemoID c'"
    then show "m_Visibility r \<noteq> SpaceAudience"
      using memo_row_unique [OF _ m(1)] m(2) assms(2) by (auto simp: store_ok_def db_keys_def)
  qed
qed

lemma delete_share_ok:
  assumes "Store_DeleteMemoShare c d = Inr d'" "store_ok d"
  shows "store_ok d'"
proof -
  obtain P where d': "d' = d\<lparr>db_memo_share := filter P (db_memo_share d)\<rparr>"
    using assms(1) by (auto simp: Store_DeleteMemoShare_def DB_DeleteMemoShare_def Let_def result_simps split: option.splits if_splits)
  have people: "people_kept d d'" by (simp add: people_kept_def d')
  have keys: "db_keys d" "memos_ok d" using assms(2) by (simp_all add: store_ok_def)
  have "memos_ok d'"
    by (rule memos_ok_shrink [OF keys(2)]) (auto simp: d' space_exists_def)
  then show ?thesis
    using keys(1) by (intro store_ok_frame [OF people assms(2)]) (simp_all add: d' db_keys_def)
qed

lemma upsert_reaction_kept: "Store_UpsertReaction r d = Inr (r', d') \<Longrightarrow> memos_kept d d'"
  by (auto simp: Store_UpsertReaction_def DB_UpsertReaction_def upsertSQLiteReaction_def Let_def result_simps memos_kept_def
      people_kept_def split: option.splits if_splits)

lemma delete_reaction_kept: "Store_DeleteReaction r d = Inr d' \<Longrightarrow> memos_kept d d'"
  by (auto simp: Store_DeleteReaction_def DB_DeleteReaction_def deleteReactionAsCreator_def result_simps memos_kept_def
      people_kept_def split: option.splits if_splits)

lemma bind_attachments_kept: "bind_attachments i c bs d = Inr d' \<Longrightarrow> memos_kept d d'"
proof (induction i c bs d rule: bind_attachments.induct)
  case (3 i c b bs d)
  then obtain a where a: "first_row (filter (\<lambda>a. at_ID a = mab_ID b) (db_attachment d)) = Some a"
    by (auto split: option.splits)
  let ?e = "d\<lparr>db_attachment := update_rows (\<lambda>a. at_ID a = mab_ID b) (\<lambda>a. a\<lparr>at_MemoID := Some i\<rparr>) (db_attachment d),
     db_attachment_file := update_rows (\<lambda>f. af_id f = mab_ID b) (\<lambda>f. f\<lparr>af_UpdatedTs := mab_UpdatedTs b\<rparr>) (db_attachment_file d)\<rparr>"
  have "memos_kept d ?e"
    by (simp add: memos_kept_def people_kept_def update_rows_key)
  moreover have "memos_kept ?e d'"
    using 3 a by (auto split: if_splits)
  ultimately show ?case by (rule memos_kept_trans)
qed simp_all

lemma delete_removed_kept: "delete_removed i as d = Inr d' \<Longrightarrow> memos_kept d d'"
proof (induction i as d rule: delete_removed.induct)
  case (2 i a as d)
  let ?e = "d\<lparr>db_attachment := filter (\<lambda>r. \<not> (at_ID r = at_ID a \<and> at_MemoID r = Some i)) (db_attachment d)\<rparr>"
  have "memos_kept d ?e"
    by (simp add: memos_kept_def people_kept_def distinct_map_filter)
  moreover have "memos_kept ?e d'"
    using 2 by (auto simp: Let_def split: if_splits)
  ultimately show ?case by (rule memos_kept_trans)
qed simp

lemma upsert_relation_kept: "memos_kept d (upsert_relation r d)"
  by (simp add: upsert_relation_def memos_kept_def people_kept_def)

lemma insert_references_kept: "insert_references i rs d = Inr d' \<Longrightarrow> memos_kept d d'"
proof (induction i rs d rule: insert_references.induct)
  case (3 i r rs d)
  then show ?case using memos_kept_trans [OF upsert_relation_kept] by (auto split: if_splits)
qed simp_all

lemma replace_references_kept: "replaceMemoReferenceRelations i rs d = Inr d' \<Longrightarrow> memos_kept d d'"
  unfolding replaceMemoReferenceRelations_def
  by (drule insert_references_kept) (simp add: memos_kept_def people_kept_def)

section \<open>Mutations\<close>

lemma mutation_create_ok:
  assumes "mutation_create marshal mutation d = Inr (mutation', d')" "store_ok d"
    and "\<And>c. mm_MemoCreate mutation = Some c \<Longrightarrow> validateMemoCreate (Some c) = Inr ()"
  shows "store_ok d'"
proof (cases "mm_MemoCreate mutation")
  case None
  then show ?thesis using assms(1,2) by (simp add: mutation_create_def)
next
  case (Some c)
  have space: "m_Visibility c = SpaceAudience \<longrightarrow> m_SpaceID c \<noteq> None"
    using assms(3) [OF Some] by (auto simp: validateMemoCreate_def split: if_splits)
  from assms(1) Some obtain c' d1 where v: "validateSQLiteMemoCreate d c = Inr ()" and i: "insertSQLiteMemo marshal c d = Inr (c', d1)"
    and d': "d' = d1 \<or> (\<exists>k. insertSQLiteMemoCommentRelation (m_ID c') k d1 = Inr d')"
    by (auto simp: mutation_create_def Let_def result_simps split: option.splits prod.splits)
  have "memos_kept d1 d'"
    using d' by (auto simp: insertSQLiteMemoCommentRelation_def Let_def memos_kept_def people_kept_def split: if_splits)
  then show ?thesis
    using insert_memo_ok [OF assms(2) i v space] memos_kept_ok by blast
qed

lemma DB_ApplyMemoMutation_D:
  assumes "DB_ApplyMemoMutation marshal ok mutation d = Inr (mutation', d')"
  obtains mu d1 d2 d3 where "mutation_create marshal mutation d = Inr (mu, d1)" "memos_kept d1 d2"
    "\<And>p. mutation_policy mu = Some p \<Longrightarrow> validateSQLiteMemoWritePolicy d1 (mm_MemoID mu) p (mm_MemoUpdate mu) = Inr ()"
    "case mm_MemoUpdate mu of None \<Rightarrow> d3 = d2 | Some u \<Rightarrow> up_ID u = mm_MemoID mu \<and> applyMemoUpdate marshal u d2 = Inr d3"
    "memos_kept d3 d'" "mutation' = mu"
proof -
  from assms obtain mu d1 d2 d2' d3 removed where
    1: "mutation_create marshal mutation d = Inr (mu, d1)"
      "(case mutation_policy mu of None \<Rightarrow> Inr ()
        | Some p \<Rightarrow> validateSQLiteMemoWritePolicy d1 (mm_MemoID mu) p (mm_MemoUpdate mu)) = Inr ()"
    and 2: "bind_attachments (mm_MemoID mu) (mm_MemoCreatorID mu) (mm_Bindings mu) d1 = Inr d2"
      "delete_removed (mm_MemoID mu) removed d2 = Inr d2'"
    and 3: "(case mm_MemoUpdate mu of None \<Rightarrow> Inr d2'
        | Some u \<Rightarrow> if up_ID u \<noteq> mm_MemoID mu then Inl (NewError ''memo update target does not match attachment mutation'')
                    else applyMemoUpdate marshal u d2') = Inr d3"
    and 4: "(if mm_ReplaceReferenceRelations mu then replaceMemoReferenceRelations (mm_MemoID mu) (mm_ReferenceRelations mu) d3
             else Inr d3) = Inr d'" "mutation' = mu"
    unfolding DB_ApplyMemoMutation_def by (auto simp: bindE_Inr_iff simp del: split_paired_Ex)
  have "memos_kept d1 d2'"
    using memos_kept_trans [OF bind_attachments_kept [OF 2(1)] delete_removed_kept [OF 2(2)]] .
  moreover have "case mm_MemoUpdate mu of None \<Rightarrow> d3 = d2' | Some u \<Rightarrow> up_ID u = mm_MemoID mu \<and> applyMemoUpdate marshal u d2' = Inr d3"
    using 3 by (auto split: option.splits if_splits)
  moreover have "memos_kept d3 d'"
    using 4(1) replace_references_kept by (auto split: if_splits)
  moreover have "validateSQLiteMemoWritePolicy d1 (mm_MemoID mu) p (mm_MemoUpdate mu) = Inr ()" if "mutation_policy mu = Some p" for p
    using 1(2) that by simp
  ultimately show ?thesis using that 1(1) 4(2) by blast
qed

lemma Store_ApplyMemoMutation_D:
  assumes "Store_ApplyMemoMutation marshal ok (Some mutation) d = Inr (mutation', d')"
  obtains mu where "DB_ApplyMemoMutation marshal ok mu d = Inr (mutation', d')"
    "mm_MemoCreate mu = mm_MemoCreate mutation" "mm_MemoUpdate mu = mm_MemoUpdate mutation" "mm_Policy mu = mm_Policy mutation"
    "\<And>c. mm_MemoCreate mutation = Some c \<Longrightarrow> validateMemoCreate (Some c) = Inr () \<and> mm_MemoUpdate mutation = None"
  using assms
  by (auto simp: Store_ApplyMemoMutation_def Let_def result_simps split: option.splits if_splits)

lemma mutation_create_keeps:
  "mutation_create marshal mutation d = Inr (mu, d1) \<Longrightarrow> mm_MemoUpdate mu = mm_MemoUpdate mutation \<and> mm_Policy mu = mm_Policy mutation"
  by (auto simp: mutation_create_def Let_def result_simps split: option.splits prod.splits)

definition mutation_safe :: "'p MemoMutation \<Rightarrow> bool" where
  "mutation_safe mutation =
     (case mm_MemoUpdate mutation of
        None \<Rightarrow> True
      | Some u \<Rightarrow> mutation_policy mutation \<noteq> None \<and> \<not> (up_ClearSpace u \<and> up_SpaceID u \<noteq> None))"

lemma mutation_ok:
  assumes "Store_ApplyMemoMutation marshal ok (Some mutation) d = Inr (mutation', d')" "store_ok d" "mutation_safe mutation"
  shows "store_ok d'"
proof -
  obtain m0 where m0: "DB_ApplyMemoMutation marshal ok m0 d = Inr (mutation', d')"
    "mm_MemoCreate m0 = mm_MemoCreate mutation" "mm_MemoUpdate m0 = mm_MemoUpdate mutation" "mm_Policy m0 = mm_Policy mutation"
    "\<And>c. mm_MemoCreate mutation = Some c \<Longrightarrow> validateMemoCreate (Some c) = Inr () \<and> mm_MemoUpdate mutation = None"
    using Store_ApplyMemoMutation_D [OF assms(1)] by blast
  obtain mu d1 d2 d3 where s: "mutation_create marshal m0 d = Inr (mu, d1)" "memos_kept d1 d2"
    "\<And>p. mutation_policy mu = Some p \<Longrightarrow> validateSQLiteMemoWritePolicy d1 (mm_MemoID mu) p (mm_MemoUpdate mu) = Inr ()"
    "case mm_MemoUpdate mu of None \<Rightarrow> d3 = d2 | Some u \<Rightarrow> up_ID u = mm_MemoID mu \<and> applyMemoUpdate marshal u d2 = Inr d3"
    "memos_kept d3 d'" "mutation' = mu"
    by (rule DB_ApplyMemoMutation_D [OF m0(1)]) blast
  have upd: "mm_MemoUpdate mu = mm_MemoUpdate mutation" "mm_Policy mu = mm_Policy mutation"
    using mutation_create_keeps [OF s(1)] m0(3,4) by simp_all
  then have pol: "mutation_policy mu = mutation_policy mutation" by (simp only: mutation_policy_def)
  have ok2: "store_ok d2"
    using mutation_create_ok [OF s(1) assms(2)] m0(2,5) memos_kept_ok [OF s(2)] by simp
  have "store_ok d3"
  proof (cases "mm_MemoUpdate mutation")
    case None
    then show ?thesis using s(4) upd ok2 by simp
  next
    case (Some u)
    then obtain p where p: "mutation_policy mu = Some p" and one: "\<not> (up_ClearSpace u \<and> up_SpaceID u \<noteq> None)"
      using assms(3) pol by (auto simp: mutation_safe_def)
    have u: "up_ID u = mm_MemoID mu" "applyMemoUpdate marshal u d2 = Inr d3" using s(4) Some upd by simp_all
    obtain m where "write_authorized d1 (mm_MemoID mu) p (mm_MemoUpdate mu) m"
      using validateSQLiteMemoWritePolicy_D [OF s(3) [OF p]] by blast
    then have "write_authorized d2 (up_ID u) p (Some u) m"
      using write_authorized_frame [OF s(2), where 'a = 'a] Some upd u(1) by simp
    then show ?thesis by (rule update_memo_ok [OF ok2 u(2) _ one])
  qed
  then show ?thesis using memos_kept_ok [OF s(5)] by simp
qed

section \<open>Reachable databases\<close>

text \<open>The operations on users and spaces, and those on memos, shares, reactions, comments and mutations. Left out
  are: an update without a policy that changes the audience or the placement (no caller makes one; the runner
  that rebuilds payloads, \<open>server/runner/memopayload/runner.go\<close>, makes the one of \<open>rebuild_memo\<close>); an update, by
  itself or in a mutation, that names a new space and clears the space at once (no caller makes one either); an
  update in a mutation without a policy; a share whose policy does not say that it creates a share; the deletion
  of a memo without a policy, which no caller makes; and the operations on attachments alone, which
  do not write the tables of the memos.\<close>

inductive memo_step :: "db \<Rightarrow> db \<Rightarrow> bool" where
  people: "store_step d d' \<Longrightarrow> memo_step d d'"
| create_memo: "Store_CreateMemo (marshal :: string \<Rightarrow> store_error + string) c d = Inr (m, d') \<Longrightarrow> memo_step d d'"
| update_memo: "Store_UpdateMemo (marshal :: string \<Rightarrow> store_error + string) u d = Inr d' \<Longrightarrow> up_Policy u = Some p \<Longrightarrow>
    \<not> (up_ClearSpace u \<and> up_SpaceID u \<noteq> None) \<Longrightarrow> memo_step d d'"
| rebuild_memo: "Store_UpdateMemo (marshal :: string \<Rightarrow> store_error + string) u d = Inr d' \<Longrightarrow> up_Policy u = None \<Longrightarrow>
    keeps_placement u \<Longrightarrow> memo_step d d'"
| delete_memo: "Store_DeleteMemoWithPolicy ok k d = Inr (r, d') \<Longrightarrow> memo_step d d'"
| create_share: "Store_CreateMemoShare c d = Inr (sh, d') \<Longrightarrow> ms_Policy (the c) = Some p \<Longrightarrow> pol_CreatingShare p \<Longrightarrow> memo_step d d'"
| delete_share: "Store_DeleteMemoShare k d = Inr d' \<Longrightarrow> memo_step d d'"
| upsert_reaction: "Store_UpsertReaction r d = Inr (r', d') \<Longrightarrow> memo_step d d'"
| delete_reaction: "Store_DeleteReaction k d = Inr d' \<Longrightarrow> memo_step d d'"
| mutate: "Store_ApplyMemoMutation (marshal :: string \<Rightarrow> store_error + string) ok (Some mutation) d = Inr (mutation', d') \<Longrightarrow> mutation_safe mutation \<Longrightarrow> memo_step d d'"
| comment: "Store_CreateMemoComment (marshal :: string \<Rightarrow> store_error + string) ok c context_id actor d = Inr (m, d') \<Longrightarrow> memo_step d d'"

inductive_cases memo_stepE: "memo_step d d'"

abbreviation memo_reachable :: "db \<Rightarrow> bool" where
  "memo_reachable d \<equiv> memo_step\<^sup>*\<^sup>* empty_db d"

lemma comment_mutation_safe: "mutation_safe (comment_mutation c k actor)"
  by (simp add: mutation_safe_def comment_mutation_def)

lemma comment_as_mutation:
  assumes "Store_CreateMemoComment marshal ok c k actor d = Inr (m, d')"
  obtains c' mu where "Store_ApplyMemoMutation marshal ok (Some (comment_mutation c' k actor)) d = Inr (mu, d')"
    "m = the (mm_MemoCreate mu)" "m_CreatorID c' = actor" "0 < k" "0 < actor"
    "c' = (if m_Visibility (the c) = [] then the c\<lparr>m_Visibility := Private\<rparr> else the c)"
  using assms
  by (auto simp: Store_CreateMemoComment_def Let_def result_simps split: option.splits if_splits)

lemma memo_step_ok:
  assumes "memo_step d d'" "store_ok d"
  shows "store_ok d'"
  using assms
proof (induction rule: memo_step.induct)
  case (people d d')
  then show ?case
    using store_step_memos_ok store_step_keeps by (auto simp: store_ok_def)
next
  case (create_memo marshal c d m d')
  then obtain c' where "c = Some c'" "validateMemoCreate (Some c') = Inr ()" "validateSQLiteMemoCreate d c' = Inr ()"
    "insertSQLiteMemo marshal c' d = Inr (m, d')"
    by (auto simp: Store_CreateMemo_def DB_CreateMemo_def validateMemoCreate_def result_simps split: option.splits)
  then show ?case
    using insert_memo_ok [OF create_memo(2)] by (auto simp: validateMemoCreate_def split: if_splits)
next
  case (update_memo marshal u d d' p)
  then have "validateSQLiteMemoWritePolicy d (up_ID u) p (Some u) = Inr ()" "applyMemoUpdate marshal u d = Inr d'"
    by (auto simp: Store_UpdateMemo_def DB_UpdateMemo_def result_simps split: option.splits if_splits)
  then show ?case
    using validateSQLiteMemoWritePolicy_D update_memo_ok update_memo(3,4) by blast
next
  case (rebuild_memo marshal u d d')
  then have "applyMemoUpdate marshal u d = Inr d'"
    by (auto simp: Store_UpdateMemo_def DB_UpdateMemo_def result_simps split: option.splits if_splits)
  then show ?case using keeps_placement_ok rebuild_memo(3,4) by blast
next
  case (delete_memo ok k d r d')
  then obtain i as where "deleteSQLiteMemoSetTx ok [i] d = Inr (as, d')"
    by (auto simp: Store_DeleteMemoWithPolicy_def DB_DeleteMemoWithPolicy_def Let_def split: option.splits if_splits sum.splits)
  then show ?case using memo_set_deleted_ok delete_memo(2) by blast
next
  case (create_share c d sh d' p)
  then show ?case using create_share_ok by blast
next
  case (delete_share k d d')
  then show ?case using delete_share_ok by blast
next
  case (upsert_reaction r d r' d')
  then show ?case using upsert_reaction_kept memos_kept_ok by blast
next
  case (delete_reaction k d d')
  then show ?case using delete_reaction_kept memos_kept_ok by blast
next
  case (mutate marshal ok mutation d mutation' d')
  then show ?case using mutation_ok by blast
next
  case (comment marshal ok c k actor d m d')
  then show ?case
    using comment_as_mutation [OF comment(1)] mutation_ok comment_mutation_safe by metis
qed

lemma empty_store_ok: "store_ok empty_db"
  by (simp add: store_ok_def db_keys_def administered_def memos_ok_def empty_db_def)

lemma memo_reachable_ok: "memo_reachable d \<Longrightarrow> store_ok d"
  by (induction rule: rtranclp_induct) (simp_all add: empty_store_ok memo_step_ok)

end
