(* ===== verification/Memo_Properties.thy ===== *)
theory Memo_Properties
  imports Memo_Access Memo_Invariant
begin

text \<open>
  Properties of the memo operations together with the read policy: what holds of every memo a
  reachable database stores, that taking part in a memo needs the right to read it, what an
  authorized update changes, and what a mutation leaves alone.
\<close>

section \<open>Users of a reachable database\<close>

definition users_ok :: "db \<Rightarrow> bool" where
  "users_ok d = (\<forall>u \<in> set (db_user d). u_RowStatus u = Normal \<or> u_RowStatus u = Archived)"

lemma users_ok_same: "db_user d' = db_user d \<Longrightarrow> users_ok d \<Longrightarrow> users_ok d'"
  by (simp add: users_ok_def)

lemma store_step_users_ok:
  assumes "store_step d d'" "db_keys d" "users_ok d"
  shows "users_ok d'"
  using assms
proof (induction rule: store_step.induct)
  case (create_user c d u d')
  then show ?case by (auto simp: DB_CreateUser_def insertUser_def Let_def users_ok_def split: if_splits)
next
  case (update_user c d u d')
  then have rows: "db_user d' = update_rows (\<lambda>u. u_ID u = uu_ID c) (user_set c) (db_user d)"
    and checked: "\<And>u. u \<in> set (db_user d') \<Longrightarrow> u_ID u = uu_ID c \<Longrightarrow> u_RowStatus u = Normal \<or> u_RowStatus u = Archived"
    by (auto simp: DB_UpdateUser_def Let_def result_simps split: if_splits option.splits)
  have "u_RowStatus w = Normal \<or> u_RowStatus w = Archived" if w: "w \<in> set (db_user d')" for w
  proof (cases "u_ID w = uu_ID c")
    case False
    have "u_ID (user_set c x) = u_ID x" for x by (simp add: user_set_def)
    then have "w \<in> set (db_user d)" using w False unfolding rows by (auto split: if_splits)
    then show ?thesis using update_user(3) by (simp add: users_ok_def)
  qed (use checked w in blast)
  then show ?case by (simp add: users_ok_def)
next
  case (delete_user ok fp uid d r d')
  show ?case
  proof (cases "\<exists>u \<in> set (db_user d). u_ID u = uid")
    case True
    then have "d' = delete_user_spec uid d" using DB_DeleteUser_spec delete_user by blast
    then show ?thesis using delete_user(3) by (auto simp: users_ok_def delete_user_spec_def Let_def)
  next
    case False
    then show ?thesis using delete_user by (auto simp: DB_DeleteUser_def)
  qed
next
  case (create_space c actor d s d')
  then show ?case
    by (auto simp: users_ok_def Store_CreateSpace_def DB_CreateSpace_def insert_space_def insert_space_member_def
        Let_def result_simps split: option.splits if_splits sum.splits)
next
  case (update_space c actor d s d')
  then show ?case
    by (auto simp: users_ok_def Store_UpdateSpace_def DB_UpdateSpace_def Let_def result_simps
        split: option.splits if_splits)
next
  case (delete_space ok k d as d')
  then obtain sp actor where "DB_DeleteSpace ok sp actor d = Inr (as, d')"
    by (auto simp: Store_DeleteSpace_def split: option.splits if_splits)
  then have "d' = delete_space_spec sp d" using DB_DeleteSpace_spec delete_space by blast
  with delete_space show ?case by (auto simp: users_ok_def delete_space_spec_def Let_def)
next
  case (create_invitation c actor d i d')
  then show ?case using DB_CreateSpaceInvitation_only
    by (fastforce simp: users_ok_def Store_CreateSpaceInvitation_def only_members_def split: option.splits if_splits)
next
  case (accept_invitation k actor d m d')
  then show ?case using DB_AcceptSpaceInvitation_only
    by (fastforce simp: users_ok_def Store_AcceptSpaceInvitation_def only_members_def split: option.splits if_splits)
next
  case (decline_invitation k actor d d')
  then show ?case using delete_invitation_only
    by (fastforce simp: users_ok_def Store_DeclineSpaceInvitation_def DB_DeclineSpaceInvitation_def
        only_members_def result_simps split: option.splits if_splits)
next
  case (revoke_invitation k actor d d')
  then show ?case using delete_invitation_only
    by (fastforce simp: users_ok_def Store_RevokeSpaceInvitation_def DB_RevokeSpaceInvitation_def
        only_members_def result_simps split: option.splits if_splits)
next
  case (update_member c actor d m d')
  then show ?case using DB_UpdateSpaceMember_only
    by (fastforce simp: users_ok_def Store_UpdateSpaceMember_def only_members_def split: option.splits if_splits)
next
  case (delete_member k actor d d')
  then show ?case using DB_DeleteSpaceMember_only
    by (fastforce simp: users_ok_def Store_DeleteSpaceMember_def only_members_def split: option.splits if_splits)
qed (simp add: users_ok_def)

lemma insert_memo_user: "insertSQLiteMemo marshal c d = Inr (m, d') \<Longrightarrow> db_user d' = db_user d"
  by (auto simp: insertSQLiteMemo_def Let_def result_simps split: if_splits)

lemma apply_update_user: "applyMemoUpdate marshal u d = Inr d' \<Longrightarrow> db_user d' = db_user d"
  by (erule applyMemoUpdate_cases) simp_all

lemma mutation_user:
  assumes "Store_ApplyMemoMutation marshal ok (Some mutation) d = Inr (mutation', d')"
  shows "db_user d' = db_user d"
proof -
  obtain m0 where m0: "DB_ApplyMemoMutation marshal ok m0 d = Inr (mutation', d')"
    using Store_ApplyMemoMutation_D [OF assms] by blast
  then show ?thesis
  proof (rule DB_ApplyMemoMutation_D)
    fix mu d1 d2 d3
    assume s: "mutation_create marshal m0 d = Inr (mu, d1)" "memos_kept d1 d2" "memos_kept d3 d'"
      "case mm_MemoUpdate mu of None \<Rightarrow> d3 = d2 | Some u \<Rightarrow> up_ID u = mm_MemoID mu \<and> applyMemoUpdate marshal u d2 = Inr d3"
    have "db_user d1 = db_user d"
      using s(1) insert_memo_user
      by (auto simp: mutation_create_def insertSQLiteMemoCommentRelation_def Let_def result_simps split: option.splits prod.splits if_splits)
    moreover have "db_user d3 = db_user d2" using s(4) apply_update_user by (auto split: option.splits)
    ultimately show "db_user d' = db_user d" using s(2,3) by (auto simp: memos_kept_def people_kept_def)
  qed
qed

lemma memo_step_users_ok:
  assumes "memo_step d d'" "db_keys d" "users_ok d"
  shows "users_ok d'"
  using assms
proof (induction rule: memo_step.induct)
  case (people d d')
  then show ?case using store_step_users_ok by blast
next
  case (create_memo marshal c d m d')
  then have "insertSQLiteMemo marshal (the c) d = Inr (m, d')"
    by (auto simp: Store_CreateMemo_def DB_CreateMemo_def result_simps)
  then show ?case using insert_memo_user users_ok_same create_memo(3) by metis
next
  case (update_memo marshal u d d' p)
  then have "applyMemoUpdate marshal u d = Inr d'"
    by (auto simp: Store_UpdateMemo_def DB_UpdateMemo_def result_simps split: option.splits if_splits)
  then show ?case using apply_update_user users_ok_same update_memo(5) by blast
next
  case (rebuild_memo marshal u d d')
  then have "applyMemoUpdate marshal u d = Inr d'"
    by (auto simp: Store_UpdateMemo_def DB_UpdateMemo_def result_simps split: option.splits if_splits)
  then show ?case using apply_update_user users_ok_same rebuild_memo(5) by blast
next
  case (delete_memo ok k d r d')
  then have "db_user d' = db_user d"
    by (auto simp: Store_DeleteMemoWithPolicy_def DB_DeleteMemoWithPolicy_def deleteSQLiteMemoSetTx_def statement_simps Let_def
        split: option.splits if_splits sum.splits)
  then show ?case using users_ok_same delete_memo(3) by blast
next
  case (create_share c d sh d' p)
  then show ?case
    by (auto simp: users_ok_def Store_CreateMemoShare_def DB_CreateMemoShare_def createSQLiteMemoShare_def Let_def result_simps split: option.splits if_splits)
next
  case (delete_share k d d')
  then show ?case
    by (auto simp: users_ok_def Store_DeleteMemoShare_def DB_DeleteMemoShare_def Let_def result_simps
        split: option.splits if_splits)
next
  case (upsert_reaction r d r' d')
  then show ?case using upsert_reaction_kept users_ok_same by (metis memos_kept_def people_kept_def)
next
  case (delete_reaction k d d')
  then show ?case using delete_reaction_kept users_ok_same by (metis memos_kept_def people_kept_def)
next
  case (mutate marshal ok mutation d mutation' d')
  then show ?case using mutation_user users_ok_same by blast
next
  case (comment marshal ok c k actor d m d')
  then show ?case using comment_as_mutation [OF comment(1)] mutation_user users_ok_same by metis
qed

lemma memo_reachable_users_ok: "memo_reachable d \<Longrightarrow> users_ok d"
proof (induction rule: rtranclp_induct)
  case base
  show ?case by (simp add: users_ok_def empty_db_def)
next
  case (step d e)
  then show ?case using memo_step_users_ok memo_reachable_ok by (auto simp: store_ok_def)
qed

lemma reachable_creator_valid:
  assumes "memo_reachable d" "m \<in> set (db_memo d)"
  shows "creator_valid d m"
proof -
  have "m_CreatorID m \<in> set (map u_ID (db_user d))"
    using memo_reachable_ok [OF assms(1)] assms(2) by (auto simp: store_ok_def memos_ok_def memo_ok_def)
  then show ?thesis
    using memo_reachable_users_ok [OF assms(1)] by (fastforce simp: creator_valid_def users_ok_def)
qed

section \<open>The right to read\<close>

abbreviation may_read :: "db \<Rightarrow> User \<Rightarrow> string Memo \<Rightarrow> bool" where
  "may_read d v m \<equiv> Allowed (CheckMemoReadContext (read_context d m (Some v) False None))"

lemma sqliteSpaceMemberActive_iff:
  "sqliteSpaceMemberActive d sid uid \<longleftrightarrow>
     (\<exists>sm \<in> set (db_space_member d). member_is sid uid SpaceMemberStatusActive sm \<and> IsActiveMember (sm_role sm))"
proof -
  let ?rows = "filter (\<lambda>sm. member_is sid uid SpaceMemberStatusActive sm \<and> IsActiveMember (sm_role sm)) (db_space_member d)"
  have "sqliteSpaceMemberActive d sid uid \<longleftrightarrow> ?rows \<noteq> []"
    using first_row_in [of "map sm_role ?rows"] unfolding sqliteSpaceMemberActive_def
    by (cases "first_row (map sm_role ?rows)") auto
  then show ?thesis by (auto simp: filter_empty_conv)
qed

lemma may_read_iff:
  assumes "creator_valid d m" "v \<in> set (db_user d)" "u_RowStatus v = Normal"
  shows "may_read d v m \<longleftrightarrow>
    (m_Visibility m = Public \<or> m_Visibility m = Protected \<or> m_Visibility m = Private \<and> m_CreatorID m = u_ID v
     \<or> m_Visibility m = SpaceAudience
       \<and> (\<exists>sid. m_SpaceID m = Some sid \<and> space_exists d sid \<and> sqliteSpaceMemberActive d sid (u_ID v)))
    \<and> (m_RowStatus m = Normal \<or> m_RowStatus m = Archived \<and> m_CreatorID m = u_ID v)"
proof -
  have active: "user_normal d (u_ID v)" using assms(2,3) by (auto simp: user_normal_def)
  have m: "ctx_Memo (read_context d m (Some v) False None) = Some m" by (simp add: read_context_def)
  show ?thesis
    unfolding Allowed_iff [OF m] using assms(1,3) active
    by (auto simp: memo_readable_def audience_denial_def share_applies_def read_context_def viewer_active_def
        viewer_is_author_def placement_valid_def viewer_member_def active_member_of_def sqliteSpaceMemberActive_iff
        split: option.splits)
qed

lemma endpoint_read_iff:
  assumes "0 < m_ID m" "u_RowStatus v = Normal"
  shows "ValidateMemoRelationEndpointRead (Some (endpoint_snapshot d (u_ID v) (u_RowStatus v) m)) = Inr () \<longleftrightarrow>
    (m_Visibility m = Public \<or> m_Visibility m = Protected \<or> m_Visibility m = Private \<and> m_CreatorID m = u_ID v
     \<or> m_Visibility m = SpaceAudience
       \<and> (\<exists>sid. m_SpaceID m = Some sid \<and> space_exists d sid \<and> sqliteSpaceMemberActive d sid (u_ID v)))
    \<and> (m_RowStatus m = Normal \<or> m_RowStatus m = Archived \<and> m_CreatorID m = u_ID v)"
  using assms
  by (auto simp: ValidateMemoRelationEndpointRead_def endpoint_snapshot_def isValidVisibility_def split: option.splits if_splits)



lemma actor_row:
  assumes "db_keys d" "user_status d actor = Some Normal"
  obtains v where "v \<in> set (db_user d)" "u_ID v = actor" "u_RowStatus v = Normal"
  using assms user_status_iff [of d actor Normal] by (auto simp: db_keys_def)



lemma filter_unique_key:
  "distinct (map f xs) \<Longrightarrow> x \<in> set xs \<Longrightarrow> filter (\<lambda>y. f y = f x) xs = [x]"
proof (induction xs)
  case (Cons a xs)
  then show ?case by (cases "a = x") (auto simp: filter_empty_conv image_iff)
qed simp

lemma no_memo_set_id: "no_memo_set u \<Longrightarrow> memo_set None u m = m"
  by (simp add: no_memo_set_def memo_set_def set_opt_def)

lemma applyMemoUpdate_rows:
  assumes "applyMemoUpdate marshal u d = Inr d'"
  shows "\<exists>payload. d' = d\<lparr>db_memo := map (\<lambda>r. if m_ID r = up_ID u then memo_set payload u r else r) (db_memo d)\<rparr>
    \<and> (payload = None \<longleftrightarrow> up_Payload u = None)"
proof (cases "no_memo_set u")
  case True
  then have "d' = d" "up_Payload u = None"
    using assms by (auto simp: applyMemoUpdate_def no_memo_set_def result_simps)
  then show ?thesis by (intro exI [of _ None]) (simp add: no_memo_set_id [OF True] cong: if_cong)
next
  case False
  then show ?thesis using assms
    by (auto simp: applyMemoUpdate_def Let_def result_simps update_rows_def split: if_splits option.splits sum.splits)
qed

lemma lifecycle_update:
  assumes "isLifecycleOnlyMemoUpdate (Some u)" "placed_space (Some u) m \<noteq> m_SpaceID m" "payload = None \<longleftrightarrow> up_Payload u = None"
  shows "m_SpaceID (memo_set payload u m) \<noteq> m_SpaceID m
    \<and> memo_set payload u m = m\<lparr>m_Visibility := m_Visibility (memo_set payload u m), m_SpaceID := m_SpaceID (memo_set payload u m)\<rparr>"
proof -
  have n: "up_UID u = None" "up_CreatedTs u = None" "up_UpdatedTs u = None" "up_RowStatus u = None" "up_Content u = None"
    "up_Pinned u = None" "payload = None" and one: "\<not> (up_ClearSpace u \<and> up_SpaceID u \<noteq> None)"
    using assms(1,3) by (simp_all add: isLifecycleOnlyMemoUpdate_def split: if_splits)
  show ?thesis
    using assms(2) memo_set_placed(1) [OF one] by (simp add: memo_set_def n set_opt_def)
qed

definition delete_can_read :: "db \<Rightarrow> string Memo \<Rightarrow> bool" where
  "delete_can_read d m =
     MemoDeleteActorCanRead (m_RowStatus m) (m_Visibility m) (m_SpaceID m)
       (case m_SpaceID m of None \<Rightarrow> False | Some sid \<Rightarrow> space_exists d sid)
       (case m_SpaceID m of None \<Rightarrow> False | Some sid \<Rightarrow> space_exists d sid \<and> sqliteSpaceMemberActive d sid (m_CreatorID m))"

lemma Store_DeleteMemoWithPolicy_D:
  assumes "Store_DeleteMemoWithPolicy ok (Some (memoID, actor)) d = Inr (r, d')"
  obtains m where "user_status d actor = Some Normal" "memo_row d memoID = Some m" "m_CreatorID m = actor"
    "deleteSQLiteMemoSetTx ok [memoID] d = Inr (dmr_Attachments r, d')" "dmr_ActorCanRead r = delete_can_read d m"
proof -
  from assms obtain m where st: "user_status d actor = Some Normal" and m: "memo_row d memoID = Some m" "m_CreatorID m = actor"
    by (auto simp: Store_DeleteMemoWithPolicy_def DB_DeleteMemoWithPolicy_def split: if_splits option.splits)
  show thesis
    using assms that [OF st m]
    by (auto simp: Store_DeleteMemoWithPolicy_def DB_DeleteMemoWithPolicy_def st m delete_can_read_def Let_def
        split: if_splits sum.splits option.splits)
qed

lemma delete_can_read_iff:
  assumes "m_CreatorID m = u_ID v"
  shows "delete_can_read d m \<longleftrightarrow>
    (m_Visibility m = Public \<or> m_Visibility m = Protected \<or> m_Visibility m = Private \<and> m_CreatorID m = u_ID v
     \<or> m_Visibility m = SpaceAudience
       \<and> (\<exists>sid. m_SpaceID m = Some sid \<and> space_exists d sid \<and> sqliteSpaceMemberActive d sid (u_ID v)))
    \<and> (m_RowStatus m = Normal \<or> m_RowStatus m = Archived \<and> m_CreatorID m = u_ID v)"
  using assms by (auto simp: delete_can_read_def MemoDeleteActorCanRead_def split: option.splits)

lemma delete_one_memo:
  assumes "db_keys d" "deleteSQLiteMemoSetTx ok [i] d = Inr (as, d')"
  shows "set as = {a \<in> set (db_attachment d). at_MemoID a = Some i}
    \<and> d' = d\<lparr>db_memo_share := filter (\<lambda>sh. sh_memo_id sh \<noteq> i) (db_memo_share d),
             db_memo := filter (\<lambda>m. m_ID m \<noteq> i) (db_memo d),
             db_reaction := filter (\<lambda>r. re_memo_id r \<noteq> i) (db_reaction d),
             db_attachment := filter (\<lambda>a. at_MemoID a \<noteq> Some i) (db_attachment d),
             db_memo_relation := filter (\<lambda>r. rel_memo_id r \<noteq> i \<and> rel_related_memo_id r \<noteq> i) (db_memo_relation d)\<rparr>"
proof -
  from assms(2) have as: "listSQLiteMemoSetAttachments ok d [i] = Inr as"
    by (auto simp: deleteSQLiteMemoSetTx_def Let_def split: sum.splits)
  have sp: "set as = {a \<in> set (db_attachment d). at_MemoID a = Some i}"
    using listSQLiteMemoSetAttachments_spec [OF db_keys_distinct(1) [OF assms(1)] as] by auto
  have "filter (\<lambda>a. at_ID a \<notin> at_ID ` set as) (db_attachment d) = filter (\<lambda>a. \<not> at_MemoID a = Some i) (db_attachment d)"
    using filter_by_id [OF db_keys_distinct(1) [OF assms(1)], of "map at_ID as" "\<lambda>a. at_MemoID a = Some i"] sp by simp
  then show ?thesis
    using assms(2) sp by (simp add: deleteSQLiteMemoSetTx_def as Let_def statement_simps attachmentIDsFromList_def)
qed

abbreviation other_relations :: "int32 \<Rightarrow> db \<Rightarrow> MemoRelation list" where
  "other_relations i d \<equiv> filter (\<lambda>r. rel_type r = MemoRelationComment \<or> rel_memo_id r \<noteq> i) (db_memo_relation d)"

lemma insert_references_exact:
  "insert_references i rs d = Inr d' \<Longrightarrow>
    other_relations i d' = other_relations i d
    \<and> set (db_memo_relation d') = set (db_memo_relation d) \<union> {r. Some r \<in> set rs}
    \<and> {r. Some r \<in> set rs} \<subseteq> {r. rel_memo_id r = i \<and> rel_type r = MemoRelationReference}"
proof (induction i rs d rule: insert_references.induct)
  case (3 i r rs d)
  then have r: "rel_memo_id r = i" "rel_type r = MemoRelationReference"
    and ins: "insert_references i rs (upsert_relation r d) = Inr d'" by (auto split: if_splits)
  have up: "set (db_memo_relation (upsert_relation r d)) = insert r (set (db_memo_relation d))"
    "other_relations i (upsert_relation r d) = other_relations i d"
    using r by (simp_all add: upsert_relation_def insert_absorb)
  have rs: "{x. Some x \<in> set (Some r # rs)} = insert r {x. Some x \<in> set rs}" by auto
  show ?case
    using "3.IH" [OF _ ins] r unfolding up rs by simp
qed simp_all

lemma replace_references_exact:
  assumes "replaceMemoReferenceRelations i rs d = Inr d'"
  shows "other_relations i d' = other_relations i d
    \<and> {r \<in> set (db_memo_relation d'). rel_memo_id r = i \<and> rel_type r = MemoRelationReference} = {r. Some r \<in> set rs}"
proof -
  let ?d = "d\<lparr>db_memo_relation := filter (\<lambda>r. \<not> (rel_memo_id r = i \<and> rel_type r = MemoRelationReference)) (db_memo_relation d)\<rparr>"
  note ins = insert_references_exact [OF assms [unfolded replaceMemoReferenceRelations_def]]
  have "other_relations i ?d = other_relations i d"
    by (simp, rule filter_cong) auto
  then show ?thesis using ins by auto
qed

lemma validate_endpoints_D:
  "validate_endpoints d actor st ids = Inr () \<Longrightarrow> i \<in> set ids \<Longrightarrow>
    \<exists>m. memo_row d i = Some m \<and> ValidateMemoRelationEndpointRead (Some (endpoint_snapshot d actor st m)) = Inr ()"
  by (induction ids) (auto simp: result_simps split: option.splits)

lemma endpoints_readable:
  assumes "memo_reachable d" "validateSQLiteMemoRelationEndpoints d mutation = Inr ()" "mm_ReplaceReferenceRelations mutation"
  shows "\<exists>v \<in> set (db_user d). u_ID v = mm_MemoCreatorID mutation
    \<and> {rel_related_memo_id r | r. Some r \<in> set (mm_ReferenceRelations mutation)}
        \<subseteq> {m_ID m | m. m \<in> set (db_memo d) \<and> may_read d v m}"
proof -
  let ?actor = "mm_MemoCreatorID mutation"
  have keys: "db_keys d" using memo_reachable_ok [OF assms(1)] by (simp add: store_ok_def)
  obtain st where st: "user_status d ?actor = Some st"
    and ends: "validate_endpoints d ?actor st (sqliteRelationAuthorizationEndpointIDs mutation) = Inr ()"
    using assms(2,3) by (auto simp: validateSQLiteMemoRelationEndpoints_def split: option.splits)
  obtain v where v: "v \<in> set (db_user d)" "u_ID v = ?actor" "u_RowStatus v = st"
    using st user_status_iff [of d ?actor st] keys by (auto simp: db_keys_def)
  have "rel_related_memo_id r \<in> {m_ID m | m. m \<in> set (db_memo d) \<and> may_read d v m}"
    if r: "Some r \<in> set (mm_ReferenceRelations mutation)" for r
  proof -
    have "rel_related_memo_id r \<in> set (sqliteRelationAuthorizationEndpointIDs mutation)"
      using r by (force simp: sqliteRelationAuthorizationEndpointIDs_def Let_def)
    then obtain m where m: "memo_row d (rel_related_memo_id r) = Some m"
      and ok: "ValidateMemoRelationEndpointRead (Some (endpoint_snapshot d ?actor st m)) = Inr ()"
      using validate_endpoints_D [OF ends] by blast
    have row: "m \<in> set (db_memo d)" "m_ID m = rel_related_memo_id r" using memo_row_Some [OF m] by simp_all
    have act: "u_RowStatus v = Normal" "0 < m_ID m"
      using ok v(3) by (auto simp: ValidateMemoRelationEndpointRead_def endpoint_snapshot_def split: if_splits)
    have "may_read d v m"
      using ok endpoint_read_iff [OF act(2,1), of d] may_read_iff [OF reachable_creator_valid [OF assms(1) row(1)] v(1) act(1)] v
      by simp
    then show ?thesis using row by force
  qed
  then show ?thesis using v by blast
qed

lemma bind_attachments_relations: "bind_attachments i c bs d = Inr d' \<Longrightarrow> db_memo_relation d' = db_memo_relation d"
  by (induction i c bs d rule: bind_attachments.induct) (auto split: option.splits if_splits)

lemma delete_removed_relations: "delete_removed i as d = Inr d' \<Longrightarrow> db_memo_relation d' = db_memo_relation d"
  by (induction i as d rule: delete_removed.induct) (auto simp: Let_def split: if_splits)

lemma apply_update_relations: "applyMemoUpdate marshal u d = Inr d' \<Longrightarrow> db_memo_relation d' = db_memo_relation d"
  by (erule applyMemoUpdate_cases) simp_all

text \<open>The steps of a mutation that creates no memo.\<close>

lemma DB_plain_mutation_D:
  assumes "DB_ApplyMemoMutation marshal ok mu d = Inr (mutation', d')" "mm_MemoCreate mu = None"
  obtains removed d1 d2 d3 where
    "validateSQLiteMemoRelationEndpoints d mu = Inr ()" "mutation_current ok mu d = Inr removed"
    "bind_attachments (mm_MemoID mu) (mm_MemoCreatorID mu) (mm_Bindings mu) d = Inr d1"
    "delete_removed (mm_MemoID mu) removed d1 = Inr d2"
    "\<forall>i \<in> set (mm_RequiredAttachmentIDs mu). \<exists>a \<in> set (db_attachment d2). at_ID a = i \<and> at_MemoID a = Some (mm_MemoID mu)"
    "d3 = d2 \<or> (\<exists>u. mm_MemoUpdate mu = Some u \<and> applyMemoUpdate marshal u d2 = Inr d3)"
    "if mm_ReplaceReferenceRelations mu
     then replaceMemoReferenceRelations (mm_MemoID mu) (mm_ReferenceRelations mu) d3 = Inr d' else d' = d3"
proof -
  have create: "mutation_create marshal mu d = Inr (mu, d)" using assms(2) by (simp add: mutation_create_def)
  from assms(1) obtain removed d1 d2 d3 where
    1: "validateSQLiteMemoRelationEndpoints d mu = Inr ()" "mutation_current ok mu d = Inr removed"
      "bind_attachments (mm_MemoID mu) (mm_MemoCreatorID mu) (mm_Bindings mu) d = Inr d1"
      "delete_removed (mm_MemoID mu) removed d1 = Inr d2"
    and 2: "\<not> (\<exists>i \<in> set (mm_RequiredAttachmentIDs mu). \<not> (\<exists>a \<in> set (db_attachment d2). at_ID a = i \<and> at_MemoID a = Some (mm_MemoID mu)))"
    and 3: "(case mm_MemoUpdate mu of None \<Rightarrow> Inr d2
        | Some u \<Rightarrow> if up_ID u \<noteq> mm_MemoID mu then Inl (NewError ''memo update target does not match attachment mutation'')
                    else applyMemoUpdate marshal u d2) = Inr d3"
    and 4: "(if mm_ReplaceReferenceRelations mu then replaceMemoReferenceRelations (mm_MemoID mu) (mm_ReferenceRelations mu) d3
             else Inr d3) = Inr d'"
    unfolding DB_ApplyMemoMutation_def
    by (auto simp: create bindE_Inr_iff simp del: split_paired_Ex split: if_split_asm)
  have "d3 = d2 \<or> (\<exists>u. mm_MemoUpdate mu = Some u \<and> applyMemoUpdate marshal u d2 = Inr d3)"
    using 3 by (cases "mm_MemoUpdate mu") (simp_all split: if_splits)
  moreover have "if mm_ReplaceReferenceRelations mu
     then replaceMemoReferenceRelations (mm_MemoID mu) (mm_ReferenceRelations mu) d3 = Inr d' else d' = d3"
    using 4 by (simp split: if_splits)
  ultimately show thesis using that 1 2 by blast
qed

lemma plain_mutation_D:
  assumes "Store_ApplyMemoMutation marshal ok (Some mutation) d = Inr (mutation', d')" "mm_MemoCreate mutation = None"
  obtains removed d1 d2 d3 where
    "validateSQLiteMemoRelationEndpoints d mutation = Inr ()"
    "mutation_current ok (mutation\<lparr>mm_RemovedAttachmentIDs := sort (mm_RemovedAttachmentIDs mutation)\<rparr>) d = Inr removed"
    "bind_attachments (mm_MemoID mutation) (mm_MemoCreatorID mutation) (mm_Bindings mutation) d = Inr d1"
    "delete_removed (mm_MemoID mutation) removed d1 = Inr d2"
    "\<forall>i \<in> set (mm_RequiredAttachmentIDs mutation). \<exists>a \<in> set (db_attachment d2). at_ID a = i \<and> at_MemoID a = Some (mm_MemoID mutation)"
    "d3 = d2 \<or> (\<exists>u. mm_MemoUpdate mutation = Some u \<and> applyMemoUpdate marshal u d2 = Inr d3)"
    "if mm_ReplaceReferenceRelations mutation
     then replaceMemoReferenceRelations (mm_MemoID mutation) (mm_ReferenceRelations mutation) d3 = Inr d' else d' = d3"
    "check_removed None (sort (mm_RemovedAttachmentIDs mutation)) = Inr ()"
proof -
  let ?mu = "mutation\<lparr>mm_RemovedAttachmentIDs := sort (mm_RemovedAttachmentIDs mutation)\<rparr>"
  have db: "DB_ApplyMemoMutation marshal ok ?mu d = Inr (mutation', d')"
    and chk: "check_removed None (sort (mm_RemovedAttachmentIDs mutation)) = Inr ()"
    using assms by (auto simp: Store_ApplyMemoMutation_def Let_def result_simps split: if_splits)
  have ends: "validateSQLiteMemoRelationEndpoints d ?mu = validateSQLiteMemoRelationEndpoints d mutation"
    by (simp add: validateSQLiteMemoRelationEndpoints_def sqliteRelationAuthorizationEndpointIDs_def Let_def split: option.split)
  have "mm_MemoCreate ?mu = None" using assms(2) by simp
  then show thesis
  proof (rule DB_plain_mutation_D [OF db])
    fix removed d1 d2 d3
    assume "validateSQLiteMemoRelationEndpoints d ?mu = Inr ()" "mutation_current ok ?mu d = Inr removed"
      "bind_attachments (mm_MemoID ?mu) (mm_MemoCreatorID ?mu) (mm_Bindings ?mu) d = Inr d1"
      "delete_removed (mm_MemoID ?mu) removed d1 = Inr d2"
      "\<forall>i \<in> set (mm_RequiredAttachmentIDs ?mu). \<exists>a \<in> set (db_attachment d2). at_ID a = i \<and> at_MemoID a = Some (mm_MemoID ?mu)"
      "d3 = d2 \<or> (\<exists>u. mm_MemoUpdate ?mu = Some u \<and> applyMemoUpdate marshal u d2 = Inr d3)"
      "if mm_ReplaceReferenceRelations ?mu
       then replaceMemoReferenceRelations (mm_MemoID ?mu) (mm_ReferenceRelations ?mu) d3 = Inr d' else d' = d3"
    then show thesis
      by (intro that [of removed d1 d2 d3]) (use chk in \<open>simp_all add: ends split: if_split_asm\<close>)
  qed
qed

section \<open>Attachments of a mutation\<close>

abbreviation other_attachments :: "int32 \<Rightarrow> db \<Rightarrow> Attachment list" where
  "other_attachments i d \<equiv> filter (\<lambda>a. at_MemoID a \<notin> {None, Some i}) (db_attachment d)"

lemma apply_update_attachments: "applyMemoUpdate marshal u d = Inr d' \<Longrightarrow> db_attachment d' = db_attachment d"
  by (erule applyMemoUpdate_cases) simp_all

lemma insert_references_attachments: "insert_references i rs d = Inr d' \<Longrightarrow> db_attachment d' = db_attachment d"
  by (induction i rs d rule: insert_references.induct) (auto simp: upsert_relation_def split: if_splits)

lemma replace_references_attachments: "replaceMemoReferenceRelations i rs d = Inr d' \<Longrightarrow> db_attachment d' = db_attachment d"
  unfolding replaceMemoReferenceRelations_def by (drule insert_references_attachments) simp

lemma filter_update_rows:
  assumes "\<And>r. r \<in> set rs \<Longrightarrow> p r \<Longrightarrow> \<not> Q r \<and> \<not> Q (f r)"
  shows "filter Q (update_rows p f rs) = filter Q rs"
  using assms by (induction rs) auto

lemma filter_weaken:
  assumes "filter Q xs = filter Q ys" "\<And>x. P x \<Longrightarrow> Q x"
  shows "filter P xs = filter P ys"
proof -
  have "filter P (filter Q zs) = filter P zs" for zs using assms(2) by (induction zs) auto
  then show ?thesis using assms(1) by metis
qed

lemma first_row_unique:
  assumes "distinct (map k xs)" "first_row (filter (\<lambda>x. k x = i) xs) = Some a" "x \<in> set xs" "k x = i"
  shows "x = a"
  using assms first_row_in [OF assms(2)] by (auto simp: distinct_map inj_on_def)

lemma bind_attachments_exact:
  "bind_attachments i c bs d = Inr d' \<Longrightarrow> distinct (map at_ID (db_attachment d)) \<Longrightarrow>
    other_attachments i d' = other_attachments i d \<and> distinct (map at_ID (db_attachment d'))"
proof (induction i c bs d rule: bind_attachments.induct)
  case (3 i c b bs d)
  let ?e = "d\<lparr>db_attachment := update_rows (\<lambda>a. at_ID a = mab_ID b) (\<lambda>a. a\<lparr>at_MemoID := Some i\<rparr>) (db_attachment d),
     db_attachment_file := update_rows (\<lambda>f. af_id f = mab_ID b) (\<lambda>f. f\<lparr>af_UpdatedTs := mab_UpdatedTs b\<rparr>) (db_attachment_file d)\<rparr>"
  from 3(2) obtain a where a: "first_row (filter (\<lambda>a. at_ID a = mab_ID b) (db_attachment d)) = Some a"
    and free: "at_MemoID a \<in> {None, Some i}" and rest: "bind_attachments i c bs ?e = Inr d'"
    by (auto split: option.splits if_splits)
  have own: "\<not> (at_MemoID x \<notin> {None, Some i})" if "x \<in> set (db_attachment d)" "at_ID x = mab_ID b" for x
    using first_row_unique [OF 3(3) a that] free by simp
  have e: "other_attachments i ?e = other_attachments i d"
    by (simp, rule filter_update_rows) (use own in auto)
  have "map at_ID (db_attachment ?e) = map at_ID (db_attachment d)"
    by (simp add: update_rows_key)
  then show ?case
    using "3.IH" [OF a _ _ rest] 3(2,3) a e by (auto split: if_splits)
qed simp_all

lemma delete_removed_exact:
  "delete_removed i as d = Inr d' \<Longrightarrow> distinct (map at_ID (db_attachment d)) \<Longrightarrow>
    other_attachments i d' = other_attachments i d
    \<and> {at_ID a | a. a \<in> set (db_attachment d')} \<inter> at_ID ` set as = {} \<and> set (db_attachment d') \<subseteq> set (db_attachment d)"
proof (induction i as d rule: delete_removed.induct)
  case (2 i a as d)
  let ?gone = "\<lambda>r. at_ID r = at_ID a \<and> at_MemoID r = Some i"
  let ?e = "d\<lparr>db_attachment := filter (\<lambda>r. \<not> ?gone r) (db_attachment d)\<rparr>"
  have one: "length (filter ?gone (db_attachment d)) = 1" and rest: "delete_removed i as ?e = Inr d'"
    using 2(2) by (auto simp: Let_def split: if_splits)
  have "filter ?gone (db_attachment d) \<noteq> []" using one by auto
  then obtain x where x: "x \<in> set (db_attachment d)" "?gone x" by (auto simp: filter_empty_conv)
  have all: "?gone y" if "y \<in> set (db_attachment d)" "at_ID y = at_ID a" for y
    using 2(3) x that by (auto simp: distinct_map inj_on_def)
  have e: "other_attachments i ?e = other_attachments i d" by (simp, rule filter_cong) auto
  have none: "at_ID a \<notin> at_ID ` set (db_attachment ?e)" using all by auto
  have "distinct (map at_ID (db_attachment ?e))" using 2(3) by (simp add: distinct_map_filter)
  then have ih: "other_attachments i d' = other_attachments i ?e" "{at_ID a | a. a \<in> set (db_attachment d')} \<inter> at_ID ` set as = {}"
    "set (db_attachment d') \<subseteq> set (db_attachment ?e)"
    using "2.IH" [OF _ _ rest] one by simp_all
  show ?case using ih e none by auto
qed simp

text \<open>The attachments that a list of bindings names, and the frame of the writes: only these are bound, their
  file rows are given another time, and they were attachments of the memo or free ones of its author.\<close>

abbreviation bound_ids :: "MemoAttachmentBinding option list \<Rightarrow> int32 set" where
  "bound_ids bs \<equiv> {mab_ID b | b. Some b \<in> set bs}"

lemma bound_ids_Cons: "bound_ids (Some b # bs) = insert (mab_ID b) (bound_ids bs)"
  by auto

lemma bind_attachments_frame:
  "bind_attachments i c bs d = Inr d' \<Longrightarrow>
    filter (\<lambda>a. at_ID a \<notin> bound_ids bs \<union> S) (db_attachment d') = filter (\<lambda>a. at_ID a \<notin> bound_ids bs \<union> S) (db_attachment d)
    \<and> map (\<lambda>a. a\<lparr>at_MemoID := None\<rparr>) (db_attachment d') = map (\<lambda>a. a\<lparr>at_MemoID := None\<rparr>) (db_attachment d)
    \<and> filter (\<lambda>f. af_id f \<notin> bound_ids bs) (db_attachment_file d') = filter (\<lambda>f. af_id f \<notin> bound_ids bs) (db_attachment_file d)
    \<and> map (\<lambda>f. f\<lparr>af_UpdatedTs := 0\<rparr>) (db_attachment_file d') = map (\<lambda>f. f\<lparr>af_UpdatedTs := 0\<rparr>) (db_attachment_file d)"
proof (induction i c bs d rule: bind_attachments.induct)
  case (3 i c b bs d)
  let ?e = "d\<lparr>db_attachment := update_rows (\<lambda>a. at_ID a = mab_ID b) (\<lambda>a. a\<lparr>at_MemoID := Some i\<rparr>) (db_attachment d),
     db_attachment_file := update_rows (\<lambda>f. af_id f = mab_ID b) (\<lambda>f. f\<lparr>af_UpdatedTs := mab_UpdatedTs b\<rparr>) (db_attachment_file d)\<rparr>"
  from 3(2) obtain a where a: "first_row (filter (\<lambda>a. at_ID a = mab_ID b) (db_attachment d)) = Some a"
    and ok: "\<not> (mab_WasBoundToMemo b \<and> at_MemoID a \<noteq> Some i)" "\<not> (\<not> mab_WasBoundToMemo b \<and> (at_CreatorID a \<noteq> c \<or> at_MemoID a \<noteq> None))"
    and rest: "bind_attachments i c bs ?e = Inr d'"
    by (auto split: option.splits if_splits)
  note ih = "3.IH" [OF a ok rest]
  have "filter (\<lambda>a. at_ID a \<notin> bound_ids (Some b # bs) \<union> S) (db_attachment d') = filter (\<lambda>a. at_ID a \<notin> bound_ids (Some b # bs) \<union> S) (db_attachment ?e)"
    by (rule filter_weaken [OF ih [THEN conjunct1]]) (simp add: bound_ids_Cons)
  moreover have "\<dots> = filter (\<lambda>a. at_ID a \<notin> bound_ids (Some b # bs) \<union> S) (db_attachment d)"
    by (simp, rule filter_update_rows) auto
  moreover have "filter (\<lambda>f. af_id f \<notin> bound_ids (Some b # bs)) (db_attachment_file d') = filter (\<lambda>f. af_id f \<notin> bound_ids (Some b # bs)) (db_attachment_file ?e)"
    by (rule filter_weaken [OF ih [THEN conjunct2, THEN conjunct2, THEN conjunct1]]) (simp add: bound_ids_Cons)
  moreover have "\<dots> = filter (\<lambda>f. af_id f \<notin> bound_ids (Some b # bs)) (db_attachment_file d)"
    by (simp, rule filter_update_rows) auto
  moreover have "map (\<lambda>a. a\<lparr>at_MemoID := None\<rparr>) (db_attachment ?e) = map (\<lambda>a. a\<lparr>at_MemoID := None\<rparr>) (db_attachment d)"
    "map (\<lambda>f. f\<lparr>af_UpdatedTs := 0\<rparr>) (db_attachment_file ?e) = map (\<lambda>f. f\<lparr>af_UpdatedTs := 0\<rparr>) (db_attachment_file d)"
    by (simp_all add: update_rows_key)
  ultimately show ?case using ih by simp
qed simp_all

lemma bind_attachments_own:
  "bind_attachments i c bs d = Inr d' \<Longrightarrow> distinct (map at_ID (db_attachment d)) \<Longrightarrow>
    bound_ids bs \<subseteq> {at_ID a | a. a \<in> set (db_attachment d) \<and> (at_MemoID a = Some i \<or> at_MemoID a = None \<and> at_CreatorID a = c)}"
proof (induction i c bs d rule: bind_attachments.induct)
  case (3 i c b bs d)
  let ?e = "d\<lparr>db_attachment := update_rows (\<lambda>a. at_ID a = mab_ID b) (\<lambda>a. a\<lparr>at_MemoID := Some i\<rparr>) (db_attachment d),
     db_attachment_file := update_rows (\<lambda>f. af_id f = mab_ID b) (\<lambda>f. f\<lparr>af_UpdatedTs := mab_UpdatedTs b\<rparr>) (db_attachment_file d)\<rparr>"
  let ?free = "\<lambda>a. at_MemoID a = Some i \<or> at_MemoID a = None \<and> at_CreatorID a = c"
  from 3(2) obtain a where a: "first_row (filter (\<lambda>a. at_ID a = mab_ID b) (db_attachment d)) = Some a"
    and ok: "\<not> (mab_WasBoundToMemo b \<and> at_MemoID a \<noteq> Some i)" "\<not> (\<not> mab_WasBoundToMemo b \<and> (at_CreatorID a \<noteq> c \<or> at_MemoID a \<noteq> None))"
    and rest: "bind_attachments i c bs ?e = Inr d'"
    by (auto split: option.splits if_splits)
  have mine: "a \<in> set (db_attachment d)" "at_ID a = mab_ID b" "?free a" using first_row_in [OF a] ok by auto
  have "map at_ID (db_attachment ?e) = map at_ID (db_attachment d)" by (simp add: update_rows_key)
  then have "bound_ids bs \<subseteq> {at_ID a | a. a \<in> set (db_attachment ?e) \<and> ?free a}" using "3.IH" [OF a ok rest] 3(3) by simp
  also have "\<dots> \<subseteq> {at_ID a | a. a \<in> set (db_attachment d) \<and> ?free a}"
  proof (rule subsetI, elim CollectE exE conjE)
    fix j x
    assume x: "j = at_ID x" "x \<in> set (db_attachment ?e)" "?free x"
    then obtain y where y: "y \<in> set (db_attachment d)" "x = (if at_ID y = mab_ID b then y\<lparr>at_MemoID := Some i\<rparr> else y)" by auto
    then have "j = at_ID y" "at_ID y \<noteq> mab_ID b \<Longrightarrow> ?free y" using x by auto
    then show "j \<in> {at_ID a | a. a \<in> set (db_attachment d) \<and> ?free a}"
      using mine y(1) by (cases "at_ID y = mab_ID b") (simp_all, metis+)
  qed
  finally have "bound_ids bs \<subseteq> {at_ID a | a. a \<in> set (db_attachment d) \<and> ?free a}" .
  moreover have "mab_ID b \<in> {at_ID a | a. a \<in> set (db_attachment d) \<and> ?free a}" using mine by (intro CollectI exI [of _ a]) simp
  ultimately show ?case unfolding bound_ids_Cons by (simp only: insert_subset simp_thms)
qed simp_all

lemma delete_removed_frame:
  "delete_removed i as d = Inr d' \<Longrightarrow> db_attachment_file d' = db_attachment_file d
    \<and> filter (\<lambda>a. at_ID a \<notin> at_ID ` set as) (db_attachment d') = filter (\<lambda>a. at_ID a \<notin> at_ID ` set as) (db_attachment d)"
proof (induction i as d rule: delete_removed.induct)
  case (2 i a as d)
  let ?gone = "\<lambda>r. at_ID r = at_ID a \<and> at_MemoID r = Some i"
  let ?e = "d\<lparr>db_attachment := filter (\<lambda>r. \<not> ?gone r) (db_attachment d)\<rparr>"
  have one: "length (filter ?gone (db_attachment d)) = 1" and rest: "delete_removed i as ?e = Inr d'"
    using 2(2) by (auto simp: Let_def split: if_splits)
  have ih: "db_attachment_file d' = db_attachment_file d"
    "filter (\<lambda>a. at_ID a \<notin> at_ID ` set as) (db_attachment d') = filter (\<lambda>a. at_ID a \<notin> at_ID ` set as) (db_attachment ?e)"
    using "2.IH" [OF _ _ rest] one by simp_all
  have split: "filter (\<lambda>r. at_ID r \<notin> at_ID ` set (a # as)) xs = filter (\<lambda>r. at_ID r \<noteq> at_ID a) (filter (\<lambda>r. at_ID r \<notin> at_ID ` set as) xs)" for xs
    by (induction xs) auto
  have "filter (\<lambda>r. at_ID r \<noteq> at_ID a) (filter (\<lambda>r. at_ID r \<notin> at_ID ` set as) (db_attachment ?e))
      = filter (\<lambda>r. at_ID r \<noteq> at_ID a) (filter (\<lambda>r. at_ID r \<notin> at_ID ` set as) (db_attachment d))"
    by (simp, rule filter_cong) auto
  then show ?case using ih by (simp only: split)
qed simp

lemma apply_update_files: "applyMemoUpdate marshal u d = Inr d' \<Longrightarrow> db_attachment_file d' = db_attachment_file d"
  by (erule applyMemoUpdate_cases) simp_all

lemma insert_references_files: "insert_references i rs d = Inr d' \<Longrightarrow> db_attachment_file d' = db_attachment_file d"
  by (induction i rs d rule: insert_references.induct) (auto simp: upsert_relation_def split: if_splits)

lemma replace_references_files: "replaceMemoReferenceRelations i rs d = Inr d' \<Longrightarrow> db_attachment_file d' = db_attachment_file d"
  unfolding replaceMemoReferenceRelations_def by (drule insert_references_files) simp

lemma check_removed_distinct:
  "check_removed p ids = Inr () \<Longrightarrow> sorted ids \<Longrightarrow> \<forall>q i. p = Some q \<longrightarrow> i \<in> set ids \<longrightarrow> q \<le> i \<Longrightarrow>
    distinct ids \<and> (\<forall>q. p = Some q \<longrightarrow> q \<notin> set ids)"
proof (induction p ids rule: check_removed.induct)
  case (2 p i ids)
  have "distinct ids \<and> i \<notin> set ids" "p \<noteq> Some i"
    using 2 by (auto split: if_splits)
  moreover have "q \<notin> set ids" if "p = Some q" for q
    using 2(3,4) that \<open>p \<noteq> Some i\<close> by fastforce
  ultimately show ?case by auto
qed simp

lemma snapshots_of_concat:
  "(\<Union>b \<in> set bs. set (filter (\<lambda>a. at_ID a \<in> set b) as)) = {a \<in> set as. at_ID a \<in> set (concat bs)}"
  by auto

lemma snapshots_spec:
  assumes "listSQLiteAttachmentSnapshots ok d ids = Inr as" "distinct (map at_ID (db_attachment d))"
  shows "set as = {a \<in> set (db_attachment d). at_ID a \<in> set ids} \<and> distinct (map at_ID as)"
proof -
  have "set as = set [] \<union> (\<Union>b \<in> set (deleteUserBatches ids deleteUserBatchSize).
      set (sort_key at_ID (filter (\<lambda>a. at_ID a \<in> set b) (db_attachment d)))) \<and> distinct (map at_ID as)"
    by (rule append_batches_spec [OF assms(1) [unfolded listSQLiteAttachmentSnapshots_def] _ _ assms(2)]) auto
  then show ?thesis unfolding set_sort snapshots_of_concat concat_deleteUserBatches by simp
qed

lemma snapshots_complete:
  assumes "listSQLiteAttachmentSnapshots ok d ids = Inr as" "distinct (map at_ID (db_attachment d))"
    and "distinct ids" "length as = length ids"
  shows "at_ID ` set as = set ids"
proof -
  note s = snapshots_spec [OF assms(1,2)]
  have "card (at_ID ` set as) = card (set ids)"
    using s assms(3,4) by (metis distinct_card length_map set_map)
  then show ?thesis using s by (intro card_subset_eq) auto
qed

lemma mutation_current_removed:
  assumes "mutation_current ok mutation d = Inr removed" "distinct (map at_ID (db_attachment d))" "distinct (mm_RemovedAttachmentIDs mutation)"
  shows "at_ID ` set removed = set (mm_RemovedAttachmentIDs mutation)"
    "set removed \<subseteq> {a \<in> set (db_attachment d). at_CreatorID a = mm_MemoCreatorID mutation \<and> at_MemoID a = Some (mm_MemoID mutation)}"
proof -
  let ?ids = "mm_RemovedAttachmentIDs mutation"
  have list: "listSQLiteAttachmentSnapshots ok d ?ids = Inr removed" and len: "length removed = length ?ids"
    and own: "\<forall>a \<in> set removed. at_CreatorID a = mm_MemoCreatorID mutation \<and> at_MemoID a = Some (mm_MemoID mutation)"
    using assms(1) by (auto simp: mutation_current_def split: option.splits sum.splits if_splits)
  show "at_ID ` set removed = set ?ids"
    by (rule snapshots_complete [OF list assms(2,3) len])
  show "set removed \<subseteq> {a \<in> set (db_attachment d). at_CreatorID a = mm_MemoCreatorID mutation \<and> at_MemoID a = Some (mm_MemoID mutation)}"
    using snapshots_spec [OF list assms(2)] own by blast
qed

section \<open>A reachable database with memos\<close>

definition new_memo :: "string option Memo" where
  "new_memo = \<lparr>m_ID = 0, m_UID = ''note'', m_RowStatus = [], m_CreatorID = 1, m_CreatedTs = 0, m_UpdatedTs = 0,
     m_Content = ''hello'', m_Visibility = SpaceAudience, m_Pinned = False, m_Payload = Some [], m_SpaceID = Some 1\<rparr>"

definition sample_db3 :: db where
  "sample_db3 = sample_db2\<lparr>db_memo := [sample_memo], db_memo_seq := 1\<rparr>"

lemma sample_db3_created: "\<exists>m. Store_CreateMemo Inr (Some new_memo) sample_db2 = Inr (m, sample_db3)"
proof -
  have "(case Store_CreateMemo Inr (Some new_memo) sample_db2 of Inl _ \<Rightarrow> False | Inr (_, d) \<Rightarrow> d = sample_db3)"
    by code_simp
  then show ?thesis by (auto split: sum.splits)
qed

lemma store_reachable_memo: "store_reachable d \<Longrightarrow> memo_reachable d"
  by (erule rtranclp_mono [THEN predicate2D, rotated]) (auto intro: memo_step.people)

lemma sample_db3_reachable: "memo_reachable sample_db3"
proof -
  have "memo_reachable sample_db2" by (rule store_reachable_memo) (rule sample_reachable)
  moreover obtain m where "Store_CreateMemo Inr (Some new_memo) sample_db2 = Inr (m, sample_db3)"
    using sample_db3_created by blast
  ultimately show ?thesis by (meson memo_step.create_memo rtranclp.rtrancl_into_rtrancl)
qed

section \<open>Properties\<close>

text \<open>C22. In every database that \<open>memo_step\<close> reaches, each memo has an existing creator, one of the four audiences, one of
  the two lifecycle states, and a placement in a space that exists; a memo whose audience is \<open>SPACE\<close>
  is placed in a space and has no active share; every space keeps an active administrator and memo
  identifiers are unique. The steps are the operations on users and spaces, and those on memos, shares, reactions, comments
  and mutations; among them the updates without a policy that leave audience and placement alone (the
  payload runner's). They leave out what no caller does: other updates without a policy, by themselves or in a mutation,
  deletions without a policy, shares whose policy does not say \<open>CreatingShare\<close>, and updates with both \<open>SpaceID\<close> and
  \<open>ClearSpace\<close>, which do break the invariant (\<open>ambiguous_placement_accepted\<close>); and the operations on attachments alone,
  which do not write these tables.\<close>

theorem memo_reachable_invariant:
  assumes "memo_reachable d" "m \<in> set (db_memo d)"
  shows "m_CreatorID m \<in> set (map u_ID (db_user d))
    \<and> m_Visibility m \<in> {Public, Protected, Private, SpaceAudience} \<and> m_RowStatus m \<in> {Normal, Archived}
    \<and> (case m_SpaceID m of
         None \<Rightarrow> m_Visibility m \<noteq> SpaceAudience
       | Some sid \<Rightarrow> space_exists d sid \<and> (\<exists>uid. active_admin_of d sid uid))
    \<and> {sh \<in> set (db_memo_share d). sh_memo_id sh = m_ID m \<and> active_share d sh \<and> m_Visibility m = SpaceAudience} = {}
    \<and> filter (\<lambda>m'. m_ID m' = m_ID m) (db_memo d) = [m]"
proof -
  have ok: "db_keys d" "administered d" "memos_ok d" using memo_reachable_ok [OF assms(1)] by (simp_all add: store_ok_def)
  have admin: "\<exists>uid. active_admin_of d sid uid" if "space_exists d sid" for sid
    using ok(2) that by (auto simp: administered_def space_exists_def active_admin_of_row)
  have "filter (\<lambda>m'. m_ID m' = m_ID m) (db_memo d) = [m]"
    using ok(1) assms(2) by (intro filter_unique_key) (simp_all add: db_keys_def)
  then show ?thesis
    using ok(3) assms(2) admin
    by (auto simp: memos_ok_def memo_ok_def share_ok_def isValidVisibility_def split: option.splits)
qed

theorem memo_reachable_invariant_witness:
  "m_SpaceID sample_memo = Some 1 \<and> m_CreatorID sample_memo \<in> set (map u_ID (db_user sample_db3))
    \<and> (\<exists>uid. active_admin_of sample_db3 1 uid)"
  using memo_reachable_invariant [OF sample_db3_reachable, of sample_memo]
  by (simp add: sample_db3_def sample_memo_def)


definition sample_ann :: User where
  "sample_ann = (sample_user ''ann'')\<lparr>u_ID := 1\<rparr>"


lemma sample_rows:
  "memo_row sample_db3 1 = Some sample_memo" "db_user sample_db3 = [sample_ann]" "db_memo sample_db3 = [sample_memo]"
  by (simp_all add: memo_row_def sample_db3_def sample_memo_def sample_db2_def sample_db1_def sample_ann_def)


text \<open>The check that a memo may be the endpoint of a relation
  (\<open>ValidateMemoRelationEndpointRead\<close> on the snapshot of the transaction) is the read policy: for an
  active user it accepts a stored memo exactly when \<open>CheckMemoReadContext\<close> grants it.\<close>

theorem endpoint_read_is_read_policy:
  assumes "memo_reachable d" "m \<in> set (db_memo d)" "0 < m_ID m" "v \<in> set (db_user d)" "u_RowStatus v = Normal"
  shows "ValidateMemoRelationEndpointRead (Some (endpoint_snapshot d (u_ID v) (u_RowStatus v) m)) = Inr () \<longleftrightarrow> may_read d v m"
  by (simp only: endpoint_read_iff [OF assms(3,5)] may_read_iff [OF reachable_creator_valid [OF assms(1,2)] assms(4,5)])

theorem endpoint_read_is_read_policy_witness:
  "ValidateMemoRelationEndpointRead (Some (endpoint_snapshot sample_db3 1 Normal sample_memo)) = Inr ()
    \<and> may_read sample_db3 sample_ann sample_memo"
proof -
  have "ValidateMemoRelationEndpointRead (Some (endpoint_snapshot sample_db3 1 Normal sample_memo)) = Inr ()"
    by code_simp
  moreover have "u_ID sample_ann = 1" "u_RowStatus sample_ann = Normal" "0 < m_ID sample_memo"
    by (simp_all add: sample_ann_def sample_user_def sample_memo_def)
  ultimately show ?thesis
    using endpoint_read_is_read_policy [OF sample_db3_reachable, of sample_memo sample_ann] by (simp add: sample_rows)
qed

text \<open>C25. An update under a write policy is made by the memo's author, who is active, and changes no
  row but that memo's. The space the memo is in and the one it is moved to exist, and the author is an active member of
  the latter; of the former he has to be one unless the policy is the lifecycle one, which lets an author
  withdraw his memo from a space that he has left. Under the lifecycle policy the update moves the memo and changes only its
  space and its audience.\<close>

theorem UpdateMemo_authorized:
  assumes "Store_UpdateMemo marshal u d = Inr d'" "up_Policy u = Some p"
  shows "\<exists>m payload. memo_row d (up_ID u) = Some m \<and> m_CreatorID m = pol_ActorUserID p
    \<and> user_status d (pol_ActorUserID p) = Some Normal
    \<and> d' = d\<lparr>db_memo := map (\<lambda>r. if m_ID r = up_ID u then memo_set payload u r else r) (db_memo d)\<rparr>
    \<and> (case m_SpaceID m of None \<Rightarrow> True
       | Some sid \<Rightarrow> space_exists d sid \<and> (pol_LifecycleOnly p \<or> sqliteSpaceMemberActive d sid (pol_ActorUserID p)))
    \<and> (case up_SpaceID u of None \<Rightarrow> True
       | Some sid \<Rightarrow> space_exists d sid \<and> sqliteSpaceMemberActive d sid (pol_ActorUserID p))
    \<and> (pol_LifecycleOnly p \<longrightarrow>
         m_SpaceID (memo_set payload u m) \<noteq> m_SpaceID m
         \<and> memo_set payload u m = m\<lparr>m_Visibility := m_Visibility (memo_set payload u m), m_SpaceID := m_SpaceID (memo_set payload u m)\<rparr>)"
proof -
  have v: "validateSQLiteMemoWritePolicy d (up_ID u) p (Some u) = Inr ()" and a: "applyMemoUpdate marshal u d = Inr d'"
    using assms by (auto simp: Store_UpdateMemo_def DB_UpdateMemo_def result_simps split: option.splits if_splits)
  obtain m where m: "write_authorized d (up_ID u) p (Some u) m"
    using validateSQLiteMemoWritePolicy_D [OF v] by blast
  obtain payload where payload: "d' = d\<lparr>db_memo := map (\<lambda>r. if m_ID r = up_ID u then memo_set payload u r else r) (db_memo d)\<rparr>"
    "payload = None \<longleftrightarrow> up_Payload u = None"
    using applyMemoUpdate_rows [OF a] by (elim exE conjE that)
  have life: "m_SpaceID (memo_set payload u m) \<noteq> m_SpaceID m
      \<and> memo_set payload u m = m\<lparr>m_Visibility := m_Visibility (memo_set payload u m), m_SpaceID := m_SpaceID (memo_set payload u m)\<rparr>"
    if "pol_LifecycleOnly p"
    using that m payload(2) by (intro lifecycle_update) (simp_all add: write_authorized_def)
  note auth = m [unfolded write_authorized_def]
  have src: "case m_SpaceID m of None \<Rightarrow> True
      | Some sid \<Rightarrow> space_exists d sid \<and> (pol_LifecycleOnly p \<or> sqliteSpaceMemberActive d sid (pol_ActorUserID p))"
    using auth by (cases "m_SpaceID m") (simp, fastforce)
  have tgt: "case up_SpaceID u of None \<Rightarrow> True
      | Some sid \<Rightarrow> space_exists d sid \<and> sqliteSpaceMemberActive d sid (pol_ActorUserID p)"
    using auth by (cases "up_SpaceID u") simp_all
  have who: "memo_row d (up_ID u) = Some m" "m_CreatorID m = pol_ActorUserID p" "user_status d (pol_ActorUserID p) = Some Normal"
    using auth by simp_all
  show ?thesis
    by (rule exI [of _ m], rule exI [of _ payload]) (intro conjI who payload(1) src tgt impI life [THEN conjunct1] life [THEN conjunct2])
qed

definition no_update :: "string UpdateMemo" where
  "no_update = \<lparr>up_ID = 1, up_UID = None, up_CreatedTs = None, up_UpdatedTs = None, up_RowStatus = None, up_Content = None,
     up_Visibility = None, up_Pinned = None, up_Payload = None, up_SpaceID = None, up_ClearSpace = False, up_Policy = None\<rparr>"

definition leave_space :: "string UpdateMemo" where
  "leave_space = no_update\<lparr>up_ClearSpace := True, up_Visibility := Some Private,
     up_Policy := Some \<lparr>pol_ActorUserID = 1, pol_LifecycleOnly = True, pol_CreatingShare = False\<rparr>\<rparr>"

theorem UpdateMemo_authorized_witness:
  "\<exists>payload. memo_set payload leave_space sample_memo
     = sample_memo\<lparr>m_Visibility := m_Visibility (memo_set payload leave_space sample_memo), m_SpaceID := None\<rparr>"
proof -
  have "(case Store_UpdateMemo Inr leave_space sample_db3 of Inl _ \<Rightarrow> False | Inr _ \<Rightarrow> True)"
    by code_simp
  then obtain d' where d': "Store_UpdateMemo Inr leave_space sample_db3 = Inr d'"
    by (auto split: sum.splits)
  have p: "up_Policy leave_space = Some \<lparr>pol_ActorUserID = 1, pol_LifecycleOnly = True, pol_CreatingShare = False\<rparr>"
    and i: "up_ID leave_space = 1" and none: "m_SpaceID (memo_set payload leave_space sample_memo) = None" for payload
    by (simp_all add: leave_space_def no_update_def memo_set_def)
  show ?thesis
    using UpdateMemo_authorized [OF d' p] unfolding i sample_rows none by (elim exE conjE) (simp add: none, blast)
qed

text \<open>C26. A deletion under a policy is made by the memo's author, who is active, and removes the memo
  with its shares, its reactions, its attachments and every relation it is an endpoint of, and
  nothing else. The \<open>ActorCanRead\<close> it reports, with which the caller decides whom to tell, is the
  decision of the read policy for the author before the deletion.\<close>

theorem DeleteMemoWithPolicy_exact:
  assumes "memo_reachable d" "Store_DeleteMemoWithPolicy ok (Some (memoID, actor)) d = Inr (r, d')"
  shows "\<exists>m v. memo_row d memoID = Some m \<and> m_CreatorID m = actor
    \<and> v \<in> set (db_user d) \<and> u_ID v = actor \<and> u_RowStatus v = Normal
    \<and> dmr_ActorCanRead r = may_read d v m
    \<and> set (dmr_Attachments r) = {a \<in> set (db_attachment d). at_MemoID a = Some memoID}
    \<and> d' = d\<lparr>db_memo_share := filter (\<lambda>sh. sh_memo_id sh \<noteq> memoID) (db_memo_share d),
             db_memo := filter (\<lambda>m. m_ID m \<noteq> memoID) (db_memo d),
             db_reaction := filter (\<lambda>r. re_memo_id r \<noteq> memoID) (db_reaction d),
             db_attachment := filter (\<lambda>a. at_MemoID a \<noteq> Some memoID) (db_attachment d),
             db_memo_relation := filter (\<lambda>r. rel_memo_id r \<noteq> memoID \<and> rel_related_memo_id r \<noteq> memoID) (db_memo_relation d)\<rparr>"
proof -
  have keys: "db_keys d" using memo_reachable_ok [OF assms(1)] by (simp add: store_ok_def)
  obtain m where st: "user_status d actor = Some Normal" and m: "memo_row d memoID = Some m" "m_CreatorID m = actor"
    and tx: "deleteSQLiteMemoSetTx ok [memoID] d = Inr (dmr_Attachments r, d')"
    and can: "dmr_ActorCanRead r = delete_can_read d m"
    using assms(2) by (rule Store_DeleteMemoWithPolicy_D)
  obtain v where v: "v \<in> set (db_user d)" "u_ID v = actor" "u_RowStatus v = Normal"
    using actor_row [OF keys st] .
  have mem: "m \<in> set (db_memo d)" using memo_row_Some [OF m(1)] by blast
  have read: "dmr_ActorCanRead r = may_read d v m"
    unfolding can may_read_iff [OF reachable_creator_valid [OF assms(1) mem] v(1,3)]
    by (rule delete_can_read_iff) (simp add: m(2) v(2))
  note gone = delete_one_memo [OF keys tx]
  show ?thesis
    by (rule exI [of _ m], rule exI [of _ v]) (intro conjI m v read gone [THEN conjunct1] gone [THEN conjunct2])
qed

theorem DeleteMemoWithPolicy_exact_witness:
  "\<exists>r d'. Store_DeleteMemoWithPolicy (\<lambda>_. True) (Some (1, 1)) sample_db3 = Inr (r, d')
    \<and> dmr_ActorCanRead r = may_read sample_db3 sample_ann sample_memo"
proof -
  have "(case Store_DeleteMemoWithPolicy (\<lambda>_. True) (Some (1, 1)) sample_db3 of Inl _ \<Rightarrow> False | Inr _ \<Rightarrow> True)"
    by code_simp
  then obtain r d' where d': "Store_DeleteMemoWithPolicy (\<lambda>_. True) (Some (1, 1)) sample_db3 = Inr (r, d')"
    by (auto split: sum.splits)
  have "dmr_ActorCanRead r = may_read sample_db3 sample_ann sample_memo"
    using DeleteMemoWithPolicy_exact [OF sample_db3_reachable d'] by (auto simp: sample_rows)
  with d' show ?thesis by blast
qed

text \<open>A mutation that creates no memo leaves every \<open>COMMENT\<close> relation and every relation of
  other memos as it was. If it replaces the references of its memo, these are afterwards exactly
  the requested ones, and all its endpoints are memos that the author may read.\<close>

theorem mutation_relations:
  assumes "memo_reachable d" "Store_ApplyMemoMutation (marshal :: string \<Rightarrow> store_error + string) ok (Some mutation) d = Inr (mutation', d')"
    and "mm_MemoCreate mutation = None"
  shows "other_relations (mm_MemoID mutation) d' = other_relations (mm_MemoID mutation) d
    \<and> (if mm_ReplaceReferenceRelations mutation
       then {r \<in> set (db_memo_relation d'). rel_memo_id r = mm_MemoID mutation \<and> rel_type r = MemoRelationReference}
              = {r. Some r \<in> set (mm_ReferenceRelations mutation)}
            \<and> (\<exists>v \<in> set (db_user d). u_ID v = mm_MemoCreatorID mutation
                 \<and> {rel_related_memo_id r | r. Some r \<in> set (mm_ReferenceRelations mutation)}
                     \<subseteq> {m_ID m | m. m \<in> set (db_memo d) \<and> may_read d v m})
       else db_memo_relation d' = db_memo_relation d)"
proof -
  obtain removed d1 d2 d3 where ends: "validateSQLiteMemoRelationEndpoints d mutation = Inr ()"
    and steps: "bind_attachments (mm_MemoID mutation) (mm_MemoCreatorID mutation) (mm_Bindings mutation) d = Inr d1"
      "delete_removed (mm_MemoID mutation) removed d1 = Inr d2"
      "d3 = d2 \<or> (\<exists>u. mm_MemoUpdate mutation = Some u \<and> applyMemoUpdate marshal u d2 = Inr d3)"
    and d': "if mm_ReplaceReferenceRelations mutation
       then replaceMemoReferenceRelations (mm_MemoID mutation) (mm_ReferenceRelations mutation) d3 = Inr d' else d' = d3"
    by (rule plain_mutation_D [OF assms(2,3)]) blast
  have rel: "db_memo_relation d3 = db_memo_relation d"
    using bind_attachments_relations [OF steps(1)] delete_removed_relations [OF steps(2)] steps(3) apply_update_relations by metis
  show ?thesis
  proof (cases "mm_ReplaceReferenceRelations mutation")
    case False
    then show ?thesis using d' rel by simp
  next
    case True
    then have rep: "replaceMemoReferenceRelations (mm_MemoID mutation) (mm_ReferenceRelations mutation) d3 = Inr d'" using d' by simp
    show ?thesis
      using replace_references_exact [OF rep] endpoints_readable [OF assms(1) ends True] True unfolding rel by simp
  qed
qed

definition public_memo :: "'p \<Rightarrow> 'p Memo" where
  "public_memo payload = \<lparr>m_ID = 2, m_UID = ''other'', m_RowStatus = Normal, m_CreatorID = 1, m_CreatedTs = 0, m_UpdatedTs = 0,
     m_Content = ''world'', m_Visibility = Public, m_Pinned = False, m_Payload = payload, m_SpaceID = None\<rparr>"

definition sample_db4 :: db where
  "sample_db4 = sample_db3\<lparr>db_memo := [sample_memo, public_memo []], db_memo_seq := 2\<rparr>"

lemma sample_db4_reachable: "memo_reachable sample_db4"
proof -
  have "(case Store_CreateMemo Inr (Some (public_memo (Some []))) sample_db3 of Inl _ \<Rightarrow> False | Inr (_, d) \<Rightarrow> d = sample_db4)"
    by code_simp
  then obtain m where "Store_CreateMemo Inr (Some (public_memo (Some []))) sample_db3 = Inr (m, sample_db4)"
    by (auto split: sum.splits)
  then show ?thesis using sample_db3_reachable by (meson memo_step.create_memo rtranclp.rtrancl_into_rtrancl)
qed

definition sample_reference :: MemoRelation where
  "sample_reference = \<lparr>rel_memo_id = 1, rel_related_memo_id = 2, rel_type = MemoRelationReference\<rparr>"

definition sample_mutation :: "string MemoMutation" where
  "sample_mutation = \<lparr>mm_MemoCreate = None, mm_CommentContextMemoID = None, mm_MemoID = 1, mm_MemoCreatorID = 1,
     mm_ExpectedMemoContent = ''hello'', mm_MemoUpdate = None, mm_Bindings = [], mm_RemovedAttachmentIDs = [],
     mm_RequiredAttachmentIDs = [], mm_ReplaceReferenceRelations = True, mm_ReferenceRelations = [Some sample_reference],
     mm_Policy = None\<rparr>"

theorem mutation_relations_witness:
  "\<exists>mu d'. Store_ApplyMemoMutation Inr (\<lambda>_. True) (Some sample_mutation) sample_db4 = Inr (mu, d')
    \<and> {r \<in> set (db_memo_relation d'). rel_memo_id r = 1 \<and> rel_type r = MemoRelationReference} = {sample_reference}"
proof -
  have "(case Store_ApplyMemoMutation Inr (\<lambda>_. True) (Some sample_mutation) sample_db4 of Inl _ \<Rightarrow> False | Inr _ \<Rightarrow> True)"
    by code_simp
  then obtain mu d' where m: "Store_ApplyMemoMutation Inr (\<lambda>_. True) (Some sample_mutation) sample_db4 = Inr (mu, d')"
    by (auto split: sum.splits)
  have f: "mm_MemoCreate sample_mutation = None" "mm_ReplaceReferenceRelations sample_mutation" "mm_MemoID sample_mutation = 1"
    "mm_ReferenceRelations sample_mutation = [Some sample_reference]" by (simp_all add: sample_mutation_def)
  have "{r \<in> set (db_memo_relation d'). rel_memo_id r = 1 \<and> rel_type r = MemoRelationReference} = {sample_reference}"
    using mutation_relations [OF sample_db4_reachable m f(1)] unfolding f(3,4) if_P [OF f(2)] by simp
  with m show ?thesis by blast
qed

text \<open>C28. A mutation that creates no memo touches no attachment but the ones that it names. Those that it binds
  were in its memo, or in none and of its author; those that it removes were in its memo and of its author, and are
  gone; those that it requires are in its memo afterwards. Every other attachment, of other memos or of none, is as
  before; binding changes nothing of an attachment but its memo, and of the stored files (names, types, contents, times)
  only the time of the last change of those that are bound. (A file row whose attachment is gone counts as gone with it.)\<close>

theorem mutation_attachments:
  assumes "db_keys d" "Store_ApplyMemoMutation marshal ok (Some mutation) d = Inr (mutation', d')" "mm_MemoCreate mutation = None"
  shows "filter (\<lambda>a. at_MemoID a \<notin> {None, Some (mm_MemoID mutation)}) (db_attachment d')
      = filter (\<lambda>a. at_MemoID a \<notin> {None, Some (mm_MemoID mutation)}) (db_attachment d)
    \<and> set (mm_RequiredAttachmentIDs mutation) \<subseteq> {at_ID a | a. a \<in> set (db_attachment d') \<and> at_MemoID a = Some (mm_MemoID mutation)}
    \<and> set (mm_RemovedAttachmentIDs mutation) \<inter> {at_ID a | a. a \<in> set (db_attachment d')} = {}
    \<and> set (mm_RemovedAttachmentIDs mutation)
        \<subseteq> {at_ID a | a. a \<in> set (db_attachment d) \<and> at_MemoID a = Some (mm_MemoID mutation) \<and> at_CreatorID a = mm_MemoCreatorID mutation}
    \<and> bound_ids (mm_Bindings mutation)
        \<subseteq> {at_ID a | a. a \<in> set (db_attachment d) \<and> (at_MemoID a = Some (mm_MemoID mutation) \<or> at_MemoID a = None \<and> at_CreatorID a = mm_MemoCreatorID mutation)}
    \<and> filter (\<lambda>a. at_ID a \<notin> bound_ids (mm_Bindings mutation) \<union> set (mm_RemovedAttachmentIDs mutation)) (db_attachment d')
      = filter (\<lambda>a. at_ID a \<notin> bound_ids (mm_Bindings mutation) \<union> set (mm_RemovedAttachmentIDs mutation)) (db_attachment d)
    \<and> (\<lambda>a. a\<lparr>at_MemoID := None\<rparr>) ` set (db_attachment d') \<subseteq> (\<lambda>a. a\<lparr>at_MemoID := None\<rparr>) ` set (db_attachment d)
    \<and> filter (\<lambda>f. af_id f \<notin> bound_ids (mm_Bindings mutation)) (db_attachment_file d')
      = filter (\<lambda>f. af_id f \<notin> bound_ids (mm_Bindings mutation)) (db_attachment_file d)
    \<and> map (\<lambda>f. f\<lparr>af_UpdatedTs := 0\<rparr>) (db_attachment_file d') = map (\<lambda>f. f\<lparr>af_UpdatedTs := 0\<rparr>) (db_attachment_file d)"
proof -
  let ?gone = "set (mm_RemovedAttachmentIDs mutation)" and ?bound = "bound_ids (mm_Bindings mutation)"
  obtain removed d1 d2 d3 where cur: "mutation_current ok (mutation\<lparr>mm_RemovedAttachmentIDs := sort (mm_RemovedAttachmentIDs mutation)\<rparr>) d = Inr removed"
    and steps: "bind_attachments (mm_MemoID mutation) (mm_MemoCreatorID mutation) (mm_Bindings mutation) d = Inr d1"
      "delete_removed (mm_MemoID mutation) removed d1 = Inr d2"
    and req: "\<forall>i \<in> set (mm_RequiredAttachmentIDs mutation). \<exists>a \<in> set (db_attachment d2). at_ID a = i \<and> at_MemoID a = Some (mm_MemoID mutation)"
    and rest: "d3 = d2 \<or> (\<exists>u. mm_MemoUpdate mutation = Some u \<and> applyMemoUpdate marshal u d2 = Inr d3)"
      "if mm_ReplaceReferenceRelations mutation
       then replaceMemoReferenceRelations (mm_MemoID mutation) (mm_ReferenceRelations mutation) d3 = Inr d' else d' = d3"
    and chk: "check_removed None (sort (mm_RemovedAttachmentIDs mutation)) = Inr ()"
    by (rule plain_mutation_D [OF assms(2,3)]) blast
  have at: "db_attachment d' = db_attachment d2" "db_attachment_file d' = db_attachment_file d2"
    using rest apply_update_attachments replace_references_attachments apply_update_files replace_references_files by (metis (full_types))+
  have dist: "distinct (map at_ID (db_attachment d))" using assms(1) by (simp add: db_keys_def)
  note bound = bind_attachments_exact [OF steps(1) dist]
  note gone = delete_removed_exact [OF steps(2) bound [THEN conjunct2]]
  have ids: "distinct (sort (mm_RemovedAttachmentIDs mutation))"
    using check_removed_distinct [OF chk] by simp
  note rem = mutation_current_removed [OF cur dist, simplified, OF ids [simplified]]
  note frame = bind_attachments_frame [OF steps(1), where S = ?gone] and frame' = delete_removed_frame [OF steps(2), unfolded rem(1)]
  have "filter (\<lambda>a. at_ID a \<notin> ?bound \<union> ?gone) (db_attachment d2) = filter (\<lambda>a. at_ID a \<notin> ?bound \<union> ?gone) (db_attachment d1)"
    by (rule filter_weaken [OF frame' [THEN conjunct2]]) simp
  moreover have "(\<lambda>a. a\<lparr>at_MemoID := None\<rparr>) ` set (db_attachment d1) = (\<lambda>a. a\<lparr>at_MemoID := None\<rparr>) ` set (db_attachment d)"
    using frame by (metis (no_types, lifting) list.set_map)
  then have "(\<lambda>a. a\<lparr>at_MemoID := None\<rparr>) ` set (db_attachment d2) \<subseteq> (\<lambda>a. a\<lparr>at_MemoID := None\<rparr>) ` set (db_attachment d)"
    using gone by blast
  moreover have "other_attachments (mm_MemoID mutation) d2 = other_attachments (mm_MemoID mutation) d" using bound gone by simp
  moreover have "set (mm_RequiredAttachmentIDs mutation) \<subseteq> {at_ID a | a. a \<in> set (db_attachment d2) \<and> at_MemoID a = Some (mm_MemoID mutation)}"
    using req by fastforce
  moreover have "?gone \<inter> {at_ID a | a. a \<in> set (db_attachment d2)} = {}" using gone rem(1) by blast
  moreover have "?gone \<subseteq> {at_ID a | a. a \<in> set (db_attachment d) \<and> at_MemoID a = Some (mm_MemoID mutation) \<and> at_CreatorID a = mm_MemoCreatorID mutation}"
    unfolding rem(1) [symmetric] using rem(2) by blast
  ultimately show ?thesis
    unfolding at using bind_attachments_own [OF steps(1) dist] frame frame' by simp
qed

definition sample_attachment :: "int32 \<Rightarrow> int32 option \<Rightarrow> Attachment" where
  "sample_attachment i memo = \<lparr>at_ID = i, at_UID = ''file'', at_CreatorID = 1, at_MemoID = memo, at_StorageType = [],
     at_Reference = [], at_Payload = ''{}''\<rparr>"

definition sample_db5 :: db where
  "sample_db5 = sample_db4\<lparr>db_attachment := [sample_attachment 1 None, sample_attachment 2 (Some 1), sample_attachment 3 (Some 2)]\<rparr>"

definition attach_mutation :: "string MemoMutation" where
  "attach_mutation = sample_mutation\<lparr>mm_ReplaceReferenceRelations := False, mm_ReferenceRelations := [],
     mm_Bindings := [Some \<lparr>mab_ID = 1, mab_UID = ''file'', mab_UpdatedTs = 0, mab_WasBoundToMemo = False\<rparr>],
     mm_RemovedAttachmentIDs := [2], mm_RequiredAttachmentIDs := [1]\<rparr>"

theorem mutation_attachments_witness:
  "\<exists>mu d'. Store_ApplyMemoMutation Inr (\<lambda>_. True) (Some attach_mutation) sample_db5 = Inr (mu, d')
    \<and> other_attachments 1 d' = [sample_attachment 3 (Some 2)] \<and> 2 \<notin> {at_ID a | a. a \<in> set (db_attachment d')}"
proof -
  have "(case Store_ApplyMemoMutation Inr (\<lambda>_. True) (Some attach_mutation) sample_db5 of Inl _ \<Rightarrow> False | Inr _ \<Rightarrow> True)"
    by code_simp
  then obtain mu d' where m: "Store_ApplyMemoMutation Inr (\<lambda>_. True) (Some attach_mutation) sample_db5 = Inr (mu, d')"
    by (auto split: sum.splits)
  have f: "mm_MemoCreate attach_mutation = None" "mm_MemoID attach_mutation = 1" "mm_RemovedAttachmentIDs attach_mutation = [2]"
    by (simp_all add: attach_mutation_def sample_mutation_def)
  have keys: "db_keys sample_db5" by code_simp
  have "other_attachments 1 sample_db5 = [sample_attachment 3 (Some 2)]"
    by (simp add: sample_db5_def sample_attachment_def)
  then show ?thesis
    using mutation_attachments [OF keys m f(1)] m unfolding f by (intro exI [of _ mu] exI [of _ d']) auto
qed

text \<open>An update that names a new space and clears the space at once passes the write policy with the
  named space as its placement, but the row is stored without a space: the author of a memo of a
  space gets a memo with a \<open>SPACE\<close> audience and no space. No transport handler sends such an update.\<close>

definition both_placements :: "string UpdateMemo" where
  "both_placements = no_update\<lparr>up_SpaceID := Some 1, up_ClearSpace := True, up_Content := Some ''moved'',
     up_Policy := Some \<lparr>pol_ActorUserID = 1, pol_LifecycleOnly = False, pol_CreatingShare = False\<rparr>\<rparr>"

theorem ambiguous_placement_accepted:
  "memo_reachable sample_db3
   \<and> (case Store_UpdateMemo Inr both_placements sample_db3 of
        Inl _ \<Rightarrow> False
      | Inr d' \<Rightarrow> map m_Visibility (db_memo d') = [SpaceAudience] \<and> map m_SpaceID (db_memo d') = [None])"
proof
  show "case Store_UpdateMemo Inr both_placements sample_db3 of
      Inl _ \<Rightarrow> False
    | Inr d' \<Rightarrow> map m_Visibility (db_memo d') = [SpaceAudience] \<and> map m_SpaceID (db_memo d') = [None]"
    by code_simp
qed (rule sample_db3_reachable)

end
