(* ===== verification/Attachment_Store.thy ===== *)
theory Attachment_Store
  imports Memo_Mutation
begin

text \<open>
  Attachments: \<open>store/attachment.go\<close> and \<open>store/attachment_delete.go\<close>, and the SQLite statements of
  \<open>sqlite/attachment.go\<close> and \<open>sqlite/attachment_delete.go\<close>. The listing is not modelled, nor is what
  is stored outside the database. \<open>marshal\<close> stands for \<open>protojson.Marshal\<close>.
\<close>

section \<open>Arguments\<close>

record 'p CreateAttachment =
  ca_ID :: int32
  ca_UID :: string
  ca_CreatorID :: int32
  ca_CreatedTs :: int
  ca_UpdatedTs :: int
  ca_Filename :: string
  ca_Blob :: string
  ca_Type :: string
  ca_Size :: int
  ca_StorageType :: string
  ca_Reference :: string
  ca_Payload :: "'p option"
  ca_MemoID :: "int32 option"
  ca_Policy :: "MemoWritePolicy option"

record 'p UpdateAttachment =
  ua_ID :: int32
  ua_UID :: "string option"
  ua_UpdatedTs :: "int option"
  ua_Filename :: "string option"
  ua_MemoID :: "int32 option"
  ua_Payload :: "'p option"
  ua_Policy :: "MemoWritePolicy option"

text \<open>A map of expected contents has one entry per key; \<open>None\<close> is the nil map.\<close>

record AttachmentDeletionPolicy =
  adp_ActorUserID :: int32
  adp_ExpectedMemoContents :: "(int32 \<times> string) list option"

definition contents_of :: "(int32 \<times> string) list option \<Rightarrow> (int32 \<times> string) list" where
  "contents_of m = (case m of None \<Rightarrow> [] | Some kvs \<Rightarrow> kvs)"

section \<open>Checks of the store\<close>

definition ValidateAttachmentDeletionMemoSnapshots ::
    "int32 list \<Rightarrow> (int32 \<times> string) list option \<Rightarrow> store_error + unit" where
  "ValidateAttachmentDeletionMemoSnapshots memoIDs expectedMemoContents =
     (if length memoIDs \<noteq> length (contents_of expectedMemoContents) then Inl ErrMemoMutationConflict
      else if \<exists>i \<in> set memoIDs. map_of (contents_of expectedMemoContents) i = None then Inl ErrMemoMutationConflict
      else Inr ())"

fun check_targets ::
    "int32 \<Rightarrow> int32 set \<Rightarrow> int32 set \<Rightarrow> int32 set \<Rightarrow> Attachment list \<Rightarrow> store_error + int32 set" where
  "check_targets actorUserID expected seen memoIDs [] = Inr memoIDs"
| "check_targets actorUserID expected seen memoIDs (a # as) =
     (if at_ID a \<le> 0 then Inl ErrMemoMutationConflict
      else if at_ID a \<notin> expected then Inl ErrMemoMutationConflict
      else if at_ID a \<in> seen then Inl ErrMemoMutationConflict
      else if at_CreatorID a \<noteq> actorUserID then Inl ErrMemoPermissionDenied
      else case at_MemoID a of
             None \<Rightarrow> check_targets actorUserID expected (insert (at_ID a) seen) memoIDs as
           | Some m \<Rightarrow>
               if m \<le> 0 then Inl ErrMemoMutationConflict
               else check_targets actorUserID expected (insert (at_ID a) seen) (insert m memoIDs) as)"

definition ValidateAttachmentMutationTargets ::
    "int32 \<Rightarrow> int32 list \<Rightarrow> Attachment list \<Rightarrow> store_error + int32 list" where
  "ValidateAttachmentMutationTargets actorUserID attachmentIDs attachments =
     (if actorUserID \<le> 0 \<or> attachmentIDs = [] \<or> length attachments \<noteq> length attachmentIDs
      then Inl ErrMemoMutationConflict
      else if \<exists>i \<in> set attachmentIDs. i \<le> 0 then Inl ErrMemoMutationConflict
      else bindE (check_targets actorUserID (set attachmentIDs) {} {} attachments) (\<lambda>memoIDs.
        Inr (sorted_list_of_set memoIDs)))"

fun check_delete_ids :: "int32 option \<Rightarrow> int32 list \<Rightarrow> store_error + unit" where
  "check_delete_ids prev [] = Inr ()"
| "check_delete_ids prev (i # ids) =
     (if i \<le> 0 then Inl (NewError ''attachment deletion IDs must be positive'')
      else if prev = Some i then Inl (NewError ''duplicate attachment deletion ID'')
      else check_delete_ids (Some i) ids)"

definition normalizeAttachmentDelete ::
    "AttachmentDeletionPolicy option \<Rightarrow> int32 list \<Rightarrow> store_error + (AttachmentDeletionPolicy \<times> int32 list)" where
  "normalizeAttachmentDelete policy attachmentIDs =
     (case policy of
        None \<Rightarrow> Inl (NewError ''attachment deletion requires policy and attachment IDs'')
      | Some p \<Rightarrow>
          if adp_ActorUserID p \<le> 0 \<or> attachmentIDs = []
          then Inl (NewError ''attachment deletion requires policy and attachment IDs'')
          else let ids = sort attachmentIDs in
            bindE (check_delete_ids None ids) (\<lambda>_.
              if \<exists>(m, c) \<in> set (contents_of (adp_ExpectedMemoContents p)). m \<le> 0
              then Inl (NewError ''attachment deletion memo IDs must be positive'')
              else Inr (p, ids)))"

section \<open>Statements of the driver\<close>

text \<open>\<open>INSERT INTO attachment\<close>: the argument with the returned columns. The empty storage type is the
  unspecified one.\<close>

definition insertSQLiteAttachment ::
    "('p \<Rightarrow> store_error + string) \<Rightarrow> 'p CreateAttachment \<Rightarrow> db \<Rightarrow> store_error + ('p CreateAttachment \<times> db)" where
  "insertSQLiteAttachment marshal create d =
     bindE (case ca_Payload create of
              None \<Rightarrow> Inr ''{}''
            | Some p \<Rightarrow> (case marshal p of
                          Inl e \<Rightarrow> Inl (WrapError e ''failed to marshal attachment payload'')
                        | Inr text \<Rightarrow> Inr text)) (\<lambda>payload.
       if \<exists>a \<in> set (db_attachment d). at_UID a = ca_UID create then Inl ErrConstraintUnique
       else let i = db_attachment_seq d + 1;
                row = \<lparr>at_ID = i, at_UID = ca_UID create, at_CreatorID = ca_CreatorID create, at_MemoID = ca_MemoID create,
                       at_StorageType = ca_StorageType create, at_Reference = ca_Reference create, at_Payload = payload\<rparr>;
                file = \<lparr>af_id = i, af_CreatedTs = db_now d, af_UpdatedTs = db_now d, af_Filename = ca_Filename create,
                        af_Blob = ca_Blob create, af_Type = ca_Type create, af_Size = ca_Size create\<rparr>
            in Inr (create\<lparr>ca_ID := i, ca_CreatedTs := db_now d, ca_UpdatedTs := db_now d\<rparr>,
                    d\<lparr>db_attachment := db_attachment d @ [row], db_attachment_file := db_attachment_file d @ [file],
                      db_attachment_seq := i\<rparr>))"

definition DB_CreateAttachment ::
    "('p \<Rightarrow> store_error + string) \<Rightarrow> 'p CreateAttachment \<Rightarrow> db \<Rightarrow> store_error + ('p CreateAttachment \<times> db)" where
  "DB_CreateAttachment marshal create d =
     (case ca_Policy create of
        None \<Rightarrow> insertSQLiteAttachment marshal create d
      | Some policy \<Rightarrow>
          (case ca_MemoID create of
             None \<Rightarrow> Inl ErrMemoPermissionDenied
           | Some memoID \<Rightarrow>
               if ca_CreatorID create \<noteq> pol_ActorUserID policy then Inl ErrMemoPermissionDenied
               else bindE (validateSQLiteMemoWritePolicy d memoID policy (None :: unit UpdateMemo option)) (\<lambda>_.
                 insertSQLiteAttachment marshal create d)))"

definition attachment_memo_snapshot :: "db \<Rightarrow> int32 \<Rightarrow> string Memo \<Rightarrow> MemoWriteSnapshot" where
  "attachment_memo_snapshot d actorUserID m =
     \<lparr>snap_CreatorID = m_CreatorID m, snap_RowStatus = m_RowStatus m, snap_SpaceID = m_SpaceID m,
      snap_Visibility = m_Visibility m,
      snap_SourceSpaceExists = (case m_SpaceID m of None \<Rightarrow> False | Some sid \<Rightarrow> space_exists d sid),
      snap_SourceMemberActive = (case m_SpaceID m of None \<Rightarrow> False
        | Some sid \<Rightarrow> space_exists d sid \<and> sqliteSpaceMemberActive d sid actorUserID),
      snap_TargetSpaceExists = False, snap_TargetMemberActive = False, snap_HasActiveShare = False\<rparr>"

text \<open>A missing entry of the expected contents reads as the empty string.\<close>

fun authorize_memos :: "db \<Rightarrow> int32 \<Rightarrow> (int32 \<times> string) list option \<Rightarrow> int32 list \<Rightarrow> store_error + unit" where
  "authorize_memos d actorUserID expected [] = Inr ()"
| "authorize_memos d actorUserID expected (i # ids) =
     (case memo_row d i of
        None \<Rightarrow> Inl ErrMemoMutationConflict
      | Some m \<Rightarrow>
          if expected \<noteq> None \<and> m_Content m \<noteq> (case map_of (contents_of expected) i of None \<Rightarrow> [] | Some c \<Rightarrow> c)
          then Inl ErrMemoMutationConflict
          else bindE (ValidateMemoWriteSnapshot
                 (Some \<lparr>pol_ActorUserID = actorUserID, pol_LifecycleOnly = False, pol_CreatingShare = False\<rparr>)
                 (None :: unit UpdateMemo option) (Some (attachment_memo_snapshot d actorUserID m))) (\<lambda>_.
            authorize_memos d actorUserID expected ids))"

definition authorizeSQLiteAttachmentMutation ::
    "db \<Rightarrow> int32 \<Rightarrow> int32 list \<Rightarrow> (int32 \<times> string) list option \<Rightarrow> store_error + unit" where
  "authorizeSQLiteAttachmentMutation d actorUserID memoIDs expectedMemoContents =
     (case user_status d actorUserID of
        None \<Rightarrow> Inl ErrMemoPermissionDenied
      | Some actorStatus \<Rightarrow>
          if actorStatus \<noteq> Normal then Inl ErrMemoPermissionDenied
          else authorize_memos d actorUserID expectedMemoContents memoIDs)"

definition attachment_set :: "string option \<Rightarrow> 'p UpdateAttachment \<Rightarrow> Attachment \<Rightarrow> Attachment" where
  "attachment_set payload update a =
     a\<lparr>at_UID := set_opt (ua_UID update) (at_UID a),
       at_MemoID := (case ua_MemoID update of None \<Rightarrow> at_MemoID a | Some m \<Rightarrow> Some m),
       at_Payload := set_opt payload (at_Payload a)\<rparr>"

definition attachment_file_set :: "'p UpdateAttachment \<Rightarrow> attachment_file_row \<Rightarrow> attachment_file_row" where
  "attachment_file_set update f =
     f\<lparr>af_UpdatedTs := set_opt (ua_UpdatedTs update) (af_UpdatedTs f),
       af_Filename := set_opt (ua_Filename update) (af_Filename f)\<rparr>"

definition applySQLiteAttachmentUpdate ::
    "('p \<Rightarrow> store_error + string) \<Rightarrow> 'p UpdateAttachment \<Rightarrow> db \<Rightarrow> store_error + db" where
  "applySQLiteAttachmentUpdate marshal update d =
     bindE (case ua_Payload update of
              None \<Rightarrow> Inr None
            | Some v \<Rightarrow> (case marshal v of
                          Inl e \<Rightarrow> Inl (WrapError e ''failed to marshal attachment payload'')
                        | Inr text \<Rightarrow> Inr (Some text))) (\<lambda>payload.
       if ua_UID update = None \<and> ua_UpdatedTs update = None \<and> ua_Filename update = None \<and> ua_MemoID update = None
         \<and> ua_Payload update = None
       then Inr d
       else let rows = update_rows (\<lambda>a. at_ID a = ua_ID update) (attachment_set payload update) (db_attachment d)
            in if ua_UID update \<noteq> None \<and> \<not> distinct (map at_UID rows)
               then Inl (WrapError ErrConstraintUnique ''failed to update attachment'')
               else Inr (d\<lparr>db_attachment := rows,
                 db_attachment_file := update_rows (\<lambda>f. af_id f = ua_ID update) (attachment_file_set update) (db_attachment_file d)\<rparr>))"

definition DB_UpdateAttachment ::
    "('p \<Rightarrow> store_error + string) \<Rightarrow> (string \<Rightarrow> bool) \<Rightarrow> 'p UpdateAttachment \<Rightarrow> db \<Rightarrow> store_error + db" where
  "DB_UpdateAttachment marshal payload_ok update d =
     (case ua_Policy update of
        None \<Rightarrow> applySQLiteAttachmentUpdate marshal update d
      | Some policy \<Rightarrow>
          if ua_MemoID update \<noteq> None then Inl ErrMemoMutationConflict
          else bindE (listSQLiteAttachmentSnapshots payload_ok d [ua_ID update]) (\<lambda>attachments.
               bindE (ValidateAttachmentMutationTargets (pol_ActorUserID policy) [ua_ID update] attachments) (\<lambda>memoIDs.
               bindE (authorizeSQLiteAttachmentMutation d (pol_ActorUserID policy) memoIDs None) (\<lambda>_.
                 applySQLiteAttachmentUpdate marshal update d))))"

definition DB_DeleteAttachments :: "(int32 \<times> int32 option) list \<Rightarrow> db \<Rightarrow> db" where
  "DB_DeleteAttachments deletes d =
     d\<lparr>db_attachment := foldl (\<lambda>rows delete. filter (\<lambda>a. at_ID a \<noteq> fst delete) rows) (db_attachment d) deletes\<rparr>"

definition DB_DeleteAttachment :: "int32 \<times> int32 option \<Rightarrow> db \<Rightarrow> db" where
  "DB_DeleteAttachment delete d = DB_DeleteAttachments [delete] d"

fun delete_each :: "int32 list \<Rightarrow> db \<Rightarrow> store_error + db" where
  "delete_each [] d = Inr d"
| "delete_each (i # ids) d =
     (if length (filter (\<lambda>a. at_ID a = i) (db_attachment d)) \<noteq> 1 then Inl ErrMemoMutationConflict
      else delete_each ids (d\<lparr>db_attachment := filter (\<lambda>a. at_ID a \<noteq> i) (db_attachment d)\<rparr>))"

definition DB_DeleteAttachmentsWithPolicy ::
    "(string \<Rightarrow> bool) \<Rightarrow> AttachmentDeletionPolicy option \<Rightarrow> int32 list \<Rightarrow> db \<Rightarrow> store_error + db" where
  "DB_DeleteAttachmentsWithPolicy payload_ok policy attachmentIDs d =
     (case policy of
        None \<Rightarrow> Inl ErrMemoPermissionDenied
      | Some p \<Rightarrow>
          if adp_ActorUserID p \<le> 0 then Inl ErrMemoPermissionDenied
          else case listSQLiteAttachmentSnapshots payload_ok d attachmentIDs of
                 Inl e \<Rightarrow> Inl (WrapError e ''failed to read attachment delete targets'')
               | Inr attachments \<Rightarrow>
                   bindE (ValidateAttachmentMutationTargets (adp_ActorUserID p) attachmentIDs attachments) (\<lambda>memoIDs.
                   bindE (ValidateAttachmentDeletionMemoSnapshots memoIDs (adp_ExpectedMemoContents p)) (\<lambda>_.
                   bindE (authorizeSQLiteAttachmentMutation d (adp_ActorUserID p) memoIDs (adp_ExpectedMemoContents p)) (\<lambda>_.
                     delete_each attachmentIDs d))))"

section \<open>The store\<close>

text \<open>\<open>policyFails\<close> and \<open>postCommitFails\<close> are the test hooks: the second makes the call report an error after
  the row is stored, so the database is returned in both cases.\<close>

definition Store_CreateAttachment ::
    "('p \<Rightarrow> store_error + string) \<Rightarrow> bool \<Rightarrow> bool \<Rightarrow> 'p CreateAttachment \<Rightarrow> db
      \<Rightarrow> (store_error + 'p CreateAttachment) \<times> db" where
  "Store_CreateAttachment marshal policyFails postCommitFails create d =
     (if \<not> UIDMatcher (ca_UID create) then (Inl (NewError ''invalid uid''), d)
      else case validateMemoWritePolicy (ca_Policy create) of
             Inl e \<Rightarrow> (Inl e, d)
           | Inr _ \<Rightarrow>
               if ca_Policy create \<noteq> None \<and> ca_MemoID create = None
               then (Inl (NewError ''attachment write policy requires a memo''), d)
               else if (case ca_Policy create of None \<Rightarrow> False | Some p \<Rightarrow> ca_CreatorID create \<noteq> pol_ActorUserID p)
               then (Inl ErrMemoPermissionDenied, d)
               else if ca_Policy create \<noteq> None \<and> policyFails then (Inl ErrMemoSpaceMembershipRequired, d)
               else case DB_CreateAttachment marshal create d of
                      Inl e \<Rightarrow> (Inl e, d)
                    | Inr (attachment, d') \<Rightarrow>
                        if postCommitFails then (Inl (NewError ''create attachment post-commit failpoint''), d')
                        else (Inr attachment, d'))"

definition Store_UpdateAttachment ::
    "('p \<Rightarrow> store_error + string) \<Rightarrow> (string \<Rightarrow> bool) \<Rightarrow> 'p UpdateAttachment \<Rightarrow> db \<Rightarrow> store_error + db" where
  "Store_UpdateAttachment marshal payload_ok update d =
     (if (case ua_UID update of None \<Rightarrow> False | Some uid \<Rightarrow> \<not> UIDMatcher uid) then Inl (NewError ''invalid uid'')
      else bindE (validateMemoWritePolicy (ua_Policy update)) (\<lambda>_.
        if ua_Policy update \<noteq> None \<and> ua_MemoID update \<noteq> None
        then Inl (NewError ''policy-bearing attachment updates cannot change memo binding'')
        else DB_UpdateAttachment marshal payload_ok update d))"

definition Store_DeleteAttachmentsWithPolicy ::
    "(string \<Rightarrow> bool) \<Rightarrow> AttachmentDeletionPolicy option \<Rightarrow> int32 list \<Rightarrow> db \<Rightarrow> store_error + db" where
  "Store_DeleteAttachmentsWithPolicy payload_ok policy attachmentIDs d =
     bindE (normalizeAttachmentDelete policy attachmentIDs) (\<lambda>(normalizedPolicy, normalizedIDs).
       DB_DeleteAttachmentsWithPolicy payload_ok (Some normalizedPolicy) normalizedIDs d)"

end
