(* ===== verification/Attachment_Properties.thy ===== *)
theory Attachment_Properties
  imports Memo_Properties Attachment_Store
begin

text \<open>
  Properties of the attachment operations that run under a policy: a deletion and an update touch
  rows of their actor only, and only while he may write the memos these are bound to.
\<close>

section \<open>The checks\<close>

lemma check_targets_D:
  "check_targets actor expected seen ms as = Inr ms' \<Longrightarrow> finite ms \<Longrightarrow>
    (\<forall>a \<in> set as. at_ID a \<in> expected \<and> at_CreatorID a = actor)
    \<and> ms' = ms \<union> {m. \<exists>a \<in> set as. at_MemoID a = Some m} \<and> finite ms'"
proof (induction actor expected seen ms as rule: check_targets.induct)
  case (2 actor expected seen ms a as)
  have own: "at_ID a \<in> expected" "at_CreatorID a = actor" "\<not> at_ID a \<le> 0" "at_ID a \<notin> seen"
    using 2(3) by (simp_all split: if_splits)
  show ?case
  proof (cases "at_MemoID a")
    case None
    have "check_targets actor expected (insert (at_ID a) seen) ms as = Inr ms'"
      using 2(3) own None by simp
    then have ih: "(\<forall>a \<in> set as. at_ID a \<in> expected \<and> at_CreatorID a = actor)
        \<and> ms' = ms \<union> {m. \<exists>a \<in> set as. at_MemoID a = Some m} \<and> finite ms'"
      using 2(1) 2(4) own None by blast
    have all: "\<forall>x \<in> set (a # as). at_ID x \<in> expected \<and> at_CreatorID x = actor" using conjunct1 [OF ih] own by simp
    have e: "{m. \<exists>x \<in> set (a # as). at_MemoID x = Some m} = {m. \<exists>x \<in> set as. at_MemoID x = Some m}" using None by simp
    show ?thesis unfolding e by (rule conjI [OF all conjunct2 [OF ih]])
  next
    case (Some m)
    then have m: "\<not> m \<le> 0" using 2(3) own by (simp split: if_splits)
    have "check_targets actor expected (insert (at_ID a) seen) (insert m ms) as = Inr ms'"
      using 2(3) own Some m by simp
    then have ih: "(\<forall>a \<in> set as. at_ID a \<in> expected \<and> at_CreatorID a = actor)
        \<and> ms' = insert m ms \<union> {m. \<exists>a \<in> set as. at_MemoID a = Some m} \<and> finite ms'"
      using 2(2) 2(4) own Some m by blast
    have all: "\<forall>x \<in> set (a # as). at_ID x \<in> expected \<and> at_CreatorID x = actor" using conjunct1 [OF ih] own by simp
    have e: "ms \<union> {m. \<exists>x \<in> set (a # as). at_MemoID x = Some m} = insert m ms \<union> {m. \<exists>x \<in> set as. at_MemoID x = Some m}"
      using Some by auto
    show ?thesis unfolding e by (rule conjI [OF all conjunct2 [OF ih]])
  qed
qed simp

lemma mutation_targets_D:
  assumes "ValidateAttachmentMutationTargets actor ids as = Inr ms"
  shows "length as = length ids" "\<And>a. a \<in> set as \<Longrightarrow> at_CreatorID a = actor"
    "set ms = {m. \<exists>a \<in> set as. at_MemoID a = Some m}"
proof -
  obtain ms0 where t: "check_targets actor (set ids) {} {} as = Inr ms0" "ms = sorted_list_of_set ms0"
    using assms by (auto simp: ValidateAttachmentMutationTargets_def result_simps split: if_splits)
  show "length as = length ids" using assms by (auto simp: ValidateAttachmentMutationTargets_def split: if_splits)
  show "\<And>a. a \<in> set as \<Longrightarrow> at_CreatorID a = actor" "set ms = {m. \<exists>a \<in> set as. at_MemoID a = Some m}"
    using check_targets_D [OF t(1)] t(2) by auto
qed

abbreviation full_policy :: "int32 \<Rightarrow> MemoWritePolicy" where
  "full_policy actor \<equiv> \<lparr>pol_ActorUserID = actor, pol_LifecycleOnly = False, pol_CreatingShare = False\<rparr>"

abbreviation may_write :: "db \<Rightarrow> int32 \<Rightarrow> int32 \<Rightarrow> string Memo \<Rightarrow> bool" where
  "may_write d actor i m \<equiv> write_authorized d i (full_policy actor) (None :: unit UpdateMemo option) m"

lemma authorize_memos_D:
  "authorize_memos d actor expected ids = Inr () \<Longrightarrow> user_status d actor = Some Normal \<Longrightarrow>
    \<forall>i \<in> set ids. \<exists>m. may_write d actor i m
      \<and> (expected \<noteq> None \<longrightarrow> map_of (contents_of expected) i \<noteq> None \<longrightarrow> map_of (contents_of expected) i = Some (m_Content m))"
proof (induction d actor expected ids rule: authorize_memos.induct)
  case (2 d actor expected i ids)
  then obtain m where m: "memo_row d i = Some m" by (auto split: option.splits)
  let ?sn = "attachment_memo_snapshot d actor m"
  have v: "ValidateMemoWriteSnapshot (Some (full_policy actor)) (None :: unit UpdateMemo option) (Some ?sn) = Inr ()"
    and rest: "authorize_memos d actor expected ids = Inr ()"
    and c: "expected \<noteq> None \<longrightarrow> m_Content m = (case map_of (contents_of expected) i of None \<Rightarrow> [] | Some c \<Rightarrow> c)"
    using 2(2) m by (auto simp: bindE_Inr_iff split: if_splits)
  have f: "snap_SpaceID ?sn = m_SpaceID m" "snap_Visibility ?sn = m_Visibility m"
    by (simp_all add: attachment_memo_snapshot_def)
  note D = ValidateMemoWriteSnapshot_D [OF v f]
  have "may_write d actor i m"
    using m 2(3) D(1,3,5,6) by (auto simp: write_authorized_def attachment_memo_snapshot_def update_visibility_def split: option.splits)
  moreover have "\<forall>j \<in> set ids. \<exists>m. may_write d actor j m
      \<and> (expected \<noteq> None \<longrightarrow> map_of (contents_of expected) j \<noteq> None \<longrightarrow> map_of (contents_of expected) j = Some (m_Content m))"
    using 2(1) m v rest c 2(3) by auto
  ultimately show ?case using c by (auto split: option.splits)
qed simp

lemma attachment_authorized_D:
  assumes "authorizeSQLiteAttachmentMutation d actor ids expected = Inr ()"
  shows "user_status d actor = Some Normal" "authorize_memos d actor expected ids = Inr ()"
  using assms by (auto simp: authorizeSQLiteAttachmentMutation_def split: option.splits if_splits)

section \<open>Deletion\<close>

lemma check_delete_ids_distinct:
  "check_delete_ids p ids = Inr () \<Longrightarrow> sorted ids \<Longrightarrow> (\<And>q i. p = Some q \<Longrightarrow> i \<in> set ids \<Longrightarrow> q \<le> i) \<Longrightarrow>
    distinct ids \<and> (\<forall>q. p = Some q \<longrightarrow> q \<notin> set ids)"
proof (induction p ids rule: check_delete_ids.induct)
  case (2 p i ids)
  have "distinct ids \<and> i \<notin> set ids" "p \<noteq> Some i"
    using 2 by (auto split: if_splits)
  moreover have "q \<notin> set ids" if "p = Some q" for q
    using 2(3,4) that \<open>p \<noteq> Some i\<close> by fastforce
  ultimately show ?case by auto
qed simp

lemma delete_each_exact:
  "delete_each ids d = Inr d' \<Longrightarrow> d' = d\<lparr>db_attachment := filter (\<lambda>a. at_ID a \<notin> set ids) (db_attachment d)\<rparr>"
  by (induction ids d rule: delete_each.induct) (auto split: if_splits intro!: arg_cong [where f = "\<lambda>x. db_attachment_update (\<lambda>_. x) _"] filter_cong)

lemma normalizeAttachmentDelete_D:
  assumes "normalizeAttachmentDelete policy ids = Inr (p, ids')"
  shows "policy = Some p" "ids' = sort ids" "distinct ids"
proof -
  show "policy = Some p" "ids' = sort ids"
    using assms by (auto simp: normalizeAttachmentDelete_def Let_def result_simps split: option.splits if_splits)
  have "check_delete_ids None (sort ids) = Inr ()"
    using assms by (auto simp: normalizeAttachmentDelete_def Let_def result_simps split: option.splits if_splits)
  then show "distinct ids" using check_delete_ids_distinct [of None "sort ids"] by simp
qed

text \<open>C39. A deletion of attachments under a policy is by an active user who created every one of
  them, and who may write every memo one of them is bound to, while the memo still has the
  contents he saw. It removes exactly the named rows.\<close>

theorem DeleteAttachmentsWithPolicy_exact:
  assumes "db_keys d" "Store_DeleteAttachmentsWithPolicy ok (Some p) ids d = Inr d'"
  shows "user_status d (adp_ActorUserID p) = Some Normal
    \<and> set ids = {at_ID a | a. a \<in> set (db_attachment d) \<and> at_ID a \<in> set ids \<and> at_CreatorID a = adp_ActorUserID p}
    \<and> {m | a m. a \<in> set (db_attachment d) \<and> at_ID a \<in> set ids \<and> at_MemoID a = Some m}
        \<subseteq> {i. \<exists>m. may_write d (adp_ActorUserID p) i m \<and> map_of (contents_of (adp_ExpectedMemoContents p)) i = Some (m_Content m)}
    \<and> d' = d\<lparr>db_attachment := filter (\<lambda>a. at_ID a \<notin> set ids) (db_attachment d)\<rparr>"
proof -
  have keys: "distinct (map at_ID (db_attachment d))" using assms(1) by (simp add: db_keys_def)
  obtain q ids' where n0: "normalizeAttachmentDelete (Some p) ids = Inr (q, ids')"
    and del0: "DB_DeleteAttachmentsWithPolicy ok (Some q) ids' d = Inr d'"
    using assms(2) by (auto simp: Store_DeleteAttachmentsWithPolicy_def bindE_Inr_iff)
  have q: "q = p" using normalizeAttachmentDelete_D(1) [OF n0] by simp
  note n = n0 [unfolded q] and del = del0 [unfolded q]
  note ids = normalizeAttachmentDelete_D [OF n]
  obtain as ms where list: "listSQLiteAttachmentSnapshots ok d ids' = Inr as"
    and targets: "ValidateAttachmentMutationTargets (adp_ActorUserID p) ids' as = Inr ms"
    and snaps: "ValidateAttachmentDeletionMemoSnapshots ms (adp_ExpectedMemoContents p) = Inr ()"
    and auth: "authorizeSQLiteAttachmentMutation d (adp_ActorUserID p) ms (adp_ExpectedMemoContents p) = Inr ()"
    and gone: "delete_each ids' d = Inr d'"
    using del by (auto simp: DB_DeleteAttachmentsWithPolicy_def result_simps split: if_splits sum.splits)
  note t = mutation_targets_D [OF targets]
  have rows: "set as = {a \<in> set (db_attachment d). at_ID a \<in> set ids}" "at_ID ` set as = set ids"
    using snapshots_spec [OF list keys] snapshots_complete [OF list keys _ t(1)] ids(2,3) by simp_all
  have known: "\<forall>i \<in> set ms. map_of (contents_of (adp_ExpectedMemoContents p)) i \<noteq> None \<and> adp_ExpectedMemoContents p \<noteq> None"
    using snaps by (auto simp: ValidateAttachmentDeletionMemoSnapshots_def contents_of_def split: if_splits option.splits)
  note a = attachment_authorized_D [OF auth]
  show ?thesis
  proof (intro conjI)
    show "user_status d (adp_ActorUserID p) = Some Normal" by (rule a(1))
    show "set ids = {at_ID a | a. a \<in> set (db_attachment d) \<and> at_ID a \<in> set ids \<and> at_CreatorID a = adp_ActorUserID p}"
      using rows(2) [symmetric] rows(1) t(2) by fastforce
    show "{m | a m. a \<in> set (db_attachment d) \<and> at_ID a \<in> set ids \<and> at_MemoID a = Some m}
        \<subseteq> {i. \<exists>m. may_write d (adp_ActorUserID p) i m \<and> map_of (contents_of (adp_ExpectedMemoContents p)) i = Some (m_Content m)}"
    proof
      fix i assume "i \<in> {m | a m. a \<in> set (db_attachment d) \<and> at_ID a \<in> set ids \<and> at_MemoID a = Some m}"
      then have i: "i \<in> set ms" using t(3) rows(1) by auto
      show "i \<in> {i. \<exists>m. may_write d (adp_ActorUserID p) i m \<and> map_of (contents_of (adp_ExpectedMemoContents p)) i = Some (m_Content m)}"
        using bspec [OF authorize_memos_D [OF a(2,1)] i] bspec [OF known i] by auto
    qed
    show "d' = d\<lparr>db_attachment := filter (\<lambda>a. at_ID a \<notin> set ids) (db_attachment d)\<rparr>"
      using delete_each_exact [OF gone] ids(2) by simp
  qed
qed

definition sample_deletion :: AttachmentDeletionPolicy where
  "sample_deletion = \<lparr>adp_ActorUserID = 1, adp_ExpectedMemoContents = Some [(1, ''hello'')]\<rparr>"

theorem DeleteAttachmentsWithPolicy_exact_witness:
  "\<exists>d'. Store_DeleteAttachmentsWithPolicy (\<lambda>_. True) (Some sample_deletion) [2, 1] sample_db5 = Inr d'
    \<and> map at_ID (db_attachment d') = [3]"
proof -
  have "(case Store_DeleteAttachmentsWithPolicy (\<lambda>_. True) (Some sample_deletion) [2, 1] sample_db5 of Inl _ \<Rightarrow> False | Inr _ \<Rightarrow> True)"
    by code_simp
  then obtain d' where d': "Store_DeleteAttachmentsWithPolicy (\<lambda>_. True) (Some sample_deletion) [2, 1] sample_db5 = Inr d'"
    by (auto split: sum.splits)
  have keys: "db_keys sample_db5" by code_simp
  have "d' = sample_db5\<lparr>db_attachment := filter (\<lambda>a. at_ID a \<notin> set [2, 1]) (db_attachment sample_db5)\<rparr>"
    using DeleteAttachmentsWithPolicy_exact [OF keys d'] by blast
  with d' show ?thesis by (simp add: sample_db5_def sample_attachment_def)
qed

section \<open>Update\<close>

lemma applySQLiteAttachmentUpdate_rows:
  assumes "applySQLiteAttachmentUpdate marshal u d = Inr d'"
  shows "\<exists>payload. d' = d\<lparr>db_attachment := map (\<lambda>a. if at_ID a = ua_ID u then attachment_set payload u a else a) (db_attachment d),
      db_attachment_file := map (\<lambda>f. if af_id f = ua_ID u then attachment_file_set u f else f) (db_attachment_file d)\<rparr>"
proof (cases "ua_UID u = None \<and> ua_UpdatedTs u = None \<and> ua_Filename u = None \<and> ua_MemoID u = None \<and> ua_Payload u = None")
  case True
  then have "d' = d" using assms by (simp add: applySQLiteAttachmentUpdate_def)
  moreover have "attachment_set None u a = a" "attachment_file_set u f = f" for a f
    using True by (simp_all add: attachment_set_def attachment_file_set_def set_opt_def)
  ultimately show ?thesis by (intro exI [of _ None]) (simp cong: if_cong)
next
  case False
  then show ?thesis using assms
    by (auto simp: applySQLiteAttachmentUpdate_def Let_def result_simps update_rows_def split: if_splits option.splits sum.splits)
qed

text \<open>An update of an attachment under a policy is by an active user who created it and who may
  write the memo it is bound to. It changes the named row only, and keeps its identity, its
  creator and the memo it is bound to.\<close>

theorem UpdateAttachment_keeps_binding:
  assumes "db_keys d" "Store_UpdateAttachment marshal ok u d = Inr d'" "ua_Policy u = Some policy"
  shows "user_status d (pol_ActorUserID policy) = Some Normal
    \<and> (\<exists>a a'. filter (\<lambda>r. at_ID r = ua_ID u) (db_attachment d) = [a] \<and> at_CreatorID a = pol_ActorUserID policy
        \<and> {i. at_MemoID a = Some i} \<subseteq> {i. \<exists>m. may_write d (pol_ActorUserID policy) i m}
        \<and> at_ID a' = at_ID a \<and> at_CreatorID a' = at_CreatorID a \<and> at_MemoID a' = at_MemoID a
        \<and> at_StorageType a' = at_StorageType a \<and> at_Reference a' = at_Reference a
        \<and> at_UID a' = set_opt (ua_UID u) (at_UID a)
        \<and> d' = d\<lparr>db_attachment := map (\<lambda>r. if at_ID r = ua_ID u then a' else r) (db_attachment d),
                 db_attachment_file := map (\<lambda>f. if af_id f = ua_ID u then attachment_file_set u f else f) (db_attachment_file d)\<rparr>)"
proof -
  let ?actor = "pol_ActorUserID policy"
  have keys: "distinct (map at_ID (db_attachment d))" using assms(1) by (simp add: db_keys_def)
  obtain as ms where none: "ua_MemoID u = None"
    and list: "listSQLiteAttachmentSnapshots ok d [ua_ID u] = Inr as"
    and targets: "ValidateAttachmentMutationTargets ?actor [ua_ID u] as = Inr ms"
    and auth: "authorizeSQLiteAttachmentMutation d ?actor ms None = Inr ()"
    and app: "applySQLiteAttachmentUpdate marshal u d = Inr d'"
    using assms(2,3) by (auto simp: Store_UpdateAttachment_def DB_UpdateAttachment_def result_simps split: if_splits)
  note t = mutation_targets_D [OF targets]
  have "at_ID ` set as = {ua_ID u}" using snapshots_complete [OF list keys _ t(1)] by simp
  then obtain a where mem: "a \<in> set as" "at_ID a = ua_ID u" by (metis imageE singletonI)
  then have "a \<in> set (db_attachment d)" using snapshots_spec [OF list keys] by blast
  then have one: "filter (\<lambda>r. at_ID r = ua_ID u) (db_attachment d) = [a]"
    using filter_unique_key [OF keys] mem(2) by metis
  obtain payload where d': "d' = d\<lparr>db_attachment := map (\<lambda>r. if at_ID r = ua_ID u then attachment_set payload u r else r) (db_attachment d),
      db_attachment_file := map (\<lambda>f. if af_id f = ua_ID u then attachment_file_set u f else f) (db_attachment_file d)\<rparr>"
    using applySQLiteAttachmentUpdate_rows [OF app] by (elim exE that)
  have "map (\<lambda>r. if at_ID r = ua_ID u then attachment_set payload u r else r) (db_attachment d)
      = map (\<lambda>r. if at_ID r = ua_ID u then attachment_set payload u a else r) (db_attachment d)"
    using one by (auto simp: set_eq_iff dest!: arg_cong [where f = set])
  note d'' = d' [unfolded this]
  have f: "at_ID (attachment_set payload u a) = at_ID a" "at_CreatorID (attachment_set payload u a) = at_CreatorID a"
    "at_MemoID (attachment_set payload u a) = at_MemoID a" "at_StorageType (attachment_set payload u a) = at_StorageType a"
    "at_Reference (attachment_set payload u a) = at_Reference a"
    "at_UID (attachment_set payload u a) = set_opt (ua_UID u) (at_UID a)"
    by (simp_all add: attachment_set_def none)
  have w: "{i. at_MemoID a = Some i} \<subseteq> {i. \<exists>m. may_write d ?actor i m}"
    using authorize_memos_D [OF attachment_authorized_D(2,1) [OF auth]] t(3) mem(1) by blast
  show ?thesis
    by (rule conjI [OF attachment_authorized_D(1) [OF auth]], rule exI [of _ a], rule exI [of _ "attachment_set payload u a"])
      (intro conjI one w f t(2) [OF mem(1)] d'')
qed

definition rename_attachment :: "unit UpdateAttachment" where
  "rename_attachment = \<lparr>ua_ID = 2, ua_UID = Some ''other'', ua_UpdatedTs = Some 7, ua_Filename = None, ua_MemoID = None,
     ua_Payload = None, ua_Policy = Some (full_policy 1)\<rparr>"

definition sample_db6 :: db where
  "sample_db6 = sample_db4\<lparr>db_attachment := [sample_attachment 2 (Some 1)]\<rparr>"

theorem UpdateAttachment_keeps_binding_witness:
  "\<exists>d'. Store_UpdateAttachment (\<lambda>_. Inr []) (\<lambda>_. True) rename_attachment sample_db6 = Inr d'
    \<and> user_status sample_db6 1 = Some Normal"
proof -
  have "(case Store_UpdateAttachment (\<lambda>_. Inr []) (\<lambda>_. True) rename_attachment sample_db6 of Inl _ \<Rightarrow> False | Inr _ \<Rightarrow> True)"
    by code_simp
  then obtain d' where d': "Store_UpdateAttachment (\<lambda>_. Inr []) (\<lambda>_. True) rename_attachment sample_db6 = Inr d'"
    by (auto split: sum.splits)
  have keys: "db_keys sample_db6" by code_simp
  have p: "ua_Policy rename_attachment = Some (full_policy 1)" by (simp add: rename_attachment_def)
  have "user_status sample_db6 1 = Some Normal"
    using UpdateAttachment_keeps_binding [OF keys d' p] by simp
  with d' show ?thesis by blast
qed

end
