(* ===== verification/Sessions.thy ===== *)
theory Sessions
  imports User_Identities Go_Numbers
begin

text \<open>
  Sign-in, sign-out and the rotation of refresh tokens: \<open>auth_service.go\<close> and \<open>auth_service_session.go\<close>, with
  the client information that a session records and the cookie that carries its token. One reading of the
  clock serves a handler; the UUIDs are arguments.
\<close>

section \<open>Request metadata\<close>

text \<open>The metadata of the request, if any: the values of a key. \<open>SetResponseHeader\<close> fails or not; what was
  set is beside the store.\<close>

record call_context =
  cc_Identity :: request_context
  cc_Metadata :: "(string \<Rightarrow> string list) option"
  cc_SetHeader :: "store_error option"

record session_state =
  ss_Store :: "UserSetting Store"
  ss_Cookies :: "string list"

type_synonym 'a session_api = "(session_state, 'a) act"

definition on_store :: "'a api \<Rightarrow> 'a session_api" where
  "on_store m s = (case m (ss_Store s) of (r, st) \<Rightarrow> (r, s\<lparr>ss_Store := st\<rparr>))"

definition SetCookie :: "call_context \<Rightarrow> (store_error \<Rightarrow> api_error) \<Rightarrow> string \<Rightarrow> unit session_api" where
  "SetCookie cc f cookie s =
     (case cc_SetHeader cc of
        Some e \<Rightarrow> (Inl (f e), s)
      | None \<Rightarrow> (Inr (), s\<lparr>ss_Cookies := ss_Cookies s @ [cookie]\<rparr>))"

definition first_value :: "call_context \<Rightarrow> string \<Rightarrow> string option" where
  "first_value cc key = (case cc_Metadata cc of None \<Rightarrow> None | Some md \<Rightarrow> first_row (md key))"

section \<open>Strings\<close>

text \<open>What follows, and what precedes, the first occurrence of a text. \<open>strings.ToLower\<close> maps the ASCII letters and
  the two other code points whose lower case is ASCII; what it does to the rest of Unicode is left out.\<close>

fun after :: "string \<Rightarrow> string \<Rightarrow> string option" where
  "after sub [] = (if sub = [] then Some [] else None)"
| "after sub (c # s) = (if has_prefix (c # s) sub then Some (drop (length sub) (c # s)) else after sub s)"

fun before :: "string \<Rightarrow> string \<Rightarrow> string option" where
  "before sub [] = (if sub = [] then Some [] else None)"
| "before sub (c # s) = (if has_prefix (c # s) sub then Some [] else map_option ((#) c) (before sub s))"

fun ToLower :: "string \<Rightarrow> string" where
  "ToLower [] = []"
| "ToLower (c # s) =
     (if has_prefix (c # s) [CHR 0xC4, CHR 0xB0] then CHR ''i'' # ToLower (drop 1 s)
      else if has_prefix (c # s) [CHR 0xE2, CHR 0x84, CHR 0xAA] then CHR ''k'' # ToLower (drop 2 s)
      else ascii_lower c # ToLower s)"

definition dots :: "string \<Rightarrow> string" where
  "dots s = map (\<lambda>c. if c = CHR ''_'' then CHR ''.'' else c) s"

section \<open>Client information (auth_service_session.go)\<close>

text \<open>A name with the version that follows \<open>marker\<close>, up to the first of the ends that occurs.\<close>

definition with_version :: "string \<Rightarrow> string option \<Rightarrow> (string \<Rightarrow> string) \<Rightarrow> string" where
  "with_version name version f = (case version of None \<Rightarrow> name | Some v \<Rightarrow> name @ '' '' @ f v)"

definition up_to :: "string list \<Rightarrow> string \<Rightarrow> string option" where
  "up_to ends s = first_row (List.map_filter (\<lambda>e. before e s) ends)"

definition device_type :: "string \<Rightarrow> string" where
  "device_type ua =
     (if contains ua ''ipad'' \<or> contains ua ''tablet'' then ''tablet''
      else if contains ua ''mobile'' \<or> contains ua ''android'' \<or> contains ua ''iphone'' \<or> contains ua ''ipod''
        \<or> contains ua ''windows phone'' \<or> contains ua ''blackberry'' then ''mobile''
      else ''desktop'')"

definition os_of :: "string \<Rightarrow> string \<Rightarrow> string" where
  "os_of ua os =
     (if contains ua ''iphone os'' \<or> contains ua ''cpu os''
      then (case after ''cpu os '' ua of
              Some r \<Rightarrow> with_version ''iOS'' (up_to ['' ''] r) dots
            | None \<Rightarrow> (case after ''iphone os '' ua of
                Some r \<Rightarrow> with_version ''iOS'' (up_to ['' ''] r) dots
              | None \<Rightarrow> ''iOS''))
      else if contains ua ''android''
      then (case after ''android '' ua of
              Some r \<Rightarrow> with_version ''Android'' (up_to ['';'', '')''] r) id
            | None \<Rightarrow> ''Android'')
      else if contains ua ''windows nt 10.0'' then ''Windows 10/11''
      else if contains ua ''windows nt 6.3'' then ''Windows 8.1''
      else if contains ua ''windows nt 6.1'' then ''Windows 7''
      else if contains ua ''windows'' then ''Windows''
      else if contains ua ''mac os x''
      then (case after ''mac os x '' ua of
              Some r \<Rightarrow> with_version ''macOS'' (up_to ['';'', '')''] r) dots
            | None \<Rightarrow> ''macOS'')
      else if contains ua ''linux'' then ''Linux''
      else if contains ua ''cros'' then ''Chrome OS''
      else os)"

text \<open>The version after \<open>marker\<close> up to a space, or to the end.\<close>

definition browser_version :: "string \<Rightarrow> string \<Rightarrow> string \<Rightarrow> string" where
  "browser_version name marker ua =
     (case after marker ua of
        None \<Rightarrow> name
      | Some r \<Rightarrow> name @ '' '' @ (case before '' '' r of Some v \<Rightarrow> v | None \<Rightarrow> r))"

definition browser_of :: "string \<Rightarrow> string \<Rightarrow> string" where
  "browser_of ua browser =
     (if contains ua ''edg/'' then browser_version ''Edge'' ''edg/'' ua
      else if contains ua ''chrome/'' \<and> \<not> contains ua ''edg'' then browser_version ''Chrome'' ''chrome/'' ua
      else if contains ua ''firefox/'' then browser_version ''Firefox'' ''firefox/'' ua
      else if contains ua ''safari/'' \<and> \<not> contains ua ''chrome'' \<and> \<not> contains ua ''edg''
      then browser_version ''Safari'' ''version/'' ua
      else if contains ua ''opera/'' \<or> contains ua ''opr/'' then ''Opera''
      else browser)"

definition parseUserAgent :: "string \<Rightarrow> ClientInfo \<Rightarrow> ClientInfo" where
  "parseUserAgent userAgent clientInfo =
     (if userAgent = [] then clientInfo
      else let ua = ToLower userAgent in
        clientInfo\<lparr>ci_DeviceType := device_type ua, ci_Os := os_of ua (ci_Os clientInfo),
          ci_Browser := browser_of ua (ci_Browser clientInfo)\<rparr>)"

definition no_client :: ClientInfo where
  "no_client = \<lparr>ci_UserAgent = [], ci_IpAddress = [], ci_DeviceType = [], ci_Os = [], ci_Browser = []\<rparr>"

definition extractClientInfo :: "call_context \<Rightarrow> ClientInfo" where
  "extractClientInfo cc =
     (let info = (case first_value cc ''user-agent'' of
                    None \<Rightarrow> no_client
                  | Some userAgent \<Rightarrow> parseUserAgent userAgent (no_client\<lparr>ci_UserAgent := userAgent\<rparr>))
      in case first_value cc ''x-forwarded-for'' of
           Some forwardedFor \<Rightarrow> info\<lparr>ci_IpAddress := trim_space (hd (split (CHR '','') forwardedFor))\<rparr>
         | None \<Rightarrow> (case first_value cc ''x-real-ip'' of
               Some realIP \<Rightarrow> info\<lparr>ci_IpAddress := realIP\<rparr>
             | None \<Rightarrow> info))"

section \<open>The refresh cookie\<close>

definition isSecureRequest :: "call_context \<Rightarrow> bool" where
  "isSecureRequest cc =
     (case cc_Metadata cc of
        None \<Rightarrow> False
      | Some md \<Rightarrow>
          list_ex (\<lambda>v. list_ex (\<lambda>proto. fold_eq (trim_space proto) ''https'') (split (CHR '','') v)) (md ''x-forwarded-proto'')
          \<or> list_ex (\<lambda>v. contains (ToLower v) ''proto=https'') (md ''forwarded'')
          \<or> list_ex (\<lambda>v. has_prefix (ToLower (trim_space v)) ''https://'') (md ''origin''))"

text \<open>\<open>time.Format\<close> with the layout \<open>Mon, 02 Jan 2006 15:04:05 GMT\<close>, of an instant of the years 0 to 9999 in UTC.\<close>

definition two_digits :: "int \<Rightarrow> string" where
  "two_digits n = [digit_char (nat n div 10), digit_char (nat n mod 10)]"

definition cookie_time :: "int \<Rightarrow> string" where
  "cookie_time nanos =
     (let t = nanos div 1000000000; y = nat (Year t) in
        [''Sun'', ''Mon'', ''Tue'', ''Wed'', ''Thu'', ''Fri'', ''Sat''] ! nat (Weekday t) @ '', '' @ two_digits (Day t) @ '' '' @
        [''Jan'', ''Feb'', ''Mar'', ''Apr'', ''May'', ''Jun'', ''Jul'', ''Aug'', ''Sep'', ''Oct'', ''Nov'', ''Dec''] ! nat (Month t - 1)
        @ '' '' @ two_digits (int (y div 100)) @ two_digits (int (y mod 100)) @ '' '' @ two_digits (Hour t) @ '':''
        @ two_digits (Minute t) @ '':'' @ two_digits (Second t) @ '' GMT'')"

definition buildRefreshTokenCookie :: "call_context \<Rightarrow> string \<Rightarrow> int option \<Rightarrow> string" where
  "buildRefreshTokenCookie cc refreshToken expireTime =
     join ''; '' ([RefreshTokenCookieName @ ''='' @ refreshToken, ''Path=/'', ''HttpOnly''] @
       [case expireTime of None \<Rightarrow> ''Expires=Thu, 01 Jan 1970 00:00:00 GMT'' | Some t \<Rightarrow> ''Expires='' @ cookie_time t] @
       (if isSecureRequest cc then [''SameSite=Lax'', ''Secure''] else [''SameSite=Lax'']))"

section \<open>The handlers\<close>

definition clearAuthCookies :: "call_context \<Rightarrow> (store_error \<Rightarrow> api_error) \<Rightarrow> unit session_api" where
  "clearAuthCookies cc f =
     SetCookie cc (\<lambda>e. f (WrapError e ''failed to set refresh cookie'')) (buildRefreshTokenCookie cc [] None)"

definition refresh_record :: "call_context \<Rightarrow> string \<Rightarrow> int \<Rightarrow> int \<Rightarrow> RefreshToken" where
  "refresh_record cc tokenID expiresAt now =
     \<lparr>rt_TokenId = tokenID, rt_ExpiresAt = Some expiresAt, rt_CreatedAt = Some now, rt_ClientInfo = Some (extractClientInfo cc), rt_Description = []\<rparr>"

abbreviation clock :: "session_state \<Rightarrow> int" where "clock s \<equiv> st_clock (ss_Store s)"

definition access_token :: "Server \<Rightarrow> User \<Rightarrow> (string \<times> int) session_api" where
  "access_token sv user s =
     (orElse (GenerateAccessTokenV2 (au_jwt (sv_Auth sv)) (clock s) (u_ID user) (u_Username user) (u_Role user)
         (u_RowStatus user) (au_secret (sv_Auth sv)))
        (statusH Internal ''failed to generate access token: %v''), s)"

definition refresh_token :: "Server \<Rightarrow> User \<Rightarrow> string \<Rightarrow> (string \<times> int) session_api" where
  "refresh_token sv user tokenID s =
     (orElse (GenerateRefreshToken (au_jwt (sv_Auth sv)) (clock s) (u_ID user) tokenID (au_secret (sv_Auth sv)))
        (statusH Internal ''failed to generate refresh token: %v''), s)"

text \<open>\<open>attempt\<close>: an operation of the store whose error is only logged.\<close>

definition attempt :: "'a op \<Rightarrow> unit session_api" where
  "attempt m s = (case m (ss_Store s) of (_, st) \<Rightarrow> (Inr (), s\<lparr>ss_Store := st\<rparr>))"

definition add_refresh :: "Server \<Rightarrow> call_context \<Rightarrow> User \<Rightarrow> string \<Rightarrow> int \<Rightarrow> int \<Rightarrow> unit op" where
  "add_refresh sv cc user tokenID expiresAt now =
     AddUserRefreshToken (au_settings (sv_Auth sv)) (au_codec (sv_Auth sv)) (u_ID user) (refresh_record cc tokenID expiresAt now)"

definition remove_refresh :: "Server \<Rightarrow> int32 \<Rightarrow> string \<Rightarrow> unit op" where
  "remove_refresh sv userID tokenID =
     RemoveUserRefreshToken (au_settings (sv_Auth sv)) (au_codec (sv_Auth sv)) userID tokenID"

definition doSignIn :: "Server \<Rightarrow> call_context \<Rightarrow> string \<Rightarrow> User \<Rightarrow> (string \<times> int) session_api" where
  "doSignIn sv cc tokenID user s =
     bindH (refresh_token sv user tokenID) (\<lambda>(refreshToken, refreshExpiresAt).
     bindH (attempt (add_refresh sv cc user tokenID refreshExpiresAt (clock s))) (\<lambda>_.
     bindH (SetCookie cc (statusH Internal ''failed to set refresh token cookie: %v'')
             (buildRefreshTokenCookie cc refreshToken (Some refreshExpiresAt))) (\<lambda>_.
       access_token sv user))) s"

definition request_token :: "call_context \<Rightarrow> string" where
  "request_token cc = (case first_value cc ''cookie'' of None \<Rightarrow> [] | Some c \<Rightarrow> ExtractRefreshTokenFromCookie c)"

definition SignOut :: "Server \<Rightarrow> call_context \<Rightarrow> unit session_api" where
  "SignOut sv cc s =
     bindH (case GetUserClaims (cc_Identity cc) of
              None \<Rightarrow> returnH ()
            | Some claims \<Rightarrow>
                if request_token cc = [] then returnH ()
                else (case ParseRefreshToken (au_jwt (sv_Auth sv)) (clock s) (request_token cc) (au_secret (sv_Auth sv)) of
                        Inl _ \<Rightarrow> returnH ()
                      | Inr refreshClaims \<Rightarrow> attempt (remove_refresh sv (uc_UserID claims) (cl_TokenID refreshClaims)))) (\<lambda>_.
       clearAuthCookies cc (statusH Internal ''failed to clear auth cookies, error: %v'')) s"

definition Session_RefreshToken :: "Server \<Rightarrow> call_context \<Rightarrow> string \<Rightarrow> (string \<times> int) session_api" where
  "Session_RefreshToken sv cc newTokenID s =
     (if request_token cc = [] then (Inl (Status Unauthenticated ''refresh token not found'' NoCause), s)
      else
        bindH (on_store (callH (statusH Unauthenticated ''invalid refresh token: %v'')
                 (AuthenticateByRefreshToken (sv_Auth sv) (request_token cc)))) (\<lambda>(user, oldTokenID).
        bindH (refresh_token sv user newTokenID) (\<lambda>(newRefreshToken, newRefreshExpiresAt).
        bindH (on_store (callH (statusH Internal ''failed to store refresh token: %v'')
                 (add_refresh sv cc user newTokenID newRefreshExpiresAt (clock s)))) (\<lambda>_.
        bindH (attempt (remove_refresh sv (u_ID user) oldTokenID)) (\<lambda>_.
        bindH (SetCookie cc (statusH Internal ''failed to set refresh token cookie: %v'')
                 (buildRefreshTokenCookie cc newRefreshToken (Some newRefreshExpiresAt))) (\<lambda>_.
          access_token sv user))))) s)"

definition GetCurrentUser :: "Server \<Rightarrow> call_context \<Rightarrow> User session_api" where
  "GetCurrentUser sv cc =
     bindH (on_store (fetch_current sv (cc_Identity cc) (statusH Unauthenticated ''failed to get current user: %v''))) (\<lambda>user.
       case user of
         None \<Rightarrow>
           bindH (clearAuthCookies cc (statusH Internal ''failed to clear auth cookies: %v'')) (\<lambda>_.
             failH Unauthenticated ''user not found'')
       | Some u \<Rightarrow> returnH u)"

text \<open>The credentials of a sign-in; for an external one, what the provider answered.\<close>

datatype credentials =
  PasswordCredentials string string
| SsoCredentials "api_error + (IdentityProvider \<times> IdentityProviderUserInfo option)"
| NoCredentials

record sign_in_input =
  si_uuids :: "nat \<Rightarrow> string"
  si_tokenID :: string
  si_random :: "store_error + string"
  si_hash :: "string \<Rightarrow> store_error + string"

definition password_user :: "Server \<Rightarrow> string \<Rightarrow> string \<Rightarrow> User api" where
  "password_user sv username password =
     bindH (find_users sv (no_find_user\<lparr>fu_Username := Some username\<rparr>) (statusH Internal ''failed to get user, error: %v'')) (\<lambda>user.
       case user of
         None \<Rightarrow> failH InvalidArgument ''unmatched username and password''
       | Some u \<Rightarrow>
           if \<not> sv_password sv (u_PasswordHash u) password then failH InvalidArgument ''unmatched username and password''
           else bindH (liftH (orElse (sv_General sv) (statusH Internal ''failed to get instance general setting, error: %v''))) (\<lambda>general.
             if gs_DisallowPasswordAuth general \<and> u_Role u = RoleUser
             then failH PermissionDenied ''password signin is not allowed''
             else returnH u))"

definition SignIn :: "Server \<Rightarrow> call_context \<Rightarrow> sign_in_input \<Rightarrow> credentials \<Rightarrow> (User \<times> string \<times> int) session_api" where
  "SignIn sv cc inp request =
     bindH (on_store (case request of
              PasswordCredentials username password \<Rightarrow> bindH (password_user sv username password) (\<lambda>u. returnH (Some u))
            | SsoCredentials idp \<Rightarrow>
                bindH (liftH idp) (\<lambda>(identityProvider, userInfo).
                bindH (resolveSSOUser sv (si_uuids inp) (si_random inp) (si_hash inp) None identityProvider userInfo) (\<lambda>u.
                  returnH (Some u)))
            | NoCredentials \<Rightarrow> returnH None)) (\<lambda>existingUser.
       case existingUser of
         None \<Rightarrow> failH InvalidArgument ''invalid credentials''
       | Some user \<Rightarrow>
           if u_RowStatus user = Archived
           then failH PermissionDenied (''user has been archived with username '' @ u_Username user)
           else bindH (wrapH (\<lambda>e. Status Internal ''failed to sign in: %v'' (cause_of e)) (doSignIn sv cc (si_tokenID inp) user))
             (\<lambda>(accessToken, accessExpiresAt). returnH (user, accessToken, accessExpiresAt)))"

end
