(* ===== verification/Access_Policy.thy ===== *)
theory Access_Policy
  imports Authentication "HOL-Library.AList"
begin

text \<open>
  The access policy of methods and its two transports: \<open>acl_config.go\<close>, \<open>authz.go\<close>, the authentication
  interceptor of \<open>connect_interceptors.go\<close>, the gateway middleware of \<open>v1.go\<close> and
  \<open>gateway_route_resolver.go\<close>, which finds the procedure of a gateway request. The services behind the
  transports, the registry of protocol files and the pattern that the gateway matched are arguments.
\<close>

section \<open>Methods (acl_config.go)\<close>

definition PublicMethods :: "string list" where
  "PublicMethods =
     [''/memos.api.v1.AuthService/SignIn'',
      ''/memos.api.v1.AuthService/RefreshToken'',
      ''/memos.api.v1.InstanceService/GetInstanceProfile'',
      ''/memos.api.v1.InstanceService/GetInstanceSetting'',
      ''/memos.api.v1.InstanceService/BatchGetInstanceSettings'',
      ''/memos.api.v1.UserService/CreateUser'',
      ''/memos.api.v1.UserService/GetUser'',
      ''/memos.api.v1.UserService/BatchGetUsers'',
      ''/memos.api.v1.UserService/GetUserAvatar'',
      ''/memos.api.v1.UserService/GetUserStats'',
      ''/memos.api.v1.UserService/ListAllUserStats'',
      ''/memos.api.v1.IdentityProviderService/ListIdentityProviders'',
      ''/memos.api.v1.MemoService/GetMemo'',
      ''/memos.api.v1.MemoService/ListMemos'',
      ''/memos.api.v1.MemoService/ListMemoComments'',
      ''/memos.api.v1.MemoService/ListMemoAttachments'',
      ''/memos.api.v1.MemoService/ListMemoReactions'',
      ''/memos.api.v1.MemoService/ListMemoRelations'',
      ''/memos.api.v1.MemoService/GetLinkMetadata'',
      ''/memos.api.v1.MemoService/BatchGetLinkMetadata'',
      ''/memos.api.v1.AttachmentService/GetAttachment'',
      ''/memos.api.v1.MemoService/GetSharedMemo'']"

definition IsPublicMethod :: "string \<Rightarrow> bool" where
  "IsPublicMethod procedure = (procedure \<in> set PublicMethods)"

definition AuthBootstrapMethods :: "string list" where
  "AuthBootstrapMethods =
     [''/memos.api.v1.AuthService/SignIn'',
      ''/memos.api.v1.AuthService/RefreshToken'',
      ''/memos.api.v1.InstanceService/GetInstanceProfile'',
      ''/memos.api.v1.InstanceService/GetInstanceSetting'',
      ''/memos.api.v1.InstanceService/BatchGetInstanceSettings'',
      ''/memos.api.v1.IdentityProviderService/ListIdentityProviders'',
      ''/memos.api.v1.UserService/CreateUser'',
      ''/memos.api.v1.MemoService/GetSharedMemo'']"

definition IsAuthBootstrapMethod :: "string \<Rightarrow> bool" where
  "IsAuthBootstrapMethod procedure = (procedure \<in> set AuthBootstrapMethods)"

section \<open>The authorizer (authz.go)\<close>

datatype access_error = ErrUnauthenticated | PolicyError store_error

record Authorizer =
  az_authenticator :: Authenticator
  az_deployment :: "InstanceSetting option"
  az_raw :: "store_error + InstanceSetting option"

definition Authorizer_Authenticate ::
    "Authorizer \<Rightarrow> string \<Rightarrow> UserSetting Store \<Rightarrow> (AuthResult option \<times> pat_usage) \<times> UserSetting Store" where
  "Authorizer_Authenticate a authHeader = Authenticate (az_authenticator a) authHeader"

definition CheckAccess :: "Authorizer \<Rightarrow> string \<Rightarrow> AuthResult option \<Rightarrow> access_error option" where
  "CheckAccess a procedure result =
     (if result \<noteq> None then None
      else if \<not> IsPublicMethod procedure then Some ErrUnauthenticated
      else if IsAuthBootstrapMethod procedure then None
      else (case AllowsAnonymousAccess (az_deployment a) (az_raw a) of
              Inl err \<Rightarrow> Some (PolicyError (WrapError err ''failed to resolve instance access policy''))
            | Inr allowsAnonymous \<Rightarrow> if allowsAnonymous then None else Some ErrUnauthenticated))"

section \<open>The Connect interceptor (connect_interceptors.go)\<close>

datatype connect_error = ConnectError Code string

definition newAuthorizationConnectError :: "access_error \<Rightarrow> connect_error" where
  "newAuthorizationConnectError err =
     (if err = ErrUnauthenticated then ConnectError Unauthenticated ''authentication required''
      else ConnectError Internal ''failed to resolve API access policy'')"

text \<open>The next handler is an argument: it answers, and leaves a store. The goroutines that the
  authentication starts come beside the answer.\<close>

type_synonym ('q, 'r) handler = "request_context \<Rightarrow> 'q \<Rightarrow> UserSetting Store \<Rightarrow> (connect_error + 'r) \<times> UserSetting Store"

record 'q connect_request =
  cr_Procedure :: string
  cr_Authorization :: string
  cr_Message :: 'q

definition AuthInterceptor_WrapUnary ::
    "Authorizer \<Rightarrow> ('q, 'r) handler \<Rightarrow> request_context \<Rightarrow> 'q connect_request \<Rightarrow> UserSetting Store
      \<Rightarrow> ((connect_error + 'r) \<times> pat_usage) \<times> UserSetting Store" where
  "AuthInterceptor_WrapUnary a next_fn ctx req s =
     (let ((result, usage), s) = Authorizer_Authenticate a (cr_Authorization req) s
      in case CheckAccess a (cr_Procedure req) result of
           Some err \<Rightarrow> ((Inl (newAuthorizationConnectError err), usage), s)
         | None \<Rightarrow> (let (r, s) = next_fn (ApplyToContext ctx result) (cr_Message req) s in ((r, usage), s)))"

section \<open>The procedure of a gateway request (gateway_route_resolver.go)\<close>

datatype http_pattern =
  HttpGet string | HttpPost string | HttpPut string | HttpPatch string | HttpDelete string
| HttpCustom string string | HttpNone

record http_rule =
  rule_pattern :: http_pattern
  rule_additional :: "http_pattern list"

text \<open>The table is an association list without repeated keys.\<close>

type_synonym gateway_routes = "((string \<times> string) \<times> string) list"

text \<open>\<open>strings.ToUpper\<close> of an ASCII string.\<close>

definition to_upper :: "char \<Rightarrow> char" where
  "to_upper c = (if 97 \<le> (of_char c :: nat) \<and> (of_char c :: nat) \<le> 122 then char_of ((of_char c :: nat) - 32) else c)"

fun httpRuleMethodAndTemplate :: "http_pattern \<Rightarrow> string \<times> string" where
  "httpRuleMethodAndTemplate (HttpGet t) = (''GET'', t)"
| "httpRuleMethodAndTemplate (HttpPost t) = (''POST'', t)"
| "httpRuleMethodAndTemplate (HttpPut t) = (''PUT'', t)"
| "httpRuleMethodAndTemplate (HttpPatch t) = (''PATCH'', t)"
| "httpRuleMethodAndTemplate (HttpDelete t) = (''DELETE'', t)"
| "httpRuleMethodAndTemplate (HttpCustom kind path) = (map to_upper kind, path)"
| "httpRuleMethodAndTemplate HttpNone = ([], [])"

text \<open>One variable of a template, without its braces.\<close>

definition canonical_variable :: "string \<Rightarrow> string result" where
  "canonical_variable var =
     (let field = takeWhile (\<lambda>c. c \<noteq> CHR ''='') var;
          hasSubtemplate = (CHR ''='' \<in> set var);
          subtemplate = drop (Suc (length field)) var
      in if var = [] \<or> CHR ''{'' \<in> set var \<or> CHR ''}'' \<in> set var then Inl (Errorf ''invalid variable %q'' [var])
         else if field = [] \<or> hasSubtemplate \<and> subtemplate = [] then Inl (Errorf ''invalid variable %q'' [var])
         else Inr (if hasSubtemplate then var else var @ ''=*''))"

function canonical_from :: "string \<Rightarrow> string result" where
  "canonical_from [] = Inr []"
| "canonical_from (c # rest) =
     (if c = CHR ''{''
      then if CHR ''}'' \<notin> set rest then Inl (Errorf ''unclosed variable'' [])
           else let var = takeWhile (\<lambda>c. c \<noteq> CHR ''}'') rest in
                bindE (canonical_variable var) (\<lambda>v.
                bindE (canonical_from (drop (Suc (length var)) rest)) (\<lambda>out. Inr (''{'' @ v @ ''}'' @ out)))
      else if c = CHR ''}'' then Inl (Errorf ''unexpected closing brace'' [])
      else bindE (canonical_from rest) (\<lambda>out. Inr (c # out)))"
  by pat_completeness auto
termination by (relation "measure length") auto

definition canonicalGatewayPattern :: "string \<Rightarrow> string result" where
  "canonicalGatewayPattern template =
     (if \<not> has_prefix template ''/'' then Inl (Errorf (''template must start with '' @ [CHR 0x27] @ ''/'' @ [CHR 0x27]) [])
      else canonical_from template)"

definition addBinding :: "string \<Rightarrow> http_pattern \<Rightarrow> gateway_routes \<Rightarrow> gateway_routes result" where
  "addBinding procedure rule r =
     (let (httpMethod, template) = httpRuleMethodAndTemplate rule
      in if httpMethod = [] \<or> template = [] then Inr r
         else bindE (wrapE ''failed to canonicalize HTTP template'' (canonicalGatewayPattern template)) (\<lambda>pattern.
           case map_of r (httpMethod, pattern) of
             Some existing \<Rightarrow>
               if existing \<noteq> procedure
               then Inl (Errorf ''%s %s is bound to both %s and %s'' [httpMethod, pattern, existing, procedure])
               else Inr (AList.update (httpMethod, pattern) procedure r)
           | None \<Rightarrow> Inr (AList.update (httpMethod, pattern) procedure r)))"

fun add_bindings :: "string \<Rightarrow> http_pattern list \<Rightarrow> gateway_routes \<Rightarrow> gateway_routes result" where
  "add_bindings procedure [] r = Inr r"
| "add_bindings procedure (binding # bindings) r =
     bindE (addBinding procedure binding r) (add_bindings procedure bindings)"

definition addRule :: "string \<Rightarrow> http_rule \<Rightarrow> gateway_routes \<Rightarrow> gateway_routes result" where
  "addRule procedure rule r =
     bindE (addBinding procedure (rule_pattern rule) r) (add_bindings procedure (rule_additional rule))"

text \<open>The registered files: a package, and its services with their methods and HTTP rules.\<close>

record proto_file =
  pf_Package :: string
  pf_Services :: "(string \<times> (string \<times> http_rule option) list) list"

definition apiPackage :: string where "apiPackage = ''memos.api.v1''"

definition file_rules :: "proto_file \<Rightarrow> (string \<times> http_rule) list" where
  "file_rules fd =
     (if pf_Package fd \<noteq> apiPackage then []
      else concat (map (\<lambda>(service, methods).
             List.map_filter (\<lambda>(m, rule). map_option (\<lambda>rule. (''/'' @ service @ ''/'' @ m, rule)) rule) methods)
           (pf_Services fd)))"

fun add_rules :: "(string \<times> http_rule) list \<Rightarrow> gateway_routes \<Rightarrow> gateway_routes result" where
  "add_rules [] r = Inr r"
| "add_rules ((procedure, rule) # rules) r = bindE (addRule procedure rule r) (add_rules rules)"

definition newGatewayRouteResolver :: "proto_file list \<Rightarrow> gateway_routes result" where
  "newGatewayRouteResolver files =
     bindE (add_rules (concat (map file_rules files)) []) (\<lambda>r.
       if r = [] then Inl (Errorf ''no HTTP bindings found for proto package %s'' [apiPackage]) else Inr r)"

record http_request =
  hr_Method :: string
  hr_Authorization :: string
  hr_ContentType :: string
  hr_pattern :: "string option"

definition resolveRequest :: "gateway_routes \<Rightarrow> http_request \<Rightarrow> string option" where
  "resolveRequest r request =
     (case hr_pattern request of
        None \<Rightarrow> None
      | Some matchedPattern \<Rightarrow>
          (case map_of r (hr_Method request, matchedPattern) of
             Some procedure \<Rightarrow> Some procedure
           | None \<Rightarrow>
               if hr_Method request = ''POST'' \<and> hr_ContentType request = ''application/x-www-form-urlencoded''
               then map_of r (''GET'', matchedPattern) else None))"

section \<open>The gateway middleware (v1.go)\<close>

text \<open>What the middleware answers itself: a status and a body; otherwise the next handler does.\<close>

datatype 'r gateway_answer = GatewayError nat string | GatewayNext 'r

definition writeGatewayAuthorizationError :: "access_error \<Rightarrow> 'r gateway_answer" where
  "writeGatewayAuthorizationError err =
     (if err = ErrUnauthenticated
      then GatewayError 401 ''{\"code\": 16, \"message\": \"authentication required\"}''
      else GatewayError 500 ''{\"code\": 13, \"message\": \"failed to resolve API access policy\"}'')"

definition gatewayAuthMiddleware ::
    "Authorizer \<Rightarrow> gateway_routes \<Rightarrow> (request_context \<Rightarrow> 'q \<Rightarrow> UserSetting Store \<Rightarrow> 'r \<times> UserSetting Store)
      \<Rightarrow> request_context \<Rightarrow> http_request \<Rightarrow> 'q \<Rightarrow> UserSetting Store \<Rightarrow> ('r gateway_answer \<times> pat_usage) \<times> UserSetting Store" where
  "gatewayAuthMiddleware a routes next_fn ctx r message s =
     (let ((result, usage), s) = Authorizer_Authenticate a (hr_Authorization r) s;
          procedure = (case resolveRequest routes r of Some p \<Rightarrow> p | None \<Rightarrow> [])
      in case CheckAccess a procedure result of
           Some err \<Rightarrow> ((writeGatewayAuthorizationError err, usage), s)
         | None \<Rightarrow> (let (answer, s) = next_fn (ApplyToContext ctx result) message s in ((GatewayNext answer, usage), s)))"

end
