(* ===== verification/Settings_Properties.thy ===== *)
theory Settings_Properties
  imports Settings_Runs Sample_Libraries
begin

text \<open>
  The user settings as their callers see them: what a read returns after any run, and what a failing
  update of a webhook leaves behind.
\<close>

section \<open>Runs\<close>

lemma session_inv_New:
  assumes "codec_ok cdc"
  shows "session_inv cdc (Store_New empty_db now)"
proof -
  have "settings_inv cdc (Store_New empty_db now)"
    using assms by (simp add: settings_inv_def rows_ok_def Store_New_def empty_db_def coherent_New)
  then show ?thesis using run_inv_New by (simp add: session_inv_def)
qed

lemma setting_runs_keep: "(setting_step cdc issued)\<^sup>*\<^sup>* s s' \<Longrightarrow> session_inv cdc s \<Longrightarrow> session_inv cdc s'"
  by (induction rule: rtranclp_induct) (auto dest: setting_step_spec)

text \<open>A token that is not issued again does not come back.\<close>

lemma setting_runs_token:
  assumes "(setting_step cdc issued)\<^sup>*\<^sup>* s s'" "session_inv cdc s" "\<not> has_token cdc s u tid" "(u, tid) \<notin> issued"
  shows "\<not> has_token cdc s' u tid"
  using assms(1)
proof (induction rule: rtranclp_induct)
  case (step s1 s2)
  then show ?case using setting_step_spec [OF step(2) setting_runs_keep [OF step(1) assms(2)]] assms(4) by blast
qed (use assms(3) in simp)

section \<open>Properties\<close>

text \<open>C5. The settings cache is transparent, unless an update of a webhook fails. After any run of \<open>setting_step\<close>, whatever
  settings were stored, changed, listed, deleted, or removed with their user, whether these operations
  succeeded or not, and whatever entries expired or were evicted, \<open>GetUserSetting\<close> of a user and a key succeeds and returns
  exactly the value that the row of this user and key holds, or nothing when there is no row, and the database stays as
  it is. The runs leave out an \<open>UpdateUserWebhook\<close> that fails, after which this is wrong (C13), and two things that no
  caller does: storing a whole list of refresh tokens directly instead of by its two operations, and reading the
  unspecified key.\<close>

theorem GetUserSetting_current:
  assumes "codec_ok cdc" "(setting_step cdc UNIV)\<^sup>*\<^sup>* (Store_New empty_db now) s" "k \<noteq> KEY_UNSPECIFIED"
  shows "\<exists>s'. Store_GetUserSetting rng cdc (setting_query u k) s
      = (Inr (map_option (\<lambda>v. \<lparr>us_UserId = u, us_Key = k, us_Value = Some v\<rparr>) (stored cdc (st_db s) u k)), s')
    \<and> st_db s' = st_db s"
proof -
  have "session_inv cdc s" by (rule setting_runs_keep [OF assms(2) session_inv_New [OF assms(1)]])
  then have "settings_inv cdc s" by (simp add: session_inv_def)
  from GetUserSetting_row [OF this assms(3), of rng u] show ?thesis by (auto simp: read_only_def)
qed

text \<open>A webhook is added, then a token.\<close>

definition hook :: "string \<Rightarrow> Webhook" where
  "hook title = \<lparr>wh_Id = ''h1'', wh_Title = title, wh_Url = ''https://a.b'', wh_SigningSecret = []\<rparr>"

definition hook_codec :: codec where
  "hook_codec = table_codec [(Webhooks [hook ''old''], ''W''), (RefreshTokens [], ''R'')]"

definition hook_store :: "UserSetting Store" where
  "hook_store = snd (AddUserWebhook id hook_codec 7 (hook ''old'') (Store_New empty_db 5))"

lemma hook_codec_ok: "codec_ok hook_codec"
  unfolding hook_codec_def by (rule table_codec_ok) simp

lemma hook_store_run: "(setting_step hook_codec issued)\<^sup>*\<^sup>* (Store_New empty_db 5) hook_store"
  unfolding hook_store_def by (intro r_into_rtranclp add_webhook) (rule prod.collapse [symmetric])

theorem GetUserSetting_current_witness:
  "\<exists>s'. Store_GetUserSetting id hook_codec (setting_query 7 WEBHOOKS) hook_store
     = (Inr (Some \<lparr>us_UserId = 7, us_Key = WEBHOOKS, us_Value = Some (Webhooks [hook ''old''])\<rparr>), s')"
proof -
  have "case stored hook_codec (st_db hook_store) 7 WEBHOOKS of Some (Webhooks ws) \<Rightarrow> ws = [hook ''old''] | _ \<Rightarrow> False"
    by code_simp
  then have "stored hook_codec (st_db hook_store) 7 WEBHOOKS = Some (Webhooks [hook ''old''])"
    by (auto split: option.splits setting_value.splits)
  then show ?thesis using GetUserSetting_current [OF hook_codec_ok hook_store_run, of WEBHOOKS id 7] by auto
qed

lemma Cache_Get_hit:
  assumes "fst (Cache_Get now key c) \<noteq> None"
  shows "snd (Cache_Get now key c) = c"
  using assms by (auto simp: Cache_Get_def split: option.splits if_splits)

lemma cached_webhooks:
  assumes "settings_inv cdc s"
    "fst (Cache_Get (st_clock s) (getUserSettingCacheKey u (KeyString WEBHOOKS)) (st_userSettingCache s)) \<noteq> None"
  shows "\<exists>v. stored cdc (st_db s) u WEBHOOKS = Some v
    \<and> fst (Cache_Get (st_clock s) (getUserSettingCacheKey u (KeyString WEBHOOKS)) (st_userSettingCache s))
       = Some (AnyOther \<lparr>us_UserId = u, us_Key = WEBHOOKS, us_Value = Some v\<rparr>)"
proof -
  let ?key = "getUserSettingCacheKey u (KeyString WEBHOOKS)"
  obtain x where x: "fst (Cache_Get (st_clock s) ?key (st_userSettingCache s)) = Some x" using assms(2) by blast
  have "setting_source cdc (st_db s) ?key = Some x"
    using assms(1) x unfolding settings_inv_def by (blast intro: memory_cache.coherentD)
  then have "map_option (\<lambda>v. AnyOther \<lparr>us_UserId = u, us_Key = WEBHOOKS, us_Value = Some v\<rparr>) (stored cdc (st_db s) u WEBHOOKS) = Some x"
    using source_key [of cdc "st_db s" u WEBHOOKS] assms(1) by (simp add: settings_inv_def)
  then show ?thesis using x by (cases "stored cdc (st_db s) u WEBHOOKS") simp_all
qed

text \<open>C13. An update of a webhook that fails because the new value cannot be encoded is visible all the same, when the setting
  of the user is cached: the update reports its error and the database keeps the old webhooks, but until the entry
  of the cache expires the next read, at whatever time, returns the webhooks as if the update had succeeded. The
  read changes nothing, so neither do those that follow before another operation comes in between.\<close>

theorem failed_webhook_update_is_visible:
  assumes "session_inv cdc s" "webhooks_of (stored cdc (st_db s) u WEBHOOKS) = ws"
    "fst (Cache_Get (st_clock s) (getUserSettingCacheKey u (KeyString WEBHOOKS)) (st_userSettingCache s)) \<noteq> None"
    "w' \<in> set ws" "wh_Id w' = wh_Id w" "cd_marshal cdc (Webhooks (replace_webhook w ws)) = Inl e"
    "UpdateUserWebhook rng cdc u w s = (r, s')"
  shows "r = Inl e \<and> st_db s' = st_db s
    \<and> fst (GetUserWebhooks rng' cdc u s') = Inr (replace_webhook w ws)
    \<and> (fst (Cache_Get now (getUserSettingCacheKey u (KeyString WEBHOOKS)) (st_userSettingCache s)) = None
       \<or> GetUserWebhooks rng' cdc u (s'\<lparr>st_clock := now\<rparr>) = (Inr (replace_webhook w ws), s'\<lparr>st_clock := now\<rparr>))"
proof -
  let ?key = "getUserSettingCacheKey u (KeyString WEBHOOKS)"
  have inv: "settings_inv cdc s" using assms(1) by (simp add: session_inv_def)
  obtain v where v: "stored cdc (st_db s) u WEBHOOKS = Some v"
    and hit: "fst (Cache_Get (st_clock s) ?key (st_userSettingCache s)) = Some (AnyOther \<lparr>us_UserId = u, us_Key = WEBHOOKS, us_Value = Some v\<rparr>)"
    using cached_webhooks [OF inv assms(3)] by blast
  have vw: "v = Webhooks ws"
    using stored_kind [OF inv v] kind_cases(3) [of v] assms(2) v by (auto simp: webhooks_of_def)
  have pair: "Cache_Get (st_clock s) ?key (st_userSettingCache s) = (Some (AnyOther \<lparr>us_UserId = u, us_Key = WEBHOOKS, us_Value = Some v\<rparr>), st_userSettingCache s)"
    using hit Cache_Get_hit [OF assms(3)] by (simp add: prod_eq_iff)
  have get: "GetUserWebhooks rng cdc u s = (Inr ws, s)"
    by (simp add: GetUserWebhooks_def Store_GetUserSetting_def setting_query_def pair bindS_def GetWebhooks_def vw liftS_def)
  let ?s = "assign_cached_webhooks u (replace_webhook w ws) s"
  have kind: "value_of_kind WEBHOOKS (Some (Webhooks vs)) = Some (Webhooks vs)" for vs
    using value_of_kind_id [of "Webhooks vs"] by simp
  have "UpdateUserWebhook rng cdc u w s = (Inl e, ?s)"
    using assms(4-6) get kind
    by (auto simp: UpdateUserWebhook_def bindS_def Let_def upsert_value_def Store_UpsertUserSetting_def
        convertUserSettingToRaw_def)
  then have r: "r = Inl e" "s' = ?s" using assms(7) by simp_all
  have read: "GetUserWebhooks rng' cdc u (?s\<lparr>st_clock := n\<rparr>) = (Inr (replace_webhook w ws), ?s\<lparr>st_clock := n\<rparr>)"
    if there: "fst (Cache_Get n ?key (st_userSettingCache s)) \<noteq> None" for n
  proof -
    obtain itm where itm: "map_of (c_data (st_userSettingCache s)) ?key = Some itm" "\<not> it_expiration itm < n"
        "it_value itm = AnyOther \<lparr>us_UserId = u, us_Key = WEBHOOKS, us_Value = Some v\<rparr>"
      using there pair by (auto simp: Cache_Get_def split: option.splits if_splits)
    have "Cache_Get n ?key (st_userSettingCache ?s)
        = (Some (AnyOther \<lparr>us_UserId = u, us_Key = WEBHOOKS, us_Value = Some (Webhooks (replace_webhook w ws))\<rparr>), st_userSettingCache ?s)"
      using itm by (simp add: assign_cached_webhooks_def Let_def Cache_Get_def map_of_map_items)
    then show ?thesis
      by (simp add: GetUserWebhooks_def Store_GetUserSetting_def setting_query_def bindS_def GetWebhooks_def liftS_def)
  qed
  have "?s\<lparr>st_clock := st_clock s\<rparr> = ?s" by (simp add: assign_cached_webhooks_def Let_def)
  then have "fst (GetUserWebhooks rng' cdc u ?s) = Inr (replace_webhook w ws)" using read [OF assms(3)] by simp
  moreover have "st_db ?s = st_db s" by (simp add: assign_cached_webhooks_def Let_def)
  ultimately show ?thesis unfolding r using read [of now] by blast
qed

theorem failed_webhook_update_is_visible_witness:
  "\<exists>s'. UpdateUserWebhook id hook_codec 7 (hook ''new'') hook_store = (Inl (NewError ''marshal''), s')
     \<and> st_db s' = st_db hook_store \<and> fst (GetUserWebhooks id hook_codec 7 s') = Inr [hook ''new'']"
proof -
  obtain r s' where run: "UpdateUserWebhook id hook_codec 7 (hook ''new'') hook_store = (r, s')" by (metis surj_pair)
  have inv: "session_inv hook_codec hook_store"
    by (rule setting_runs_keep [OF hook_store_run session_inv_New [OF hook_codec_ok]])
  have "case stored hook_codec (st_db hook_store) 7 WEBHOOKS of Some (Webhooks ws) \<Rightarrow> ws = [hook ''old''] | _ \<Rightarrow> False"
    by code_simp
  then have ws: "webhooks_of (stored hook_codec (st_db hook_store) 7 WEBHOOKS) = [hook ''old'']"
    by (auto simp: webhooks_of_def split: option.splits setting_value.splits)
  have "case fst (Cache_Get (st_clock hook_store) (getUserSettingCacheKey 7 (KeyString WEBHOOKS)) (st_userSettingCache hook_store)) of
      Some _ \<Rightarrow> True | None \<Rightarrow> False" by code_simp
  then have hit: "fst (Cache_Get (st_clock hook_store) (getUserSettingCacheKey 7 (KeyString WEBHOOKS)) (st_userSettingCache hook_store)) \<noteq> None"
    by (auto split: option.splits)
  have "case cd_marshal hook_codec (Webhooks (replace_webhook (hook ''new'') [hook ''old''])) of
      Inl (NewError m) \<Rightarrow> m = ''marshal'' | _ \<Rightarrow> False" by code_simp
  then have marshal: "cd_marshal hook_codec (Webhooks (replace_webhook (hook ''new'') [hook ''old''])) = Inl (NewError ''marshal'')"
    by (auto split: sum.splits store_error.splits)
  have same: "hook ''old'' \<in> set [hook ''old'']" "wh_Id (hook ''old'') = wh_Id (hook ''new'')" by (simp_all add: hook_def)
  have "replace_webhook (hook ''new'') [hook ''old''] = [hook ''new'']" by (simp add: hook_def)
  with failed_webhook_update_is_visible [OF inv ws hit same marshal run, of id] run show ?thesis by auto
qed

end
