(* ===== verification/Identity_Properties.thy ===== *)
theory Identity_Properties
  imports Sessions Access_Policy Settings_Properties
begin

text \<open>
  What authentication establishes. A request is identified only by a credential that is valid now for a
  user who is there and not archived; a protected method runs only for such a request, on either
  transport; and no part of authentication changes the database.
\<close>

section \<open>Reading users\<close>

text \<open>What reading keeps: everything but the caches.\<close>

definition quiet :: "codec \<Rightarrow> UserSetting Store \<Rightarrow> UserSetting Store \<Rightarrow> bool" where
  "quiet cdc s s' = (session_inv cdc s' \<and> st_db s' = st_db s \<and> st_clock s' = st_clock s)"

lemma quietI: "session_inv cdc s' \<Longrightarrow> st_db s' = st_db s \<Longrightarrow> st_clock s' = st_clock s \<Longrightarrow> quiet cdc s s'"
  by (simp add: quiet_def)

lemma quiet_refl: "session_inv cdc s \<Longrightarrow> quiet cdc s s"
  by (simp add: quiet_def)

lemma quiet_trans: "quiet cdc s s' \<Longrightarrow> quiet cdc s' s'' \<Longrightarrow> quiet cdc s s''"
  by (simp add: quiet_def)

lemma quiet_inv: "quiet cdc s s' \<Longrightarrow> session_inv cdc s'"
  by (simp add: quiet_def)

lemma quiet_db: "quiet cdc s s' \<Longrightarrow> st_db s' = st_db s"
  by (simp add: quiet_def)

lemma cache_users_kept:
  "st_userSettingCache (fold (cache_user rng) us s) = st_userSettingCache s"
  "st_clock (fold (cache_user rng) us s) = st_clock s"
  by (induction us arbitrary: s) (simp_all add: cache_user_def)

lemma get_user_from_db_kept:
  assumes "get_user_from_db rng q s = Inr (u, s')"
  shows "st_db s' = st_db s \<and> st_clock s' = st_clock s \<and> st_userSettingCache s' = st_userSettingCache s"
proof (cases "DB_ListUsers q (st_db s)")
  case (Inr us)
  then show ?thesis
    using assms by (cases us) (auto simp: get_user_from_db_def Store_ListUsers_def cache_users_kept cache_user_def)
qed (use assms in \<open>simp add: get_user_from_db_def Store_ListUsers_def\<close>)

lemma Store_GetUser_kept:
  assumes "Store_GetUser rng q s = Inr (u, s')"
  shows "st_db s' = st_db s \<and> st_clock s' = st_clock s \<and> st_userSettingCache s' = st_userSettingCache s"
  using assms
  by (auto simp: Store_GetUser_def Let_def dest!: get_user_from_db_kept
      split: option.split_asm prod.split_asm any.split_asm)

lemma Store_GetUser_quiet:
  assumes "session_inv cdc s" "Store_GetUser rng q s = Inr (u, s')"
  shows "quiet cdc s s'"
proof -
  have k: "st_db s' = st_db s" "st_clock s' = st_clock s" "st_userSettingCache s' = st_userSettingCache s"
    using Store_GetUser_kept [OF assms(2)] by simp_all
  have inv: "settings_inv cdc s" "run_inv s" using assms(1) by (simp_all add: session_inv_def)
  have "run_inv s'" using run_inv_get [OF inv(2) assms(2)] by simp
  moreover have "settings_inv cdc s'" using inv(1) by (simp add: settings_inv_def k)
  ultimately show ?thesis by (simp add: quiet_def session_inv_def k)
qed

lemma get_user_row:
  assumes "session_inv cdc s"
  shows "\<exists>s'. get_user a i s = (Inr (user_row (st_db s) i), s') \<and> quiet cdc s s'"
proof -
  have "run_inv s" using assms by (simp add: session_inv_def)
  from Store_GetUser_row [OF this, of "au_users a" i]
  obtain s' where s': "Store_GetUser (au_users a) (find_user_id i) s = Inr (user_row (st_db s) i, s')"
    by (auto simp: find_user_id_def)
  then show ?thesis using Store_GetUser_quiet [OF assms s'] by (simp add: get_user_def)
qed

lemma read_only_quiet: "session_inv cdc s \<Longrightarrow> settings_inv cdc s' \<Longrightarrow> read_only s s' \<Longrightarrow> quiet cdc s s'"
  using run_inv_rest_kept [OF read_only_rest] by (simp add: quiet_def session_inv_def read_only_def)

section \<open>Personal access tokens\<close>

definition pat_of :: "codec \<Rightarrow> UserSetting Store \<Rightarrow> int32 \<Rightarrow> string \<Rightarrow> PersonalAccessToken \<Rightarrow> bool" where
  "pat_of cdc s u tokenHash pat =
     (pat \<in> set (access_tokens (stored cdc (st_db s) u PERSONAL_ACCESS_TOKENS)) \<and> pat_TokenHash pat = tokenHash)"

lemma stored_of_row:
  assumes "rows_ok cdc d" "r \<in> set (db_user_setting d)" "us_key r = KeyString k"
  shows "stored cdc d (us_user_id r) k = value_of_row cdc r"
  using rows_ok_row [OF assms(1,2)] by (simp add: stored_def assms(3))

lemma GetUserByPATHash_row:
  assumes "session_inv cdc s" "DB_GetUserByPATHash cdc h (st_db s) = Inr (u, pat)"
  shows "pat_of cdc s u h pat"
proof -
  have rows: "rows_ok cdc (st_db s)" using assms(1) by (simp add: session_inv_def settings_inv_def)
  let ?found = "\<lambda>r. us_key r = ''PERSONAL_ACCESS_TOKENS'' \<and> h \<in> set (cd_json_hashes cdc (us_value r))"
  obtain r where r0: "first_row (filter ?found (db_user_setting (st_db s))) = Some r"
    using assms(2) by (cases "first_row (filter ?found (db_user_setting (st_db s)))") (simp_all add: DB_GetUserByPATHash_def)
  obtain v where v: "cd_unmarshal cdc PERSONAL_ACCESS_TOKENS (us_value r) = Inr v"
    using assms(2) r0 by (cases "cd_unmarshal cdc PERSONAL_ACCESS_TOKENS (us_value r)") (simp_all add: DB_GetUserByPATHash_def)
  let ?pats = "filter (\<lambda>pat. pat_TokenHash pat = h) (case v of PersonalAccessTokens ts \<Rightarrow> ts | _ \<Rightarrow> [])"
  have r: "u = us_user_id r" "first_row ?pats = Some pat"
    using assms(2) r0 v by (cases "first_row ?pats"; simp add: DB_GetUserByPATHash_def)+
  have key: "us_key r = KeyString PERSONAL_ACCESS_TOKENS" "r \<in> set (db_user_setting (st_db s))"
    using first_row_in [OF r0] by (simp_all add: KeyString_def)
  have "value_of_row cdc r = Some v" using v by (simp add: value_of_row_def key(1))
  then have "stored cdc (st_db s) u PERSONAL_ACCESS_TOKENS = Some v"
    using stored_of_row [OF rows key(2,1)] r(1) by simp
  then show ?thesis
    using first_row_in [OF r(2)] by (cases v) (simp_all add: pat_of_def access_tokens_def)
qed

section \<open>Credentials\<close>

definition live :: "int \<Rightarrow> timestamp option \<Rightarrow> bool" where
  "live now t = (case t of Some e \<Rightarrow> now \<le> e | None \<Rightarrow> True)"

lemma not_live [simp]: "(case t of Some e \<Rightarrow> e < now | None \<Rightarrow> False) \<longleftrightarrow> \<not> live now t"
  by (auto simp: live_def split: option.splits)

definition credential_of :: "Authenticator \<Rightarrow> UserSetting Store \<Rightarrow> string \<Rightarrow> User \<Rightarrow> bool" where
  "credential_of a s token user =
     (user \<in> set (db_user (st_db s)) \<and> u_RowStatus user \<noteq> Archived
      \<and> (if has_prefix token PersonalAccessTokenPrefix
         then \<exists>pat. pat_of (au_codec a) s (u_ID user) (HashPersonalAccessToken (au_sha256 a) token) pat
                \<and> live (st_clock s) (pat_ExpiresAt pat)
         else \<exists>claims. ParseAccessTokenV2 (au_jwt a) (st_clock s) token (au_secret a) = Inr claims
                \<and> ConvertStringToInt32 (cl_Subject claims) = Inr (u_ID user)))"

lemma Store_GetUserByPATHash_sound:
  assumes "session_inv cdc s" "Store_GetUserByPATHash rng cdc h s = (r, s')"
  shows "quiet cdc s s' \<and> (\<forall>u user pat. r = Inr (u, user, pat) \<longrightarrow>
    user \<in> set (db_user (st_db s)) \<and> u_ID user = u \<and> pat_of cdc s u h pat)"
proof (cases "DB_GetUserByPATHash cdc h (st_db s)")
  case (Inl e)
  then show ?thesis using assms quiet_refl by (auto simp: Store_GetUserByPATHash_def)
next
  case (Inr x)
  then obtain u pat where x: "DB_GetUserByPATHash cdc h (st_db s) = Inr (u, pat)" by (cases x) simp
  have users: "run_inv s" using assms(1) by (simp add: session_inv_def)
  obtain s1 where s1: "Store_GetUser rng (no_find_user\<lparr>fu_ID := Some u\<rparr>) s = Inr (user_row (st_db s) u, s1)"
    using Store_GetUser_row [OF users, of rng u] by blast
  note q = Store_GetUser_quiet [OF assms(1) s1] and pat = GetUserByPATHash_row [OF assms(1) x]
  show ?thesis
  proof (cases "user_row (st_db s) u")
    case None
    then show ?thesis using assms(2) s1 q x by (auto simp: Store_GetUserByPATHash_def)
  next
    case (Some user)
    then show ?thesis using assms(2) s1 q x pat user_row_Some [OF Some] by (auto simp: Store_GetUserByPATHash_def)
  qed
qed

lemma AuthenticateByPAT_sound:
  assumes "session_inv (au_codec a) s" "AuthenticateByPAT a token s = (r, s')"
  shows "quiet (au_codec a) s s' \<and> (\<forall>user pat. r = Inr (user, pat) \<longrightarrow>
    has_prefix token PersonalAccessTokenPrefix \<and> credential_of a s token user)"
proof (cases "has_prefix token PersonalAccessTokenPrefix")
  case False
  then show ?thesis using assms quiet_refl by (auto simp: AuthenticateByPAT_def)
next
  case True
  let ?h = "HashPersonalAccessToken (au_sha256 a) token"
  obtain r1 s1 where g: "Store_GetUserByPATHash (au_users a) (au_codec a) ?h s = (r1, s1)"
    by (cases "Store_GetUserByPATHash (au_users a) (au_codec a) ?h s")
  note S = Store_GetUserByPATHash_sound [OF assms(1) g]
  show ?thesis
  proof (cases r1)
    case (Inl e)
    then show ?thesis using assms(2) True g S by (auto simp: AuthenticateByPAT_def bindS_def wrapS_def)
  next
    case (Inr x)
    then obtain u user pat where x: "r1 = Inr (u, user, pat)" by (cases x) auto
    have "st_clock s1 = st_clock s" using S by (simp add: quiet_def)
    then show ?thesis
      using assms(2) True g S x
      by (auto simp: AuthenticateByPAT_def bindS_def wrapS_def liftS_def credential_of_def split: if_splits)
  qed
qed

text \<open>A bearer token resolves, without an error, to a user of whom it is a credential, or to nobody.\<close>

lemma resolveBearer_sound:
  assumes "session_inv (au_codec a) s" "resolveBearer a token s = (r, s')"
  shows "quiet (au_codec a) s s' \<and> (\<exists>b usage. r = Inr (b, usage)
    \<and> (\<forall>x. b = Some x \<longrightarrow> credential_of a s token (ba_user x)
          \<and> (case ba_claims x of Some c \<Rightarrow> uc_UserID c = u_ID (ba_user x) | None \<Rightarrow> ba_pat x \<noteq> None)
          \<and> (ba_claims x = None \<or> ba_pat x = None)))"
proof (cases "token = [] \<or> has_prefix token PersonalAccessTokenPrefix")
  case True
  show ?thesis
  proof (cases "token = []")
    case True
    then show ?thesis using assms quiet_refl by (auto simp: resolveBearer_def)
  next
    case False
    obtain r1 s1 where g: "AuthenticateByPAT a token s = (r1, s1)" by (cases "AuthenticateByPAT a token s")
    from AuthenticateByPAT_sound [OF assms(1) g] show ?thesis
      using assms(2) True False g by (cases r1) (auto simp: resolveBearer_def)
  qed
next
  case False
  show ?thesis
  proof (cases "AuthenticateByAccessTokenV2 a (st_clock s) token")
    case (Inl e)
    then show ?thesis using False assms quiet_refl by (auto simp: resolveBearer_def)
  next
    case (Inr uc)
    obtain s1 where s1: "get_user a (uc_UserID uc) s = (Inr (user_row (st_db s) (uc_UserID uc)), s1)" "quiet (au_codec a) s s1"
      using get_user_row [OF assms(1), of a "uc_UserID uc"] by blast
    obtain claims where "ParseAccessTokenV2 (au_jwt a) (st_clock s) token (au_secret a) = Inr claims"
        "ConvertStringToInt32 (cl_Subject claims) = Inr (uc_UserID uc)"
      using Inr by (auto simp: AuthenticateByAccessTokenV2_def subject_id_def result_simps)
    then show ?thesis
      using assms(2) False Inr s1 user_row_Some [of "st_db s" "uc_UserID uc"]
      by (cases "user_row (st_db s) (uc_UserID uc)")
        (auto simp: resolveBearer_def bindS_def liftS_def credential_of_def split: if_splits)
  qed
qed

section \<open>The interceptor\<close>

lemma Authenticate_sound:
  assumes "session_inv (au_codec a) s" "Authenticate a h s = ((res, usage), s')"
  shows "quiet (au_codec a) s s' \<and> (\<forall>ar. res = Some ar \<longrightarrow>
    (\<exists>user. credential_of a s (ExtractBearerToken h) user \<and> GetUserID (ApplyToContext ctx (Some ar)) = u_ID user))"
proof -
  obtain r s1 where g: "resolveBearer a (ExtractBearerToken h) s = (r, s1)" by (cases "resolveBearer a (ExtractBearerToken h) s")
  from resolveBearer_sound [OF assms(1) g] obtain b usage' where R: "quiet (au_codec a) s s1" "r = Inr (b, usage')"
    "\<forall>x. b = Some x \<longrightarrow> credential_of a s (ExtractBearerToken h) (ba_user x)
          \<and> (case ba_claims x of Some c \<Rightarrow> uc_UserID c = u_ID (ba_user x) | None \<Rightarrow> ba_pat x \<noteq> None)
          \<and> (ba_claims x = None \<or> ba_pat x = None)" by blast
  show ?thesis
  proof (cases b)
    case None
    then show ?thesis using assms(2) g R by (auto simp: Authenticate_def)
  next
    case (Some x)
    have "GetUserID (ApplyToContext ctx (Some ar)) = u_ID (ba_user x)" if "res = Some ar" for ar
      using assms(2) g R Some that
      by (cases "ba_claims x")
        (auto simp: Authenticate_def GetUserID_def ApplyToContext_def SetUserInContext_def SetUserClaimsInContext_def Let_def)
    then show ?thesis using assms(2) g R Some by (auto simp: Authenticate_def)
  qed
qed

text \<open>Methods that a request without credentials may call.\<close>

definition anonymous_method :: "Authorizer \<Rightarrow> string \<Rightarrow> bool" where
  "anonymous_method a procedure =
     (IsPublicMethod procedure \<and> (IsAuthBootstrapMethod procedure \<or> AllowsAnonymousAccess (az_deployment a) (az_raw a) = Inr True))"

lemma CheckAccess_None: "CheckAccess a procedure result = None \<longleftrightarrow> result \<noteq> None \<or> anonymous_method a procedure"
  by (auto simp: CheckAccess_def anonymous_method_def split: sum.splits)

section \<open>The gateway\<close>

definition routes_to :: "gateway_routes \<Rightarrow> string \<Rightarrow> http_pattern \<Rightarrow> bool" where
  "routes_to r procedure binding =
     (let (m, t) = httpRuleMethodAndTemplate binding
      in m \<noteq> [] \<longrightarrow> t \<noteq> [] \<longrightarrow> (\<exists>p. canonicalGatewayPattern t = Inr p \<and> map_of r (m, p) = Some procedure))"

definition extends :: "gateway_routes \<Rightarrow> gateway_routes \<Rightarrow> bool" where
  "extends r r' = (\<forall>k v. map_of r k = Some v \<longrightarrow> map_of r' k = Some v)"

lemma extends_refl [simp]: "extends r r"
  by (simp add: extends_def)

lemma extends_trans: "extends r r' \<Longrightarrow> extends r' r'' \<Longrightarrow> extends r r''"
  by (simp add: extends_def)

lemma routes_to_extends: "routes_to r procedure b \<Longrightarrow> extends r r' \<Longrightarrow> routes_to r' procedure b"
  by (cases "httpRuleMethodAndTemplate b") (auto simp: routes_to_def extends_def)

lemma addBinding_routes:
  assumes "addBinding procedure b r = Inr r'"
  shows "extends r r' \<and> routes_to r' procedure b"
proof (cases "httpRuleMethodAndTemplate b")
  case (Pair m t)
  show ?thesis
  proof (cases "m = [] \<or> t = []")
    case True
    then show ?thesis using assms Pair by (auto simp: addBinding_def routes_to_def)
  next
    case False
    then obtain p where p: "canonicalGatewayPattern t = Inr p"
      using assms Pair by (auto simp: addBinding_def result_simps)
    show ?thesis
    proof (cases "map_of r (m, p)")
      case None
      then have "r' = AList.update (m, p) procedure r" using assms Pair False p by (simp add: addBinding_def)
      then show ?thesis using Pair p None by (auto simp: extends_def routes_to_def update_conv')
    next
      case (Some existing)
      then have "existing = procedure" "r' = AList.update (m, p) procedure r"
        using assms Pair False p by (auto simp: addBinding_def split: if_splits)
      then show ?thesis using Pair p Some by (auto simp: extends_def routes_to_def update_conv')
    qed
  qed
qed

lemma add_bindings_routes:
  "add_bindings procedure bs r = Inr r' \<Longrightarrow> extends r r' \<and> (\<forall>b \<in> set bs. routes_to r' procedure b)"
proof (induction bs arbitrary: r)
  case (Cons b bs)
  then obtain r1 where r1: "addBinding procedure b r = Inr r1" "add_bindings procedure bs r1 = Inr r'"
    by (auto simp: result_simps)
  from Cons.IH [OF r1(2)] addBinding_routes [OF r1(1)] show ?case
    by (auto intro: extends_trans routes_to_extends)
qed simp

definition bindings_of :: "http_rule \<Rightarrow> http_pattern list" where
  "bindings_of rule = rule_pattern rule # rule_additional rule"

lemma addRule_routes:
  assumes "addRule procedure rule r = Inr r'"
  shows "extends r r' \<and> (\<forall>b \<in> set (bindings_of rule). routes_to r' procedure b)"
proof -
  have "add_bindings procedure (bindings_of rule) r = Inr r'" using assms by (simp add: addRule_def bindings_of_def)
  then show ?thesis by (rule add_bindings_routes)
qed

lemma add_rules_routes:
  "add_rules rules r = Inr r' \<Longrightarrow> extends r r'
    \<and> (\<forall>(procedure, rule) \<in> set rules. \<forall>b \<in> set (bindings_of rule). routes_to r' procedure b)"
proof (induction rules arbitrary: r)
  case (Cons x rules)
  obtain procedure rule where x: "x = (procedure, rule)" by (cases x)
  then obtain r1 where r1: "addRule procedure rule r = Inr r1" "add_rules rules r1 = Inr r'"
    using Cons.prems by (auto simp: result_simps)
  from Cons.IH [OF r1(2)] addRule_routes [OF r1(1)] show ?case
    by (auto simp: x intro: extends_trans routes_to_extends)
qed simp

lemma resolver_routes:
  assumes "newGatewayRouteResolver files = Inr routes" "(procedure, rule) \<in> set (concat (map file_rules files))"
    "b \<in> set (bindings_of rule)"
  shows "routes_to routes procedure b"
proof -
  have "add_rules (concat (map file_rules files)) [] = Inr routes"
    using assms(1) by (auto simp: newGatewayRouteResolver_def result_simps split: if_splits)
  from add_rules_routes [OF this] assms(2,3) show ?thesis by blast
qed

section \<open>Properties\<close>

text \<open>C34. Method-level access control is sound. A Connect request for a method that the policy does not open
  to anonymous callers is answered with an error, and the database stays as it was, unless the
  request carries a credential that is valid now for a user who exists and is not archived: an unexpired access token
  of that user, signed with the secret of the server, or an unexpired personal access token whose hash
  is stored for that user. The handler then runs under exactly this identity.\<close>

theorem protected_method_needs_credential:
  assumes "session_inv (au_codec (az_authenticator a)) s" "\<not> anonymous_method a (cr_Procedure req)"
    "AuthInterceptor_WrapUnary a next_fn ctx req s = ((r, usage), s')"
  shows "(r \<in> {Inl (ConnectError Unauthenticated ''authentication required''),
               Inl (ConnectError Internal ''failed to resolve API access policy'')} \<and> st_db s' = st_db s)
    \<or> (\<exists>user ctx' s1. credential_of (az_authenticator a) s (ExtractBearerToken (cr_Authorization req)) user
          \<and> GetUserID ctx' = u_ID user \<and> st_db s1 = st_db s \<and> next_fn ctx' (cr_Message req) s1 = (r, s'))"
proof -
  obtain res usage1 s1 where g: "Authenticate (az_authenticator a) (cr_Authorization req) s = ((res, usage1), s1)"
    by (metis surj_pair)
  note S = Authenticate_sound [OF assms(1) g, of ctx]
  show ?thesis
  proof (cases res)
    case None
    then obtain err where "CheckAccess a (cr_Procedure req) res = Some err"
      using assms(2) CheckAccess_None [of a "cr_Procedure req" res] by auto
    then show ?thesis
      using assms(3) g S by (auto simp: AuthInterceptor_WrapUnary_def Authorizer_Authenticate_def newAuthorizationConnectError_def quiet_def)
  next
    case (Some ar)
    then have "CheckAccess a (cr_Procedure req) res = None" using CheckAccess_None by simp
    then have "next_fn (ApplyToContext ctx (Some ar)) (cr_Message req) s1 = (r, s')"
      using assms(3) g Some by (auto simp: AuthInterceptor_WrapUnary_def Authorizer_Authenticate_def split: prod.splits)
    then show ?thesis using S Some unfolding quiet_def by blast
  qed
qed

text \<open>One user with an access token of 15 minutes, in a store without settings.\<close>

definition access_claims :: claims where
  "access_claims = no_claims\<lparr>cl_Type := ''access'', cl_Role := ''USER'', cl_Status := ''NORMAL'', cl_Username := ''alice'',
     cl_Issuer := ''memos'', cl_Audience := [''user.access-token''], cl_Subject := ''1'',
     cl_IssuedAt := Some 5000000000, cl_ExpiresAt := Some 905000000000\<rparr>"

definition one_user :: "UserSetting Store" where
  "one_user = (case Store_CreateUser id alice (Store_New empty_db 5000000000) of
     Inl _ \<Rightarrow> Store_New empty_db 5000000000 | Inr (_, s) \<Rightarrow> s)"

definition sample_authenticator :: Authenticator where
  "sample_authenticator = \<lparr>au_secret = ''secret'', au_jwt = table_jwt [((token_header, access_claims, ''secret''), ''abc'')],
     au_sha256 = (\<lambda>_. []), au_codec = table_codec [], au_users = id, au_settings = id\<rparr>"

definition sample_authorizer :: Authorizer where
  "sample_authorizer = \<lparr>az_authenticator = sample_authenticator, az_deployment = Some (Some INSTANCE_ACCESS_MODE_PRIVATE),
     az_raw = Inr None\<rparr>"

definition no_identity :: request_context where
  "no_identity = \<lparr>ctx_UserID = None, ctx_AccessToken = None, ctx_UserClaims = None\<rparr>"

text \<open>A handler that answers the identity it runs under.\<close>

definition who :: "request_context \<Rightarrow> unit \<Rightarrow> UserSetting Store \<Rightarrow> (connect_error + int32) \<times> UserSetting Store" where
  "who ctx _ s = (Inr (GetUserID ctx), s)"

definition bearer_request :: "unit connect_request" where
  "bearer_request = \<lparr>cr_Procedure = ''/memos.api.v1.MemoService/CreateMemo'', cr_Authorization = ''Bearer abc'', cr_Message = ()\<rparr>"

lemma one_user_inv: "codec_ok cdc \<Longrightarrow> session_inv cdc one_user"
proof -
  assume cdc: "codec_ok cdc"
  obtain u s where s: "Store_CreateUser id alice (Store_New empty_db 5000000000 :: UserSetting Store) = Inr (u, s)" "one_user = s"
    by (simp add: one_user_def Store_CreateUser_def DB_CreateUser_def insertUser_def Store_New_def empty_db_def Let_def)
  have "session_inv cdc (Store_New empty_db 5000000000)" by (rule session_inv_New [OF cdc])
  moreover have "setting_step cdc {} (Store_New empty_db 5000000000) s"
    using s(1) by (intro setting_step.people run_create [OF s(1)])
      (auto simp: Store_CreateUser_def DB_CreateUser_def insertUser_def Store_New_def empty_db_def cache_user_def Let_def)
  ultimately show ?thesis using setting_step_spec s(2) by blast
qed

theorem protected_method_needs_credential_witness:
  "\<exists>user. credential_of sample_authenticator one_user ''abc'' user \<and> u_ID user = 1"
proof -
  have inv: "session_inv (au_codec (az_authenticator sample_authorizer)) one_user"
    by (simp add: sample_authorizer_def sample_authenticator_def one_user_inv table_codec_ok)
  have closed: "\<not> anonymous_method sample_authorizer (cr_Procedure bearer_request)" by code_simp
  have "case AuthInterceptor_WrapUnary sample_authorizer who no_identity bearer_request one_user of
      ((r, usage), s') \<Rightarrow> r = Inr 1" by code_simp
  then obtain usage s' where
    answer: "AuthInterceptor_WrapUnary sample_authorizer who no_identity bearer_request one_user = ((Inr 1, usage), s')"
    by (auto split: prod.splits)
  have token: "ExtractBearerToken (cr_Authorization bearer_request) = ''abc''" by code_simp
  have "az_authenticator sample_authorizer = sample_authenticator" by (simp add: sample_authorizer_def)
  then show ?thesis
    using protected_method_needs_credential [OF inv closed answer] token by (auto simp: who_def)
qed

text \<open>The answer of the gateway that corresponds to an error of the interceptor.\<close>

fun gateway_error :: "connect_error \<Rightarrow> 'r gateway_answer" where
  "gateway_error (ConnectError c _) =
     (if c = Unauthenticated then GatewayError 401 ''{\"code\": 16, \"message\": \"authentication required\"}''
      else GatewayError 500 ''{\"code\": 13, \"message\": \"failed to resolve API access policy\"}'')"

text \<open>C24. Both transports enforce the same rules. When the route table is built from the protocol files, a gateway
  request that the gateway matched with any HTTP binding of a method, main or additional, is decided exactly as a
  Connect call of that method with the same Authorization header: the same refusals, or the handler runs
  in the same state, under the same identity, with the same answer, and the same token usage is recorded.\<close>

theorem gateway_decides_as_connect:
  assumes "newGatewayRouteResolver files = Inr routes" "(procedure, rule) \<in> set (concat (map file_rules files))"
    "b \<in> set (bindings_of rule)" "httpRuleMethodAndTemplate b = (m, t)" "m \<noteq> []" "t \<noteq> []"
    "canonicalGatewayPattern t = Inr p" "hr_Method r = m" "hr_pattern r = Some p"
  shows "gatewayAuthMiddleware a routes next_fn ctx r msg s =
    (case AuthInterceptor_WrapUnary a (\<lambda>ctx q s. case next_fn ctx q s of (x, s') \<Rightarrow> (Inr x, s')) ctx
            \<lparr>cr_Procedure = procedure, cr_Authorization = hr_Authorization r, cr_Message = msg\<rparr> s of
       ((Inr x, usage), s') \<Rightarrow> ((GatewayNext x, usage), s')
     | ((Inl e, usage), s') \<Rightarrow> ((gateway_error e, usage), s'))"
proof -
  have "map_of routes (m, p) = Some procedure"
    using resolver_routes [OF assms(1-3)] assms(4-7) by (simp add: routes_to_def)
  then have procedure: "resolveRequest routes r = Some procedure" by (simp add: resolveRequest_def assms(8,9))
  obtain res usage s1 where g: "Authorizer_Authenticate a (hr_Authorization r) s = ((res, usage), s1)"
    by (metis surj_pair)
  show ?thesis
  proof (cases "CheckAccess a procedure res")
    case None
    then show ?thesis
      by (simp add: gatewayAuthMiddleware_def AuthInterceptor_WrapUnary_def procedure g split: prod.split)
  next
    case (Some err)
    then show ?thesis
      by (cases err)
        (simp_all add: gatewayAuthMiddleware_def AuthInterceptor_WrapUnary_def procedure g
          writeGatewayAuthorizationError_def newAuthorizationConnectError_def)
  qed
qed

definition sample_rule :: http_rule where
  "sample_rule = \<lparr>rule_pattern = HttpGet ''/api/v1/{parent=spaces/*}/members'', rule_additional = [HttpCustom ''head'' ''/members/{space}'']\<rparr>"

definition sample_files :: "proto_file list" where
  "sample_files = [\<lparr>pf_Package = ''memos.api.v1'',
     pf_Services = [(''memos.api.v1.SpaceService'', [(''ListSpaceMembers'', Some sample_rule), (''Internal'', None)])]\<rparr>]"

definition sample_routes :: gateway_routes where
  "sample_routes = (case newGatewayRouteResolver sample_files of Inl _ \<Rightarrow> [] | Inr r \<Rightarrow> r)"

theorem gateway_decides_as_connect_witness:
  "\<exists>usage s'. gatewayAuthMiddleware sample_authorizer sample_routes (\<lambda>ctx _ s. (GetUserID ctx, s)) no_identity
     \<lparr>hr_Method = ''HEAD'', hr_Authorization = ''Bearer abc'', hr_ContentType = [], hr_pattern = Some ''/members/{space=*}''\<rparr> () one_user
     = ((GatewayNext 1, usage), s')"
proof -
  let ?r = "\<lparr>hr_Method = ''HEAD'', hr_Authorization = ''Bearer abc'', hr_ContentType = [], hr_pattern = Some ''/members/{space=*}''\<rparr>"
  have routes: "newGatewayRouteResolver sample_files = Inr sample_routes" by code_simp
  have rules: "concat (map file_rules sample_files) = [(''/memos.api.v1.SpaceService/ListSpaceMembers'', sample_rule)]" by code_simp
  have binding: "HttpCustom ''head'' ''/members/{space}'' \<in> set (bindings_of sample_rule)"
    by (simp add: bindings_of_def sample_rule_def)
  have parts: "httpRuleMethodAndTemplate (HttpCustom ''head'' ''/members/{space}'') = (''HEAD'', ''/members/{space}'')"
    "canonicalGatewayPattern ''/members/{space}'' = Inr ''/members/{space=*}''" by code_simp+
  have answer: "case AuthInterceptor_WrapUnary sample_authorizer (\<lambda>ctx q s. case (GetUserID ctx, s) of (x, s') \<Rightarrow> (Inr x, s')) no_identity
      \<lparr>cr_Procedure = ''/memos.api.v1.SpaceService/ListSpaceMembers'', cr_Authorization = ''Bearer abc'', cr_Message = ()\<rparr> one_user of
      ((x, usage), s') \<Rightarrow> x = Inr 1" by code_simp
  show ?thesis
    using gateway_decides_as_connect [OF routes, of "''/memos.api.v1.SpaceService/ListSpaceMembers''" sample_rule
        "HttpCustom ''head'' ''/members/{space}''" "''HEAD''" "''/members/{space}''" "''/members/{space=*}''" ?r
        sample_authorizer "\<lambda>ctx _ s. (GetUserID ctx, s)" no_identity "()" one_user]
      rules binding parts answer
    by (auto split: prod.splits)
qed

end
