(* ===== verification/Session_Properties.thy ===== *)
theory Session_Properties
  imports Sessions Identity_Properties
begin

text \<open>
  Sessions from sign-in to sign-out: whom a refresh token identifies, that a revoked one identifies nobody
  any more, what a rotation changes, and that the cookie it sets carries the session on.
\<close>

section \<open>Refresh tokens\<close>

abbreviation tokens_of :: "codec \<Rightarrow> UserSetting Store \<Rightarrow> int32 \<Rightarrow> RefreshToken list" where
  "tokens_of cdc s u \<equiv> refresh_tokens (stored cdc (st_db s) u REFRESH_TOKENS)"

lemma refresh_tokens_simps [simp]: "refresh_tokens (Some (RefreshTokens ts)) = ts" "refresh_tokens None = []"
  by (simp_all add: refresh_tokens_def)

lemma GetUserRefreshTokenByID_row:
  assumes "session_inv cdc s"
  shows "\<exists>s'. GetUserRefreshTokenByID rng cdc u tid s
      = (Inr (first_row (filter (\<lambda>t. rt_TokenId t = tid) (tokens_of cdc s u))), s') \<and> quiet cdc s s'"
proof -
  have "settings_inv cdc s" using assms by (simp add: session_inv_def)
  from GetUserRefreshTokens_value [OF this, of rng u] obtain s' where
    "GetUserRefreshTokens rng cdc u s = (Inr (tokens_of cdc s u), s')" "settings_inv cdc s'" "read_only s s'" by blast
  then show ?thesis
    using read_only_quiet [OF assms] by (simp add: GetUserRefreshTokenByID_def bindS_def liftS_def)
qed

text \<open>Whom a refresh token identifies.\<close>

definition refresh_credential :: "Authenticator \<Rightarrow> UserSetting Store \<Rightarrow> string \<Rightarrow> User \<Rightarrow> string \<Rightarrow> bool" where
  "refresh_credential a s token user tid =
     (\<exists>claims t. ParseRefreshToken (au_jwt a) (st_clock s) token (au_secret a) = Inr claims
        \<and> ConvertStringToInt32 (cl_Subject claims) = Inr (u_ID user) \<and> cl_TokenID claims = tid
        \<and> first_row (filter (\<lambda>t. rt_TokenId t = tid) (tokens_of (au_codec a) s (u_ID user))) = Some t
        \<and> live (st_clock s) (rt_ExpiresAt t)
        \<and> user_row (st_db s) (u_ID user) = Some user \<and> u_RowStatus user \<noteq> Archived)"

lemma AuthenticateByRefreshToken_iff:
  assumes "session_inv (au_codec a) s"
  shows "\<exists>r s'. AuthenticateByRefreshToken a token s = (r, s') \<and> quiet (au_codec a) s s'
    \<and> (\<forall>user tid. r = Inr (user, tid) \<longleftrightarrow> refresh_credential a s token user tid)"
proof (cases "ParseRefreshToken (au_jwt a) (st_clock s) token (au_secret a)")
  case (Inl e)
  then show ?thesis
    using quiet_refl [OF assms] by (simp add: AuthenticateByRefreshToken_def bindS_def liftS_def refresh_credential_def)
next
  case (Inr claims)
  show ?thesis
  proof (cases "ConvertStringToInt32 (cl_Subject claims)")
    case (Inl e)
    with Inr show ?thesis
      using quiet_refl [OF assms]
      by (simp add: AuthenticateByRefreshToken_def bindS_def liftS_def refresh_credential_def subject_id_def)
  next
    case (Inr u)
    note parse = \<open>ParseRefreshToken _ _ _ _ = Inr claims\<close> Inr
    let ?t = "first_row (filter (\<lambda>t. rt_TokenId t = cl_TokenID claims) (tokens_of (au_codec a) s u))"
    obtain s1 where s1: "GetUserRefreshTokenByID (au_settings a) (au_codec a) u (cl_TokenID claims) s = (Inr ?t, s1)"
        "quiet (au_codec a) s s1"
      using GetUserRefreshTokenByID_row [OF assms, of "au_settings a" u "cl_TokenID claims"] by blast
    obtain s2 where s2: "get_user a u s1 = (Inr (user_row (st_db s1) u), s2)" "quiet (au_codec a) s1 s2"
      using get_user_row [OF quiet_inv [OF s1(2)], of a u] by blast
    have same: "st_db s1 = st_db s" "st_clock s1 = st_clock s" using s1(2) by (simp_all add: quiet_def)
    note q = quiet_trans [OF s1(2) s2(2)]
    show ?thesis
    proof (cases "\<exists>t. ?t = Some t \<and> live (st_clock s) (rt_ExpiresAt t)")
      case False
      then show ?thesis
        using parse s1 same
        by (cases ?t) (auto simp: AuthenticateByRefreshToken_def bindS_def liftS_def wrapS_def subject_id_def
            refresh_credential_def)
    next
      case True
      then obtain t where t: "?t = Some t" "live (st_clock s) (rt_ExpiresAt t)" by blast
      show ?thesis
      proof (cases "user_row (st_db s) u")
        case None
        then show ?thesis
          using parse s1 s2 same t q
          by (auto simp: AuthenticateByRefreshToken_def bindS_def liftS_def wrapS_def subject_id_def refresh_credential_def)
      next
        case (Some user)
        then have id: "u_ID user = u" using user_row_Some by blast
        have run: "AuthenticateByRefreshToken a token s
            = (if u_RowStatus user = Archived then Inl (NewError ''user is archived'') else Inr (user, cl_TokenID claims), s2)"
          using parse s1(1) s2(1) same t Some
          by (simp add: AuthenticateByRefreshToken_def bindS_def liftS_def wrapS_def subject_id_def)
        have "refresh_credential a s token user' tid \<longleftrightarrow> user' = user \<and> tid = cl_TokenID claims \<and> u_RowStatus user \<noteq> Archived"
          for user' tid
        proof
          assume "refresh_credential a s token user' tid"
          then obtain claims' where c: "ParseRefreshToken (au_jwt a) (st_clock s) token (au_secret a) = Inr claims'"
              "ConvertStringToInt32 (cl_Subject claims') = Inr (u_ID user')" "cl_TokenID claims' = tid"
              "user_row (st_db s) (u_ID user') = Some user'" "u_RowStatus user' \<noteq> Archived"
            unfolding refresh_credential_def by blast
          moreover have "claims' = claims" using c(1) parse(1) by simp
          ultimately show "user' = user \<and> tid = cl_TokenID claims \<and> u_RowStatus user \<noteq> Archived"
            using parse(2) Some by simp
        next
          assume "user' = user \<and> tid = cl_TokenID claims \<and> u_RowStatus user \<noteq> Archived"
          then show "refresh_credential a s token user' tid"
            unfolding refresh_credential_def using parse t Some id by (intro exI [of _ claims] exI [of _ t]) simp
        qed
        then show ?thesis unfolding run using q by auto
      qed
    qed
  qed
qed

lemma refresh_credential_has_token:
  "refresh_credential a s token user tid \<Longrightarrow> has_token (au_codec a) s (u_ID user) tid"
  unfolding refresh_credential_def has_token_def by (force dest!: first_row_in)

lemma refresh_credential_unique:
  assumes "refresh_credential a s token user tid" "refresh_credential a s token user' tid'"
  shows "user' = user \<and> tid' = tid"
proof -
  obtain c where c: "ParseRefreshToken (au_jwt a) (st_clock s) token (au_secret a) = Inr c"
      "ConvertStringToInt32 (cl_Subject c) = Inr (u_ID user)" "cl_TokenID c = tid" "user_row (st_db s) (u_ID user) = Some user"
    using assms(1) unfolding refresh_credential_def by blast
  obtain c' where c': "ParseRefreshToken (au_jwt a) (st_clock s) token (au_secret a) = Inr c'"
      "ConvertStringToInt32 (cl_Subject c') = Inr (u_ID user')" "cl_TokenID c' = tid'" "user_row (st_db s) (u_ID user') = Some user'"
    using assms(2) unfolding refresh_credential_def by blast
  have "c' = c" using c(1) c'(1) by simp
  then show ?thesis using c c' by simp
qed

text \<open>C8. Revocation is final. Once a refresh token was removed from a user, no token text signs in as that user under its
  id any more, at any later time: not after reads that fill the caches, after other
  writes to the settings, failed or not (a failed update of a webhook apart, which \<open>setting_step\<close> leaves out), after evictions, and not after a restart of the session under
  other ids, as long as the same id is not issued to this user again.\<close>

theorem revoked_refresh_token_stays_revoked:
  assumes "session_inv (au_codec a) s" "RemoveUserRefreshToken rng (au_codec a) u tid s = (Inr x, s1)"
    "(setting_step (au_codec a) issued)\<^sup>*\<^sup>* s1 s2" "(u, tid) \<notin> issued"
  shows "\<not> (\<exists>user s3. AuthenticateByRefreshToken a token s2 = (Inr (user, tid), s3) \<and> u_ID user = u)"
proof -
  have inv: "settings_inv (au_codec a) s" using assms(1) by (simp add: session_inv_def)
  have step: "setting_step (au_codec a) issued s s1" by (rule setting_step.remove_refresh [OF assms(2)])
  have inv1: "session_inv (au_codec a) s1" using setting_step_spec [OF step assms(1)] by blast
  have "\<not> has_token (au_codec a) s1 u tid"
    using RemoveUserRefreshToken_writes [OF inv assms(2)] by (auto simp: has_token_def writes_def refresh_tokens_def)
  then have gone: "\<not> has_token (au_codec a) s2 u tid" by (rule setting_runs_token [OF assms(3) inv1 _ assms(4)])
  have "session_inv (au_codec a) s2" by (rule setting_runs_keep [OF assms(3) inv1])
  from AuthenticateByRefreshToken_iff [OF this, of token] obtain r s3 where
    r: "AuthenticateByRefreshToken a token s2 = (r, s3)" "\<And>user tid. r = Inr (user, tid) \<longleftrightarrow> refresh_credential a s2 token user tid"
    by blast
  have "\<not> refresh_credential a s2 token user tid" if "u_ID user = u" for user
    using refresh_credential_has_token [of a s2 token user tid] gone that by blast
  then show ?thesis using r by auto
qed

section \<open>The cookie\<close>

text \<open>The bytes of a token in a cookie: those of the three base64url parts and the dots of a JWT are such.\<close>

definition cookie_safe :: "char \<Rightarrow> bool" where
  "cookie_safe c = (valid_value_byte c \<and> \<not> blank c)"

lemma trim_blank_safe:
  assumes "s \<noteq> []" "\<not> blank (hd s)" "\<not> blank (last s)"
  shows "trim_blank s = s"
proof -
  have keep: "dropWhile blank t = t" if "t \<noteq> []" "\<not> blank (hd t)" for t
    using that by (cases t) simp_all
  have "dropWhile blank s = s" by (rule keep [OF assms(1,2)])
  moreover have "dropWhile blank (rev s) = rev s" by (rule keep) (use assms in \<open>simp_all add: hd_rev\<close>)
  ultimately show ?thesis by (simp add: trim_blank_def)
qed

lemma request_cookie_single:
  assumes "tok \<noteq> []" "list_all cookie_safe tok"
  shows "ExtractRefreshTokenFromCookie (RefreshTokenCookieName @ ''='' @ tok) = tok"
proof -
  let ?name = "''memos_refresh''"
  let ?s = "?name @ CHR ''='' # tok"
  have safe: "cookie_safe c" if "c \<in> set tok" for c using assms(2) that by (simp add: list_all_iff)
  have semi: "CHR '';'' \<notin> set ?s" using safe [of "CHR '';''"] by (auto simp: cookie_safe_def valid_value_byte_def)
  have "\<not> blank (last ?s)" using safe [of "last tok"] assms(1) by (simp add: cookie_safe_def)
  then have trim: "trim_blank ?s = ?s" by (intro trim_blank_safe) (simp_all add: blank_def)
  have key: "takeWhile (\<lambda>c. c \<noteq> CHR ''='') ?s = ?name" by simp
  have name: "trim_blank ?name = ?name" by (intro trim_blank_safe) (simp_all add: blank_def)
  have quote: "hd tok \<noteq> CHR 0x22"
    using safe [of "hd tok"] assms(1) by (auto simp: cookie_safe_def valid_value_byte_def)
  have value_ok: "cookie_value tok = Some tok"
    using quote assms(2) by (auto simp: cookie_value_def cookie_safe_def list_all_iff Let_def)
  have "cookie_part ?name ?s = Some tok"
    unfolding cookie_part_def trim key Let_def name using value_ok by simp
  then have "request_cookie ?name ?s = Some tok"
    unfolding request_cookie_def split_fresh [OF semi] by (simp add: map_filter_simps)
  then show ?thesis by (simp add: ExtractRefreshTokenFromCookie_def RefreshTokenCookieName_def)
qed

section \<open>Rotation\<close>

text \<open>Messages are encoded item by item: a part of a list of tokens can be encoded when the whole list can.\<close>

definition marshals_parts :: "codec \<Rightarrow> bool" where
  "marshals_parts cdc = (\<forall>ts u P. cd_marshal cdc (RefreshTokens ts) = Inr u \<longrightarrow>
     (\<exists>u'. cd_marshal cdc (RefreshTokens (filter P ts)) = Inr u'))"

lemma upsert_value_marshals:
  assumes "codec_ok cdc" "upsert_value rng cdc u v s = (res, s')"
  shows "(\<exists>x. res = Inr x) \<longleftrightarrow> (\<exists>t. cd_marshal cdc v = Inr t)"
proof (cases "cd_marshal cdc v")
  case (Inl e)
  then show ?thesis
    using assms(2)
    by (auto simp: upsert_value_def bindS_def Store_UpsertUserSetting_def convertUserSettingToRaw_def split: if_splits)
next
  case (Inr t)
  then have "cd_unmarshal cdc (kind_of v) t = Inr v" using assms(1) by (simp add: codec_ok_def)
  then show ?thesis
    using assms(2) Inr
    by (auto simp: upsert_value_def bindS_def liftS_def Store_UpsertUserSetting_def convertUserSettingToRaw_def
        convertUserSettingFromRaw_def DB_UpsertUserSetting_def Let_def)
qed

lemma upsert_refresh_marshals:
  assumes "session_inv cdc s" "bindS (GetUserRefreshTokens rng cdc u) (\<lambda>ts. upsert_value rng cdc u (RefreshTokens (g ts))) s = (res, s')"
  shows "(\<exists>x. res = Inr x) \<longleftrightarrow> (\<exists>t. cd_marshal cdc (RefreshTokens (g (tokens_of cdc s u))) = Inr t)"
proof -
  have inv: "settings_inv cdc s" "codec_ok cdc" using assms(1) by (simp_all add: session_inv_def settings_inv_def)
  obtain s1 where "GetUserRefreshTokens rng cdc u s = (Inr (tokens_of cdc s u), s1)"
    using GetUserRefreshTokens_value [OF inv(1)] by blast
  then have "upsert_value rng cdc u (RefreshTokens (g (tokens_of cdc s u))) s1 = (res, s')"
    using assms(2) by (simp add: bindS_def)
  then show ?thesis by (rule upsert_value_marshals [OF inv(2)])
qed

lemma store_value_twice [simp]: "store_value u k v (store_value u k w f) = store_value u k v f"
  by (simp add: store_value_def fun_eq_iff)

text \<open>Adding the new token and removing the old one, when the addition succeeds.\<close>

lemma add_then_remove:
  assumes "session_inv cdc s" "marshals_parts cdc" "AddUserRefreshToken rng cdc u t s = (Inr x, s1)"
    "RemoveUserRefreshToken rng cdc u tid s1 = (r, s2)"
  shows "session_inv cdc s2 \<and> rest_kept s s2
    \<and> stored cdc (st_db s2) = store_value u REFRESH_TOKENS
        (Some (RefreshTokens (filter (\<lambda>t. rt_TokenId t \<noteq> tid) (tokens_of cdc s u @ [t])))) (stored cdc (st_db s))"
proof -
  have inv: "settings_inv cdc s" "run_inv s" using assms(1) by (simp_all add: session_inv_def)
  have W1: "writes cdc s s1 u (RefreshTokens (tokens_of cdc s u @ [t])) True"
    using AddUserRefreshToken_writes [OF inv(1) assms(3)] by simp
  then have inv1: "session_inv cdc s1" and kept1: "rest_kept s s1" and st1: "stored cdc (st_db s1)
      = store_value u REFRESH_TOKENS (Some (RefreshTokens (tokens_of cdc s u @ [t]))) (stored cdc (st_db s))"
    using run_inv_rest_kept inv(2) by (auto simp: writes_def session_inv_def)
  have toks: "tokens_of cdc s1 u = tokens_of cdc s u @ [t]" by (simp add: st1)
  have "\<exists>m. cd_marshal cdc (RefreshTokens (tokens_of cdc s u @ [t])) = Inr m"
    using upsert_refresh_marshals [OF assms(1) assms(3) [unfolded AddUserRefreshToken_def]] by simp
  then have "\<exists>m. cd_marshal cdc (RefreshTokens (filter (\<lambda>t. rt_TokenId t \<noteq> tid) (tokens_of cdc s1 u))) = Inr m"
    using assms(2) unfolding marshals_parts_def toks by blast
  then have "\<exists>y. r = Inr y" using upsert_refresh_marshals [OF inv1 assms(4) [unfolded RemoveUserRefreshToken_def]] by simp
  then have "writes cdc s1 s2 u (RefreshTokens (filter (\<lambda>t. rt_TokenId t \<noteq> tid) (tokens_of cdc s1 u))) True"
    using RemoveUserRefreshToken_writes [OF _ assms(4)] inv1 by (auto simp: session_inv_def)
  then show ?thesis
    using run_inv_rest_kept inv1 rest_kept_trans [OF kept1] by (auto simp: writes_def session_inv_def st1 toks)
qed

section \<open>The handler\<close>

lemma on_store_Inr [act_simps]:
  "on_store m s = (Inr a, s') \<longleftrightarrow> (\<exists>st. m (ss_Store s) = (Inr a, st) \<and> s' = s\<lparr>ss_Store := st\<rparr>)"
  by (auto simp: on_store_def split: prod.splits)

lemma attempt_Inr [act_simps]:
  "attempt m s = (Inr x, s') \<longleftrightarrow> (\<exists>r st. m (ss_Store s) = (r, st) \<and> s' = s\<lparr>ss_Store := st\<rparr>)"
  by (auto simp: attempt_def split: prod.splits)

lemma SetCookie_Inr [act_simps]:
  "SetCookie cc f cookie s = (Inr x, s') \<longleftrightarrow> cc_SetHeader cc = None \<and> s' = s\<lparr>ss_Cookies := ss_Cookies s @ [cookie]\<rparr>"
  by (auto simp: SetCookie_def split: option.splits)

lemma refresh_token_Inr [act_simps]:
  "refresh_token sv user tid s = (Inr x, s') \<longleftrightarrow> s' = s
    \<and> GenerateRefreshToken (au_jwt (sv_Auth sv)) (clock s) (u_ID user) tid (au_secret (sv_Auth sv)) = Inr x"
  by (auto simp: refresh_token_def result_simps)

lemma access_token_Inr [act_simps]:
  "access_token sv user s = (Inr x, s') \<longleftrightarrow> s' = s
    \<and> GenerateAccessTokenV2 (au_jwt (sv_Auth sv)) (clock s) (u_ID user) (u_Username user) (u_Role user) (u_RowStatus user)
        (au_secret (sv_Auth sv)) = Inr x"
  by (auto simp: access_token_def result_simps)

lemma GenerateRefreshToken_expiry:
  "GenerateRefreshToken j now u tid secret = Inr (t, e) \<Longrightarrow> e = now + RefreshTokenDuration"
  by (auto simp: GenerateRefreshToken_def Let_def result_simps)

lemma refresh_rotates:
  assumes inv: "session_inv cdc (ss_Store s)" "cdc = au_codec (sv_Auth sv)" "marshals_parts cdc"
    and run: "Session_RefreshToken sv cc newID s = (Inr (access, expires_at), s')"
  shows "\<exists>user oldID tok. refresh_credential (sv_Auth sv) (ss_Store s) (request_token cc) user oldID
    \<and> GenerateRefreshToken (au_jwt (sv_Auth sv)) (clock s) (u_ID user) newID (au_secret (sv_Auth sv))
        = Inr (tok, clock s + RefreshTokenDuration)
    \<and> stored cdc (st_db (ss_Store s')) = store_value (u_ID user) REFRESH_TOKENS
        (Some (RefreshTokens (filter (\<lambda>t. rt_TokenId t \<noteq> oldID) (tokens_of cdc (ss_Store s) (u_ID user)
           @ [refresh_record cc newID (clock s + RefreshTokenDuration) (clock s)])))) (stored cdc (st_db (ss_Store s)))
    \<and> (\<exists>rows. st_db (ss_Store s') = (st_db (ss_Store s))\<lparr>db_user_setting := rows\<rparr>)
    \<and> ss_Cookies s' = ss_Cookies s @ [buildRefreshTokenCookie cc tok (Some (clock s + RefreshTokenDuration))]
    \<and> GenerateAccessTokenV2 (au_jwt (sv_Auth sv)) (clock s) (u_ID user) (u_Username user) (u_Role user) (u_RowStatus user)
        (au_secret (sv_Auth sv)) = Inr (access, expires_at)
    \<and> session_inv cdc (ss_Store s') \<and> clock s' = clock s"
proof -
  let ?a = "sv_Auth sv"
  have "request_token cc \<noteq> []" using run by (auto simp: Session_RefreshToken_def)
  with run obtain user oldID s1 tok until s2 r s3 where
      auth: "AuthenticateByRefreshToken ?a (request_token cc) (ss_Store s) = (Inr (user, oldID), s1)"
    and tok: "GenerateRefreshToken (au_jwt ?a) (st_clock s1) (u_ID user) newID (au_secret ?a) = Inr (tok, until)"
    and add: "add_refresh sv cc user newID until (clock s) s1 = (Inr (), s2)"
    and rem: "remove_refresh sv (u_ID user) oldID s2 = (r, s3)"
    and acc: "GenerateAccessTokenV2 (au_jwt ?a) (st_clock s3) (u_ID user) (u_Username user) (u_Role user) (u_RowStatus user)
        (au_secret ?a) = Inr (access, expires_at)"
    and s': "s' = s\<lparr>ss_Store := s3, ss_Cookies := ss_Cookies s @ [buildRefreshTokenCookie cc tok (Some until)]\<rparr>"
    unfolding Session_RefreshToken_def by (auto simp: act_simps)
  have q: "quiet cdc (ss_Store s) s1" and cred: "refresh_credential ?a (ss_Store s) (request_token cc) user oldID"
    using AuthenticateByRefreshToken_iff [of ?a "ss_Store s" "request_token cc"] inv(1,2) auth by auto
  have same: "st_db s1 = st_db (ss_Store s)" "st_clock s1 = clock s" using q by (simp_all add: quiet_def)
  have until: "until = clock s + RefreshTokenDuration" using GenerateRefreshToken_expiry [OF tok] same by simp
  note R = add_then_remove [OF quiet_inv [OF q] inv(3) add [unfolded add_refresh_def, folded inv(2)]
      rem [unfolded remove_refresh_def, folded inv(2)]]
  then have "st_clock s3 = clock s" by (simp add: rest_kept_def same)
  then show ?thesis
    using cred tok acc R s' until same by (intro exI [of _ user] exI [of _ oldID] exI [of _ tok]) (simp add: rest_kept_def)
qed

text \<open>C7. A refresh rotates the session token. \<open>RefreshToken\<close> succeeds only for a cookie whose token is valid now for an
  existing, unarchived user. It then stores for this user, beside the other tokens and instead of the presented one,
  exactly the record of a new token that lives 30 days; it sets the cookie with the signed new token, answers an access
  token of this user, and changes no other setting and nothing else in the database.\<close>

theorem refresh_rotates_the_token:
  assumes inv: "session_inv cdc (ss_Store s)" "cdc = au_codec (sv_Auth sv)" "marshals_parts cdc"
    and run: "Session_RefreshToken sv cc newID s = (Inr (access, expires_at), s')"
  shows "\<exists>user oldID tok. refresh_credential (sv_Auth sv) (ss_Store s) (request_token cc) user oldID
    \<and> GenerateRefreshToken (au_jwt (sv_Auth sv)) (clock s) (u_ID user) newID (au_secret (sv_Auth sv))
        = Inr (tok, clock s + RefreshTokenDuration)
    \<and> stored cdc (st_db (ss_Store s')) = store_value (u_ID user) REFRESH_TOKENS
        (Some (RefreshTokens (filter (\<lambda>t. rt_TokenId t \<noteq> oldID) (tokens_of cdc (ss_Store s) (u_ID user)
           @ [refresh_record cc newID (clock s + RefreshTokenDuration) (clock s)])))) (stored cdc (st_db (ss_Store s)))
    \<and> (\<exists>rows. st_db (ss_Store s') = (st_db (ss_Store s))\<lparr>db_user_setting := rows\<rparr>)
    \<and> ss_Cookies s' = ss_Cookies s @ [buildRefreshTokenCookie cc tok (Some (clock s + RefreshTokenDuration))]
    \<and> GenerateAccessTokenV2 (au_jwt (sv_Auth sv)) (clock s) (u_ID user) (u_Username user) (u_Role user) (u_RowStatus user)
        (au_secret (sv_Auth sv)) = Inr (access, expires_at)
    \<and> session_inv cdc (ss_Store s') \<and> clock s' = clock s"
  by (rule refresh_rotates [OF assms])

section \<open>The rotated session\<close>

lemma ascii_itoa: "0 \<le> i \<Longrightarrow> ascii (itoa i)"
proof -
  assume "0 \<le> i"
  have "of_char c < (128 :: nat)" if "is_digit c" for c
  proof -
    have "\<forall>c \<in> set ''0123456789''. of_char c < (128 :: nat)" by code_simp
    then show ?thesis using that unfolding is_digit_def by blast
  qed
  then show ?thesis
    using decimal_digits [of "nat i"] \<open>0 \<le> i\<close> by (simp add: ascii_def itoa_def list_all_iff)
qed

lemma ConvertStringToInt32_itoa: "0 \<le> i \<Longrightarrow> i < 2 ^ 31 \<Longrightarrow> ConvertStringToInt32 (itoa i) = Inr i"
  using parse_decimal [of "nat i"] by (simp add: ConvertStringToInt32_def itoa_def)

lemma jwt_ok_parse:
  assumes "jwt_ok j" "plain_claims c" "jl_sign j h c k = Inr t" "keyf h = Inr k" "cl_Issuer c = iss"
    "aud \<in> set (cl_Audience c)" "unexpired now c"
  shows "jl_parse j now t keyf iss aud = Inr c"
proof -
  have "\<forall>h c k t now keyf iss aud. plain_claims c \<longrightarrow> jl_sign j h c k = Inr t \<longrightarrow> keyf h = Inr k \<longrightarrow> cl_Issuer c = iss \<longrightarrow>
      aud \<in> set (cl_Audience c) \<longrightarrow> unexpired now c \<longrightarrow> jl_parse j now t keyf iss aud = Inr c"
    using assms(1) unfolding jwt_ok_def by (elim conjE)
  from this [rule_format, of c h k t keyf iss aud now] show ?thesis using assms(2-7) by simp
qed

text \<open>A token that \<open>GenerateRefreshToken\<close> signed is parsed until it expires.\<close>

lemma generated_refresh_parses:
  assumes "jwt_ok j" "GenerateRefreshToken j now u tid secret = Inr (tok, e)" "0 \<le> u" "ascii tid" "now' < jl_date j e"
  shows "\<exists>claims. ParseRefreshToken j now' tok secret = Inr claims \<and> cl_Subject claims = itoa u \<and> cl_TokenID claims = tid"
proof -
  let ?c = "no_claims\<lparr>cl_Type := ''refresh'', cl_TokenID := tid,
           cl_Issuer := Issuer, cl_Audience := [RefreshTokenAudienceName], cl_Subject := itoa u,
           cl_IssuedAt := Some (jl_date j now), cl_ExpiresAt := Some (jl_date j e)\<rparr>"
  have sign: "jl_sign j token_header ?c secret = Inr tok"
    using assms(2) by (auto simp: GenerateRefreshToken_def Let_def result_simps)
  have plain: "plain_claims ?c"
    using ascii_itoa [OF assms(3)] assms(4)
    by (simp add: plain_claims_def no_claims_def Issuer_def RefreshTokenAudienceName_def) (simp add: ascii_def)
  have key: "verifyJWTKeyFunc secret token_header = Inr secret" by (simp add: verifyJWTKeyFunc_def token_header_def)
  have fresh: "unexpired now' ?c" using assms(5) by (simp add: unexpired_def)
  have "jl_parse j now' tok (verifyJWTKeyFunc secret) Issuer RefreshTokenAudienceName = Inr ?c"
    using jwt_ok_parse [OF assms(1) plain sign, of "verifyJWTKeyFunc secret" Issuer RefreshTokenAudienceName now'] key fresh
    by simp
  then show ?thesis by (simp add: ParseRefreshToken_def)
qed

lemma session_inv_clock [simp]: "session_inv cdc (s\<lparr>st_clock := t\<rparr>) = session_inv cdc s"
  by (simp add: session_inv_def settings_inv_def run_inv_def user_cache_coherent_def)

lemma built_cookie: "\<exists>rest. buildRefreshTokenCookie cc tok t = RefreshTokenCookieName @ ''='' @ tok @ ''; '' @ rest"
  by (simp add: buildRefreshTokenCookie_def)

lemma AuthenticateToUser_cookie:
  assumes "AuthenticateByRefreshToken a (ExtractRefreshTokenFromCookie h) s = (Inr (user, tid), s')" "h \<noteq> []"
    "ExtractRefreshTokenFromCookie h \<noteq> []"
  shows "AuthenticateToUser a [] h s = (Inr (Some user, []), s')"
  using assms by (simp add: AuthenticateToUser_def ExtractBearerToken_def resolveBearer_def bindS_def liftS_def)

text \<open>The outcome of a refresh for a known credential and token text.\<close>

lemma refreshed_session:
  assumes inv: "session_inv cdc (ss_Store s)" "cdc = au_codec (sv_Auth sv)" "marshals_parts cdc"
    and run: "Session_RefreshToken sv cc newID s = (Inr (access, expires_at), s')"
    and user: "refresh_credential (sv_Auth sv) (ss_Store s) (request_token cc) user oldID"
    and tok: "GenerateRefreshToken (au_jwt (sv_Auth sv)) (clock s) (u_ID user) newID (au_secret (sv_Auth sv)) = Inr (tok, until)"
    and new: "newID \<notin> rt_TokenId ` set (tokens_of cdc (ss_Store s) (u_ID user))"
  shows "tokens_of cdc (ss_Store s') (u_ID user) = filter (\<lambda>t. rt_TokenId t \<noteq> oldID) (tokens_of cdc (ss_Store s) (u_ID user))
      @ [refresh_record cc newID until (clock s)]" (is ?tokens)
    and "oldID \<noteq> newID" (is ?old)
    and "user_row (st_db (ss_Store s')) (u_ID user) = Some user" (is ?user)
    and "u_RowStatus user \<noteq> Archived" (is ?active)
    and "\<exists>rest. last (ss_Cookies s') = RefreshTokenCookieName @ ''='' @ tok @ ''; '' @ rest" (is ?cookie)
    and "session_inv cdc (ss_Store s')" (is ?inv)
proof -
  let ?a = "sv_Auth sv"
  obtain user1 oldID1 tok1 where R: "refresh_credential ?a (ss_Store s) (request_token cc) user1 oldID1"
      "GenerateRefreshToken (au_jwt ?a) (clock s) (u_ID user1) newID (au_secret ?a) = Inr (tok1, clock s + RefreshTokenDuration)"
      "stored cdc (st_db (ss_Store s')) = store_value (u_ID user1) REFRESH_TOKENS
        (Some (RefreshTokens (filter (\<lambda>t. rt_TokenId t \<noteq> oldID1) (tokens_of cdc (ss_Store s) (u_ID user1)
           @ [refresh_record cc newID (clock s + RefreshTokenDuration) (clock s)])))) (stored cdc (st_db (ss_Store s)))"
      "\<exists>rows. st_db (ss_Store s') = (st_db (ss_Store s))\<lparr>db_user_setting := rows\<rparr>"
      "ss_Cookies s' = ss_Cookies s @ [buildRefreshTokenCookie cc tok1 (Some (clock s + RefreshTokenDuration))]"
      "session_inv cdc (ss_Store s')"
    using refresh_rotates [OF inv run] by blast
  have one: "user1 = user" "oldID1 = oldID"
    using refresh_credential_unique [OF user R(1)] by simp_all
  have same: "tok1 = tok" "until = clock s + RefreshTokenDuration" using R(2) tok by (simp_all add: one)
  have "oldID \<in> rt_TokenId ` set (tokens_of cdc (ss_Store s) (u_ID user))"
    using refresh_credential_has_token [OF user] inv(2) by (simp add: has_token_def)
  with new show ?old by blast
  then show ?tokens using R(3) by (simp add: one same refresh_record_def)
  show ?user ?active using user R(4) unfolding refresh_credential_def by (auto simp: user_row_def)
  show ?cookie using built_cookie by (simp add: R(5) same)
  show ?inv by (rule R(6))
qed

text \<open>The signed token is a credential of the stored record until it expires.\<close>

lemma generated_credential:
  assumes a: "jwt_ok (au_jwt a)"
    and tok: "GenerateRefreshToken (au_jwt a) t0 (u_ID user) newID (au_secret a) = Inr (tok, until)" "ascii newID"
    and user: "0 \<le> u_ID user" "u_ID user < 2 ^ 31" "user_row (st_db s) (u_ID user) = Some user" "u_RowStatus user \<noteq> Archived"
    and rec: "filter (\<lambda>t. rt_TokenId t = newID) (tokens_of (au_codec a) s (u_ID user)) = [r]" "rt_ExpiresAt r = Some until"
    and later: "st_clock s < jl_date (au_jwt a) until"
  shows "refresh_credential a s tok user newID"
proof -
  obtain claims where claims: "ParseRefreshToken (au_jwt a) (st_clock s) tok (au_secret a) = Inr claims"
      "cl_Subject claims = itoa (u_ID user)" "cl_TokenID claims = newID"
    using generated_refresh_parses [OF a tok(1) user(1) tok(2) later] by blast
  have "jl_date (au_jwt a) until \<le> until" using a by (simp add: jwt_ok_def)
  then have "live (st_clock s) (rt_ExpiresAt r)" using later by (simp add: live_def rec(2))
  then show ?thesis
    unfolding refresh_credential_def
    using claims ConvertStringToInt32_itoa [OF user(1,2)] rec(1) user(3,4)
    by (intro exI [of _ claims] exI [of _ r]) simp
qed

text \<open>C6. The rotated session goes on. After a successful refresh the cookie that was set starts with the cookie pair that
  the browser sends back; this pair alone signs the same user in, at any time until the new
  token expires; and no token text signs the user in under the id of the replaced token.\<close>

theorem refreshed_cookie_authenticates:
  assumes inv: "session_inv cdc (ss_Store s)" "cdc = au_codec (sv_Auth sv)" "marshals_parts cdc" "jwt_ok (au_jwt (sv_Auth sv))"
    and run: "Session_RefreshToken sv cc newID s = (Inr (access, expires_at), s')"
    and user: "refresh_credential (sv_Auth sv) (ss_Store s) (request_token cc) user oldID" "0 \<le> u_ID user" "u_ID user < 2 ^ 31"
    and tok: "GenerateRefreshToken (au_jwt (sv_Auth sv)) (clock s) (u_ID user) newID (au_secret (sv_Auth sv)) = Inr (tok, until)"
      "list_all cookie_safe tok" "tok \<noteq> []"
    and new: "ascii newID" "newID \<notin> rt_TokenId ` set (tokens_of cdc (ss_Store s) (u_ID user))"
    and later: "now < jl_date (au_jwt (sv_Auth sv)) until"
  shows "(\<exists>rest. last (ss_Cookies s') = RefreshTokenCookieName @ ''='' @ tok @ ''; '' @ rest)
    \<and> (\<exists>t. AuthenticateToUser (sv_Auth sv) [] (RefreshTokenCookieName @ ''='' @ tok) ((ss_Store s')\<lparr>st_clock := now\<rparr>) = (Inr (Some user, []), t))
    \<and> \<not> (\<exists>user' t. AuthenticateByRefreshToken (sv_Auth sv) token ((ss_Store s')\<lparr>st_clock := now\<rparr>) = (Inr (user', oldID), t)
          \<and> u_ID user' = u_ID user)"
proof -
  let ?a = "sv_Auth sv" and ?s = "(ss_Store s')\<lparr>st_clock := now\<rparr>" and ?new = "refresh_record cc newID until (clock s)"
  note R = refreshed_session [OF inv(1-3) run user(1) tok(1) new(2)]
  have id: "rt_TokenId ?new = newID" "rt_ExpiresAt ?new = Some until" by (simp_all add: refresh_record_def)
  have toks: "tokens_of cdc ?s (u_ID user) = filter (\<lambda>t. rt_TokenId t \<noteq> oldID) (tokens_of cdc (ss_Store s) (u_ID user)) @ [?new]"
    using R(1) by simp
  have "filter (\<lambda>t. rt_TokenId t = newID) (tokens_of (au_codec ?a) ?s (u_ID user)) = [?new]"
    unfolding toks [unfolded inv(2)] using new(2) id inv(2) by (auto simp: filter_empty_conv)
  then have cred: "refresh_credential ?a ?s tok user newID"
    using generated_credential [OF inv(4) tok(1) new(1) user(2,3), of ?s] R(3,4) id(2) later by simp
  have inv': "session_inv (au_codec ?a) ?s" using R(6) inv(2) by simp
  obtain t where "AuthenticateByRefreshToken ?a tok ?s = (Inr (user, newID), t)"
    using AuthenticateByRefreshToken_iff [OF inv', of tok] cred by auto
  then have "AuthenticateToUser ?a [] (RefreshTokenCookieName @ ''='' @ tok) ?s = (Inr (Some user, []), t)"
    using tok(3) request_cookie_single [OF tok(3,2)] by (intro AuthenticateToUser_cookie) simp_all
  moreover have "\<not> (\<exists>user' t. AuthenticateByRefreshToken ?a token ?s = (Inr (user', oldID), t) \<and> u_ID user' = u_ID user)"
  proof
    assume "\<exists>user' t. AuthenticateByRefreshToken ?a token ?s = (Inr (user', oldID), t) \<and> u_ID user' = u_ID user"
    then obtain user' where "refresh_credential ?a ?s token user' oldID" "u_ID user' = u_ID user"
      using AuthenticateByRefreshToken_iff [OF inv', of token] by auto
    then have "oldID \<in> rt_TokenId ` set (tokens_of cdc ?s (u_ID user))"
      using refresh_credential_has_token [of ?a ?s token user' oldID] inv(2) by (simp add: has_token_def)
    then show False unfolding toks using id R(2) by auto
  qed
  ultimately show ?thesis using R(5) by blast
qed

section \<open>An example session\<close>

text \<open>Alice has the session \<open>old\<close> and sends its cookie; the new session is \<open>new\<close>.\<close>

definition session_call :: call_context where
  "session_call = \<lparr>cc_Identity = no_identity,
     cc_Metadata = Some (\<lambda>k. if k = ''cookie'' then [''theme=dark; memos_refresh=old.jwt''] else []), cc_SetHeader = None\<rparr>"

definition old_record :: RefreshToken where
  "old_record = refresh_record session_call ''old'' 2592000000000000 0"

definition new_record :: RefreshToken where
  "new_record = refresh_record session_call ''new'' 2592005000000000 5000000000"

definition session_messages :: message_table where
  "session_messages = [(RefreshTokens [], ''0''), (RefreshTokens [old_record], ''1''), (RefreshTokens [new_record], ''2''),
     (RefreshTokens [old_record, new_record], ''3'')]"

definition refresh_claims :: "string \<Rightarrow> int \<Rightarrow> claims" where
  "refresh_claims tid now = no_claims\<lparr>cl_Type := ''refresh'', cl_TokenID := tid, cl_Issuer := ''memos'',
     cl_Audience := [''user.refresh-token''], cl_Subject := ''1'', cl_IssuedAt := Some now,
     cl_ExpiresAt := Some (now + 2592000000000000)\<rparr>"

definition session_tokens :: token_table where
  "session_tokens = [((token_header, refresh_claims ''old'' 0, ''secret''), ''old.jwt''),
     ((token_header, refresh_claims ''new'' 5000000000, ''secret''), ''new.jwt''),
     ((token_header, access_claims, ''secret''), ''acc.jwt'')]"

definition session_server :: Server where
  "session_server = \<lparr>sv_Service = \<lparr>svc_Store = MemoReadStore_of id, svc_deployment = None, svc_raw = Inr None\<rparr>,
     sv_Auth = \<lparr>au_secret = ''secret'', au_jwt = table_jwt session_tokens, au_sha256 = (\<lambda>_. []),
       au_codec = table_codec session_messages, au_users = id, au_settings = id\<rparr>,
     sv_General = Inr \<lparr>gs_DisallowPasswordAuth = False, gs_DisallowUserRegistration = False\<rparr>,
     sv_password = (\<lambda>_ _. False)\<rparr>"

abbreviation session_auth :: Authenticator where "session_auth \<equiv> sv_Auth session_server"

definition session_store :: "UserSetting Store" where
  "session_store = snd (AddUserRefreshToken id (table_codec session_messages) 1 old_record one_user)"

definition session_before :: session_state where
  "session_before = \<lparr>ss_Store = session_store, ss_Cookies = []\<rparr>"

definition session_after :: session_state where
  "session_after = snd (Session_RefreshToken session_server session_call ''new'' session_before)"

lemma session_codec: "au_codec session_auth = table_codec session_messages" "au_jwt session_auth = table_jwt session_tokens"
  by (simp_all add: session_server_def)

lemma session_messages_ok: "codec_ok (table_codec session_messages)"
  by (rule table_codec_ok) (simp add: session_messages_def)

lemma session_store_inv: "session_inv (table_codec session_messages) session_store"
proof -
  have "setting_step (table_codec session_messages) UNIV one_user session_store"
    unfolding session_store_def by (rule setting_step.add_refresh) (simp_all add: prod_eq_iff)
  then show ?thesis using setting_step_spec one_user_inv [OF session_messages_ok] by blast
qed

lemma session_jwt_ok: "jwt_ok (table_jwt session_tokens)"
  by (rule table_jwt_ok) (simp add: session_tokens_def)

lemma filter_in_subseqs: "filter P xs \<in> set (subseqs xs)"
  by (induction xs) (auto simp: Let_def)

lemma table_marshals:
  "(\<exists>u. cd_marshal (table_codec tab) v = Inr u) \<longleftrightarrow> list_ex (\<lambda>(w, _). same_value w v) tab"
proof (cases "find (\<lambda>(w, _). same_value w v) tab")
  case None
  then have "\<not> list_ex (\<lambda>(w, _). same_value w v) tab" by (auto simp: find_None_iff list_ex_iff)
  then show ?thesis by (simp add: table_codec_def None)
next
  case (Some x)
  then have "x \<in> set tab" "same_value (fst x) v" by (auto simp: find_Some_iff split_def)
  then have "list_ex (\<lambda>(w, _). same_value w v) tab" unfolding list_ex_iff by (intro bexI [of _ x]) (simp_all add: split_def)
  moreover have "cd_marshal (table_codec tab) v = Inr (snd x)"
    using Some by (cases x) (simp add: table_codec_def)
  ultimately show ?thesis by blast
qed

lemma table_marshals_parts:
  assumes "list_all (\<lambda>(v, _). case v of
      RefreshTokens ts \<Rightarrow> list_all (\<lambda>xs. list_ex (\<lambda>(w, _). same_value w (RefreshTokens xs)) tab) (subseqs ts) | _ \<Rightarrow> True) tab"
  shows "marshals_parts (table_codec tab)"
  unfolding marshals_parts_def
proof (intro allI impI)
  fix ts u P
  assume "cd_marshal (table_codec tab) (RefreshTokens ts) = Inr u"
  then have "list_ex (\<lambda>(w, _). same_value w (RefreshTokens ts)) tab" using table_marshals by blast
  then obtain w t where "(w, t) \<in> set tab" "same_value w (RefreshTokens ts)" by (auto simp: list_ex_iff)
  then have "(RefreshTokens ts, t) \<in> set tab" using same_value_eq by blast
  then have "list_all (\<lambda>xs. list_ex (\<lambda>(w, _). same_value w (RefreshTokens xs)) tab) (subseqs ts)"
    using assms by (fastforce simp: list_all_iff)
  then have "list_ex (\<lambda>(w, _). same_value w (RefreshTokens (filter P ts))) tab"
    using filter_in_subseqs [of P ts] by (simp add: list_all_iff)
  then show "\<exists>u'. cd_marshal (table_codec tab) (RefreshTokens (filter P ts)) = Inr u'" using table_marshals by blast
qed

lemma session_parts: "marshals_parts (table_codec session_messages)"
  by (rule table_marshals_parts) code_simp

text \<open>What the example computes.\<close>

lemma session_run: "\<exists>s'. Session_RefreshToken session_server session_call ''new'' session_before = (Inr (''acc.jwt'', 905000000000), s')
    \<and> s' = session_after"
proof -
  have "case fst (Session_RefreshToken session_server session_call ''new'' session_before) of
      Inr (t, e) \<Rightarrow> t = ''acc.jwt'' \<and> e = 905000000000 | Inl _ \<Rightarrow> False" by code_simp
  then show ?thesis
    by (cases "Session_RefreshToken session_server session_call ''new'' session_before")
      (auto simp: session_after_def split: sum.splits)
qed

definition stored_alice :: User where
  "stored_alice = alice\<lparr>u_ID := 1, u_RowStatus := Normal\<rparr>"

lemma session_old:
  "refresh_credential session_auth (ss_Store session_before) (request_token session_call) stored_alice ''old''"
proof -
  have "case AuthenticateByRefreshToken session_auth (request_token session_call) session_store of
      (Inr (user, tid), _) \<Rightarrow> user = stored_alice \<and> tid = ''old'' | _ \<Rightarrow> False" by code_simp
  then obtain s' where "AuthenticateByRefreshToken session_auth (request_token session_call) session_store = (Inr (stored_alice, ''old''), s')"
    by (auto split: prod.splits sum.splits)
  then show ?thesis
    using AuthenticateByRefreshToken_iff [of session_auth session_store "request_token session_call"] session_store_inv
    by (auto simp: session_codec session_before_def)
qed

theorem revoked_refresh_token_stays_revoked_witness:
  "(\<exists>s'. AuthenticateByRefreshToken session_auth ''old.jwt'' session_store = (Inr (stored_alice, ''old''), s'))
    \<and> \<not> (\<exists>user s'. AuthenticateByRefreshToken session_auth ''old.jwt''
            (snd (RemoveUserRefreshToken id (table_codec session_messages) 1 ''old'' session_store)) = (Inr (user, ''old''), s')
          \<and> u_ID user = 1)"
proof -
  let ?after = "RemoveUserRefreshToken id (au_codec session_auth) 1 ''old'' session_store"
  have inv: "session_inv (au_codec session_auth) session_store" using session_store_inv by (simp add: session_codec)
  have "case fst ?after of Inr _ \<Rightarrow> True | Inl _ \<Rightarrow> False" by code_simp
  then obtain s1 where rem: "?after = (Inr (), s1)" by (cases ?after) (auto split: sum.splits)
  have "request_token session_call = ''old.jwt''" by code_simp
  then have before: "\<exists>s'. AuthenticateByRefreshToken session_auth ''old.jwt'' session_store = (Inr (stored_alice, ''old''), s')"
    using AuthenticateByRefreshToken_iff [OF inv, of "''old.jwt''"] session_old by (auto simp: session_before_def)
  show ?thesis
    using revoked_refresh_token_stays_revoked [where issued = "{}" and token = "''old.jwt''", OF inv rem rtranclp.rtrancl_refl] rem before
    by (simp add: session_codec)
qed

theorem refresh_rotates_the_token_witness:
  "\<exists>rows. st_db (ss_Store session_after) = (st_db session_store)\<lparr>db_user_setting := rows\<rparr>
    \<and> tokens_of (table_codec session_messages) (ss_Store session_after) 1 = [new_record]"
proof -
  have inv: "session_inv (table_codec session_messages) (ss_Store session_before)"
    using session_store_inv by (simp add: session_before_def)
  have run: "Session_RefreshToken session_server session_call ''new'' session_before = (Inr (''acc.jwt'', 905000000000), session_after)"
    using session_run by blast
  obtain user oldID rows where R: "refresh_credential session_auth (ss_Store session_before) (request_token session_call) user oldID"
      "stored (table_codec session_messages) (st_db (ss_Store session_after)) = store_value (u_ID user) REFRESH_TOKENS
        (Some (RefreshTokens (filter (\<lambda>t. rt_TokenId t \<noteq> oldID) (tokens_of (table_codec session_messages) (ss_Store session_before) (u_ID user)
           @ [refresh_record session_call ''new'' (clock session_before + RefreshTokenDuration) (clock session_before)]))))
        (stored (table_codec session_messages) (st_db (ss_Store session_before)))"
      "st_db (ss_Store session_after) = (st_db (ss_Store session_before))\<lparr>db_user_setting := rows\<rparr>"
    using refresh_rotates_the_token [OF inv session_codec(1) [symmetric] session_parts run] by blast
  have "user = stored_alice" "oldID = ''old''" using refresh_credential_unique [OF session_old R(1)] by simp_all
  moreover have "u_ID stored_alice = 1" by (simp add: stored_alice_def)
  moreover have "tokens_of (table_codec session_messages) session_store 1 = [old_record]" by code_simp
  moreover have "st_clock session_store = 5000000000" by code_simp
  ultimately show ?thesis
    using R(2,3) by (auto simp: session_before_def old_record_def new_record_def refresh_record_def RefreshTokenDuration_def)
qed

theorem refreshed_cookie_authenticates_witness:
  "\<exists>t. AuthenticateToUser session_auth [] ''memos_refresh=new.jwt'' ((ss_Store session_after)\<lparr>st_clock := 2592004000000000\<rparr>)
     = (Inr (Some stored_alice, []), t)"
proof -
  have inv: "session_inv (table_codec session_messages) (ss_Store session_before)"
    using session_store_inv by (simp add: session_before_def)
  have run: "Session_RefreshToken session_server session_call ''new'' session_before = (Inr (''acc.jwt'', 905000000000), session_after)"
    using session_run by blast
  have jwt: "jwt_ok (au_jwt session_auth)" using session_jwt_ok by (simp add: session_codec)
  have id: "0 \<le> u_ID stored_alice" "u_ID stored_alice < 2 ^ 31" by (simp_all add: stored_alice_def)
  have "case GenerateRefreshToken (au_jwt session_auth) (clock session_before) (u_ID stored_alice) ''new'' (au_secret session_auth) of
      Inr (t, e) \<Rightarrow> t = ''new.jwt'' \<and> e = 2592005000000000 | Inl _ \<Rightarrow> False" by code_simp
  then have tok: "GenerateRefreshToken (au_jwt session_auth) (clock session_before) (u_ID stored_alice) ''new'' (au_secret session_auth)
      = Inr (''new.jwt'', 2592005000000000)" by (auto split: sum.splits)
  have safe: "list_all cookie_safe ''new.jwt''" "''new.jwt'' \<noteq> []" "ascii ''new''" by code_simp+
  have new: "''new'' \<notin> rt_TokenId ` set (tokens_of (table_codec session_messages) (ss_Store session_before) (u_ID stored_alice))"
    by code_simp
  have later: "2592004000000000 < jl_date (au_jwt session_auth) 2592005000000000" by code_simp
  have "RefreshTokenCookieName @ ''='' @ ''new.jwt'' = ''memos_refresh=new.jwt''" by (simp add: RefreshTokenCookieName_def)
  with refreshed_cookie_authenticates [OF inv session_codec(1) [symmetric] session_parts jwt run session_old id tok safe(1,2) safe(3) new later]
  show ?thesis by metis
qed

end
