(* ===== verification/Memo_Listing.thy ===== *)
theory Memo_Listing
  imports Filter_Access Memo_Participation
begin

text \<open>
  Reading memos and what hangs on them: the listings of memos (\<open>sqlite/memo.go\<close>), of their relations
  (\<open>sqlite/memo_relation.go\<close>) and attachments (\<open>sqlite/attachment.go\<close>), and the reads of the store over them.
  A listing fails when a filter does not compile or a payload cannot be decoded.
\<close>

section \<open>Filters in a query\<close>

text \<open>The CEL environment or the error of its construction, the clock and the time functions of the filters,
  and the truth of compiled conditions, the texts with their arguments, at a row: the database evaluates them.\<close>

record 'r filter_lib =
  fl_cel :: "go_error + (string \<Rightarrow> Expr result)"
  fl_now :: go_time
  fl_time :: time_lib
  fl_true :: "string list \<times> any_value list \<Rightarrow> db \<Rightarrow> 'r \<Rightarrow> bool"

abbreviation fl_Engine :: "'r filter_lib \<Rightarrow> Schema \<Rightarrow> Engine result" where
  "fl_Engine fl \<equiv> NewEngine (fl_cel fl) (fl_now fl) (fl_time fl)"

text \<open>An error of the filter package as the drivers return it, by its format.\<close>

fun filter_error :: "go_error \<Rightarrow> store_error" where
  "filter_error (Errorf fmt _) = NewError fmt"
| "filter_error (Wrap e msg) = WrapError (filter_error e) msg"

definition filter_condition :: "'r filter_lib \<Rightarrow> string list \<Rightarrow> db \<Rightarrow> store_error + ('r \<Rightarrow> bool)" where
  "filter_condition fl filters d =
     orElse (bindE (fl_Engine fl NewSchema) (\<lambda>eng.
       bindE (AppendConditions eng filters DialectSQLite [''1 = 1''] []) (\<lambda>conditions.
         Inr (fl_true fl conditions d)))) filter_error"

section \<open>Memos (sqlite/memo.go)\<close>

record FindMemo =
  fq_ID :: "int32 option"
  fq_UID :: "string option"
  fq_IDList :: "int32 list"
  fq_UIDList :: "string list"
  fq_RowStatus :: "RowStatus option"
  fq_CreatorID :: "int32 option"
  fq_VisibilityList :: "Visibility list"
  fq_CommentContextMemoID :: "int32 option"
  fq_Access :: "MemoAccessScope option"
  fq_ExcludeContent :: bool
  fq_ExcludeComments :: bool
  fq_Filters :: "string list"
  fq_Limit :: "int option"
  fq_Offset :: "int option"
  fq_OrderByPinned :: bool
  fq_OrderByUpdatedTs :: bool
  fq_OrderByTimeAsc :: bool

definition no_find_memo :: FindMemo where
  "no_find_memo = \<lparr>fq_ID = None, fq_UID = None, fq_IDList = [], fq_UIDList = [], fq_RowStatus = None, fq_CreatorID = None,
     fq_VisibilityList = [], fq_CommentContextMemoID = None, fq_Access = None, fq_ExcludeContent = False, fq_ExcludeComments = False,
     fq_Filters = [], fq_Limit = None, fq_Offset = None, fq_OrderByPinned = False, fq_OrderByUpdatedTs = False,
     fq_OrderByTimeAsc = False\<rparr>"

abbreviation CommentRelation :: string where "CommentRelation \<equiv> ''COMMENT''"

definition is_comment :: "db \<Rightarrow> int32 \<Rightarrow> bool" where
  "is_comment d memoID = (\<exists>r \<in> set (db_memo_relation d). rel_memo_id r = memoID \<and> rel_type r = CommentRelation)"

text \<open>The access predicate as the database evaluates it.\<close>

definition access_true :: "MemoAccessScope \<Rightarrow> string \<Rightarrow> db \<Rightarrow> 'p Memo \<Rightarrow> bool" where
  "access_true scope memberAlias d m =
     (eval_c (db_tables ''`user`'' ''`space`'' ''`space_member`'' d) [''`memo`'' \<mapsto> memo_sql m]
        (memo_access_cond backquote ''`user`'' ''`space`'' ''`space_member`'' scope ''`memo`'' memberAlias) = Some True)"

definition memo_matches :: "FindMemo \<Rightarrow> db \<Rightarrow> string Memo \<Rightarrow> bool" where
  "memo_matches q d m =
     (opt_eq (fq_ID q) (m_ID m)
      \<and> (fq_IDList q = [] \<or> m_ID m \<in> set (fq_IDList q))
      \<and> opt_eq (fq_UID q) (m_UID m)
      \<and> (fq_UIDList q = [] \<or> m_UID m \<in> set (fq_UIDList q))
      \<and> opt_eq (fq_CreatorID q) (m_CreatorID m) \<and> opt_eq (fq_RowStatus q) (m_RowStatus m)
      \<and> (fq_VisibilityList q = [] \<or> m_Visibility m \<in> set (fq_VisibilityList q))
      \<and> (case fq_CommentContextMemoID q of
           None \<Rightarrow> True
         | Some c \<Rightarrow> \<exists>r \<in> set (db_memo_relation d). rel_memo_id r = m_ID m \<and> rel_related_memo_id r = c \<and> rel_type r = CommentRelation)
      \<and> (case fq_Access q of None \<Rightarrow> True | Some scope \<Rightarrow> access_true scope ''`access_member`'' d m)
      \<and> (fq_ExcludeComments q \<longrightarrow> \<not> is_comment d (m_ID m)))"

text \<open>The keys of \<open>ORDER BY\<close>, the last one first: stable sorts.\<close>

definition memo_order :: "FindMemo \<Rightarrow> 'p Memo list \<Rightarrow> 'p Memo list" where
  "memo_order q ms =
     (let time = (if fq_OrderByUpdatedTs q then m_UpdatedTs else m_CreatedTs);
          by_id = sort_desc m_ID ms;
          by_time = (if fq_OrderByTimeAsc q then sort_key time by_id else sort_desc time by_id)
      in if fq_OrderByPinned q then sort_desc (\<lambda>m. if m_Pinned m then 1 else (0 :: nat)) by_time else by_time)"

definition parent_uid :: "db \<Rightarrow> int32 \<Rightarrow> string option" where
  "parent_uid d memoID =
     first_row (map m_UID (sort_key m_ID
       [p. r \<leftarrow> db_memo_relation d, rel_memo_id r = memoID \<and> rel_type r = CommentRelation,
           p \<leftarrow> db_memo d, m_ID p = rel_related_memo_id r]))"

text \<open>A memo as it is read: with its payload decoded and the name of the memo it comments on.\<close>

type_synonym 'p read_memo = "'p Memo \<times> string option"

definition memo_of_row :: "bool \<Rightarrow> 'p \<Rightarrow> string Memo \<Rightarrow> 'p Memo" where
  "memo_of_row excludeContent payload m =
     \<lparr>m_ID = m_ID m, m_UID = m_UID m, m_RowStatus = m_RowStatus m, m_CreatorID = m_CreatorID m, m_CreatedTs = m_CreatedTs m,
      m_UpdatedTs = m_UpdatedTs m, m_Content = (if excludeContent then [] else m_Content m), m_Visibility = m_Visibility m,
      m_Pinned = m_Pinned m, m_Payload = payload, m_SpaceID = m_SpaceID m\<rparr>"

definition scan_memo :: "(string \<Rightarrow> store_error + 'p) \<Rightarrow> FindMemo \<Rightarrow> db \<Rightarrow> string Memo \<Rightarrow> store_error + 'p read_memo" where
  "scan_memo unmarshal q d m =
     bindE (orElse (unmarshal (m_Payload m)) (\<lambda>e. WrapError e ''failed to unmarshal payload'')) (\<lambda>payload.
       Inr (memo_of_row (fq_ExcludeContent q) payload m, parent_uid d (m_ID m)))"

definition DB_ListMemos ::
    "string Memo filter_lib \<Rightarrow> (string \<Rightarrow> store_error + 'p) \<Rightarrow> FindMemo \<Rightarrow> db \<Rightarrow> store_error + 'p read_memo list" where
  "DB_ListMemos fl unmarshal q d =
     bindE (filter_condition fl (fq_Filters q) d) (\<lambda>filtered.
       mapE (scan_memo unmarshal q d)
         (sql_limit (fq_Limit q) (fq_Offset q) (memo_order q (filter (\<lambda>m. filtered m \<and> memo_matches q d m) (db_memo d)))))"

definition Store_GetMemo ::
    "string Memo filter_lib \<Rightarrow> (string \<Rightarrow> store_error + 'p) \<Rightarrow> FindMemo \<Rightarrow> db \<Rightarrow> store_error + 'p read_memo option" where
  "Store_GetMemo fl unmarshal q d = bindE (DB_ListMemos fl unmarshal q d) (\<lambda>list. Inr (first_row list))"

section \<open>Relations (sqlite/memo_relation.go)\<close>

record FindMemoRelation =
  fr_MemoID :: "int32 option"
  fr_RelatedMemoID :: "int32 option"
  fr_Type :: "string option"
  fr_MemoIDList :: "int32 list"
  fr_SourceMemoIDList :: "int32 list"
  fr_RelatedMemoIDList :: "int32 list"
  fr_SourceMemoRowStatus :: "RowStatus option"
  fr_MemoFilter :: "string option"
  fr_Limit :: "int option"
  fr_Offset :: "int option"

definition no_find_relation :: FindMemoRelation where
  "no_find_relation = \<lparr>fr_MemoID = None, fr_RelatedMemoID = None, fr_Type = None, fr_MemoIDList = [], fr_SourceMemoIDList = [],
     fr_RelatedMemoIDList = [], fr_SourceMemoRowStatus = None, fr_MemoFilter = None, fr_Limit = None, fr_Offset = None\<rparr>"

text \<open>The filter of a relation query must hold of both memos.\<close>

definition relation_filter :: "string Memo filter_lib \<Rightarrow> string option \<Rightarrow> db \<Rightarrow> store_error + (int32 \<Rightarrow> bool)" where
  "relation_filter fl memoFilter d =
     (case memoFilter of
        None \<Rightarrow> Inr (\<lambda>_. True)
      | Some f \<Rightarrow>
          orElse (bindE (fl_Engine fl NewSchema) (\<lambda>eng.
            bindE (CompileToStatement eng f \<lparr>ro_Dialect = DialectSQLite, ro_PlaceholderOffset = 0, ro_DisableNullChecks = False\<rparr>) (\<lambda>stmt.
              Inr (if st_SQL stmt = [] then (\<lambda>_. True)
                   else (\<lambda>i. \<exists>m \<in> set (db_memo d). m_ID m = i \<and> fl_true fl ([st_SQL stmt], st_Args stmt) d m))))) filter_error)"

definition relation_matches :: "FindMemoRelation \<Rightarrow> db \<Rightarrow> memo_relation_row \<Rightarrow> bool" where
  "relation_matches q d r =
     (opt_eq (fr_MemoID q) (rel_memo_id r) \<and> opt_eq (fr_RelatedMemoID q) (rel_related_memo_id r) \<and> opt_eq (fr_Type q) (rel_type r)
      \<and> (fr_MemoIDList q = [] \<or> rel_memo_id r \<in> set (fr_MemoIDList q) \<or> rel_related_memo_id r \<in> set (fr_MemoIDList q))
      \<and> (fr_SourceMemoIDList q = [] \<or> rel_memo_id r \<in> set (fr_SourceMemoIDList q))
      \<and> (fr_RelatedMemoIDList q = [] \<or> rel_related_memo_id r \<in> set (fr_RelatedMemoIDList q))
      \<and> (case fr_SourceMemoRowStatus q of
           None \<Rightarrow> True | Some st \<Rightarrow> \<exists>m \<in> set (db_memo d). m_ID m = rel_memo_id r \<and> m_RowStatus m = st))"

text \<open>The query orders by the source memo; rows of one memo are taken in the order of insertion.\<close>

definition DB_ListMemoRelations :: "string Memo filter_lib \<Rightarrow> FindMemoRelation \<Rightarrow> db \<Rightarrow> store_error + memo_relation_row list" where
  "DB_ListMemoRelations fl q d =
     bindE (relation_filter fl (fr_MemoFilter q) d) (\<lambda>filtered.
       Inr (sql_limit (fr_Limit q) (fr_Offset q)
         (sort_desc rel_memo_id (filter (\<lambda>r. relation_matches q d r \<and> filtered (rel_memo_id r) \<and> filtered (rel_related_memo_id r))
            (db_memo_relation d)))))"

section \<open>Attachments (store/attachment.go, sqlite/attachment.go)\<close>

record FindAttachment =
  fa_GetBlob :: bool
  fa_ID :: "int32 option"
  fa_UID :: "string option"
  fa_CreatorID :: "int32 option"
  fa_Filename :: "string option"
  fa_FilenameSearch :: "string option"
  fa_MemoID :: "int32 option"
  fa_MemoIDList :: "int32 list"
  fa_HasRelatedMemo :: bool
  fa_Filters :: "string list"
  fa_Access :: "MemoAccessScope option"
  fa_Limit :: "int option"
  fa_Offset :: "int option"
  fa_SkipDefaultLimit :: bool

definition no_find_attachment :: FindAttachment where
  "no_find_attachment = \<lparr>fa_GetBlob = False, fa_ID = None, fa_UID = None, fa_CreatorID = None, fa_Filename = None,
     fa_FilenameSearch = None, fa_MemoID = None, fa_MemoIDList = [], fa_HasRelatedMemo = False, fa_Filters = [], fa_Access = None,
     fa_Limit = None, fa_Offset = None, fa_SkipDefaultLimit = False\<rparr>"

text \<open>A row of the table: its two parts in the model.\<close>

type_synonym attachment_row = "Attachment \<times> attachment_file_row"

definition attachment_rows :: "db \<Rightarrow> attachment_row list" where
  "attachment_rows d = [(a, f). a \<leftarrow> db_attachment d, f \<leftarrow> db_attachment_file d, af_id f = at_ID a]"

definition attachment_memo :: "db \<Rightarrow> Attachment \<Rightarrow> string Memo option" where
  "attachment_memo d a = (case at_MemoID a of None \<Rightarrow> None | Some i \<Rightarrow> memo_row d i)"

text \<open>An attachment without a memo is its creator's; another one goes with its memo. The columns of a missing memo
  are \<open>NULL\<close>, of which no access predicate is true.\<close>

definition attachment_access :: "MemoAccessScope \<Rightarrow> db \<Rightarrow> Attachment \<Rightarrow> bool" where
  "attachment_access scope d a =
     ((case acc_UserID scope of
         None \<Rightarrow> False
       | Some uid \<Rightarrow> at_MemoID a = None \<and> user_normal d uid \<and> at_CreatorID a = uid)
      \<or> at_MemoID a \<noteq> None
        \<and> (case attachment_memo d a of None \<Rightarrow> False | Some m \<Rightarrow> access_true scope ''`attachment_member`'' d m))"

definition attachment_matches :: "FindAttachment \<Rightarrow> db \<Rightarrow> attachment_row \<Rightarrow> bool" where
  "attachment_matches q d row =
     (case row of (a, f) \<Rightarrow>
        opt_eq (fa_ID q) (at_ID a) \<and> opt_eq (fa_UID q) (at_UID a) \<and> opt_eq (fa_CreatorID q) (at_CreatorID a)
        \<and> opt_eq (fa_Filename q) (af_Filename f)
        \<and> (case fa_FilenameSearch q of None \<Rightarrow> True | Some v \<Rightarrow> like None (''%'' @ v @ ''%'') (af_Filename f))
        \<and> (case fa_MemoID q of None \<Rightarrow> True | Some i \<Rightarrow> at_MemoID a = Some i)
        \<and> (fa_MemoIDList q = [] \<or> (\<exists>i \<in> set (fa_MemoIDList q). at_MemoID a = Some i))
        \<and> (fa_HasRelatedMemo q \<longrightarrow> at_MemoID a \<noteq> None)
        \<and> (case fa_Access q of None \<Rightarrow> True | Some scope \<Rightarrow> attachment_access scope d a))"

text \<open>An attachment as it is read, its payload decoded, with the name of its memo.\<close>

record 'p AttachmentRead =
  ar_Row :: Attachment
  ar_File :: attachment_file_row
  ar_Payload :: 'p
  ar_StorageType :: string
  ar_MemoUID :: "string option"

definition storage_type_of :: "string \<Rightarrow> string" where
  "storage_type_of s = (if s = ''LOCAL'' \<or> s = ''S3'' \<or> s = ''EXTERNAL'' then s else ''ATTACHMENT_STORAGE_TYPE_UNSPECIFIED'')"

definition scan_attachment ::
    "(string \<Rightarrow> store_error + 'p) \<Rightarrow> FindAttachment \<Rightarrow> db \<Rightarrow> attachment_row \<Rightarrow> store_error + 'p AttachmentRead" where
  "scan_attachment unmarshal q d row =
     (case row of (a, f) \<Rightarrow>
        bindE (unmarshal (at_Payload a)) (\<lambda>payload.
          Inr \<lparr>ar_Row = a, ar_File = (if fa_GetBlob q then f else f\<lparr>af_Blob := []\<rparr>), ar_Payload = payload,
               ar_StorageType = storage_type_of (at_StorageType a), ar_MemoUID = map_option m_UID (attachment_memo d a)\<rparr>))"

definition attachment_filter :: "'r filter_lib \<Rightarrow> string list \<Rightarrow> db \<Rightarrow> store_error + ('r \<Rightarrow> bool)" where
  "attachment_filter fl filters d =
     (if filters = [] then Inr (\<lambda>_. True)
      else bindE (orElse (fl_Engine fl NewAttachmentSchema) (\<lambda>e. WrapError (filter_error e) ''failed to get filter engine'')) (\<lambda>eng.
           bindE (orElse (AppendConditions eng filters DialectSQLite [''1 = 1''] [])
                    (\<lambda>e. WrapError (filter_error e) ''failed to append filter conditions'')) (\<lambda>conditions.
             Inr (fl_true fl conditions d))))"

definition DB_ListAttachments ::
    "attachment_row filter_lib \<Rightarrow> (string \<Rightarrow> store_error + 'p) \<Rightarrow> FindAttachment \<Rightarrow> db \<Rightarrow> store_error + 'p AttachmentRead list" where
  "DB_ListAttachments fl unmarshal q d =
     bindE (attachment_filter fl (fa_Filters q) d) (\<lambda>filtered.
       mapE (scan_attachment unmarshal q d)
         (sql_limit (fa_Limit q) (fa_Offset q)
           (sort_desc (\<lambda>(a, f). af_UpdatedTs f) (filter (\<lambda>row. filtered row \<and> attachment_matches q d row) (attachment_rows d)))))"

definition Store_ListAttachments ::
    "attachment_row filter_lib \<Rightarrow> (string \<Rightarrow> store_error + 'p) \<Rightarrow> FindAttachment \<Rightarrow> db \<Rightarrow> store_error + 'p AttachmentRead list" where
  "Store_ListAttachments fl unmarshal q d =
     (let shouldApplyDefaultLimit = (fa_Limit q = None \<and> fa_MemoID q = None \<and> fa_MemoIDList q = [] \<and> \<not> fa_SkipDefaultLimit q)
      in DB_ListAttachments fl unmarshal
           (if shouldApplyDefaultLimit then q\<lparr>fa_Limit := Some (if fa_GetBlob q then 10 else 100)\<rparr> else q) d)"

definition Store_GetAttachment ::
    "attachment_row filter_lib \<Rightarrow> (string \<Rightarrow> store_error + 'p) \<Rightarrow> FindAttachment \<Rightarrow> db \<Rightarrow> store_error + 'p AttachmentRead option" where
  "Store_GetAttachment fl unmarshal q d = bindE (Store_ListAttachments fl unmarshal q d) (\<lambda>list. Inr (first_row list))"

section \<open>What a listing returns\<close>

lemma memo_of_row_fields [simp]:
  "m_ID (memo_of_row b p m) = m_ID m" "m_UID (memo_of_row b p m) = m_UID m" "m_CreatorID (memo_of_row b p m) = m_CreatorID m"
  "m_RowStatus (memo_of_row b p m) = m_RowStatus m" "m_Visibility (memo_of_row b p m) = m_Visibility m"
  "m_SpaceID (memo_of_row b p m) = m_SpaceID m"
  by (simp_all add: memo_of_row_def)

lemma memo_listed_row [simp]: "memo_listed d scope (memo_of_row b p m) = memo_listed d scope m"
  by (simp add: memo_listed_def)

lemma access_true_iff:
  "access_true scope ''`access_member`'' d m \<longleftrightarrow> memo_listed d scope m"
  "access_true scope ''`attachment_member`'' d m \<longleftrightarrow> memo_listed d scope m"
proof -
  have a: "aliases_ok backquote ''`memo`'' ''`access_member`''" "aliases_ok backquote ''`memo`'' ''`attachment_member`''"
    by code_simp+
  show "access_true scope ''`access_member`'' d m \<longleftrightarrow> memo_listed d scope m"
    unfolding access_true_def by (rule memo_access_cond_eval [OF a(1)]) simp_all
  show "access_true scope ''`attachment_member`'' d m \<longleftrightarrow> memo_listed d scope m"
    unfolding access_true_def by (rule memo_access_cond_eval [OF a(2)]) simp_all
qed

lemma set_sql_limit: "set (sql_limit l off xs) \<subseteq> set xs"
  by (auto simp: sql_limit_def Let_def dest: in_set_takeD in_set_dropD split: option.splits if_splits)

lemma set_memo_order [simp]: "set (memo_order q ms) = set ms"
  by (simp add: memo_order_def Let_def)

lemma mapE_Inr_in: "mapE f xs = Inr ys \<Longrightarrow> y \<in> set ys \<Longrightarrow> \<exists>x \<in> set xs. f x = Inr y"
  by (fastforce simp: mapE_Inr_all2 list_all2_conv_all_nth in_set_conv_nth)

lemma DB_ListMemos_rows:
  assumes "DB_ListMemos fl unmarshal q d = Inr ms" "(m, parent) \<in> set ms"
  obtains row payload where "row \<in> set (db_memo d)" "memo_matches q d row" "m = memo_of_row (fq_ExcludeContent q) payload row"
    "parent = parent_uid d (m_ID row)"
proof -
  obtain filtered where "mapE (scan_memo unmarshal q d) (sql_limit (fq_Limit q) (fq_Offset q)
      (memo_order q (filter (\<lambda>m. filtered m \<and> memo_matches q d m) (db_memo d)))) = Inr ms"
    using assms(1) by (auto simp: DB_ListMemos_def result_simps)
  from mapE_Inr_in [OF this assms(2)] obtain row where
    row: "row \<in> set (sql_limit (fq_Limit q) (fq_Offset q) (memo_order q (filter (\<lambda>m. filtered m \<and> memo_matches q d m) (db_memo d))))"
    and scan: "scan_memo unmarshal q d row = Inr (m, parent)" by blast
  have "row \<in> set (db_memo d)" "memo_matches q d row" using row set_sql_limit by fastforce+
  moreover obtain payload where "m = memo_of_row (fq_ExcludeContent q) payload row" "parent = parent_uid d (m_ID row)"
    using scan by (auto simp: scan_memo_def result_simps)
  ultimately show thesis by (rule that)
qed

lemma Store_GetMemo_row:
  assumes "Store_GetMemo fl unmarshal q d = Inr (Some (m, parent))"
  obtains row payload where "row \<in> set (db_memo d)" "memo_matches q d row" "m = memo_of_row (fq_ExcludeContent q) payload row"
    "parent = parent_uid d (m_ID row)"
proof -
  obtain ms where ms: "DB_ListMemos fl unmarshal q d = Inr ms" and first: "first_row ms = Some (m, parent)"
    using assms by (auto simp: Store_GetMemo_def result_simps)
  show thesis by (rule DB_ListMemos_rows [OF ms first_row_in [OF first]]) (rule that)
qed

lemma DB_ListAttachments_rows:
  assumes "DB_ListAttachments fl unmarshal q d = Inr as" "a \<in> set as"
  obtains f where "(ar_Row a, f) \<in> set (attachment_rows d)" "attachment_matches q d (ar_Row a, f)"
    "ar_MemoUID a = map_option m_UID (attachment_memo d (ar_Row a))"
proof -
  obtain filtered where "mapE (scan_attachment unmarshal q d) (sql_limit (fa_Limit q) (fa_Offset q)
      (sort_desc (\<lambda>(a, f). af_UpdatedTs f) (filter (\<lambda>row. filtered row \<and> attachment_matches q d row) (attachment_rows d)))) = Inr as"
    using assms(1) by (auto simp: DB_ListAttachments_def result_simps)
  from mapE_Inr_in [OF this assms(2)] obtain row where
    row: "row \<in> set (sql_limit (fa_Limit q) (fa_Offset q)
      (sort_desc (\<lambda>(a, f). af_UpdatedTs f) (filter (\<lambda>row. filtered row \<and> attachment_matches q d row) (attachment_rows d))))"
    and scan: "scan_attachment unmarshal q d row = Inr a" by blast
  have r: "row \<in> set (attachment_rows d)" "attachment_matches q d row" using row set_sql_limit by fastforce+
  obtain b f where "row = (b, f)" by (cases row)
  with scan have "ar_Row a = b" "ar_MemoUID a = map_option m_UID (attachment_memo d b)"
    by (auto simp: scan_attachment_def result_simps)
  with r \<open>row = (b, f)\<close> show thesis by (intro that [of f]) simp_all
qed

end
