(* ===== verification/Memo_Messages.thy ===== *)
theory Memo_Messages
  imports Memo_Listing Space_Service
begin

text \<open>
  From the rows of a memo to the message that a caller receives (\<open>memo_service_converter.go\<close>,
  \<open>attachment_service_storage.go\<close>, \<open>attachment_motion.go\<close>): its reactions, attachments and relations, its
  place and the memo it comments on, each as far as the caller may know of it.
\<close>

section \<open>Payloads and messages\<close>

text \<open>The payload of a memo, as the rows hold it and as a message shows it.\<close>

record MemoPayload_Property =
  sp_HasLink :: bool
  sp_HasTaskList :: bool
  sp_HasCode :: bool
  sp_HasIncompleteTasks :: bool
  sp_Title :: string

record MemoPayload_Location =
  sl_Placeholder :: string
  sl_Latitude :: float64
  sl_Longitude :: float64

record MemoPayload =
  mp_Property :: "MemoPayload_Property option"
  mp_Location :: "MemoPayload_Location option"
  mp_Tags :: "string list"

record Memo_Property =
  vp_HasLink :: bool
  vp_HasTaskList :: bool
  vp_HasCode :: bool
  vp_HasIncompleteTasks :: bool
  vp_Title :: string

record Location =
  vl_Placeholder :: string
  vl_Latitude :: float64
  vl_Longitude :: float64

definition convertMemoPropertyFromStore :: "MemoPayload_Property option \<Rightarrow> Memo_Property option" where
  "convertMemoPropertyFromStore property =
     map_option (\<lambda>p. \<lparr>vp_HasLink = sp_HasLink p, vp_HasTaskList = sp_HasTaskList p, vp_HasCode = sp_HasCode p,
       vp_HasIncompleteTasks = sp_HasIncompleteTasks p, vp_Title = sp_Title p\<rparr>) property"

definition convertLocationFromStore :: "MemoPayload_Location option \<Rightarrow> Location option" where
  "convertLocationFromStore location =
     map_option (\<lambda>l. \<lparr>vl_Placeholder = sl_Placeholder l, vl_Latitude = sl_Latitude l, vl_Longitude = sl_Longitude l\<rparr>) location"

definition convertLocationToStore :: "Location option \<Rightarrow> MemoPayload_Location option" where
  "convertLocationToStore location =
     map_option (\<lambda>l. \<lparr>sl_Placeholder = vl_Placeholder l, sl_Latitude = vl_Latitude l, sl_Longitude = vl_Longitude l\<rparr>) location"

datatype MemoState = State_STATE_UNSPECIFIED | State_NORMAL | State_ARCHIVED | State_unknown int

definition convertStateFromStore :: "RowStatus \<Rightarrow> MemoState" where
  "convertStateFromStore rowStatus =
     (if rowStatus = Normal then State_NORMAL else if rowStatus = Archived then State_ARCHIVED else State_STATE_UNSPECIFIED)"

definition convertStateToStore :: "MemoState \<Rightarrow> RowStatus" where
  "convertStateToStore state = (if state = State_ARCHIVED then Archived else Normal)"

datatype MemoVisibility =
  Visibility_UNSPECIFIED | Visibility_PRIVATE | Visibility_PROTECTED | Visibility_PUBLIC | Visibility_SPACE | Visibility_unknown int

definition convertVisibilityFromStore :: "Visibility \<Rightarrow> MemoVisibility" where
  "convertVisibilityFromStore v =
     (if v = Private then Visibility_PRIVATE else if v = Protected then Visibility_PROTECTED
      else if v = Public then Visibility_PUBLIC else if v = SpaceAudience then Visibility_SPACE else Visibility_UNSPECIFIED)"

fun validateCreateMemoVisibility :: "MemoVisibility \<Rightarrow> api_error + Visibility" where
  "validateCreateMemoVisibility Visibility_UNSPECIFIED = Inr Private"
| "validateCreateMemoVisibility Visibility_PRIVATE = Inr Private"
| "validateCreateMemoVisibility Visibility_PROTECTED = Inr Protected"
| "validateCreateMemoVisibility Visibility_PUBLIC = Inr Public"
| "validateCreateMemoVisibility Visibility_SPACE = Inr SpaceAudience"
| "validateCreateMemoVisibility (Visibility_unknown _) = Inl (Status InvalidArgument ''invalid memo visibility'' NoCause)"

definition validateUpdateMemoVisibility :: "MemoVisibility \<Rightarrow> api_error + Visibility" where
  "validateUpdateMemoVisibility v =
     (if v = Visibility_UNSPECIFIED then Inl (Status InvalidArgument ''visibility must be specified'' NoCause)
      else validateCreateMemoVisibility v)"

datatype MemoRelation_Type = MemoRelation_TYPE_UNSPECIFIED | MemoRelation_REFERENCE | MemoRelation_COMMENT | MemoRelation_unknown int

definition convertMemoRelationTypeFromStore :: "string \<Rightarrow> MemoRelation_Type" where
  "convertMemoRelationTypeFromStore t =
     (if t = MemoRelationReference then MemoRelation_REFERENCE
      else if t = MemoRelationComment then MemoRelation_COMMENT else MemoRelation_TYPE_UNSPECIFIED)"

definition convertMemoRelationTypeToStore :: "MemoRelation_Type \<Rightarrow> string" where
  "convertMemoRelationTypeToStore t = (if t = MemoRelation_COMMENT then MemoRelationComment else MemoRelationReference)"

record MemoRelation_Memo =
  vr_Name :: string
  vr_Snippet :: string

record MemoRelationMessage =
  vr_Memo :: MemoRelation_Memo
  vr_RelatedMemo :: MemoRelation_Memo
  vr_Type :: MemoRelation_Type

record ReactionMessage =
  vx_Name :: string
  vx_Creator :: string
  vx_ReactionType :: string
  vx_CreateTime :: int

text \<open>Motion media, stored and in a message; media metadata is its wire format.\<close>

record MotionMedia =
  mm_Family :: int
  mm_Role :: int
  mm_GroupId :: string
  mm_PresentationTimestampUs :: int
  mm_HasEmbeddedVideo :: bool

record MotionMediaMessage =
  vm_Family :: int
  vm_Role :: int
  vm_GroupId :: string
  vm_PresentationTimestampUs :: int
  vm_HasEmbeddedVideo :: bool

definition convertMotionMediaFromStore :: "MotionMedia option \<Rightarrow> MotionMediaMessage option" where
  "convertMotionMediaFromStore motion =
     map_option (\<lambda>m. \<lparr>vm_Family = mm_Family m, vm_Role = mm_Role m, vm_GroupId = mm_GroupId m,
       vm_PresentationTimestampUs = mm_PresentationTimestampUs m, vm_HasEmbeddedVideo = mm_HasEmbeddedVideo m\<rparr>) motion"

definition convertMotionMediaToStore :: "MotionMediaMessage option \<Rightarrow> MotionMedia option" where
  "convertMotionMediaToStore motion =
     map_option (\<lambda>m. \<lparr>mm_Family = vm_Family m, mm_Role = vm_Role m, mm_GroupId = vm_GroupId m,
       mm_PresentationTimestampUs = vm_PresentationTimestampUs m, mm_HasEmbeddedVideo = vm_HasEmbeddedVideo m\<rparr>) motion"

record AttachmentPayload =
  ap_MotionMedia :: "MotionMedia option"
  ap_MediaMetadata :: "string option"

record AttachmentMessage =
  va_Name :: string
  va_CreateTime :: int
  va_Filename :: string
  va_Type :: string
  va_Size :: int
  va_MotionMedia :: "MotionMediaMessage option"
  va_MediaMetadata :: "string option"
  va_Memo :: "string option"
  va_ExternalLink :: string

definition getAttachmentMotionMedia :: "AttachmentPayload AttachmentRead \<Rightarrow> MotionMedia option" where
  "getAttachmentMotionMedia a = ap_MotionMedia (ar_Payload a)"

definition isMultiMemberMotionGroup :: "AttachmentPayload AttachmentRead list \<Rightarrow> bool" where
  "isMultiMemberMotionGroup attachments =
     (2 \<le> length attachments
      \<and> list_all (\<lambda>a. case getAttachmentMotionMedia a of None \<Rightarrow> False | Some m \<Rightarrow> mm_GroupId m \<noteq> []) attachments)"

text \<open>The copy of the metadata through its wire format is an argument.\<close>

definition convertMediaMetadataFromStore :: "(string \<Rightarrow> string result) \<Rightarrow> string option \<Rightarrow> string option" where
  "convertMediaMetadataFromStore transcode metadata =
     (case metadata of None \<Rightarrow> None | Some m \<Rightarrow> (case transcode m of Inl _ \<Rightarrow> None | Inr v \<Rightarrow> Some v))"

definition convertAttachmentFromStore :: "(string \<Rightarrow> string result) \<Rightarrow> AttachmentPayload AttachmentRead \<Rightarrow> AttachmentMessage" where
  "convertAttachmentFromStore transcode a =
     \<lparr>va_Name = AttachmentNamePrefix @ at_UID (ar_Row a), va_CreateTime = af_CreatedTs (ar_File a), va_Filename = af_Filename (ar_File a),
      va_Type = af_Type (ar_File a), va_Size = af_Size (ar_File a),
      va_MotionMedia = convertMotionMediaFromStore (getAttachmentMotionMedia a),
      va_MediaMetadata = convertMediaMetadataFromStore transcode (ap_MediaMetadata (ar_Payload a)),
      va_Memo = (case ar_MemoUID a of None \<Rightarrow> None | Some uid \<Rightarrow> if uid = [] then None else Some (MemoNamePrefix @ uid)),
      va_ExternalLink = (if ar_StorageType a = ''EXTERNAL'' then at_Reference (ar_Row a) else [])\<rparr>"

text \<open>Times are Unix seconds.\<close>

record MemoMessage =
  vmo_Name :: string
  vmo_State :: MemoState
  vmo_Creator :: string
  vmo_CreateTime :: int
  vmo_UpdateTime :: int
  vmo_Content :: string
  vmo_Visibility :: MemoVisibility
  vmo_Tags :: "string list"
  vmo_Pinned :: bool
  vmo_Attachments :: "AttachmentMessage list"
  vmo_Relations :: "MemoRelationMessage list"
  vmo_Reactions :: "ReactionMessage list"
  vmo_Property :: "Memo_Property option"
  vmo_Parent :: "string option"
  vmo_Snippet :: string
  vmo_Location :: "Location option"
  vmo_Space :: "string option"

section \<open>What a handler uses\<close>

text \<open>The service, the encoding of page tokens, the libraries of the two filters, the decoding of payloads,
  the snippet of a content and the copy of media metadata; the clock and the next short identifier.\<close>

record memo_env =
  me_Server :: Server
  me_Pages :: page_lib
  me_memo_filter :: "string Memo filter_lib"
  me_attachment_filter :: "attachment_row filter_lib"
  me_memo_payload :: "string \<Rightarrow> store_error + MemoPayload"
  me_attachment_payload :: "string \<Rightarrow> store_error + AttachmentPayload"
  me_snippet :: "string \<Rightarrow> store_error + string"
  me_transcode :: "string \<Rightarrow> string result"
  me_now :: int
  me_shortuuid :: string

abbreviation me_svc :: "memo_env \<Rightarrow> UserSetting Store APIV1Service" where "me_svc env \<equiv> sv_Service (me_Server env)"

type_synonym stored_memo = "MemoPayload read_memo"

text \<open>\<open>errors.Wrap\<close>: a status that is wrapped keeps its code.\<close>

fun wrap_api :: "string \<Rightarrow> api_error \<Rightarrow> api_error" where
  "wrap_api msg (Status c m x) = Status c (msg @ '': '' @ m) x"
| "wrap_api msg (PlainError e) = PlainError (WrapError e msg)"

text \<open>A query of the tables; a check or a resolution that works on the store as a whole; a check whose failure
  is no error.\<close>

definition query :: "(store_error \<Rightarrow> api_error) \<Rightarrow> (db \<Rightarrow> store_error + 'a) \<Rightarrow> 'a api" where
  "query f q s = (orElse (q (st_db s)) f, s)"

definition resolveH :: "('s \<Rightarrow> api_error + ('a \<times> 's)) \<Rightarrow> ('s, 'a) act" where
  "resolveH m s = (case m s of Inl e \<Rightarrow> (Inl e, s) | Inr (a, s') \<Rightarrow> (Inr a, s'))"

definition checkH :: "('s \<Rightarrow> api_error + 's) \<Rightarrow> ('s, unit) act" where
  "checkH m s = (case m s of Inl e \<Rightarrow> (Inl e, s) | Inr s' \<Rightarrow> (Inr (), s'))"

definition tryH :: "('s, unit) act \<Rightarrow> ('s, bool) act" where
  "tryH m s = (case m s of (Inl _, s') \<Rightarrow> (Inr False, s') | (Inr _, s') \<Rightarrow> (Inr True, s'))"

definition getMemoContentSnippet :: "memo_env \<Rightarrow> string \<Rightarrow> store_error + string" where
  "getMemoContentSnippet env content = orElse (me_snippet env content) (\<lambda>e. WrapError e ''failed to generate snippet'')"

definition get_memo :: "memo_env \<Rightarrow> (store_error \<Rightarrow> api_error) \<Rightarrow> FindMemo \<Rightarrow> stored_memo option api" where
  "get_memo env f q = query f (Store_GetMemo (me_memo_filter env) (me_memo_payload env) q)"

definition list_memos :: "memo_env \<Rightarrow> (store_error \<Rightarrow> api_error) \<Rightarrow> FindMemo \<Rightarrow> stored_memo list api" where
  "list_memos env f q = query f (DB_ListMemos (me_memo_filter env) (me_memo_payload env) q)"

definition list_attachments :: "memo_env \<Rightarrow> (store_error \<Rightarrow> api_error) \<Rightarrow> FindAttachment \<Rightarrow> AttachmentPayload AttachmentRead list api" where
  "list_attachments env f q = query f (Store_ListAttachments (me_attachment_filter env) (me_attachment_payload env) q)"

definition list_relations :: "memo_env \<Rightarrow> (store_error \<Rightarrow> api_error) \<Rightarrow> FindMemoRelation \<Rightarrow> memo_relation_row list api" where
  "list_relations env f q = query f (DB_ListMemoRelations (me_memo_filter env) q)"

definition list_reactions :: "FindReaction \<Rightarrow> Reaction list api" where
  "list_reactions q = query (\<lambda>_. Status Internal ''failed to list reactions'' NoCause) (\<lambda>d. Inr (DB_ListReactions q d))"

definition check_read :: "memo_env \<Rightarrow> request_context \<Rightarrow> stored_memo \<Rightarrow> unit api" where
  "check_read env ctx memo = checkH (checkMemoReadAccess (me_svc env) (GetUserID ctx) (Some (fst memo)))"

definition resolve_scope :: "memo_env \<Rightarrow> request_context \<Rightarrow> (MemoAccessScope \<times> User option) api" where
  "resolve_scope env ctx s =
     (case resolveMemoAccessScope (me_svc env) (GetUserID ctx) s of Inl e \<Rightarrow> (Inl e, s) | Inr (scope, user, s') \<Rightarrow> (Inr (scope, user), s'))"

section \<open>Users of a message (user_service_stats.go)\<close>

definition unique_ids :: "'a list \<Rightarrow> 'a list" where
  "unique_ids ids = rev (remdups (rev ids))"

definition listUsersByID :: "memo_env \<Rightarrow> (store_error \<Rightarrow> api_error) \<Rightarrow> int32 list \<Rightarrow> (int32 \<rightharpoonup> User) api" where
  "listUsersByID env f userIDs =
     (if userIDs = [] then returnH (\<lambda>_. None)
      else bindH (callH f (keepE (Store_ListUsers (au_users (sv_Auth (me_Server env)))
                    (no_find_user\<lparr>fu_IDList := unique_ids userIDs\<rparr>)))) (\<lambda>users.
             returnH (users_by_id users)))"

definition listUsersByIDWithExisting ::
    "memo_env \<Rightarrow> (store_error \<Rightarrow> api_error) \<Rightarrow> int32 list \<Rightarrow> (int32 \<rightharpoonup> User) \<Rightarrow> (int32 \<rightharpoonup> User) api" where
  "listUsersByIDWithExisting env f userIDs existing =
     (let missingUserIDs = unique_ids (filter (\<lambda>i. existing i = None) userIDs) in
      if missingUserIDs = [] then returnH existing
      else bindH (listUsersByID env f missingUserIDs) (\<lambda>missingUsersByID. returnH (existing ++ missingUsersByID)))"

section \<open>Reactions\<close>

definition convertReactionFromStoreWithCreators :: "Reaction \<Rightarrow> (int32 \<rightharpoonup> User) \<Rightarrow> string \<Rightarrow> ReactionMessage option" where
  "convertReactionFromStoreWithCreators r creatorsByID memoName =
     (case creatorsByID (rx_CreatorID r) of
        None \<Rightarrow> None
      | Some creator \<Rightarrow>
          Some \<lparr>vx_Name = memoName @ ''/'' @ ReactionNamePrefix @ itoa (rx_ID r), vx_Creator = BuildUserName (u_Username creator),
                vx_ReactionType = rx_ReactionType r, vx_CreateTime = rx_CreatedTs r\<rparr>)"

text \<open>A reaction whose creator is not found is skipped.\<close>

definition convertReactionsFromStoreWithCreators ::
    "memo_env \<Rightarrow> (store_error \<Rightarrow> api_error) \<Rightarrow> Reaction list \<Rightarrow> (int32 \<rightharpoonup> User) \<Rightarrow> string \<Rightarrow> ReactionMessage list api" where
  "convertReactionsFromStoreWithCreators env f reactions creatorMap memoName =
     (if reactions = [] then returnH []
      else bindH (listUsersByIDWithExisting env f (map rx_CreatorID reactions) creatorMap) (\<lambda>creatorsByID.
             returnH (List.map_filter (\<lambda>r. convertReactionFromStoreWithCreators r creatorsByID memoName) reactions)))"

section \<open>Relations\<close>

text \<open>The first of the relations with the same memos and type is kept.\<close>

definition mergeMemoRelations :: "memo_relation_row list list \<Rightarrow> memo_relation_row list" where
  "mergeMemoRelations groups = unique_ids (concat groups)"

definition relation_message ::
    "(int32 \<rightharpoonup> string) \<Rightarrow> (int32 \<rightharpoonup> string) \<Rightarrow> memo_relation_row \<Rightarrow> MemoRelationMessage option" where
  "relation_message memoIDToUID memoIDToSnippet r =
     (let snippet = (\<lambda>i. case memoIDToSnippet i of None \<Rightarrow> [] | Some t \<Rightarrow> t) in
      case (memoIDToUID (rel_memo_id r), memoIDToUID (rel_related_memo_id r)) of
        (Some memoUID, Some relatedUID) \<Rightarrow>
          Some \<lparr>vr_Memo = \<lparr>vr_Name = MemoNamePrefix @ memoUID, vr_Snippet = snippet (rel_memo_id r)\<rparr>,
                vr_RelatedMemo = \<lparr>vr_Name = MemoNamePrefix @ relatedUID, vr_Snippet = snippet (rel_related_memo_id r)\<rparr>,
                vr_Type = convertMemoRelationTypeFromStore (rel_type r)\<rparr>
      | _ \<Rightarrow> None)"

text \<open>The relations of one memo of the page: one that it has with itself is listed twice.\<close>

definition relations_of ::
    "int32 list \<Rightarrow> (memo_relation_row \<Rightarrow> MemoRelationMessage option) \<Rightarrow> memo_relation_row list \<Rightarrow> int32 \<Rightarrow> MemoRelationMessage list" where
  "relations_of memoIDs message allRelations i =
     (if i \<notin> set memoIDs then []
      else concat (map (\<lambda>r. case message r of
             None \<Rightarrow> []
           | Some v \<Rightarrow> (if rel_memo_id r = i then [v] else []) @ (if rel_related_memo_id r = i then [v] else [])) allRelations))"

definition memo_snippets :: "memo_env \<Rightarrow> bool \<Rightarrow> string \<Rightarrow> stored_memo list \<Rightarrow> store_error + (int32 \<times> string) list" where
  "memo_snippets env includeSnippets msg memos =
     (if \<not> includeSnippets then Inr []
      else mapE (\<lambda>(m, _). bindE (orElse (getMemoContentSnippet env (m_Content m)) (\<lambda>e. WrapError e msg)) (\<lambda>t. Inr (m_ID m, t))) memos)"

text \<open>A Go map is filled in the order of the list: the last entry of a key counts.\<close>

abbreviation filled :: "('a \<times> 'b) list \<Rightarrow> 'a \<rightharpoonup> 'b" where "filled kvs \<equiv> map_of (rev kvs)"

definition batchConvertMemoRelations ::
    "memo_env \<Rightarrow> request_context \<Rightarrow> stored_memo list \<Rightarrow> bool \<Rightarrow> (int32 \<Rightarrow> MemoRelationMessage list) api" where
  "batchConvertMemoRelations env ctx memos includeSnippets =
     (if memos = [] then returnH (\<lambda>_. [])
      else
        bindH (resolve_scope env ctx) (\<lambda>(accessScope, _).
        let memoIDs = map (\<lambda>(m, _). m_ID m) memos in
        bindH (list_relations env (\<lambda>e. PlainError (WrapError e ''failed to batch list outgoing memo relations''))
                 (no_find_relation\<lparr>fr_SourceMemoIDList := memoIDs\<rparr>)) (\<lambda>outgoingRelations.
        bindH (list_relations env (\<lambda>e. PlainError (WrapError e ''failed to batch list incoming memo relations''))
                 (no_find_relation\<lparr>fr_RelatedMemoIDList := memoIDs\<rparr>)) (\<lambda>incomingRelations.
        let allRelations = mergeMemoRelations [outgoingRelations, incomingRelations];
            extraIDs = filter (\<lambda>i. i \<notin> set memoIDs) (unique_ids (concat (map (\<lambda>r. [rel_memo_id r, rel_related_memo_id r]) allRelations)))
        in
        bindH (liftH (orElse (memo_snippets env includeSnippets ''failed to get memo content snippet'' memos) PlainError)) (\<lambda>snippets.
        bindH (if extraIDs = [] then returnH []
               else list_memos env (\<lambda>e. PlainError (WrapError e ''failed to batch fetch related memos''))
                      (no_find_memo\<lparr>fq_IDList := extraIDs, fq_ExcludeContent := \<not> includeSnippets, fq_Access := Some accessScope\<rparr>)) (\<lambda>extraMemos.
        bindH (liftH (orElse (memo_snippets env includeSnippets ''failed to get related memo content snippet'' extraMemos) PlainError)) (\<lambda>extraSnippets.
          returnH (relations_of memoIDs
            (relation_message (filled (map (\<lambda>(m, _). (m_ID m, m_UID m)) (memos @ extraMemos))) (filled (snippets @ extraSnippets)))
            allRelations))))))))"

definition loadMemoRelations :: "memo_env \<Rightarrow> request_context \<Rightarrow> stored_memo \<Rightarrow> MemoRelationMessage list api" where
  "loadMemoRelations env ctx memo =
     bindH (batchConvertMemoRelations env ctx [memo] True) (\<lambda>relationMap. returnH (relationMap (m_ID (fst memo))))"

section \<open>The message of a memo\<close>

abbreviation errMemoCreatorNotFound :: api_error where
  "errMemoCreatorNotFound \<equiv> PlainError (NewError ''memo creator not found'')"

abbreviation invalid_placement :: api_error where
  "invalid_placement \<equiv> PlainError (NewError ''memo has invalid space placement'')"

text \<open>The place that the caller is told, if any.\<close>

definition projectMemoCollaborationContext :: "MemoPayload Memo \<Rightarrow> MemoPayload MemoReadContext option \<Rightarrow> string option api" where
  "projectMemoCollaborationContext memo readContext =
     (case (m_SpaceID memo, readContext) of
        (Some sid, Some rc) \<Rightarrow>
          if \<not> ctx_SpaceValid rc then (if m_Visibility memo = SpaceAudience then liftH (Inl invalid_placement) else returnH None)
          else (case ctx_Viewer rc of
                  None \<Rightarrow> returnH None
                | Some viewer \<Rightarrow>
                    if u_ID viewer \<noteq> m_CreatorID memo \<and> \<not> ctx_ViewerSpaceMember rc then returnH None
                    else bindH (query PlainError (\<lambda>d. Inr (Store_GetSpace (no_find_space\<lparr>fs_ID := Some sid\<rparr>) d))) (\<lambda>space.
                           case space of
                             None \<Rightarrow> (if m_Visibility memo = SpaceAudience then liftH (Inl invalid_placement) else returnH None)
                           | Some sp \<Rightarrow> returnH (Some (buildSpaceName (Space_UID sp)))))
      | _ \<Rightarrow> returnH None)"

text \<open>The memo that this one comments on, if the caller may read it.\<close>

definition visible_parent :: "memo_env \<Rightarrow> request_context \<Rightarrow> string option \<Rightarrow> string option api" where
  "visible_parent env ctx parentUID =
     (case parentUID of
        None \<Rightarrow> returnH None
      | Some uid \<Rightarrow>
          bindH (get_memo env (\<lambda>e. PlainError (WrapError e ''failed to resolve comment context'')) (no_find_memo\<lparr>fq_UID := Some uid\<rparr>)) (\<lambda>contextMemo.
            case contextMemo of
              None \<Rightarrow> returnH None
            | Some c \<Rightarrow>
                bindH (tryH (check_read env ctx c)) (\<lambda>readable. returnH (if readable then Some (buildMemoName uid) else None))))"

definition convertMemoFromStoreWithCreators ::
    "memo_env \<Rightarrow> request_context \<Rightarrow> stored_memo \<Rightarrow> Reaction list \<Rightarrow> AttachmentPayload AttachmentRead list \<Rightarrow>
      MemoRelationMessage list \<Rightarrow> (int32 \<rightharpoonup> User) \<Rightarrow> MemoMessage api" where
  "convertMemoFromStoreWithCreators env ctx memo reactions attachments relations creatorMap =
     (let m = fst memo; name = buildMemoName (m_UID m) in
      case creatorMap (m_CreatorID m) of
        None \<Rightarrow> liftH (Inl errMemoCreatorNotFound)
      | Some creator \<Rightarrow>
     bindH (if m_SpaceID m = None then returnH None
            else wrapH (wrap_api ''failed to resolve memo access'')
                   (bindH (resolveH (buildMemoReadContext (me_svc env) (GetUserID ctx) (Some m) None)) (\<lambda>rc. returnH (Some rc)))) (\<lambda>readContext.
     bindH (wrapH (wrap_api ''failed to project memo collaboration context'')
              (projectMemoCollaborationContext m readContext)) (\<lambda>space.
     bindH (visible_parent env ctx (snd memo)) (\<lambda>parent.
     bindH (convertReactionsFromStoreWithCreators env (\<lambda>e. PlainError (WrapError e ''failed to convert reactions'')) reactions creatorMap name) (\<lambda>reactionMessages.
     bindH (liftH (orElse (getMemoContentSnippet env (m_Content m)) (\<lambda>e. PlainError (WrapError e ''failed to get memo content snippet'')))) (\<lambda>snippet.
       returnH \<lparr>vmo_Name = name, vmo_State = convertStateFromStore (m_RowStatus m), vmo_Creator = BuildUserName (u_Username creator),
         vmo_CreateTime = m_CreatedTs m, vmo_UpdateTime = m_UpdatedTs m, vmo_Content = m_Content m,
         vmo_Visibility = convertVisibilityFromStore (m_Visibility m), vmo_Tags = mp_Tags (m_Payload m), vmo_Pinned = m_Pinned m,
         vmo_Attachments = map (convertAttachmentFromStore (me_transcode env)) attachments, vmo_Relations = relations,
         vmo_Reactions = reactionMessages, vmo_Property = convertMemoPropertyFromStore (mp_Property (m_Payload m)),
         vmo_Parent = parent, vmo_Snippet = snippet, vmo_Location = convertLocationFromStore (mp_Location (m_Payload m)),
         vmo_Space = space\<rparr>))))))"

definition convertMemoFromStore ::
    "memo_env \<Rightarrow> request_context \<Rightarrow> stored_memo \<Rightarrow> Reaction list \<Rightarrow> AttachmentPayload AttachmentRead list \<Rightarrow>
      MemoRelationMessage list \<Rightarrow> MemoMessage api" where
  "convertMemoFromStore env ctx memo reactions attachments relations =
     bindH (listUsersByID env (\<lambda>e. PlainError (WrapError e ''failed to list memo creators'')) [m_CreatorID (fst memo)]) (\<lambda>creatorMap.
       convertMemoFromStoreWithCreators env ctx memo reactions attachments relations creatorMap)"

end
