(* ===== verification/Memo_Reading.thy ===== *)
theory Memo_Reading
  imports Memo_Messages
begin

text \<open>
  The handlers that read memos and what belongs to them (\<open>memo_service.go\<close>, \<open>memo_service_query.go\<close>,
  \<open>memo_relation_service.go\<close>, \<open>reaction_service.go\<close>, \<open>attachment_service.go\<close>), those that react to a memo,
  and those of share links (\<open>memo_share_service.go\<close>).
\<close>

section \<open>The memo of a request\<close>

text \<open>\<open>failed\<close> is the status of a failed query.\<close>

definition memo_uid_of :: "string \<Rightarrow> string api" where
  "memo_uid_of name =
     liftH (orElse (ExtractMemoUIDFromName name) (\<lambda>e. Status InvalidArgument ''invalid memo name: %v'' (NameCause e)))"

definition find_memo :: "memo_env \<Rightarrow> (store_error \<Rightarrow> api_error) \<Rightarrow> FindMemo \<Rightarrow> stored_memo api" where
  "find_memo env failed q =
     bindH (get_memo env failed q) (\<lambda>memo. case memo of None \<Rightarrow> failH NotFound ''memo not found'' | Some m \<Rightarrow> returnH m)"

abbreviation memo_by_uid :: "string \<Rightarrow> FindMemo" where "memo_by_uid uid \<equiv> no_find_memo\<lparr>fq_UID := Some uid\<rparr>"
abbreviation memo_by_id :: "int32 \<Rightarrow> FindMemo" where "memo_by_id i \<equiv> no_find_memo\<lparr>fq_ID := Some i\<rparr>"

definition reactions_of :: "int32 \<Rightarrow> FindReaction" where
  "reactions_of memoID = \<lparr>frx_ID = None, frx_CreatorID = None, frx_MemoID = Some memoID, frx_MemoIDList = []\<rparr>"

definition attachments_of :: "memo_env \<Rightarrow> int32 \<Rightarrow> AttachmentPayload AttachmentRead list api" where
  "attachments_of env memoID =
     list_attachments env (\<lambda>_. Status Internal ''failed to list attachments'' NoCause) (no_find_attachment\<lparr>fa_MemoID := Some memoID\<rparr>)"

definition current_user :: "memo_env \<Rightarrow> request_context \<Rightarrow> (store_error \<Rightarrow> api_error) \<Rightarrow> User api" where
  "current_user env ctx failed =
     bindH (fetch_current (me_Server env) ctx failed) (\<lambda>user.
       case user of None \<Rightarrow> failH Unauthenticated ''user not authenticated'' | Some u \<Rightarrow> returnH u)"

abbreviation internal :: "string \<Rightarrow> store_error \<Rightarrow> api_error" where "internal msg \<equiv> (\<lambda>_. Status Internal msg NoCause)"

section \<open>One memo (memo_service.go)\<close>

definition convert_found :: "api_error \<Rightarrow> MemoMessage api \<Rightarrow> MemoMessage api" where
  "convert_found missing m =
     wrapH (\<lambda>e. if e = errMemoCreatorNotFound then missing else wrap_api ''failed to convert memo'' e) m"

definition GetMemo :: "memo_env \<Rightarrow> request_context \<Rightarrow> string \<Rightarrow> MemoMessage api" where
  "GetMemo env ctx name =
     bindH (memo_uid_of name) (\<lambda>memoUID.
     bindH (find_memo env PlainError (memo_by_uid memoUID)) (\<lambda>memo.
     bindH (check_read env ctx memo) (\<lambda>_.
     bindH (list_reactions (reactions_of (m_ID (fst memo)))) (\<lambda>reactions.
     bindH (attachments_of env (m_ID (fst memo))) (\<lambda>attachments.
     bindH (wrapH (wrap_api ''failed to load memo relations'') (loadMemoRelations env ctx memo)) (\<lambda>relations.
       convert_found (Status NotFound ''memo creator not found'' NoCause)
         (convertMemoFromStore env ctx memo reactions attachments relations)))))))"

section \<open>The order of a listing (memo_service_query.go)\<close>

text \<open>The direction is compared with ASCII words, which no other code point becomes in lower case.\<close>

fun order_fields :: "string list \<Rightarrow> bool \<Rightarrow> bool \<Rightarrow> FindMemo \<Rightarrow> (bool \<times> FindMemo) result" where
  "order_fields [] hasPinned hasExplicitTimeField q = Inr (hasPinned, q)"
| "order_fields (field # others) hasPinned hasExplicitTimeField q =
     (case Fields (trim_space field) of
        [] \<Rightarrow> order_fields others hasPinned hasExplicitTimeField q
      | fieldName # rest \<Rightarrow>
          (let fieldDirection = (case rest of [] \<Rightarrow> ''desc'' | direction # _ \<Rightarrow> to_lower direction) in
           if fieldDirection \<noteq> ''asc'' \<and> fieldDirection \<noteq> ''desc''
           then Inl (Errorf (''invalid order direction: %s, must be 'asc' or 'desc'' @ [CHR 39]) (take 1 rest))
           else if fieldName = ''pinned'' then order_fields others True hasExplicitTimeField (q\<lparr>fq_OrderByPinned := True\<rparr>)
           else if fieldName = ''create_time'' \<or> fieldName = ''name''
           then order_fields others hasPinned True
                  (if hasExplicitTimeField then q else q\<lparr>fq_OrderByTimeAsc := (fieldDirection = ''asc'')\<rparr>)
           else if fieldName = ''update_time''
           then order_fields others hasPinned True
                  (if hasExplicitTimeField then q
                   else q\<lparr>fq_OrderByUpdatedTs := True, fq_OrderByTimeAsc := (fieldDirection = ''asc'')\<rparr>)
           else Inl (Errorf ''unsupported order field: %s, supported fields are: pinned, create_time, update_time, name'' [fieldName])))"

definition parseMemoOrderBy :: "string \<Rightarrow> FindMemo \<Rightarrow> FindMemo result" where
  "parseMemoOrderBy orderBy q =
     (if trim_space orderBy = [] then Inl (Errorf ''empty order_by'' [])
      else let parts = split (CHR '','') orderBy in
           bindE (order_fields parts False False q) (\<lambda>(hasPinned, q).
             Inr (if hasPinned \<and> \<not> fq_OrderByUpdatedTs q \<and> length parts = 1 then q\<lparr>fq_OrderByTimeAsc := False\<rparr> else q)))"

section \<open>A page of memos\<close>

record ListMemosRequest =
  lmr_State :: MemoState
  lmr_OrderBy :: string
  lmr_Filter :: string
  lmr_PageSize :: int
  lmr_PageToken :: string

text \<open>A memo whose creator is not found is skipped.\<close>

definition skip_missing :: "MemoMessage api \<Rightarrow> MemoMessage option api" where
  "skip_missing m s =
     (case m s of
        (Inl e, s') \<Rightarrow> if e = errMemoCreatorNotFound then (Inr None, s') else (Inl (wrap_api ''failed to convert memo'' e), s')
      | (Inr v, s') \<Rightarrow> (Inr (Some v), s'))"

primrec convert_memos :: "(stored_memo \<Rightarrow> MemoMessage api) \<Rightarrow> stored_memo list \<Rightarrow> MemoMessage list api" where
  "convert_memos convert [] = returnH []"
| "convert_memos convert (memo # memos) =
     bindH (skip_missing (convert memo)) (\<lambda>message.
     bindH (convert_memos convert memos) (\<lambda>messages.
       returnH (case message of None \<Rightarrow> messages | Some v \<Rightarrow> v # messages)))"

definition memo_page :: "page_lib \<Rightarrow> ListMemosRequest \<Rightarrow> api_error + (int \<times> int)" where
  "memo_page lib request =
     bindE (if lmr_PageToken request = [] then Inr (normalizePageSize (lmr_PageSize request), 0)
            else bindE (orElse (unmarshalPageToken lib (lmr_PageToken request))
                          (\<lambda>e. Status InvalidArgument ''invalid page token: %v'' (NameCause e))) (\<lambda>token.
                   Inr (normalizePageSize (pt_Limit token), max (pt_Offset token) 0))) (\<lambda>(limit, offset).
       Inr (min limit MaxPageSize, offset))"

definition memo_messages :: "memo_env \<Rightarrow> request_context \<Rightarrow> stored_memo list \<Rightarrow> MemoMessage list api" where
  "memo_messages env ctx memos =
     (let memoIDs = map (\<lambda>(m, _). m_ID m) memos in
      bindH (list_reactions \<lparr>frx_ID = None, frx_CreatorID = None, frx_MemoID = None, frx_MemoIDList = memoIDs\<rparr>) (\<lambda>reactions.
      bindH (list_attachments env (internal ''failed to list attachments'') (no_find_attachment\<lparr>fa_MemoIDList := memoIDs\<rparr>)) (\<lambda>attachments.
      bindH (wrapH (\<lambda>_. Status Internal ''failed to batch load memo relations'' NoCause)
               (batchConvertMemoRelations env ctx memos False)) (\<lambda>relationMap.
      bindH (listUsersByID env (statusH Internal ''failed to list memo creators: %v'')
               (map (\<lambda>(m, _). m_CreatorID m) memos @ map rx_CreatorID reactions)) (\<lambda>creatorMap.
        convert_memos (\<lambda>memo. let i = m_ID (fst memo) in
          convertMemoFromStoreWithCreators env ctx memo (filter (\<lambda>r. rx_MemoID r = i) reactions)
            (filter (\<lambda>a. at_MemoID (ar_Row a) = Some i) attachments) (relationMap i) creatorMap) memos)))))"

definition ListMemos :: "memo_env \<Rightarrow> request_context \<Rightarrow> ListMemosRequest \<Rightarrow> (MemoMessage list \<times> string) api" where
  "ListMemos env ctx request =
     bindH (wrapH (\<lambda>e. Status Internal ''%v'' (cause_of e)) (resolve_scope env ctx)) (\<lambda>(accessScope, currentUser).
       if currentUser = None \<and> \<not> acc_AllowPublic accessScope then failH Unauthenticated ''user not authenticated''
       else if lmr_State request = State_ARCHIVED \<and> currentUser = None then returnH ([], [])
       else
         let q = no_find_memo\<lparr>fq_ExcludeComments := True, fq_Access := Some accessScope\<rparr>;
             q = (if lmr_State request = State_ARCHIVED
                  then q\<lparr>fq_RowStatus := Some Archived, fq_CreatorID := map_option u_ID currentUser\<rparr>
                  else q\<lparr>fq_RowStatus := Some Normal\<rparr>) in
         bindH (liftH (if lmr_OrderBy request = [] then Inr q
                       else orElse (parseMemoOrderBy (lmr_OrderBy request) q)
                              (\<lambda>e. Status InvalidArgument ''invalid order_by: %v'' (NameCause e)))) (\<lambda>q.
         bindH (if lmr_Filter request = [] then returnH ()
                else checkH (validateMemoFilterForUser (fl_cel (me_memo_filter env)) (fl_now (me_memo_filter env)) (fl_time (me_memo_filter env))
                       (me_svc env) ''sqlite'' (lmr_Filter request) currentUser)) (\<lambda>_.
         bindH (liftH (memo_page (me_Pages env) request)) (\<lambda>(limit, offset).
         bindH (list_memos env (statusH Internal ''failed to list memos: %v'')
                  (q\<lparr>fq_Filters := (if lmr_Filter request = [] then [] else [lmr_Filter request]),
                     fq_Limit := Some (limit + 1), fq_Offset := Some offset\<rparr>)) (\<lambda>memos.
         bindH (liftH (if int (length memos) = limit + 1
                       then bindE (orElse (getPageToken (me_Pages env) limit (offset + limit))
                                     (\<lambda>e. Status Internal ''failed to get next page token, error: %v'' (NameCause e))) (\<lambda>token.
                              Inr (take (nat limit) memos, token))
                       else Inr (memos, []))) (\<lambda>(memos, nextPageToken).
           if memos = [] then returnH ([], nextPageToken)
           else bindH (memo_messages env ctx memos) (\<lambda>messages. returnH (messages, nextPageToken))))))))"

section \<open>Relations (memo_relation_service.go)\<close>

definition ListMemoRelations ::
    "memo_env \<Rightarrow> request_context \<Rightarrow> string \<Rightarrow> int \<Rightarrow> string \<Rightarrow> (MemoRelationMessage list \<times> string) api" where
  "ListMemoRelations env ctx name pageSize pageToken =
     bindH (memo_uid_of name) (\<lambda>memoUID.
     bindH (find_memo env (internal ''failed to get memo'') (memo_by_uid memoUID)) (\<lambda>memo.
     bindH (check_read env ctx memo) (\<lambda>_.
     bindH (wrapH (\<lambda>e. Status Internal ''failed to list memo relations: %v'' (cause_of e))
              (batchConvertMemoRelations env ctx [memo] True)) (\<lambda>relationMap.
     let relationList = relationMap (m_ID (fst memo)) in
     bindH (liftH (listSpacePage (me_Pages env) pageSize pageToken)) (\<lambda>(limit, offset).
     let last = min (offset + limit) (int (length relationList));
         offset = (if offset > int (length relationList) then int (length relationList) else offset) in
     bindH (liftH (if last < int (length relationList)
                   then orElse (getPageToken (me_Pages env) limit last) (\<lambda>_. Status Internal ''failed to create page token'' NoCause)
                   else Inr [])) (\<lambda>nextPageToken.
       returnH (drop (nat offset) (take (nat last) relationList), nextPageToken)))))))"

section \<open>Reactions (reaction_service.go)\<close>

definition ListMemoReactions :: "memo_env \<Rightarrow> request_context \<Rightarrow> string \<Rightarrow> ReactionMessage list api" where
  "ListMemoReactions env ctx name =
     bindH (memo_uid_of name) (\<lambda>memoUID.
     bindH (find_memo env (statusH Internal ''failed to get memo: %v'') (memo_by_uid memoUID)) (\<lambda>memo.
     bindH (check_read env ctx memo) (\<lambda>_.
     bindH (list_reactions (reactions_of (m_ID (fst memo)))) (\<lambda>reactions.
       convertReactionsFromStoreWithCreators env (internal ''failed to convert reactions'') reactions (\<lambda>_. None)
         (buildMemoName (m_UID (fst memo)))))))"

definition mapReactionMutationError :: "string \<Rightarrow> store_error \<Rightarrow> api_error" where
  "mapReactionMutationError operation err =
     (if error_is err ErrReactionMemoNotFound then Status NotFound ''memo not found'' NoCause
      else if error_is err ErrReactionPermissionDenied then Status PermissionDenied ''permission denied'' NoCause
      else mapMemoWriteError err operation)"

text \<open>A statement that changes the tables when it succeeds.\<close>

definition change :: "(store_error \<Rightarrow> api_error) \<Rightarrow> (db \<Rightarrow> store_error + ('a \<times> db)) \<Rightarrow> 'a api" where
  "change f m s =
     (case m (st_db s) of Inl e \<Rightarrow> (Inl (f e), s) | Inr (a, d) \<Rightarrow> (Inr a, s\<lparr>st_db := d\<rparr>))"

definition convertReactionFromStore :: "memo_env \<Rightarrow> Reaction \<Rightarrow> string \<Rightarrow> ReactionMessage api" where
  "convertReactionFromStore env reaction memoName =
     bindH (listUsersByIDWithExisting env (internal ''failed to get reaction creator'') [rx_CreatorID reaction] (\<lambda>_. None)) (\<lambda>creatorsByID.
       case convertReactionFromStoreWithCreators reaction creatorsByID memoName of
         None \<Rightarrow> failH NotFound ''reaction creator not found''
       | Some v \<Rightarrow> returnH v)"

text \<open>A handler that changes a memo answers its message with the number of announcements to the live clients.\<close>

definition UpsertMemoReaction ::
    "memo_env \<Rightarrow> request_context \<Rightarrow> string \<Rightarrow> string option \<Rightarrow> (ReactionMessage \<times> nat) api" where
  "UpsertMemoReaction env ctx name reactionType =
     bindH (current_user env ctx (internal ''failed to get current user'')) (\<lambda>user.
       case reactionType of
         None \<Rightarrow> failH InvalidArgument ''reaction is required''
       | Some rtype \<Rightarrow>
     bindH (memo_uid_of name) (\<lambda>memoUID.
     bindH (find_memo env (statusH Internal ''failed to get memo: %v'') (memo_by_uid memoUID)) (\<lambda>memo.
     bindH (check_read env ctx memo) (\<lambda>_.
     bindH (change (mapReactionMutationError ''failed to upsert reaction'')
              (Store_UpsertReaction (Some \<lparr>rx_ID = 0, rx_CreatedTs = 0, rx_CreatorID = u_ID user, rx_MemoID = m_ID (fst memo),
                 rx_ReactionType = rtype, rx_Policy = Some (u_ID user)\<rparr>))) (\<lambda>reaction.
     bindH (wrapH (\<lambda>_. Status Internal ''failed to convert reaction'' NoCause)
              (convertReactionFromStore env reaction (buildMemoName (m_UID (fst memo))))) (\<lambda>message.
       returnH (message, 1)))))))"

definition reaction_by_id :: "int32 \<Rightarrow> FindReaction" where
  "reaction_by_id i = \<lparr>frx_ID = Some i, frx_CreatorID = None, frx_MemoID = None, frx_MemoIDList = []\<rparr>"

definition DeleteMemoReaction :: "memo_env \<Rightarrow> request_context \<Rightarrow> string \<Rightarrow> nat api" where
  "DeleteMemoReaction env ctx name =
     bindH (current_user env ctx (statusH Internal ''failed to get current user: %v'')) (\<lambda>user.
     bindH (liftH (orElse (ExtractMemoReactionIDFromName name)
              (\<lambda>e. Status InvalidArgument ''invalid reaction name: %v'' (NameCause e)))) (\<lambda>(memoUID, reactionID).
     bindH (query (internal ''failed to get reaction'') (\<lambda>d. Inr (DB_GetReaction (reaction_by_id reactionID) d))) (\<lambda>reaction.
       case reaction of
         None \<Rightarrow> failH PermissionDenied ''permission denied''
       | Some r \<Rightarrow>
           if rx_CreatorID r \<noteq> u_ID user then failH PermissionDenied ''permission denied''
           else
     bindH (get_memo env (internal ''failed to get memo'') (memo_by_id (rx_MemoID r))) (\<lambda>memo.
       if (case memo of None \<Rightarrow> True | Some m \<Rightarrow> m_UID (fst m) \<noteq> memoUID) then failH PermissionDenied ''permission denied''
       else
     bindH (change (mapReactionMutationError ''failed to delete reaction'')
              (with_unit (Store_DeleteReaction (Some \<lparr>drx_ID = Some reactionID, drx_MemoID = Some (rx_MemoID r),
                 drx_ActorUserID = Some (u_ID user), drx_Policy = Some (u_ID user)\<rparr>)))) (\<lambda>_.
       returnH 1)))))"

section \<open>Attachments (attachment_service.go)\<close>

text \<open>\<open>fmt.Sscanf(s, "%d", &n)\<close>: white space is skipped, but no line break; what follows the number is ignored.\<close>

definition scan_int :: "string \<Rightarrow> int64 option" where
  "scan_int s =
     (let rest = trim_left white_space s;
          skipped = take (length s - length rest) s;
          negative = (case rest of [] \<Rightarrow> False | c # _ \<Rightarrow> c = CHR ''-'');
          unsigned = (case rest of [] \<Rightarrow> [] | c # cs \<Rightarrow> if c = CHR ''-'' \<or> c = CHR ''+'' then cs else rest);
          digits = takeWhile isASCIIDigit unsigned;
          n = (if negative then - int (digits_value digits) else int (digits_value digits))
      in if CHR 10 \<in> set skipped \<or> digits = [] \<or> n < - (2 ^ 63) \<or> n \<ge> 2 ^ 63 then None else Some (word_of_int n))"

definition ListAttachments ::
    "memo_env \<Rightarrow> request_context \<Rightarrow> int \<Rightarrow> string \<Rightarrow> string \<Rightarrow> (AttachmentMessage list \<times> string) api" where
  "ListAttachments env ctx pageSize pageToken filterText =
     bindH (current_user env ctx (statusH Internal ''failed to get current user: %v'')) (\<lambda>user.
     let pageSize = normalizePageSize pageSize in
     bindH (if pageToken = [] then returnH 0
            else (case scan_int pageToken of None \<Rightarrow> failH InvalidArgument ''invalid page token'' | Some n \<Rightarrow> returnH n)) (\<lambda>offset.
     bindH (if filterText = [] then returnH ()
            else checkH (validateAttachmentFilterForUser (fl_cel (me_attachment_filter env)) (fl_now (me_attachment_filter env))
                   (fl_time (me_attachment_filter env)) (me_svc env) ''sqlite'' filterText (Some user))) (\<lambda>_.
     bindH (list_attachments env (statusH Internal ''failed to list attachments: %v'')
              (no_find_attachment\<lparr>fa_CreatorID := Some (u_ID user), fa_Access := Some (newMemoAccessScope (Some user) True),
                 fa_Limit := Some pageSize, fa_Offset := Some (sint offset),
                 fa_Filters := (if filterText = [] then [] else [filterText])\<rparr>)) (\<lambda>attachments.
       returnH (map (convertAttachmentFromStore (me_transcode env)) attachments,
         if int (length attachments) = pageSize then itoa (sint (offset + word_of_int pageSize)) else [])))))"

definition checkAttachmentAccess :: "memo_env \<Rightarrow> request_context \<Rightarrow> AttachmentPayload AttachmentRead \<Rightarrow> unit api" where
  "checkAttachmentAccess env ctx a =
     (case at_MemoID (ar_Row a) of
        None \<Rightarrow>
          bindH (current_user env ctx (internal ''failed to get current user'')) (\<lambda>user.
            if at_CreatorID (ar_Row a) \<noteq> u_ID user then failH PermissionDenied ''permission denied'' else returnH ())
      | Some memoID \<Rightarrow>
          bindH (find_memo env (statusH Internal ''failed to get memo: %v'') (memo_by_id memoID)) (\<lambda>memo. check_read env ctx memo))"

definition GetAttachment :: "memo_env \<Rightarrow> request_context \<Rightarrow> string \<Rightarrow> AttachmentMessage api" where
  "GetAttachment env ctx name =
     bindH (liftH (orElse (ExtractAttachmentUIDFromName name)
              (\<lambda>e. Status InvalidArgument ''invalid attachment id: %v'' (NameCause e)))) (\<lambda>attachmentUID.
     bindH (query (statusH Internal ''failed to get attachment: %v'')
              (Store_GetAttachment (me_attachment_filter env) (me_attachment_payload env)
                 (no_find_attachment\<lparr>fa_UID := Some attachmentUID\<rparr>))) (\<lambda>attachment.
       case attachment of
         None \<Rightarrow> failH NotFound ''attachment not found''
       | Some a \<Rightarrow>
           bindH (checkAttachmentAccess env ctx a) (\<lambda>_. returnH (convertAttachmentFromStore (me_transcode env) a))))"

section \<open>Share links (memo_share_service.go)\<close>

text \<open>Times are Unix seconds.\<close>

record MemoShareMessage =
  vs_Name :: string
  vs_CreateTime :: int
  vs_ExpireTime :: "int option"

abbreviation MemoShareNamePrefix :: string where "MemoShareNamePrefix \<equiv> ''shares/''"

definition convertMemoShareFromStore :: "MemoShare \<Rightarrow> string \<Rightarrow> MemoShareMessage" where
  "convertMemoShareFromStore ms memoUID =
     \<lparr>vs_Name = MemoNamePrefix @ memoUID @ ''/'' @ MemoShareNamePrefix @ ms_UID ms, vs_CreateTime = ms_CreatedTs ms,
      vs_ExpireTime = ms_ExpiresTs ms\<rparr>"

definition isMemoShareExpired :: "int \<Rightarrow> MemoShare \<Rightarrow> bool" where
  "isMemoShareExpired now ms = (case ms_ExpiresTs ms of None \<Rightarrow> False | Some t \<Rightarrow> now > t)"

definition no_find_share :: FindMemoShare where
  "no_find_share = \<lparr>fms_ID = None, fms_UID = None, fms_MemoID = None, fms_CreatorID = None\<rparr>"

definition getActiveMemoShare :: "memo_env \<Rightarrow> string \<Rightarrow> MemoShare api" where
  "getActiveMemoShare env shareID =
     bindH (query (internal ''failed to get memo share'') (\<lambda>d. Inr (DB_GetMemoShare (no_find_share\<lparr>fms_UID := Some shareID\<rparr>) d))) (\<lambda>ms.
       case ms of
         None \<Rightarrow> failH NotFound ''not found''
       | Some ms \<Rightarrow> if isMemoShareExpired (me_now env) ms then failH NotFound ''not found'' else returnH ms)"

definition memoWritePolicy :: "int32 \<Rightarrow> bool \<Rightarrow> MemoWritePolicy" where
  "memoWritePolicy actorUserID lifecycleOnly =
     \<lparr>pol_ActorUserID = actorUserID, pol_LifecycleOnly = lifecycleOnly, pol_CreatingShare = False\<rparr>"

text \<open>The memo of a request about its shares, for its creator.\<close>

definition own_memo :: "memo_env \<Rightarrow> User \<Rightarrow> string \<Rightarrow> stored_memo api" where
  "own_memo env user memoUID =
     bindH (find_memo env (internal ''failed to get memo'') (memo_by_uid memoUID)) (\<lambda>memo.
       if m_CreatorID (fst memo) \<noteq> u_ID user then failH PermissionDenied ''permission denied'' else returnH memo)"

definition CreateMemoShare :: "memo_env \<Rightarrow> request_context \<Rightarrow> string \<Rightarrow> int option \<Rightarrow> MemoShareMessage api" where
  "CreateMemoShare env ctx parent expireTime =
     bindH (current_user env ctx (internal ''failed to get user'')) (\<lambda>user.
     bindH (memo_uid_of parent) (\<lambda>memoUID.
     bindH (find_memo env (internal ''failed to get memo'') (memo_by_uid memoUID)) (\<lambda>(memo, _).
       if m_RowStatus memo \<noteq> Normal then failH FailedPrecondition ''only active memos can be shared''
       else if m_CreatorID memo \<noteq> u_ID user then failH PermissionDenied ''permission denied''
       else if m_Visibility memo = SpaceAudience then failH FailedPrecondition ''SPACE audience memos cannot be shared''
       else if (case expireTime of None \<Rightarrow> False | Some ts \<Rightarrow> ts \<le> me_now env)
       then failH InvalidArgument ''expire_time must be in the future''
       else bindH (change (\<lambda>e. mapMemoWriteError e ''failed to create memo share'')
                (Store_CreateMemoShare (Some \<lparr>ms_ID = 0, ms_UID = me_shortuuid env, ms_MemoID = m_ID memo, ms_CreatorID = u_ID user,
                   ms_CreatedTs = 0, ms_ExpiresTs = expireTime,
                   ms_Policy = Some ((memoWritePolicy (u_ID user) False)\<lparr>pol_CreatingShare := True\<rparr>)\<rparr>))) (\<lambda>ms.
              returnH (convertMemoShareFromStore ms (m_UID memo))))))"

definition ListMemoShares :: "memo_env \<Rightarrow> request_context \<Rightarrow> string \<Rightarrow> MemoShareMessage list api" where
  "ListMemoShares env ctx parent =
     bindH (current_user env ctx (internal ''failed to get user'')) (\<lambda>user.
     bindH (memo_uid_of parent) (\<lambda>memoUID.
     bindH (own_memo env user memoUID) (\<lambda>(memo, _).
     bindH (checkH (requireAssignedMemoWritable (me_svc env) memo (u_ID user))) (\<lambda>_.
     bindH (query (internal ''failed to list memo shares'') (\<lambda>d. Inr (DB_ListMemoShares (no_find_share\<lparr>fms_MemoID := Some (m_ID memo)\<rparr>) d))) (\<lambda>shares.
       returnH (map (\<lambda>ms. convertMemoShareFromStore ms (m_UID memo)) shares))))))"

definition DeleteMemoShare_handler :: "memo_env \<Rightarrow> request_context \<Rightarrow> string \<Rightarrow> unit api" where
  "DeleteMemoShare_handler env ctx name =
     bindH (current_user env ctx (internal ''failed to get user'')) (\<lambda>user.
     bindH (liftH (orElse (GetNameParentTokens name [MemoNamePrefix, MemoShareNamePrefix])
              (\<lambda>e. Status InvalidArgument ''invalid share name: %v'' (NameCause e)))) (\<lambda>tokens.
     let memoUID = tokens ! 0; shareToken = tokens ! 1 in
     bindH (own_memo env user memoUID) (\<lambda>(memo, _).
     bindH (query (internal ''failed to get memo share'') (\<lambda>d. Inr (DB_GetMemoShare (no_find_share\<lparr>fms_UID := Some shareToken\<rparr>) d))) (\<lambda>ms.
       if (case ms of None \<Rightarrow> True | Some ms \<Rightarrow> ms_MemoID ms \<noteq> m_ID memo) then failH NotFound ''memo share not found''
       else change (\<lambda>e. mapMemoWriteError e ''failed to delete memo share'')
              (with_unit (Store_DeleteMemoShare (Some \<lparr>dms_ID = None, dms_UID = Some shareToken, dms_MemoID = Some (m_ID memo),
                 dms_Policy = Some (memoWritePolicy (u_ID user) False)\<rparr>)))))))"

definition GetSharedMemo :: "memo_env \<Rightarrow> request_context \<Rightarrow> string \<Rightarrow> MemoMessage api" where
  "GetSharedMemo env ctx shareToken =
     bindH (getActiveMemoShare env shareToken) (\<lambda>ms.
     bindH (get_memo env (internal ''failed to get memo'') (memo_by_id (ms_MemoID ms))) (\<lambda>memo.
       case memo of
         None \<Rightarrow> failH NotFound ''not found''
       | Some shared \<Rightarrow>
     let m = fst shared in
     if m_RowStatus m \<noteq> Normal \<or> m_Visibility m = SpaceAudience then failH NotFound ''not found''
     else
     bindH (wrapH (\<lambda>_. Status NotFound ''not found'' NoCause)
              (resolveH (buildMemoReadContext (me_svc env) (GetUserID ctx) (Some m) (Some (ms_MemoID ms))))) (\<lambda>readContext.
     if \<not> Allowed (CheckMemoReadContext readContext) then failH NotFound ''not found''
     else
     bindH (list_reactions (reactions_of (m_ID m))) (\<lambda>reactions.
     bindH (attachments_of env (m_ID m)) (\<lambda>attachments.
     bindH (convert_found (Status NotFound ''not found'' NoCause)
              (convertMemoFromStore env ctx shared reactions attachments [])) (\<lambda>message.
       returnH (message\<lparr>vmo_Parent := None\<rparr>)))))))"

end
