(* ===== verification/Memo_Answers.thy ===== *)
theory Memo_Answers
  imports Memo_Reading Space_Visibility
begin

text \<open>
  What the handlers that read memos tell their callers. They leave the tables as they are, and their answers name
  only what the caller may know of.
\<close>

section \<open>Actions that read and what they answer\<close>

definition quiet :: "db \<Rightarrow> UserSetting Store \<Rightarrow> bool" where
  "quiet d s = (run_inv s \<and> st_db s = d)"

text \<open>From the tables \<open>d\<close> the action keeps them, and a value that it answers has the property \<open>Q\<close>.\<close>

definition answers :: "db \<Rightarrow> ('a \<Rightarrow> bool) \<Rightarrow> 'a api \<Rightarrow> bool" where
  "answers d Q m = (\<forall>s r s'. quiet d s \<longrightarrow> m s = (r, s') \<longrightarrow> quiet d s' \<and> (\<forall>a. r = Inr a \<longrightarrow> Q a))"

lemma answersD: "answers d Q m \<Longrightarrow> m s = (Inr a, s') \<Longrightarrow> quiet d s \<Longrightarrow> quiet d s' \<and> Q a"
  unfolding answers_def by blast

named_theorems answer_rules \<open>what the parts of a handler answer\<close>

lemma answers_weaken: "answers d Q m \<Longrightarrow> (\<And>a. Q a \<Longrightarrow> R a) \<Longrightarrow> answers d R m"
  unfolding answers_def by blast

lemma answers_liftH [answer_rules]: "(\<And>a. r = Inr a \<Longrightarrow> Q a) \<Longrightarrow> answers d Q (liftH r)"
  by (auto simp: answers_def liftH_def)

lemma answers_bindH:
  assumes m: "answers d Q m" and f: "\<And>a. Q a \<Longrightarrow> answers d R (f a)"
  shows "answers d R (bindH m f)"
  unfolding answers_def
proof (intro allI impI)
  fix s r s'
  assume q: "quiet d s" and run: "bindH m f s = (r, s')"
  obtain v s1 where v: "m s = (v, s1)" by (cases "m s")
  have s1: "quiet d s1 \<and> (\<forall>a. v = Inr a \<longrightarrow> Q a)" using m q v unfolding answers_def by blast
  show "quiet d s' \<and> (\<forall>b. r = Inr b \<longrightarrow> R b)"
  proof (cases v)
    case (Inl e)
    then show ?thesis using run v s1 by (auto simp: bindH_def)
  next
    case (Inr a)
    then have "f a s1 = (r, s')" using run v by (simp add: bindH_def)
    moreover have "answers d R (f a)" using f s1 Inr by blast
    ultimately show ?thesis using s1 unfolding answers_def by blast
  qed
qed

lemma answers_wrapH [answer_rules]: "answers d Q m \<Longrightarrow> answers d Q (wrapH f m)"
  by (fastforce simp: answers_def wrapH_def split: prod.splits sum.splits)

lemma answers_query [answer_rules]: "(\<And>a. q d = Inr a \<Longrightarrow> Q a) \<Longrightarrow> answers d Q (query f q)"
  by (auto simp: answers_def query_def quiet_def result_simps)

lemma answers_if [answer_rules]: "(b \<Longrightarrow> answers d Q m) \<Longrightarrow> (\<not> b \<Longrightarrow> answers d Q m') \<Longrightarrow> answers d Q (if b then m else m')"
  by simp

lemma answers_option [answer_rules]:
  "(v = None \<Longrightarrow> answers d Q g) \<Longrightarrow> (\<And>x. v = Some x \<Longrightarrow> answers d Q (f x)) \<Longrightarrow>
    answers d Q (case v of None \<Rightarrow> g | Some x \<Rightarrow> f x)"
  by (cases v) simp_all

lemma answers_prod [answer_rules]:
  "(\<And>x y. p = (x, y) \<Longrightarrow> answers d Q (f x y)) \<Longrightarrow> answers d Q (case p of (x, y) \<Rightarrow> f x y)"
  by (cases p) simp

text \<open>A part whose value does not matter.\<close>

abbreviation quietly :: "db \<Rightarrow> 'a api \<Rightarrow> bool" where "quietly d \<equiv> answers d (\<lambda>_. True)"

lemma quietlyI: "answers d Q m \<Longrightarrow> quietly d m"
  by (rule answers_weaken) simp_all

lemma answers_kept_call:
  assumes "\<And>s a s'. run_inv s \<Longrightarrow> m s = Inr (a, s') \<Longrightarrow> run_inv s' \<and> st_db s' = st_db s"
  shows "quietly d (callH f (keepE m))"
  unfolding answers_def
proof (intro allI impI conjI TrueI)
  fix s r s'
  assume q: "quiet d s" and run: "callH f (keepE m) s = (r, s')"
  obtain v where "keepE m s = (v, s')" using callH_state [OF run] by blast
  from keepE_cases [OF this] show "quiet d s'" using q assms unfolding quiet_def by blast
qed

section \<open>The caller\<close>

text \<open>Who asks, as the user table has it; an identity without a row is an error.\<close>

definition caller_of :: "db \<Rightarrow> int32 \<Rightarrow> User option option" where
  "caller_of d uid =
     (if uid = 0 then Some None
      else case user_row d uid of
             None \<Rightarrow> None
           | Some u \<Rightarrow> Some (if u_RowStatus u = Normal then Some u else None))"

definition caller_scope :: "'s APIV1Service \<Rightarrow> db \<Rightarrow> int32 \<Rightarrow> (MemoAccessScope \<times> User option) option" where
  "caller_scope svc d uid =
     (case caller_of d uid of
        None \<Rightarrow> None
      | Some None \<Rightarrow> (case svc_anonymous svc of Inl _ \<Rightarrow> None | Inr b \<Rightarrow> Some (newMemoAccessScope None b, None))
      | Some (Some u) \<Rightarrow> Some (newMemoAccessScope (Some u) True, Some u))"

definition reader_allowed :: "'s APIV1Service \<Rightarrow> int32 \<Rightarrow> db \<Rightarrow> 'p Memo \<Rightarrow> bool" where
  "reader_allowed svc uid d m = (\<exists>scope cur. caller_scope svc d uid = Some (scope, cur) \<and> memo_listed d scope m)"

lemma reader_allowed_row [simp]: "reader_allowed svc uid d (memo_of_row b p m) = reader_allowed svc uid d m"
  by (simp add: reader_allowed_def)

lemma fetchCurrentUser_caller:
  assumes "run_inv s" "svc_Store svc = MemoReadStore_of rng"
  shows "case caller_of (st_db s) uid of
      None \<Rightarrow> \<exists>e. fetchCurrentUser svc uid s = Inl e
    | Some cur \<Rightarrow> \<exists>s'. fetchCurrentUser svc uid s = Inr (cur, s') \<and> run_inv s' \<and> st_db s' = st_db s"
proof (cases "uid = 0")
  case True
  then show ?thesis using assms(1) by (simp add: caller_of_def fetchCurrentUser_def)
next
  case False
  obtain s1 where s1: "mrs_GetUser (svc_Store svc) (find_user_id uid) s = Inr (user_row (st_db s) uid, s1)" "run_inv s1" "st_db s1 = st_db s"
    using Store_GetUser_row [OF assms(1), of rng uid] assms(2) by (auto simp: MemoReadStore_of_def find_user_id_def)
  then show ?thesis
    using False by (auto simp: caller_of_def fetchCurrentUser_def isActiveCurrentUser_def split: option.splits)
qed

lemma resolveMemoAccessScope_caller:
  assumes "run_inv s" "svc_Store svc = MemoReadStore_of rng"
  shows "case caller_scope svc (st_db s) uid of
      None \<Rightarrow> \<exists>e. resolveMemoAccessScope svc uid s = Inl e
    | Some (scope, cur) \<Rightarrow> \<exists>s'. resolveMemoAccessScope svc uid s = Inr (scope, cur, s') \<and> run_inv s' \<and> st_db s' = st_db s"
proof -
  have f: "case caller_of (st_db s) uid of
      None \<Rightarrow> \<exists>e. fetchCurrentUser svc uid s = Inl e
    | Some cur \<Rightarrow> \<exists>s'. fetchCurrentUser svc uid s = Inr (cur, s') \<and> run_inv s' \<and> st_db s' = st_db s"
    by (rule fetchCurrentUser_caller [OF assms])
  show ?thesis
  proof (cases "caller_of (st_db s) uid")
    case None
    then show ?thesis using f by (auto simp: caller_scope_def resolveMemoAccessScope_def)
  next
    case (Some cur)
    then obtain s1 where s1: "fetchCurrentUser svc uid s = Inr (cur, s1)" "run_inv s1" "st_db s1 = st_db s" using f by auto
    show ?thesis
    proof (cases cur)
      case None
      then show ?thesis using Some s1 by (cases "svc_anonymous svc") (simp_all add: caller_scope_def resolveMemoAccessScope_def)
    next
      case (Some u)
      then show ?thesis using \<open>caller_of (st_db s) uid = Some cur\<close> s1 by (simp add: caller_scope_def resolveMemoAccessScope_def)
    qed
  qed
qed

text \<open>The check of one memo allows what the caller may read.\<close>

lemma checkMemoReadAccess_allowed:
  assumes "run_inv s" "svc_Store svc = MemoReadStore_of rng"
  shows "(\<exists>s'. checkMemoReadAccess svc uid (Some m) s = Inr s') \<longleftrightarrow> reader_allowed svc uid (st_db s) m"
proof (cases "caller_scope svc (st_db s) uid")
  case (Some sc)
  obtain scope cur where sc: "sc = (scope, cur)" by (cases sc)
  then obtain s' where "resolveMemoAccessScope svc uid s = Inr (scope, cur, s')"
    using Some resolveMemoAccessScope_caller [OF assms, of uid] by auto
  from cached_store.checkMemoReadAccess_law [OF assms this, of m] show ?thesis by (simp add: reader_allowed_def Some sc)
next
  case None
  have f: "case caller_of (st_db s) uid of
      None \<Rightarrow> \<exists>e. fetchCurrentUser svc uid s = Inl e
    | Some cur \<Rightarrow> \<exists>s'. fetchCurrentUser svc uid s = Inr (cur, s') \<and> run_inv s' \<and> st_db s' = st_db s"
    by (rule fetchCurrentUser_caller [OF assms])
  have "\<nexists>s'. checkMemoReadAccess svc uid (Some m) s = Inr s'"
  proof (cases "caller_of (st_db s) uid")
    case None
    then show ?thesis using f by (auto simp: checkMemoReadAccess_def buildMemoReadContext_def)
  next
    case (Some cur)
    then obtain s1 where s1: "fetchCurrentUser svc uid s = Inr (cur, s1)" using f by auto
    have "cur = None \<and> (\<exists>e. svc_anonymous svc = Inl e)"
      using \<open>caller_scope svc (st_db s) uid = None\<close> Some by (auto simp: caller_scope_def split: option.splits sum.splits)
    then show ?thesis using s1 by (auto simp: checkMemoReadAccess_def buildMemoReadContext_def)
  qed
  then show ?thesis by (simp add: reader_allowed_def None)
qed

lemma buildMemoReadContext_caller:
  assumes "run_inv s" "svc_Store svc = MemoReadStore_of rng" "buildMemoReadContext svc uid (Some m) shared s = Inr (rc, s')"
  shows "run_inv s' \<and> st_db s' = st_db s \<and> (\<exists>cur anon. caller_of (st_db s) uid = Some cur
    \<and> rc = read_context (st_db s) m cur anon shared \<and> (cur = None \<longrightarrow> svc_anonymous svc = Inr anon) \<and> (cur \<noteq> None \<longrightarrow> \<not> anon))"
proof -
  have f: "case caller_of (st_db s) uid of
      None \<Rightarrow> \<exists>e. fetchCurrentUser svc uid s = Inl e
    | Some cur \<Rightarrow> \<exists>s'. fetchCurrentUser svc uid s = Inr (cur, s') \<and> run_inv s' \<and> st_db s' = st_db s"
    by (rule fetchCurrentUser_caller [OF assms(1,2)])
  then obtain cur s1 where cur: "caller_of (st_db s) uid = Some cur" "fetchCurrentUser svc uid s = Inr (cur, s1)"
      and s1: "run_inv s1" "st_db s1 = st_db s"
    using assms(3) by (cases "caller_of (st_db s) uid") (auto simp: buildMemoReadContext_def)
  obtain anon where anon: "cur = None \<longrightarrow> svc_anonymous svc = Inr anon" "cur \<noteq> None \<longrightarrow> \<not> anon"
      and rc: "ResolveMemoReadContext (svc_Store svc) (Some m) cur anon shared s1 = Inr (rc, s')"
    using assms(3) cur(2)
    by (cases "cur = None") (auto simp: buildMemoReadContext_def buildMemoReadContextForViewer_def result_simps)
  obtain t where "ResolveMemoReadContext (svc_Store svc) (Some m) cur anon shared s1
      = Inr (read_context (st_db s1) m cur anon shared, t)" "run_inv t" "st_db t = st_db s1"
    using cached_store.ResolveMemoReadContext_law [OF s1(1), of rng m cur anon shared] assms(2) by auto
  then show ?thesis using rc s1(2) cur(1) anon by auto
qed

section \<open>The parts of the handlers\<close>

abbreviation serves_store :: "memo_env \<Rightarrow> bool" where "serves_store env \<equiv> reads_store (me_Server env)"

lemma me_store: "serves_store env \<Longrightarrow> svc_Store (me_svc env) = MemoReadStore_of (au_users (sv_Auth (me_Server env)))"
  by (simp add: reads_store_def)

lemma answers_fetch_current:
  assumes "serves_store env"
  shows "answers d (\<lambda>cur. caller_of d (GetUserID ctx) = Some cur) (fetch_current (me_Server env) ctx f)"
  unfolding answers_def
proof (intro allI impI)
  fix s r s'
  assume q: "quiet d s" and run: "fetch_current (me_Server env) ctx f s = (r, s')"
  have q': "run_inv s" "st_db s = d" using q by (simp_all add: quiet_def)
  have "case caller_of (st_db s) (GetUserID ctx) of
      None \<Rightarrow> \<exists>e. fetchCurrentUser (me_svc env) (GetUserID ctx) s = Inl e
    | Some cur \<Rightarrow> \<exists>s'. fetchCurrentUser (me_svc env) (GetUserID ctx) s = Inr (cur, s') \<and> run_inv s' \<and> st_db s' = st_db s"
    by (rule fetchCurrentUser_caller [OF q'(1) me_store [OF assms]])
  then show "quiet d s' \<and> (\<forall>cur. r = Inr cur \<longrightarrow> caller_of d (GetUserID ctx) = Some cur)"
    using run q' by (cases "caller_of d (GetUserID ctx)") (auto simp: fetch_current_def callH_def keepE_def quiet_def)
qed

lemma answers_current_user:
  assumes "serves_store env"
  shows "answers d (\<lambda>u. caller_of d (GetUserID ctx) = Some (Some u)) (current_user env ctx f)"
  unfolding current_user_def
  by (rule answers_bindH [OF answers_fetch_current [OF assms]]) (intro answer_rules; auto)

lemma answers_resolve_scope:
  assumes "serves_store env"
  shows "answers d (\<lambda>(scope, cur). caller_scope (me_svc env) d (GetUserID ctx) = Some (scope, cur)) (resolve_scope env ctx)"
  unfolding answers_def
proof (intro allI impI)
  fix s r s'
  assume q: "quiet d s" and run: "resolve_scope env ctx s = (r, s')"
  have q': "run_inv s" "st_db s = d" using q by (simp_all add: quiet_def)
  show "quiet d s' \<and> (\<forall>a. r = Inr a \<longrightarrow> (case a of (scope, cur) \<Rightarrow> caller_scope (me_svc env) d (GetUserID ctx) = Some (scope, cur)))"
    using resolveMemoAccessScope_caller [OF q'(1) me_store [OF assms], of "GetUserID ctx"] run q'
    by (cases "caller_scope (me_svc env) d (GetUserID ctx)") (auto simp: resolve_scope_def quiet_def)
qed

lemma answers_read_context:
  assumes "serves_store env"
  shows "answers d (\<lambda>rc. \<exists>cur anon. caller_of d (GetUserID ctx) = Some cur \<and> rc = read_context d m cur anon shared)
    (resolveH (buildMemoReadContext (me_svc env) (GetUserID ctx) (Some m) shared))"
  unfolding answers_def
proof (intro allI impI)
  fix s r s'
  assume q: "quiet d s" and run: "resolveH (buildMemoReadContext (me_svc env) (GetUserID ctx) (Some m) shared) s = (r, s')"
  have q': "run_inv s" "st_db s = d" using q by (simp_all add: quiet_def)
  show "quiet d s' \<and> (\<forall>rc. r = Inr rc \<longrightarrow> (\<exists>cur anon. caller_of d (GetUserID ctx) = Some cur \<and> rc = read_context d m cur anon shared))"
  proof (cases "buildMemoReadContext (me_svc env) (GetUserID ctx) (Some m) shared s")
    case (Inl e)
    then show ?thesis using run q by (auto simp: resolveH_def)
  next
    case (Inr x)
    then obtain rc t where x: "buildMemoReadContext (me_svc env) (GetUserID ctx) (Some m) shared s = Inr (rc, t)" by (cases x) simp
    then have "r = Inr rc" "s' = t" using run by (auto simp: resolveH_def)
    then show ?thesis using buildMemoReadContext_caller [OF q'(1) me_store [OF assms] x] q'(2) by (auto simp: quiet_def)
  qed
qed

lemma checkMemoReadAccess_state:
  "checkMemoReadAccess svc uid memo s = Inr s' \<Longrightarrow> \<exists>rc. buildMemoReadContext svc uid memo None s = Inr (rc, s')"
  by (auto simp: checkMemoReadAccess_def result_simps split: option.splits)

lemma answers_check_read:
  assumes "serves_store env"
  shows "answers d (\<lambda>_. reader_allowed (me_svc env) (GetUserID ctx) d (fst memo)) (check_read env ctx memo)"
  unfolding answers_def
proof (intro allI impI)
  fix s r s'
  assume q: "quiet d s" and run: "check_read env ctx memo s = (r, s')"
  have q': "run_inv s" "st_db s = d" using q by (simp_all add: quiet_def)
  show "quiet d s' \<and> (\<forall>a. r = Inr a \<longrightarrow> reader_allowed (me_svc env) (GetUserID ctx) d (fst memo))"
  proof (cases "checkMemoReadAccess (me_svc env) (GetUserID ctx) (Some (fst memo)) s")
    case (Inl e)
    then show ?thesis using run q by (auto simp: check_read_def checkH_def)
  next
    case (Inr t)
    obtain rc where "buildMemoReadContext (me_svc env) (GetUserID ctx) (Some (fst memo)) None s = Inr (rc, t)"
      using checkMemoReadAccess_state [OF Inr] by blast
    from buildMemoReadContext_caller [OF q'(1) me_store [OF assms] this] have "quiet d t" using q'(2) by (simp add: quiet_def)
    moreover have "reader_allowed (me_svc env) (GetUserID ctx) d (fst memo)"
      using checkMemoReadAccess_allowed [OF q'(1) me_store [OF assms], of "GetUserID ctx" "fst memo"] Inr q'(2) by auto
    ultimately show ?thesis using run Inr by (auto simp: check_read_def checkH_def)
  qed
qed

lemma answers_tryH: "answers d Q m \<Longrightarrow> answers d (\<lambda>b. b \<longrightarrow> Q ()) (tryH m)"
  by (fastforce simp: answers_def tryH_def split: prod.splits sum.splits)

lemma quietly_list_users: "quietly d (callH f (keepE (Store_ListUsers rng q)))"
  by (rule answers_kept_call) (use run_inv_list in blast)

lemma quietly_listUsersByID: "quietly d (listUsersByID env f ids)"
  unfolding listUsersByID_def
  by (intro answers_if answers_bindH [OF quietly_list_users] answers_liftH) simp_all

lemma quietly_listUsersByIDWithExisting: "quietly d (listUsersByIDWithExisting env f ids existing)"
  unfolding listUsersByIDWithExisting_def Let_def
  by (intro answers_if answers_bindH [OF quietly_listUsersByID] answer_rules) simp_all

lemma quietly_convertReactions: "quietly d (convertReactionsFromStoreWithCreators env f reactions creatorMap name)"
  unfolding convertReactionsFromStoreWithCreators_def
  by (intro answers_if answers_bindH [OF quietly_listUsersByIDWithExisting] answer_rules) simp_all

section \<open>Memos and relations that are told\<close>

text \<open>A memo as it was read from the table, which the caller may read; the name of such a memo.\<close>

definition readable_memo :: "'s APIV1Service \<Rightarrow> int32 \<Rightarrow> db \<Rightarrow> stored_memo \<Rightarrow> bool" where
  "readable_memo svc uid d memo =
     (\<exists>row b p. row \<in> set (db_memo d) \<and> reader_allowed svc uid d row \<and> memo = (memo_of_row b p row, parent_uid d (m_ID row)))"

definition known_name :: "'s APIV1Service \<Rightarrow> int32 \<Rightarrow> db \<Rightarrow> string \<Rightarrow> bool" where
  "known_name svc uid d name = (\<exists>row \<in> set (db_memo d). name = buildMemoName (m_UID row) \<and> reader_allowed svc uid d row)"

definition relation_names :: "MemoRelationMessage \<Rightarrow> string list" where
  "relation_names v = [vr_Name (vr_Memo v), vr_Name (vr_RelatedMemo v)]"

definition told :: "'s APIV1Service \<Rightarrow> int32 \<Rightarrow> db \<Rightarrow> MemoRelationMessage list \<Rightarrow> bool" where
  "told svc uid d vs = (\<forall>v \<in> set vs. \<forall>n \<in> set (relation_names v). known_name svc uid d n)"

lemma readable_memo_name: "readable_memo svc uid d memo \<Longrightarrow> known_name svc uid d (buildMemoName (m_UID (fst memo)))"
  by (auto simp: readable_memo_def known_name_def)

lemma relations_of_in: "v \<in> set (relations_of ids message rs i) \<Longrightarrow> \<exists>r \<in> set rs. message r = Some v"
  by (auto simp: relations_of_def split: if_split_asm option.split_asm)

lemma relations_of_told:
  assumes "\<And>i u. (i, u) \<in> set uids \<Longrightarrow> known_name svc uid d (buildMemoName u)"
  shows "told svc uid d (relations_of ids (relation_message (filled uids) snippets) rs i)"
proof -
  have "known_name svc uid d n" if v: "relation_message (filled uids) snippets r = Some v" and n: "n \<in> set (relation_names v)" for r v n
  proof -
    obtain a b where ab: "filled uids (rel_memo_id r) = Some a" "filled uids (rel_related_memo_id r) = Some b"
        "n = MemoNamePrefix @ a \<or> n = MemoNamePrefix @ b"
      using v n by (auto simp: relation_message_def relation_names_def Let_def split: option.split_asm)
    then have "(rel_memo_id r, a) \<in> set uids" "(rel_related_memo_id r, b) \<in> set uids" by (auto dest: map_of_SomeD)
    then show ?thesis using assms ab(3) by (auto simp: buildMemoName_def)
  qed
  then show ?thesis by (auto simp: told_def dest!: relations_of_in)
qed

lemma answers_get_memo:
  "answers d (\<lambda>memo. \<forall>m. memo = Some m \<longrightarrow> (\<exists>row p. row \<in> set (db_memo d) \<and> memo_matches q d row
      \<and> m = (memo_of_row (fq_ExcludeContent q) p row, parent_uid d (m_ID row)))) (get_memo env f q)"
  unfolding get_memo_def
proof (rule answers_query, intro allI impI)
  fix memo m
  assume "Store_GetMemo (me_memo_filter env) (me_memo_payload env) q d = Inr memo" "memo = Some m"
  then have "Store_GetMemo (me_memo_filter env) (me_memo_payload env) q d = Inr (Some (fst m, snd m))" by simp
  then obtain row p where "row \<in> set (db_memo d)" "memo_matches q d row" "fst m = memo_of_row (fq_ExcludeContent q) p row"
      "snd m = parent_uid d (m_ID row)" by (rule Store_GetMemo_row)
  then show "\<exists>row p. row \<in> set (db_memo d) \<and> memo_matches q d row \<and> m = (memo_of_row (fq_ExcludeContent q) p row, parent_uid d (m_ID row))"
    by (metis prod.collapse)
qed

lemma answers_find_memo:
  "answers d (\<lambda>m. \<exists>row p. row \<in> set (db_memo d) \<and> memo_matches q d row
      \<and> m = (memo_of_row (fq_ExcludeContent q) p row, parent_uid d (m_ID row))) (find_memo env f q)"
  unfolding find_memo_def by (rule answers_bindH [OF answers_get_memo]) (intro answers_option answers_liftH; simp)

text \<open>A listing under the scope of the caller.\<close>

lemma answers_list_memos:
  assumes "caller_scope svc d uid = Some (scope, cur)" "fq_Access q = Some scope"
  shows "answers d (\<lambda>ms. \<forall>m \<in> set ms. readable_memo svc uid d m) (list_memos env f q)"
  unfolding list_memos_def
proof (rule answers_query, intro ballI)
  fix ms m
  assume "DB_ListMemos (me_memo_filter env) (me_memo_payload env) q d = Inr ms" "m \<in> set ms"
  then obtain row p where row: "row \<in> set (db_memo d)" "memo_matches q d row" "fst m = memo_of_row (fq_ExcludeContent q) p row"
      "snd m = parent_uid d (m_ID row)"
    using DB_ListMemos_rows [of "me_memo_filter env" "me_memo_payload env" q d ms "fst m" "snd m"] by (metis prod.collapse)
  then have "memo_listed d scope row" using assms(2) by (simp add: memo_matches_def access_true_iff)
  then have "reader_allowed svc uid d row" using assms(1) by (auto simp: reader_allowed_def)
  with row show "readable_memo svc uid d m" unfolding readable_memo_def by (metis prod.collapse)
qed

lemma quietly_list_relations: "quietly d (list_relations env f q)"
  unfolding list_relations_def by (intro answers_query) simp

lemma batch_told:
  assumes "\<forall>m \<in> set ms. readable_memo svc uid d m"
  shows "told svc uid d (relations_of ids (relation_message (filled (map (\<lambda>(m, _). (m_ID m, m_UID m)) ms)) snippets) rs i)"
proof (rule relations_of_told)
  fix i u
  assume "(i, u) \<in> set (map (\<lambda>(m, _). (m_ID m, m_UID m)) ms)"
  then obtain m where "m \<in> set ms" "u = m_UID (fst m)" by auto
  then show "known_name svc uid d (buildMemoName u)" using assms readable_memo_name by blast
qed

lemma answers_batchConvertMemoRelations:
  assumes env: "serves_store env" and memos: "\<forall>m \<in> set memos. readable_memo (me_svc env) (GetUserID ctx) d m"
  shows "answers d (\<lambda>relationMap. \<forall>i. told (me_svc env) (GetUserID ctx) d (relationMap i))
    (batchConvertMemoRelations env ctx memos includeSnippets)"
  unfolding batchConvertMemoRelations_def Let_def
  apply (rule answers_if)
   apply (rule answers_liftH, auto simp: told_def) [1]
  apply (rule answers_bindH [OF answers_resolve_scope [OF env]])
  apply (rule answers_prod, simp only: prod.case)
  apply (rule answers_bindH [OF quietly_list_relations])+
  apply (rule answers_bindH [OF answers_liftH [OF TrueI]])
  apply (rule answers_bindH [where Q = "\<lambda>ms. \<forall>m \<in> set ms. readable_memo (me_svc env) (GetUserID ctx) d m"])
   apply (rule answers_if)
    apply (rule answers_liftH, simp)
   apply (rule answers_list_memos, assumption, simp)
  apply (rule answers_bindH [OF answers_liftH [OF TrueI]])
  apply (rule answers_liftH, drule Inr_inject, hypsubst)
  apply (rule allI, rule batch_told)
  using memos by auto

section \<open>The message of a memo\<close>

text \<open>The place of a memo is told to its author and to the active members of the space.\<close>

definition place_told :: "int32 \<Rightarrow> db \<Rightarrow> 'p Memo \<Rightarrow> string \<Rightarrow> bool" where
  "place_told uid d m name =
     (\<exists>u sp. caller_of d uid = Some (Some u) \<and> sp \<in> set (db_space d) \<and> m_SpaceID m = Some (sp_id sp)
        \<and> (u_ID u = m_CreatorID m \<or> active_member_of d (sp_id sp) (u_ID u)) \<and> name = buildSpaceName (sp_uid sp))"

lemma place_told_row [simp]: "place_told uid d (memo_of_row b p m) name = place_told uid d m name"
  by (simp add: place_told_def)

lemma Store_GetSpace_row:
  "Store_GetSpace (no_find_space\<lparr>fs_ID := Some sid\<rparr>) d = Some sp \<Longrightarrow> \<exists>r \<in> set (db_space d). sp_id r = sid \<and> sp_uid r = Space_UID sp"
  unfolding Store_GetSpace_def
  by (drule first_row_in)
    (auto simp: DB_ListSpaces_def no_find_space_def sql_limit_def opt_eq_def space_of_row_def)

lemma answers_project:
  assumes cur: "caller_of d uid = Some cur"
  shows "answers d (\<lambda>place. \<forall>n. place = Some n \<longrightarrow> place_told uid d m n)
    (projectMemoCollaborationContext m (Some (read_context d m cur anon shared)))"
proof (cases "m_SpaceID m")
  case None
  then show ?thesis by (auto simp: projectMemoCollaborationContext_def intro!: answers_liftH)
next
  case (Some sid)
  show ?thesis
    unfolding projectMemoCollaborationContext_def Some prod.case option.case
    apply (intro answers_if answers_option)
        apply (auto intro!: answers_liftH) [4]
    apply (rule answers_bindH [OF answers_query [where Q = "\<lambda>sp. sp = Store_GetSpace (no_find_space\<lparr>fs_ID := Some sid\<rparr>) d"]])
     apply simp
    apply (intro answers_option answers_if)
      apply (auto intro!: answers_liftH) [2]
    apply (rule answers_liftH)
    using cur Some by (auto simp: read_context_def viewer_member_def place_told_def dest!: sym [of _ "Store_GetSpace _ _"] Store_GetSpace_row)
qed

lemma answers_place:
  assumes "\<forall>r. rc = Some r \<longrightarrow> (\<exists>cur anon. caller_of d uid = Some cur \<and> r = read_context d m cur anon None)"
  shows "answers d (\<lambda>place. \<forall>n. place = Some n \<longrightarrow> place_told uid d m n) (projectMemoCollaborationContext m rc)"
proof (cases rc)
  case None
  then show ?thesis by (auto simp: projectMemoCollaborationContext_def intro!: answers_liftH split: option.split)
next
  case (Some r)
  then show ?thesis using assms answers_project by blast
qed

lemma answers_visible_parent:
  assumes env: "serves_store env"
  shows "answers d (\<lambda>parent. \<forall>n. parent = Some n \<longrightarrow> known_name (me_svc env) (GetUserID ctx) d n) (visible_parent env ctx uid)"
proof (cases uid)
  case None
  then show ?thesis by (auto simp: visible_parent_def intro!: answers_liftH)
next
  case (Some u)
  show ?thesis
    unfolding visible_parent_def Some option.case
    apply (rule answers_bindH [OF answers_get_memo])
    apply (rule answers_option)
     apply (auto intro!: answers_liftH) [1]
    apply (rule answers_bindH [OF answers_tryH [OF answers_check_read [OF env]]])
    apply (rule answers_liftH)
    by (auto simp: known_name_def memo_matches_def no_find_memo_def opt_eq_def split: if_split_asm)
qed

definition answer_of :: "memo_env \<Rightarrow> request_context \<Rightarrow> db \<Rightarrow> stored_memo \<Rightarrow> AttachmentPayload AttachmentRead list \<Rightarrow>
    MemoRelationMessage list \<Rightarrow> MemoMessage \<Rightarrow> bool" where
  "answer_of env ctx d memo attachments relations v =
     (vmo_Name v = buildMemoName (m_UID (fst memo)) \<and> vmo_Content v = m_Content (fst memo)
      \<and> vmo_Relations v = relations \<and> vmo_Attachments v = map (convertAttachmentFromStore (me_transcode env)) attachments
      \<and> (\<forall>n. vmo_Parent v = Some n \<longrightarrow> known_name (me_svc env) (GetUserID ctx) d n)
      \<and> (\<forall>n. vmo_Space v = Some n \<longrightarrow> place_told (GetUserID ctx) d (fst memo) n))"

lemma answers_convert_with_creators:
  assumes env: "serves_store env"
  shows "answers d (answer_of env ctx d memo attachments relations)
    (convertMemoFromStoreWithCreators env ctx memo reactions attachments relations creatorMap)"
  unfolding convertMemoFromStoreWithCreators_def Let_def
  apply (rule answers_option)
   apply (rule answers_liftH, simp)
  apply (rule answers_bindH [where Q = "\<lambda>rc. \<forall>r. rc = Some r \<longrightarrow>
      (\<exists>cur anon. caller_of d (GetUserID ctx) = Some cur \<and> r = read_context d (fst memo) cur anon None)"])
   apply (rule answers_if)
    apply (rule answers_liftH, simp)
   apply (rule answers_wrapH, rule answers_bindH [OF answers_read_context [OF env]], rule answers_liftH, fastforce)
  apply (rule answers_bindH [where Q = "\<lambda>place. \<forall>n. place = Some n \<longrightarrow> place_told (GetUserID ctx) d (fst memo) n"])
   apply (rule answers_wrapH, rule answers_place)
   apply assumption
  apply (rule answers_bindH [OF answers_visible_parent [OF env]])
  apply (rule answers_bindH [OF quietly_convertReactions])
  apply (rule answers_bindH [OF answers_liftH [OF TrueI]])
  apply (rule answers_liftH)
  by (auto simp: answer_of_def)

lemma answers_convert:
  assumes env: "serves_store env"
  shows "answers d (answer_of env ctx d memo attachments relations) (convertMemoFromStore env ctx memo reactions attachments relations)"
  unfolding convertMemoFromStore_def
  by (rule answers_bindH [OF quietly_listUsersByID answers_convert_with_creators [OF env]])

end
