(* ===== verification/Memo_Disclosure.thy ===== *)
theory Memo_Disclosure
  imports Memo_Answers Memo_Invariant
begin

text \<open>
  What a caller learns from the handlers that read memos: the names in an answer are those of memos that he
  may read, the place of a memo is told only to its author and the members of the space, and a share link opens one
  memo.
\<close>

section \<open>Attachments and names\<close>

definition attached :: "db \<Rightarrow> AttachmentPayload AttachmentRead \<Rightarrow> bool" where
  "attached d a = (ar_MemoUID a = map_option m_UID (attachment_memo d (ar_Row a)))"

lemma answers_list_attachments:
  "answers d (\<lambda>as. \<forall>a \<in> set as. attached d a \<and> (\<exists>f. attachment_matches q d (ar_Row a, f))) (list_attachments env f q)"
  unfolding list_attachments_def
proof (rule answers_query, intro ballI)
  fix as a
  assume run: "Store_ListAttachments (me_attachment_filter env) (me_attachment_payload env) q d = Inr as" and a: "a \<in> set as"
  obtain q' where q': "DB_ListAttachments (me_attachment_filter env) (me_attachment_payload env) q' d = Inr as"
      "attachment_matches q' d = attachment_matches q d"
  proof (cases "fa_Limit q = None \<and> fa_MemoID q = None \<and> fa_MemoIDList q = [] \<and> \<not> fa_SkipDefaultLimit q")
    case True
    show ?thesis
      by (rule that [of "q\<lparr>fa_Limit := Some (if fa_GetBlob q then 10 else 100)\<rparr>"])
        (use run True in \<open>simp_all add: Store_ListAttachments_def Let_def attachment_matches_def fun_eq_iff split: prod.split\<close>)
  next
    case False
    then show ?thesis using that [of q] run by (auto simp: Store_ListAttachments_def Let_def)
  qed
  from DB_ListAttachments_rows [OF q'(1) a] q'(2) show "attached d a \<and> (\<exists>f. attachment_matches q d (ar_Row a, f))"
    unfolding attached_def by metis
qed

text \<open>The attachments of a memo of the table name this memo.\<close>

definition belongs :: "db \<Rightarrow> int32 \<Rightarrow> AttachmentPayload AttachmentRead \<Rightarrow> bool" where
  "belongs d i a = (attached d a \<and> at_MemoID (ar_Row a) = Some i)"

lemma answers_attachments_of: "answers d (\<lambda>as. \<forall>a \<in> set as. belongs d i a) (attachments_of env i)"
  unfolding attachments_of_def
  by (rule answers_weaken [OF answers_list_attachments]) (auto simp: belongs_def attachment_matches_def no_find_attachment_def)

lemma memo_row_of:
  assumes "db_keys d" "row \<in> set (db_memo d)"
  shows "memo_row d (m_ID row) = Some row"
proof -
  have "memo_row d (m_ID row) \<noteq> None" using assms(2) by (auto simp: memo_row_def filter_empty_conv simp del: not_None_eq)
  then obtain row' where r: "memo_row d (m_ID row) = Some row'" by blast
  have "distinct (map m_ID (db_memo d))" using assms(1) by (simp add: db_keys_def)
  from memo_row_unique [OF this r assms(2) refl] r show ?thesis by simp
qed

definition attachment_names :: "AttachmentMessage list \<Rightarrow> string list" where
  "attachment_names as = List.map_filter va_Memo as"

lemma attachment_names_in:
  assumes "db_keys d" "row \<in> set (db_memo d)" "\<forall>a \<in> set as. belongs d (m_ID row) a"
    and "n \<in> set (attachment_names (map (convertAttachmentFromStore t) as))"
  shows "n = buildMemoName (m_UID row)"
proof -
  obtain a where a: "a \<in> set as" "va_Memo (convertAttachmentFromStore t a) = Some n"
    using assms(4) by (auto simp: attachment_names_def List.map_filter_def)
  then have "ar_MemoUID a = Some (m_UID row)"
    using assms(3) memo_row_of [OF assms(1,2)] by (auto simp: belongs_def attached_def attachment_memo_def)
  then show ?thesis using a(2) by (auto simp: convertAttachmentFromStore_def buildMemoName_def split: if_split_asm)
qed

text \<open>The memos that a message names.\<close>

definition named_memos :: "MemoMessage \<Rightarrow> string list" where
  "named_memos v = vmo_Name v # (case vmo_Parent v of None \<Rightarrow> [] | Some n \<Rightarrow> [n])
     @ concat (map relation_names (vmo_Relations v)) @ attachment_names (vmo_Attachments v)"

definition discreet :: "'s APIV1Service \<Rightarrow> int32 \<Rightarrow> db \<Rightarrow> MemoMessage \<Rightarrow> bool" where
  "discreet svc uid d v =
     ((\<forall>n \<in> set (named_memos v). known_name svc uid d n)
      \<and> (\<forall>n. vmo_Space v = Some n \<longrightarrow> (\<exists>m \<in> set (db_memo d). vmo_Name v = buildMemoName (m_UID m) \<and> place_told uid d m n)))"

lemma answer_discreet:
  assumes "db_keys d" "readable_memo (me_svc env) (GetUserID ctx) d memo"
    and "answer_of env ctx d memo attachments relations v"
    and "told (me_svc env) (GetUserID ctx) d relations" "\<forall>a \<in> set attachments. belongs d (m_ID (fst memo)) a"
  shows "discreet (me_svc env) (GetUserID ctx) d v"
proof -
  obtain row b p where row: "row \<in> set (db_memo d)" "reader_allowed (me_svc env) (GetUserID ctx) d row"
      "memo = (memo_of_row b p row, parent_uid d (m_ID row))"
    using assms(2) by (auto simp: readable_memo_def)
  then have own: "known_name (me_svc env) (GetUserID ctx) d (buildMemoName (m_UID row))" by (auto simp: known_name_def)
  have "n = buildMemoName (m_UID row)" if "n \<in> set (attachment_names (vmo_Attachments v))" for n
    using that assms(3,5) row(3) by (intro attachment_names_in [OF assms(1) row(1)]) (auto simp: answer_of_def)
  then show ?thesis
    using assms(3,4) own row unfolding discreet_def named_memos_def told_def answer_of_def
    by (auto split: option.splits)
qed

section \<open>The handlers\<close>

lemma quietly_list_reactions: "quietly d (list_reactions q)"
  unfolding list_reactions_def by (rule answers_query) simp

lemma readable_row:
  "row \<in> set (db_memo d) \<Longrightarrow> reader_allowed svc uid d row \<Longrightarrow> readable_memo svc uid d (memo_of_row b p row, parent_uid d (m_ID row))"
  unfolding readable_memo_def by blast

lemma answers_GetMemo:
  assumes env: "serves_store env" and keys: "db_keys d"
  shows "answers d (discreet (me_svc env) (GetUserID ctx) d) (GetMemo env ctx name)"
  unfolding GetMemo_def memo_uid_of_def
proof (rule answers_bindH [OF answers_liftH [OF TrueI]], rule answers_bindH [OF answers_find_memo],
    rule answers_bindH [OF answers_check_read [OF env]])
  fix uid and memo :: stored_memo
  assume "\<exists>row p. row \<in> set (db_memo d) \<and> memo_matches (memo_by_uid uid) d row
      \<and> memo = (memo_of_row (fq_ExcludeContent (memo_by_uid uid)) p row, parent_uid d (m_ID row))"
    and "reader_allowed (me_svc env) (GetUserID ctx) d (fst memo)"
  then have memo: "readable_memo (me_svc env) (GetUserID ctx) d memo" by (auto intro: readable_row)
  show "answers d (discreet (me_svc env) (GetUserID ctx) d)
      (bindH (list_reactions (reactions_of (m_ID (fst memo)))) (\<lambda>reactions.
       bindH (attachments_of env (m_ID (fst memo))) (\<lambda>attachments.
       bindH (wrapH (wrap_api ''failed to load memo relations'') (loadMemoRelations env ctx memo)) (\<lambda>relations.
         convert_found (Status NotFound ''memo creator not found'' NoCause)
           (convertMemoFromStore env ctx memo reactions attachments relations)))))"
    apply (rule answers_bindH [OF quietly_list_reactions])
    apply (rule answers_bindH [OF answers_attachments_of])
    apply (rule answers_bindH [where Q = "told (me_svc env) (GetUserID ctx) d"])
     apply (unfold loadMemoRelations_def)
     apply (rule answers_wrapH, rule answers_bindH [OF answers_batchConvertMemoRelations [OF env]])
      apply (use memo in simp)
     apply (rule answers_liftH, use memo in auto)
    apply (unfold convert_found_def)
    apply (rule answers_wrapH, rule answers_weaken [OF answers_convert [OF env]])
    apply (rule answer_discreet [OF keys memo], assumption+)
    done
qed

lemma answers_checkH:
  assumes "\<And>s s'. run_inv s \<Longrightarrow> m s = Inr s' \<Longrightarrow> run_inv s' \<and> st_db s' = st_db s"
  shows "quietly d (checkH m)"
  unfolding answers_def
proof (intro allI impI conjI TrueI)
  fix s r s'
  assume q: "quiet d s" and run: "checkH m s = (r, s')"
  show "quiet d s'"
  proof (cases "m s")
    case (Inl e)
    then show ?thesis using q run by (simp add: checkH_def)
  next
    case (Inr t)
    then have "s' = t" using run by (simp add: checkH_def)
    then show ?thesis using assms [OF _ Inr] q by (simp add: quiet_def)
  qed
qed

lemma validateFilterSpaceAccess_reads:
  assumes "svc_Store svc = MemoReadStore_of rng" "run_inv s" "validateFilterSpaceAccess svc driver text engine user s = Inr s'"
  shows "run_inv s' \<and> st_db s' = st_db s"
proof (cases "Compile engine text")
  case (Inl e)
  then show ?thesis using assms(3) by (simp only: validateFilterSpaceAccess_def Let_def orElse_def sum.case bindE_simps sum.distinct)
next
  case (Inr program)
  obtain names where names: "(if names = [] then Inr s else (case user of
        None \<Rightarrow> Inl (Status Unauthenticated ''user not authenticated'' NoCause)
      | Some u \<Rightarrow> resolve_names svc (u_ID u) (sort names) s)) = Inr s'"
    by (rule validated_names [OF assms(3) Inr]) (rule that)
  show ?thesis
  proof (cases "names = []")
    case False
    then obtain u where "user = Some u" using names by (cases user) simp_all
    then have "resolve_names svc (u_ID u) (sort names) s = Inr s'" using names False by simp
    from resolve_names_members [OF assms(1,2) this] show ?thesis by blast
  qed (use names assms(2) in simp)
qed

lemma quietly_validate:
  assumes "serves_store env"
  shows "quietly d (checkH (validate_with engine (me_svc env) driver text user))"
proof (rule answers_checkH)
  fix s s'
  assume inv: "run_inv s" and run: "validate_with engine (me_svc env) driver text user s = Inr s'"
  show "run_inv s' \<and> st_db s' = st_db s"
  proof (cases engine)
    case (Inr eng)
    then have "validateFilterSpaceAccess (me_svc env) driver text eng user s = Inr s'" using run by (simp add: validate_with_def)
    then show ?thesis by (rule validateFilterSpaceAccess_reads [OF me_store [OF assms] inv])
  qed (use run in \<open>simp add: validate_with_def\<close>)
qed

lemma answers_skip_missing: "answers d Q m \<Longrightarrow> answers d (\<lambda>v. \<forall>x. v = Some x \<longrightarrow> Q x) (skip_missing m)"
  by (fastforce simp: answers_def skip_missing_def split: prod.splits sum.splits if_splits)

lemma answers_convert_memos:
  "\<forall>memo \<in> set memos. answers d Q (convert memo) \<Longrightarrow> answers d (\<lambda>vs. \<forall>v \<in> set vs. Q v) (convert_memos convert memos)"
proof (induction memos)
  case (Cons memo memos)
  then have "answers d Q (convert memo)" "answers d (\<lambda>vs. \<forall>v \<in> set vs. Q v) (convert_memos convert memos)" by simp_all
  then show ?case
    unfolding convert_memos.simps
    by (auto intro!: answers_bindH [OF answers_skip_missing] answers_bindH [where m = "convert_memos convert memos"] answers_liftH
        split: option.split_asm)
qed (auto intro!: answers_liftH)

lemma order_fields_access: "order_fields fs a b q = Inr (c, q') \<Longrightarrow> fq_Access q' = fq_Access q"
  by (induction fs a b q rule: order_fields.induct) (auto simp: Let_def split: list.split_asm if_split_asm)

lemma parseMemoOrderBy_access: "parseMemoOrderBy text q = Inr q' \<Longrightarrow> fq_Access q' = fq_Access q"
  by (auto simp: parseMemoOrderBy_def Let_def result_simps dest!: order_fields_access split: if_split_asm)

text \<open>A step whose value does not matter.\<close>

lemmas answers_then = answers_bindH [OF answers_liftH [OF TrueI]]

lemma answers_pair: "(\<And>x y. answers d Q (f x y)) \<Longrightarrow> answers d Q (case p of (x, y) \<Rightarrow> f x y)"
  by (cases p) simp

lemma answers_memo_messages:
  assumes env: "serves_store env" and keys: "db_keys d" and memos: "\<forall>m \<in> set memos. readable_memo (me_svc env) (GetUserID ctx) d m"
  shows "answers d (\<lambda>vs. \<forall>v \<in> set vs. discreet (me_svc env) (GetUserID ctx) d v) (memo_messages env ctx memos)"
  unfolding memo_messages_def Let_def
  apply (rule answers_bindH [OF quietly_list_reactions])
  apply (rule answers_bindH [OF answers_list_attachments])
  apply (rule answers_bindH [OF answers_wrapH [OF answers_batchConvertMemoRelations [OF env memos]]])
  apply (rule answers_bindH [OF quietly_listUsersByID])
  apply (rule answers_convert_memos, intro ballI)
  apply (rule answers_weaken [OF answers_convert_with_creators [OF env]])
  apply (rule answer_discreet [OF keys])
     apply (use memos in blast)
    apply assumption
   apply simp
  apply (auto simp: belongs_def)
  done

lemma answers_ListMemos:
  assumes env: "serves_store env" and keys: "db_keys d"
  shows "answers d (\<lambda>(vs, token). \<forall>v \<in> set vs. discreet (me_svc env) (GetUserID ctx) d v) (ListMemos env ctx request)"
  unfolding ListMemos_def Let_def
  apply (rule answers_bindH [OF answers_wrapH [OF answers_resolve_scope [OF env]]])
  apply (rule answers_prod, simp only: prod.case)
  apply (intro answers_if)
    apply (rule answers_liftH, simp)
   apply (rule answers_liftH, auto) [1]
  subgoal for sc scope cur
    apply (rule answers_bindH [where Q = "\<lambda>q. fq_Access q = Some scope"])
     apply (rule answers_liftH)
     apply (auto simp: orElse_Inr_iff dest!: parseMemoOrderBy_access split: if_split_asm) [1]
    apply (rule answers_bindH [where Q = "\<lambda>_. True"])
     apply (rule answers_if)
      apply (rule answers_liftH, simp)
     apply (unfold validateMemoFilterForUser_def, rule quietly_validate [OF env])
    apply (rule answers_then, rule answers_pair)
    apply (rule answers_bindH [OF answers_list_memos [where cur = cur]], assumption, simp)
    apply (rule answers_bindH [where Q = "\<lambda>(ms, token). \<forall>m \<in> set ms. readable_memo (me_svc env) (GetUserID ctx) d m"])
     apply (rule answers_liftH)
     apply (auto simp: result_simps dest: in_set_takeD split: if_split_asm) [1]
    apply (rule answers_prod, simp only: prod.case)
    apply (rule answers_if)
     apply (rule answers_liftH, auto) [1]
    apply (rule answers_bindH [OF answers_memo_messages [OF env keys]], assumption)
    apply (rule answers_liftH, auto)
    done
  done

lemma told_slice: "told svc uid d vs \<Longrightarrow> told svc uid d (drop m (take n vs))"
  by (auto simp: told_def dest!: in_set_dropD in_set_takeD)

lemma answers_ListMemoRelations:
  assumes env: "serves_store env"
  shows "answers d (\<lambda>(vs, token). told (me_svc env) (GetUserID ctx) d vs) (ListMemoRelations env ctx name psize token)"
  unfolding ListMemoRelations_def memo_uid_of_def Let_def
  apply (rule answers_then)
  apply (rule answers_bindH [OF answers_find_memo])
  apply (rule answers_bindH [OF answers_check_read [OF env]])
  apply (rule answers_bindH [OF answers_wrapH [OF answers_batchConvertMemoRelations [OF env]]])
   apply (auto intro: readable_row) [1]
  apply (rule answers_then, rule answers_pair)
  apply (rule answers_then)
  apply (rule answers_liftH)
  apply (auto intro: told_slice)
  done

section \<open>Share links\<close>

definition share_open :: "int \<Rightarrow> memo_share_row \<Rightarrow> bool" where
  "share_open now sh = (case sh_expires_ts sh of None \<Rightarrow> True | Some t \<Rightarrow> now \<le> t)"

text \<open>The message that a link opens: of one live memo, without its surroundings.\<close>

definition opened :: "request_context \<Rightarrow> db \<Rightarrow> int32 \<Rightarrow> MemoMessage \<Rightarrow> bool" where
  "opened ctx d i v =
     (\<exists>m \<in> set (db_memo d). m_ID m = i \<and> m_RowStatus m = Normal \<and> m_Visibility m \<noteq> SpaceAudience
        \<and> set (named_memos v) = {buildMemoName (m_UID m)} \<and> vmo_Content v = m_Content m
        \<and> (\<forall>n. vmo_Space v = Some n \<longrightarrow> place_told (GetUserID ctx) d m n))"

lemma answers_getActiveMemoShare:
  "answers d (\<lambda>ms. \<exists>sh \<in> set (db_memo_share d). sh_uid sh = token \<and> share_open (me_now env) sh \<and> ms_MemoID ms = sh_memo_id sh)
    (getActiveMemoShare env token)"
  unfolding getActiveMemoShare_def
proof (rule answers_bindH [OF answers_query [where Q = "\<lambda>ms. \<forall>x. ms = Some x \<longrightarrow>
    (\<exists>sh \<in> set (db_memo_share d). sh_uid sh = token \<and> x = share_of_row sh)"]])
  fix ms
  assume "Inr (DB_GetMemoShare (no_find_share\<lparr>fms_UID := Some token\<rparr>) d) = Inr ms"
  then show "\<forall>x. ms = Some x \<longrightarrow> (\<exists>sh \<in> set (db_memo_share d). sh_uid sh = token \<and> x = share_of_row sh)"
    by (auto simp: DB_GetMemoShare_def no_find_share_def share_matches_def opt_eq_def dest!: first_row_in)
next
  fix ms :: "MemoShare option"
  assume "\<forall>x. ms = Some x \<longrightarrow> (\<exists>sh \<in> set (db_memo_share d). sh_uid sh = token \<and> x = share_of_row sh)"
  then show "answers d (\<lambda>ms. \<exists>sh \<in> set (db_memo_share d). sh_uid sh = token \<and> share_open (me_now env) sh \<and> ms_MemoID ms = sh_memo_id sh)
      (case ms of None \<Rightarrow> failH NotFound ''not found''
       | Some ms \<Rightarrow> if isMemoShareExpired (me_now env) ms then failH NotFound ''not found'' else returnH ms)"
    by (cases ms) (auto simp: share_of_row_def isMemoShareExpired_def share_open_def intro!: answers_liftH split: option.splits)
qed

lemma opened_answer:
  assumes keys: "db_keys d" and row: "row \<in> set (db_memo d)" "m_RowStatus row = Normal" "m_Visibility row \<noteq> SpaceAudience"
    and v: "answer_of env ctx d (memo_of_row False p row, parent) attachments [] v" "\<forall>a \<in> set attachments. belongs d (m_ID row) a"
  shows "opened ctx d (m_ID row) (v\<lparr>vmo_Parent := None\<rparr>)"
proof -
  have "n = buildMemoName (m_UID row)" if "n \<in> set (attachment_names (vmo_Attachments v))" for n
    using that v by (intro attachment_names_in [OF keys row(1) v(2)]) (auto simp: answer_of_def)
  then have "set (named_memos (v\<lparr>vmo_Parent := None\<rparr>)) = {buildMemoName (m_UID row)}"
    using v(1) by (auto simp: named_memos_def answer_of_def)
  moreover have "m_Content (memo_of_row False p row) = m_Content row" by (simp add: memo_of_row_def)
  ultimately show ?thesis using row v(1) by (auto simp: opened_def answer_of_def)
qed

lemma answers_GetSharedMemo:
  assumes env: "serves_store env" and keys: "db_keys d"
  shows "answers d (\<lambda>v. \<exists>sh \<in> set (db_memo_share d). sh_uid sh = token \<and> share_open (me_now env) sh \<and> opened ctx d (sh_memo_id sh) v)
    (GetSharedMemo env ctx token)"
  unfolding GetSharedMemo_def
  apply (rule answers_bindH [OF answers_getActiveMemoShare])
  apply (rule answers_bindH [OF answers_get_memo])
  apply (rule answers_option)
   apply (rule answers_liftH, simp)
  apply (unfold Let_def)
  apply (rule answers_if)
   apply (rule answers_liftH, simp)
  apply (rule answers_bindH [OF answers_wrapH [OF answers_read_context [OF env]]])
  apply (rule answers_if)
   apply (rule answers_liftH, simp)
  apply (rule answers_bindH [OF quietly_list_reactions])
  apply (rule answers_bindH [OF answers_attachments_of])
  apply (unfold convert_found_def)
  apply (rule answers_bindH [OF answers_wrapH [OF answers_convert [OF env]]])
  apply (rule answers_liftH)
  subgoal for ms found memo rc reactions attachments v answer
  proof -
    assume share: "\<exists>sh \<in> set (db_memo_share d). sh_uid sh = token \<and> share_open (me_now env) sh \<and> ms_MemoID ms = sh_memo_id sh"
      and found: "\<forall>m. found = Some m \<longrightarrow> (\<exists>row p. row \<in> set (db_memo d) \<and> memo_matches (memo_by_id (ms_MemoID ms)) d row
        \<and> m = (memo_of_row (fq_ExcludeContent (memo_by_id (ms_MemoID ms))) p row, parent_uid d (m_ID row)))" "found = Some memo"
      and live: "\<not> (m_RowStatus (fst memo) \<noteq> Normal \<or> m_Visibility (fst memo) = SpaceAudience)"
      and v: "\<forall>a \<in> set attachments. belongs d (m_ID (fst memo)) a" "answer_of env ctx d memo attachments [] v"
      and answer: "Inr (v\<lparr>vmo_Parent := None\<rparr>) = Inr answer"
    obtain row p where row: "row \<in> set (db_memo d)" "m_ID row = ms_MemoID ms" "memo = (memo_of_row False p row, parent_uid d (m_ID row))"
      using found by (auto simp: memo_matches_def no_find_memo_def opt_eq_def)
    have "opened ctx d (m_ID row) (v\<lparr>vmo_Parent := None\<rparr>)"
      by (rule opened_answer [OF keys row(1)]) (use live v row in auto)
    then show ?thesis using share row(2) answer by auto
  qed
  done

text \<open>A token without an open share is answered as one that does not exist.\<close>

lemma GetSharedMemo_closed:
  assumes "\<forall>sh \<in> set (db_memo_share (st_db s)). sh_uid sh = token \<longrightarrow> \<not> share_open (me_now env) sh"
  shows "GetSharedMemo env ctx token s = (Inl (Status NotFound ''not found'' NoCause), s)"
proof -
  have "case DB_GetMemoShare (no_find_share\<lparr>fms_UID := Some token\<rparr>) (st_db s) of None \<Rightarrow> True
      | Some ms \<Rightarrow> isMemoShareExpired (me_now env) ms"
  proof (cases "DB_GetMemoShare (no_find_share\<lparr>fms_UID := Some token\<rparr>) (st_db s)")
    case (Some ms)
    then obtain sh where sh: "sh \<in> set (db_memo_share (st_db s))" "sh_uid sh = token" "ms = share_of_row sh"
      by (auto simp: DB_GetMemoShare_def no_find_share_def share_matches_def opt_eq_def dest!: first_row_in)
    then have "\<not> share_open (me_now env) sh" using assms by blast
    then show ?thesis using Some sh(3) by (simp add: share_open_def share_of_row_def isMemoShareExpired_def split: option.splits)
  qed simp
  then have "getActiveMemoShare env token s = (Inl (Status NotFound ''not found'' NoCause), s)"
    by (auto simp: getActiveMemoShare_def bindH_def query_def liftH_def split: option.splits)
  then show ?thesis by (simp add: GetSharedMemo_def bindH_error)
qed

end
