(* ===== verification/Reading_Properties.thy ===== *)
theory Reading_Properties
  imports Memo_Disclosure
begin

text \<open>
  The properties of the handlers that read memos, attachments and share links, with a sample instance: Ann and Bob,
  Ann's private memo that refers to a private and a public one of Bob's, and a link to it.
\<close>

section \<open>Names and places\<close>

text \<open>The name of a memo of the table that the check of one memo allows the caller to read.\<close>

definition readable_name :: "memo_env \<Rightarrow> request_context \<Rightarrow> UserSetting Store \<Rightarrow> string \<Rightarrow> bool" where
  "readable_name env ctx s n =
     (\<exists>m \<in> set (db_memo (st_db s)). n = buildMemoName (m_UID m)
        \<and> (\<exists>s'. checkMemoReadAccess (me_svc env) (GetUserID ctx) (Some m) s = Inr s'))"

lemma known_name_readable:
  assumes "serves_store env" "run_inv s"
  shows "known_name (me_svc env) (GetUserID ctx) (st_db s) n \<longleftrightarrow> readable_name env ctx s n"
  by (simp add: known_name_def readable_name_def checkMemoReadAccess_allowed [OF assms(2) me_store [OF assms(1)]])

lemma quiet_now: "run_inv s \<Longrightarrow> quiet (st_db s) s"
  by (simp add: quiet_def)

lemma answers_now:
  "answers (st_db s) Q m \<Longrightarrow> run_inv s \<Longrightarrow> m s = (r, s') \<Longrightarrow> st_db s' = st_db s \<and> (\<forall>a. r = Inr a \<longrightarrow> Q a)"
  using quiet_now [of s] unfolding answers_def by (blast dest: quiet_def [THEN iffD1])

text \<open>A message tells the place of its memo to the author and to the active members of the space.\<close>

definition place_kept :: "request_context \<Rightarrow> db \<Rightarrow> MemoMessage \<Rightarrow> bool" where
  "place_kept ctx d v =
     (\<forall>n. vmo_Space v = Some n \<longrightarrow> (\<exists>m \<in> set (db_memo d). vmo_Name v = buildMemoName (m_UID m) \<and> place_told (GetUserID ctx) d m n))"

text \<open>C21. Reading memos discloses neither a memo nor a place that is not the caller's to know. Whatever \<open>GetMemo\<close>,
  \<open>ListMemos\<close> or \<open>ListMemoRelations\<close> is asked for, with whatever filter, order and page token, it leaves the tables as they
  are; every memo that its answer names - the memo itself, the memo it comments on, both ends of its relations, the memo
  of each attachment - is one for which the check of a single read grants the caller access; and the space of a memo is
  named only to its active author and to active members of the space.\<close>

theorem memo_answers_name_readable_memos:
  assumes "reads_store (me_Server env)" "run_inv s"
  shows "(case GetMemo env ctx name s of (r, s') \<Rightarrow> st_db s' = st_db s
      \<and> (\<forall>v. r = Inr v \<longrightarrow> place_kept ctx (st_db s) v \<and> (\<forall>n \<in> set (named_memos v). readable_name env ctx s n)))
    \<and> (case ListMemos env ctx request s of (r, s') \<Rightarrow> st_db s' = st_db s
      \<and> (\<forall>vs token. r = Inr (vs, token) \<longrightarrow>
           (\<forall>v \<in> set vs. place_kept ctx (st_db s) v \<and> (\<forall>n \<in> set (named_memos v). readable_name env ctx s n))))
    \<and> (case ListMemoRelations env ctx name pageSize pageToken s of (r, s') \<Rightarrow> st_db s' = st_db s
      \<and> (\<forall>vs token. r = Inr (vs, token) \<longrightarrow> (\<forall>v \<in> set vs. \<forall>n \<in> set (relation_names v). readable_name env ctx s n)))"
proof -
  note keys = run_inv_keys [OF assms(2)] and names = known_name_readable [OF assms, symmetric]
  note get = answers_now [OF answers_GetMemo [OF assms(1) keys] assms(2)]
    and list = answers_now [OF answers_ListMemos [OF assms(1) keys] assms(2)]
    and relations = answers_now [OF answers_ListMemoRelations [OF assms(1)] assms(2)]
  show ?thesis
    by (intro conjI; clarsimp simp: names split: prod.splits)
      (use get list relations in \<open>fastforce simp: discreet_def told_def place_kept_def\<close>)+
qed

text \<open>Ann's note 1 refers to Bob's diary 2, which is private, and to his public note 3; the link \<open>tok\<close> opens note 1
  until second 100.\<close>

definition ann_memo :: "int32 \<Rightarrow> string \<Rightarrow> int32 \<Rightarrow> Visibility \<Rightarrow> string Memo" where
  "ann_memo i uid creator v = \<lparr>m_ID = i, m_UID = uid, m_RowStatus = Normal, m_CreatorID = creator, m_CreatedTs = i, m_UpdatedTs = i,
     m_Content = ''text'', m_Visibility = v, m_Pinned = False, m_Payload = [], m_SpaceID = None\<rparr>"

definition reading_state :: "UserSetting Store" where
  "reading_state = two_users\<lparr>st_db := (st_db two_users)\<lparr>
     db_memo := [ann_memo 1 ''note'' 1 Private, ann_memo 2 ''diary'' 2 Private, ann_memo 3 ''news'' 2 Public],
     db_memo_seq := 3,
     db_memo_relation := [\<lparr>rel_memo_id = 1, rel_related_memo_id = 2, rel_type = MemoRelationReference\<rparr>,
       \<lparr>rel_memo_id = 1, rel_related_memo_id = 3, rel_type = MemoRelationReference\<rparr>],
     db_memo_share := [\<lparr>sh_id = 1, sh_uid = ''tok'', sh_memo_id = 1, sh_creator_id = 1, sh_created_ts = 0, sh_expires_ts = Some 100\<rparr>],
     db_memo_share_seq := 1\<rparr>\<rparr>"

definition sample_filter :: "'r filter_lib" where
  "sample_filter = \<lparr>fl_cel = Inr (\<lambda>_. Inl (Errorf ''syntax error'' [])), fl_now = 0,
     fl_time = \<lparr>parse_RFC3339 = (\<lambda>_. Inl (Errorf ''parse'' [])), parse_Duration = (\<lambda>_. Inl (Errorf ''parse'' []))\<rparr>,
     fl_true = (\<lambda>_ _ _. True)\<rparr>"

definition reading_env :: memo_env where
  "reading_env = \<lparr>me_Server = plain_server, me_Pages = sx_Pages sample_env, me_memo_filter = sample_filter,
     me_attachment_filter = sample_filter, me_memo_payload = (\<lambda>_. Inr \<lparr>mp_Property = None, mp_Location = None, mp_Tags = []\<rparr>),
     me_attachment_payload = (\<lambda>_. Inr \<lparr>ap_MotionMedia = None, ap_MediaMetadata = None\<rparr>), me_snippet = Inr,
     me_transcode = Inr, me_now = 50, me_shortuuid = ''new''\<rparr>"

lemma reading_env_ok: "reads_store (me_Server reading_env)"
  by (simp add: reading_env_def plain_server_def reads_store_def)

lemma run_inv_tables:
  assumes "run_inv s" "db_user d = db_user (st_db s)" "db_space d = db_space (st_db s)" "db_space_member d = db_space_member (st_db s)"
    and "db_keys d"
  shows "run_inv (s\<lparr>st_db := d\<rparr>)"
proof -
  have "administered d"
    using assms(1-4) by (auto simp: run_inv_def people_inv_def administered_def admin_row_def user_normal_def)
  moreover have "user_cache_coherent (s\<lparr>st_db := d\<rparr>)"
    using assms(1) user_source_users [OF assms(2)] by (simp add: run_inv_def user_cache_coherent_def)
  ultimately show ?thesis using assms(5) by (simp add: run_inv_def people_inv_def)
qed

lemma reading_state_inv: "run_inv reading_state"
  unfolding reading_state_def
proof (rule run_inv_tables [OF two_users_inv])
  show "db_keys ((st_db two_users)\<lparr>db_memo := [ann_memo 1 ''note'' 1 Private, ann_memo 2 ''diary'' 2 Private, ann_memo 3 ''news'' 2 Public],
     db_memo_seq := 3,
     db_memo_relation := [\<lparr>rel_memo_id = 1, rel_related_memo_id = 2, rel_type = MemoRelationReference\<rparr>,
       \<lparr>rel_memo_id = 1, rel_related_memo_id = 3, rel_type = MemoRelationReference\<rparr>],
     db_memo_share := [\<lparr>sh_id = 1, sh_uid = ''tok'', sh_memo_id = 1, sh_creator_id = 1, sh_created_ts = 0, sh_expires_ts = Some 100\<rparr>],
     db_memo_share_seq := 1\<rparr>)"
    using run_inv_keys [OF two_users_inv] by (simp add: db_keys_def ann_memo_def)
qed simp_all

text \<open>Ann's note names the public note and keeps silent on the diary.\<close>

theorem memo_answers_name_readable_memos_witness:
  "(case fst (GetMemo reading_env (as_user 1) ''memos/note'' reading_state) of
      Inl _ \<Rightarrow> False
    | Inr v \<Rightarrow> named_memos v = [''memos/note'', ''memos/note'', ''memos/news''])
    \<and> readable_name reading_env (as_user 1) reading_state ''memos/news''"
proof -
  have eval: "case fst (GetMemo reading_env (as_user 1) ''memos/note'' reading_state) of
      Inl _ \<Rightarrow> False
    | Inr v \<Rightarrow> named_memos v = [''memos/note'', ''memos/note'', ''memos/news'']"
    by code_simp
  then obtain v s' where run: "GetMemo reading_env (as_user 1) ''memos/note'' reading_state = (Inr v, s')"
      and v: "named_memos v = [''memos/note'', ''memos/note'', ''memos/news'']"
    by (cases "GetMemo reading_env (as_user 1) ''memos/note'' reading_state") (auto split: sum.splits)
  have "\<forall>n \<in> set (named_memos v). readable_name reading_env (as_user 1) reading_state n"
    using memo_answers_name_readable_memos [OF reading_env_ok reading_state_inv, of "as_user 1" "''memos/note''"] run by simp
  then show ?thesis using eval v by simp
qed

section \<open>Share links\<close>

text \<open>C20. A share link opens one memo and nothing around it. When \<open>GetSharedMemo\<close> answers a message, whoever asks, then the
  token is that of a share that has not expired, the message is of the memo of this share, which is live and has not
  the \<open>SPACE\<close> audience, no other memo is named in it, neither as the context of a comment nor in a relation, and its
  place is told only to its author and the members of the space; the tables stay as they are. A token without such
  a share, expired or never issued, gets the same answer whoever asks.\<close>

theorem share_link_opens_one_memo:
  assumes "reads_store (me_Server env)" "run_inv s" "GetSharedMemo env ctx token s = (r, s')"
  shows "st_db s' = st_db s
    \<and> (\<forall>v. r = Inr v \<longrightarrow> (\<exists>sh \<in> set (db_memo_share (st_db s)). sh_uid sh = token
         \<and> (\<forall>t. sh_expires_ts sh = Some t \<longrightarrow> me_now env \<le> t)
         \<and> (\<exists>m \<in> set (db_memo (st_db s)). m_ID m = sh_memo_id sh \<and> m_RowStatus m = Normal \<and> m_Visibility m \<noteq> SpaceAudience
              \<and> vmo_Content v = m_Content m \<and> set (named_memos v) = {buildMemoName (m_UID m)}
              \<and> (\<forall>n. vmo_Space v = Some n \<longrightarrow> place_told (GetUserID ctx) (st_db s) m n))))
    \<and> ((\<forall>sh \<in> set (db_memo_share (st_db s)). sh_uid sh = token \<longrightarrow> (\<exists>t. sh_expires_ts sh = Some t \<and> t < me_now env)) \<longrightarrow>
         r = Inl (Status NotFound ''not found'' NoCause))"
proof -
  have open_iff: "share_open now sh \<longleftrightarrow> (\<forall>t. sh_expires_ts sh = Some t \<longrightarrow> now \<le> t)" for now sh
    by (simp add: share_open_def split: option.split)
  have one: "st_db s' = st_db s \<and> (\<forall>v. r = Inr v \<longrightarrow>
      (\<exists>sh \<in> set (db_memo_share (st_db s)). sh_uid sh = token \<and> share_open (me_now env) sh \<and> opened ctx (st_db s) (sh_memo_id sh) v))"
    by (rule answers_now [OF answers_GetSharedMemo [OF assms(1) run_inv_keys [OF assms(2)]] assms(2,3)])
  have closed: "r = Inl (Status NotFound ''not found'' NoCause)"
    if "\<forall>sh \<in> set (db_memo_share (st_db s)). sh_uid sh = token \<longrightarrow> (\<exists>t. sh_expires_ts sh = Some t \<and> t < me_now env)"
    using GetSharedMemo_closed [of s token env ctx] that assms(3) by (auto simp: open_iff not_le)
  show ?thesis
    using one closed unfolding opened_def open_iff by blast
qed

theorem share_link_opens_one_memo_witness:
  "(case fst (GetSharedMemo reading_env (as_user 0) ''tok'' reading_state) of
      Inl _ \<Rightarrow> False | Inr v \<Rightarrow> set (named_memos v) = {''memos/note''})
    \<and> fst (GetSharedMemo (reading_env\<lparr>me_now := 101\<rparr>) (as_user 0) ''tok'' reading_state) = Inl (Status NotFound ''not found'' NoCause)"
proof -
  have "case fst (GetSharedMemo reading_env (as_user 0) ''tok'' reading_state) of Inl _ \<Rightarrow> False | Inr v \<Rightarrow> vmo_Name v = ''memos/note''"
    by code_simp
  then obtain v s' where run: "GetSharedMemo reading_env (as_user 0) ''tok'' reading_state = (Inr v, s')" and v: "vmo_Name v = ''memos/note''"
    by (cases "GetSharedMemo reading_env (as_user 0) ''tok'' reading_state") (auto split: sum.splits)
  obtain n where "set (named_memos v) = {n}"
    using share_link_opens_one_memo [OF reading_env_ok reading_state_inv run] by auto
  then have one: "set (named_memos v) = {''memos/note''}" using v by (auto simp: named_memos_def)
  obtain r s1 where late: "GetSharedMemo (reading_env\<lparr>me_now := 101\<rparr>) (as_user 0) ''tok'' reading_state = (r, s1)"
    by (cases "GetSharedMemo (reading_env\<lparr>me_now := 101\<rparr>) (as_user 0) ''tok'' reading_state")
  have "reads_store (me_Server (reading_env\<lparr>me_now := 101\<rparr>))" using reading_env_ok by simp
  from share_link_opens_one_memo [OF this reading_state_inv late]
  have "r = Inl (Status NotFound ''not found'' NoCause)" by (simp add: reading_state_def)
  then show ?thesis using run late one by simp
qed

end
