(* ===== verification/Memo_Queries.thy ===== *)
theory Memo_Queries
  imports Memo_Disclosure
begin

text \<open>
  When the queries of the handlers answer: the actions that read return a value if the libraries that they call do.
\<close>

section \<open>Actions that return\<close>

definition yields :: "db \<Rightarrow> ('a \<Rightarrow> bool) \<Rightarrow> 'a api \<Rightarrow> bool" where
  "yields d Q m = (\<forall>s. quiet d s \<longrightarrow> (\<exists>a s'. m s = (Inr a, s') \<and> quiet d s' \<and> Q a))"

lemma yieldsD: "yields d Q m \<Longrightarrow> quiet d s \<Longrightarrow> \<exists>a s'. m s = (Inr a, s') \<and> quiet d s' \<and> Q a"
  unfolding yields_def by blast

lemma yields_weaken: "yields d Q m \<Longrightarrow> (\<And>a. Q a \<Longrightarrow> R a) \<Longrightarrow> yields d R m"
  unfolding yields_def by blast

lemma yields_liftH: "r = Inr a \<Longrightarrow> Q a \<Longrightarrow> yields d Q (liftH r)"
  by (simp add: yields_def liftH_def)

lemma yields_query: "q d = Inr a \<Longrightarrow> Q a \<Longrightarrow> yields d Q (query f q)"
  by (auto simp: yields_def query_def quiet_def)

lemma yields_wrapH: "yields d Q m \<Longrightarrow> yields d Q (wrapH f m)"
  by (fastforce simp: yields_def wrapH_def)

lemma yields_bindH:
  assumes m: "yields d Q m" and f: "\<And>a. Q a \<Longrightarrow> yields d R (f a)"
  shows "yields d R (bindH m f)"
  unfolding yields_def
proof (intro allI impI)
  fix s
  assume "quiet d s"
  then obtain a s1 where one: "m s = (Inr a, s1)" "quiet d s1" "Q a" using yieldsD [OF m] by blast
  then obtain b s2 where "f a s1 = (Inr b, s2)" "quiet d s2" "R b" using yieldsD [OF f] by blast
  then show "\<exists>b s'. bindH m f s = (Inr b, s') \<and> quiet d s' \<and> R b" using one(1) by (simp add: bindH_def)
qed

text \<open>What an action that returns answers.\<close>

lemma yields_answers: "yields d (\<lambda>_. True) m \<Longrightarrow> answers d Q m \<Longrightarrow> yields d Q m"
  unfolding yields_def answers_def by blast

section \<open>Queries\<close>

text \<open>The libraries return: the filter environment was built, the condition that every query starts with is
  true, payloads of the tables can be decoded and snippets be made.\<close>

definition libraries_work :: "memo_env \<Rightarrow> db \<Rightarrow> bool" where
  "libraries_work env d =
     ((\<exists>c. fl_cel (me_memo_filter env) = Inr c)
      \<and> (\<forall>d m. fl_true (me_memo_filter env) ([''1 = 1''], []) d m)
      \<and> (\<forall>m \<in> set (db_memo d). \<exists>p. me_memo_payload env (m_Payload m) = Inr p)
      \<and> (\<forall>a \<in> set (db_attachment d). \<exists>p. me_attachment_payload env (at_Payload a) = Inr p)
      \<and> (\<forall>m \<in> set (db_memo d). \<exists>t. me_snippet env (m_Content m) = Inr t))"

lemma mapE_total: "(\<And>x. x \<in> set xs \<Longrightarrow> \<exists>y. f x = Inr y) \<Longrightarrow> \<exists>ys. mapE f xs = Inr ys"
proof (induction xs)
  case (Cons x xs)
  then obtain y ys where "f x = Inr y" "mapE f xs = Inr ys" by fastforce
  then show ?case by simp
qed simp

lemma plain_condition:
  assumes "fl_cel fl = Inr c"
  shows "filter_condition fl [] d = Inr (fl_true fl ([''1 = 1''], []) d)"
  by (simp add: filter_condition_def NewEngine_def assms)

lemma DB_ListMemos_total:
  assumes "libraries_work env d" "fq_Filters q = []"
  obtains ms where "DB_ListMemos (me_memo_filter env) (me_memo_payload env) q d = Inr ms"
    "ms = [] \<longleftrightarrow> sql_limit (fq_Limit q) (fq_Offset q) (memo_order q (filter (memo_matches q d) (db_memo d))) = []"
proof -
  obtain c where c: "fl_cel (me_memo_filter env) = Inr c" using assms(1) by (auto simp: libraries_work_def)
  let ?rows = "sql_limit (fq_Limit q) (fq_Offset q) (memo_order q (filter (memo_matches q d) (db_memo d)))"
  have rows: "filter (\<lambda>m. fl_true (me_memo_filter env) ([''1 = 1''], []) d m \<and> memo_matches q d m) (db_memo d)
      = filter (memo_matches q d) (db_memo d)"
    using assms(1) by (intro filter_cong) (auto simp: libraries_work_def)
  have "\<exists>ms. mapE (scan_memo (me_memo_payload env) q d) ?rows = Inr ms"
  proof (rule mapE_total)
    fix m
    assume "m \<in> set ?rows"
    then have "m \<in> set (db_memo d)" using set_sql_limit by fastforce
    then obtain p where "me_memo_payload env (m_Payload m) = Inr p" using assms(1) by (auto simp: libraries_work_def)
    then show "\<exists>y. scan_memo (me_memo_payload env) q d m = Inr y" by (simp add: scan_memo_def)
  qed
  then obtain ms where ms: "mapE (scan_memo (me_memo_payload env) q d) ?rows = Inr ms" by blast
  have "DB_ListMemos (me_memo_filter env) (me_memo_payload env) q d = Inr ms"
    using assms(2) ms by (simp add: DB_ListMemos_def plain_condition [OF c] rows)
  moreover have "ms = [] \<longleftrightarrow> ?rows = []" using mapE_Inr_length [OF ms] by auto
  ultimately show thesis by (rule that)
qed

lemma yields_get_memo:
  assumes "libraries_work env d" "fq_Filters q = []"
  shows "yields d (\<lambda>memo. memo = None \<longrightarrow> sql_limit (fq_Limit q) (fq_Offset q) (memo_order q (filter (memo_matches q d) (db_memo d))) = [])
    (get_memo env f q)"
proof -
  obtain ms where ms: "DB_ListMemos (me_memo_filter env) (me_memo_payload env) q d = Inr ms"
      "ms = [] \<longleftrightarrow> sql_limit (fq_Limit q) (fq_Offset q) (memo_order q (filter (memo_matches q d) (db_memo d))) = []"
    by (rule DB_ListMemos_total [OF assms])
  then have "Store_GetMemo (me_memo_filter env) (me_memo_payload env) q d = Inr (first_row ms)" by (simp add: Store_GetMemo_def)
  then show ?thesis unfolding get_memo_def by (rule yields_query) (use ms(2) in simp)
qed

lemma yields_attachments_of:
  assumes "libraries_work env d"
  shows "yields d (\<lambda>_. True) (attachments_of env i)"
proof -
  let ?q = "no_find_attachment\<lparr>fa_MemoID := Some i\<rparr>"
  let ?rows = "sql_limit (fa_Limit ?q) (fa_Offset ?q) (sort_desc (\<lambda>(a, f). af_UpdatedTs f) (filter (attachment_matches ?q d) (attachment_rows d)))"
  have "\<exists>as. mapE (scan_attachment (me_attachment_payload env) ?q d) ?rows = Inr as"
  proof (rule mapE_total)
    fix row
    assume "row \<in> set ?rows"
    then have "row \<in> set (attachment_rows d)" using set_sql_limit by fastforce
    then obtain a f where "row = (a, f)" "a \<in> set (db_attachment d)" by (auto simp: attachment_rows_def)
    then show "\<exists>y. scan_attachment (me_attachment_payload env) ?q d row = Inr y"
      using assms by (auto simp: libraries_work_def scan_attachment_def)
  qed
  then obtain as where "mapE (scan_attachment (me_attachment_payload env) ?q d) ?rows = Inr as" by blast
  then have "Store_ListAttachments (me_attachment_filter env) (me_attachment_payload env) ?q d = Inr as"
    by (simp add: Store_ListAttachments_def DB_ListAttachments_def attachment_filter_def no_find_attachment_def)
  then show ?thesis unfolding attachments_of_def list_attachments_def by (rule yields_query) simp
qed

text \<open>The users of a message are found.\<close>

lemma DB_ListUsers_ids:
  "\<exists>us. DB_ListUsers (no_find_user\<lparr>fu_IDList := ids\<rparr>) d = Inr us
    \<and> (ids \<noteq> [] \<longrightarrow> set us = {u \<in> set (db_user d). u_ID u \<in> set ids})"
proof (intro exI conjI impI)
  show "DB_ListUsers (no_find_user\<lparr>fu_IDList := ids\<rparr>) d
      = Inr (sql_limit None None (user_order (no_find_user\<lparr>fu_IDList := ids\<rparr>) (filter (user_matches (no_find_user\<lparr>fu_IDList := ids\<rparr>)) (db_user d))))"
    by (simp add: DB_ListUsers_def no_find_user_def)
  assume "ids \<noteq> []"
  then show "set (sql_limit None None (user_order (no_find_user\<lparr>fu_IDList := ids\<rparr>) (filter (user_matches (no_find_user\<lparr>fu_IDList := ids\<rparr>)) (db_user d))))
      = {u \<in> set (db_user d). u_ID u \<in> set ids}"
    by (auto simp: sql_limit_def user_order_def searching_def no_find_user_def sort_desc_def user_matches_def opt_eq_def)
qed

lemma set_unique_ids [simp]: "set (unique_ids ids) = set ids"
  by (simp add: unique_ids_def)

lemma users_by_id_found:
  assumes "u \<in> set us"
  shows "users_by_id us (u_ID u) \<noteq> None"
  using assms by (auto simp: users_by_id_def map_of_eq_None_iff image_image simp del: not_None_eq)

lemma yields_listUsersByID:
  "yields d (\<lambda>users. \<forall>i \<in> set ids. (\<exists>u \<in> set (db_user d). u_ID u = i) \<longrightarrow> users i \<noteq> None) (listUsersByID env f ids)"
proof (cases "ids = []")
  case True
  then show ?thesis by (auto simp: listUsersByID_def intro: yields_liftH)
next
  case False
  let ?q = "no_find_user\<lparr>fu_IDList := unique_ids ids\<rparr>"
  obtain us where us: "DB_ListUsers ?q d = Inr us" "unique_ids ids \<noteq> [] \<longrightarrow> set us = {u \<in> set (db_user d). u_ID u \<in> set (unique_ids ids)}"
    using DB_ListUsers_ids by blast
  have "unique_ids ids \<noteq> []" using False by (simp add: unique_ids_def)
  then have rows: "set us = {u \<in> set (db_user d). u_ID u \<in> set ids}" using us(2) by simp
  have "yields d (\<lambda>x. x = us) (callH f (keepE (Store_ListUsers (au_users (sv_Auth (me_Server env))) ?q)))"
    unfolding yields_def
  proof (intro allI impI)
    fix s
    assume q: "quiet d s"
    then have run: "Store_ListUsers (au_users (sv_Auth (me_Server env))) ?q s
        = Inr (us, fold (cache_user (au_users (sv_Auth (me_Server env)))) us s)"
      using us(1) by (simp add: Store_ListUsers_def quiet_def)
    have "quiet d (fold (cache_user (au_users (sv_Auth (me_Server env)))) us s)"
      using q run_inv_list [OF _ run] by (simp add: quiet_def)
    then show "\<exists>a s'. callH f (keepE (Store_ListUsers (au_users (sv_Auth (me_Server env))) ?q)) s = (Inr a, s') \<and> quiet d s' \<and> a = us"
      using run by (simp add: callH_def keepE_def)
  qed
  then show ?thesis
    unfolding listUsersByID_def using False rows users_by_id_found
    by (auto intro!: yields_bindH [where Q = "\<lambda>x. x = us"] yields_liftH simp del: not_None_eq)
qed

end
