(* ===== verification/Share_Links.thy ===== *)
theory Share_Links
  imports Reading_Properties Memo_Queries
begin

text \<open>
  A link that the author of a memo creates opens the memo until it expires, for whoever comes with its token, as long as
  the link and the active memo are there; and the attachments that a listing shows to a caller are those that he may read
  one by one.
\<close>

section \<open>What a visitor is answered\<close>

lemma yields_both: "yields d Q m \<Longrightarrow> answers d R m \<Longrightarrow> yields d (\<lambda>a. Q a \<and> R a) m"
  unfolding yields_def answers_def by blast

lemma yields_found_memo:
  assumes work: "libraries_work env d" and row: "row \<in> set (db_memo d)" "memo_matches q d row" and q: "fq_Filters q = []" "fq_Limit q = None"
  shows "yields d (\<lambda>memo. \<exists>row p. row \<in> set (db_memo d) \<and> memo_matches q d row
      \<and> memo = Some (memo_of_row (fq_ExcludeContent q) p row, parent_uid d (m_ID row))) (get_memo env f q)"
proof (rule yields_weaken [OF yields_both [OF yields_get_memo [OF work q(1)] answers_get_memo]], elim conjE)
  fix memo :: "stored_memo option"
  assume none: "memo = None \<longrightarrow> sql_limit (fq_Limit q) (fq_Offset q) (memo_order q (filter (memo_matches q d) (db_memo d))) = []"
    and some: "\<forall>m. memo = Some m \<longrightarrow> (\<exists>row p. row \<in> set (db_memo d) \<and> memo_matches q d row
      \<and> m = (memo_of_row (fq_ExcludeContent q) p row, parent_uid d (m_ID row)))"
  have "row \<in> set (memo_order q (filter (memo_matches q d) (db_memo d)))" using row by simp
  then have "sql_limit (fq_Limit q) (fq_Offset q) (memo_order q (filter (memo_matches q d) (db_memo d))) \<noteq> []"
    using q(2) by (cases "memo_order q (filter (memo_matches q d) (db_memo d))") (simp_all add: sql_limit_def)
  then obtain m where "memo = Some m" using none by (cases memo) auto
  then show "\<exists>row p. row \<in> set (db_memo d) \<and> memo_matches q d row \<and> memo = Some (memo_of_row (fq_ExcludeContent q) p row, parent_uid d (m_ID row))"
    using some by blast
qed

text \<open>A visitor is known to the server when his request has no user, or one that exists. An archived user counts as
  nobody.\<close>

lemma yields_guest_context:
  assumes env: "serves_store env" and guest: "caller_of d (GetUserID ctx) = Some cur" "svc_anonymous (me_svc env) = Inr anon"
  shows "yields d (\<lambda>rc. \<exists>a. rc = read_context d m cur a shared) (resolveH (buildMemoReadContext (me_svc env) (GetUserID ctx) (Some m) shared))"
  unfolding yields_def
proof (intro allI impI)
  fix s
  assume q: "quiet d s"
  let ?a = "if cur = None then anon else False" and ?rng = "au_users (sv_Auth (me_Server env))"
  obtain s1 where user: "fetchCurrentUser (me_svc env) (GetUserID ctx) s = Inr (cur, s1)" "run_inv s1" "st_db s1 = d"
    using fetchCurrentUser_caller [of s "me_svc env" ?rng "GetUserID ctx"] q me_store [OF env] guest(1) by (auto simp: quiet_def)
  obtain t where t: "ResolveMemoReadContext (svc_Store (me_svc env)) (Some m) cur ?a shared s1
      = Inr (read_context d m cur ?a shared, t)" "run_inv t" "st_db t = d"
    using cached_store.ResolveMemoReadContext_law [of s1 ?rng m cur ?a shared] user(2,3) me_store [OF env] by auto
  have "buildMemoReadContext (me_svc env) (GetUserID ctx) (Some m) shared s = Inr (read_context d m cur ?a shared, t)"
    using t(1) guest(2) by (cases cur) (simp_all add: buildMemoReadContext_def buildMemoReadContextForViewer_def user(1))
  then show "\<exists>a s'. resolveH (buildMemoReadContext (me_svc env) (GetUserID ctx) (Some m) shared) s = (Inr a, s') \<and> quiet d s'
      \<and> (\<exists>b. a = read_context d m cur b shared)"
    using t(2,3) by (auto simp: resolveH_def quiet_def)
qed

lemma quietly_yields_tryH: "quietly d m \<Longrightarrow> yields d (\<lambda>_. True) (tryH m)"
  unfolding yields_def answers_def tryH_def
proof (intro allI impI)
  fix s
  assume quiet: "\<forall>s r s'. quiet d s \<longrightarrow> m s = (r, s') \<longrightarrow> quiet d s' \<and> (\<forall>a. r = Inr a \<longrightarrow> True)" and s: "quiet d s"
  obtain r s' where m: "m s = (r, s')" by (cases "m s")
  then have "quiet d s'" using quiet s by blast
  then show "\<exists>a s'. (case m s of (Inl _, s') \<Rightarrow> (Inr False, s') | (Inr _, s') \<Rightarrow> (Inr True, s')) = (Inr a, s') \<and> quiet d s' \<and> True"
    using m by (cases r) auto
qed

lemma yields_visible_parent:
  assumes "serves_store env" "libraries_work env d"
  shows "yields d (\<lambda>_. True) (visible_parent env ctx uid)"
proof (cases uid)
  case None
  then show ?thesis by (auto simp: visible_parent_def intro: yields_liftH)
next
  case (Some u)
  show ?thesis
    unfolding visible_parent_def Some option.case
  proof (rule yields_bindH [OF yields_get_memo [OF assms(2)]])
    fix memo :: "stored_memo option"
    show "yields d (\<lambda>_. True) (case memo of None \<Rightarrow> returnH None
        | Some c \<Rightarrow> bindH (tryH (check_read env ctx c)) (\<lambda>readable. returnH (if readable then Some (buildMemoName u) else None)))"
    proof (cases memo)
      case (Some c)
      have "quietly d (check_read env ctx c)" by (rule quietlyI [OF answers_check_read [OF assms(1)]])
      then show ?thesis using Some by (auto intro!: yields_bindH [OF quietly_yields_tryH] yields_liftH)
    qed (auto intro: yields_liftH)
  qed (simp add: no_find_memo_def)
qed

lemma yields_convertReactions: "yields d (\<lambda>_. True) (convertReactionsFromStoreWithCreators env f reactions creatorMap name)"
  unfolding convertReactionsFromStoreWithCreators_def listUsersByIDWithExisting_def Let_def
  by (auto intro!: yields_liftH yields_bindH [where Q = "\<lambda>_. True"] yields_weaken [OF yields_listUsersByID])

lemma yields_guest_place:
  assumes "m_Visibility m \<noteq> SpaceAudience"
  shows "yields d (\<lambda>_. True) (projectMemoCollaborationContext m rc)"
proof (cases "\<exists>sid r viewer. m_SpaceID m = Some sid \<and> rc = Some r \<and> ctx_Viewer r = Some viewer")
  case True
  then show ?thesis using assms
    by (auto simp: projectMemoCollaborationContext_def
        intro!: yields_liftH yields_bindH [OF yields_query [where Q = "\<lambda>_. True"]] split: option.split)
next
  case False
  then show ?thesis using assms
    by (cases rc; cases "m_SpaceID m") (auto simp: projectMemoCollaborationContext_def intro!: yields_liftH split: option.split)
qed

lemma yields_guest_message:
  assumes env: "serves_store env" and guest: "caller_of d (GetUserID ctx) = Some cur" "svc_anonymous (me_svc env) = Inr anon"
    and work: "libraries_work env d" and row: "row \<in> set (db_memo d)" "m_Visibility row \<noteq> SpaceAudience"
    and creator: "\<exists>u \<in> set (db_user d). u_ID u = m_CreatorID row"
  shows "yields d (\<lambda>_. True) (convertMemoFromStore env ctx (memo_of_row False p row, parent) reactions attachments relations)"
  unfolding convertMemoFromStore_def
proof (rule yields_bindH [OF yields_listUsersByID])
  fix creatorMap :: "int32 \<rightharpoonup> User"
  let ?m = "memo_of_row False p row"
  assume found: "\<forall>i \<in> set [m_CreatorID (fst (?m, parent))]. (\<exists>u \<in> set (db_user d). u_ID u = i) \<longrightarrow> creatorMap i \<noteq> None"
  then obtain creator where c: "creatorMap (m_CreatorID ?m) = Some creator" using creator by auto
  obtain snippet where snippet: "me_snippet env (m_Content ?m) = Inr snippet"
    using work row(1) by (auto simp: libraries_work_def memo_of_row_def)
  show "yields d (\<lambda>_. True) (convertMemoFromStoreWithCreators env ctx (?m, parent) reactions attachments relations creatorMap)"
    unfolding convertMemoFromStoreWithCreators_def Let_def fst_conv snd_conv c option.case
    apply (rule yields_bindH [where Q = "\<lambda>_. True"])
     apply (cases "m_SpaceID ?m = None")
      apply (auto intro!: yields_liftH) [1]
     apply (simp del: not_None_eq memo_of_row_fields)
     apply (rule yields_wrapH, rule yields_bindH [OF yields_guest_context [OF env guest]], rule yields_liftH, rule refl, simp)
    apply (rule yields_bindH [OF yields_wrapH [OF yields_guest_place]])
     apply (use row(2) in simp)
    apply (rule yields_bindH [OF yields_visible_parent [OF env work]])
    apply (rule yields_bindH [OF yields_convertReactions])
    apply (rule yields_bindH [where Q = "\<lambda>_. True"])
     apply (rule yields_liftH [where a = snippet])
      apply (simp add: getMemoContentSnippet_def snippet)
     apply simp
    apply (rule yields_liftH, rule refl, simp)
    done
qed

lemma guest_allowed:
  assumes "m_RowStatus row = Normal" "m_Visibility row \<in> {Public, Protected, Private}" "creator_valid d row"
  shows "Allowed (CheckMemoReadContext (read_context d (memo_of_row b p row) viewer anon (Some (m_ID row))))"
proof -
  have "ctx_Memo (read_context d (memo_of_row b p row) viewer anon (Some (m_ID row))) = Some (memo_of_row b p row)"
    by (simp add: read_context_def)
  from Allowed_iff [OF this] show ?thesis
    using assms by (auto simp: read_context_def memo_readable_def audience_denial_def share_applies_def creator_valid_def)
qed

lemma yields_GetSharedMemo:
  assumes env: "serves_store env" and keys: "db_keys d" and guest: "caller_of d (GetUserID ctx) = Some cur" "svc_anonymous (me_svc env) = Inr anon"
    and work: "libraries_work env d" and share: "DB_GetMemoShare (no_find_share\<lparr>fms_UID := Some token\<rparr>) d = Some ms"
    and now: "\<not> isMemoShareExpired (me_now env) ms" and row: "row \<in> set (db_memo d)" "m_ID row = ms_MemoID ms"
    and live: "m_RowStatus row = Normal" "m_Visibility row \<in> {Public, Protected, Private}" "creator_valid d row"
  shows "yields d (\<lambda>_. True) (GetSharedMemo env ctx token)"
  unfolding GetSharedMemo_def
proof (rule yields_bindH [where Q = "\<lambda>x. x = ms"])
  show "yields d (\<lambda>x. x = ms) (getActiveMemoShare env token)"
    unfolding getActiveMemoShare_def
    by (rule yields_bindH [OF yields_query [where Q = "\<lambda>x. x = Some ms"]])
      (use share now in \<open>auto intro: yields_liftH\<close>)
next
  fix x
  assume x: "x = ms"
  have match: "memo_matches (memo_by_id (ms_MemoID ms)) d row" using row(2) by (simp add: memo_matches_def no_find_memo_def opt_eq_def)
  have same: "row' = row" if "row' \<in> set (db_memo d)" "memo_matches (memo_by_id (ms_MemoID ms)) d row'" for row'
    using that keys row by (auto simp: memo_matches_def no_find_memo_def opt_eq_def db_keys_def distinct_map inj_on_def)
  show "yields d (\<lambda>_. True) (bindH (get_memo env (internal ''failed to get memo'') (memo_by_id (ms_MemoID x))) (\<lambda>memo.
       case memo of
         None \<Rightarrow> failH NotFound ''not found''
       | Some shared \<Rightarrow>
     let m = fst shared in
     if m_RowStatus m \<noteq> Normal \<or> m_Visibility m = SpaceAudience then failH NotFound ''not found''
     else
     bindH (wrapH (\<lambda>_. Status NotFound ''not found'' NoCause)
              (resolveH (buildMemoReadContext (me_svc env) (GetUserID ctx) (Some m) (Some (ms_MemoID x))))) (\<lambda>readContext.
     if \<not> Allowed (CheckMemoReadContext readContext) then failH NotFound ''not found''
     else
     bindH (list_reactions (reactions_of (m_ID m))) (\<lambda>reactions.
     bindH (attachments_of env (m_ID m)) (\<lambda>attachments.
     bindH (convert_found (Status NotFound ''not found'' NoCause)
              (convertMemoFromStore env ctx shared reactions attachments [])) (\<lambda>message.
       returnH (message\<lparr>vmo_Parent := None\<rparr>)))))))"
    unfolding x
  proof (rule yields_bindH [OF yields_found_memo [OF work row(1) match]], goal_cases)
    case (3 memo)
    then obtain p where memo: "memo = Some (memo_of_row False p row, parent_uid d (m_ID row))" using same by (auto simp: no_find_memo_def)
    have open': "\<not> (m_RowStatus (memo_of_row False p row) \<noteq> Normal \<or> m_Visibility (memo_of_row False p row) = SpaceAudience)"
      using live by auto
    show ?case
      unfolding memo option.case Let_def fst_conv if_not_P [OF open']
      apply (rule yields_bindH [OF yields_wrapH [OF yields_guest_context [OF env guest]]])
      apply (elim exE, simp only: row(2) [symmetric] guest_allowed [OF live] simp_thms if_False)
      apply (rule yields_bindH [where Q = "\<lambda>_. True"])
       apply (simp add: list_reactions_def yields_query)
      apply (rule yields_bindH [OF yields_attachments_of [OF work]])
      apply (rule yields_bindH [where Q = "\<lambda>_. True"])
       apply (unfold convert_found_def)
       apply (rule yields_wrapH, rule yields_guest_message [OF env guest work row(1)])
        apply (use live in auto) [1]
       apply (use live(3) in \<open>auto simp: creator_valid_def\<close>) [1]
      apply (rule yields_liftH, rule refl, simp)
      done
  qed (simp_all add: no_find_memo_def)
qed

section \<open>Creating a link\<close>

lemma DB_GetMemoShare_only:
  assumes "sh \<in> set (db_memo_share d)" "sh_uid sh = token"
    and "\<And>x. x \<in> set (db_memo_share d) \<Longrightarrow> sh_uid x = token \<Longrightarrow> x = sh"
  shows "DB_GetMemoShare (no_find_share\<lparr>fms_UID := Some token\<rparr>) d = Some (share_of_row sh)"
proof -
  let ?xs = "filter (share_matches (no_find_share\<lparr>fms_UID := Some token\<rparr>)) (db_memo_share d)"
  have eq: "share_matches (no_find_share\<lparr>fms_UID := Some token\<rparr>) x \<longleftrightarrow> sh_uid x = token" for x
    by (auto simp: share_matches_def no_find_share_def opt_eq_def)
  have mem: "sh \<in> set ?xs" using assms(1,2) eq by simp
  show ?thesis
  proof (cases ?xs)
    case Nil
    then show ?thesis using mem by simp
  next
    case (Cons x xs)
    then have "x \<in> set ?xs" by simp
    then have "x = sh" using assms(3) eq by simp
    then show ?thesis using Cons by (simp add: DB_GetMemoShare_def)
  qed
qed

text \<open>What a successful creation found and stored.\<close>

lemma CreateMemoShare_created:
  assumes env: "serves_store env" and inv: "run_inv s" and run: "CreateMemoShare env ctx parent expire s = (Inr share, s1)"
  obtains u row d1 where "caller_of (st_db s) (GetUserID ctx) = Some (Some u)" "row \<in> set (db_memo (st_db s))"
    "parent = buildMemoName (m_UID row)" "m_RowStatus row = Normal" "m_CreatorID row = u_ID u" "m_Visibility row \<noteq> SpaceAudience"
    "\<forall>sh \<in> set (db_memo_share (st_db s)). sh_uid sh \<noteq> me_shortuuid env" "quiet d1 s1"
    "d1 = (st_db s)\<lparr>db_memo_share := db_memo_share (st_db s) @ [\<lparr>sh_id = db_memo_share_seq (st_db s) + 1, sh_uid = me_shortuuid env,
        sh_memo_id = m_ID row, sh_creator_id = u_ID u, sh_created_ts = db_now (st_db s), sh_expires_ts = expire\<rparr>],
      db_memo_share_seq := db_memo_share_seq (st_db s) + 1\<rparr>"
    "vs_Name share = parent @ ''/shares/'' @ me_shortuuid env"
proof -
  let ?d = "st_db s"
  obtain u t1 where u: "current_user env ctx (internal ''failed to get user'') s = (Inr u, t1)"
    and r1: "bindH (memo_uid_of parent) (\<lambda>memoUID.
     bindH (find_memo env (internal ''failed to get memo'') (memo_by_uid memoUID)) (\<lambda>(memo, _).
       if m_RowStatus memo \<noteq> Normal then failH FailedPrecondition ''only active memos can be shared''
       else if m_CreatorID memo \<noteq> u_ID u then failH PermissionDenied ''permission denied''
       else if m_Visibility memo = SpaceAudience then failH FailedPrecondition ''SPACE audience memos cannot be shared''
       else if (case expire of None \<Rightarrow> False | Some ts \<Rightarrow> ts \<le> me_now env)
       then failH InvalidArgument ''expire_time must be in the future''
       else bindH (change (\<lambda>e. mapMemoWriteError e ''failed to create memo share'')
                (Store_CreateMemoShare (Some \<lparr>ms_ID = 0, ms_UID = me_shortuuid env, ms_MemoID = m_ID memo, ms_CreatorID = u_ID u,
                   ms_CreatedTs = 0, ms_ExpiresTs = expire,
                   ms_Policy = Some ((memoWritePolicy (u_ID u) False)\<lparr>pol_CreatingShare := True\<rparr>)\<rparr>))) (\<lambda>ms.
              returnH (convertMemoShareFromStore ms (m_UID memo))))) t1 = (Inr share, s1)"
    using run by (auto simp: CreateMemoShare_def bindH_Inr)
  have q1: "quiet ?d t1 \<and> caller_of ?d (GetUserID ctx) = Some (Some u)"
    using answersD [OF answers_current_user [OF env] u quiet_now [OF inv]] .
  obtain uid memo parent_of t2 where uid: "ExtractMemoUIDFromName parent = Inr uid"
    and memo: "find_memo env (internal ''failed to get memo'') (memo_by_uid uid) t1 = (Inr (memo, parent_of), t2)"
    and checks: "m_RowStatus memo = Normal" "m_CreatorID memo = u_ID u" "m_Visibility memo \<noteq> SpaceAudience"
    and r2: "bindH (change (\<lambda>e. mapMemoWriteError e ''failed to create memo share'')
                (Store_CreateMemoShare (Some \<lparr>ms_ID = 0, ms_UID = me_shortuuid env, ms_MemoID = m_ID memo, ms_CreatorID = u_ID u,
                   ms_CreatedTs = 0, ms_ExpiresTs = expire,
                   ms_Policy = Some ((memoWritePolicy (u_ID u) False)\<lparr>pol_CreatingShare := True\<rparr>)\<rparr>))) (\<lambda>ms.
              returnH (convertMemoShareFromStore ms (m_UID memo))) t2 = (Inr share, s1)"
    using r1 by (auto simp: memo_uid_of_def bindH_Inr liftH_iff orElse_Inr_iff split: if_split_asm)
  obtain row p where row: "row \<in> set (db_memo ?d)" "memo_matches (memo_by_uid uid) ?d row" "memo = memo_of_row False p row"
    and q2: "quiet ?d t2"
    using answersD [where d = "st_db s", OF answers_find_memo memo] q1 by (auto simp: no_find_memo_def)
  have name: "parent = buildMemoName (m_UID row)"
    using uid row(2) by (auto simp: ExtractMemoUIDFromName_def buildMemoName_def result_simps tokens_one memo_matches_def no_find_memo_def opt_eq_def)
  let ?c = "\<lparr>ms_ID = 0, ms_UID = me_shortuuid env, ms_MemoID = m_ID row, ms_CreatorID = u_ID u, ms_CreatedTs = 0, ms_ExpiresTs = expire,
                   ms_Policy = Some ((memoWritePolicy (u_ID u) False)\<lparr>pol_CreatingShare := True\<rparr>)\<rparr>"
  obtain ms d1 where stored: "Store_CreateMemoShare (Some ?c) ?d = Inr (ms, d1)" and s1: "s1 = t2\<lparr>st_db := d1\<rparr>"
    and share: "share = convertMemoShareFromStore ms (m_UID row)"
    using r2 row(3) q2 by (auto simp: bindH_Inr liftH_iff change_def quiet_def split: sum.split_asm prod.split_asm)
  have "createSQLiteMemoShare ?c ?d = Inr (ms, d1)"
    using stored by (auto simp: Store_CreateMemoShare_def DB_CreateMemoShare_def result_simps)
  then have d1: "\<forall>sh \<in> set (db_memo_share ?d). sh_uid sh \<noteq> me_shortuuid env"
      "d1 = ?d\<lparr>db_memo_share := db_memo_share ?d @ [\<lparr>sh_id = db_memo_share_seq ?d + 1, sh_uid = me_shortuuid env,
        sh_memo_id = m_ID row, sh_creator_id = u_ID u, sh_created_ts = db_now ?d, sh_expires_ts = expire\<rparr>],
      db_memo_share_seq := db_memo_share_seq ?d + 1\<rparr>" "ms_UID ms = me_shortuuid env"
    by (auto simp: createSQLiteMemoShare_def Let_def split: if_split_asm)
  have "run_inv (t2\<lparr>st_db := d1\<rparr>)"
    by (rule run_inv_tables) (use q2 run_inv_keys [OF inv] d1(2) in \<open>auto simp: quiet_def db_keys_def\<close>)
  then have "quiet d1 s1" using s1 by (simp add: quiet_def)
  moreover have "vs_Name share = parent @ ''/shares/'' @ me_shortuuid env"
    using share d1(3) name by (simp add: convertMemoShareFromStore_def buildMemoName_def)
  ultimately show thesis
    using that [OF _ row(1) name] q1 checks row(3) d1(1,2) by simp
qed

text \<open>The link that was created between two states and its memo are still there in later tables: the row of the link,
  whose token no other link has; and the memo by its number and identifier, active, with an audience other than SPACE
  and a creator, whatever else of it has been changed.\<close>

definition link_stands :: "string \<Rightarrow> db \<Rightarrow> db \<Rightarrow> db \<Rightarrow> bool" where
  "link_stands parent before created d =
     (set (db_memo_share created) - set (db_memo_share before) \<subseteq> set (db_memo_share d)
      \<and> distinct (map sh_uid (db_memo_share d))
      \<and> (\<forall>m \<in> set (db_memo created). buildMemoName (m_UID m) = parent \<longrightarrow>
           (\<exists>m' \<in> set (db_memo d). m_ID m' = m_ID m \<and> m_UID m' = m_UID m \<and> m_RowStatus m' = Normal
              \<and> m_Visibility m' \<in> {Public, Protected, Private} \<and> creator_valid d m')))"

text \<open>C2. A link opens the memo until it expires. When the author of a memo has created a share link, then in every later
  state in which the link and the active memo are still there and the memo is not given to a space, whoever comes with the
  token - without an account, or signed in as any user of the server - at any time up to the expiry is answered the
  message of exactly this memo, whatever its audience is among private, protected and public and whatever the access
  policy of the instance is. The payloads of the tables are assumed to decode and the snippets and the policy of the
  instance to be computed without an error.\<close>

theorem created_share_opens_memo:
  assumes env: "reads_store (me_Server env)" and inv: "run_inv s"
    and created: "CreateMemoShare env ctx parent expire s = (Inr share, s1)"
    and later: "run_inv s2" "link_stands parent (st_db s) (st_db s1) (st_db s2)" "libraries_work env (st_db s2)"
    and visitor: "caller_of (st_db s2) (GetUserID visitor) \<noteq> None" "svc_anonymous (me_svc env) = Inr anon"
    and open': "\<forall>t. expire = Some t \<longrightarrow> now \<le> t"
  shows "vs_Name share = parent @ ''/shares/'' @ me_shortuuid env
    \<and> (\<exists>v s3. GetSharedMemo (env\<lparr>me_now := now\<rparr>) visitor (me_shortuuid env) s2 = (Inr v, s3)
         \<and> vmo_Name v = parent \<and> set (named_memos v) = {parent} \<and> st_db s3 = st_db s2)"
proof -
  let ?env = "env\<lparr>me_now := now\<rparr>" and ?d = "st_db s2" and ?token = "me_shortuuid env"
  let ?sh = "\<lambda>row u. \<lparr>sh_id = db_memo_share_seq (st_db s) + 1, sh_uid = ?token, sh_memo_id = m_ID row, sh_creator_id = u,
      sh_created_ts = db_now (st_db s), sh_expires_ts = expire\<rparr>"
  obtain u row d1 where "caller_of (st_db s) (GetUserID ctx) = Some (Some u)"
    and row: "row \<in> set (db_memo (st_db s))" "parent = buildMemoName (m_UID row)"
    and "m_RowStatus row = Normal" "m_CreatorID row = u_ID u" "m_Visibility row \<noteq> SpaceAudience" and fresh: "\<forall>sh \<in> set (db_memo_share (st_db s)). sh_uid sh \<noteq> ?token" and q1: "quiet d1 s1"
    and d1: "d1 = (st_db s)\<lparr>db_memo_share := db_memo_share (st_db s) @ [?sh row (u_ID u)], db_memo_share_seq := db_memo_share_seq (st_db s) + 1\<rparr>"
    and name: "vs_Name share = parent @ ''/shares/'' @ ?token"
    by (rule CreateMemoShare_created [OF env inv created])
  let ?row = "?sh row (u_ID u)"
  have s1: "st_db s1 = d1" using q1 by (simp add: quiet_def)
  have "?row \<in> set (db_memo_share d1) - set (db_memo_share (st_db s))" using fresh by (auto simp: d1)
  then have there: "?row \<in> set (db_memo_share ?d)" and distinct: "distinct (map sh_uid (db_memo_share ?d))"
    using later(2) by (auto simp: link_stands_def s1)
  obtain m where m: "m \<in> set (db_memo ?d)" "m_ID m = m_ID row" "m_UID m = m_UID row"
    and live: "m_RowStatus m = Normal" "m_Visibility m \<in> {Public, Protected, Private}" "creator_valid ?d m"
    using later(2) row by (auto simp: link_stands_def s1 d1)
  have env': "serves_store ?env" and anon: "svc_anonymous (me_svc ?env) = Inr anon" using env visitor(2) by simp_all
  have keys: "db_keys ?d" and q: "quiet ?d s2" using later(1) run_inv_keys by (auto simp: quiet_def)
  have work': "libraries_work ?env ?d" using later(3) by (simp add: libraries_work_def)
  obtain cur where cur: "caller_of ?d (GetUserID visitor) = Some cur" using visitor(1) by auto
  have only: "sh = ?row" if "sh \<in> set (db_memo_share ?d)" "sh_uid sh = ?token" for sh
    using inj_onD [OF distinct_map [THEN iffD1, OF distinct, THEN conjunct2] _ that(1) there] that(2) by simp
  have share: "DB_GetMemoShare (no_find_share\<lparr>fms_UID := Some ?token\<rparr>) ?d = Some (share_of_row ?row)"
    by (rule DB_GetMemoShare_only [OF there _ only]) simp_all
  have now: "\<not> isMemoShareExpired (me_now ?env) (share_of_row ?row)"
    using open' by (auto simp: isMemoShareExpired_def share_of_row_def split: option.split)
  have "yields ?d (\<lambda>_. True) (GetSharedMemo ?env visitor ?token)"
    using m by (intro yields_GetSharedMemo [OF env' keys cur anon work' share now _ _ live]) (simp_all add: share_of_row_def)
  from yieldsD [OF yields_answers [OF this answers_GetSharedMemo [OF env' keys]] q]
  obtain v s3 sh where v: "GetSharedMemo ?env visitor ?token s2 = (Inr v, s3)" "quiet ?d s3" "sh \<in> set (db_memo_share ?d)" "sh_uid sh = ?token"
      "opened visitor ?d (sh_memo_id sh) v" by blast
  obtain m' where m': "m' \<in> set (db_memo ?d)" "m_ID m' = m_ID row" "set (named_memos v) = {buildMemoName (m_UID m')}"
    using v(5) only [OF v(3,4)] by (auto simp: opened_def)
  have "m' = m" using m(1,2) m'(1,2) keys by (auto simp: db_keys_def distinct_map inj_on_def)
  then have "set (named_memos v) = {parent}" "vmo_Name v = parent" using m(3) m'(3) row(2) by (auto simp: named_memos_def)
  then show ?thesis using name v(1,2) by (auto simp: quiet_def)
qed

lemma reading_libraries: "libraries_work reading_env (st_db reading_state)"
  by (simp add: libraries_work_def reading_env_def sample_filter_def)

text \<open>The link of the witness, opened at its last second by the author's reader with an account.\<close>

definition created_link :: "(api_error + MemoShareMessage) \<times> UserSetting Store" where
  "created_link = CreateMemoShare reading_env (as_user 1) ''memos/note'' (Some 90) reading_state"

theorem created_share_opens_memo_witness:
  "\<exists>v s3. GetSharedMemo (reading_env\<lparr>me_now := 90\<rparr>) (as_user 2) ''new'' (snd created_link) = (Inr v, s3) \<and> vmo_Name v = ''memos/note''"
proof -
  have "case fst created_link of Inl _ \<Rightarrow> False | Inr _ \<Rightarrow> True" by code_simp
  then obtain share where created: "CreateMemoShare reading_env (as_user 1) ''memos/note'' (Some 90) reading_state = (Inr share, snd created_link)"
    by (cases created_link) (auto simp: created_link_def split: sum.splits)
  have "case svc_anonymous (me_svc reading_env) of Inl _ \<Rightarrow> False | Inr _ \<Rightarrow> True" by code_simp
  then obtain anon where anon: "svc_anonymous (me_svc reading_env) = Inr anon" by (auto split: sum.splits)
  obtain u row d1 where "caller_of (st_db reading_state) (GetUserID (as_user 1)) = Some (Some u)" "row \<in> set (db_memo (st_db reading_state))"
    "''memos/note'' = buildMemoName (m_UID row)" "m_RowStatus row = Normal" "m_CreatorID row = u_ID u" "m_Visibility row \<noteq> SpaceAudience"
    "\<forall>sh \<in> set (db_memo_share (st_db reading_state)). sh_uid sh \<noteq> me_shortuuid reading_env" and q: "quiet d1 (snd created_link)"
    by (rule CreateMemoShare_created [OF reading_env_ok reading_state_inv created])
  have stands: "link_stands ''memos/note'' (st_db reading_state) (st_db (snd created_link)) (st_db (snd created_link))" by code_simp
  have known: "caller_of (st_db (snd created_link)) (GetUserID (as_user 2)) \<noteq> None" by code_simp
  have "run_inv (snd created_link)" using q by (simp add: quiet_def)
  moreover have "libraries_work reading_env (st_db (snd created_link))" by (simp add: libraries_work_def reading_env_def sample_filter_def)
  moreover have "me_shortuuid reading_env = ''new''" by (simp add: reading_env_def)
  ultimately show ?thesis
    using created_share_opens_memo [OF reading_env_ok reading_state_inv created _ stands _ known anon, of 90] by auto
qed

section \<open>Attachments one by one and listed\<close>

lemma current_user_iff:
  assumes "serves_store env" "run_inv s"
  shows "(\<exists>s'. current_user env ctx f s = (Inr u, s')) \<longleftrightarrow> caller_of (st_db s) (GetUserID ctx) = Some (Some u)"
  using fetchCurrentUser_caller [OF assms(2) me_store [OF assms(1)], of "GetUserID ctx"]
  by (cases "caller_of (st_db s) (GetUserID ctx)")
    (auto simp: current_user_def bindH_def liftH_def fetch_current_def callH_def keepE_def split: option.splits)

lemma check_read_iff:
  assumes "serves_store env" "run_inv s"
  shows "(\<exists>s'. check_read env ctx memo s = (Inr (), s')) \<longleftrightarrow> reader_allowed (me_svc env) (GetUserID ctx) (st_db s) (fst memo)"
proof -
  have "(\<exists>s'. check_read env ctx memo s = (Inr (), s')) \<longleftrightarrow>
      (\<exists>s'. checkMemoReadAccess (me_svc env) (GetUserID ctx) (Some (fst memo)) s = Inr s')"
    by (cases "checkMemoReadAccess (me_svc env) (GetUserID ctx) (Some (fst memo)) s") (auto simp: check_read_def checkH_def)
  then show ?thesis by (simp only: checkMemoReadAccess_allowed [OF assms(2) me_store [OF assms(1)]])
qed

lemma linked_attachment_iff:
  assumes env: "serves_store env" and inv: "run_inv s" and work: "libraries_work env (st_db s)"
  shows "(\<exists>s'. bindH (find_memo env f (memo_by_id i)) (\<lambda>memo. check_read env ctx memo) s = (Inr (), s')) \<longleftrightarrow>
    (\<exists>row. memo_row (st_db s) i = Some row \<and> reader_allowed (me_svc env) (GetUserID ctx) (st_db s) row)"
proof (cases "memo_row (st_db s) i")
  case None
  then have "\<not> memo_matches (memo_by_id i) (st_db s) row" if "row \<in> set (db_memo (st_db s))" for row
    using that by (auto simp: memo_row_def filter_empty_conv memo_matches_def no_find_memo_def opt_eq_def)
  then have "find_memo env f (memo_by_id i) s \<noteq> (Inr m, s')" for m s'
    using answersD [OF answers_find_memo _ quiet_now [OF inv], of env f "memo_by_id i" m s'] by blast
  then show ?thesis using None by (auto simp: bindH_Inr)
next
  case (Some row)
  let ?d = "st_db s"
  have row: "row \<in> set (db_memo ?d)" "m_ID row = i" using memo_row_Some [OF Some] by simp_all
  have match: "memo_matches (memo_by_id i) ?d row" using row(2) by (simp add: memo_matches_def no_find_memo_def opt_eq_def)
  have same: "row' = row" if "row' \<in> set (db_memo ?d)" "memo_matches (memo_by_id i) ?d row'" for row'
    using that row run_inv_keys [OF inv]
    by (auto simp: memo_matches_def no_find_memo_def opt_eq_def db_keys_def distinct_map inj_on_def)
  obtain p s1 where "get_memo env f (memo_by_id i) s = (Inr (Some (memo_of_row False p row, parent_uid ?d i)), s1)" "quiet ?d s1"
    using yieldsD [OF yields_found_memo [OF work row(1) match] quiet_now [OF inv]] same row(2) by (fastforce simp: no_find_memo_def)
  then have "find_memo env f (memo_by_id i) s = (Inr (memo_of_row False p row, parent_uid ?d i), s1)" "run_inv s1" "st_db s1 = ?d"
    by (simp_all add: find_memo_def bindH_def liftH_def quiet_def)
  then show ?thesis
    using Some check_read_iff [OF env, of s1 ctx "(memo_of_row False p row, parent_uid ?d i)"] by (simp add: bindH_value)
qed

text \<open>C40. An attachment is listed for a caller exactly when he may read it alone: the listing of attachments under the
  access scope of a caller selects, of the rows that the other conditions select, precisely those for which
  \<open>checkAttachmentAccess\<close> lets the same caller read the attachment itself - one that is in no memo, if he created it;
  another one, if he may read its memo.\<close>

theorem attachment_read_agrees_with_listing:
  assumes env: "reads_store (me_Server env)" and inv: "run_inv s" and work: "libraries_work env (st_db s)"
    and scope: "resolveMemoAccessScope (me_svc env) (GetUserID ctx) s = Inr (scope, cur, s0)"
  shows "attachment_matches (q\<lparr>fa_Access := Some scope\<rparr>) (st_db s) (ar_Row a, file) \<longleftrightarrow>
    attachment_matches (q\<lparr>fa_Access := None\<rparr>) (st_db s) (ar_Row a, file) \<and> (\<exists>s'. checkAttachmentAccess env ctx a s = (Inr (), s'))"
proof -
  let ?d = "st_db s" and ?uid = "GetUserID ctx"
  have caller: "caller_scope (me_svc env) ?d ?uid = Some (scope, cur)"
    using resolveMemoAccessScope_caller [OF inv me_store [OF env], of ?uid] scope
    by (cases "caller_scope (me_svc env) ?d ?uid") auto
  have access: "attachment_access scope ?d (ar_Row a) \<longleftrightarrow> (\<exists>s'. checkAttachmentAccess env ctx a s = (Inr (), s'))"
  proof (cases "at_MemoID (ar_Row a)")
    case None
    have "(\<exists>s'. checkAttachmentAccess env ctx a s = (Inr (), s')) \<longleftrightarrow>
        (\<exists>u. caller_of ?d ?uid = Some (Some u) \<and> at_CreatorID (ar_Row a) = u_ID u)"
    proof -
      have "(\<exists>s'. checkAttachmentAccess env ctx a s = (Inr (), s')) \<longleftrightarrow>
          (\<exists>u s'. current_user env ctx (internal ''failed to get current user'') s = (Inr u, s') \<and> at_CreatorID (ar_Row a) = u_ID u)"
        by (auto simp: checkAttachmentAccess_def None bindH_Inr liftH_iff split: if_split_asm)
      then show ?thesis
        by (simp add: current_user_iff [OF env inv, of ctx "internal ''failed to get current user''", symmetric])
    qed
    also have "\<dots> \<longleftrightarrow> attachment_access scope ?d (ar_Row a)"
    proof (cases cur)
      case (Some u)
      then have "caller_of ?d ?uid = Some (Some u)" "scope = newMemoAccessScope (Some u) True"
        using caller by (auto simp: caller_scope_def split: option.split_asm sum.split_asm)
      moreover from this have "user_normal ?d (u_ID u)"
        using user_row_Some [of ?d ?uid u] by (fastforce simp: caller_of_def user_normal_def split: if_split_asm option.split_asm)
      ultimately show ?thesis using None by (auto simp: attachment_access_def newMemoAccessScope_def)
    next
      case none: None
      then have "caller_of ?d ?uid = Some None" "acc_UserID scope = None"
        using caller by (auto simp: caller_scope_def newMemoAccessScope_def split: option.split_asm sum.split_asm)
      then show ?thesis using None by (simp add: attachment_access_def)
    qed
    finally show ?thesis by simp
  next
    case (Some i)
    have "attachment_access scope ?d (ar_Row a) \<longleftrightarrow> (\<exists>row. memo_row ?d i = Some row \<and> memo_listed ?d scope row)"
      using Some by (auto simp: attachment_access_def attachment_memo_def access_true_iff split: option.splits)
    also have "\<dots> \<longleftrightarrow> (\<exists>row. memo_row ?d i = Some row \<and> reader_allowed (me_svc env) ?uid ?d row)"
      using caller by (simp add: reader_allowed_def)
    finally show ?thesis
      using linked_attachment_iff [OF env inv work] by (simp add: checkAttachmentAccess_def Some)
  qed
  show ?thesis by (auto simp: attachment_matches_def access)
qed

text \<open>A file of Bob's diary.\<close>

definition diary_file :: "AttachmentPayload AttachmentRead" where
  "diary_file =
     \<lparr>ar_Row = \<lparr>at_ID = 1, at_UID = ''file'', at_CreatorID = 2, at_MemoID = Some 2, at_StorageType = [], at_Reference = [], at_Payload = []\<rparr>,
      ar_File = \<lparr>af_id = 1, af_CreatedTs = 0, af_UpdatedTs = 0, af_Filename = ''a.txt'', af_Blob = [], af_Type = [], af_Size = 0\<rparr>,
      ar_Payload = \<lparr>ap_MotionMedia = None, ap_MediaMetadata = None\<rparr>, ar_StorageType = [], ar_MemoUID = Some ''diary''\<rparr>"

theorem attachment_read_agrees_with_listing_witness:
  "\<exists>scope. attachment_matches (no_find_attachment\<lparr>fa_Access := Some scope\<rparr>) (st_db reading_state) (ar_Row diary_file, ar_File diary_file)
    \<and> (\<exists>s'. checkAttachmentAccess reading_env (as_user 2) diary_file reading_state = (Inr (), s'))
    \<and> acc_UserID scope = Some 2"
proof -
  have "case resolveMemoAccessScope (me_svc reading_env) (GetUserID (as_user 2)) reading_state of Inl _ \<Rightarrow> False | Inr (scope, _) \<Rightarrow> acc_UserID scope = Some 2"
    by code_simp
  then obtain scope cur s0 where r: "resolveMemoAccessScope (me_svc reading_env) (GetUserID (as_user 2)) reading_state = Inr (scope, cur, s0)"
    and who: "acc_UserID scope = Some 2" by (auto split: sum.splits)
  have "case fst (checkAttachmentAccess reading_env (as_user 2) diary_file reading_state) of Inl _ \<Rightarrow> False | Inr _ \<Rightarrow> True" by code_simp
  then have check: "\<exists>s'. checkAttachmentAccess reading_env (as_user 2) diary_file reading_state = (Inr (), s')"
    by (cases "checkAttachmentAccess reading_env (as_user 2) diary_file reading_state") (auto split: sum.splits)
  have "attachment_matches (no_find_attachment\<lparr>fa_Access := None\<rparr>) (st_db reading_state) (ar_Row diary_file, ar_File diary_file)"
    by (simp add: attachment_matches_def no_find_attachment_def opt_eq_def)
  then show ?thesis
    using attachment_read_agrees_with_listing [OF reading_env_ok reading_state_inv reading_libraries r, of no_find_attachment diary_file "ar_File diary_file"]
      check who by blast
qed

end
