(* ===== verification/Calendar.thy ===== *)
theory Calendar
  imports Go_Numbers
begin

text \<open>
  The calendar of package \<open>time\<close> in both directions: the day number of a date, and that the
  accessors of the prelude read the date back. The 400 years of an era and the 366 days of a year
  are decided by evaluation at their ends and by monotonicity in between.
\<close>

section \<open>Years of an era\<close>

definition era_year :: "int \<Rightarrow> int" where
  "era_year doe = (doe - doe div 1460 + doe div 36524 - doe div 146096) div 365"

definition era_start :: "int \<Rightarrow> int" where
  "era_start y = 365 * y + y div 4 - y div 100"

definition era_end :: "int \<Rightarrow> int" where
  "era_end y = (if y = 399 then 146097 else era_start (y + 1))"

lemma year_of_era_alt: "year_of_era t = era_year (day_of_era t)"
  by (simp add: year_of_era_def era_year_def Let_def)

lemma march_day_alt: "march_day t = day_of_era t - era_start (year_of_era t)"
  by (simp add: march_day_def era_start_def Let_def)

lemma day_of_era_range: "0 \<le> day_of_era t" "day_of_era t < 146097"
  by (simp_all add: day_of_era_def)

lemma div_add_le:
  fixes a c k :: int
  assumes "0 \<le> c" "0 < k"
  shows "(a + c) div k \<le> a div k + c"
proof -
  have "c \<le> c * k" using assms by (cases "c = 0") auto
  then have "(a + c) div k \<le> (a + c * k) div k" using assms(2) by (intro zdiv_mono1) simp_all
  then show ?thesis using assms(2) by simp
qed

lemma diff_div_mono:
  fixes a b k :: int
  assumes "a \<le> b" "0 < k"
  shows "a - a div k \<le> b - b div k"
  using div_add_le [of "b - a" k a] assms by simp

lemma era_year_mono:
  assumes "0 \<le> x" "x \<le> y" "y < 146097"
  shows "era_year x \<le> era_year y"
proof -
  have below: "era_year a \<le> era_year b" if "0 \<le> a" "a \<le> b" "b < 146096" for a b
  proof -
    have z: "a div 146096 = 0" "b div 146096 = 0" using that by simp_all
    have p: "a - a div 1460 \<le> b - b div 1460" by (rule diff_div_mono) (use that(2) in simp_all)
    have q: "a div 36524 \<le> b div 36524" by (rule zdiv_mono1) (use that(2) in simp_all)
    show ?thesis unfolding era_year_def z diff_0_right by (rule zdiv_mono1 [OF add_mono [OF p q]]) simp
  qed
  show ?thesis
  proof (cases "y = 146096 \<and> x \<noteq> y")
    case True
    then have "era_year x \<le> era_year 146095" using assms by (intro below) simp_all
    also have "\<dots> \<le> era_year 146096" by (simp add: era_year_def)
    finally show ?thesis using True by simp
  next
    case False
    then show ?thesis using assms below [of x y] by (cases "x = y") simp_all
  qed
qed

lemma era_ends:
  "list_all (\<lambda>y. era_year (era_start y) = y \<and> era_year (era_end y - 1) = y \<and> era_start y < era_end y
     \<and> 0 \<le> era_start y \<and> era_end y \<le> 146097 \<and> era_end y - era_start y \<le> 366 \<and> 365 \<le> era_end y - era_start y) [0..399]"
  by code_simp

lemma era_end_facts:
  assumes "0 \<le> y" "y < 400"
  shows "era_year (era_start y) = y" "era_year (era_end y - 1) = y" "0 \<le> era_start y" "era_end y \<le> 146097"
    "era_end y - era_start y \<le> 366" "365 \<le> era_end y - era_start y"
proof -
  have "y \<in> set [0..399]" using assms by simp
  then show "era_year (era_start y) = y" "era_year (era_end y - 1) = y" "0 \<le> era_start y" "era_end y \<le> 146097"
    "era_end y - era_start y \<le> 366" "365 \<le> era_end y - era_start y"
    using era_ends unfolding list_all_iff by blast+
qed

lemma era_year_eq:
  assumes "0 \<le> y" "y < 400" "era_start y \<le> doe" "doe < era_end y"
  shows "era_year doe = y"
  using era_year_mono [of "era_start y" doe] era_year_mono [of doe "era_end y - 1"] era_end_facts [OF assms(1,2)] assms(3,4)
  by simp

lemma era_year_exists:
  assumes "0 \<le> doe" "doe < 146097"
  obtains y where "0 \<le> y" "y < 400" "era_start y \<le> doe" "doe < era_end y"
proof -
  have "\<exists>y. 0 \<le> y \<and> y < 400 \<and> era_start y \<le> doe \<and> doe < era_end y" if "doe < era_end (int n)" "n < 400" for n
    using that
  proof (induction n)
    case 0
    then show ?case using assms(1) by (intro exI [of _ 0]) (simp add: era_start_def)
  next
    case (Suc n)
    show ?case
    proof (cases "doe < era_end (int n)")
      case True
      then show ?thesis using Suc by simp
    next
      case False
      then have "era_start (int (Suc n)) \<le> doe" using Suc.prems(2) by (simp add: era_end_def add.commute)
      then show ?thesis using Suc.prems by (intro exI [of _ "int (Suc n)"]) simp
    qed
  qed
  from this [of 399] show thesis using assms(2) that by (auto simp: era_end_def)
qed

lemma march_day_range: "0 \<le> march_day t" "march_day t < 366" and year_of_era_range: "0 \<le> year_of_era t" "year_of_era t < 400"
proof -
  obtain y where y: "0 \<le> y" "y < 400" "era_start y \<le> day_of_era t" "day_of_era t < era_end y"
    using era_year_exists [OF day_of_era_range] .
  then have "year_of_era t = y" by (simp add: year_of_era_alt era_year_eq)
  with y era_end_facts(5) [OF y(1,2)] show "0 \<le> march_day t" "march_day t < 366" "0 \<le> year_of_era t" "year_of_era t < 400"
    by (simp_all add: march_day_alt)
qed

section \<open>Days of a year\<close>

definition month_start :: "int \<Rightarrow> int" where
  "month_start mp = (153 * mp + 2) div 5"

lemma month_days:
  "list_all (\<lambda>doy. let mp = (5 * doy + 2) div 153; d = doy - month_start mp + 1 in
     0 \<le> mp \<and> mp < 12 \<and> 1 \<le> d \<and> d \<le> 31 \<and> (mp = 11 \<longrightarrow> d \<le> 29)) [0..365]"
  by code_simp

lemma month_facts:
  "0 \<le> march_month t" "march_month t < 12" "1 \<le> Day t" "Day t \<le> 31" "Month t = 2 \<Longrightarrow> Day t \<le> 29"
proof -
  have "march_day t \<in> set [0..365]" using march_day_range [of t] by simp
  then have f: "0 \<le> march_month t \<and> march_month t < 12 \<and> 1 \<le> Day t \<and> Day t \<le> 31 \<and> (march_month t = 11 \<longrightarrow> Day t \<le> 29)"
    using month_days unfolding list_all_iff Let_def march_month_def month_start_def Day_def by blast
  then show "0 \<le> march_month t" "march_month t < 12" "1 \<le> Day t" "Day t \<le> 31" by simp_all
  show "Month t = 2 \<Longrightarrow> Day t \<le> 29" using f by (auto simp: Month_def Let_def split: if_splits)
qed

lemma Month_range: "1 \<le> Month t" "Month t \<le> 12"
  using month_facts(1,2) [of t] by (auto simp: Month_def Let_def)

text \<open>The length of a month, in a leap year for February.\<close>

definition month_length :: "int \<Rightarrow> int" where
  "month_length m = (if m = 2 then 29 else if m \<in> {4, 6, 9, 11} then 30 else 31)"

lemma month_lengths:
  "list_all (\<lambda>doy. let mp = (5 * doy + 2) div 153 in
     doy - month_start mp + 1 \<le> month_length (if mp < 10 then mp + 3 else mp - 9)) [0..365]"
  by code_simp

lemma Day_le_month_length: "Day t \<le> month_length (Month t)"
proof -
  have "march_day t \<in> set [0..365]" using march_day_range [of t] by simp
  then show ?thesis
    using month_lengths unfolding list_all_iff Let_def Day_def Month_def march_month_def month_start_def by blast
qed

section \<open>The day number of a date\<close>

text \<open>\<open>Date\<close> of package \<open>time\<close> in UTC, in days since the Unix epoch, for a month from 1 to 12; a day
  beyond the end of the month runs into the next one.\<close>

definition days_of_date :: "int \<Rightarrow> int \<Rightarrow> int \<Rightarrow> int" where
  "days_of_date y m d =
     (let y' = (if m \<le> 2 then y - 1 else y); mp = (if m > 2 then m - 3 else m + 9); yoe = y' mod 400
      in y' div 400 * 146097 + era_start yoe + month_start mp + d - 1 - 719468)"

lemma days_of_date_Date: "days_of_date (Year t) (Month t) (Day t) = unix_days t"
proof -
  let ?era = "(unix_days t + 719468) div 146097"
  have y: "(if Month t \<le> 2 then Year t - 1 else Year t) = year_of_era t + ?era * 400" by (simp add: Year_def)
  have mp: "(if Month t > 2 then Month t - 3 else Month t + 9) = march_month t"
    using month_facts(1,2) [of t] by (simp add: Month_def Let_def)
  have ym: "(year_of_era t + ?era * 400) mod 400 = year_of_era t" "(year_of_era t + ?era * 400) div 400 = ?era"
    using year_of_era_range [of t] by simp_all
  have "days_of_date (Year t) (Month t) (Day t)
      = ?era * 146097 + era_start (year_of_era t) + month_start (march_month t) + Day t - 1 - 719468"
    unfolding days_of_date_def Let_def y mp ym ..
  also have "\<dots> = ?era * 146097 + day_of_era t - 719468"
    by (simp add: Day_def march_day_alt month_start_def)
  also have "\<dots> = unix_days t"
    unfolding day_of_era_def by (simp add: minus_mod_eq_div_mult [symmetric])
  finally show ?thesis .
qed

lemma year_days:
  "y div 400 * 146097 + era_start (y mod 400) = 365 * y + y div 4 - y div 100 + y div 400"
proof -
  define q r where "q = y div 400" and "r = y mod 400"
  have y: "y = r + q * 400" by (simp add: q_def r_def)
  have "y div 4 = r div 4 + q * 100" "y div 100 = r div 100 + q * 4"
    unfolding y by (simp_all add: div_add1_eq)
  then show ?thesis
    unfolding era_start_def q_def [symmetric] r_def [symmetric] by (simp add: y)
qed

lemma days_of_date_alt:
  "days_of_date y m d =
     (let y' = (if m \<le> 2 then y - 1 else y); mp = (if m > 2 then m - 3 else m + 9)
      in 365 * y' + y' div 4 - y' div 100 + y' div 400 + month_start mp + d - 719469)"
  using year_days [of "if m \<le> 2 then y - 1 else y"] by (simp add: days_of_date_def Let_def)

lemma four_years_later: "1460 \<le> days_of_date (y + 4) m d - days_of_date y m d"
proof -
  have step: "1460 \<le> 365 * (a + 4) + (a + 4) div 4 - (a + 4) div 100 + (a + 4) div 400
      - (365 * a + a div 4 - a div 100 + a div 400)" for a :: int
  proof -
    have "(a + 4) div 100 \<le> a div 100 + 1" using zdiv_mono1 [of "a + 4" "a + 100" 100] by simp
    moreover have "a div 400 \<le> (a + 4) div 400" by (simp add: zdiv_mono1)
    moreover have "(a + 4) div 4 = a div 4 + 1" by simp
    ultimately show ?thesis by simp
  qed
  show ?thesis
    using step [of y] step [of "y - 1"] by (simp add: days_of_date_alt Let_def algebra_simps)
qed

lemma month_start_range:
  assumes "1 \<le> m" "m \<le> 12"
  shows "0 \<le> month_start (if m > 2 then m - 3 else m + 9)" "month_start (if m > 2 then m - 3 else m + 9) \<le> 337"
    "2 < m \<longrightarrow> month_start (m - 3) \<le> 275" "m \<le> 2 \<longrightarrow> 306 \<le> month_start (m + 9)"
proof -
  have "list_all (\<lambda>m. 0 \<le> month_start (if m > 2 then m - 3 else m + 9) \<and> month_start (if m > 2 then m - 3 else m + 9) \<le> 337
      \<and> (2 < m \<longrightarrow> month_start (m - 3) \<le> 275) \<and> (m \<le> 2 \<longrightarrow> 306 \<le> month_start (m + 9))) [1..12]"
    by code_simp
  moreover have "m \<in> set [1..12]" using assms by simp
  ultimately show "0 \<le> month_start (if m > 2 then m - 3 else m + 9)" "month_start (if m > 2 then m - 3 else m + 9) \<le> 337"
    "2 < m \<longrightarrow> month_start (m - 3) \<le> 275" "m \<le> 2 \<longrightarrow> 306 \<le> month_start (m + 9)"
    unfolding list_all_iff by blast+
qed

text \<open>A date of the year after next is in the future and less than 1400 days away.\<close>

lemma next_year_date:
  assumes "1 \<le> m" "m \<le> 12" "1 \<le> d" "d \<le> 31" "1 \<le> m'" "m' \<le> 12" "1 \<le> d'" "d' \<le> 28"
  shows "days_of_date y m d < days_of_date (y + 2) m' d'" "days_of_date (y + 2) m' d' < days_of_date y m d + 1400"
proof -
  define G where "G = (\<lambda>a. 365 * a + a div 4 - a div 100 + a div 400 :: int)"
  have step: "365 \<le> G (a + 1) - G a" "G (a + 1) - G a \<le> 367" for a
  proof -
    have up: "x div k \<le> (x + 1) div k" "(x + 1) div k \<le> x div k + 1" if "0 < k" for x k :: int
      using div_add_le [of 1 k x] zdiv_mono1 [of x "x + 1" k] that by simp_all
    define p p' q q' r r' where "p = a div 4" and "p' = (a + 1) div 4" and "q = a div 100" and "q' = (a + 1) div 100"
      and "r = a div 400" and "r' = (a + 1) div 400"
    have b: "p \<le> p'" "p' \<le> p + 1" "q \<le> q'" "q' \<le> q + 1" "r \<le> r'" "r' \<le> r + 1"
      unfolding p_def p'_def q_def q'_def r_def r'_def by (simp_all add: up)
    have "q' = p' div 25" "q = p div 25"
      unfolding p_def p'_def q_def q'_def by (simp_all add: zdiv_zmult2_eq [symmetric])
    then have same: "p' = p \<Longrightarrow> q' = q" by simp
    have "G (a + 1) - G a = 365 + p' - p - q' + q + r' - r"
      unfolding G_def p_def p'_def q_def q'_def r_def r'_def by (simp only: distrib_left)
    then show "365 \<le> G (a + 1) - G a" "G (a + 1) - G a \<le> 367" using b same by linarith+
  qed
  have date: "days_of_date a b c = G (if b \<le> 2 then a - 1 else a) + month_start (if b > 2 then b - 3 else b + 9) + c - 719469" for a b c
    by (simp add: days_of_date_alt G_def Let_def)
  note s = step [of "y - 1"] step [of y] step [of "y + 1"] month_start_range [OF assms(1,2)] month_start_range [OF assms(5,6)]
  show "days_of_date y m d < days_of_date (y + 2) m' d'" "days_of_date (y + 2) m' d' < days_of_date y m d + 1400"
    using s assms unfolding date by (auto simp: algebra_simps split: if_splits)
qed

lemma month_inverse:
  assumes "1 \<le> m" "m \<le> 12" "1 \<le> d" "d \<le> 28"
  shows "(5 * (month_start (if m > 2 then m - 3 else m + 9) + d - 1) + 2) div 153 = (if m > 2 then m - 3 else m + 9)"
proof -
  have "list_all (\<lambda>m. list_all (\<lambda>d. (5 * (month_start (if m > 2 then m - 3 else m + 9) + d - 1) + 2) div 153
      = (if m > 2 then m - 3 else m + 9)) [1..28]) [1..12]"
    by code_simp
  moreover have "m \<in> set [1..12]" "d \<in> set [1..28]" using assms by simp_all
  ultimately show ?thesis unfolding list_all_iff by blast
qed

lemma Date_of_days:
  assumes "1 \<le> m" "m \<le> 12" "1 \<le> d" "d \<le> 28" "unix_days t = days_of_date y m d"
  shows "Month t = m" "Day t = d"
proof -
  let ?mp = "if m > 2 then m - 3 else m + 9" and ?y = "if m \<le> 2 then y - 1 else y"
  note ms = month_start_range [OF assms(1,2)]
  have yoe: "0 \<le> ?y mod 400" "?y mod 400 < 400" by simp_all
  note ef = era_end_facts [OF yoe]
  have n: "unix_days t + 719468 = era_start (?y mod 400) + month_start ?mp + d - 1 + ?y div 400 * 146097"
    unfolding assms(5) days_of_date_def Let_def by simp
  have doe: "day_of_era t = era_start (?y mod 400) + month_start ?mp + d - 1"
    unfolding day_of_era_def n mod_mult_self1 using ef ms assms(3,4) by (intro mod_pos_pos_trivial) linarith+
  have "year_of_era t = ?y mod 400"
    unfolding year_of_era_alt doe using ef ms assms(3,4) by (intro era_year_eq [OF yoe]) linarith+
  then have md: "march_day t = month_start ?mp + d - 1" by (simp add: march_day_alt doe)
  have mm: "march_month t = ?mp"
    unfolding march_month_def md by (rule month_inverse [OF assms(1-4)])
  show "Month t = m" using assms(1,2) by (simp add: Month_def mm Let_def)
  show "Day t = d" by (simp add: Day_def mm md month_start_def)
qed

end
