(* ===== verification/Cron.thy ===== *)
theory Cron
  imports Calendar Go_Fields
begin

text \<open>
  Cron expressions: \<open>internal/scheduler/parser.go\<close>. An instant is a number of nanoseconds since the
  Unix epoch. A location is the offset from UTC, in seconds, that it has at a given Unix second:
  the time zone database is a parameter. Everything else of package \<open>time\<close> that the parser uses is
  defined here.
\<close>

section \<open>Times\<close>

type_synonym instant = int
type_synonym location = "int \<Rightarrow> int"

definition UTC :: location where
  "UTC = (\<lambda>_. 0)"

abbreviation second_ns :: int where "second_ns \<equiv> 1000000000"
abbreviation minute_ns :: int where "minute_ns \<equiv> 60000000000"

definition local_time :: "location \<Rightarrow> instant \<Rightarrow> go_time" where
  "local_time loc t = t div second_ns + loc (t div second_ns)"

text \<open>\<open>Truncate\<close> rounds down to a multiple of the duration since the zero time; the epoch is such a
  multiple for seconds and minutes.\<close>

definition Truncate :: "instant \<Rightarrow> int \<Rightarrow> instant" where
  "Truncate t d = t - t mod d"

text \<open>\<open>Date\<close> looks the offset up at the wall-clock second, and again at the second this gives.\<close>

definition Date :: "location \<Rightarrow> int \<Rightarrow> int \<Rightarrow> int \<Rightarrow> int \<Rightarrow> int \<Rightarrow> instant" where
  "Date loc y m d clock nsec =
     (let wall = days_of_date y m d * 86400 + clock
      in (wall - loc (wall - loc wall)) * second_ns + nsec)"

definition AddDate4 :: "location \<Rightarrow> instant \<Rightarrow> instant" where
  "AddDate4 loc t =
     (let l = local_time loc t in Date loc (Year l + 4) (Month l) (Day l) (l mod 86400) (t mod second_ns))"

text \<open>\<open>time.Time{}\<close>: 1 January of the year 1.\<close>

definition zero_time :: instant where
  "zero_time = -62135596800 * second_ns"

section \<open>Schedules\<close>

datatype fieldMatcher =
    wildcardMatcher
  | exactMatcher int
  | rangeMatcher int int
  | listMatcher "int list"
  | stepMatcher int int int

fun matches_field :: "fieldMatcher \<Rightarrow> int \<Rightarrow> bool" where
  "matches_field wildcardMatcher value = True"
| "matches_field (exactMatcher v) value = (value = v)"
| "matches_field (rangeMatcher start stop) value = (value \<ge> start \<and> value \<le> stop)"
| "matches_field (listMatcher values) value = (value \<in> set values)"
| "matches_field (stepMatcher step lo hi) value =
     (if value < lo \<or> value > hi then False else (value - lo) mod step = 0)"

record Schedule =
  sch_seconds :: fieldMatcher
  sch_minutes :: fieldMatcher
  sch_hours :: fieldMatcher
  sch_days :: fieldMatcher
  sch_months :: fieldMatcher
  sch_weekdays :: fieldMatcher
  sch_hasSecs :: bool

section \<open>Parsing\<close>

text \<open>\<open>strconv.Atoi\<close> on a 64-bit machine; the callers drop its error.\<close>

definition Atoi :: "string \<Rightarrow> int option" where
  "Atoi s =
     (let sign = (if s \<noteq> [] \<and> hd s = CHR ''-'' then -1 else 1);
          ds = (if s \<noteq> [] \<and> (hd s = CHR ''-'' \<or> hd s = CHR ''+'') then drop 1 s else s);
          n = sign * int (digits_value ds)
      in if ds = [] \<or> \<not> list_all is_digit ds then None
         else if n < - (2 ^ 63) \<or> n \<ge> 2 ^ 63 then None
         else Some n)"

definition parse_list_value :: "int \<Rightarrow> int \<Rightarrow> string \<Rightarrow> int result" where
  "parse_list_value lo hi p =
     (case Atoi (trim_space p) of
        None \<Rightarrow> Inl (Errorf ''invalid list value: %s'' [p])
      | Some val \<Rightarrow> if val < lo \<or> val > hi then Inl (Errorf ''invalid list value: %s'' [p]) else Inr val)"

definition parseField :: "string \<Rightarrow> int \<Rightarrow> int \<Rightarrow> fieldMatcher result" where
  "parseField field lo hi =
     (if field = ''*'' then Inr wildcardMatcher
      else if has_prefix field ''*/''
      then (case Atoi (drop 2 field) of
              None \<Rightarrow> Inl (Errorf ''invalid step value: %s'' [field])
            | Some step \<Rightarrow>
                if step < 1 \<or> step > hi then Inl (Errorf ''invalid step value: %s'' [field])
                else Inr (stepMatcher step lo hi))
      else if contains field '',''
      then bindE (mapE (parse_list_value lo hi) (split CHR '','' field)) (\<lambda>values. Inr (listMatcher values))
      else if contains field ''-''
      then (case split CHR ''-'' field of
              [a, b] \<Rightarrow>
                (case (Atoi (trim_space a), Atoi (trim_space b)) of
                   (Some start, Some stop) \<Rightarrow>
                     if start < lo \<or> stop > hi \<or> start > stop then Inl (Errorf ''invalid range: %s'' [field])
                     else Inr (rangeMatcher start stop)
                 | _ \<Rightarrow> Inl (Errorf ''invalid range: %s'' [field]))
            | _ \<Rightarrow> Inl (Errorf ''invalid range: %s'' [field]))
      else (case Atoi field of
              None \<Rightarrow> Inl (Errorf ''invalid value: %s (must be between %d and %d)'' [field, decimal (nat lo), decimal (nat hi)])
            | Some val \<Rightarrow>
                if val < lo \<or> val > hi
                then Inl (Errorf ''invalid value: %s (must be between %d and %d)'' [field, decimal (nat lo), decimal (nat hi)])
                else Inr (exactMatcher val)))"

definition ParseCronExpression :: "string \<Rightarrow> Schedule result" where
  "ParseCronExpression expr =
     (if expr = [] then Inl (Errorf ''empty cron expression'' [])
      else let fields = Fields expr in
        if length fields \<noteq> 5 \<and> length fields \<noteq> 6
        then Inl (Errorf ''invalid cron expression: expected 5 or 6 fields, got %d'' [decimal (length fields)])
        else let hasSecs = (length fields = 6); offset = (if hasSecs then 1 else 0) in
          bindE (if hasSecs then wrapE ''invalid seconds field'' (parseField (fields ! 0) 0 59)
                 else Inr (exactMatcher 0)) (\<lambda>seconds.
          bindE (wrapE ''invalid minutes field'' (parseField (fields ! offset) 0 59)) (\<lambda>minutes.
          bindE (wrapE ''invalid hours field'' (parseField (fields ! (offset + 1)) 0 23)) (\<lambda>hours.
          bindE (wrapE ''invalid days field'' (parseField (fields ! (offset + 2)) 1 31)) (\<lambda>days.
          bindE (wrapE ''invalid months field'' (parseField (fields ! (offset + 3)) 1 12)) (\<lambda>months.
          bindE (wrapE ''invalid weekdays field'' (parseField (fields ! (offset + 4)) 0 7)) (\<lambda>weekdays.
            Inr \<lparr>sch_seconds = seconds, sch_minutes = minutes, sch_hours = hours, sch_days = days,
                 sch_months = months, sch_weekdays = weekdays, sch_hasSecs = hasSecs\<rparr>)))))))"

section \<open>The next run\<close>

definition matches :: "location \<Rightarrow> Schedule \<Rightarrow> instant \<Rightarrow> bool" where
  "matches loc s t =
     (let l = local_time loc t
      in matches_field (sch_seconds s) (Second l) \<and> matches_field (sch_minutes s) (Minute l)
         \<and> matches_field (sch_hours s) (Hour l) \<and> matches_field (sch_months s) (Month l)
         \<and> (matches_field (sch_days s) (Day l) \<or> matches_field (sch_weekdays s) (Weekday l)))"

definition tick :: "Schedule \<Rightarrow> int" where
  "tick s = (if sch_hasSecs s then second_ns else minute_ns)"

lemma tick_pos: "0 < tick s"
  by (simp add: tick_def)

function next_loop :: "location \<Rightarrow> Schedule \<Rightarrow> instant \<Rightarrow> instant \<Rightarrow> instant" where
  "next_loop loc s maxTime from =
     (if from < maxTime then if matches loc s from then from else next_loop loc s maxTime (from + tick s)
      else zero_time)"
  by pat_completeness auto
termination
  by (relation "measure (\<lambda>(loc, s, maxTime, from). nat (maxTime - from))") (auto simp: tick_pos)

declare next_loop.simps [simp del]

definition first_tick :: "Schedule \<Rightarrow> instant \<Rightarrow> instant" where
  "first_tick s from = Truncate (from + tick s) (tick s)"

definition Next :: "location \<Rightarrow> Schedule \<Rightarrow> instant \<Rightarrow> instant" where
  "Next loc s from = (let from = first_tick s from in next_loop loc s (AddDate4 loc from) from)"

section \<open>What a field accepts\<close>

lemma parse_list_value_Inr: "parse_list_value lo hi p = Inr v \<Longrightarrow> lo \<le> v \<and> v \<le> hi"
  by (auto simp: parse_list_value_def split: option.splits if_splits)

lemma mapE_values:
  assumes "mapE (parse_list_value lo hi) ps = Inr vs" "v \<in> set vs"
  shows "lo \<le> v \<and> v \<le> hi"
proof -
  have "list_all2 (\<lambda>p v. parse_list_value lo hi p = Inr v) ps vs" using assms(1) by (simp add: mapE_Inr_all2)
  with assms(2) obtain p where "parse_list_value lo hi p = Inr v"
    by (auto simp: list_all2_conv_all_nth in_set_conv_nth)
  then show ?thesis by (rule parse_list_value_Inr)
qed

text \<open>The parsed matchers, by kind.\<close>

lemma parseField_cases:
  assumes "parseField field lo hi = Inr m"
  obtains "m = wildcardMatcher"
  | step where "m = stepMatcher step lo hi" "1 \<le> step" "step \<le> hi"
  | vs where "m = listMatcher vs" "vs \<noteq> []" "set vs \<subseteq> {lo..hi}"
  | a b where "m = rangeMatcher a b" "lo \<le> a" "a \<le> b" "b \<le> hi"
  | v where "m = exactMatcher v" "lo \<le> v" "v \<le> hi"
proof (cases "contains field '','' \<and> \<not> has_prefix field ''*/'' \<and> field \<noteq> ''*''")
  case True
  then obtain vs where vs: "mapE (parse_list_value lo hi) (split CHR '','' field) = Inr vs" "m = listMatcher vs"
    using assms by (auto simp: parseField_def result_simps)
  have "length vs = length (split CHR '','' field)" by (rule mapE_Inr_length [OF vs(1)])
  then have "vs \<noteq> []" by auto
  moreover have "set vs \<subseteq> {lo..hi}" using mapE_values [OF vs(1)] by auto
  ultimately show thesis using that(3) vs(2) by blast
next
  case False
  then show thesis
    using assms that unfolding parseField_def by (auto split: if_splits option.splits list.splits)
qed

lemma parseField_accepts:
  assumes "parseField field lo hi = Inr m" "lo \<le> hi"
  shows "\<exists>v. lo \<le> v \<and> v \<le> hi \<and> matches_field m v"
  using assms(1)
proof (cases rule: parseField_cases)
  case 1
  then show ?thesis using assms(2) by auto
next
  case (2 step)
  then show ?thesis using assms(2) by (intro exI [of _ lo]) simp
next
  case (3 vs)
  then show ?thesis by (intro exI [of _ "hd vs"]) (auto simp: neq_Nil_conv)
next
  case (4 a b)
  then show ?thesis by (intro exI [of _ a]) simp
next
  case (5 v)
  then show ?thesis by (intro exI [of _ v]) simp
qed

lemma parseField_range:
  assumes "parseField field lo hi = Inr m" "m \<noteq> wildcardMatcher"
  shows "{v. matches_field m v} \<subseteq> {lo..hi}"
  using assms(1)
proof (cases rule: parseField_cases)
  case (2 step)
  then show ?thesis by (auto split: if_splits)
qed (use assms(2) in auto)

section \<open>The first matching tick\<close>

lemma next_loop_spec:
  "next_loop loc s maxTime from = r \<Longrightarrow>
    (\<exists>k::nat. r = from + int k * tick s \<and> r < maxTime \<and> matches loc s r
       \<and> {j. j < k \<and> matches loc s (from + int j * tick s)} = {})
    \<or> r = zero_time \<and> {j::nat. from + int j * tick s < maxTime \<and> matches loc s (from + int j * tick s)} = {}"
proof (induction loc s maxTime "from" rule: next_loop.induct)
  case (1 loc s maxTime "from")
  consider "from \<ge> maxTime" | "from < maxTime" "matches loc s from" | "from < maxTime" "\<not> matches loc s from" by linarith
  then show ?case
  proof cases
    case 1
    then have "r = zero_time" using "1.prems" by (simp add: next_loop.simps)
    moreover have "0 \<le> int j * tick s" for j using tick_pos [of s] by simp
    then have "\<not> from + int j * tick s < maxTime" for j using 1 by (simp add: not_less add_increasing2)
    ultimately show ?thesis by blast
  next
    case 2
    then show ?thesis using "1.prems" by (intro disjI1 exI [of _ 0]) (simp add: next_loop.simps)
  next
    case 3
    have rec: "next_loop loc s maxTime (from + tick s) = r" using 3 "1.prems" by (simp add: next_loop.simps)
    have shift: "from + tick s + int j * tick s = from + int (Suc j) * tick s" for j by (simp add: algebra_simps)
    have split0: "P j = (if j = 0 then P 0 else P (Suc (j - 1)))" for P and j :: nat by simp
    from "1.IH" [OF 3 rec] show ?thesis
    proof (elim disjE exE conjE)
      fix k
      assume k: "r = from + tick s + int k * tick s" "r < maxTime" "matches loc s r"
        "{j. j < k \<and> matches loc s (from + tick s + int j * tick s)} = {}"
      have "\<not> matches loc s (from + int j * tick s)" if "j < Suc k" for j
        using k(4) that 3(2) unfolding shift by (cases j) auto
      then show ?thesis using k(1-3) unfolding shift by (intro disjI1 exI [of _ "Suc k"]) auto
    next
      assume z: "r = zero_time"
        "{j::nat. from + tick s + int j * tick s < maxTime \<and> matches loc s (from + tick s + int j * tick s)} = {}"
      have "\<not> (from + int j * tick s < maxTime \<and> matches loc s (from + int j * tick s))" for j
        using z(2) 3(2) unfolding shift by (cases j) auto
      then show ?thesis using z(1) by blast
    qed
  qed
qed

lemma first_tick_after: "from < first_tick s from" "first_tick s from \<le> from + tick s" "first_tick s from mod tick s = 0"
proof -
  have "0 \<le> (from + tick s) mod tick s" "(from + tick s) mod tick s < tick s" using tick_pos [of s] by simp_all
  then show "from < first_tick s from" "first_tick s from \<le> from + tick s" by (simp_all add: first_tick_def Truncate_def)
  show "first_tick s from mod tick s = 0" unfolding first_tick_def Truncate_def minus_mod_eq_div_mult by simp
qed

lemma local_UTC [simp]: "local_time UTC t = t div second_ns"
  by (simp add: local_time_def UTC_def)

lemma AddDate4_UTC: "(unix_days (t div second_ns) + 1460) * 86400 * second_ns \<le> AddDate4 UTC t"
proof -
  let ?l = "t div second_ns"
  have "unix_days ?l + 1460 \<le> days_of_date (Year ?l + 4) (Month ?l) (Day ?l)"
    using four_years_later [of "Year ?l" "Month ?l" "Day ?l"] by (simp add: days_of_date_Date)
  then have "(unix_days ?l + 1460) * 86400 \<le> days_of_date (Year ?l + 4) (Month ?l) (Day ?l) * 86400"
    by (rule mult_right_mono) simp
  also have "\<dots> \<le> days_of_date (Year ?l + 4) (Month ?l) (Day ?l) * 86400 + ?l mod 86400" by simp
  finally have "(unix_days ?l + 1460) * 86400 * second_ns
      \<le> (days_of_date (Year ?l + 4) (Month ?l) (Day ?l) * 86400 + ?l mod 86400) * second_ns"
    by (rule mult_right_mono) simp
  also have "\<dots> \<le> AddDate4 UTC t"
    unfolding AddDate4_def Date_def Let_def local_UTC by (simp add: UTC_def)
  finally show ?thesis .
qed

text \<open>A tick that matches, if it is not too far, is not missed.\<close>

lemma Next_finds:
  assumes "matches loc s u" "u mod tick s = 0" "first_tick s from \<le> u" "u < AddDate4 loc (first_tick s from)"
  shows "from < Next loc s from \<and> Next loc s from \<le> u \<and> matches loc s (Next loc s from)"
proof -
  let ?f = "first_tick s from"
  define j where "j = nat ((u - ?f) div tick s)"
  have "(u - ?f) mod tick s = 0" using assms(2) first_tick_after(3) [of s "from"] by (simp add: mod_diff_eq [symmetric])
  moreover have "0 \<le> (u - ?f) div tick s" using assms(3) tick_pos [of s] by (simp add: pos_imp_zdiv_nonneg_iff)
  ultimately have u: "u = ?f + int j * tick s"
    using div_mult_mod_eq [of "u - ?f" "tick s"] by (simp add: j_def)
  have "Next loc s from = next_loop loc s (AddDate4 loc ?f) ?f" by (simp add: Next_def Let_def)
  from next_loop_spec [OF this [symmetric]] show ?thesis
  proof (elim disjE exE conjE)
    fix k
    assume k: "Next loc s from = ?f + int k * tick s" "matches loc s (Next loc s from)"
      "{j. j < k \<and> matches loc s (?f + int j * tick s)} = {}"
    have "k \<le> j" using k(3) assms(1) u by (auto simp: not_less [symmetric])
    then have "int k * tick s \<le> int j * tick s" using tick_pos [of s] by (simp add: mult_right_mono)
    moreover have "0 \<le> int k * tick s" using tick_pos [of s] by simp
    ultimately show ?thesis using k(1,2) u first_tick_after(1) [of "from" s] by simp
  next
    assume "{j::nat. ?f + int j * tick s < AddDate4 loc ?f \<and> matches loc s (?f + int j * tick s)} = {}"
    then show ?thesis using assms(1,4) u by auto
  qed
qed

lemma add_mult_mod: "0 \<le> r \<Longrightarrow> r < k \<Longrightarrow> (r + q * k) mod k = r"
  and add_mult_div: "0 \<le> r \<Longrightarrow> r < k \<Longrightarrow> (r + q * k) div k = q" for r k q :: int
  by simp_all

text \<open>Clock times read back.\<close>

lemma clock_fields:
  assumes "0 \<le> sc" "sc < 60" "0 \<le> mi" "mi < 60" "0 \<le> h" "h < 24" "t = n * 86400 + h * 3600 + mi * 60 + sc"
  shows "Second t = sc" "Minute t = mi" "Hour t = h" "unix_days t = n"
proof -
  have c: "0 \<le> h * 3600 + mi * 60 + sc" "h * 3600 + mi * 60 + sc < 86400" "0 \<le> mi * 60 + sc" "mi * 60 + sc < 3600" using assms by simp_all
  have t: "t = sc + (n * 1440 + h * 60 + mi) * 60" "t = (mi * 60 + sc) + (n * 24 + h) * 3600"
    "t = (h * 3600 + mi * 60 + sc) + n * 86400" using assms(7) by simp_all
  have m: "t mod 60 = sc" "t mod 3600 = mi * 60 + sc" "t mod 86400 = h * 3600 + mi * 60 + sc" "t div 86400 = n"
    by (subst t(1), rule add_mult_mod [OF assms(1,2)], subst t(2), rule add_mult_mod [OF c(3,4)],
        subst t(3), rule add_mult_mod [OF c(1,2)], subst t(3), rule add_mult_div [OF c(1,2)])
  show "Second t = sc" "unix_days t = n" by (simp_all add: Second_def unix_days_def m)
  show "Minute t = mi" using assms(1,2) unfolding Minute_def m by simp
  show "Hour t = h" unfolding Hour_def m using add_mult_div [OF c(3,4), of h] by (simp add: algebra_simps)
qed

section \<open>Parsed schedules\<close>

text \<open>The field strings of an expression and their matchers.\<close>

lemma ParseCronExpression_D:
  assumes "ParseCronExpression expr = Inr s"
  obtains f0 f1 f2 f3 f4 f5 where
    "sch_seconds s = exactMatcher 0 \<and> \<not> sch_hasSecs s \<or> parseField f0 0 59 = Inr (sch_seconds s) \<and> sch_hasSecs s"
    "parseField f1 0 59 = Inr (sch_minutes s)" "parseField f2 0 23 = Inr (sch_hours s)" "parseField f3 1 31 = Inr (sch_days s)"
    "parseField f4 1 12 = Inr (sch_months s)" "parseField f5 0 7 = Inr (sch_weekdays s)"
  using assms
  by (auto simp: ParseCronExpression_def Let_def result_simps split: if_splits)

text \<open>A date at which the day fields agree, in any month and from any year on.\<close>

lemma day_in_month:
  assumes "\<exists>v. 1 \<le> v \<and> v \<le> 28 \<and> matches_field days v \<or> (0 \<le> v \<and> v \<le> 6 \<and> matches_field weekdays v)" "1 \<le> m" "m \<le> 12"
  shows "\<exists>d. 1 \<le> d \<and> d \<le> 28 \<and> (matches_field days d \<or> matches_field weekdays ((days_of_date y m d + 4) mod 7))"
proof -
  from assms(1) consider v where "1 \<le> v" "v \<le> 28" "matches_field days v" | v where "0 \<le> v" "v \<le> 6" "matches_field weekdays v" by blast
  then show ?thesis
  proof cases
    case (2 v)
    define base where "base = days_of_date y m 1 + 4"
    define d where "d = 1 + (v - base) mod 7"
    have "days_of_date y m d + 4 = base + (v - base) mod 7" by (simp add: base_def d_def days_of_date_def Let_def)
    then have "(days_of_date y m d + 4) mod 7 = v mod 7" by (simp add: mod_add_right_eq)
    moreover have "v mod 7 = v" using 2(1,2) by simp
    moreover have "1 \<le> d" "d \<le> 28" using pos_mod_bound [of 7 "v - base"] by (simp_all add: d_def)
    ultimately show ?thesis using 2(3) by (intro exI [of _ d]) simp
  qed blast
qed

lemma parsed_schedule_runs:
  assumes "ParseCronExpression expr = Inr s"
    and "\<exists>v. 1 \<le> v \<and> v \<le> 28 \<and> matches_field (sch_days s) v \<or> (0 \<le> v \<and> v \<le> 6 \<and> matches_field (sch_weekdays s) v)"
  shows "\<exists>u. matches UTC s u \<and> u mod tick s = 0 \<and> first_tick s from \<le> u \<and> u < AddDate4 UTC (first_tick s from)"
proof -
  obtain f0 f1 f2 f3 f4 f5 where
    f: "sch_seconds s = exactMatcher 0 \<and> \<not> sch_hasSecs s \<or> parseField f0 0 59 = Inr (sch_seconds s) \<and> sch_hasSecs s"
    "parseField f1 0 59 = Inr (sch_minutes s)" "parseField f2 0 23 = Inr (sch_hours s)" "parseField f4 1 12 = Inr (sch_months s)"
    by (rule ParseCronExpression_D [OF assms(1)])
  obtain sc where sc: "0 \<le> sc" "sc < 60" "matches_field (sch_seconds s) sc" "\<not> sch_hasSecs s \<Longrightarrow> sc = 0"
  proof (cases "sch_hasSecs s")
    case True
    then have "parseField f0 0 59 = Inr (sch_seconds s)" using f(1) by simp
    from parseField_accepts [OF this] obtain v where "0 \<le> v \<and> v \<le> 59 \<and> matches_field (sch_seconds s) v" by auto
    then show thesis using that [of v] True by simp
  next
    case False
    then show thesis using f(1) that [of 0] by simp
  qed
  obtain mi where mi: "0 \<le> mi" "mi < 60" "matches_field (sch_minutes s) mi" using parseField_accepts [OF f(2)] by auto
  obtain h where h: "0 \<le> h" "h < 24" "matches_field (sch_hours s) h" using parseField_accepts [OF f(3)] by auto
  obtain m where m: "1 \<le> m" "m \<le> 12" "matches_field (sch_months s) m" using parseField_accepts [OF f(4)] by auto
  define F where "F = first_tick s from div second_ns"
  define y where "y = Year F + 2"
  obtain d where d: "1 \<le> d" "d \<le> 28" "matches_field (sch_days s) d \<or> matches_field (sch_weekdays s) ((days_of_date y m d + 4) mod 7)"
    using day_in_month [OF assms(2) m(1,2)] by blast
  define n where "n = days_of_date y m d"
  define T where "T = n * 86400 + h * 3600 + mi * 60 + sc"
  note clock = clock_fields [OF sc(1,2) mi(1,2) h(1,2) T_def]
  have date: "Month T = m" "Day T = d" using Date_of_days [OF m(1,2) d(1,2), of T y] clock(4) by (simp_all add: n_def)
  have "matches UTC s (T * second_ns)"
    using sc(3) mi(3) h(3) m(3) d(3) clock date by (simp add: matches_def Let_def Weekday_def n_def)
  moreover have "T * second_ns mod tick s = 0"
  proof (cases "sch_hasSecs s")
    case False
    then have "T * second_ns = (n * 1440 + h * 60 + mi) * minute_ns" using sc(4) by (simp add: T_def)
    then show ?thesis using False by (simp add: tick_def)
  qed (simp add: tick_def)
  moreover have near: "unix_days F < n" "n < unix_days F + 1400"
    using next_year_date [OF Month_range [of F] month_facts(3,4) [of F] m(1,2) d(1,2), of "Year F"]
    by (simp_all add: n_def y_def days_of_date_Date)
  have "first_tick s from \<le> T * second_ns"
  proof -
    have "F < (unix_days F + 1) * 86400" by (simp add: unix_days_def distrib_right)
    also have "\<dots> \<le> n * 86400" using near(1) by simp
    also have "\<dots> \<le> T" using sc mi h by (simp add: T_def)
    finally have "F < T" .
    then have "(F + 1) * second_ns \<le> T * second_ns" by simp
    moreover have "first_tick s from < (F + 1) * second_ns"
      unfolding F_def by (simp add: distrib_right)
    ultimately show ?thesis by simp
  qed
  moreover have "T * second_ns < AddDate4 UTC (first_tick s from)"
  proof -
    have "T < (n + 1) * 86400" using sc mi h by (simp add: T_def)
    also have "\<dots> \<le> (unix_days F + 1460) * 86400" using near(2) by simp
    finally have "T * second_ns < (unix_days F + 1460) * 86400 * second_ns" by simp
    also have "\<dots> \<le> AddDate4 UTC (first_tick s from)" unfolding F_def by (rule AddDate4_UTC)
    finally show ?thesis .
  qed
  ultimately show ?thesis by (intro exI [of _ "T * second_ns"] conjI)
qed

section \<open>Schedules that never run\<close>

text \<open>A weekday field that contains none of 0 to 6 never matches.\<close>

lemma unmatched_weekday:
  assumes "{v. 0 \<le> v \<and> v \<le> 6 \<and> matches_field (sch_weekdays s) v} = {}"
  shows "matches loc s t = (let l = local_time loc t in
    matches_field (sch_seconds s) (Second l) \<and> matches_field (sch_minutes s) (Minute l) \<and> matches_field (sch_hours s) (Hour l)
    \<and> matches_field (sch_months s) (Month l) \<and> matches_field (sch_days s) (Day l))"
proof -
  have "\<not> matches_field (sch_weekdays s) (Weekday (local_time loc t))"
    using assms Weekday_range [of "local_time loc t"] by auto
  then show ?thesis by (simp add: matches_def Let_def)
qed

lemma Next_never: "(\<And>u. \<not> matches loc s u) \<Longrightarrow> Next loc s t = zero_time"
  using next_loop_spec [of loc s "AddDate4 loc (first_tick s t)" "first_tick s t" "Next loc s t"]
  by (simp add: Next_def Let_def)

section \<open>Properties\<close>

text \<open>C30. A field that is accepted matches some value of its range, so no accepted field is empty; and
  unless it is the wildcard, it matches no value outside its range.\<close>

theorem parseField_sound:
  assumes "parseField field lo hi = Inr m" "lo \<le> hi"
  shows "(\<exists>v. lo \<le> v \<and> v \<le> hi \<and> matches_field m v) \<and> (m = wildcardMatcher \<or> {v. matches_field m v} \<subseteq> {lo..hi})"
  using parseField_accepts [OF assms] parseField_range [OF assms(1)] by blast

theorem parseField_sound_witness:
  "parseField ''8,12,18'' 0 23 = Inr (listMatcher [8, 12, 18]) \<and> {v. matches_field (listMatcher [8, 12, 18]) v} \<subseteq> {0..23}"
proof -
  have "parseField ''8,12,18'' 0 23 = Inr (listMatcher [8, 12, 18])" by code_simp
  then show ?thesis using parseField_sound [of "''8,12,18''" 0 23 "listMatcher [8, 12, 18]"] by simp
qed

text \<open>C31. \<open>Next\<close> ends for every schedule, location and time. It returns the first tick after the given
  time, before the limit of four years, that matches the schedule, and the zero time exactly when
  no tick before the limit matches.\<close>

theorem Next_is_first_match:
  "let first = first_tick s from; limit = AddDate4 loc first; r = Next loc s from in
     from < first \<and> first \<le> from + tick s \<and> first mod tick s = 0
     \<and> ((\<exists>k::nat. r = first + int k * tick s \<and> r < limit \<and> matches loc s r
           \<and> {j. j < k \<and> matches loc s (first + int j * tick s)} = {})
        \<or> r = zero_time \<and> {j::nat. first + int j * tick s < limit \<and> matches loc s (first + int j * tick s)} = {})"
  using next_loop_spec [of loc s "AddDate4 loc (first_tick s from)" "first_tick s from" "Next loc s from"] first_tick_after
  by (simp add: Next_def Let_def)

text \<open>C32. In UTC every accepted expression whose day field admits a day up to the 28th, or whose weekday
  field admits a weekday from 0 to 6, runs again: from any time on, \<open>Next\<close> finds a later time that
  matches.\<close>

theorem accepted_schedule_runs_again:
  assumes "ParseCronExpression expr = Inr s"
    and "\<exists>v. 1 \<le> v \<and> v \<le> 28 \<and> matches_field (sch_days s) v \<or> 0 \<le> v \<and> v \<le> 6 \<and> matches_field (sch_weekdays s) v"
  shows "from < Next UTC s from \<and> matches UTC s (Next UTC s from)"
proof -
  obtain u where "matches UTC s u" "u mod tick s = 0" "first_tick s from \<le> u" "u < AddDate4 UTC (first_tick s from)"
    using parsed_schedule_runs [OF assms, of "from"] by (elim exE conjE that)
  from Next_finds [OF this] show ?thesis by simp
qed

definition every_quarter :: Schedule where
  "every_quarter = \<lparr>sch_seconds = exactMatcher 0, sch_minutes = stepMatcher 15 0 59, sch_hours = wildcardMatcher,
     sch_days = wildcardMatcher, sch_months = wildcardMatcher, sch_weekdays = wildcardMatcher, sch_hasSecs = False\<rparr>"

theorem accepted_schedule_runs_again_witness:
  "ParseCronExpression ''*/15 * * * *'' = Inr every_quarter \<and> 0 < Next UTC every_quarter 0 \<and> matches UTC every_quarter (Next UTC every_quarter 0)"
proof -
  have "ParseCronExpression ''*/15 * * * *'' = Inr every_quarter" by code_simp
  moreover have "1 \<le> (1::int) \<and> 1 \<le> (28::int) \<and> matches_field (sch_days every_quarter) 1" by (simp add: every_quarter_def)
  ultimately show ?thesis using accepted_schedule_runs_again [of "''*/15 * * * *''" every_quarter 0] by blast
qed

text \<open>C33. The weekday field accepts 7 for Sunday, but no time has weekday 7. When the weekday field of
  an accepted expression contains none of 0 to 6 (its text is 7, say), it contains 7 and never
  matches: whether a time matches the schedule depends on the other fields alone, in every location.
  If the day and month fields admit no date of a calendar either, then the schedule never runs and
  \<open>Next\<close> returns the zero time, which is in the past.\<close>

theorem weekday_7_never_runs:
  assumes "ParseCronExpression expr = Inr s"
    and "{v. 0 \<le> v \<and> v \<le> 6 \<and> matches_field (sch_weekdays s) v} = {}"
  shows "parseField ''7'' 0 7 = Inr (exactMatcher 7) \<and> matches_field (sch_weekdays s) 7
     \<and> matches loc s t = (let l = local_time loc t in
          matches_field (sch_seconds s) (Second l) \<and> matches_field (sch_minutes s) (Minute l) \<and> matches_field (sch_hours s) (Hour l)
          \<and> matches_field (sch_months s) (Month l) \<and> matches_field (sch_days s) (Day l))
     \<and> ({(m, d). matches_field (sch_months s) m \<and> matches_field (sch_days s) d \<and> 1 \<le> m \<and> m \<le> 12 \<and> 1 \<le> d \<and> d \<le> month_length m} \<noteq> {}
         \<or> \<not> matches loc s t \<and> Next loc s t = zero_time)"
proof -
  note never = unmatched_weekday [OF assms(2)]
  have seven: "parseField ''7'' 0 7 = Inr (exactMatcher 7)" by code_simp
  obtain f5 where "parseField f5 0 7 = Inr (sch_weekdays s)" by (rule ParseCronExpression_D [OF assms(1)])
  from parseField_accepts [OF this] obtain v where v: "0 \<le> v" "v \<le> 7" "matches_field (sch_weekdays s) v" by auto
  have "v = 7" using v assms(2) by (cases "v \<le> 6") auto
  then have "matches_field (sch_weekdays s) 7" using v(3) by simp
  moreover have "\<not> matches loc s u"
    if "{(m, d). matches_field (sch_months s) m \<and> matches_field (sch_days s) d \<and> 1 \<le> m \<and> m \<le> 12 \<and> 1 \<le> d \<and> d \<le> month_length m} = {}" for u
    using that Month_range [of "local_time loc u"] month_facts(3) [of "local_time loc u"] Day_le_month_length [of "local_time loc u"]
    unfolding never Let_def by blast
  ultimately show ?thesis using seven never [of loc t] Next_never [of loc s t] by blast
qed

theorem weekday_7_never_runs_witness:
  "\<exists>s. ParseCronExpression ''0 0 30 2 7'' = Inr s \<and> sch_weekdays s = exactMatcher 7
     \<and> \<not> matches UTC s 0 \<and> Next UTC s 0 = zero_time"
proof -
  define s where "s = \<lparr>sch_seconds = exactMatcher 0, sch_minutes = exactMatcher 0, sch_hours = exactMatcher 0,
     sch_days = exactMatcher 30, sch_months = exactMatcher 2, sch_weekdays = exactMatcher 7, sch_hasSecs = False\<rparr>"
  have parse: "ParseCronExpression ''0 0 30 2 7'' = Inr s" unfolding s_def by code_simp
  have "{v. 0 \<le> v \<and> v \<le> 6 \<and> matches_field (sch_weekdays s) v} = {}" by (auto simp: s_def)
  note at = weekday_7_never_runs [OF parse this, of UTC 0]
  have "{(m, d). matches_field (sch_months s) m \<and> matches_field (sch_days s) d \<and> 1 \<le> m \<and> m \<le> 12 \<and> 1 \<le> d \<and> d \<le> month_length m} = {}"
    by (auto simp: s_def month_length_def)
  with at have "\<not> matches UTC s 0 \<and> Next UTC s 0 = zero_time" by blast
  then show ?thesis using parse by (intro exI [of _ s]) (simp add: s_def)
qed

text \<open>A schedule whose weekday field is the wildcard ignores its day field: the expression
  \<open>0 0 1 * *\<close>, documented as the first day of every month, matches midnight of every day.\<close>

theorem wildcard_weekday_ignores_day:
  "\<exists>s. ParseCronExpression ''0 0 1 * *'' = Inr s \<and> sch_days s = exactMatcher 1
     \<and> matches loc s t = (Second (local_time loc t) = 0 \<and> Minute (local_time loc t) = 0 \<and> Hour (local_time loc t) = 0)"
proof -
  define s where "s = \<lparr>sch_seconds = exactMatcher 0, sch_minutes = exactMatcher 0, sch_hours = exactMatcher 0,
     sch_days = exactMatcher 1, sch_months = wildcardMatcher, sch_weekdays = wildcardMatcher, sch_hasSecs = False\<rparr>"
  have "ParseCronExpression ''0 0 1 * *'' = Inr s" unfolding s_def by code_simp
  then show ?thesis by (intro exI [of _ s]) (simp add: s_def matches_def Let_def)
qed

end
