(* ===== verification/Scheduler.thy ===== *)
theory Scheduler
  imports Cron
begin

text \<open>
  The scheduler of \<open>internal/scheduler\<close> (\<open>job.go\<close>, \<open>scheduler.go\<close>): registration, start and stop of
  jobs. A job's loop is a goroutine with its own context; it is active until its context is
  cancelled or it has returned. What a handler does is not modelled.
\<close>

section \<open>Jobs\<close>

record Job =
  job_Name :: string
  job_Schedule :: string
  job_Timezone :: string
  job_Handler :: bool

text \<open>\<open>job_Handler\<close> says whether there is a handler.\<close>

definition Validate :: "Job \<Rightarrow> unit result" where
  "Validate j =
     (if job_Name j = [] then Inl (Errorf ''job name is required'' [])
      else if job_Schedule j = [] then Inl (Errorf ''job schedule is required'' [])
      else bindE (wrapE ''invalid cron expression'' (ParseCronExpression (job_Schedule j))) (\<lambda>_.
        if \<not> job_Handler j then Inl (Errorf ''job handler is required'' []) else Inr ()))"

section \<open>The scheduler\<close>

text \<open>A registered job has the context of its last start, through its cancel function. A loop is the
  job's name, its schedule and its context. \<open>sd_cancelled\<close> are the cancelled contexts.\<close>

record Scheduler =
  sd_jobs :: "(string \<times> (Job \<times> nat option)) list"
  sd_running :: bool
  sd_stopCh_closed :: bool
  sd_loops :: "(string \<times> Schedule \<times> nat) list"
  sd_cancelled :: "nat set"
  sd_next_context :: nat

definition Scheduler_New :: Scheduler where
  "Scheduler_New = \<lparr>sd_jobs = [], sd_running = False, sd_stopCh_closed = False, sd_loops = [], sd_cancelled = {}, sd_next_context = 0\<rparr>"

definition Register :: "Job option \<Rightarrow> Scheduler \<Rightarrow> Scheduler result" where
  "Register job s =
     (case job of
        None \<Rightarrow> Inl (Errorf ''job cannot be nil'' [])
      | Some j \<Rightarrow>
          bindE (wrapE ''invalid job'' (Validate j)) (\<lambda>_.
            if map_of (sd_jobs s) (job_Name j) \<noteq> None
            then Inl (Errorf ''job with name %q already registered'' [job_Name j])
            else Inr (s\<lparr>sd_jobs := sd_jobs s @ [(job_Name j, (j, None))]\<rparr>)))"

text \<open>The loop of \<open>Start\<close> over the jobs. When a schedule does not parse, \<open>Start\<close> returns with the loops
  that it has started so far.\<close>

fun start_jobs :: "(string \<times> (Job \<times> nat option)) list \<Rightarrow> Scheduler \<Rightarrow> go_error option \<times> Scheduler" where
  "start_jobs [] s = (None, s)"
| "start_jobs ((name, (j, ctx)) # js) s =
     (case ParseCronExpression (job_Schedule j) of
        Inl e \<Rightarrow> (Some (Wrap e (''failed to parse schedule for job '' @ name)), s)
      | Inr schedule \<Rightarrow>
          (let c = sd_next_context s in
           start_jobs js (s\<lparr>sd_jobs := map (\<lambda>(n, (j', c')). (n, (j', if n = name then Some c else c'))) (sd_jobs s),
             sd_loops := sd_loops s @ [(name, schedule, c)], sd_next_context := c + 1\<rparr>)))"

definition Start :: "Scheduler \<Rightarrow> go_error option \<times> Scheduler" where
  "Start s =
     (if sd_running s then (Some (Errorf ''scheduler already running'' []), s)
      else case start_jobs (sd_jobs s) s of
             (Some e, s') \<Rightarrow> (Some e, s')
           | (None, s') \<Rightarrow> (None, s'\<lparr>sd_running := True\<rparr>))"

text \<open>\<open>Stop\<close> up to the wait for the loops: closing a closed channel panics.\<close>

datatype stop_outcome = Stop_Error go_error | Stop_Panic | Stop_Waits Scheduler

definition Stop :: "Scheduler \<Rightarrow> stop_outcome" where
  "Stop s =
     (if \<not> sd_running s then Stop_Error (Errorf ''scheduler not running'' [])
      else if sd_stopCh_closed s then Stop_Panic
      else Stop_Waits (s\<lparr>sd_running := False,
             sd_cancelled := sd_cancelled s \<union> {c. \<exists>n j. (n, (j, Some c)) \<in> set (sd_jobs s)},
             sd_stopCh_closed := True\<rparr>))"

text \<open>A loop returns when its context is cancelled or the stop channel is closed.\<close>

inductive sched_step :: "Scheduler \<Rightarrow> Scheduler \<Rightarrow> bool" where
  register: "Register j s = Inr s' \<Longrightarrow> sched_step s s'"
| start: "Start s = (e, s') \<Longrightarrow> sched_step s s'"
| stop: "Stop s = Stop_Waits s' \<Longrightarrow> sched_step s s'"
| loop_returns: "sd_loops s = as @ (n, sch, c) # bs \<Longrightarrow> c \<in> sd_cancelled s \<or> sd_stopCh_closed s \<Longrightarrow>
    sched_step s (s\<lparr>sd_loops := as @ bs\<rparr>)"

inductive_cases sched_stepE: "sched_step s s'"

abbreviation sched_reachable :: "Scheduler \<Rightarrow> bool" where
  "sched_reachable s \<equiv> sched_step\<^sup>*\<^sup>* Scheduler_New s"

section \<open>The invariant\<close>

definition active_loops :: "Scheduler \<Rightarrow> (string \<times> Schedule \<times> nat) list" where
  "active_loops s = filter (\<lambda>(n, sch, c). c \<notin> sd_cancelled s) (sd_loops s)"

text \<open>Every registered job is valid; contexts are fresh; an active loop belongs to the last start of its job.\<close>

definition sched_inv :: "Scheduler \<Rightarrow> bool" where
  "sched_inv s =
     (distinct (map fst (sd_jobs s)) \<and> (\<forall>(n, (j, c)) \<in> set (sd_jobs s). job_Name j = n \<and> Validate j = Inr ())
      \<and> (\<forall>(n, sch, c) \<in> set (sd_loops s). c < sd_next_context s)
      \<and> (\<forall>c \<in> sd_cancelled s. c < sd_next_context s)
      \<and> (\<forall>(n, (j, c)) \<in> set (sd_jobs s). \<forall>i. c = Some i \<longrightarrow> i < sd_next_context s)
      \<and> distinct (map (snd \<circ> snd) (sd_loops s))
      \<and> (\<forall>(n, sch, c) \<in> set (active_loops s). sd_running s \<and>
           (\<exists>j. (n, (j, Some c)) \<in> set (sd_jobs s) \<and> ParseCronExpression (job_Schedule j) = Inr sch))
      \<and> (sd_running s \<longrightarrow> (\<forall>(n, (j, c)) \<in> set (sd_jobs s). \<forall>i. c = Some i \<longrightarrow> i \<notin> sd_cancelled s)))"

fun numbered :: "(string \<times> (Job \<times> nat option)) list \<Rightarrow> nat \<Rightarrow> (string \<times> (Job \<times> nat option)) list" where
  "numbered [] c = []"
| "numbered ((n, (j, x)) # js) c = (n, (j, Some c)) # numbered js (c + 1)"

fun loops_of :: "(string \<times> (Job \<times> nat option)) list \<Rightarrow> nat \<Rightarrow> (string \<times> Schedule \<times> nat) list" where
  "loops_of [] c = []"
| "loops_of ((n, (j, x)) # js) c =
     (n, (case ParseCronExpression (job_Schedule j) of Inr sch \<Rightarrow> sch | Inl _ \<Rightarrow> undefined), c) # loops_of js (c + 1)"

lemma Validate_parses: "Validate j = Inr () \<Longrightarrow> \<exists>sch. ParseCronExpression (job_Schedule j) = Inr sch"
  by (auto simp: Validate_def result_simps split: if_splits)

lemma start_jobs_ok:
  assumes "\<forall>(n, (j, x)) \<in> set js. Validate j = Inr ()" "distinct (map fst (done @ js))" "sd_jobs s = done @ js"
  shows "start_jobs js s = (None, s\<lparr>sd_jobs := done @ numbered js (sd_next_context s),
    sd_loops := sd_loops s @ loops_of js (sd_next_context s), sd_next_context := sd_next_context s + length js\<rparr>)"
  using assms
proof (induction js arbitrary: "done" s)
  case (Cons a js)
  obtain n j x where a: "a = (n, (j, x))" by (cases a) auto
  obtain sch where sch: "ParseCronExpression (job_Schedule j) = Inr sch" using Cons.prems(1) a Validate_parses by auto
  let ?c = "sd_next_context s"
  let ?s = "s\<lparr>sd_jobs := map (\<lambda>(n', (j', c')). (n', (j', if n' = n then Some ?c else c'))) (sd_jobs s),
     sd_loops := sd_loops s @ [(n, sch, ?c)], sd_next_context := ?c + 1\<rparr>"
  have same: "map (\<lambda>(n', (j', c')). (n', (j', if n' = n then Some ?c else c'))) xs = xs" if "n \<notin> fst ` set xs" for xs :: "(string \<times> Job \<times> nat option) list"
    using that by (induction xs) auto
  have fresh: "n \<notin> fst ` set done" "n \<notin> fst ` set js" using Cons.prems(2) a by auto
  have jobs: "sd_jobs ?s = (done @ [(n, (j, Some ?c))]) @ js"
    using Cons.prems(3) a same [OF fresh(1)] same [OF fresh(2)] by simp
  have "start_jobs js ?s = (None, ?s\<lparr>sd_jobs := (done @ [(n, (j, Some ?c))]) @ numbered js (sd_next_context ?s),
      sd_loops := sd_loops ?s @ loops_of js (sd_next_context ?s), sd_next_context := sd_next_context ?s + length js\<rparr>)"
    by (rule Cons.IH [OF _ _ jobs]) (use Cons.prems(1,2) a in auto)
  then show ?case by (simp add: a sch Let_def)
qed simp

lemma numbered_facts:
  "map fst (numbered js c) = map fst js"
  "(n, (j, y)) \<in> set (numbered js c) \<Longrightarrow> (\<exists>x. (n, (j, x)) \<in> set js) \<and> (\<exists>i. y = Some i \<and> c \<le> i \<and> i < c + length js)"
  by (induction js c rule: numbered.induct) (auto, (fastforce+)?)

lemma loops_of_facts:
  "map fst (loops_of js c) = map fst js" "map (snd \<circ> snd) (loops_of js c) = [c..<c + length js]"
  "(n, sch, i) \<in> set (loops_of js c) \<Longrightarrow> \<exists>j. (n, (j, Some i)) \<in> set (numbered js c) \<and>
     sch = (case ParseCronExpression (job_Schedule j) of Inr sch \<Rightarrow> sch | Inl _ \<Rightarrow> undefined)"
proof -
  show "map fst (loops_of js c) = map fst js" by (induction js c rule: loops_of.induct) simp_all
  show "map (snd \<circ> snd) (loops_of js c) = [c..<c + length js]"
  proof (induction js c rule: loops_of.induct)
    case (2 n j x js c)
    have "[c..<c + length ((n, (j, x)) # js)] = c # [c + 1..<(c + 1) + length js]" by (simp add: upt_conv_Cons del: upt_Suc)
    then show ?case using 2 by (simp del: upt_Suc)
  qed simp
  show "(n, sch, i) \<in> set (loops_of js c) \<Longrightarrow> \<exists>j. (n, (j, Some i)) \<in> set (numbered js c) \<and>
     sch = (case ParseCronExpression (job_Schedule j) of Inr sch \<Rightarrow> sch | Inl _ \<Rightarrow> undefined)"
    by (induction js c rule: loops_of.induct) auto
qed

lemma sched_invD:
  assumes "sched_inv s"
  shows "distinct (map fst (sd_jobs s))" "\<And>n j x. (n, (j, x)) \<in> set (sd_jobs s) \<Longrightarrow> job_Name j = n \<and> Validate j = Inr ()"
    "\<And>n sch c. (n, sch, c) \<in> set (sd_loops s) \<Longrightarrow> c < sd_next_context s" "\<And>c. c \<in> sd_cancelled s \<Longrightarrow> c < sd_next_context s"
    "\<And>n j i. (n, (j, Some i)) \<in> set (sd_jobs s) \<Longrightarrow> i < sd_next_context s" "distinct (map (snd \<circ> snd) (sd_loops s))"
    "\<And>n sch c. (n, sch, c) \<in> set (active_loops s) \<Longrightarrow> sd_running s \<and>
       (\<exists>j. (n, (j, Some c)) \<in> set (sd_jobs s) \<and> ParseCronExpression (job_Schedule j) = Inr sch)"
    "\<And>n j i. sd_running s \<Longrightarrow> (n, (j, Some i)) \<in> set (sd_jobs s) \<Longrightarrow> i \<notin> sd_cancelled s"
  using assms unfolding sched_inv_def by fast+

lemma sched_invI:
  assumes "distinct (map fst (sd_jobs s))" "\<And>n j x. (n, (j, x)) \<in> set (sd_jobs s) \<Longrightarrow> job_Name j = n \<and> Validate j = Inr ()"
    "\<And>n sch c. (n, sch, c) \<in> set (sd_loops s) \<Longrightarrow> c < sd_next_context s" "\<And>c. c \<in> sd_cancelled s \<Longrightarrow> c < sd_next_context s"
    "\<And>n j i. (n, (j, Some i)) \<in> set (sd_jobs s) \<Longrightarrow> i < sd_next_context s" "distinct (map (snd \<circ> snd) (sd_loops s))"
    "\<And>n sch c. (n, sch, c) \<in> set (active_loops s) \<Longrightarrow> sd_running s \<and>
       (\<exists>j. (n, (j, Some c)) \<in> set (sd_jobs s) \<and> ParseCronExpression (job_Schedule j) = Inr sch)"
    "\<And>n j i. sd_running s \<Longrightarrow> (n, (j, Some i)) \<in> set (sd_jobs s) \<Longrightarrow> i \<notin> sd_cancelled s"
  shows "sched_inv s"
  using assms unfolding sched_inv_def by fast

lemma Start_started:
  assumes "sched_inv s" "\<not> sd_running s"
  shows "Start s = (None, s\<lparr>sd_jobs := numbered (sd_jobs s) (sd_next_context s),
    sd_loops := sd_loops s @ loops_of (sd_jobs s) (sd_next_context s), sd_next_context := sd_next_context s + length (sd_jobs s),
    sd_running := True\<rparr>)"
proof -
  have "\<forall>(n, (j, x)) \<in> set (sd_jobs s). Validate j = Inr ()" using sched_invD(2) [OF assms(1)] by fast
  then show ?thesis
    using start_jobs_ok [of "sd_jobs s" "[]" s] sched_invD(1) [OF assms(1)] assms(2) by (simp add: Start_def)
qed

lemma Start_inv:
  assumes "sched_inv s" "\<not> sd_running s" "Start s = (e, s')"
  shows "sched_inv s'" "e = None" "active_loops s' = loops_of (sd_jobs s) (sd_next_context s)"
proof -
  note D = sched_invD [OF assms(1)]
  let ?c = "sd_next_context s"
  have s': "s' = s\<lparr>sd_jobs := numbered (sd_jobs s) ?c, sd_loops := sd_loops s @ loops_of (sd_jobs s) ?c,
      sd_next_context := ?c + length (sd_jobs s), sd_running := True\<rparr>" and e: "e = None"
    using Start_started [OF assms(1,2)] assms(3) by simp_all
  show "e = None" by (rule e)
  have old: "active_loops s = []" using D(7) assms(2) by (cases "active_loops s") auto
  have fresh: "c \<notin> sd_cancelled s \<and> c < ?c + length (sd_jobs s) \<and> ?c \<le> c" if "(n, sch, c) \<in> set (loops_of (sd_jobs s) ?c)" for n sch c
    using loops_of_facts(3) [OF that] numbered_facts(2) [of n _ "Some c" "sd_jobs s" ?c] D(4) [of c] by fastforce
  have act: "active_loops s' = loops_of (sd_jobs s) ?c"
    using old fresh by (auto simp: active_loops_def s' filter_id_conv)
  then show "active_loops s' = loops_of (sd_jobs s) ?c" .
  show "sched_inv s'"
  proof (rule sched_invI)
    show "distinct (map fst (sd_jobs s'))" using D(1) by (simp add: s' numbered_facts(1))
    show "job_Name j = n \<and> Validate j = Inr ()" if "(n, (j, x)) \<in> set (sd_jobs s')" for n j x
      using numbered_facts(2) [of n j x "sd_jobs s" ?c] D(2) that by (auto simp: s')
    show "c < sd_next_context s'" if "(n, sch, c) \<in> set (sd_loops s')" for n sch c
      using that D(3) [of n sch c] fresh by (fastforce simp: s')
    show "c < sd_next_context s'" if "c \<in> sd_cancelled s'" for c using that D(4) [of c] by (simp add: s')
    show "i < sd_next_context s'" if "(n, (j, Some i)) \<in> set (sd_jobs s')" for n j i
      using that numbered_facts(2) [of n j "Some i" "sd_jobs s" ?c] by (simp add: s')
    show "distinct (map (snd \<circ> snd) (sd_loops s'))"
      using D(6) D(3) loops_of_facts(2) [of "sd_jobs s" ?c] by (fastforce simp: s')
    show "sd_running s' \<and> (\<exists>j. (n, (j, Some c)) \<in> set (sd_jobs s') \<and> ParseCronExpression (job_Schedule j) = Inr sch)"
      if loop: "(n, sch, c) \<in> set (active_loops s')" for n sch c
    proof -
      obtain j where j: "(n, (j, Some c)) \<in> set (numbered (sd_jobs s) ?c)"
        "sch = (case ParseCronExpression (job_Schedule j) of Inr sch \<Rightarrow> sch | Inl _ \<Rightarrow> undefined)"
        using loops_of_facts(3) [OF loop [unfolded act]] by blast
      then have "Validate j = Inr ()" using numbered_facts(2) [OF j(1)] D(2) by blast
      then obtain sch0 where "ParseCronExpression (job_Schedule j) = Inr sch0" using Validate_parses by blast
      then show ?thesis using j by (auto simp: s')
    qed
    show "i \<notin> sd_cancelled s'" if "(n, (j, Some i)) \<in> set (sd_jobs s')" for n j i
      using that numbered_facts(2) [of n j "Some i" "sd_jobs s" ?c] D(4) [of i] by (auto simp: s')
  qed
qed

lemma sched_step_inv:
  assumes "sched_step s s'" "sched_inv s"
  shows "sched_inv s'"
  using assms
proof (induction rule: sched_step.induct)
  case (register j s s')
  note D = sched_invD [OF register(2)]
  from register(1) obtain k where k: "j = Some k" "Validate k = Inr ()" "map_of (sd_jobs s) (job_Name k) = None"
    and s': "s' = s\<lparr>sd_jobs := sd_jobs s @ [(job_Name k, (k, None))]\<rparr>"
    by (auto simp: Register_def result_simps simp del: not_None_eq split: option.splits if_splits)
  have act: "active_loops s' = active_loops s" by (simp add: active_loops_def s')
  have new: "job_Name k \<notin> fst ` set (sd_jobs s)" using k(3) by (simp add: map_of_eq_None_iff)
  show ?case
  proof (rule sched_invI)
    show "distinct (map fst (sd_jobs s'))" using D(1) new by (simp add: s')
    show "job_Name j = n \<and> Validate j = Inr ()" if "(n, (j, x)) \<in> set (sd_jobs s')" for n j x
      using that D(2) k(2) by (auto simp: s')
    show "sd_running s' \<and> (\<exists>j. (n, (j, Some c)) \<in> set (sd_jobs s') \<and> ParseCronExpression (job_Schedule j) = Inr sch)"
      if "(n, sch, c) \<in> set (active_loops s')" for n sch c
      using D(7) that unfolding act by (auto simp: s')
  qed (use D(3,4,5,6,8) in \<open>auto simp: s'\<close>)
next
  case (start s e s')
  show ?case
  proof (cases "sd_running s")
    case True
    then show ?thesis using start by (simp add: Start_def)
  next
    case False
    then show ?thesis using Start_inv(1) start by blast
  qed
next
  case (stop s s')
  note D = sched_invD [OF stop(2)]
  have s': "s' = s\<lparr>sd_running := False, sd_cancelled := sd_cancelled s \<union> {c. \<exists>n j. (n, (j, Some c)) \<in> set (sd_jobs s)}, sd_stopCh_closed := True\<rparr>"
    using stop(1) by (auto simp: Stop_def split: if_splits)
  have none: "active_loops s' = []"
  proof -
    have "c \<in> sd_cancelled s'" if "(n, sch, c) \<in> set (sd_loops s')" for n sch c
    proof (cases "c \<in> sd_cancelled s")
      case False
      then have "(n, sch, c) \<in> set (active_loops s)" using that by (simp add: active_loops_def s')
      then have "\<exists>j. (n, (j, Some c)) \<in> set (sd_jobs s)" using D(7) by blast
      then show ?thesis by (auto simp: s')
    qed (simp add: s')
    then show ?thesis unfolding active_loops_def filter_empty_conv by blast
  qed
  show ?case
  proof (rule sched_invI)
    show "c < sd_next_context s'" if "c \<in> sd_cancelled s'" for c using that D(4,5) by (auto simp: s')
  qed (use D(1,2,3,5,6) none in \<open>simp_all add: s'\<close>)
next
  case (loop_returns s as n sch c bs)
  note D = sched_invD [OF loop_returns(3)]
  let ?s = "s\<lparr>sd_loops := as @ bs\<rparr>"
  have sub: "set (active_loops ?s) \<subseteq> set (active_loops s)" using loop_returns(1) by (auto simp: active_loops_def)
  show ?case
  proof (rule sched_invI)
    show "sd_running ?s \<and> (\<exists>j. (n, (j, Some c)) \<in> set (sd_jobs ?s) \<and> ParseCronExpression (job_Schedule j) = Inr sch)"
      if "(n, sch, c) \<in> set (active_loops ?s)" for n sch c
      using D(7) subsetD [OF sub that] by simp
    show "c < sd_next_context ?s" if "(n, sch, c) \<in> set (sd_loops ?s)" for n sch c
      using that D(3) [of n sch c] loop_returns(1) by auto
  qed (use D loop_returns(1) in auto)
qed

lemma sched_reachable_inv: "sched_reachable s \<Longrightarrow> sched_inv s"
proof (induction rule: rtranclp_induct)
  case base
  show ?case by (simp add: sched_inv_def Scheduler_New_def active_loops_def)
qed (use sched_step_inv in blast)

section \<open>Properties\<close>

text \<open>C35. After any sequence of registrations, starts, stops and returns of loops, no job has two active
  loops, a stopped scheduler has none, and \<open>Start\<close> succeeds exactly when the scheduler is not
  running: it then starts one loop for every registered job.\<close>

theorem one_active_loop_per_job:
  assumes "sched_reachable s"
  shows "distinct (map fst (active_loops s)) \<and> (sd_running s \<or> active_loops s = [])
    \<and> (case Start s of (e, s') \<Rightarrow> if sd_running s then e \<noteq> None \<and> s' = s
         else e = None \<and> map fst (active_loops s') = map fst (sd_jobs s))"
proof -
  note inv = sched_reachable_inv [OF assms]
  note D = sched_invD [OF inv]
  have "distinct (map (snd \<circ> snd) (active_loops s))" using D(6) by (simp add: active_loops_def distinct_map_filter)
  then have "distinct (active_loops s)" "inj_on (snd \<circ> snd) (set (active_loops s))" by (simp_all add: distinct_map)
  moreover have "inj_on fst (set (active_loops s))"
  proof (rule inj_onI)
    fix a b
    assume a: "a \<in> set (active_loops s)" and b: "b \<in> set (active_loops s)" and eq: "fst a = fst b"
    obtain n sch c where [simp]: "a = (n, sch, c)" by (cases a) auto
    obtain sch' c' where [simp]: "b = (n, sch', c')" using eq by (cases b) auto
    obtain j where "(n, (j, Some c)) \<in> set (sd_jobs s)" using D(7) [OF a [simplified]] by blast
    moreover obtain j' where "(n, (j', Some c')) \<in> set (sd_jobs s)" using D(7) [OF b [simplified]] by blast
    ultimately have "(j, Some c) = (j', Some c')" by (rule eq_key_imp_eq_value [OF D(1)])
    then have "c = c'" by simp
    then show "a = b" using inj_onD [OF \<open>inj_on (snd \<circ> snd) (set (active_loops s))\<close> _ a b] by simp
  qed
  ultimately have "distinct (map fst (active_loops s))" by (simp add: distinct_map)
  moreover have "sd_running s \<or> active_loops s = []" using D(7) by (cases "active_loops s") auto
  moreover have "case Start s of (e, s') \<Rightarrow> if sd_running s then e \<noteq> None \<and> s' = s
         else e = None \<and> map fst (active_loops s') = map fst (sd_jobs s)"
  proof (cases "sd_running s")
    case True
    then show ?thesis by (simp add: Start_def)
  next
    case False
    obtain e s' where st: "Start s = (e, s')" by (cases "Start s")
    then show ?thesis using Start_inv(2,3) [OF inv False st] False by (simp add: loops_of_facts(1))
  qed
  ultimately show ?thesis by blast
qed

definition hourly :: Job where
  "hourly = \<lparr>job_Name = ''hourly'', job_Schedule = ''0 * * * *'', job_Timezone = [], job_Handler = True\<rparr>"

definition registered :: Scheduler where
  "registered = Scheduler_New\<lparr>sd_jobs := [(''hourly'', (hourly, None))]\<rparr>"

lemma registered_step: "Register (Some hourly) Scheduler_New = Inr registered"
proof -
  have "Validate hourly = Inr ()" by code_simp
  then show ?thesis by (simp add: Register_def Scheduler_New_def registered_def hourly_def)
qed

theorem one_active_loop_per_job_witness:
  "map fst (active_loops (snd (Start registered))) = [''hourly'']"
proof -
  have "sched_reachable registered"
    using registered_step by (intro r_into_rtranclp) (rule sched_step.register)
  then show ?thesis
    using one_active_loop_per_job [of registered] by (auto simp: registered_def Scheduler_New_def split: prod.splits)
qed

text \<open>C36. A scheduler that was stopped can be started again, but the stop channel stays closed: the
  next stop closes it once more and panics.\<close>

theorem stop_after_restart_panics:
  assumes "Stop s = Stop_Waits s1" "Start s1 = (None, s2)" "sched_reachable s"
  shows "sd_running s2 \<and> Stop s2 = Stop_Panic"
proof -
  have "sched_reachable s1" using assms(1,3) by (meson rtranclp.rtrancl_into_rtrancl sched_step.stop)
  then have inv: "sched_inv s1" by (rule sched_reachable_inv)
  have f: "\<not> sd_running s1" "sd_stopCh_closed s1" using assms(1) by (auto simp: Stop_def split: if_splits)
  have "sd_running s2" "sd_stopCh_closed s2" using Start_started [OF inv f(1)] assms(2) f(2) by auto
  then show ?thesis by (simp add: Stop_def)
qed

theorem stop_after_restart_panics_witness:
  "\<exists>s1 s2. Stop (snd (Start registered)) = Stop_Waits s1 \<and> Start s1 = (None, s2) \<and> Stop s2 = Stop_Panic"
proof -
  have r: "sched_reachable registered" using registered_step by (intro r_into_rtranclp) (rule sched_step.register)
  have inv: "sched_inv registered" by (rule sched_reachable_inv [OF r])
  obtain s where s: "Start registered = (None, s)" "sd_running s" "\<not> sd_stopCh_closed s"
    using Start_started [OF inv] by (auto simp: registered_def Scheduler_New_def)
  then obtain s1 where s1: "Stop s = Stop_Waits s1" by (simp add: Stop_def)
  have rs: "sched_reachable s" using r s(1) by (meson rtranclp.rtrancl_into_rtrancl sched_step.start)
  then have rs1: "sched_reachable s1" using s1 by (meson rtranclp.rtrancl_into_rtrancl sched_step.stop)
  have "\<not> sd_running s1" using s1 by (auto simp: Stop_def split: if_splits)
  then obtain s2 where s2: "Start s1 = (None, s2)" using Start_started [OF sched_reachable_inv [OF rs1]] by auto
  show ?thesis using stop_after_restart_panics [OF s1 s2 rs] s s1 s2 by auto
qed

end
