(* ===== verification/SSE_Hub.thy ===== *)
theory SSE_Hub
  imports Memos_Prelude
begin

text \<open>
  The hub of server-sent events (\<open>server/router/api/v1/sse_hub.go\<close>). Publishers, connection handlers
  and the shutdown of the server run concurrently: a publisher holds the read lock while it offers
  its frame to the clients, one channel send at a time, and the operations that change the set of
  clients hold the write lock. A step of the machine is one critical section, or one send.
\<close>

section \<open>Channels and the hub\<close>

abbreviation sseClientEventBufferSize :: nat where "sseClientEventBufferSize \<equiv> 32"

definition memoChangedSSEFrame :: string where
  "memoChangedSSEFrame = ''data: {'' @ [CHR 0x22] @ ''type'' @ [CHR 0x22] @ '':'' @ [CHR 0x22] @ ''memo.changed'' @ [CHR 0x22]
     @ ''}'' @ [CHR 0x0A, CHR 0x0A]"

definition spaceChangedSSEFrame :: string where
  "spaceChangedSSEFrame = ''data: {'' @ [CHR 0x22] @ ''type'' @ [CHR 0x22] @ '':'' @ [CHR 0x22] @ ''space.changed'' @ [CHR 0x22]
     @ ''}'' @ [CHR 0x0A, CHR 0x0A]"

text \<open>A client by its number; its two channels. \<open>c_missed\<close> records that a frame was not put into the
  buffer.\<close>

record SSEClient =
  c_events :: "string list"
  c_events_closed :: bool
  c_done_closed :: bool
  c_missed :: bool

text \<open>A publisher offers its frame to the clients that are left, collecting the slow ones, and then
  unsubscribes these.\<close>

datatype publisher = Sending string "nat list" "nat list" | Unsubscribing "nat list"

record SSEHub =
  h_clients :: "nat set"
  h_closed :: bool
  h_client :: "nat \<Rightarrow> SSEClient option"
  h_next :: nat
  h_publishers :: "publisher list"
  h_panicked :: bool

definition NewSSEHub :: SSEHub where
  "NewSSEHub = \<lparr>h_clients = {}, h_closed = False, h_client = (\<lambda>_. None), h_next = 0, h_publishers = [], h_panicked = False\<rparr>"

text \<open>\<open>close(c.done)\<close> and \<open>close(c.events)\<close>: closing a closed channel panics. The frames in a closed
  channel can still be received.\<close>

definition close_client :: "nat \<Rightarrow> SSEHub \<Rightarrow> SSEHub" where
  "close_client c h =
     (case h_client h c of
        None \<Rightarrow> h\<lparr>h_panicked := True\<rparr>
      | Some ch \<Rightarrow>
          if c_done_closed ch \<or> c_events_closed ch then h\<lparr>h_panicked := True\<rparr>
          else h\<lparr>h_client := (h_client h)(c \<mapsto> ch\<lparr>c_done_closed := True, c_events_closed := True\<rparr>)\<rparr>)"

section \<open>Operations\<close>

definition Subscribe :: "SSEHub \<Rightarrow> nat \<times> SSEHub" where
  "Subscribe h =
     (let c = h_next h;
          h = h\<lparr>h_next := c + 1,
               h_client := (h_client h)(c \<mapsto> \<lparr>c_events = [], c_events_closed = False, c_done_closed = False, c_missed = False\<rparr>)\<rparr>
      in (c, if h_closed h then close_client c h else h\<lparr>h_clients := insert c (h_clients h)\<rparr>))"

definition Unsubscribe :: "nat \<Rightarrow> SSEHub \<Rightarrow> SSEHub" where
  "Unsubscribe c h =
     (if c \<in> h_clients h then close_client c (h\<lparr>h_clients := h_clients h - {c}\<rparr>) else h)"

text \<open>The clients in the order in which the map is ranged over.\<close>

definition SSEHub_Close :: "nat list \<Rightarrow> SSEHub \<Rightarrow> SSEHub" where
  "SSEHub_Close order h =
     (if h_closed h then h
      else foldl (\<lambda>h c. close_client c (h\<lparr>h_clients := h_clients h - {c}\<rparr>)) (h\<lparr>h_closed := True\<rparr>) order)"

text \<open>A send is ready when the buffer has room, and when the channel is closed, in which case it panics.
  Otherwise it has to wait for a receiver: \<open>None\<close>.\<close>

definition chan_send :: "string \<Rightarrow> nat \<Rightarrow> SSEHub \<Rightarrow> SSEHub option" where
  "chan_send frame c h =
     (case h_client h c of
        None \<Rightarrow> None
      | Some ch \<Rightarrow>
          if c_events_closed ch then Some (h\<lparr>h_panicked := True\<rparr>)
          else if length (c_events ch) < sseClientEventBufferSize
          then Some (h\<lparr>h_client := (h_client h)(c \<mapsto> ch\<lparr>c_events := c_events ch @ [frame]\<rparr>)\<rparr>)
          else None)"

definition miss_frame :: "nat \<Rightarrow> SSEHub \<Rightarrow> SSEHub" where
  "miss_frame c h = h\<lparr>h_client := (h_client h)(c := map_option (\<lambda>ch. ch\<lparr>c_missed := True\<rparr>) (h_client h c))\<rparr>"

text \<open>A \<open>select\<close> with one send: the send when it is ready, otherwise the default clause, and without one
  the goroutine waits.\<close>

definition select_send :: "SSEHub option \<Rightarrow> SSEHub option \<Rightarrow> (bool \<times> SSEHub) option" where
  "select_send send default_clause =
     (case send of Some h \<Rightarrow> Some (True, h) | None \<Rightarrow> map_option (Pair False) default_clause)"

definition try_send :: "string \<Rightarrow> nat \<Rightarrow> SSEHub \<Rightarrow> (bool \<times> SSEHub) option" where
  "try_send frame c h = select_send (chan_send frame c h) (Some (miss_frame c h))"

text \<open>A publisher that is sending holds the read lock. The write lock can be taken when nobody is. Readers
  do not exclude each other, and a writer holds the lock within one step only.\<close>

definition is_sending :: "publisher \<Rightarrow> bool" where
  "is_sending p = (case p of Sending _ _ _ \<Rightarrow> True | Unsubscribing _ \<Rightarrow> False)"

definition can_write :: "SSEHub \<Rightarrow> bool" where
  "can_write h = list_all (\<lambda>p. \<not> is_sending p) (h_publishers h)"

definition publish_begin :: "string \<Rightarrow> nat list \<Rightarrow> SSEHub \<Rightarrow> SSEHub" where
  "publish_begin frame order h = h\<lparr>h_publishers := h_publishers h @ [Sending frame order []]\<rparr>"

text \<open>One step of a publisher; \<open>None\<close> when it has to wait, for its select or for the write lock, and when
  it is done. Its last step as a sender releases the read lock.\<close>

definition publish_step :: "nat \<Rightarrow> SSEHub \<Rightarrow> SSEHub option" where
  "publish_step i h =
     (if i < length (h_publishers h)
      then case h_publishers h ! i of
          Sending frame [] slow \<Rightarrow> Some (h\<lparr>h_publishers := (h_publishers h)[i := Unsubscribing slow]\<rparr>)
        | Sending frame (c # cs) slow \<Rightarrow>
            map_option (\<lambda>(sent, h). h\<lparr>h_publishers := (h_publishers h)[i := Sending frame cs (if sent then slow else slow @ [c])]\<rparr>)
              (try_send frame c h)
        | Unsubscribing [] \<Rightarrow> None
        | Unsubscribing (c # cs) \<Rightarrow>
            if can_write h
            then let h = Unsubscribe c h in Some (h\<lparr>h_publishers := (h_publishers h)[i := Unsubscribing cs]\<rparr>)
            else None
      else None)"

text \<open>A connection handler takes the oldest frame from its client's channel.\<close>

definition receive :: "nat \<Rightarrow> SSEHub \<Rightarrow> SSEHub" where
  "receive c h =
     (case h_client h c of
        None \<Rightarrow> h
      | Some ch \<Rightarrow> h\<lparr>h_client := (h_client h)(c \<mapsto> ch\<lparr>c_events := tl (c_events ch)\<rparr>)\<rparr>)"

section \<open>Interleavings\<close>

inductive hub_step :: "SSEHub \<Rightarrow> SSEHub \<Rightarrow> bool" where
  subscribe: "can_write h \<Longrightarrow> hub_step h (snd (Subscribe h))"
| unsubscribe: "can_write h \<Longrightarrow> hub_step h (Unsubscribe c h)"
| close: "can_write h \<Longrightarrow> distinct order \<Longrightarrow> set order = h_clients h \<Longrightarrow> hub_step h (SSEHub_Close order h)"
| publish: "distinct order \<Longrightarrow> set order = h_clients h \<Longrightarrow> frame \<in> {memoChangedSSEFrame, spaceChangedSSEFrame} \<Longrightarrow>
    hub_step h (publish_begin frame order h)"
| publisher: "publish_step i h = Some h' \<Longrightarrow> hub_step h h'"
| handler: "hub_step h (receive c h)"

inductive_cases hub_stepE: "hub_step h h'"

abbreviation hub_reachable :: "SSEHub \<Rightarrow> bool" where
  "hub_reachable h \<equiv> hub_step\<^sup>*\<^sup>* NewSSEHub h"

section \<open>The invariant\<close>

fun slow_of :: "publisher \<Rightarrow> nat list" where
  "slow_of (Sending frame todo slow) = slow"
| "slow_of (Unsubscribing slow) = slow"

fun sends_to :: "publisher \<Rightarrow> nat set" where
  "sends_to (Sending frame todo slow) = set todo \<union> set slow"
| "sends_to (Unsubscribing slow) = {}"

definition slow_clients :: "SSEHub \<Rightarrow> nat set" where
  "slow_clients h = (\<Union>p \<in> set (h_publishers h). set (slow_of p))"

definition open_client :: "SSEClient \<Rightarrow> bool" where
  "open_client ch = (\<not> c_events_closed ch \<and> \<not> c_done_closed ch)"

definition closed_client :: "SSEClient \<Rightarrow> bool" where
  "closed_client ch = (c_events_closed ch \<and> c_done_closed ch)"

text \<open>The part of the invariant about the clients, for a set of clients that publishers hold as slow.\<close>

definition clients_inv :: "nat set \<Rightarrow> SSEHub \<Rightarrow> bool" where
  "clients_inv slow h =
     (\<not> h_panicked h
      \<and> (\<forall>c \<in> h_clients h. \<exists>ch. h_client h c = Some ch \<and> open_client ch \<and> (c_missed ch \<longrightarrow> c \<in> slow))
      \<and> (\<forall>c ch. h_client h c = Some ch \<longrightarrow> c < h_next h \<and> length (c_events ch) \<le> sseClientEventBufferSize
           \<and> (c \<notin> h_clients h \<longrightarrow> closed_client ch))
      \<and> (h_closed h \<longrightarrow> h_clients h = {}))"

definition hub_inv :: "SSEHub \<Rightarrow> bool" where
  "hub_inv h = (clients_inv (slow_clients h) h \<and> (\<forall>p \<in> set (h_publishers h). sends_to p \<subseteq> h_clients h))"

lemma clients_inv_mono: "clients_inv slow h \<Longrightarrow> slow \<inter> h_clients h \<subseteq> slow' \<Longrightarrow> clients_inv slow' h"
  unfolding clients_inv_def by blast

lemma clients_inv_publishers [simp]: "clients_inv slow (h\<lparr>h_publishers := ps\<rparr>) = clients_inv slow h"
  by (simp add: clients_inv_def)

lemma remove_client_inv:
  assumes "clients_inv slow h" "c \<in> h_clients h"
  shows "clients_inv slow (close_client c (h\<lparr>h_clients := h_clients h - {c}\<rparr>))"
    "h_clients (close_client c (h\<lparr>h_clients := h_clients h - {c}\<rparr>)) = h_clients h - {c}"
    "h_publishers (close_client c (h\<lparr>h_clients := h_clients h - {c}\<rparr>)) = h_publishers h"
    "h_closed (close_client c (h\<lparr>h_clients := h_clients h - {c}\<rparr>)) = h_closed h"
proof -
  obtain ch where ch: "h_client h c = Some ch" "open_client ch" using assms by (auto simp: clients_inv_def)
  have eq: "close_client c (h\<lparr>h_clients := h_clients h - {c}\<rparr>)
      = h\<lparr>h_clients := h_clients h - {c}, h_client := (h_client h)(c \<mapsto> ch\<lparr>c_done_closed := True, c_events_closed := True\<rparr>)\<rparr>"
    using ch by (simp add: close_client_def open_client_def)
  show "clients_inv slow (close_client c (h\<lparr>h_clients := h_clients h - {c}\<rparr>))"
    unfolding eq using assms ch(1) by (simp add: clients_inv_def closed_client_def)
  show "h_clients (close_client c (h\<lparr>h_clients := h_clients h - {c}\<rparr>)) = h_clients h - {c}"
    "h_publishers (close_client c (h\<lparr>h_clients := h_clients h - {c}\<rparr>)) = h_publishers h"
    "h_closed (close_client c (h\<lparr>h_clients := h_clients h - {c}\<rparr>)) = h_closed h"
    unfolding eq by simp_all
qed

lemma Unsubscribe_facts:
  assumes "clients_inv slow h"
  shows "clients_inv slow (Unsubscribe c h)" "h_clients (Unsubscribe c h) = h_clients h - {c}"
    "h_publishers (Unsubscribe c h) = h_publishers h"
  using remove_client_inv [OF assms, of c] assms by (auto simp: Unsubscribe_def)

lemma Close_loop:
  assumes "clients_inv slow h" "distinct order" "set order \<subseteq> h_clients h" "\<not> h_closed h"
  shows "clients_inv slow (foldl (\<lambda>h c. close_client c (h\<lparr>h_clients := h_clients h - {c}\<rparr>)) h order)
    \<and> h_clients (foldl (\<lambda>h c. close_client c (h\<lparr>h_clients := h_clients h - {c}\<rparr>)) h order) = h_clients h - set order
    \<and> h_publishers (foldl (\<lambda>h c. close_client c (h\<lparr>h_clients := h_clients h - {c}\<rparr>)) h order) = h_publishers h"
  using assms
proof (induction order arbitrary: h)
  case (Cons c cs)
  let ?h = "close_client c (h\<lparr>h_clients := h_clients h - {c}\<rparr>)"
  have c: "c \<in> h_clients h" using Cons.prems(3) by simp
  note r = remove_client_inv [OF Cons.prems(1) c]
  have "set cs \<subseteq> h_clients ?h" using Cons.prems(2,3) by (auto simp: r(2))
  then have "clients_inv slow (foldl (\<lambda>h c. close_client c (h\<lparr>h_clients := h_clients h - {c}\<rparr>)) ?h cs)
    \<and> h_clients (foldl (\<lambda>h c. close_client c (h\<lparr>h_clients := h_clients h - {c}\<rparr>)) ?h cs) = h_clients ?h - set cs
    \<and> h_publishers (foldl (\<lambda>h c. close_client c (h\<lparr>h_clients := h_clients h - {c}\<rparr>)) ?h cs) = h_publishers ?h"
    using Cons.prems(2,4) by (intro Cons.IH r(1)) (simp_all add: r(4))
  then show ?case by (simp add: r(2,3)) blast
qed simp

lemma try_send_facts:
  assumes "clients_inv slow h" "c \<in> h_clients h" "try_send frame c h = Some (sent, h')"
  shows "clients_inv (if sent then slow else insert c slow) h'" "h_clients h' = h_clients h" "h_publishers h' = h_publishers h"
proof -
  obtain ch where ch: "h_client h c = Some ch" "open_client ch" "c_missed ch \<longrightarrow> c \<in> slow" "length (c_events ch) \<le> sseClientEventBufferSize"
    using assms(1,2) by (auto simp: clients_inv_def)
  have "\<not> c_events_closed ch" using ch(2) by (simp add: open_client_def)
  then consider (room) "sent" "h' = h\<lparr>h_client := (h_client h)(c \<mapsto> ch\<lparr>c_events := c_events ch @ [frame]\<rparr>)\<rparr>" "length (c_events ch) < sseClientEventBufferSize"
    | (full) "\<not> sent" "h' = h\<lparr>h_client := (h_client h)(c \<mapsto> ch\<lparr>c_missed := True\<rparr>)\<rparr>"
    using assms(3) ch(1) by (auto simp: try_send_def select_send_def chan_send_def miss_frame_def split: if_splits)
  then show "clients_inv (if sent then slow else insert c slow) h'" "h_clients h' = h_clients h" "h_publishers h' = h_publishers h"
    by (cases; use assms(1,2) ch in \<open>auto simp: clients_inv_def open_client_def\<close>)+
qed

text \<open>The three ways in which a publisher moves.\<close>

lemma publish_step_cases:
  assumes "publish_step i h = Some h'"
  obtains (release) frame slow where "i < length (h_publishers h)" "h_publishers h ! i = Sending frame [] slow"
      "h' = h\<lparr>h_publishers := (h_publishers h)[i := Unsubscribing slow]\<rparr>"
    | (offer) frame c cs slow sent k where "i < length (h_publishers h)" "h_publishers h ! i = Sending frame (c # cs) slow"
      "try_send frame c h = Some (sent, k)"
      "h' = k\<lparr>h_publishers := (h_publishers h)[i := Sending frame cs (if sent then slow else slow @ [c])]\<rparr>"
    | (drop) c cs where "i < length (h_publishers h)" "h_publishers h ! i = Unsubscribing (c # cs)" "can_write h"
      "h' = (Unsubscribe c h)\<lparr>h_publishers := (h_publishers h)[i := Unsubscribing cs]\<rparr>"
proof -
  have un: "h_publishers (Unsubscribe c h) = h_publishers h" for c
    by (simp add: Unsubscribe_def close_client_def split: option.split)
  have send: "try_send frame c h = Some (sent, k) \<Longrightarrow> h_publishers k = h_publishers h" for frame c sent k
    by (auto simp: try_send_def select_send_def chan_send_def miss_frame_def split: option.splits if_splits)
  show thesis
    using assms that send
    by (auto simp: publish_step_def Let_def un split: if_splits publisher.splits list.splits)
qed

lemma no_senders: "can_write h \<Longrightarrow> p \<in> set (h_publishers h) \<Longrightarrow> sends_to p = {}"
  by (cases p) (auto simp: can_write_def is_sending_def list_all_iff)

lemma list_update_in: "p \<in> set (ps[i := q]) \<Longrightarrow> p = q \<or> p \<in> set ps"
  using set_update_subset_insert [of ps i q] by auto

lemma slow_update:
  assumes "i < length ps"
  shows "(\<Union>p \<in> set (ps[i := q]). set (slow_of p)) \<subseteq> (\<Union>p \<in> set ps. set (slow_of p)) \<union> set (slow_of q)"
    "(\<Union>p \<in> set ps. set (slow_of p)) \<subseteq> (\<Union>p \<in> set (ps[i := q]). set (slow_of p)) \<union> (set (slow_of (ps ! i)) - set (slow_of q))"
    "set (slow_of q) \<subseteq> (\<Union>p \<in> set (ps[i := q]). set (slow_of p))"
proof -
  show "(\<Union>p \<in> set (ps[i := q]). set (slow_of p)) \<subseteq> (\<Union>p \<in> set ps. set (slow_of p)) \<union> set (slow_of q)"
    using set_update_subset_insert [of ps i q] by auto
  have q: "q \<in> set (ps[i := q])" using assms by (simp add: set_update_memI)
  then show "set (slow_of q) \<subseteq> (\<Union>p \<in> set (ps[i := q]). set (slow_of p))" by auto
  have "p \<in> set (ps[i := q]) \<or> p = ps ! i" if p: "p \<in> set ps" for p
  proof -
    obtain j where j: "j < length ps" "p = ps ! j" using p by (auto simp: in_set_conv_nth)
    then show ?thesis by (cases "j = i") (auto simp: in_set_conv_nth intro!: exI [of _ j])
  qed
  then show "(\<Union>p \<in> set ps. set (slow_of p)) \<subseteq> (\<Union>p \<in> set (ps[i := q]). set (slow_of p)) \<union> (set (slow_of (ps ! i)) - set (slow_of q))"
    using q by auto
qed

lemma publish_step_inv:
  assumes "hub_inv h" "publish_step i h = Some h'"
  shows "hub_inv h'"
proof -
  let ?ps = "h_publishers h"
  have inv: "clients_inv (slow_clients h) h" and subs: "\<And>p. p \<in> set ?ps \<Longrightarrow> sends_to p \<subseteq> h_clients h"
    using assms(1) by (auto simp: hub_inv_def)
  from assms(2) show ?thesis
  proof (cases rule: publish_step_cases)
    case (release frame slow)
    let ?q = "Unsubscribing slow"
    note upd = slow_update [OF release(1), folded slow_clients_def]
    have "slow_clients h \<subseteq> slow_clients (h\<lparr>h_publishers := ?ps[i := ?q]\<rparr>)"
      using upd(2) [of ?q] release(2) by (simp add: slow_clients_def)
    then have "clients_inv (slow_clients (h\<lparr>h_publishers := ?ps[i := ?q]\<rparr>)) h" using clients_inv_mono [OF inv] by blast
    moreover have "sends_to p \<subseteq> h_clients h" if "p \<in> set (?ps[i := ?q])" for p
      using list_update_in [OF that] subs by auto
    ultimately show ?thesis by (simp add: release(3) hub_inv_def)
  next
    case (offer frame c cs slow sent k)
    note upd = slow_update [OF offer(1), folded slow_clients_def]
    have mine: "insert c (set cs) \<union> set slow \<subseteq> h_clients h" using subs [OF nth_mem [OF offer(1)]] offer(2) by simp
    then have "c \<in> h_clients h" by simp
    note f = try_send_facts [OF inv this offer(3)]
    let ?q = "Sending frame cs (if sent then slow else slow @ [c])"
    have "(if sent then slow_clients h else insert c (slow_clients h)) \<subseteq> slow_clients (k\<lparr>h_publishers := ?ps[i := ?q]\<rparr>)"
      using upd(2,3) [of ?q] offer(2) by (auto simp: slow_clients_def split: if_splits)
    then have "clients_inv (slow_clients (k\<lparr>h_publishers := ?ps[i := ?q]\<rparr>)) k" using clients_inv_mono [OF f(1)] by blast
    moreover have "sends_to p \<subseteq> h_clients k" if "p \<in> set (?ps[i := ?q])" for p
      using list_update_in [OF that]
    proof
      assume p: "p = ?q"
      show ?thesis using mine by (simp add: p f(2))
    qed (use subs f(2) in simp)
    ultimately show ?thesis by (simp add: offer(4) hub_inv_def)
  next
    case (drop c cs)
    note upd = slow_update [OF drop(1), folded slow_clients_def]
    note f = Unsubscribe_facts [OF inv, of c]
    let ?q = "Unsubscribing cs"
    have "slow_clients h - {c} \<subseteq> slow_clients ((Unsubscribe c h)\<lparr>h_publishers := ?ps[i := ?q]\<rparr>)"
      using upd(2) [of ?q] drop(2) by (auto simp: slow_clients_def)
    then have "clients_inv (slow_clients ((Unsubscribe c h)\<lparr>h_publishers := ?ps[i := ?q]\<rparr>)) (Unsubscribe c h)"
      using f(2) by (intro clients_inv_mono [OF f(1)]) auto
    moreover have "sends_to p = {}" if "p \<in> set (?ps[i := ?q])" for p
      using list_update_in [OF that] no_senders [OF drop(3)] by auto
    ultimately show ?thesis by (simp add: drop(4) hub_inv_def)
  qed
qed

lemma hub_step_inv:
  assumes "hub_step h h'" "hub_inv h"
  shows "hub_inv h'"
  using assms
proof (induction rule: hub_step.induct)
  case (subscribe h)
  then have inv: "clients_inv (slow_clients h) h" and none: "\<And>p. p \<in> set (h_publishers h) \<Longrightarrow> sends_to p = {}"
    using no_senders by (auto simp: hub_inv_def)
  have new: "h_next h \<notin> h_clients h" using inv by (fastforce simp: clients_inv_def)
  show ?case
    using inv none new
    by (auto simp: Subscribe_def Let_def close_client_def hub_inv_def clients_inv_def slow_clients_def open_client_def closed_client_def
        less_SucI dest: less_imp_neq)
next
  case (unsubscribe h c)
  then have inv: "clients_inv (slow_clients h) h" and none: "\<And>p. p \<in> set (h_publishers h) \<Longrightarrow> sends_to p = {}"
    using no_senders by (auto simp: hub_inv_def)
  show ?case using Unsubscribe_facts [OF inv, of c] none by (simp add: hub_inv_def slow_clients_def)
next
  case (close h order)
  then have inv: "clients_inv (slow_clients h) h" and none: "\<And>p. p \<in> set (h_publishers h) \<Longrightarrow> sends_to p = {}"
    using no_senders by (auto simp: hub_inv_def)
  show ?case
  proof (cases "h_closed h")
    case True
    then show ?thesis using close by (simp add: SSEHub_Close_def)
  next
    case False
    note loop = Close_loop [OF inv close(2) _ False]
    let ?h = "foldl (\<lambda>h c. close_client c (h\<lparr>h_clients := h_clients h - {c}\<rparr>)) h order"
    have comm: "foldl (\<lambda>h c. close_client c (h\<lparr>h_clients := h_clients h - {c}\<rparr>)) (k\<lparr>h_closed := True\<rparr>) xs
        = (foldl (\<lambda>h c. close_client c (h\<lparr>h_clients := h_clients h - {c}\<rparr>)) k xs)\<lparr>h_closed := True\<rparr>" for k xs
    proof (induction xs arbitrary: k)
      case (Cons x xs)
      have "close_client x (k\<lparr>h_closed := True, h_clients := h_clients k - {x}\<rparr>)
          = (close_client x (k\<lparr>h_clients := h_clients k - {x}\<rparr>))\<lparr>h_closed := True\<rparr>"
        by (simp add: close_client_def split: option.splits)
      then show ?case using Cons by simp
    qed simp
    have "SSEHub_Close order h = ?h\<lparr>h_closed := True\<rparr>" using False by (simp add: SSEHub_Close_def comm)
    moreover have "clients_inv (slow_clients h) ?h" "h_clients ?h = {}" "h_publishers ?h = h_publishers h"
      using loop close(3) by auto
    ultimately show ?thesis using none by (simp add: hub_inv_def clients_inv_def slow_clients_def)
  qed
next
  case (publish order h frame)
  then show ?case by (auto simp: publish_begin_def hub_inv_def slow_clients_def)
next
  case (publisher i h h')
  then show ?case by (rule_tac publish_step_inv)
next
  case (handler h c)
  then show ?case
    by (auto simp: receive_def hub_inv_def clients_inv_def slow_clients_def open_client_def closed_client_def
        intro: le_trans [OF diff_le_self] split: option.splits)
qed

lemma hub_reachable_inv: "hub_reachable h \<Longrightarrow> hub_inv h"
proof (induction rule: rtranclp_induct)
  case base
  show ?case by (simp add: hub_inv_def clients_inv_def slow_clients_def NewSSEHub_def)
qed (use hub_step_inv in blast)

section \<open>Progress of the publishers\<close>

fun publisher_left :: "publisher \<Rightarrow> nat" where
  "publisher_left (Sending frame todo slow) = 2 * length todo + length slow + 1"
| "publisher_left (Unsubscribing slow) = length slow"

definition publish_left :: "SSEHub \<Rightarrow> nat" where
  "publish_left h = sum_list (map publisher_left (h_publishers h))"

lemma sum_list_update_less:
  assumes "i < length xs" "f q < f (xs ! i)"
  shows "sum_list (map f (xs[i := q])) < (sum_list (map f xs) :: nat)"
  using assms
proof (induction xs arbitrary: i)
  case (Cons x xs)
  show ?case
  proof (cases i)
    case (Suc j)
    then show ?thesis using Cons by simp
  qed (use Cons in simp)
qed simp

lemma publish_step_left:
  assumes "publish_step i h = Some h'"
  shows "publish_left h' < publish_left h"
  using assms
  by (cases rule: publish_step_cases) (simp_all add: publish_left_def sum_list_update_less)

text \<open>No deadlock: a select with a default clause never waits, and the last sender frees the lock.\<close>

lemma try_send_returns: "\<exists>sent k. try_send frame c h = Some (sent, k)"
  by (cases "chan_send frame c h") (simp_all add: try_send_def select_send_def ex_bool_eq)

lemma sender_can_step:
  assumes "i < length (h_publishers h)" "is_sending (h_publishers h ! i)"
  shows "publish_step i h \<noteq> None"
proof -
  obtain frame todo slow where p: "h_publishers h ! i = Sending frame todo slow"
    using assms(2) by (auto simp: is_sending_def split: publisher.splits)
  show ?thesis
  proof (cases todo)
    case (Cons c cs)
    then show ?thesis using assms(1) p try_send_returns [of frame c h] by (auto simp: publish_step_def)
  qed (use assms(1) p in \<open>simp add: publish_step_def\<close>)
qed

lemma publisher_can_step:
  assumes "publish_left h \<noteq> 0"
  shows "\<exists>i. publish_step i h \<noteq> None"
proof (cases "can_write h")
  case True
  have "\<exists>p \<in> set (h_publishers h). publisher_left p \<noteq> 0" using assms by (auto simp: publish_left_def)
  then obtain i where i: "i < length (h_publishers h)" "publisher_left (h_publishers h ! i) \<noteq> 0" by (metis in_set_conv_nth)
  have "\<not> is_sending (h_publishers h ! i)" using True i(1) by (simp add: can_write_def list_all_length)
  then show ?thesis using True i
    by (intro exI [of _ i]) (auto simp: publish_step_def is_sending_def Let_def split: publisher.splits list.splits)
next
  case False
  then obtain i where "i < length (h_publishers h)" "is_sending (h_publishers h ! i)"
    unfolding can_write_def list_all_length by blast
  then show ?thesis using sender_can_step by blast
qed

section \<open>Delivery\<close>

text \<open>The clients that a frame was dropped for. A publisher collects no other clients as slow.\<close>

definition missed_clients :: "SSEHub \<Rightarrow> nat set" where
  "missed_clients h = {c. \<exists>ch. h_client h c = Some ch \<and> c_missed ch}"

lemma missed_publishers [simp]: "missed_clients (h\<lparr>h_publishers := ps\<rparr>) = missed_clients h"
  by (simp add: missed_clients_def)

lemma missed_close_client [simp]: "missed_clients (close_client c h) = missed_clients h"
  by (auto simp: missed_clients_def close_client_def split: option.splits if_splits)

lemma missed_Unsubscribe [simp]: "missed_clients (Unsubscribe c h) = missed_clients h"
  by (simp add: Unsubscribe_def) (simp add: missed_clients_def)

lemma missed_Close [simp]: "missed_clients (SSEHub_Close order h) = missed_clients h"
proof -
  have "missed_clients (foldl (\<lambda>h c. close_client c (h\<lparr>h_clients := h_clients h - {c}\<rparr>)) k order) = missed_clients k" for k
  proof (induction order arbitrary: k)
    case (Cons c cs)
    then show ?case by simp (simp add: missed_clients_def)
  qed simp
  then show ?thesis by (simp add: SSEHub_Close_def) (simp add: missed_clients_def)
qed

lemma missed_Subscribe:
  assumes "clients_inv slow h"
  shows "missed_clients (snd (Subscribe h)) = missed_clients h"
proof -
  have "h_client h (h_next h) = None" using assms by (fastforce simp: clients_inv_def)
  then show ?thesis by (auto simp: Subscribe_def Let_def missed_clients_def close_client_def)
qed

lemma missed_receive [simp]: "missed_clients (receive c h) = missed_clients h"
  by (auto simp: missed_clients_def receive_def split: option.splits)

lemma try_send_missed:
  assumes "try_send frame c h = Some (sent, k)" "h_client h c \<noteq> None"
  shows "missed_clients h \<subseteq> missed_clients k" "\<not> sent \<Longrightarrow> c \<in> missed_clients k"
  using assms
  by (auto simp: try_send_def select_send_def chan_send_def miss_frame_def missed_clients_def split: option.splits if_splits)

lemma hub_publishers [simp]:
  "h_publishers (close_client c h) = h_publishers h" "h_publishers (Unsubscribe c h) = h_publishers h"
  "h_publishers (SSEHub_Close order h) = h_publishers h" "h_publishers (snd (Subscribe h)) = h_publishers h"
  "h_publishers (receive c h) = h_publishers h"
proof -
  show close: "h_publishers (close_client c h) = h_publishers h" for c h
    by (simp add: close_client_def split: option.split)
  then show "h_publishers (Unsubscribe c h) = h_publishers h" "h_publishers (snd (Subscribe h)) = h_publishers h"
    by (simp_all add: Unsubscribe_def Subscribe_def Let_def)
  have "h_publishers (foldl (\<lambda>h c. close_client c (h\<lparr>h_clients := h_clients h - {c}\<rparr>)) k order) = h_publishers k" for k
    by (induction order arbitrary: k) (simp_all add: close)
  then show "h_publishers (SSEHub_Close order h) = h_publishers h" by (simp add: SSEHub_Close_def)
  show "h_publishers (receive c h) = h_publishers h" by (simp add: receive_def split: option.split)
qed

lemma slow_after:
  assumes "i < length (h_publishers h)" "h_publishers h' = (h_publishers h)[i := q]"
  shows "slow_clients h' \<subseteq> slow_clients h \<union> (set (slow_of q) - set (slow_of (h_publishers h ! i)))"
proof -
  have "set (slow_of (h_publishers h ! i)) \<subseteq> slow_clients h" using nth_mem [OF assms(1)] by (auto simp: slow_clients_def)
  then show ?thesis using slow_update(1) [OF assms(1), of q] by (auto simp: slow_clients_def assms(2))
qed

lemma publish_step_missed:
  assumes "hub_inv h" "slow_clients h \<subseteq> missed_clients h" "publish_step i h = Some h'"
  shows "missed_clients h \<subseteq> missed_clients h' \<and> slow_clients h' \<subseteq> missed_clients h'"
  using assms(3)
proof (cases rule: publish_step_cases)
  case (release frame slow)
  then have "slow_clients h' \<subseteq> slow_clients h" using slow_after [OF release(1), of h' "Unsubscribing slow"] by simp
  then show ?thesis using assms(2) release(3) by auto
next
  case (offer frame c cs slow sent k)
  have "sends_to (h_publishers h ! i) \<subseteq> h_clients h" using assms(1) nth_mem [OF offer(1)] by (simp add: hub_inv_def)
  then have "h_client h c \<noteq> None" using assms(1) offer(2) by (auto simp: hub_inv_def clients_inv_def)
  note m = try_send_missed [OF offer(3) this]
  have "slow_clients h' \<subseteq> slow_clients h \<union> (if sent then {} else {c})"
    using slow_after [OF offer(1), of h' "Sending frame cs (if sent then slow else slow @ [c])"] offer(2)
    by (auto simp: offer(4) split: if_splits)
  then show ?thesis using assms(2) m offer(4) by (auto split: if_splits)
next
  case (drop c cs)
  then have "slow_clients h' \<subseteq> slow_clients h" using slow_after [OF drop(1), of h' "Unsubscribing cs"] by auto
  then show ?thesis using assms(2) drop(4) by auto
qed

lemma slow_publishers:
  "h_publishers h' = h_publishers h \<Longrightarrow> slow_clients h' = slow_clients h"
  by (simp add: slow_clients_def)

lemma slow_have_missed: "hub_reachable h \<Longrightarrow> slow_clients h \<subseteq> missed_clients h"
proof (induction rule: rtranclp_induct)
  case base
  show ?case by (simp add: slow_clients_def NewSSEHub_def)
next
  case (step h h')
  note inv = hub_reachable_inv [OF step(1)]
  from step(2) show ?case
  proof (cases rule: hub_step.cases)
    case subscribe
    then show ?thesis using step(3) inv slow_publishers [of h' h] by (simp add: missed_Subscribe [of "slow_clients h"] hub_inv_def)
  next
    case (publish order frame)
    then show ?thesis using step(3) by (simp add: publish_begin_def slow_clients_def)
  next
    case (publisher i)
    then show ?thesis using publish_step_missed [OF inv step(3)] by blast
  qed (use step(3) slow_publishers [of h' h] in simp_all)
qed

lemma publish_step_clients:
  assumes "hub_inv h" "publish_step i h = Some h'"
  shows "h_clients h' \<subseteq> h_clients h \<and> h_clients h - h_clients h' \<subseteq> slow_clients h"
  using assms(2)
proof (cases rule: publish_step_cases)
  case (offer frame c cs slow sent k)
  have "h_clients k = h_clients h"
    using offer(3) by (auto simp: try_send_def select_send_def chan_send_def miss_frame_def split: option.splits if_splits)
  then show ?thesis by (simp add: offer(4))
next
  case (drop c cs)
  have inv: "clients_inv (slow_clients h) h" using assms(1) by (simp add: hub_inv_def)
  have "h_clients h' = h_clients h - {c}" using Unsubscribe_facts(2) [OF inv, of c] by (simp add: drop(4))
  moreover have "c \<in> slow_clients h" using nth_mem [OF drop(1)] drop(2) by (auto simp: slow_clients_def intro!: bexI)
  ultimately show ?thesis by blast
qed simp

text \<open>How often publishers still have to offer a frame to a client.\<close>

fun pending_of :: "nat \<Rightarrow> string \<Rightarrow> publisher \<Rightarrow> nat" where
  "pending_of c frame (Sending f todo slow) = (if f = frame then count_list todo c else 0)"
| "pending_of c frame (Unsubscribing slow) = 0"

definition pending :: "nat \<Rightarrow> string \<Rightarrow> SSEHub \<Rightarrow> nat" where
  "pending c frame h = sum_list (map (pending_of c frame) (h_publishers h))"

lemma sum_list_update_add:
  "i < length xs \<Longrightarrow> sum_list (map f (xs[i := q])) + f (xs ! i) = (sum_list (map f xs) + f q :: nat)"
proof (induction xs arbitrary: i)
  case (Cons x xs)
  show ?case
  proof (cases i)
    case (Suc j)
    then show ?thesis using Cons.IH [of j] Cons.prems by simp
  qed simp
qed simp

lemma pending_after:
  assumes "i < length (h_publishers h)" "h_publishers h' = (h_publishers h)[i := q]"
  shows "pending c frame h' + pending_of c frame (h_publishers h ! i) = pending c frame h + pending_of c frame q"
  using sum_list_update_add [OF assms(1), of "pending_of c frame" q] by (simp add: pending_def assms(2))

lemma slow_before:
  assumes "i < length (h_publishers h)" "h_publishers h' = (h_publishers h)[i := q]"
  shows "slow_clients h \<subseteq> slow_clients h' \<union> (set (slow_of (h_publishers h ! i)) - set (slow_of q))" "set (slow_of q) \<subseteq> slow_clients h'"
  using slow_update(2,3) [OF assms(1), of q] by (auto simp: slow_clients_def assms(2))

text \<open>What a step of a publisher does to a client that stays subscribed and is not collected as slow: the
  frames it adds to the buffer are those that are no longer pending.\<close>

lemma publish_step_delivers:
  assumes "hub_inv h" "publish_step i h = Some h'" "c \<in> h_clients h'" "h_client h c = Some ch"
  shows "c \<in> slow_clients h' \<or> c \<notin> slow_clients h
    \<and> (\<exists>ch' fs. h_client h' c = Some ch' \<and> c_events ch' = c_events ch @ fs \<and> (\<forall>f. count_list fs f + pending c f h' = pending c f h))"
  using assms(2)
proof (cases rule: publish_step_cases)
  case (release frame slow)
  have "pending c f h' = pending c f h" for f
    using pending_after [OF release(1), of h' "Unsubscribing slow" c f] release(2,3) by (simp split: if_splits)
  moreover have "slow_clients h \<subseteq> slow_clients h'" using slow_before(1) [OF release(1), of h' "Unsubscribing slow"] release(2,3) by simp
  ultimately show ?thesis using assms(4) release(3) by (auto intro!: exI [of _ "[]"])
next
  case (offer frame d cs slow sent k)
  have pubs: "h_publishers h' = (h_publishers h)[i := Sending frame cs (if sent then slow else slow @ [d])]" by (simp add: offer(4))
  have "sends_to (h_publishers h ! i) \<subseteq> h_clients h" using assms(1) nth_mem [OF offer(1)] by (simp add: hub_inv_def)
  then obtain dh where dh: "h_client h d = Some dh" "\<not> c_events_closed dh"
    using assms(1) offer(2) by (fastforce simp: hub_inv_def clients_inv_def open_client_def)
  note pend = pending_after [OF offer(1) pubs, of c] and slow = slow_before [OF offer(1) pubs]
  show ?thesis
  proof (cases "c = d")
    case False
    then have "h_client h' c = Some ch" using assms(4) offer(3,4)
      by (auto simp: try_send_def select_send_def chan_send_def miss_frame_def split: option.splits if_splits)
    moreover have "pending c f h' = pending c f h" for f using pend [of f] offer(2) False by (simp split: if_splits)
    ultimately show ?thesis using slow(1) offer(2)
      by (auto intro!: exI [of _ "[]"] split: if_splits)
  next
    case True
    show ?thesis
    proof (cases sent)
      case sent: True
      then have "h_client h' c = Some (ch\<lparr>c_events := c_events ch @ [frame]\<rparr>)" using dh True assms(4) offer(3,4)
        by (auto simp: try_send_def select_send_def chan_send_def split: if_splits)
      moreover have "count_list [frame] f + pending c f h' = pending c f h" for f
        using pend [of f] offer(2) True sent by (auto split: if_splits)
      ultimately show ?thesis using slow(1) offer(2) sent by auto
    next
      case False
      then show ?thesis using slow(2) True by simp
    qed
  qed
next
  case (drop d cs)
  have pubs: "h_publishers h' = (h_publishers h)[i := Unsubscribing cs]" by (simp add: drop(4))
  have inv: "clients_inv (slow_clients h) h" using assms(1) by (simp add: hub_inv_def)
  have "h_clients h' = h_clients h - {d}" using Unsubscribe_facts(2) [OF inv, of d] by (simp add: drop(4))
  then have "c \<noteq> d" using assms(3) by auto
  moreover from this have "h_client h' c = Some ch" using assms(4)
    by (simp add: drop(4) Unsubscribe_def close_client_def split: option.split)
  ultimately show ?thesis
    using slow_before(1) [OF drop(1) pubs] pending_after [OF drop(1) pubs, of c] drop(2)
    by (auto intro!: exI [of _ "[]"])
qed

section \<open>Publishing to its end\<close>

text \<open>A run of publisher steps, with the steps of the connection handlers in between: the number of
  publisher steps and, for each client, the frames that its handler has taken.\<close>

definition received :: "nat \<Rightarrow> SSEHub \<Rightarrow> string list" where
  "received c h = (case h_client h c of None \<Rightarrow> [] | Some ch \<Rightarrow> take 1 (c_events ch))"

inductive publishing :: "SSEHub \<Rightarrow> nat \<Rightarrow> (nat \<Rightarrow> string list) \<Rightarrow> SSEHub \<Rightarrow> bool" for h where
  start: "publishing h 0 (\<lambda>_. []) h"
| publisher: "publishing h n got h1 \<Longrightarrow> publish_step i h1 = Some h2 \<Longrightarrow> publishing h (Suc n) got h2"
| handler: "publishing h n got h1 \<Longrightarrow> publishing h n (got(c := got c @ received c h1)) (receive c h1)"

definition delivering :: "SSEHub \<Rightarrow> (nat \<Rightarrow> string list) \<Rightarrow> SSEHub \<Rightarrow> nat \<Rightarrow> bool" where
  "delivering h got h' c =
     (\<exists>ch ch' fs. h_client h c = Some ch \<and> h_client h' c = Some ch' \<and> got c @ c_events ch' = c_events ch @ fs
        \<and> (\<forall>f. count_list fs f + pending c f h' = pending c f h))"

lemma publishing_reachable: "publishing h n got h' \<Longrightarrow> hub_step\<^sup>*\<^sup>* h h'"
  by (induction rule: publishing.induct) (auto intro: rtranclp.rtrancl_into_rtrancl hub_step.publisher hub_step.handler)

lemma publishing_left: "publishing h n got h' \<Longrightarrow> n + publish_left h' \<le> publish_left h"
proof (induction rule: publishing.induct)
  case (publisher n got h1 i h2)
  then show ?case using publish_step_left [OF publisher(2)] by simp
next
  case (handler n got h1 c)
  then show ?case by (simp add: publish_left_def)
qed simp

lemma receive_frames [simp]: "h_clients (receive c h) = h_clients h" "pending d f (receive c h) = pending d f h"
  "slow_clients (receive c h) = slow_clients h"
  by (simp_all add: pending_def slow_clients_def) (simp add: receive_def split: option.split)

lemma publishing_delivers:
  assumes "hub_reachable h" "publishing h n got h'"
  shows "h_clients h' \<subseteq> h_clients h \<and> h_clients h - h_clients h' \<subseteq> missed_clients h'
    \<and> (\<forall>c \<in> h_clients h'. c \<in> slow_clients h' \<or> delivering h got h' c)"
  using assms(2)
proof (induction rule: publishing.induct)
  case start
  have "h_client h c \<noteq> None" if "c \<in> h_clients h" for c
    using hub_reachable_inv [OF assms(1)] that by (fastforce simp: hub_inv_def clients_inv_def)
  then show ?case by (fastforce simp: delivering_def)
next
  case (publisher n got h1 i h2)
  have reach: "hub_reachable h1" using assms(1) publishing_reachable [OF publisher(1)] by simp
  note inv = hub_reachable_inv [OF reach] and slow = slow_have_missed [OF reach]
  note missed = publish_step_missed [OF inv slow publisher(2)]
  have clients: "h_clients h2 \<subseteq> h_clients h1 \<and> h_clients h1 - h_clients h2 \<subseteq> slow_clients h1"
    using publisher(2) by (rule publish_step_clients [OF inv])
  have "delivering h got h2 c" if c: "c \<in> h_clients h2" "c \<notin> slow_clients h2" for c
  proof -
    have c1: "c \<in> h_clients h1" using clients c(1) by blast
    then obtain ch1 where ch1: "h_client h1 c = Some ch1" using inv by (fastforce simp: hub_inv_def clients_inv_def)
    from publish_step_delivers [OF inv publisher(2) c(1) ch1] c(2)
    obtain ch2 gs where s: "c \<notin> slow_clients h1" "h_client h2 c = Some ch2" "c_events ch2 = c_events ch1 @ gs"
      "\<And>f. count_list gs f + pending c f h2 = pending c f h1" by blast
    obtain ch fs where d: "h_client h c = Some ch" "got c @ c_events ch1 = c_events ch @ fs" "\<And>f. count_list fs f + pending c f h1 = pending c f h"
      using publisher.IH c1 s(1) ch1 by (auto simp: delivering_def)
    have "count_list (fs @ gs) f + pending c f h2 = pending c f h" for f using s(4) [of f] d(3) [of f] by simp
    moreover have "got c @ c_events ch2 = c_events ch @ fs @ gs" using s(3) d(2) by simp
    ultimately show ?thesis using d(1) s(2) unfolding delivering_def by blast
  qed
  then show ?case using publisher.IH clients missed slow by blast
next
  case (handler n got h1 c)
  have "delivering h (got(c := got c @ received c h1)) (receive c h1) d" if "delivering h got h1 d" for d
  proof -
    have "take 1 xs @ tl xs = xs" for xs :: "string list" by (cases xs) simp_all
    then show ?thesis using that by (fastforce simp: delivering_def received_def receive_def pending_def split: option.splits)
  qed
  then show ?case using handler.IH unfolding receive_frames missed_receive by blast
qed

lemma idle_no_slow:
  assumes "publish_left h = 0"
  shows "slow_clients h = {}" "pending c f h = 0"
proof -
  have "slow_of p = [] \<and> pending_of c f p = 0" if "p \<in> set (h_publishers h)" for p
    using assms that by (cases p) (auto simp: publish_left_def)
  then show "slow_clients h = {}" "pending c f h = 0" by (auto simp: slow_clients_def pending_def)
qed

section \<open>Properties\<close>

text \<open>C37. Under every interleaving of connections, disconnections, publishers, handlers and the shutdown,
  no goroutine sends on a closed channel or closes a channel twice; no buffer exceeds its size; a
  client's channels are open exactly while it is subscribed; a closed hub has no clients; and a
  subscribed client for which a frame was dropped is held by a publisher that will unsubscribe it:
  when no publisher is at work, no subscribed client has missed a frame.\<close>

theorem hub_safe:
  assumes "hub_reachable h"
  shows "\<not> h_panicked h
    \<and> {c. \<exists>ch. h_client h c = Some ch \<and> sseClientEventBufferSize < length (c_events ch)} = {}
    \<and> h_clients h = {c. \<exists>ch. h_client h c = Some ch \<and> \<not> c_events_closed ch}
    \<and> h_clients h = {c. \<exists>ch. h_client h c = Some ch \<and> \<not> c_done_closed ch}
    \<and> (if h_closed h then h_clients h = {} else True)
    \<and> {c \<in> h_clients h. \<exists>ch. h_client h c = Some ch \<and> c_missed ch} \<subseteq> slow_clients h
    \<and> (publish_left h \<noteq> 0 \<or> {c \<in> h_clients h. \<exists>ch. h_client h c = Some ch \<and> c_missed ch} = {})"
proof -
  have inv: "clients_inv (slow_clients h) h" using hub_reachable_inv [OF assms] by (simp add: hub_inv_def)
  have missed: "{c \<in> h_clients h. \<exists>ch. h_client h c = Some ch \<and> c_missed ch} \<subseteq> slow_clients h"
    using inv by (fastforce simp: clients_inv_def)
  have idle: "slow_clients h = {}" if "publish_left h = 0"
  proof -
    have left: "\<forall>p \<in> set (h_publishers h). publisher_left p = 0"
      using \<open>publish_left h = 0\<close> by (simp add: publish_left_def)
    have "slow_of p = []" if "p \<in> set (h_publishers h)" for p
      using bspec [OF left that] by (cases p) simp_all
    then show ?thesis by (simp add: slow_clients_def)
  qed
  have clients: "h_clients h = {c. \<exists>ch. h_client h c = Some ch \<and> \<not> c_events_closed ch}"
    "h_clients h = {c. \<exists>ch. h_client h c = Some ch \<and> \<not> c_done_closed ch}"
    using inv unfolding clients_inv_def open_client_def closed_client_def by blast+
  have small: "length (c_events ch) \<le> sseClientEventBufferSize" if "h_client h c = Some ch" for c ch
    using inv that by (simp add: clients_inv_def)
  show ?thesis
    using inv missed idle clients small by (fastforce simp: clients_inv_def not_less)
qed

definition published_hub :: SSEHub where
  "published_hub = the (publish_step 0 (publish_begin memoChangedSSEFrame [0] (snd (Subscribe NewSSEHub))))"

lemma published_hub_reachable: "hub_reachable published_hub"
proof -
  let ?h1 = "snd (Subscribe NewSSEHub)"
  let ?h2 = "publish_begin memoChangedSSEFrame [0] ?h1"
  have "hub_step NewSSEHub ?h1" by (rule hub_step.subscribe) (simp add: can_write_def NewSSEHub_def)
  moreover have "hub_step ?h1 ?h2"
    by (rule hub_step.publish) (simp_all add: Subscribe_def NewSSEHub_def Let_def)
  moreover have "hub_step ?h2 published_hub" unfolding published_hub_def
    by (rule hub_step.publisher [of 0]) (simp add: publish_step_def publish_begin_def Subscribe_def NewSSEHub_def try_send_def select_send_def chan_send_def Let_def)
  ultimately show ?thesis by (meson converse_rtranclp_into_rtranclp rtranclp.rtrancl_refl)
qed

theorem hub_safe_witness: "\<not> h_panicked published_hub \<and> h_clients published_hub = {0}"
  using hub_safe [OF published_hub_reachable]
  by (simp add: published_hub_def publish_step_def publish_begin_def Subscribe_def NewSSEHub_def try_send_def select_send_def chan_send_def Let_def)

text \<open>C38. Publishing does not block, and it reaches everybody or disconnects them. From every reachable
  hub, let publishers take steps in any order, with the steps of connection handlers in between. There
  are at most \<open>publish_left\<close> publisher steps; as long as a publication is not finished some publisher
  can take one, and a publisher that is sending never waits, full buffers included; nothing panics.
  Clients that get unsubscribed on the way had a frame dropped, and their channels are closed. When all
  publications are finished, every client that is still subscribed has had no frame dropped, and what its
  handler took together with what is in its buffer is what was in its buffer before, followed by exactly
  the frames that were to be published to it.\<close>

theorem publishers_progress:
  assumes "hub_reachable h" "publishing h n got h'"
  shows "n + publish_left h' \<le> publish_left h
    \<and> (publish_left h' = 0 \<or> {i. publish_step i h' \<noteq> None} \<noteq> {})
    \<and> {i. i < length (h_publishers h') \<and> is_sending (h_publishers h' ! i) \<and> publish_step i h' = None} = {}
    \<and> \<not> h_panicked h'
    \<and> h_clients h' \<subseteq> h_clients h
    \<and> h_clients h - h_clients h' \<subseteq> {c. \<exists>ch. h_client h' c = Some ch \<and> c_missed ch \<and> c_events_closed ch \<and> c_done_closed ch}
    \<and> (publish_left h' \<noteq> 0
       \<or> h_clients h' \<subseteq> {c. \<exists>ch ch' fs. h_client h c = Some ch \<and> h_client h' c = Some ch' \<and> \<not> c_missed ch'
            \<and> got c @ c_events ch' = c_events ch @ fs \<and> (\<forall>f. count_list fs f = pending c f h)})"
proof -
  have "hub_reachable h'" using assms publishing_reachable by (meson rtranclp_trans)
  then have inv: "clients_inv (slow_clients h') h'" using hub_reachable_inv by (simp add: hub_inv_def)
  note d = publishing_delivers [OF assms]
  have gone: "h_clients h - h_clients h' \<subseteq> {c. \<exists>ch. h_client h' c = Some ch \<and> c_missed ch \<and> c_events_closed ch \<and> c_done_closed ch}"
  proof
    fix c
    assume c: "c \<in> h_clients h - h_clients h'"
    with d obtain ch where ch: "h_client h' c = Some ch" "c_missed ch" by (auto simp: missed_clients_def)
    then have "closed_client ch" using inv c by (simp add: clients_inv_def)
    then show "c \<in> {c. \<exists>ch. h_client h' c = Some ch \<and> c_missed ch \<and> c_events_closed ch \<and> c_done_closed ch}"
      using ch by (simp add: closed_client_def)
  qed
  have there: "c \<in> {c. \<exists>ch ch' fs. h_client h c = Some ch \<and> h_client h' c = Some ch' \<and> \<not> c_missed ch'
      \<and> got c @ c_events ch' = c_events ch @ fs \<and> (\<forall>f. count_list fs f = pending c f h)}"
    if "publish_left h' = 0" "c \<in> h_clients h'" for c
  proof -
    note idle = idle_no_slow [OF that(1)]
    have "delivering h got h' c" using d that(2) idle(1) by blast
    then obtain ch ch' fs where e: "h_client h c = Some ch" "h_client h' c = Some ch'" "got c @ c_events ch' = c_events ch @ fs"
      "\<And>f. count_list fs f = pending c f h" by (auto simp: delivering_def idle(2))
    have "\<not> c_missed ch'" using inv that(2) e(2) idle(1) by (auto simp: clients_inv_def)
    then show ?thesis using e by blast
  qed
  have free: "publish_left h' = 0 \<or> {i. publish_step i h' \<noteq> None} \<noteq> {}" using publisher_can_step [of h'] by blast
  have senders: "{i. i < length (h_publishers h') \<and> is_sending (h_publishers h' ! i) \<and> publish_step i h' = None} = {}"
    using sender_can_step [of _ h'] by blast
  have "\<not> h_panicked h'" using inv by (simp add: clients_inv_def)
  then show ?thesis
    using publishing_left [OF assms(2)] free senders d gone there by (intro conjI) blast+
qed

definition publishing_hub :: SSEHub where
  "publishing_hub = publish_begin memoChangedSSEFrame [0] (snd (Subscribe NewSSEHub))"

theorem publishers_progress_witness:
  "publish_left published_hub < publish_left publishing_hub \<and> \<not> h_panicked published_hub
    \<and> h_clients published_hub \<subseteq> h_clients publishing_hub"
proof -
  let ?h1 = "snd (Subscribe NewSSEHub)"
  have "hub_step NewSSEHub ?h1" by (rule hub_step.subscribe) (simp add: can_write_def NewSSEHub_def)
  moreover have "hub_step ?h1 publishing_hub" unfolding publishing_hub_def
    by (rule hub_step.publish) (simp_all add: Subscribe_def NewSSEHub_def Let_def)
  ultimately have reach: "hub_reachable publishing_hub" by (meson converse_rtranclp_into_rtranclp rtranclp.rtrancl_refl)
  have "publish_step 0 publishing_hub = Some published_hub"
    by (simp add: published_hub_def publishing_hub_def publish_step_def publish_begin_def Subscribe_def NewSSEHub_def try_send_def
        select_send_def chan_send_def Let_def)
  then have "publishing publishing_hub (Suc 0) (\<lambda>_. []) published_hub" by (rule publishing.publisher [OF publishing.start])
  from publishers_progress [OF reach this] show ?thesis by simp
qed

end
