(* ===== verification/Spec2Isabelle.thy ===== *)
theory Spec2Isabelle
  imports Filter_Injection Filter_Access Space_Paging Space_Properties Memo_Properties Attachment_Properties Session_Properties Sso_Properties
    Share_Links Scheduler SSE_Hub
begin

text \<open>
  Verification library of the memos server (Go, under \<open>src/app/memos\<close>). Paths below are relative to
  that directory. Every theory opens with a text that says what it holds; this one is the root and
  describes the whole.

  \<^bold>\<open>The program.\<close> A memos instance stores users, spaces (groups with members), memos (notes, with an
  audience, possibly placed in a space), and what hangs on memos: relations, comments, reactions,
  attachments and share links. Requests pass a transport layer and service handlers
  (\<open>server/router/api/v1\<close>), which resolve resource names, check who may read what
  (\<open>server/access\<close>) and call the store (\<open>store\<close>). The store validates arguments and calls a driver
  (\<open>store/db/sqlite\<close>, \<open>mysql\<close>, \<open>postgres\<close>); a driver runs one transaction, in which it checks again
  that the actor may do what he asks for. List requests carry a filter, an expression that
  \<open>internal/filter\<close> compiles to a SQL condition. Beside this run a job scheduler
  (\<open>internal/scheduler\<close>) and a hub that tells connected clients to refresh (\<open>sse_hub.go\<close>).

  \<^bold>\<open>Conventions.\<close> \<open>Memos_Prelude\<close> has the result type (a sum, \<open>Inl\<close> an error), its combinators \<open>bindE\<close>,
  \<open>mapE\<close>, \<open>wrapE\<close> with the collection \<open>result_simps\<close>, and the string functions of Go's library that the
  code uses. \<open>Go_Numbers\<close> has Go's numbers as the code uses them (floats through parameters, 64-bit
  integers, calendar of a Unix time), \<open>Calendar\<close> the facts on dates. A struct is a record, an enum
  with strings a string constant, an interface with several implementations a datatype; a nil
  pointer is \<open>None\<close>. Every error return is a branch. A database is one record, a list of rows per table
  in the order of insertion, with the sequences of its keys; a transaction is a function from the
  database to an error or a new database, so that an error leaves the old one.

  \<^bold>\<open>Theories.\<close>

  \<^item> \<open>Filter_Schema\<close> (\<open>ir.go\<close>, \<open>schema.go\<close>), \<open>Filter_Parser\<close> (\<open>parser.go\<close>), \<open>Filter_Render\<close> (\<open>render.go\<close>, \<open>engine.go\<close>,
    \<open>helpers.go\<close>): the filter compiler, from the checked expression tree of the CEL library to the
    SQL text and its arguments. \<open>Filter_Placeholders\<close> shows that the text has one placeholder per
    argument, numbered in order (C1; C3 for filters without constant parts), and where constant folding breaks this;
    \<open>Filter_Injection\<close> that the text never depends on the strings and numbers of the filter, apart from which strings are
    empty (C4).
  \<^item> \<open>Resource_Names\<close> (\<open>resource_name.go\<close>, \<open>username.go\<close>, \<open>util.go\<close>): names are parsed back
    exactly, and the identifier regular expression and the username check agree.
  \<^item> \<open>Store_Tables\<close> (the rows), \<open>Space_Store\<close> (\<open>store/space.go\<close>, \<open>store/user.go\<close>, \<open>sqlite/space.go\<close>, \<open>sqlite/user.go\<close>),
    \<open>Store_Deletion\<close> (\<open>sqlite/user_delete.go\<close>, \<open>sqlite/space_delete.go\<close>), \<open>Space_Invariant\<close> (the step relation of
    these operations and its invariant), \<open>Space_Properties\<close>: deletions do exactly the specified cascade
    (C9, C10), spaces keep an administrator (C11), membership needs consent (C12).
  \<^item> \<open>Cache\<close> (\<open>store/cache/cache.go\<close>): size and eviction (C14); the locale \<open>cache_interface\<close> states what
    the store relies on, and is interpreted on the model. Its operations are atomic and follow one another: that \<open>Get\<close> and
    \<open>SetWithTTL\<close> of different goroutines can interleave inside is not modelled. \<open>User_Store\<close> (\<open>store/user.go\<close> over the cache and
    the driver): the cache never returns an outdated user (C16).
  \<^item> \<open>Sql_Like\<close>, \<open>Sql_Predicates\<close> (\<open>memo_access.go\<close> of the three drivers, with a syntax and a semantics of the SQL
    they build) and \<open>Memo_Access\<close> (\<open>server/access\<close>, \<open>memo_access.go\<close>, parts of the session service): reading
    one memo and listing memos are decided alike (C17, the same for Postgres), the decision itself, what a share changes in
    it, and the resolution of spaces for writing. The locale \<open>memo_read_store\<close> states what the policy
    relies on of the store; it is interpreted on the cached store.
  \<^item> \<open>Memo_Store\<close> (\<open>store/memo.go\<close>, \<open>sqlite/memo.go\<close>, \<open>sqlite/memo_policy.go\<close>, deletion), \<open>Memo_Participation\<close> (shares,
    comments, reactions, relations), \<open>Memo_Mutation\<close> (\<open>sqlite/memo_attachment.go\<close>: contents, attachments and
    references of a memo in one transaction), \<open>Memo_Invariant\<close> (the step relation \<open>memo_step\<close> of the
    operations on users, spaces and memos, with what it leaves out, and its invariant \<open>store_ok\<close>) and
    \<open>Memo_Properties\<close>: C22, C23, C25, C26, C28.
  \<^item> \<open>Attachment_Store\<close> (\<open>store/attachment.go\<close>, \<open>attachment_delete.go\<close> and their SQLite statements) and
    \<open>Attachment_Properties\<close>: deletion (C39) and update under a policy.
  \<^item> \<open>User_Settings\<close> (\<open>store/user_setting.go\<close>, \<open>sqlite/user_setting.go\<close>): the messages per user and key, over a codec for
    their JSON form and the settings cache; the refresh tokens, personal access tokens, web hooks and memo
    views they hold. \<open>Settings_Invariant\<close> relates table and cache, \<open>Settings_Runs\<close> closes one process under the
    operations (\<open>setting_step\<close>), except for a failing \<open>UpdateUserWebhook\<close>, a direct write of a whole list of refresh tokens and
    a read of the unspecified key; \<open>Settings_Properties\<close>: the cache is transparent on these runs (C5), and is not after
    a failing update of a webhook (C13).
  \<^item> \<open>Authentication\<close> (\<open>server/auth\<close>): tokens, their extraction from headers and cookies, the authenticator and
    the identity in the request context. \<open>Access_Policy\<close> (\<open>acl_config.go\<close>, \<open>authz.go\<close>, \<open>connect_interceptors.go\<close>,
    \<open>gateway_route_resolver.go\<close>, the middleware of \<open>v1.go\<close>): which method is open, and both transports that
    enforce it. \<open>Identity_Properties\<close>: C24, C34.
  \<^item> \<open>Handlers\<close>: the shape of a service handler, an action on the store that answers or fails
    with a status, and the resolution of user names. \<open>User_Identities\<close> (\<open>store/user_identity.go\<close>,
    \<open>auth_service_sso.go\<close>, \<open>user_service_identities.go\<close>): external accounts; \<open>Sso_Properties\<close>: C27.
    \<open>Sessions\<close> (\<open>auth_service.go\<close>, \<open>auth_service_session.go\<close>): sign-in, refresh, sign-out and cookies;
    \<open>Session_Properties\<close>: C6 to C8. \<open>Sample_Libraries\<close> has a codec and a token library for the witnesses.
  \<^item> \<open>Page_Tokens\<close> (\<open>common.go\<close>): page sizes and the tokens of pages, the base64 text of an encoded message.
    \<open>Space_Service\<close> (\<open>space_service.go\<close>, \<open>space_service_converters.go\<close>): every handler of spaces, invitations and
    members, over the store and a count of the events sent to live clients. \<open>Space_Calls\<close> shows that a
    call is one operation of the store, by its caller and announced once, or nothing (C15), \<open>Space_Visibility\<close>
    that nine of the handlers hide a space from others (C19), \<open>Space_Paging\<close> that pages make up the listing (C29).
  \<^item> \<open>Filter_Access\<close> (\<open>filter_access.go\<close>): a filter tells nothing about foreign spaces (C18).
  \<^item> \<open>Memo_Listing\<close> (\<open>ListMemos\<close>, \<open>ListMemoRelations\<close> and \<open>ListAttachments\<close> of \<open>sqlite/memo.go\<close>,
    \<open>memo_relation.go\<close>, \<open>attachment.go\<close> with their optional conditions, order, limit and filters), \<open>Memo_Messages\<close>
    (\<open>memo_service_converter.go\<close> and the converters of attachments: from rows to messages), \<open>Memo_Reading\<close> (the handlers
    \<open>GetMemo\<close>, \<open>ListMemos\<close>, \<open>ListMemoRelations\<close>, \<open>GetAttachment\<close>, \<open>ListAttachments\<close>, those of reactions and of share
    links). \<open>Memo_Answers\<close> reasons on what an action answers from given tables (\<open>answers\<close>), \<open>Memo_Disclosure\<close> on the
    names in its answers, \<open>Memo_Queries\<close> on actions that always answer (\<open>yields\<close>). \<open>Reading_Properties\<close>: an answer
    names only memos and spaces the caller may know (C21), a share link opens one memo (C20). \<open>Share_Links\<close>: a
    created link opens its memo (C2), and attachments are listed as they are read one by one (C40).
  \<^item> \<open>Cron\<close> (\<open>scheduler/parser.go\<close>): C30 to C33. \<open>Scheduler\<close> (\<open>job.go\<close>, \<open>scheduler.go\<close>): C35, C36. Start, stop and the
    ends of job loops are steps of \<open>sched_step\<close>.
  \<^item> \<open>SSE_Hub\<close> (\<open>sse_hub.go\<close>): C37, for every interleaving of the locked sections and of the sends
    of concurrent publishers (\<open>hub_step\<close>), and C38, the runs of publishers to their end (\<open>publishing\<close>). A send that is not ready
    and a lock that is not free are steps that cannot be taken (\<open>None\<close>); the default clause of the select is modelled.

  \<^bold>\<open>How the parts meet.\<close> C17 connects the read policy, the cached store, the drivers' SQL and its
  semantics. \<open>memo_reachable\<close> closes the empty database under \<open>memo_step\<close>: the operations on users and spaces, and those
  on memos, shares, reactions, comments and mutations. It leaves out what no caller does (updates without a policy that change
  the audience or the placement, updates without a policy in a mutation, deletions without a policy, shares without
  \<open>CreatingShare\<close>, and updates that set and clear the space at once, which do reach a \<open>SPACE\<close> memo without a space) and the
  operations on attachments alone, which write no table that the invariant is about. C22 to C26 speak of memos and use the
  read policy of \<open>Memo_Access\<close> to state who may take part, refer or delete. Attachment operations are checked with the memo write policy of \<open>Memo_Store\<close>. C6 to C8 and C34
  follow a request from its header or cookie through the token library, the settings cache and the user
  cache to the tables. C18 joins the filter compiler with the resolution of spaces. C2, C20, C21 and C40 follow a reading
  request through the handlers, the filter compiler, the listings of the driver, the access predicates and the read policy, and
  C2 also through the write policy; C15, C19 and C29 a request on spaces through handlers, store and page tokens.

  \<^bold>\<open>Bounds.\<close> No fuel is used. The loops with a bound of the code are modelled with it: batches of a
  deletion, at most 32 buffered frames of a client, the four years of \<open>Next\<close>. Recursions over lists and
  trees are structural; the others (\<open>Fields\<close>, \<open>next_loop\<close>, the rendering of nested conditions) have a
  termination proof. In \<open>Space_Paging\<close> a client follows page tokens for at most a given number of requests; C29 shows that as
  many as there are spaces, and one more, suffice. Database keys are integers: that they exceed 32 bits is not modelled.

  \<^bold>\<open>Parameters.\<close> The CEL parser's result, protocol marshalling, the order in which Go ranges over a map,
  the clock, the time zone database, user-defined hooks of the cache and the float arithmetic are
  arguments of the definitions that use them. So are the JSON codec of the setting messages (\<open>codec_ok\<close>: what
  it writes it reads back, and the JSON query of the database finds exactly the token hashes), the token library (\<open>jwt_ok\<close>: a
  signed token is parsed back under its key, and only such tokens are), hashes, random identifiers, the
  client of an identity provider and the handlers behind the interceptor. The protocol encoding of a page token is
  one (\<open>page_lib_ok\<close>: what is encoded is decoded again), the outcome of removing attachment files after a space is deleted
  (\<open>sx_cleanup\<close>), and for reading memos (\<open>memo_env\<close>): the CEL environment and the truth of a compiled filter condition at a
  row (\<open>filter_lib\<close>), the decoding of payloads, the snippet of a content, the copy of media metadata, the clock and the next
  short identifier. That these libraries answer on the rows at hand, and that the condition without filters, \<open>1 = 1\<close>, is true,
  is the hypothesis \<open>libraries_work\<close> of C2 and C40; C20 and C21 need none of it.

  \<^bold>\<open>Not modelled.\<close> Failures of the database connection (a statement fails only where a constraint or the
  code makes it fail) and serialization anomalies of concurrent transactions; the MySQL and Postgres
  drivers except for the access predicates; the service handlers, except for those of the read policy, of sessions,
  of linked identities, of spaces, and of reading memos, relations, reactions, attachments and share links; and everything that
  is input and output or generated: transport, protocol code, migration, file server and object
  storage, mail, web hooks, feeds, markdown (over a third-party parser), media metadata and AI clients.
  Handlers, middleware and timers of jobs are not modelled, nor is the HTTP side of a live
  connection.
\<close>

end
